(* ===== verification/Apchi_Prelude.thy ===== *)
theory Apchi_Prelude
  imports Main "HOL-Library.AList" "HOL-Library.Char_ord" "HOL-Library.List_Lexorder"
begin

text \<open>
  Shared vocabulary of the development.

  \<^item> Python dictionaries with string keys: association lists in insertion order
    (\<open>dict\<close>), with \<open>AList.update\<close> as item assignment and \<open>AList.delete\<close> as \<open>del\<close>, both of
    which behave on the order of the keys as Python does; \<open>dict_eq\<close> is Python's \<open>==\<close>, which
    ignores that order; \<open>sorted_set\<close> is \<open>sorted(set(...))\<close>.
  \<^item> Effects: \<open>('w, 'a) io\<close>, a computation over a world that either returns or raises.
    \<open>asyncio.CancelledError\<close> is not an \<open>Exception\<close>, so no handler of the program catches it;
    it also stands for the process dying at that point.
  \<^item> Faults: every call to MongoDB, the Kubernetes API or Trino goes through \<open>external\<close>,
    which consumes one entry of a fault queue. An entry can let the call through, fail it
    before it took effect, or fail it after it took effect (a lost response).
  \<^item> \<open>wp\<close>, a weakest-precondition calculus by simplification, and the locale
    \<open>step_order\<close>, which lifts a relation between worlds through every combinator.
\<close>

named_theorems io_defs \<comment> \<open>definitions of operations that proofs unfold\<close>

section \<open>Strings and sorted sets\<close>

text \<open>\<open>sorted(set(xs))\<close>: Python compares strings by code point; a \<open>char\<close> is a code point below 256.\<close>

definition sorted_set :: "string list \<Rightarrow> string list" where
  "sorted_set xs = sort (remdups xs)"

lemma set_sorted_set [simp]: "set (sorted_set xs) = set xs"
  by (simp add: sorted_set_def)

lemma distinct_sorted_set [simp]: "distinct (sorted_set xs)"
  by (simp add: sorted_set_def)

lemma sorted_sorted_set [simp]: "sorted (sorted_set xs)"
  by (simp add: sorted_set_def)

lemma sorted_set_empty_iff [simp]: "sorted_set xs = [] \<longleftrightarrow> xs = []"
  by (metis set_empty set_sorted_set)

lemma sorted_set_Nil [simp]: "sorted_set [] = []"
  by simp

lemma sorted_set_cong: "set xs = set ys \<Longrightarrow> sorted_set xs = sorted_set ys"
  by (metis distinct_sorted_set set_sorted_set sorted_distinct_set_unique sorted_sorted_set)

lemma filter_sorted_set_cong:
  "set xs = set ys \<Longrightarrow> (\<And>x. x \<in> set xs \<Longrightarrow> P x = Q x) \<Longrightarrow>
     filter P (sorted_set xs) = filter Q (sorted_set ys)"
  by (metis (no_types, lifting) filter_cong set_sorted_set sorted_set_cong)

text \<open>\<open>sep.join(parts)\<close>.\<close>

fun join_with :: "string \<Rightarrow> string list \<Rightarrow> string" where
  "join_with sep [] = []"
| "join_with sep [x] = x"
| "join_with sep (x # xs) = x @ sep @ join_with sep xs"

lemma in_concat_map: "c \<in> set (concat (map f xs)) \<longleftrightarrow> (\<exists>x \<in> set xs. c \<in> set (f x))"
  by simp

lemma bex_fst: "(\<exists>x \<in> set d. P (fst x)) \<longleftrightarrow> (\<exists>k \<in> fst ` set d. P k)"
  by simp

section \<open>Dictionaries\<close>

type_synonym 'v dict = "(string \<times> 'v) list"

abbreviation dict_keys :: "'v dict \<Rightarrow> string list" where
  "dict_keys d \<equiv> map fst d"

abbreviation has_key :: "'v dict \<Rightarrow> string \<Rightarrow> bool" where
  "has_key d k \<equiv> k \<in> set (map fst d)"

text \<open>\<open>d.get(k)\<close> is \<open>map_of d k\<close>; \<open>sorted(d)\<close> is \<open>sorted_keys d\<close>.\<close>

definition sorted_keys :: "'v dict \<Rightarrow> string list" where
  "sorted_keys d = sorted_set (dict_keys d)"

definition dict_eq :: "'v dict \<Rightarrow> 'v dict \<Rightarrow> bool" where
  "dict_eq d e \<longleftrightarrow> list_all (\<lambda>k. map_of d k = map_of e k) (dict_keys d @ dict_keys e)"

definition wf_dict :: "'v dict \<Rightarrow> bool" where
  "wf_dict d \<longleftrightarrow> distinct (dict_keys d)"

lemma set_sorted_keys [simp]: "set (sorted_keys d) = fst ` set d"
  by (simp add: sorted_keys_def)

lemma distinct_sorted_keys [simp]: "distinct (sorted_keys d)"
  by (simp add: sorted_keys_def)

lemma sorted_sorted_keys [simp]: "sorted (sorted_keys d)"
  by (simp add: sorted_keys_def)

lemma sorted_keys_Nil [simp]: "sorted_keys [] = []"
  by (simp add: sorted_keys_def)

lemma sorted_keys_empty_iff [simp]: "sorted_keys d = [] \<longleftrightarrow> d = []"
  by (simp add: sorted_keys_def)

lemma has_key_iff_dom: "has_key d k \<longleftrightarrow> k \<in> dom (map_of d)"
  by (simp add: dom_map_of_conv_image_fst)

lemma map_of_None_iff: "map_of d k = None \<longleftrightarrow> \<not> has_key d k"
  by (simp add: map_of_eq_None_iff)

lemma map_of_Some_has_key: "map_of d k = Some v \<Longrightarrow> has_key d k"
  by (metis map_of_None_iff option.distinct(1))

lemma has_key_obtains:
  assumes "has_key d k"
  obtains v where "map_of d k = Some v"
  using assms by (metis map_of_None_iff option.exhaust)

lemma dict_eq_iff: "dict_eq d e \<longleftrightarrow> map_of d = map_of e"
proof
  assume "dict_eq d e"
  then have "map_of d k = map_of e k" if "has_key d k \<or> has_key e k" for k
    using that by (auto simp: dict_eq_def list_all_iff)
  then show "map_of d = map_of e"
    by (metis (no_types, lifting) ext map_of_None_iff)
qed (simp add: dict_eq_def list_all_iff)

lemma dict_eq_refl [simp]: "dict_eq d d"
  by (simp add: dict_eq_iff)

lemma dict_eq_keys: "dict_eq d e \<Longrightarrow> fst ` set d = fst ` set e"
  by (metis dict_eq_iff dom_map_of_conv_image_fst)

lemma dict_eq_sorted_keys: "dict_eq d e \<Longrightarrow> sorted_keys d = sorted_keys e"
  unfolding sorted_keys_def by (rule sorted_set_cong) (simp add: dict_eq_keys)

lemma wf_dict_update [simp]: "wf_dict d \<Longrightarrow> wf_dict (AList.update k v d)"
  by (simp add: wf_dict_def distinct_update)

lemma wf_dict_delete [simp]: "wf_dict d \<Longrightarrow> wf_dict (AList.delete k d)"
  by (simp add: wf_dict_def distinct_delete)

lemma map_of_upd [simp]: "map_of (AList.update k v d) = (map_of d)(k \<mapsto> v)"
  by (rule update_conv')

lemma map_of_del [simp]: "map_of (AList.delete k d) = (map_of d)(k := None)"
  by (rule delete_conv')

lemma keys_update [simp]: "fst ` set (AList.update k v d) = insert k (fst ` set d)"
  by (metis dom_fun_upd dom_map_of_conv_image_fst map_of_upd option.distinct(1))

lemma keys_delete [simp]: "fst ` set (AList.delete k d) = fst ` set d - {k}"
  by (metis dom_fun_upd dom_map_of_conv_image_fst map_of_del)

text \<open>A comprehension \<open>{name: f(name) for name in sorted(...)}\<close> and how it is read back.\<close>

lemma map_of_comprehension:
  "map_of (map (\<lambda>k. (k, f k)) ks) k = (if k \<in> set ks then Some (f k) else None)"
  by (induction ks) auto

lemma map_of_filter_key:
  "map_of (filter (\<lambda>(k, v). P k) d) k = (if P k then map_of d k else None)"
  by (induction d) (auto split: if_splits)

lemma update_fresh: "\<not> has_key d k \<Longrightarrow> AList.update k v d = d @ [(k, v)]"
  by (induction d) auto

section \<open>Decimal numbers\<close>

text \<open>
  \<open>int(text)\<close> and \<open>str(n)\<close> on the numbers the mark holds: decimal digits, nothing else. (Python
  also reads a sign, surrounding space and underscores, which \<open>str\<close> of a Snapshot number never
  writes.)
\<close>

definition digit :: "nat \<Rightarrow> char" where
  "digit n = char_of (48 + n)"

fun show_nat :: "nat \<Rightarrow> string" where
  "show_nat n = (if n < 10 then [digit n] else show_nat (n div 10) @ [digit (n mod 10)])"

declare show_nat.simps [simp del]

definition digit_value :: "char \<Rightarrow> nat option" where
  "digit_value c = (let n = of_char c :: nat in if 48 \<le> n \<and> n \<le> 57 then Some (n - 48) else None)"

fun read_digits :: "nat \<Rightarrow> string \<Rightarrow> nat option" where
  "read_digits acc [] = Some acc"
| "read_digits acc (c # cs) = (case digit_value c of None \<Rightarrow> None | Some d \<Rightarrow> read_digits (10 * acc + d) cs)"

definition read_nat :: "string \<Rightarrow> nat option" where
  "read_nat s = (if s = [] then None else read_digits 0 s)"

definition show_int :: "int \<Rightarrow> string" where
  "show_int n = (if n < 0 then CHR ''-'' # show_nat (nat (- n)) else show_nat (nat n))"

lemma digit_value_digit [simp]: "n < 10 \<Longrightarrow> digit_value (digit n) = Some n"
  by (simp add: digit_value_def digit_def)

lemma read_digits_append:
  "read_digits acc (xs @ ys) = (case read_digits acc xs of None \<Rightarrow> None | Some a \<Rightarrow> read_digits a ys)"
  by (induction xs arbitrary: acc) (auto split: option.splits)

lemma read_digits_show: "read_digits 0 (show_nat n) = Some n"
proof (induction n rule: show_nat.induct)
  case (1 n)
  then show ?case
    by (subst show_nat.simps) (auto simp: read_digits_append)
qed

lemma show_nat_ne [simp]: "show_nat n \<noteq> []"
  by (subst show_nat.simps) simp

lemma read_show_nat [simp]: "read_nat (show_nat n) = Some n"
  by (simp add: read_nat_def read_digits_show)

section \<open>JSON\<close>

text \<open>What the code stores and renders as JSON where its shape is not a model's.\<close>

datatype json =
    JNull | JBool bool | JNum int | JStr string | JList "json list" | JObj "(string \<times> json) list"

section \<open>Exceptions and effects\<close>

text \<open>A reason a Candidate should not be applied, and its \<open>__str__\<close>.\<close>

record validation_failure =
  vf_section :: "string option"
  vf_resource :: "string option"
  vf_reason :: string

definition non_empty_part :: "string option \<Rightarrow> string list" where
  "non_empty_part p = (case p of None \<Rightarrow> [] | Some s \<Rightarrow> if s = [] then [] else [s])"

definition failure_str :: "validation_failure \<Rightarrow> string" where
  "failure_str v =
     (let place = join_with ''/'' (non_empty_part (vf_section v) @ non_empty_part (vf_resource v))
      in if place = [] then vf_reason v else place @ '': '' @ vf_reason v)"

text \<open>The exception classes the modelled code raises or distinguishes.\<close>

datatype exn_class =
    PyMongoError | DuplicateKeyError | ApiException | TrinoError | RolloutFailed
  | VerificationFailed | PreconditionFailed | NotFound | Conflict
  | NameAlreadyTaken | CandidateTooLarge | MaintenanceModeEngaged | UnprocessablePayload
  | ValueError | KeyError | LookupError | AssertionError | BadCursor
  | DiscoveryFailed | SeedRefused | ParseProblem | ValidationError | Unauthenticated | Forbidden
  | UnknownConnector | OidcError | TypeError | OSError | RuntimeError

text \<open>\<open>ValidationFailed\<close> carries every failure found, the others their message.\<close>

datatype exn = Cancelled | Raised exn_class string | Failed_Validation "validation_failure list"

fun exn_name :: "exn_class \<Rightarrow> string" where
  "exn_name PyMongoError = ''PyMongoError''"
| "exn_name DuplicateKeyError = ''DuplicateKeyError''"
| "exn_name ApiException = ''ApiException''"
| "exn_name TrinoError = ''TrinoError''"
| "exn_name RolloutFailed = ''RolloutFailed''"
| "exn_name VerificationFailed = ''VerificationFailed''"
| "exn_name PreconditionFailed = ''PreconditionFailed''"
| "exn_name NotFound = ''NotFound''"
| "exn_name Conflict = ''Conflict''"
| "exn_name NameAlreadyTaken = ''NameAlreadyTaken''"
| "exn_name CandidateTooLarge = ''CandidateTooLarge''"
| "exn_name MaintenanceModeEngaged = ''MaintenanceModeEngaged''"
| "exn_name UnprocessablePayload = ''UnprocessablePayload''"
| "exn_name ValueError = ''ValueError''"
| "exn_name KeyError = ''KeyError''"
| "exn_name LookupError = ''LookupError''"
| "exn_name AssertionError = ''AssertionError''"
| "exn_name BadCursor = ''BadCursor''"
| "exn_name DiscoveryFailed = ''DiscoveryFailed''"
| "exn_name SeedRefused = ''SeedRefused''"
| "exn_name ParseProblem = ''ParseProblem''"
| "exn_name ValidationError = ''ValidationError''"
| "exn_name Unauthenticated = ''Unauthenticated''"
| "exn_name Forbidden = ''Forbidden''"
| "exn_name UnknownConnector = ''UnknownConnector''"
| "exn_name OidcError = ''OidcError''"
| "exn_name TypeError = ''TypeError''"
| "exn_name OSError = ''OSError''"
| "exn_name RuntimeError = ''RuntimeError''"

text \<open>\<open>except Exception\<close> and \<open>except PyMongoError\<close> (of which \<open>DuplicateKeyError\<close> is a subclass).\<close>

definition is_exception :: "exn \<Rightarrow> bool" where
  "is_exception e \<longleftrightarrow> e \<noteq> Cancelled"

fun is_pymongo :: "exn \<Rightarrow> bool" where
  "is_pymongo (Raised PyMongoError _) = True"
| "is_pymongo (Raised DuplicateKeyError _) = True"
| "is_pymongo _ = False"

text \<open>\<open>str(exc)\<close> and \<open>type(exc).__name__\<close>.\<close>

fun exn_message :: "exn \<Rightarrow> string" where
  "exn_message Cancelled = []"
| "exn_message (Raised c m) = m"
| "exn_message (Failed_Validation fs) = join_with ''; '' (map failure_str fs)"

fun exn_type_name :: "exn \<Rightarrow> string" where
  "exn_type_name Cancelled = ''CancelledError''"
| "exn_type_name (Raised c m) = exn_name c"
| "exn_type_name (Failed_Validation fs) = ''ValidationFailed''"

type_synonym ('w, 'a) io = "'w \<Rightarrow> (exn + 'a) \<times> 'w"

definition ret :: "'a \<Rightarrow> ('w, 'a) io" where
  "ret a = (\<lambda>w. (Inr a, w))"

definition raise_io :: "exn \<Rightarrow> ('w, 'a) io" where
  "raise_io e = (\<lambda>w. (Inl e, w))"

definition bind_io :: "('w, 'a) io \<Rightarrow> ('a \<Rightarrow> ('w, 'b) io) \<Rightarrow> ('w, 'b) io" where
  "bind_io m f = (\<lambda>w. case m w of (Inl e, w') \<Rightarrow> (Inl e, w') | (Inr a, w') \<Rightarrow> f a w')"

definition then_io :: "('w, 'a) io \<Rightarrow> ('w, 'b) io \<Rightarrow> ('w, 'b) io" where
  "then_io m n = bind_io m (\<lambda>_. n)"

text \<open>\<open>try: m except <p> as exc: h exc\<close>.\<close>

definition try_io :: "(exn \<Rightarrow> bool) \<Rightarrow> ('w, 'a) io \<Rightarrow> (exn \<Rightarrow> ('w, 'a) io) \<Rightarrow> ('w, 'a) io" where
  "try_io p m h = (\<lambda>w. case m w of
      (Inl e, w') \<Rightarrow> if p e then h e w' else (Inl e, w')
    | (Inr a, w') \<Rightarrow> (Inr a, w'))"

text \<open>\<open>try: m except <p> as exc: h exc else: k\<close>: an exception of \<open>k\<close> is not caught.\<close>

definition try_else_io ::
  "(exn \<Rightarrow> bool) \<Rightarrow> ('w, 'a) io \<Rightarrow> (exn \<Rightarrow> ('w, 'b) io) \<Rightarrow> ('a \<Rightarrow> ('w, 'b) io) \<Rightarrow> ('w, 'b) io" where
  "try_else_io p m h k = (\<lambda>w. case m w of
      (Inl e, w') \<Rightarrow> if p e then h e w' else (Inl e, w')
    | (Inr a, w') \<Rightarrow> k a w')"

text \<open>\<open>try: m finally: f\<close>: an exception of \<open>f\<close> replaces whatever \<open>m\<close> ended with.\<close>

definition finally_io :: "('w, 'a) io \<Rightarrow> ('w, unit) io \<Rightarrow> ('w, 'a) io" where
  "finally_io m f = (\<lambda>w. case m w of (res, w') \<Rightarrow> (case f w' of
      (Inl e, w'') \<Rightarrow> (Inl e, w'') | (Inr _, w'') \<Rightarrow> (res, w'')))"

definition asks :: "('w \<Rightarrow> 'a) \<Rightarrow> ('w, 'a) io" where
  "asks f = (\<lambda>w. (Inr (f w), w))"

definition modify_io :: "('w \<Rightarrow> 'w) \<Rightarrow> ('w, unit) io" where
  "modify_io f = (\<lambda>w. (Inr (), f w))"

fun for_io :: "('a \<Rightarrow> ('w, unit) io) \<Rightarrow> 'a list \<Rightarrow> ('w, unit) io" where
  "for_io f [] = ret ()"
| "for_io f (x # xs) = then_io (f x) (for_io f xs)"

text \<open>A comprehension with awaits in it: the results, in order.\<close>

fun collect_io :: "('a \<Rightarrow> ('w, 'b) io) \<Rightarrow> 'a list \<Rightarrow> ('w, 'b list) io" where
  "collect_io f [] = ret []"
| "collect_io f (x # xs) = bind_io (f x) (\<lambda>y. bind_io (collect_io f xs) (\<lambda>ys. ret (y # ys)))"

abbreviation when_io :: "bool \<Rightarrow> ('w, unit) io \<Rightarrow> ('w, unit) io" where
  "when_io b m \<equiv> (if b then m else ret ())"

subsection \<open>Weakest preconditions by simplification\<close>

definition wp :: "('w, 'a) io \<Rightarrow> ('a \<Rightarrow> 'w \<Rightarrow> bool) \<Rightarrow> (exn \<Rightarrow> 'w \<Rightarrow> bool) \<Rightarrow> 'w \<Rightarrow> bool" where
  "wp m Q E w = (case m w of (Inl e, w') \<Rightarrow> E e w' | (Inr a, w') \<Rightarrow> Q a w')"

lemma wp_ret [simp]: "wp (ret a) Q E w = Q a w"
  by (simp add: wp_def ret_def)

lemma wp_raise [simp]: "wp (raise_io e) Q E w = E e w"
  by (simp add: wp_def raise_io_def)

lemma wp_bind [simp]: "wp (bind_io m f) Q E w = wp m (\<lambda>a. wp (f a) Q E) E w"
  by (simp add: wp_def bind_io_def split: sum.splits prod.splits)

lemma wp_then [simp]: "wp (then_io m n) Q E w = wp m (\<lambda>_. wp n Q E) E w"
  by (simp add: then_io_def)

lemma wp_try [simp]:
  "wp (try_io p m h) Q E w = wp m Q (\<lambda>e w'. if p e then wp (h e) Q E w' else E e w') w"
  by (simp add: wp_def try_io_def split: sum.splits prod.splits)

lemma wp_try_else [simp]:
  "wp (try_else_io p m h k) Q E w =
     wp m (\<lambda>a. wp (k a) Q E) (\<lambda>e w'. if p e then wp (h e) Q E w' else E e w') w"
  by (simp add: wp_def try_else_io_def split: sum.splits prod.splits)

lemma wp_finally [simp]:
  "wp (finally_io m f) Q E w = wp m (\<lambda>a. wp f (\<lambda>_. Q a) E) (\<lambda>e. wp f (\<lambda>_. E e) E) w"
  by (cases "m w"; cases "fst (m w)") (simp_all add: wp_def finally_io_def split: sum.split prod.split)

lemma wp_asks [simp]: "wp (asks f) Q E w = Q (f w) w"
  by (simp add: wp_def asks_def)

lemma wp_modify [simp]: "wp (modify_io f) Q E w = Q () (f w)"
  by (simp add: wp_def modify_io_def)

lemma wp_if [simp]: "wp (if b then m else n) Q E w = (if b then wp m Q E w else wp n Q E w)"
  by simp

lemma wp_mono:
  "wp m Q E w \<Longrightarrow> (\<And>a w'. Q a w' \<Longrightarrow> Q' a w') \<Longrightarrow> (\<And>e w'. E e w' \<Longrightarrow> E' e w') \<Longrightarrow> wp m Q' E' w"
  by (auto simp: wp_def split: sum.splits prod.splits)

lemma wp_conj:
  "wp m Q E w \<Longrightarrow> wp m Q' E' w \<Longrightarrow>
     wp m (\<lambda>a w'. Q a w' \<and> Q' a w') (\<lambda>e w'. E e w' \<and> E' e w') w"
  by (auto simp: wp_def split: sum.splits prod.splits)

lemma wp_for:
  assumes "I xs w"
    and "\<And>x ys w. I (x # ys) w \<Longrightarrow> x \<in> set xs \<Longrightarrow> wp (f x) (\<lambda>_. I ys) E w"
  shows "wp (for_io f xs) (\<lambda>_. I []) E w"
  using assms
proof (induction xs arbitrary: w)
  case (Cons x xs)
  from Cons.prems have "wp (f x) (\<lambda>_. I xs) E w" by simp
  then show ?case
    by (auto elim!: wp_mono intro!: Cons.IH Cons.prems(2))
qed simp

lemma wp_result:
  "wp m Q E w \<longleftrightarrow> (\<forall>a w'. m w = (Inr a, w') \<longrightarrow> Q a w') \<and> (\<forall>e w'. m w = (Inl e, w') \<longrightarrow> E e w')"
  by (auto simp: wp_def split: sum.splits prod.splits)

lemma wp_ignore: "(\<And>a w'. Q a w') \<Longrightarrow> (\<And>e w'. E e w') \<Longrightarrow> wp m Q E w"
  by (simp add: wp_result)

lemma wp_world: "wp m (\<lambda>_. P) (\<lambda>_. P) w \<longleftrightarrow> P (snd (m w))"
  by (auto simp: wp_def split: sum.splits prod.splits)

text \<open>From a precondition back to the outcome.\<close>

lemma wp_raises: "wp m (\<lambda>_ _. False) (\<lambda>e v. e = x \<and> v = w') w \<Longrightarrow> m w = (Inl x, w')"
  by (cases "m w") (simp add: wp_def split: sum.splits)

lemma wp_returns: "wp m (\<lambda>a v. a = x \<and> v = w') (\<lambda>_ _. False) w \<Longrightarrow> m w = (Inr x, w')"
  by (cases "m w") (simp add: wp_def split: sum.splits)

subsection \<open>Relations between worlds that every combinator keeps\<close>

definition within :: "('w \<Rightarrow> 'w \<Rightarrow> bool) \<Rightarrow> ('w, 'a) io \<Rightarrow> bool" where
  "within R m \<longleftrightarrow> (\<forall>w. R w (snd (m w)))"

lemma withinD: "within R m \<Longrightarrow> R w (snd (m w))"
  by (simp add: within_def)

lemma within_wp: "within R m \<longleftrightarrow> (\<forall>w. wp m (\<lambda>_. R w) (\<lambda>_. R w) w)"
  by (simp add: within_def wp_world)

lemma wp_within:
  assumes "within R m" and "\<And>a w'. R w w' \<Longrightarrow> Q a w'" and "\<And>e w'. R w w' \<Longrightarrow> E e w'"
  shows "wp m Q E w"
  using withinD [OF assms(1), of w] assms(2,3) by (auto simp: wp_def split: sum.splits prod.splits)

lemma wp_within_and:
  "within R m \<Longrightarrow> wp m Q E w \<Longrightarrow> wp m (\<lambda>a w'. R w w' \<and> Q a w') (\<lambda>e w'. R w w' \<and> E e w') w"
  by (rule wp_conj [OF wp_within]) auto

locale step_order =
  fixes R :: "'w \<Rightarrow> 'w \<Rightarrow> bool"
  assumes step_refl: "R w w"
    and step_trans: "R u v \<Longrightarrow> R v w \<Longrightarrow> R u w"
begin

lemma within_ret [intro!]: "within R (ret a)"
  by (simp add: within_def ret_def step_refl)

lemma within_raise [intro!]: "within R (raise_io e)"
  by (simp add: within_def raise_io_def step_refl)

lemma within_asks [intro!]: "within R (asks f)"
  by (simp add: within_def asks_def step_refl)

lemma within_bind [intro!]:
  assumes "within R m" and "\<And>a. within R (f a)"
  shows "within R (bind_io m f)"
  unfolding within_def
proof
  fix w
  show "R w (snd (bind_io m f w))"
    using withinD [OF assms(1), of w] withinD [OF assms(2)]
    by (auto simp: bind_io_def split: sum.splits prod.splits) (metis snd_conv step_trans)
qed

lemma within_then [intro!]: "within R m \<Longrightarrow> within R n \<Longrightarrow> within R (then_io m n)"
  unfolding then_io_def by (rule within_bind)

lemma within_try [intro!]:
  assumes "within R m" and "\<And>e. p e \<Longrightarrow> within R (h e)"
  shows "within R (try_io p m h)"
  unfolding within_def
proof
  fix w
  show "R w (snd (try_io p m h w))"
    using withinD [OF assms(1), of w] withinD [OF assms(2)]
    by (auto simp: try_io_def split: sum.splits prod.splits) (metis snd_conv step_trans)
qed

lemma within_try_else [intro!]:
  assumes "within R m" and "\<And>e. p e \<Longrightarrow> within R (h e)" and "\<And>a. within R (k a)"
  shows "within R (try_else_io p m h k)"
  unfolding within_def
proof
  fix w
  show "R w (snd (try_else_io p m h k w))"
    using withinD [OF assms(1), of w] withinD [OF assms(2)] withinD [OF assms(3)]
    by (auto simp: try_else_io_def split: sum.splits prod.splits) (metis snd_conv step_trans)+
qed

lemma within_finally [intro!]:
  assumes "within R m" and "within R f"
  shows "within R (finally_io m f)"
  unfolding within_def
proof
  fix w
  show "R w (snd (finally_io m f w))"
    using withinD [OF assms(1), of w] withinD [OF assms(2), of "snd (m w)"]
    by (auto simp: finally_io_def split: sum.splits prod.splits dest: step_trans)
qed

lemma within_for [intro!]: "(\<And>x. x \<in> set xs \<Longrightarrow> within R (f x)) \<Longrightarrow> within R (for_io f xs)"
  by (induction xs) auto

lemma within_collect [intro!]:
  "(\<And>x. x \<in> set xs \<Longrightarrow> within R (f x)) \<Longrightarrow> within R (collect_io f xs)"
  by (induction xs) auto

lemma within_if [intro!]: "within R m \<Longrightarrow> within R n \<Longrightarrow> within R (if b then m else n)"
  by simp

end

subsection \<open>Faults of external calls\<close>

datatype fault = Fine | Fail_before exn | Fail_after exn

text \<open>
  One call to a service: \<open>q\<close> reads the service's queue of faults, \<open>setq\<close> replaces it. An
  empty queue is a healthy service.
\<close>

definition external ::
  "('w \<Rightarrow> fault list) \<Rightarrow> (fault list \<Rightarrow> 'w \<Rightarrow> 'w) \<Rightarrow> ('w, 'a) io \<Rightarrow> ('w, 'a) io" where
  "external q setq m = (\<lambda>w. case q w of
      [] \<Rightarrow> m w
    | Fine # fs \<Rightarrow> m (setq fs w)
    | Fail_before e # fs \<Rightarrow> (Inl e, setq fs w)
    | Fail_after e # fs \<Rightarrow> (Inl e, snd (m (setq fs w))))"

lemma wp_external:
  "wp (external q setq m) Q E w = (case q w of
      [] \<Rightarrow> wp m Q E w
    | Fine # fs \<Rightarrow> wp m Q E (setq fs w)
    | Fail_before e # fs \<Rightarrow> E e (setq fs w)
    | Fail_after e # fs \<Rightarrow> E e (snd (m (setq fs w))))"
  by (simp add: wp_def external_def split: list.splits fault.splits)

lemma wp_external_healthy [simp]:
  "q w = [] \<Longrightarrow> wp (external q setq m) Q E w = wp m Q E w"
  by (simp add: wp_external)

end
