(* ===== verification/Section_Base.thy ===== *)
theory Section_Base
  imports Apchi_Prelude
begin

text \<open>
  The vocabulary every Section and the pipeline share (\<open>app/sections/__init__.py\<close>,
  \<open>registry.py\<close>, \<open>base.py\<close>): the six Section names in registration order, a Section's
  resources, and the reasons a Candidate is refused. Resources are a dictionary from resource
  name to a value of a type \<open>'r\<close> that the pipeline never looks inside.
\<close>

type_synonym section_name = string
type_synonym 'r resources = "'r dict"
type_synonym 'r sections = "'r resources dict"

definition CATALOGS :: section_name where "CATALOGS = ''catalogs''"
definition CLIENT_CERTIFICATES :: section_name where "CLIENT_CERTIFICATES = ''client_certificates''"
definition CERTIFICATE_MAPPING :: section_name where "CERTIFICATE_MAPPING = ''certificate_mapping''"
definition PERMISSIONS :: section_name where "PERMISSIONS = ''permissions''"
definition RESOURCE_GROUPS :: section_name where "RESOURCE_GROUPS = ''resource_groups''"
definition EVENT_LISTENERS :: section_name where "EVENT_LISTENERS = ''event_listeners''"

lemmas section_name_defs = CATALOGS_def CLIENT_CERTIFICATES_def CERTIFICATE_MAPPING_def
  PERMISSIONS_def RESOURCE_GROUPS_def EVENT_LISTENERS_def

text \<open>\<open>SECTIONS\<close>: the names of \<open>REGISTERED\<close>, in registration order.\<close>

definition SECTIONS :: "section_name list" where
  "SECTIONS = [CATALOGS, CLIENT_CERTIFICATES, CERTIFICATE_MAPPING, EVENT_LISTENERS, PERMISSIONS,
     RESOURCE_GROUPS]"

lemma distinct_SECTIONS [simp]: "distinct SECTIONS"
  by (simp add: SECTIONS_def section_name_defs)

text \<open>\<open>sections.get(name, {})\<close>.\<close>

definition sec_get :: "'r sections \<Rightarrow> section_name \<Rightarrow> 'r resources" where
  "sec_get ss name = (case map_of ss name of None \<Rightarrow> [] | Some r \<Rightarrow> r)"

text \<open>\<open>{name: sections.get(name, {}) for name in SECTIONS}\<close>: every registered Section, present or not.\<close>

definition all_sections :: "'r sections \<Rightarrow> 'r sections" where
  "all_sections ss = map (\<lambda>name. (name, sec_get ss name)) SECTIONS"

lemma sec_get_all_sections [simp]:
  "sec_get (all_sections ss) name = (if name \<in> set SECTIONS then sec_get ss name else [])"
  unfolding sec_get_def [of "all_sections ss"]
  unfolding all_sections_def map_of_comprehension by simp

lemma all_sections_idem [simp]: "all_sections (all_sections ss) = all_sections ss"
  unfolding all_sections_def by (rule map_cong) (simp_all flip: all_sections_def)

lemma dict_keys_all_sections [simp]: "map fst (all_sections ss) = SECTIONS"
  by (simp add: all_sections_def comp_def)

text \<open>
  One read of every resource of a Section, in name order, with every problem kept
  (\<open>unreadable_each\<close>). \<open>read\<close> is the Section's own reader; its result is what
  \<open>unreadable\<close> makes of the exception it raised, if any.
\<close>

definition unreadable_each ::
  "'r resources \<Rightarrow> (string \<Rightarrow> validation_failure option) \<Rightarrow> validation_failure list" where
  "unreadable_each resources unreadable =
     concat (map (\<lambda>name. case unreadable name of None \<Rightarrow> [] | Some p \<Rightarrow> [p]) (sorted_keys resources))"

lemma unreadable_each_complete:
  "p \<in> set (unreadable_each resources u) \<longleftrightarrow> (\<exists>name. has_key resources name \<and> u name = Some p)"
  by (force simp: unreadable_each_def split: option.splits)

lemma unreadable_each_empty:
  "unreadable_each resources u = [] \<longleftrightarrow> (\<forall>name. has_key resources name \<longrightarrow> u name = None)"
  by (auto simp: unreadable_each_def split: option.splits)

section \<open>Which resources moved\<close>

text \<open>The plan of the Sections that are one file each: names only, in order. \<open>same\<close> is the resource's \<open>==\<close>.\<close>

record named_plan =
  np_added :: "string list"
  np_changed :: "string list"
  np_removed :: "string list"

definition named_plan_empty :: "named_plan \<Rightarrow> bool" where
  "named_plan_empty p \<longleftrightarrow> np_added p = [] \<and> np_changed p = [] \<and> np_removed p = []"

definition moved_in :: "('r \<Rightarrow> 'r \<Rightarrow> bool) \<Rightarrow> 'r resources \<Rightarrow> 'r resources \<Rightarrow> string \<Rightarrow> bool" where
  "moved_in same desired current n = (case (map_of desired n, map_of current n) of
      (Some d, Some c) \<Rightarrow> \<not> same d c | _ \<Rightarrow> False)"

definition named_diff :: "('r \<Rightarrow> 'r \<Rightarrow> bool) \<Rightarrow> 'r resources \<Rightarrow> 'r resources \<Rightarrow> named_plan" where
  "named_diff same desired current = \<lparr>
     np_added = filter (\<lambda>n. \<not> has_key current n) (sorted_keys desired),
     np_changed = filter (moved_in same desired current) (sorted_keys desired),
     np_removed = filter (\<lambda>n. \<not> has_key desired n) (sorted_keys current)\<rparr>"

text \<open>The plan is empty exactly when the two sides have the same resources.\<close>

lemma named_plan_empty_iff:
  "named_plan_empty (named_diff same desired current) \<longleftrightarrow> (\<forall>n. case (map_of desired n, map_of current n) of
     (None, None) \<Rightarrow> True | (Some d, Some c) \<Rightarrow> same d c | _ \<Rightarrow> False)"
proof -
  have "(n \<notin> set (np_added (named_diff same desired current)) \<and> n \<notin> set (np_changed (named_diff same desired current))
      \<and> n \<notin> set (np_removed (named_diff same desired current))) \<longleftrightarrow> (case (map_of desired n, map_of current n) of
     (None, None) \<Rightarrow> True | (Some d, Some c) \<Rightarrow> same d c | _ \<Rightarrow> False)" for n
    using map_of_eq_None_iff [of desired n] map_of_eq_None_iff [of current n]
    by (cases "map_of desired n"; cases "map_of current n") (simp_all add: named_diff_def moved_in_def)
  then show ?thesis
    unfolding named_plan_empty_def by (metis (no_types, lifting) list.set_intros(1) neq_Nil_conv empty_iff empty_set)
qed

end
