(* ===== verification/Pages.thy ===== *)
theory Pages
  imports Apchi_Prelude "HOL-Library.Product_Lexorder"
begin

text \<open>
  Keyset pagination (\<open>app/api/pages.py\<close>): \<open>bounded\<close>, the keyset predicate \<open>after\<close> and the page a
  store cuts out of a collection, newest first. The locale \<open>keyset\<close> is the contract of a
  paginated collection: every row has its own sort key. Inside it, following \<open>next\<close> from the
  first page is shown to list the whole collection, every row once, newest first. A collection
  whose cursor and whose stored field are of different types has one page only.
\<close>

definition MAX_LIMIT :: int where "MAX_LIMIT = 500"

definition DEFAULT_LIMIT :: int where "DEFAULT_LIMIT = 50"

definition bounded :: "int \<Rightarrow> int" where
  "bounded limit = max 1 (min limit MAX_LIMIT)"

lemma bounded_range: "1 \<le> bounded limit \<and> bounded limit \<le> MAX_LIMIT"
  by (simp add: bounded_def MAX_LIMIT_def)

lemma bounded_pos: "1 \<le> nat (bounded limit)"
  using bounded_range [of limit] by linarith

text \<open>
  \<open>{"$or": [{field: {"$lt": value}}, {field: value, "_id": {"$lt": identifier}}]}\<close>, as the
  predicate MongoDB evaluates on a row with that \<open>field\<close> and \<open>_id\<close>.
\<close>

definition after :: "'k::linorder \<Rightarrow> 'i::linorder \<Rightarrow> 'k \<times> 'i \<Rightarrow> bool" where
  "after v ident row \<longleftrightarrow> fst row < v \<or> fst row = v \<and> snd row < ident"

text \<open>MongoDB has no tuple comparison; the disjunction is the lexicographic one.\<close>

lemma after_lex: "after v ident row \<longleftrightarrow> row < (v, ident)"
  by (cases row) (auto simp: after_def less_prod_def)

text \<open>
  One page: \<open>find(query).sort(key, -1).limit(limit + 1)\<close>, the first \<open>limit\<close> rows of it, and a
  cursor naming the last of them when there was one row more. \<open>below k r\<close> is the keyset
  predicate of the cursor \<open>k\<close> on the row \<open>r\<close>.
\<close>

definition page_where ::
  "('k \<Rightarrow> 'a \<Rightarrow> bool) \<Rightarrow> ('a \<Rightarrow> 'k::linorder) \<Rightarrow> int \<Rightarrow> 'k option \<Rightarrow> 'a list \<Rightarrow> 'a list \<times> 'k option" where
  "page_where below key limit before rows =
     (let n = nat (bounded limit);
          query = (case before of None \<Rightarrow> rows | Some k \<Rightarrow> filter (below k) rows);
          documents = take (n + 1) (rev (sort_key key query));
          items = take n documents;
          more = n < length documents
      in (items, if more \<and> items \<noteq> [] then Some (key (last items)) else None))"

text \<open>A collection whose stored field and whose cursor are of one type.\<close>

definition page_of ::
  "('a \<Rightarrow> 'k::linorder) \<Rightarrow> int \<Rightarrow> 'k option \<Rightarrow> 'a list \<Rightarrow> 'a list \<times> 'k option" where
  "page_of key = page_where (\<lambda>k r. key r < k) key"

text \<open>
  An instant as MongoDB holds it: the ISO text \<open>model_dump(mode="json")\<close> stores, or a date. A
  query compares a field with an operand of the same type only; an operand of the other type
  matches nothing. The text of UTC instants sorts as they do.
\<close>

datatype instant = As_text nat | As_date nat

fun instant_less :: "instant \<Rightarrow> instant \<Rightarrow> bool" where
  "instant_less (As_text a) (As_text b) = (a < b)"
| "instant_less (As_date a) (As_date b) = (a < b)"
| "instant_less _ _ = False"

definition after_instant :: "instant \<Rightarrow> 'i::linorder \<Rightarrow> instant \<times> 'i \<Rightarrow> bool" where
  "after_instant v ident row \<longleftrightarrow> instant_less (fst row) v \<or> fst row = v \<and> snd row < ident"

text \<open>The instant is stored as text and the cursor is read into a date (\<open>datetime.fromisoformat\<close>).\<close>

definition below_date :: "('a \<Rightarrow> nat \<times> 'i::linorder) \<Rightarrow> nat \<times> 'i \<Rightarrow> 'a \<Rightarrow> bool" where
  "below_date key k r \<longleftrightarrow> after_instant (As_date (fst k)) (snd k) (As_text (fst (key r)), snd (key r))"

definition page_of_texts ::
  "('a \<Rightarrow> nat \<times> 'i::linorder) \<Rightarrow> int \<Rightarrow> (nat \<times> 'i) option \<Rightarrow> 'a list \<Rightarrow> 'a list \<times> (nat \<times> 'i) option" where
  "page_of_texts key = page_where (below_date key) key"

text \<open>A client that follows \<open>next\<close> until it is null, for at most \<open>fuel\<close> pages.\<close>

fun walk :: "('k option \<Rightarrow> 'a list \<times> 'k option) \<Rightarrow> nat \<Rightarrow> 'k option \<Rightarrow> 'a list option" where
  "walk page 0 before = None"
| "walk page (Suc fuel) before =
     (case page before of
        (items, None) \<Rightarrow> Some items
      | (items, Some k) \<Rightarrow> map_option ((@) items) (walk page fuel (Some k)))"

text \<open>Nothing is below a date where texts are stored, so every page but the first is empty.\<close>

lemma page_of_texts_rest: "page_of_texts key limit (Some k) rows = ([], None)"
  by (simp add: page_of_texts_def page_where_def Let_def below_date_def after_instant_def)

lemma walk_texts:
  "walk (\<lambda>b. page_of_texts key limit b rows) (Suc (Suc fuel)) None
     = Some (take (nat (bounded limit)) (rev (sort_key key rows)))"
proof -
  let ?p = "page_of_texts key limit None rows"
  have first: "fst ?p = take (nat (bounded limit)) (rev (sort_key key rows))"
    by (simp add: page_of_texts_def page_where_def Let_def min_def)
  show ?thesis
    by (cases ?p; cases "snd ?p") (use first in \<open>auto simp: page_of_texts_rest\<close>)
qed

locale keyset =
  fixes key :: "'a \<Rightarrow> 'k::linorder" and collection :: "'a list \<Rightarrow> bool"
  assumes key_unique: "collection rows \<Longrightarrow> distinct (map key rows)"
begin

abbreviation newest_first :: "'a list \<Rightarrow> 'a list" where
  "newest_first rows \<equiv> rev (sort_key key rows)"

lemma newest_first_sorted: "sorted_wrt (\<lambda>a b. key b \<le> key a) (newest_first rows)"
  using sorted_sort_key [of key rows] by (simp add: sorted_wrt_rev sorted_map)

lemma newest_first_strict:
  assumes "collection rows"
  shows "sorted_wrt (\<lambda>a b. key b < key a) (newest_first rows)"
proof -
  have "distinct (map key (sort_key key rows))"
    using key_unique [OF assms] by (simp add: distinct_map inj_on_def)
  moreover have "sorted (map key (sort_key key rows))" by simp
  ultimately have "sorted_wrt (<) (map key (sort_key key rows))"
    by (simp add: strict_sorted_iff)
  then show ?thesis by (simp add: sorted_wrt_rev sorted_wrt_map)
qed

lemma strict_prefix_filter:
  assumes "sorted_wrt (\<lambda>a b. key b < key a) (xs @ y # zs)"
  shows "filter (\<lambda>r. key r < key y) (xs @ y # zs) = zs"
  using assms by (auto simp: sorted_wrt_append filter_empty_conv filter_id_conv
      dest: order_less_asym)

lemma rest_of_page:
  assumes "collection rows" and split: "newest_first rows = xs @ y # zs"
  shows "newest_first (filter (\<lambda>r. key r < key y) rows) = zs"
proof -
  have "newest_first (filter (\<lambda>r. key r < key y) rows) =
        filter (\<lambda>r. key r < key y) (newest_first rows)"
    by (simp only: filter_sort [symmetric] rev_filter)
  also have "\<dots> = zs"
    using newest_first_strict [OF assms(1)] by (simp only: split strict_prefix_filter)
  finally show ?thesis .
qed

lemma page_of_rest:
  assumes rows: "collection rows"
    and before: "case before of None \<Rightarrow> xs = [] | Some k \<Rightarrow> xs \<noteq> [] \<and> k = key (last xs)"
    and split: "newest_first rows = xs @ zs"
  shows "page_of key limit before rows =
    (take (nat (bounded limit)) zs,
     if nat (bounded limit) < length zs
     then Some (key (last (take (nat (bounded limit)) zs))) else None)"
proof -
  have rest: "newest_first (case before of None \<Rightarrow> rows
      | Some k \<Rightarrow> filter (\<lambda>r. key r < k) rows) = zs"
  proof (cases before)
    case None
    with before split show ?thesis by simp
  next
    case (Some k)
    with before have "newest_first rows = butlast xs @ last xs # zs" and k: "k = key (last xs)"
      using split by (simp_all add: append_butlast_last_id [symmetric])
    from rest_of_page [OF rows this(1)] show ?thesis by (simp only: Some k option.case)
  qed
  define n where "n = nat (bounded limit)"
  have n: "1 \<le> n" using bounded_pos [of limit] by (simp add: n_def)
  have more: "n < length (take (n + 1) zs) \<longleftrightarrow> n < length zs" by auto
  have "take n (take (n + 1) zs) = take n zs" by (simp add: min_def)
  moreover have "take n zs \<noteq> []" if "n < length zs" using that n by auto
  ultimately show ?thesis
    unfolding page_of_def page_where_def Let_def rest n_def [symmetric] more by (simp cong: if_cong)
qed

text \<open>Following the cursors lists the collection: nothing skipped, nothing repeated.\<close>

lemma walk_rest:
  assumes rows: "collection rows"
    and before: "case before of None \<Rightarrow> xs = [] | Some k \<Rightarrow> xs \<noteq> [] \<and> k = key (last xs)"
    and split: "newest_first rows = xs @ zs" and fuel: "length zs < fuel"
  shows "walk (\<lambda>b. page_of key limit b rows) fuel before = Some zs"
  using before split fuel
proof (induction fuel arbitrary: before xs zs)
  case (Suc fuel)
  define n where "n = nat (bounded limit)"
  have n: "1 \<le> n" using bounded_pos [of limit] by (simp add: n_def)
  note page = page_of_rest [OF rows Suc.prems(1,2), of limit, folded n_def]
  show ?case
  proof (cases "n < length zs")
    case False
    then show ?thesis by (simp add: page)
  next
    case True
    with n have ne: "take n zs \<noteq> []" by auto
    have "walk (\<lambda>b. page_of key limit b rows) fuel (Some (key (last (take n zs)))) = Some (drop n zs)"
    proof (rule Suc.IH)
      show "newest_first rows = (xs @ take n zs) @ drop n zs"
        using Suc.prems(2) by simp
      show "case Some (key (last (take n zs))) of None \<Rightarrow> xs @ take n zs = []
          | Some k \<Rightarrow> xs @ take n zs \<noteq> [] \<and> k = key (last (xs @ take n zs))"
        using ne by simp
      show "length (drop n zs) < fuel" using Suc.prems(3) n True by simp
    qed
    with True show ?thesis by (simp add: page)
  qed
qed simp

lemma walk_lists_collection:
  "collection rows \<Longrightarrow> walk (\<lambda>b. page_of key limit b rows) (Suc (length rows)) None = Some (newest_first rows)"
  by (rule walk_rest [where xs = "[]"]) simp_all

lemma page_size: "length (fst (page_of key limit before rows)) \<le> nat MAX_LIMIT"
  using bounded_range [of limit] by (auto simp: page_of_def page_where_def Let_def)

end

end
