(* ===== verification/Apply_Store.thy ===== *)
theory Apply_Store
  imports Section_Base Pages
begin

text \<open>
  The Apply as a durable record (\<open>app/pipeline/applies.py\<close>, \<open>Stage\<close> to \<open>ApplyStore\<close>): the
  stages, the record with its full stage history, and the store's operations as functions on
  the collection. \<open>datetime\<close> values are instants, natural numbers read from the clock.
\<close>

section \<open>Stages\<close>

datatype stage =
    VALIDATING | APPLYING | ROLLING_OUT | VERIFYING | COMMITTING
  | ROLLING_BACK | SUCCEEDED | FAILED | INCIDENT

definition TERMINAL :: "stage list" where
  "TERMINAL = [SUCCEEDED, FAILED, INCIDENT]"

definition PIPELINE :: "stage list" where
  "PIPELINE = [VALIDATING, APPLYING, ROLLING_OUT, VERIFYING, COMMITTING]"

definition ROLLED_BACK_FROM :: "stage list" where
  "ROLLED_BACK_FROM = [APPLYING, ROLLING_OUT, VERIFYING]"

fun stage_value :: "stage \<Rightarrow> string" where
  "stage_value VALIDATING = ''validating''"
| "stage_value APPLYING = ''applying''"
| "stage_value ROLLING_OUT = ''rolling_out''"
| "stage_value VERIFYING = ''verifying''"
| "stage_value COMMITTING = ''committing''"
| "stage_value ROLLING_BACK = ''rolling_back''"
| "stage_value SUCCEEDED = ''succeeded''"
| "stage_value FAILED = ''failed''"
| "stage_value INCIDENT = ''incident''"

datatype rollback = Rollback_Succeeded | Rollback_Failed

lemmas stage_sets = TERMINAL_def PIPELINE_def ROLLED_BACK_FROM_def

section \<open>The record\<close>

record stage_event =
  ev_stage :: stage
  ev_at :: nat
  ev_detail :: "string option"

record apply_record =
  ap_id :: string
  ap_stage :: stage
  ap_history :: "stage_event list"
  ap_failure_reason :: "string option"
  ap_interrupted :: bool
  ap_rollback :: "rollback option"
  ap_operator_message :: "string option"
  ap_warnings :: "validation_failure list"
  ap_base_snapshot :: "int option"
  ap_snapshot :: "int option"
  ap_started_at :: nat
  ap_finished_at :: "nat option"

definition rolled_out :: "apply_record \<Rightarrow> bool" where
  "rolled_out r = list_ex (\<lambda>ev. ev_stage ev = ROLLING_OUT) (ap_history r)"

definition record_in_flight :: "apply_record \<Rightarrow> bool" where
  "record_in_flight r \<longleftrightarrow> ap_stage r \<notin> set TERMINAL"

section \<open>The store\<close>

type_synonym applies = "apply_record list"

definition new_record :: "string \<Rightarrow> nat \<Rightarrow> int option \<Rightarrow> apply_record" where
  "new_record ident now base =
     \<lparr>ap_id = ident, ap_stage = VALIDATING,
      ap_history = [\<lparr>ev_stage = VALIDATING, ev_at = now, ev_detail = None\<rparr>],
      ap_failure_reason = None, ap_interrupted = False, ap_rollback = None,
      ap_operator_message = None, ap_warnings = [], ap_base_snapshot = base,
      ap_snapshot = None, ap_started_at = now, ap_finished_at = None\<rparr>"

text \<open>\<open>insert_one\<close> refuses a second document with the same \<open>_id\<close>.\<close>

definition create_apply :: "apply_record \<Rightarrow> applies \<Rightarrow> exn + applies" where
  "create_apply r db =
     (if ap_id r \<in> set (map ap_id db) then Inl (Raised DuplicateKeyError (ap_id r))
      else Inr (db @ [r]))"

definition get_apply :: "string \<Rightarrow> applies \<Rightarrow> apply_record option" where
  "get_apply ident db = find (\<lambda>r. ap_id r = ident) db"

text \<open>\<open>find_one({"stage": {"$nin": list(TERMINAL)}})\<close>, in the collection's natural order.\<close>

definition in_flight :: "applies \<Rightarrow> apply_record option" where
  "in_flight db = find record_in_flight db"

text \<open>\<open>update_one({"_id": ident}, ...)\<close>: nothing happens when no document has that id.\<close>

definition update_one :: "string \<Rightarrow> (apply_record \<Rightarrow> apply_record) \<Rightarrow> applies \<Rightarrow> applies" where
  "update_one ident f db = map (\<lambda>r. if ap_id r = ident then f r else r) db"

definition advance_record :: "stage \<Rightarrow> string option \<Rightarrow> nat \<Rightarrow> apply_record \<Rightarrow> apply_record" where
  "advance_record st detail now r =
     r\<lparr>ap_stage := st,
       ap_history := ap_history r @ [\<lparr>ev_stage = st, ev_at = now, ev_detail = detail\<rparr>],
       ap_finished_at := (if st \<in> set TERMINAL then Some now else ap_finished_at r)\<rparr>"

definition advance :: "string \<Rightarrow> stage \<Rightarrow> string option \<Rightarrow> nat \<Rightarrow> applies \<Rightarrow> applies" where
  "advance ident st detail now = update_one ident (advance_record st detail now)"

definition record_snapshot :: "string \<Rightarrow> int \<Rightarrow> applies \<Rightarrow> applies" where
  "record_snapshot ident number = update_one ident (\<lambda>r. r\<lparr>ap_snapshot := Some number\<rparr>)"

definition record_warnings :: "string \<Rightarrow> validation_failure list \<Rightarrow> applies \<Rightarrow> applies" where
  "record_warnings ident ws = update_one ident (\<lambda>r. r\<lparr>ap_warnings := ws\<rparr>)"

text \<open>\<open>fail\<close> and \<open>declare_incident\<close> write twice: their first write, before \<open>advance\<close>.\<close>

definition set_failure_reason :: "string \<Rightarrow> string \<Rightarrow> applies \<Rightarrow> applies" where
  "set_failure_reason ident reason = update_one ident (\<lambda>r. r\<lparr>ap_failure_reason := Some reason\<rparr>)"

definition set_incident :: "string \<Rightarrow> string \<Rightarrow> string \<Rightarrow> applies \<Rightarrow> applies" where
  "set_incident ident reason message = update_one ident
     (\<lambda>r. r\<lparr>ap_failure_reason := Some reason, ap_operator_message := Some message\<rparr>)"

definition mark_interrupted :: "string \<Rightarrow> applies \<Rightarrow> applies" where
  "mark_interrupted ident = update_one ident (\<lambda>r. r\<lparr>ap_interrupted := True\<rparr>)"

definition record_rollback :: "string \<Rightarrow> rollback \<Rightarrow> applies \<Rightarrow> applies" where
  "record_rollback ident outcome = update_one ident (\<lambda>r. r\<lparr>ap_rollback := Some outcome\<rparr>)"

text \<open>Newest first, by when it started, with the id beside it so the boundary is exact.\<close>

definition apply_key :: "apply_record \<Rightarrow> nat \<times> string" where
  "apply_key r = (ap_started_at r, ap_id r)"

definition page_applies ::
  "int \<Rightarrow> (nat \<times> string) option \<Rightarrow> applies \<Rightarrow> apply_record list \<times> (nat \<times> string) option" where
  "page_applies limit before db = page_of_texts apply_key limit before db"

definition unique_ids :: "applies \<Rightarrow> bool" where
  "unique_ids db \<longleftrightarrow> distinct (map ap_id db)"

lemmas update_defs = advance_def record_snapshot_def record_warnings_def set_failure_reason_def
  set_incident_def mark_interrupted_def record_rollback_def

section \<open>Lemmas\<close>

lemma ap_stage_advance_record [simp]: "ap_stage (advance_record st d now r) = st"
  by (simp add: advance_record_def)

lemma map_ap_id_update_one:
  "(\<And>r. ap_id (f r) = ap_id r) \<Longrightarrow> map ap_id (update_one ident f db) = map ap_id db"
  by (simp add: update_one_def comp_def)

lemma map_ap_id_updates [simp]:
  "map ap_id (advance ident st d now db) = map ap_id db"
  "map ap_id (record_snapshot ident n db) = map ap_id db"
  "map ap_id (record_warnings ident ws db) = map ap_id db"
  "map ap_id (set_failure_reason ident why db) = map ap_id db"
  "map ap_id (set_incident ident why msg db) = map ap_id db"
  "map ap_id (mark_interrupted ident db) = map ap_id db"
  "map ap_id (record_rollback ident out db) = map ap_id db"
  by (simp_all add: update_defs advance_record_def map_ap_id_update_one)

lemma get_update_one [simp]:
  assumes "\<And>r. ap_id (f r) = ap_id r"
  shows "get_apply i (update_one ident f db) =
    (if i = ident then map_option f (get_apply i db) else get_apply i db)"
  using assms by (induction db) (auto simp: get_apply_def update_one_def)

lemma get_advance [simp]:
  "get_apply i (advance ident st d now db) =
     (if i = ident then map_option (advance_record st d now) (get_apply i db) else get_apply i db)"
  by (simp add: advance_def advance_record_def)

lemma get_updates [simp]:
  "get_apply i (record_snapshot ident n db) = (if i = ident
     then map_option (\<lambda>r. r\<lparr>ap_snapshot := Some n\<rparr>) (get_apply i db) else get_apply i db)"
  "get_apply i (record_warnings ident ws db) = (if i = ident
     then map_option (\<lambda>r. r\<lparr>ap_warnings := ws\<rparr>) (get_apply i db) else get_apply i db)"
  "get_apply i (set_failure_reason ident why db) = (if i = ident
     then map_option (\<lambda>r. r\<lparr>ap_failure_reason := Some why\<rparr>) (get_apply i db) else get_apply i db)"
  "get_apply i (set_incident ident why msg db) = (if i = ident
     then map_option (\<lambda>r. r\<lparr>ap_failure_reason := Some why, ap_operator_message := Some msg\<rparr>)
       (get_apply i db) else get_apply i db)"
  "get_apply i (mark_interrupted ident db) = (if i = ident
     then map_option (\<lambda>r. r\<lparr>ap_interrupted := True\<rparr>) (get_apply i db) else get_apply i db)"
  "get_apply i (record_rollback ident out db) = (if i = ident
     then map_option (\<lambda>r. r\<lparr>ap_rollback := Some out\<rparr>) (get_apply i db) else get_apply i db)"
  by (simp_all add: update_defs)

lemma get_apply_in_set: "get_apply ident db = Some r \<Longrightarrow> r \<in> set db \<and> ap_id r = ident"
  by (auto simp: get_apply_def find_Some_iff)

lemma get_apply_unique:
  "unique_ids db \<Longrightarrow> r \<in> set db \<Longrightarrow> get_apply (ap_id r) db = Some r"
  by (induction db) (auto simp: unique_ids_def get_apply_def)

lemma in_flight_None_iff: "in_flight db = None \<longleftrightarrow> (\<forall>r \<in> set db. ap_stage r \<in> set TERMINAL)"
  by (auto simp: in_flight_def find_None_iff record_in_flight_def)

lemma in_flight_Some: "in_flight db = Some r \<Longrightarrow> r \<in> set db \<and> ap_stage r \<notin> set TERMINAL"
  by (auto simp: in_flight_def find_Some_iff record_in_flight_def)

text \<open>
  A record is coherent when its current stage is the last of its history, the history begins
  with \<open>VALIDATING\<close>, and an Apply that is over says when it finished.
\<close>

definition coherent :: "apply_record \<Rightarrow> bool" where
  "coherent r \<longleftrightarrow> ap_history r \<noteq> [] \<and> ev_stage (hd (ap_history r)) = VALIDATING
     \<and> ev_stage (last (ap_history r)) = ap_stage r
     \<and> (ap_stage r \<in> set TERMINAL \<longrightarrow> ap_finished_at r \<noteq> None)"

lemma coherent_new_record: "coherent (new_record ident now base)"
  by (simp add: coherent_def new_record_def TERMINAL_def)

lemma coherent_advance_record: "coherent r \<Longrightarrow> coherent (advance_record st d now r)"
  by (simp add: coherent_def advance_record_def)

lemma coherent_updates:
  assumes "\<forall>r \<in> set db. coherent r"
  shows "\<forall>r \<in> set (advance i st d now db). coherent r"
    "\<forall>r \<in> set (record_snapshot i n db). coherent r"
    "\<forall>r \<in> set (record_warnings i ws db). coherent r"
    "\<forall>r \<in> set (set_failure_reason i why db). coherent r"
    "\<forall>r \<in> set (set_incident i why msg db). coherent r"
    "\<forall>r \<in> set (mark_interrupted i db). coherent r"
    "\<forall>r \<in> set (record_rollback i out db). coherent r"
  using assms by (auto simp: update_defs update_one_def coherent_advance_record)
    (auto simp: coherent_def)

end
