(* ===== verification/Snapshots.thy ===== *)
theory Snapshots
  imports Section_Base Pages
begin

text \<open>
  Snapshots (\<open>app/pipeline/snapshots.py\<close>): the collection and the store's operations as
  functions on it. \<open>_id\<close> is the number, so the numbers of a collection are distinct; that the
  store only ever appends the next number is the invariant \<open>numbered\<close>.
\<close>

record 'r snapshot =
  sn_number :: int
  sn_sections :: "'r sections"
  sn_created_at :: nat
  sn_apply_id :: string

type_synonym 'r snapshots = "'r snapshot list"

text \<open>\<open>find_one(sort=[("number", -1)])\<close>.\<close>

fun latest :: "'r snapshots \<Rightarrow> 'r snapshot option" where
  "latest [] = None"
| "latest (s # ss) = (case latest ss of
      None \<Rightarrow> Some s
    | Some t \<Rightarrow> if sn_number s < sn_number t then Some t else Some s)"

definition get_snapshot :: "int \<Rightarrow> 'r snapshots \<Rightarrow> 'r snapshot option" where
  "get_snapshot number db = find (\<lambda>s. sn_number s = number) db"

text \<open>The configuration a Snapshot holds, or an empty baseline before the first.\<close>

definition empty_sections :: "'r sections" where
  "empty_sections = map (\<lambda>name. (name, [])) SECTIONS"

definition sections_of :: "int option \<Rightarrow> 'r snapshots \<Rightarrow> 'r sections" where
  "sections_of number db = (case number of
      None \<Rightarrow> empty_sections
    | Some n \<Rightarrow> (case get_snapshot n db of
        None \<Rightarrow> empty_sections
      | Some s \<Rightarrow> all_sections (sn_sections s)))"

definition next_number :: "'r snapshots \<Rightarrow> int" where
  "next_number db = (case latest db of None \<Rightarrow> 1 | Some s \<Rightarrow> sn_number s + 1)"

text \<open>\<open>commit\<close> reads the latest Snapshot, then inserts: the Snapshot it builds, and the insert.\<close>

definition build_snapshot ::
  "'r snapshot option \<Rightarrow> 'r sections \<Rightarrow> string \<Rightarrow> nat \<Rightarrow> 'r snapshot" where
  "build_snapshot previous sections apply_id now =
     \<lparr>sn_number = (case previous of None \<Rightarrow> 1 | Some s \<Rightarrow> sn_number s + 1),
      sn_sections = sections, sn_created_at = now, sn_apply_id = apply_id\<rparr>"

definition insert_snapshot :: "'r snapshot \<Rightarrow> 'r snapshots \<Rightarrow> exn + 'r snapshots" where
  "insert_snapshot s db =
     (if sn_number s \<in> set (map sn_number db) then Inl (Raised DuplicateKeyError [])
      else Inr (db @ [s]))"

definition page_snapshots :: "int \<Rightarrow> int option \<Rightarrow> 'r snapshots \<Rightarrow> 'r snapshot list \<times> int option" where
  "page_snapshots limit before db = page_of sn_number limit before db"

section \<open>Lemmas\<close>

definition unique_numbers :: "'r snapshots \<Rightarrow> bool" where
  "unique_numbers db \<longleftrightarrow> distinct (map sn_number db)"

text \<open>The Snapshots of a Cluster are numbered 1, 2, 3 and so on, in insertion order.\<close>

definition numbered :: "'r snapshots \<Rightarrow> bool" where
  "numbered db \<longleftrightarrow> map sn_number db = map int [1..<length db + 1]"

interpretation snapshot_pages: keyset sn_number unique_numbers
  by unfold_locales (simp add: unique_numbers_def)

lemma latest_None_iff [simp]: "latest db = None \<longleftrightarrow> db = []"
  by (cases db) (auto split: option.splits)

lemma latest_Some:
  "latest db = Some s \<Longrightarrow> s \<in> set db \<and> (\<forall>t \<in> set db. sn_number t \<le> sn_number s)"
  by (induction db arbitrary: s) (force split: option.splits if_splits)+

lemma numbered_unique: "numbered db \<Longrightarrow> unique_numbers db"
  by (simp add: numbered_def unique_numbers_def distinct_map)

lemma numbered_set:
  assumes "numbered db"
  shows "sn_number ` set db = {1..int (length db)}"
proof -
  have "int ` {1..<length db + 1} = {1..int (length db)}"
    by (simp add: atLeastLessThanSuc_atLeastAtMost image_int_atLeastAtMost)
  then show ?thesis
    using assms by (metis numbered_def list.set_map set_upt)
qed

lemma latest_numbered:
  assumes "numbered db" and "latest db = Some s"
  shows "sn_number s = int (length db)"
proof -
  have mem: "sn_number s \<in> {1..int (length db)}"
    using latest_Some [OF assms(2)] numbered_set [OF assms(1)] by blast
  have "int (length db) \<in> sn_number ` set db"
    using numbered_set [OF assms(1)] latest_Some [OF assms(2)] by (cases db) auto
  then have "int (length db) \<le> sn_number s"
    using latest_Some [OF assms(2)] by auto
  with mem show ?thesis by simp
qed

lemma next_number_numbered: "numbered db \<Longrightarrow> next_number db = int (length db) + 1"
  by (cases "latest db") (auto simp: next_number_def latest_numbered)

lemma insert_next:
  assumes "numbered db"
  shows "insert_snapshot (build_snapshot (latest db) ss aid now) db =
      Inr (db @ [build_snapshot (latest db) ss aid now])"
    and "numbered (db @ [build_snapshot (latest db) ss aid now])"
proof -
  have n: "sn_number (build_snapshot (latest db) ss aid now) = int (length db) + 1"
    using next_number_numbered [OF assms] by (simp add: build_snapshot_def next_number_def)
  have "int (length db) + 1 \<notin> sn_number ` set db"
    by (simp add: numbered_set [OF assms])
  then show "insert_snapshot (build_snapshot (latest db) ss aid now) db =
      Inr (db @ [build_snapshot (latest db) ss aid now])"
    by (simp add: insert_snapshot_def n)
  show "numbered (db @ [build_snapshot (latest db) ss aid now])"
    using assms by (simp add: numbered_def n)
qed

lemma latest_snoc:
  assumes "numbered db"
  shows "latest (db @ [build_snapshot (latest db) ss aid now]) =
    Some (build_snapshot (latest db) ss aid now)" (is "latest ?db' = Some ?s")
proof -
  have num: "numbered ?db'" by (rule insert_next(2) [OF assms])
  obtain t where t: "latest ?db' = Some t" by (cases "latest ?db'") auto
  have "sn_number ?s = int (length ?db')"
    using next_number_numbered [OF assms] by (simp add: build_snapshot_def next_number_def)
  with latest_numbered [OF num t] have "sn_number t = sn_number ?s" by simp
  moreover have "t \<in> set ?db'" "?s \<in> set ?db'" using latest_Some [OF t] by auto
  moreover have "inj_on sn_number (set ?db')"
    using numbered_unique [OF num] by (simp only: unique_numbers_def distinct_map)
  ultimately have "t = ?s" by (simp only: inj_on_def)
  then show ?thesis using t by simp
qed

lemma get_snapshot_append: "get_snapshot n db = Some s \<Longrightarrow> get_snapshot n (db @ ts) = Some s"
  by (induction db) (auto simp: get_snapshot_def)

lemma get_snapshot_unique:
  "unique_numbers db \<Longrightarrow> s \<in> set db \<Longrightarrow> get_snapshot (sn_number s) db = Some s"
  by (induction db) (auto simp: get_snapshot_def unique_numbers_def)

lemma sections_of_append:
  "get_snapshot n db \<noteq> None \<Longrightarrow> sections_of (Some n) (db @ ts) = sections_of (Some n) db"
  by (auto simp: sections_of_def get_snapshot_append)

lemma keys_sections_of [simp]: "map fst (sections_of number db) = SECTIONS"
  by (simp add: sections_of_def empty_sections_def comp_def split: option.split)

lemma sec_get_empty_sections [simp]: "sec_get empty_sections name = []"
  unfolding sec_get_def empty_sections_def map_of_comprehension by simp

end
