(* ===== verification/Audit_Trail.thy ===== *)
theory Audit_Trail
  imports Section_Base Pages
begin

text \<open>
  The audit trail: the caller's identity (\<open>app/auth/identity.py\<close>, \<open>app/audit/actor.py\<close>), one
  event (\<open>app/audit/events.py\<close>), and the derivation of what changed between two Candidates
  (\<open>app/audit/changes.py\<close>). A resource's value is compared with \<open>=\<close>, which is what
  \<open>json.dumps(sort_keys=True)\<close> decides for values dumped by one model.
\<close>

datatype role = Operator | Admin
datatype via = Via_None | Via_Password | Via_Sso | Via_Token

record identity =
  id_subject :: string
  id_role :: role
  id_via :: via
  id_token :: "string option"

definition is_admin :: "identity \<Rightarrow> bool" where
  "is_admin i \<longleftrightarrow> id_role i = Admin"

definition SYSTEM :: string where "SYSTEM = ''apchi''"

definition SYSTEM_ACTOR :: identity where
  "SYSTEM_ACTOR = \<lparr>id_subject = SYSTEM, id_role = Admin, id_via = Via_None, id_token = None\<rparr>"

definition NOBODY :: identity where
  "NOBODY = \<lparr>id_subject = ''anonymous'', id_role = Admin, id_via = Via_None, id_token = None\<rparr>"

text \<open>\<open>actor()\<close>: the caller the request gate recorded, or Apchi itself.\<close>

definition actor :: "identity option \<Rightarrow> identity" where
  "actor current = (case current of None \<Rightarrow> SYSTEM_ACTOR | Some i \<Rightarrow> i)"

text \<open>A category is one of the six Section names, \<open>''admin''\<close> or \<open>''pipeline''\<close>.\<close>

type_synonym category = string

definition PIPELINE_CATEGORY :: category where "PIPELINE_CATEGORY = ''pipeline''"
definition ADMIN_CATEGORY :: category where "ADMIN_CATEGORY = ''admin''"

datatype action =
    Attempted | Created | Updated | Removed | Reset | Imported | Reverted | Applied
  | Rolled_Back | Engaged | Released | Minted | Revoked

datatype outcome = Succeeded | Refused | Failed

record audit_event =
  au_id :: string
  au_at :: nat
  au_actor :: string
  au_via :: via
  au_token_id :: "string option"
  au_category :: category
  au_resource :: "string option"
  au_action :: action
  au_snapshot :: "int option"
  au_outcome :: outcome
  au_detail :: "string option"
  au_apply_id :: "string option"

text \<open>One event's worth of detail, for recording several at once.\<close>

record entry =
  en_category :: category
  en_action :: action
  en_resource :: "string option"
  en_snapshot :: "int option"
  en_outcome :: outcome
  en_detail :: "string option"

definition mk_entry :: "category \<Rightarrow> action \<Rightarrow> string option \<Rightarrow> entry" where
  "mk_entry c a r = \<lparr>en_category = c, en_action = a, en_resource = r, en_snapshot = None,
     en_outcome = Succeeded, en_detail = None\<rparr>"

definition event_of ::
  "identity \<Rightarrow> string \<Rightarrow> nat \<Rightarrow> string option \<Rightarrow> entry \<Rightarrow> audit_event" where
  "event_of who ident now apply_id e =
     \<lparr>au_id = ident, au_at = now, au_actor = id_subject who, au_via = id_via who, au_token_id = id_token who,
      au_category = en_category e, au_resource = en_resource e, au_action = en_action e,
      au_snapshot = en_snapshot e, au_outcome = en_outcome e, au_detail = en_detail e,
      au_apply_id = apply_id\<rparr>"

text \<open>History newest first, filtered and paged: the query, and a page of what it matches.\<close>

definition audit_matches ::
  "category option \<Rightarrow> string option \<Rightarrow> nat option \<Rightarrow> nat option \<Rightarrow> audit_event \<Rightarrow> bool" where
  "audit_matches category who since until e \<longleftrightarrow>
     (category \<noteq> None \<longrightarrow> category = Some (au_category e))
     \<and> (who \<noteq> None \<longrightarrow> who = Some (au_actor e))
     \<and> (case since of None \<Rightarrow> True | Some a \<Rightarrow> a \<le> au_at e)
     \<and> (case until of None \<Rightarrow> True | Some b \<Rightarrow> au_at e \<le> b)"

definition audit_key :: "audit_event \<Rightarrow> nat \<times> string" where
  "audit_key e = (au_at e, au_id e)"

definition page_audit ::
  "category option \<Rightarrow> string option \<Rightarrow> nat option \<Rightarrow> nat option \<Rightarrow> int \<Rightarrow> (nat \<times> string) option \<Rightarrow>
     audit_event list \<Rightarrow> audit_event list \<times> (nat \<times> string) option" where
  "page_audit category who since until limit before db =
     page_of audit_key limit before (filter (audit_matches category who since until) db)"

definition unique_events :: "audit_event list \<Rightarrow> bool" where
  "unique_events db \<longleftrightarrow> distinct (map au_id db)"

interpretation audit_pages: keyset audit_key unique_events
proof unfold_locales
  fix db assume "unique_events db"
  then show "distinct (map audit_key db)"
    by (auto simp: unique_events_def audit_key_def distinct_map inj_on_def)
qed

section \<open>What changed\<close>

definition as_section :: "string \<Rightarrow> section_name option" where
  "as_section name = (if name \<in> set SECTIONS then Some name else None)"

text \<open>The tags that are not Sections, and the ones that change nothing auditable.\<close>

definition BY_TAG :: "category dict" where
  "BY_TAG = [(''admin'', ADMIN_CATEGORY), (''adoption'', ADMIN_CATEGORY),
     (''tokens'', ADMIN_CATEGORY), (''candidate'', PIPELINE_CATEGORY),
     (''applies'', PIPELINE_CATEGORY), (''snapshots'', PIPELINE_CATEGORY)]"

definition NOT_AUDITED :: "string list" where
  "NOT_AUDITED = [''auth'', ''health'', ''audit'', ''validations'']"

definition underscored :: "string \<Rightarrow> string" where
  "underscored tag = map (\<lambda>c. if c = CHR '' '' then CHR ''_'' else c) tag"

fun category_of :: "string list \<Rightarrow> category option" where
  "category_of [] = None"
| "category_of (tag # tags) =
     (if tag \<in> set NOT_AUDITED then None
      else case as_section (underscored tag) of
        Some s \<Rightarrow> Some s
      | None \<Rightarrow> (case map_of BY_TAG tag of Some c \<Rightarrow> Some c | None \<Rightarrow> category_of tags))"

record change =
  ch_category :: category
  ch_resource :: string
  ch_action :: action

definition change_at :: "category \<Rightarrow> 'r resources \<Rightarrow> 'r resources \<Rightarrow> string \<Rightarrow> change list" where
  "change_at category was now resource =
     (if \<not> has_key was resource then [\<lparr>ch_category = category, ch_resource = resource, ch_action = Created\<rparr>]
      else if \<not> has_key now resource then
        [\<lparr>ch_category = category, ch_resource = resource, ch_action = Removed\<rparr>]
      else if map_of was resource \<noteq> map_of now resource then
        [\<lparr>ch_category = category, ch_resource = resource, ch_action = Updated\<rparr>]
      else [])"

definition changes_between :: "'r sections \<Rightarrow> 'r sections \<Rightarrow> change list" where
  "changes_between before later =
     concat (map (\<lambda>name. case as_section name of
         None \<Rightarrow> []
       | Some category \<Rightarrow>
           (let was = sec_get before name; now = sec_get later name
            in concat (map (change_at category was now)
                 (sorted_set (dict_keys was @ dict_keys now)))))
       (sorted_set (dict_keys before @ dict_keys later)))"

section \<open>Lemmas\<close>

lemma as_section_Some [simp]: "as_section name = Some s \<longleftrightarrow> s = name \<and> name \<in> set SECTIONS"
  by (auto simp: as_section_def)

lemma sec_get_missing: "\<not> has_key ss name \<Longrightarrow> sec_get ss name = []"
  by (simp add: sec_get_def map_of_eq_None_iff [THEN iffD2])

text \<open>What the derived trail says of one resource, in terms of the two versions of it.\<close>

definition moved :: "'v option \<Rightarrow> 'v option \<Rightarrow> action option" where
  "moved was now = (case (was, now) of
      (None, Some _) \<Rightarrow> Some Created
    | (Some _, None) \<Rightarrow> Some Removed
    | (Some x, Some y) \<Rightarrow> (if x = y then None else Some Updated)
    | (None, None) \<Rightarrow> None)"

lemma in_change_at:
  assumes "has_key was r \<or> has_key now r"
  shows "c \<in> set (change_at category was now r) \<longleftrightarrow>
    ch_category c = category \<and> ch_resource c = r \<and> moved (map_of was r) (map_of now r) = Some (ch_action c)"
proof -
  have "map_of was r = None \<longleftrightarrow> \<not> has_key was r" "map_of now r = None \<longleftrightarrow> \<not> has_key now r"
    by (simp_all add: map_of_None_iff)
  with assms show ?thesis
    by (cases "map_of was r"; cases "map_of now r") (auto simp: change_at_def moved_def)
qed

lemma mem_changes_between:
  "c \<in> set (changes_between before later) \<longleftrightarrow>
     (\<exists>name r. name \<in> set SECTIONS \<and> (has_key before name \<or> has_key later name)
        \<and> (has_key (sec_get before name) r \<or> has_key (sec_get later name) r)
        \<and> c \<in> set (change_at name (sec_get before name) (sec_get later name) r))"
  unfolding changes_between_def in_concat_map set_sorted_set as_section_def Let_def
  by (auto simp: in_concat_map simp del: set_concat split: if_splits)

lemma in_changes_between:
  "c \<in> set (changes_between before later) \<longleftrightarrow>
     ch_category c \<in> set SECTIONS \<and>
     moved (map_of (sec_get before (ch_category c)) (ch_resource c))
           (map_of (sec_get later (ch_category c)) (ch_resource c)) = Some (ch_action c)"
  (is "?lhs \<longleftrightarrow> ?rhs")
proof
  assume ?lhs
  then obtain name r where name: "name \<in> set SECTIONS"
    and r: "has_key (sec_get before name) r \<or> has_key (sec_get later name) r"
    and c: "c \<in> set (change_at name (sec_get before name) (sec_get later name) r)"
    unfolding mem_changes_between by blast
  then show ?rhs using in_change_at [OF r] by auto
next
  let ?n = "ch_category c" and ?r = "ch_resource c"
  assume rhs: ?rhs
  then have keys: "has_key (sec_get before ?n) ?r \<or> has_key (sec_get later ?n) ?r"
    by (auto simp: moved_def split: option.splits dest: map_of_Some_has_key)
  then have "has_key before ?n \<or> has_key later ?n"
    by (metis sec_get_missing empty_iff empty_set list.simps(8))
  moreover have "c \<in> set (change_at ?n (sec_get before ?n) (sec_get later ?n) ?r)"
    using rhs in_change_at [OF keys] by auto
  ultimately show ?lhs
    using rhs keys unfolding mem_changes_between by blast
qed

end
