(* ===== verification/Pod_Template.thy ===== *)
theory Pod_Template
  imports Apchi_Prelude
begin

text \<open>
  The data of the Kubernetes adapter: the pod template of a Deployment as
  \<open>app/pipeline/coordinator.py\<close> reads it, the two patches
  \<open>app/adapters/kubernetes.py\<close> sends to it (\<open>mount_secret_file\<close>, \<open>unmount_secret_files\<close>),
  the body of \<open>write_secret\<close>'s merge patch, and the state of a rollout. The API server's
  part (a strategic merge patch merges volumes and containers by name and mounts by path; it
  rejects a mount that names no volume; a merge patch removes a key sent as null) is its
  documented behaviour.
\<close>

section \<open>The template\<close>

record volume =
  vo_name :: string
  vo_secret :: "string option"
  vo_config_map :: "string option"
  vo_mode :: "nat option"

definition read_only_by_nature :: "volume \<Rightarrow> bool" where
  "read_only_by_nature v \<longleftrightarrow> vo_secret v \<noteq> None \<or> vo_config_map v \<noteq> None"

record volume_mount =
  mt_name :: string
  mt_path :: string
  mt_sub_path :: "string option"

record container =
  ct_name :: string
  ct_mounts :: "volume_mount list"

record pod_spec =
  ps_containers :: "container list"
  ps_init_containers :: "container list"
  ps_volumes :: "volume list"
  ps_fs_group :: "nat option"

definition every_container :: "pod_spec \<Rightarrow> container list" where
  "every_container spec = ps_init_containers spec @ ps_containers spec"

text \<open>\<open>{volume.name: volume for volume in spec.volumes}\<close>: the last of a name wins.\<close>

definition volumes_by_name :: "pod_spec \<Rightarrow> string \<Rightarrow> volume option" where
  "volumes_by_name spec name = find (\<lambda>v. vo_name v = name) (rev (ps_volumes spec))"

definition CREDENTIAL_FILE_MODE :: nat where "CREDENTIAL_FILE_MODE = 416" \<comment> \<open>\<open>0o640\<close>\<close>

definition TRINO_GROUP :: nat where "TRINO_GROUP = 1000"

definition FORBIDDEN_CREDENTIAL_BITS :: nat where
  "FORBIDDEN_CREDENTIAL_BITS = 31" \<comment> \<open>\<open>0o037\<close>\<close>

section \<open>Strategic merge patches\<close>

text \<open>Merging one element of a list into it by a key: merged where it is, appended where it is not.\<close>

definition merge_by :: "('a \<Rightarrow> 'k) \<Rightarrow> 'k \<Rightarrow> ('a \<Rightarrow> 'a) \<Rightarrow> 'a \<Rightarrow> 'a list \<Rightarrow> 'a list" where
  "merge_by key k f new xs =
     (if list_ex (\<lambda>x. key x = k) xs then map (\<lambda>x. if key x = k then f x else x) xs
      else xs @ [new])"

definition patch_volume :: "string \<Rightarrow> string \<Rightarrow> nat option \<Rightarrow> volume list \<Rightarrow> volume list" where
  "patch_volume name secret mode =
     merge_by vo_name name
       (\<lambda>v. v\<lparr>vo_secret := Some secret, vo_mode := (if mode = None then vo_mode v else mode)\<rparr>)
       \<lparr>vo_name = name, vo_secret = Some secret, vo_config_map = None, vo_mode = mode\<rparr>"

definition patch_mount :: "string \<Rightarrow> string \<Rightarrow> string \<Rightarrow> volume_mount list \<Rightarrow> volume_mount list" where
  "patch_mount name path key =
     merge_by mt_path path
       (\<lambda>m. m\<lparr>mt_name := name, mt_sub_path := Some key\<rparr>)
       \<lparr>mt_name = name, mt_path = path, mt_sub_path = Some key\<rparr>"

definition in_container ::
  "string \<Rightarrow> (volume_mount list \<Rightarrow> volume_mount list) \<Rightarrow> container list \<Rightarrow> container list" where
  "in_container name f =
     merge_by ct_name name (\<lambda>c. c\<lparr>ct_mounts := f (ct_mounts c)\<rparr>) \<lparr>ct_name = name, ct_mounts = f []\<rparr>"

definition mount_patch ::
  "string \<Rightarrow> string \<Rightarrow> string \<Rightarrow> nat option \<Rightarrow> string \<Rightarrow> string \<Rightarrow> pod_spec \<Rightarrow> pod_spec" where
  "mount_patch cont name secret mode path key spec =
     spec\<lparr>ps_volumes := patch_volume name secret mode (ps_volumes spec),
          ps_containers := in_container cont (patch_mount name path key) (ps_containers spec)\<rparr>"

definition unmount_patch ::
  "string \<Rightarrow> string \<Rightarrow> string list \<Rightarrow> bool \<Rightarrow> pod_spec \<Rightarrow> pod_spec" where
  "unmount_patch cont name paths drop_volume spec =
     spec\<lparr>ps_volumes := (if drop_volume then filter (\<lambda>v. vo_name v \<noteq> name) (ps_volumes spec)
                         else ps_volumes spec),
          ps_containers := in_container cont (filter (\<lambda>m. mt_path m \<notin> set paths)) (ps_containers spec)\<rparr>"

text \<open>What the API server accepts: every mount names a volume of the pod.\<close>

definition valid_template :: "pod_spec \<Rightarrow> bool" where
  "valid_template spec \<longleftrightarrow>
     list_all (\<lambda>c. list_all (\<lambda>m. list_ex (\<lambda>v. vo_name v = mt_name m) (ps_volumes spec)) (ct_mounts c))
       (every_container spec)"

section \<open>Secrets\<close>

text \<open>
  \<open>write_secret\<close>'s body: the data, and a null for every key that should disappear. Applied by
  the API server as a merge patch.
\<close>

definition stale_keys :: "string dict \<Rightarrow> string dict \<Rightarrow> string list" where
  "stale_keys existing data = filter (\<lambda>k. \<not> has_key data k) (dict_keys existing)"

definition merge_patch :: "string dict \<Rightarrow> string list \<Rightarrow> string dict \<Rightarrow> string dict" where
  "merge_patch data nulls current =
     fold (\<lambda>(k, v). AList.update k v) data (fold AList.delete nulls current)"

section \<open>Rollouts\<close>

record rollout_state =
  ro_generation :: nat
  ro_observed_generation :: nat
  ro_replicas :: nat
  ro_updated :: nat
  ro_ready :: nat
  ro_unavailable :: nat

definition rollout_complete :: "rollout_state \<Rightarrow> bool" where
  "rollout_complete st \<longleftrightarrow> ro_observed_generation st \<ge> ro_generation st
     \<and> ro_updated st = ro_replicas st \<and> ro_ready st = ro_replicas st \<and> ro_unavailable st = 0"

section \<open>Lemmas\<close>

lemma map_of_fold_update:
  "map_of (fold (\<lambda>(k, v). AList.update k v) data d) =
     (\<lambda>k. case map_of (rev data) k of None \<Rightarrow> map_of d k | Some v \<Rightarrow> Some v)"
  by (induction data arbitrary: d) (auto simp: fun_eq_iff map_add_def split: option.splits)

lemma map_of_fold_delete:
  "map_of (fold AList.delete ks d) = (\<lambda>k. if k \<in> set ks then None else map_of d k)"
  by (induction ks arbitrary: d) (auto simp: fun_eq_iff)

lemma map_of_rev_wf: "wf_dict d \<Longrightarrow> map_of (rev d) = map_of d"
  by (metis distinct_map distinct_rev map_of_inject_set rev_map set_rev wf_dict_def)

lemma wf_fold_update: "wf_dict d \<Longrightarrow> wf_dict (fold (\<lambda>(k, v). AList.update k v) data d)"
  by (induction data arbitrary: d) (auto simp: wf_dict_def distinct_update)

lemma wf_fold_delete: "wf_dict d \<Longrightarrow> wf_dict (fold AList.delete ks d)"
  by (induction ks arbitrary: d) (auto simp: wf_dict_def distinct_delete)

text \<open>The nulls are exactly what makes the patch leave the data and nothing else.\<close>

lemma merge_patch_exact:
  assumes "wf_dict data"
  shows "map_of (merge_patch data (stale_keys current data) current) = map_of data"
proof
  fix k
  show "map_of (merge_patch data (stale_keys current data) current) k = map_of data k"
    using map_of_None_iff [of data k] map_of_None_iff [of current k]
    by (auto simp: merge_patch_def map_of_fold_update map_of_fold_delete map_of_rev_wf [OF assms]
        stale_keys_def split: option.splits)
qed

lemma wf_merge_patch: "wf_dict current \<Longrightarrow> wf_dict (merge_patch data nulls current)"
  by (simp add: merge_patch_def wf_fold_update wf_fold_delete)

lemma merge_by_key [simp]:
  assumes f: "\<And>x. key x = k \<Longrightarrow> key (f x) = k" and new: "key new = k"
  shows "key ` set (merge_by key k f new xs) = insert k (key ` set xs)"
proof (cases "list_ex (\<lambda>x. key x = k) xs")
  case True
  have "map key (map (\<lambda>x. if key x = k then f x else x) xs) = map key xs"
    by (simp add: f)
  then have "key ` set (map (\<lambda>x. if key x = k then f x else x) xs) = key ` set xs"
    by (metis list.set_map)
  moreover have "k \<in> key ` set xs" using True by (auto simp: list_ex_iff)
  ultimately show ?thesis using True by (simp add: merge_by_def insert_absorb del: set_map)
next
  case False
  then show ?thesis by (simp add: merge_by_def new)
qed

lemma in_merge_by:
  "x \<in> set (merge_by key k f new xs) \<Longrightarrow>
     x \<in> set xs \<and> key x \<noteq> k \<or> (\<exists>y \<in> set xs. key y = k \<and> x = f y) \<or> x = new"
  by (auto simp: merge_by_def list_ex_iff split: if_splits)

end
