(* ===== verification/Auth_Data.thy ===== *)
theory Auth_Data
  imports Audit_Trail
begin

text \<open>
  The documents of authentication: users (\<open>app/auth/users.py\<close>), browser sessions
  (\<open>app/auth/sessions.py\<close>), tokens of automations (\<open>app/auth/tokens.py\<close>) and logins in progress
  at an identity provider (\<open>app/auth/logins.py\<close>). Times are seconds on the world's clock. Sessions
  and logins are kept under the digest of the value a browser carries, tokens with theirs.
\<close>

datatype auth_mode = No_Auth | Password_Mode | Sso_Mode

fun auth_mode_value :: "auth_mode \<Rightarrow> string" where
  "auth_mode_value No_Auth = ''none''"
| "auth_mode_value Password_Mode = ''password''"
| "auth_mode_value Sso_Mode = ''sso''"

datatype environment = Env_Np | Env_Test | Env_Prep | Env_Prod

record user =
  us_username :: string
  us_password_hash :: "string option"
  us_role :: role
  us_disabled :: bool
  us_created_at :: nat

record session =
  se_username :: string
  se_via :: via
  se_expires_at :: nat

record token =
  tk_id :: string
  tk_digest :: string
  tk_owner :: string
  tk_name :: string
  tk_created_at :: nat
  tk_expires_at :: "nat option"
  tk_last_used_at :: "nat option"
  tk_revoked_at :: "nat option"

record pending_login =
  lg_state :: string
  lg_nonce :: string
  lg_code_verifier :: string
  lg_expires_at :: nat

text \<open>The identity provider's description of itself, and what an HTTP request to it comes back with.\<close>

record discovered =
  dc_issuer :: string
  dc_authorization_endpoint :: string
  dc_token_endpoint :: string
  dc_jwks_uri :: string
  dc_algorithms :: "string list"
  dc_secret_in_header :: bool

datatype http_answer = Http_Error string | Not_Json string | Answers json

record http_request =
  hr_method :: string
  hr_url :: string
  hr_form :: "(string \<times> string) list"
  hr_auth :: "(string \<times> string) option"

end
