(* ===== verification/Discovery_Data.thy ===== *)
theory Discovery_Data
  imports Section_Base
begin

text \<open>
  What a discovery is (\<open>app/pipeline/discovery.py\<close>, \<open>app/pipeline/discoveries.py\<close>): what each
  Section read off the Cluster, every reason it is not the whole truth, and the document that keeps
  a reading apart from the amendments an Admin made to it. A Section's Admin values are the two that
  the Permissions Section finds; no other Section finds any.
\<close>

datatype problem_kind = Unreadable_File | Unaccounted_For | Lossy | Unreadable_Section | Cutover
  | Apchi_Configuration | Incomplete | Not_Loaded

record discovery_problem =
  dq_kind :: problem_kind
  dq_section :: "section_name option"
  dq_path :: "string option"
  dq_detail :: string

definition mk_problem :: "problem_kind \<Rightarrow> section_name option \<Rightarrow> string option \<Rightarrow> string \<Rightarrow> discovery_problem" where
  "mk_problem k s p d = \<lparr>dq_kind = k, dq_section = s, dq_path = p, dq_detail = d\<rparr>"

definition problem_str :: "discovery_problem \<Rightarrow> string" where
  "problem_str p = (let place = join_with '' '' (non_empty_part (dq_section p) @ non_empty_part (dq_path p))
     in if place = [] then dq_detail p else place @ '': '' @ dq_detail p)"

record found_admin =
  fa_preserved :: "json list dict"
  fa_enforce :: bool

record 'r section_discovery =
  sd_section :: section_name
  sd_resources :: "'r resources"
  sd_looked_at :: "string list"
  sd_guessed_because :: "string option"
  sd_readable :: bool
  sd_admin :: "found_admin option"
  sd_problems :: "discovery_problem list"

record 'r discovery =
  di_coordinator :: string
  di_sections :: "'r section_discovery list"
  di_problems :: "discovery_problem list"

definition every_problem :: "'r discovery \<Rightarrow> discovery_problem list" where
  "every_problem d = di_problems d @ concat (map sd_problems (di_sections d))"

text \<open>The dictionaries merged in order: a later Section's values replace an earlier one's.\<close>

definition found_values :: "'r discovery \<Rightarrow> found_admin option" where
  "found_values d = fold (\<lambda>s found. case sd_admin s of None \<Rightarrow> found | Some a \<Rightarrow> Some a) (di_sections d) None"

definition discovery_complete :: "'r discovery \<Rightarrow> bool" where
  "discovery_complete d \<longleftrightarrow> list_all (\<lambda>p. dq_kind p = Cutover) (every_problem d)"

section \<open>The stored document\<close>

record 'r amendment =
  am_section :: section_name
  am_resource :: string
  am_value :: 'r
  am_at :: nat

record 'r stored_discovery =
  sv_read :: "'r discovery"
  sv_read_at :: nat
  sv_amendments :: "'r amendment dict dict"
  sv_changed :: "string list"

definition amendments_of :: "'r stored_discovery \<Rightarrow> section_name \<Rightarrow> 'r amendment dict" where
  "amendments_of d name = (case map_of (sv_amendments d) name of None \<Rightarrow> [] | Some a \<Rightarrow> a)"

definition read_resources :: "'r discovery \<Rightarrow> section_name \<Rightarrow> 'r resources" where
  "read_resources d name = (case find (\<lambda>s. sd_section s = name) (di_sections d) of
      None \<Rightarrow> [] | Some s \<Rightarrow> sd_resources s)"

text \<open>What a Section holds once the amendments are applied: they win.\<close>

definition resolved_resources :: "'r stored_discovery \<Rightarrow> section_name \<Rightarrow> 'r resources" where
  "resolved_resources d name = fold (\<lambda>(k, a). AList.update k (am_value a)) (amendments_of d name)
     (read_resources (sv_read d) name)"

definition answered :: "'r stored_discovery \<Rightarrow> discovery_problem \<Rightarrow> bool" where
  "answered d p \<longleftrightarrow> (case (dq_section p, dq_path p) of
      (Some s, Some n) \<Rightarrow> list_ex (\<lambda>(name, am). name = s \<and> has_key am n) (sv_amendments d) | _ \<Rightarrow> False)"

definition outstanding :: "'r stored_discovery \<Rightarrow> discovery_problem list" where
  "outstanding d = filter (\<lambda>p. dq_kind p \<noteq> Cutover \<and> \<not> answered d p) (every_problem (sv_read d))"

definition stored_complete :: "'r stored_discovery \<Rightarrow> bool" where
  "stored_complete d \<longleftrightarrow> outstanding d = []"

text \<open>What moved between two readings, in the order it is said: gone, new, changed.\<close>

definition section_differences ::
  "('r \<Rightarrow> 'r \<Rightarrow> bool) \<Rightarrow> 'r section_discovery \<Rightarrow> 'r section_discovery \<Rightarrow> string list" where
  "section_differences same was now =
     (let say = (\<lambda>what name. sd_section now @ '': '' @ name @ what) in
      map (say '' is no longer on the Cluster'')
        (filter (\<lambda>n. \<not> has_key (sd_resources now) n) (sorted_keys (sd_resources was)))
      @ map (say '' is new on the Cluster'')
        (filter (\<lambda>n. \<not> has_key (sd_resources was) n) (sorted_keys (sd_resources now)))
      @ map (say '' has changed on the Cluster'')
        (filter (moved_in (\<lambda>a b. same b a) (sd_resources now) (sd_resources was)) (sorted_keys (sd_resources now))))"

text \<open>The last of the previous reading's Sections under a name: they are put in a dictionary.\<close>

definition section_before :: "'r discovery \<Rightarrow> section_name \<Rightarrow> 'r section_discovery option" where
  "section_before d name = find (\<lambda>s. sd_section s = name) (rev (di_sections d))"

definition differences ::
  "('r \<Rightarrow> 'r \<Rightarrow> bool) \<Rightarrow> 'r discovery option \<Rightarrow> 'r discovery \<Rightarrow> string list" where
  "differences same previous current = (case previous of
      None \<Rightarrow> []
    | Some p \<Rightarrow> concat (map (\<lambda>now. case section_before p (sd_section now) of
        None \<Rightarrow> [] | Some was \<Rightarrow> section_differences same was now) (di_sections current)))"

end
