(* ===== verification/World.thy ===== *)
theory World
  imports Apply_Store Snapshots Audit_Trail Pod_Template Auth_Data Discovery_Data
begin

text \<open>
  The state the program works on, and the calls it makes on it: the MongoDB collections, the
  Kubernetes objects and the live Trino coordinator, each reached through calls that can fail
  (\<open>app/adapters/kubernetes.py\<close>, \<open>app/adapters/trino.py\<close>). What the program cannot decide is
  an input of the world: the clock's ticks, the identifiers drawn, the queues of faults, and
  the readings Kubernetes and Trino return; of a list of readings the last one repeats.
\<close>

section \<open>Settings\<close>

record settings =
  st_coordinator :: string
  st_worker :: string
  st_container :: string
  st_catalog_secret :: string
  st_raw_files_secret :: string
  st_raw_files_volume :: string
  st_high_water :: string
  st_verification_catalog :: string
  st_catalog_store_dir :: string
  st_trino_user :: string
  st_rollout_timeout :: nat
  st_candidate_max_bytes :: nat
  st_audit_retention :: "nat option"
  st_alert_webhook :: "string option"
  st_certificate_secret :: string
  st_certificate_max_bytes :: nat
  st_mapping_secret :: string
  st_listener_secret :: string
  st_listener_volume :: string
  st_listener_from_deployment :: bool
  st_access_control_secret :: string
  st_groups_secret :: string
  st_groups_volume :: string
  st_groups_from_deployment :: bool
  st_trino_url :: string
  st_trino_certificate :: "string option"
  st_connectivity_blocks :: bool
  st_validation_timeout :: nat
  st_environment :: environment
  st_auth_mode :: auth_mode
  st_initial_admin :: "string option"
  st_initial_admin_hash :: "string option"
  st_session_seconds :: nat
  st_login_seconds :: nat
  st_oidc_issuer :: "string option"
  st_oidc_client_id :: "string option"
  st_oidc_client_secret :: "string option"
  st_oidc_redirect_url :: "string option"
  st_oidc_scopes :: string
  st_oidc_username_claim :: string
  st_oidc_role_claim :: string
  st_oidc_admin_groups :: string

text \<open>Settings for concrete inputs.\<close>

definition demo_settings :: settings where
  "demo_settings = \<lparr>st_coordinator = ''trino-coordinator'', st_worker = ''trino-worker'',
     st_container = ''trino'', st_catalog_secret = ''trino-catalogs'',
     st_raw_files_secret = ''trino-raw-files'', st_raw_files_volume = ''raw-files'',
     st_high_water = ''apchi-high-water'', st_verification_catalog = ''system'',
     st_catalog_store_dir = ''/data/catalogs'', st_trino_user = ''apchi'', st_rollout_timeout = 10,
     st_candidate_max_bytes = 1000, st_audit_retention = None, st_alert_webhook = None,
     st_certificate_secret = ''trino-certificates'', st_certificate_max_bytes = 1000,
     st_mapping_secret = ''trino-user-mapping'', st_listener_secret = ''trino-event-listener'',
     st_listener_volume = ''event-listener'', st_listener_from_deployment = False,
     st_access_control_secret = ''trino-access-control'', st_groups_secret = ''trino-resource-groups'',
     st_groups_volume = ''resource-groups'', st_groups_from_deployment = False,
     st_trino_url = ''http://trino:8080'', st_trino_certificate = None, st_connectivity_blocks = False,
     st_validation_timeout = 10, st_environment = Env_Np, st_auth_mode = No_Auth, st_initial_admin = Some ''admin'',
     st_initial_admin_hash = None, st_session_seconds = 43200, st_login_seconds = 300, st_oidc_issuer = None,
     st_oidc_client_id = None, st_oidc_client_secret = None, st_oidc_redirect_url = None,
     st_oidc_scopes = ''openid profile email groups'', st_oidc_username_claim = ''preferred_username'',
     st_oidc_role_claim = ''groups'', st_oidc_admin_groups = []\<rparr>"

section \<open>Documents\<close>

record 'r candidate =
  ca_base :: "int option"
  ca_sections :: "'r sections"
  ca_updated_at :: "nat option"

datatype engaged_by = By_Admin | By_Auto_Rollback_Failure

record maintenance_state =
  ms_engaged :: bool
  ms_reason :: "string option"
  ms_engaged_by :: "engaged_by option"
  ms_engaged_at :: "nat option"

datatype name_case = Keep | Lower | Upper

fun case_value :: "name_case \<Rightarrow> string" where
  "case_value Keep = ''keep''"
| "case_value Lower = ''lower''"
| "case_value Upper = ''upper''"

record certificate_mapping =
  cm_pattern :: string
  cm_user :: string
  cm_case :: name_case

record admin_values =
  av_enforce_permissions :: bool
  av_preserved_access_control :: "json list dict"
  av_raw_files :: "string dict"
  av_preserved_mappings :: "certificate_mapping list"

definition default_admin :: admin_values where
  "default_admin = \<lparr>av_enforce_permissions = False, av_preserved_access_control = [],
     av_raw_files = [], av_preserved_mappings = []\<rparr>"

datatype verdict = RUNNING | PASSED | NOT_PASSED

record validation_record =
  vr_id :: string
  vr_outcome :: verdict
  vr_failures :: "validation_failure list"
  vr_warnings :: "validation_failure list"
  vr_base_snapshot :: "int option"
  vr_started_at :: nat
  vr_finished_at :: "nat option"

section \<open>The world\<close>

text \<open>
  What Validation creates: the ephemeral coordinator's pod, of its manifest what the program
  decides, and the state of it that Kubernetes reports.
\<close>

record probe_pod =
  pr_name :: string
  pr_image :: string
  pr_deadline :: nat
  pr_secret :: "string option"
  pr_mounts :: "string dict"

record pod_state =
  po_phase :: string
  po_host :: "string option"
  po_problem :: "string option"

type_synonym live_catalogs = "(string \<times> string dict) dict" \<comment> \<open>name to connector and properties\<close>

record ('r, 'e) world =
  w_applies :: applies
  w_snapshots :: "'r snapshots"
  w_candidate :: "'r candidate option"
  w_maintenance :: "maintenance_state option"
  w_admin :: "admin_values option"
  w_admin_previous :: "admin_values option"
  w_discovery :: "'r stored_discovery option"
  w_validations :: "validation_record list"
  w_users :: "user dict"
  w_sessions :: "session dict"
  w_tokens :: "token list"
  w_logins :: "pending_login dict"
  w_http :: "http_answer list"
  w_sent :: "http_request list"
  w_discovered :: "discovered option"
  w_jwks :: "json list option"
  w_audit :: "audit_event list"
  w_audit_indexed :: bool
  w_secrets :: "string dict dict"
  w_config_maps :: "string dict dict"
  w_pod :: pod_spec
  w_restarts :: "string list"
  w_live :: live_catalogs
  w_alerts :: "string list"
  w_alert_fault :: "exn option"
  w_clock :: nat
  w_ticks :: "nat list"
  w_uuid :: "nat \<Rightarrow> string"
  w_uuids_drawn :: nat
  w_random :: "nat \<Rightarrow> string"
  w_random_drawn :: nat
  w_actor :: "identity option"
  w_rollouts :: "rollout_state list"
  w_starting :: "bool option list"
  w_ready_workers :: nat
  w_active_workers :: nat
  w_smoke_fault :: "exn option"
  w_smoke_group :: "string list option"
  w_worker_pod :: "pod_spec option"
  w_images :: "string dict"
  w_pods :: "probe_pod list"
  w_labelled :: "string list"
  w_pod_states :: "pod_state list"
  w_pod_logs :: string
  w_probe_starting :: "bool option list"
  w_probe_live :: live_catalogs
  w_unreachable :: "string dict"
  w_probe_answers :: "string option list"
  w_connectors :: "string list option"
  w_connectors_read_at :: "nat option"
  w_queries :: nat
  w_probe :: "fault list"
  w_mongo :: "fault list"
  w_kube :: "fault list"
  w_trino :: "fault list"
  w_engine :: 'e

text \<open>
  A new install: no document stored, no object on the Cluster, every service healthy and the
  identifiers numbered. The concrete inputs of the witnesses are built from it.
\<close>

definition new_install :: "'e \<Rightarrow> ('r, 'e) world" where
  "new_install engine = \<lparr>w_applies = [], w_snapshots = [], w_candidate = None, w_maintenance = None,
     w_admin = None, w_admin_previous = None, w_discovery = None, w_validations = [], w_users = [],
     w_sessions = [], w_tokens = [], w_logins = [], w_http = [], w_sent = [], w_discovered = None, w_jwks = None, w_audit = [], w_audit_indexed = False, w_secrets = [],
     w_config_maps = [], w_pod = \<lparr>ps_containers = [], ps_init_containers = [], ps_volumes = [],
       ps_fs_group = None\<rparr>, w_restarts = [], w_live = [], w_alerts = [], w_alert_fault = None,
     w_clock = 0, w_ticks = [], w_uuid = (\<lambda>n. show_nat n), w_uuids_drawn = 0,
     w_random = (\<lambda>n. show_nat n), w_random_drawn = 0, w_actor = None,
     w_rollouts = [], w_starting = [], w_ready_workers = 0, w_active_workers = 0,
     w_smoke_fault = None, w_smoke_group = None, w_worker_pod = None,
     w_images = [(''trino'', ''trinodb/trino:483'')], w_pods = [], w_labelled = [], w_pod_states = [], w_pod_logs = [],
     w_probe_starting = [], w_probe_live = [], w_unreachable = [],
     w_probe_answers = [], w_connectors = None, w_connectors_read_at = None, w_queries = 0, w_probe = [], w_mongo = [], w_kube = [], w_trino = [], w_engine = engine\<rparr>"

type_synonym ('r, 'e, 'a) act = "(('r, 'e) world, 'a) io"

definition mongo :: "('r, 'e, 'a) act \<Rightarrow> ('r, 'e, 'a) act" where
  "mongo = external w_mongo (\<lambda>q. w_mongo_update (\<lambda>_. q))"

definition kube :: "('r, 'e, 'a) act \<Rightarrow> ('r, 'e, 'a) act" where
  "kube = external w_kube (\<lambda>q. w_kube_update (\<lambda>_. q))"

definition trino :: "('r, 'e, 'a) act \<Rightarrow> ('r, 'e, 'a) act" where
  "trino = external w_trino (\<lambda>q. w_trino_update (\<lambda>_. q))"

definition probe :: "('r, 'e, 'a) act \<Rightarrow> ('r, 'e, 'a) act" where
  "probe = external w_probe (\<lambda>q. w_probe_update (\<lambda>_. q))"

lemmas external_defs = mongo_def kube_def trino_def probe_def

text \<open>A call whose effect is decided by a pure function on the world: it raises or it updates.\<close>

definition update_io :: "(('r, 'e) world \<Rightarrow> exn + ('r, 'e) world) \<Rightarrow> ('r, 'e, unit) act" where
  "update_io f = (\<lambda>w. case f w of Inl e \<Rightarrow> (Inl e, w) | Inr w' \<Rightarrow> (Inr (), w'))"

lemma wp_update_io [simp]:
  "wp (update_io f) Q E w = (case f w of Inl e \<Rightarrow> E e w | Inr w' \<Rightarrow> Q () w')"
  by (simp add: wp_def update_io_def split: sum.splits)

section \<open>Clock and identifiers\<close>

definition sleep :: "nat \<Rightarrow> ('r, 'e, unit) act" where
  "sleep seconds = modify_io (w_clock_update (\<lambda>c. c + seconds))"

definition now_io :: "('r, 'e, nat) act" where
  "now_io = (\<lambda>w. let w' = (case w_ticks w of [] \<Rightarrow> w
       | t # ts \<Rightarrow> w\<lparr>w_clock := w_clock w + t, w_ticks := ts\<rparr>) in (Inr (w_clock w'), w'))"

definition uuid_hex :: "('r, 'e, string) act" where
  "uuid_hex = (\<lambda>w. (Inr (w_uuid w (w_uuids_drawn w)), w\<lparr>w_uuids_drawn := Suc (w_uuids_drawn w)\<rparr>))"

text \<open>\<open>secrets.token_urlsafe\<close>.\<close>

definition token_urlsafe :: "('r, 'e, string) act" where
  "token_urlsafe = (\<lambda>w. (Inr (w_random w (w_random_drawn w)), w\<lparr>w_random_drawn := Suc (w_random_drawn w)\<rparr>))"

text \<open>The next of a list of readings; the last repeats, and no list at all reads \<open>d\<close>.\<close>

definition next_reading ::
  "'a \<Rightarrow> (('r, 'e) world \<Rightarrow> 'a list) \<Rightarrow> ('a list \<Rightarrow> ('r, 'e) world \<Rightarrow> ('r, 'e) world) \<Rightarrow> ('r, 'e, 'a) act" where
  "next_reading d get put = (\<lambda>w. case get w of
      [] \<Rightarrow> (Inr d, w)
    | [x] \<Rightarrow> (Inr x, w)
    | x # xs \<Rightarrow> (Inr x, put xs w))"

section \<open>The Kubernetes adapter\<close>

definition kube_404 :: exn where
  "kube_404 = Raised ApiException ''404''"

text \<open>A read that reports a 404 as absence and lets every other failure through.\<close>

definition or_absent :: "('r, 'e, 'a option) act \<Rightarrow> ('r, 'e, 'a option) act" where
  "or_absent m = try_io (\<lambda>e. e = kube_404) m (\<lambda>_. ret None)"

definition read_secret_if_present :: "string \<Rightarrow> ('r, 'e, string dict option) act" where
  "read_secret_if_present name = or_absent (kube (asks (\<lambda>w. map_of (w_secrets w) name)))"

definition read_secret :: "string \<Rightarrow> ('r, 'e, string dict) act" where
  "read_secret name = bind_io (read_secret_if_present name)
     (\<lambda>d. ret (case d of None \<Rightarrow> [] | Some data \<Rightarrow> data))"

definition read_config_map :: "string \<Rightarrow> ('r, 'e, string dict) act" where
  "read_config_map name = bind_io (or_absent (kube (asks (\<lambda>w. map_of (w_config_maps w) name))))
     (\<lambda>d. ret (case d of None \<Rightarrow> [] | Some data \<Rightarrow> data))"

definition patch_secret :: "string \<Rightarrow> string dict \<Rightarrow> string list \<Rightarrow> ('r, 'e, unit) act" where
  "patch_secret name data nulls = kube (update_io (\<lambda>w. case map_of (w_secrets w) name of
      None \<Rightarrow> Inl kube_404
    | Some current \<Rightarrow> Inr (w\<lparr>w_secrets := AList.update name (merge_patch data nulls current) (w_secrets w)\<rparr>)))"

definition create_secret :: "string \<Rightarrow> string dict \<Rightarrow> ('r, 'e, unit) act" where
  "create_secret name data = kube (update_io (\<lambda>w.
     if has_key (w_secrets w) name then Inl (Raised ApiException ''409'')
     else Inr (w\<lparr>w_secrets := AList.update name data (w_secrets w)\<rparr>)))"

definition write_secret :: "string \<Rightarrow> string dict \<Rightarrow> ('r, 'e, unit) act" where
  "write_secret name data = bind_io (read_secret name) (\<lambda>existing.
     try_io (\<lambda>e. e = kube_404) (patch_secret name data (stale_keys existing data))
       (\<lambda>_. create_secret name data))"

text \<open>A ConfigMap is patched with its data alone: a key that is not in it stays.\<close>

definition write_config_map :: "string \<Rightarrow> string dict \<Rightarrow> ('r, 'e, unit) act" where
  "write_config_map name data =
     try_io (\<lambda>e. e = kube_404)
       (kube (update_io (\<lambda>w. case map_of (w_config_maps w) name of
            None \<Rightarrow> Inl kube_404
          | Some current \<Rightarrow> Inr (w\<lparr>w_config_maps :=
              AList.update name (merge_patch data [] current) (w_config_maps w)\<rparr>))))
       (\<lambda>_. kube (update_io (\<lambda>w.
            if has_key (w_config_maps w) name then Inl (Raised ApiException ''409'')
            else Inr (w\<lparr>w_config_maps := AList.update name data (w_config_maps w)\<rparr>))))"

definition deployment_pod_spec :: "('r, 'e, pod_spec) act" where
  "deployment_pod_spec = kube (asks w_pod)"

text \<open>\<open>_patch_deployment\<close>: the API server refuses a template it would not admit.\<close>

definition patch_template :: "(pod_spec \<Rightarrow> pod_spec) \<Rightarrow> ('r, 'e, unit) act" where
  "patch_template f = kube (update_io (\<lambda>w.
     if valid_template (f (w_pod w)) then Inr (w\<lparr>w_pod := f (w_pod w)\<rparr>)
     else Inl (Raised ApiException ''422'')))"

definition mount_secret_file ::
  "string \<Rightarrow> string \<Rightarrow> string \<Rightarrow> string \<Rightarrow> string \<Rightarrow> ('r, 'e, unit) act" where
  "mount_secret_file cont volume secret path key =
     bind_io deployment_pod_spec (\<lambda>spec.
       patch_template (mount_patch cont volume secret
         (if ps_fs_group spec \<noteq> None then Some CREDENTIAL_FILE_MODE else None) path key))"

definition unmount_secret_files ::
  "string \<Rightarrow> string \<Rightarrow> string list \<Rightarrow> bool \<Rightarrow> ('r, 'e, unit) act" where
  "unmount_secret_files cont volume paths drop_volume =
     patch_template (unmount_patch cont volume paths drop_volume)"

definition restart_deployment :: "string \<Rightarrow> ('r, 'e, unit) act" where
  "restart_deployment reason = kube (modify_io (w_restarts_update (\<lambda>rs. rs @ [reason])))"

definition healthy_rollout :: rollout_state where
  "healthy_rollout = \<lparr>ro_generation = 0, ro_observed_generation = 0, ro_replicas = 0,
     ro_updated = 0, ro_ready = 0, ro_unavailable = 0\<rparr>"

definition rollout_state_io :: "('r, 'e, rollout_state) act" where
  "rollout_state_io = kube (next_reading healthy_rollout w_rollouts (\<lambda>xs. w_rollouts_update (\<lambda>_. xs)))"

definition ready_replicas :: "('r, 'e, nat) act" where
  "ready_replicas = kube (asks w_ready_workers)"

subsection \<open>The validation pod and its Secret\<close>

definition deployment_pod_spec_if_present :: "('r, 'e, pod_spec option) act" where
  "deployment_pod_spec_if_present = or_absent (kube (asks w_worker_pod))"

definition deployment_image :: "string \<Rightarrow> ('r, 'e, string) act" where
  "deployment_image cont = bind_io (kube (asks (\<lambda>w. map_of (w_images w) cont))) (\<lambda>image. case image of
      None \<Rightarrow> raise_io (Raised LookupError cont)
    | Some i \<Rightarrow> ret i)"

definition create_pod :: "probe_pod \<Rightarrow> ('r, 'e, unit) act" where
  "create_pod p = kube (update_io (\<lambda>w.
     if pr_name p \<in> set (map pr_name (w_pods w)) then Inl (Raised ApiException ''409'')
     else Inr (w\<lparr>w_pods := w_pods w @ [p]\<rparr>)))"

definition create_labelled_secret :: "string \<Rightarrow> string dict \<Rightarrow> ('r, 'e, unit) act" where
  "create_labelled_secret name data = kube (update_io (\<lambda>w.
     if has_key (w_secrets w) name then Inl (Raised ApiException ''409'')
     else Inr (w\<lparr>w_secrets := AList.update name data (w_secrets w), w_labelled := w_labelled w @ [name]\<rparr>)))"

text \<open>One already gone is the outcome the caller wanted.\<close>

definition or_gone :: "('r, 'e, unit) act \<Rightarrow> ('r, 'e, unit) act" where
  "or_gone m = try_io (\<lambda>e. e = kube_404) m (\<lambda>_. ret ())"

definition delete_secret :: "string \<Rightarrow> ('r, 'e, unit) act" where
  "delete_secret name = or_gone (kube (update_io (\<lambda>w.
     if \<not> has_key (w_secrets w) name then Inl kube_404
     else Inr (w\<lparr>w_secrets := AList.delete name (w_secrets w),
        w_labelled := filter (\<lambda>n. n \<noteq> name) (w_labelled w)\<rparr>))))"

definition delete_pod :: "string \<Rightarrow> ('r, 'e, unit) act" where
  "delete_pod name = or_gone (kube (update_io (\<lambda>w.
     if name \<notin> set (map pr_name (w_pods w)) then Inl kube_404
     else Inr (w\<lparr>w_pods := filter (\<lambda>p. pr_name p \<noteq> name) (w_pods w)\<rparr>))))"

definition delete_pods :: "('r, 'e, string list) act" where
  "delete_pods = bind_io (kube (asks (\<lambda>w. map pr_name (w_pods w)))) (\<lambda>names.
     then_io (for_io delete_pod names) (ret names))"

definition delete_secrets :: "('r, 'e, string list) act" where
  "delete_secrets = bind_io (kube (asks w_labelled)) (\<lambda>names.
     then_io (for_io delete_secret names) (ret names))"

definition serving_pod :: pod_state where
  "serving_pod = \<lparr>po_phase = ''Running'', po_host = Some ''10.0.0.1'', po_problem = None\<rparr>"

definition pod_state_io :: "string \<Rightarrow> ('r, 'e, pod_state) act" where
  "pod_state_io name = try_io (\<lambda>e. e = kube_404)
     (kube (bind_io (asks (\<lambda>w. name \<in> set (map pr_name (w_pods w)))) (\<lambda>there.
        if there then next_reading serving_pod w_pod_states (\<lambda>xs. w_pod_states_update (\<lambda>_. xs))
        else raise_io kube_404)))
     (\<lambda>_. ret \<lparr>po_phase = ''Missing'', po_host = None, po_problem = Some ''the pod no longer exists''\<rparr>)"

fun is_api :: "exn \<Rightarrow> bool" where
  "is_api (Raised ApiException _) = True"
| "is_api _ = False"

definition pod_logs :: "string \<Rightarrow> ('r, 'e, string) act" where
  "pod_logs name = try_io is_api (kube (asks w_pod_logs)) (\<lambda>_. ret [])"

section \<open>The Trino adapter\<close>

definition connector_name_ok :: "string \<Rightarrow> bool" where
  "connector_name_ok v \<longleftrightarrow> v \<noteq> [] \<and> list_all (\<lambda>c. (CHR ''a'' \<le> c \<and> c \<le> CHR ''z'')
     \<or> (CHR ''0'' \<le> c \<and> c \<le> CHR ''9'') \<or> c = CHR ''_'' \<or> c = CHR ''-'') v"

definition trino_catalogs :: "('r, 'e, string list) act" where
  "trino_catalogs = trino (asks (\<lambda>w. dict_keys (w_live w)))"

definition create_catalog_stmt :: "string \<Rightarrow> string \<Rightarrow> string dict \<Rightarrow> ('r, 'e, unit) act" where
  "create_catalog_stmt name connector properties =
     (if \<not> connector_name_ok connector then raise_io (Raised ValueError connector)
      else trino (update_io (\<lambda>w.
        if has_key (w_live w) name then Inl (Raised TrinoError ''already exists'')
        else Inr (w\<lparr>w_live := AList.update name (connector, properties) (w_live w)\<rparr>))))"

definition drop_catalog_stmt :: "string \<Rightarrow> ('r, 'e, unit) act" where
  "drop_catalog_stmt name = trino (update_io (\<lambda>w.
     if has_key (w_live w) name then Inr (w\<lparr>w_live := AList.delete name (w_live w)\<rparr>)
     else Inl (Raised TrinoError ''does not exist'')))"

text \<open>\<open>is_starting\<close> answers \<open>None\<close> for every failure, so nothing is raised.\<close>

definition is_starting :: "('r, 'e, bool option) act" where
  "is_starting = next_reading (Some False) w_starting (\<lambda>xs. w_starting_update (\<lambda>_. xs))"

definition active_worker_count :: "('r, 'e, nat) act" where
  "active_worker_count = trino (asks w_active_workers)"

definition smoke_query :: "('r, 'e, unit) act" where
  "smoke_query = trino (\<lambda>w. (case w_smoke_fault w of None \<Rightarrow> Inr () | Some e \<Rightarrow> Inl e, w))"

subsection \<open>The validation coordinator\<close>

definition probe_starting :: "('r, 'e, bool option) act" where
  "probe_starting = next_reading (Some False) w_probe_starting (\<lambda>xs. w_probe_starting_update (\<lambda>_. xs))"

definition probe_create_catalog :: "string \<Rightarrow> string \<Rightarrow> string dict \<Rightarrow> ('r, 'e, unit) act" where
  "probe_create_catalog name connector properties =
     (if \<not> connector_name_ok connector then raise_io (Raised ValueError connector)
      else probe (update_io (\<lambda>w.
        if has_key (w_probe_live w) name then Inl (Raised TrinoError ''already exists'')
        else Inr (w\<lparr>w_probe_live := AList.update name (connector, properties) (w_probe_live w)\<rparr>))))"

text \<open>\<open>SHOW SCHEMAS\<close>: the world says which catalogs cannot be reached, and in what words.\<close>

definition schemas_of :: "string \<Rightarrow> ('r, 'e, unit) act" where
  "schemas_of catalog = probe (\<lambda>w. (case map_of (w_unreachable w) catalog of
      None \<Rightarrow> Inr () | Some why \<Rightarrow> Inl (Raised TrinoError why), w))"

lemmas validation_defs = deployment_pod_spec_if_present_def deployment_image_def create_pod_def
  create_labelled_secret_def or_gone_def delete_secret_def delete_pod_def delete_pods_def delete_secrets_def
  pod_state_io_def pod_logs_def probe_starting_def probe_create_catalog_def schemas_of_def

lemmas adapter_defs = or_absent_def read_secret_if_present_def read_secret_def read_config_map_def
  patch_secret_def create_secret_def write_secret_def write_config_map_def
  deployment_pod_spec_def patch_template_def mount_secret_file_def unmount_secret_files_def
  restart_deployment_def rollout_state_io_def ready_replicas_def trino_catalogs_def
  create_catalog_stmt_def drop_catalog_stmt_def is_starting_def active_worker_count_def
  smoke_query_def

end
