(* ===== verification/Stores.thy ===== *)
theory Stores
  imports World
begin

text \<open>
  The stores as calls on the world: the audit trail's \<open>AuditStore\<close> (\<open>app/audit/events.py\<close>),
  \<open>ApplyStore\<close> (\<open>app/pipeline/applies.py\<close>), \<open>SnapshotStore\<close> (\<open>app/pipeline/snapshots.py\<close>),
  \<open>MaintenanceStore\<close> (\<open>app/pipeline/maintenance.py\<close>) and the high-water mark
  (\<open>app/pipeline/high_water.py\<close>). Each awaits in the order the code awaits, so a fault can
  fall between any two of them.
\<close>

section \<open>The audit trail\<close>

definition ensure_indexes :: "nat option \<Rightarrow> ('r, 'e, unit) act" where
  "ensure_indexes retention_days =
     then_io (mongo (ret ())) (then_io (mongo (ret ())) (then_io (mongo (ret ()))
       (when_io (retention_days \<noteq> None) (mongo (ret ())))))"

text \<open>Once per process, and only a success is remembered.\<close>

definition indexed_once :: "settings \<Rightarrow> ('r, 'e, unit) act" where
  "indexed_once s = bind_io (asks w_audit_indexed) (\<lambda>done.
     if done then ret ()
     else then_io (ensure_indexes (st_audit_retention s)) (modify_io (w_audit_indexed_update (\<lambda>_. True))))"

definition audit_record ::
  "settings \<Rightarrow> identity \<Rightarrow> string option \<Rightarrow> entry \<Rightarrow> ('r, 'e, unit) act" where
  "audit_record s who apply_id e =
     then_io (indexed_once s) (bind_io now_io (\<lambda>now. bind_io uuid_hex (\<lambda>ident.
       mongo (modify_io (w_audit_update (\<lambda>db. db @ [event_of who ident now apply_id e]))))))"

definition audit_record_each ::
  "settings \<Rightarrow> identity \<Rightarrow> string option \<Rightarrow> entry list \<Rightarrow> ('r, 'e, unit) act" where
  "audit_record_each s who apply_id entries =
     (if entries = [] then ret ()
      else bind_io now_io (\<lambda>now. then_io (indexed_once s)
        (bind_io (collect_io (\<lambda>_. uuid_hex) entries) (\<lambda>idents.
          mongo (modify_io (w_audit_update (\<lambda>db.
            db @ map2 (\<lambda>ident. event_of who ident now apply_id) idents entries)))))))"

definition actor_io :: "('r, 'e, identity) act" where
  "actor_io = asks (\<lambda>w. actor (w_actor w))"

section \<open>Applies\<close>

definition update_apply :: "(applies \<Rightarrow> applies) \<Rightarrow> ('r, 'e, unit) act" where
  "update_apply f = mongo (modify_io (w_applies_update f))"

definition create_io :: "int option \<Rightarrow> ('r, 'e, apply_record) act" where
  "create_io base_snapshot = bind_io now_io (\<lambda>now. bind_io uuid_hex (\<lambda>hex.
     let record = new_record (''apl_'' @ take 16 hex) now base_snapshot in
     then_io (mongo (update_io (\<lambda>w. case create_apply record (w_applies w) of
         Inl e \<Rightarrow> Inl e | Inr db \<Rightarrow> Inr (w\<lparr>w_applies := db\<rparr>))))
       (ret record)))"

definition get_io :: "string \<Rightarrow> ('r, 'e, apply_record option) act" where
  "get_io apply_id = mongo (asks (\<lambda>w. get_apply apply_id (w_applies w)))"

definition in_flight_io :: "('r, 'e, apply_record option) act" where
  "in_flight_io = mongo (asks (\<lambda>w. in_flight (w_applies w)))"

definition advance_io :: "string \<Rightarrow> stage \<Rightarrow> string option \<Rightarrow> ('r, 'e, unit) act" where
  "advance_io apply_id st detail = bind_io now_io (\<lambda>now. update_apply (advance apply_id st detail now))"

definition record_snapshot_io :: "string \<Rightarrow> int \<Rightarrow> ('r, 'e, unit) act" where
  "record_snapshot_io apply_id number = update_apply (record_snapshot apply_id number)"

definition record_warnings_io :: "string \<Rightarrow> validation_failure list \<Rightarrow> ('r, 'e, unit) act" where
  "record_warnings_io apply_id ws = update_apply (record_warnings apply_id ws)"

definition fail_io :: "string \<Rightarrow> string \<Rightarrow> ('r, 'e, unit) act" where
  "fail_io apply_id reason = then_io (update_apply (set_failure_reason apply_id reason))
     (advance_io apply_id FAILED (Some reason))"

definition mark_interrupted_io :: "string \<Rightarrow> ('r, 'e, unit) act" where
  "mark_interrupted_io apply_id = update_apply (mark_interrupted apply_id)"

definition record_rollback_io :: "string \<Rightarrow> rollback \<Rightarrow> ('r, 'e, unit) act" where
  "record_rollback_io apply_id out = update_apply (record_rollback apply_id out)"

definition declare_incident_io :: "string \<Rightarrow> string \<Rightarrow> string \<Rightarrow> ('r, 'e, unit) act" where
  "declare_incident_io apply_id reason message =
     then_io (update_apply (set_incident apply_id reason message))
       (advance_io apply_id INCIDENT (Some message))"

section \<open>Snapshots\<close>

definition latest_io :: "('r, 'e, 'r snapshot option) act" where
  "latest_io = mongo (asks (\<lambda>w. latest (w_snapshots w)))"

definition get_snapshot_io :: "int \<Rightarrow> ('r, 'e, 'r snapshot option) act" where
  "get_snapshot_io number = mongo (asks (\<lambda>w. get_snapshot number (w_snapshots w)))"

text \<open>The empty baseline costs no query.\<close>

definition sections_of_io :: "int option \<Rightarrow> ('r, 'e, 'r sections) act" where
  "sections_of_io number = (case number of
      None \<Rightarrow> ret empty_sections
    | Some n \<Rightarrow> bind_io (get_snapshot_io n) (\<lambda>s. case s of
        None \<Rightarrow> ret empty_sections
      | Some sn \<Rightarrow> ret (all_sections (sn_sections sn))))"

definition commit_snapshot_io :: "'r sections \<Rightarrow> string \<Rightarrow> ('r, 'e, 'r snapshot) act" where
  "commit_snapshot_io sections apply_id = bind_io latest_io (\<lambda>previous. bind_io now_io (\<lambda>now.
     let snap = build_snapshot previous sections apply_id now in
     then_io (mongo (update_io (\<lambda>w. case insert_snapshot snap (w_snapshots w) of
         Inl e \<Rightarrow> Inl e | Inr db \<Rightarrow> Inr (w\<lparr>w_snapshots := db\<rparr>))))
       (ret snap)))"

section \<open>Maintenance Mode\<close>

definition not_engaged :: maintenance_state where
  "not_engaged = \<lparr>ms_engaged = False, ms_reason = None, ms_engaged_by = None, ms_engaged_at = None\<rparr>"

fun engaged_by_value :: "engaged_by \<Rightarrow> string" where
  "engaged_by_value By_Admin = ''admin''"
| "engaged_by_value By_Auto_Rollback_Failure = ''auto_rollback_failure''"

definition maintenance_get :: "('r, 'e, maintenance_state) act" where
  "maintenance_get = mongo (asks (\<lambda>w. case w_maintenance w of None \<Rightarrow> not_engaged | Some m \<Rightarrow> m))"

definition maintenance_save :: "maintenance_state \<Rightarrow> ('r, 'e, unit) act" where
  "maintenance_save m = mongo (modify_io (w_maintenance_update (\<lambda>_. Some m)))"

text \<open>Never fatal: a failed audit write is logged, anything else goes through.\<close>

definition maintenance_audited ::
  "settings \<Rightarrow> action \<Rightarrow> string option \<Rightarrow> engaged_by \<Rightarrow> ('r, 'e, unit) act" where
  "maintenance_audited s act detail by =
     bind_io (if by = By_Auto_Rollback_Failure then ret SYSTEM_ACTOR else actor_io) (\<lambda>who.
       try_io is_pymongo
         (audit_record s who None
           ((mk_entry ADMIN_CATEGORY act (Some ''maintenance_mode''))\<lparr>en_detail := detail\<rparr>))
         (\<lambda>_. ret ()))"

definition engage :: "settings \<Rightarrow> string \<Rightarrow> engaged_by \<Rightarrow> ('r, 'e, maintenance_state) act" where
  "engage s reason by = bind_io now_io (\<lambda>now.
     let m = \<lparr>ms_engaged = True, ms_reason = Some reason, ms_engaged_by = Some by,
              ms_engaged_at = Some now\<rparr> in
     then_io (maintenance_save m)
       (then_io (maintenance_audited s Engaged
           (Some (''engaged by '' @ engaged_by_value by @ '': '' @ reason)) by)
         (ret m)))"

definition release :: "settings \<Rightarrow> ('r, 'e, maintenance_state) act" where
  "release s = then_io (maintenance_save not_engaged)
     (then_io (maintenance_audited s Released None By_Admin) (ret not_engaged))"

section \<open>The high-water mark\<close>

definition HIGHEST_KEY :: string where "HIGHEST_KEY = ''highest_snapshot''"

definition mark_read :: "settings \<Rightarrow> ('r, 'e, nat option) act" where
  "mark_read s = bind_io (read_config_map (st_high_water s)) (\<lambda>data.
     ret (case map_of data HIGHEST_KEY of None \<Rightarrow> None | Some text \<Rightarrow> read_nat text))"

definition mark_record :: "settings \<Rightarrow> nat \<Rightarrow> ('r, 'e, unit) act" where
  "mark_record s number = bind_io (mark_read s) (\<lambda>current.
     if (case current of None \<Rightarrow> False | Some c \<Rightarrow> number \<le> c) then ret ()
     else write_config_map (st_high_water s) [(HIGHEST_KEY, show_nat number)])"

section \<open>Lemmas\<close>

text \<open>The mark's value, read off the world.\<close>

definition mark_of :: "settings \<Rightarrow> ('r, 'e) world \<Rightarrow> nat option" where
  "mark_of s w = (case map_of (w_config_maps w) (st_high_water s) of None \<Rightarrow> None
     | Some data \<Rightarrow> (case map_of data HIGHEST_KEY of None \<Rightarrow> None | Some t \<Rightarrow> read_nat t))"

lemmas store_io_defs = ensure_indexes_def indexed_once_def audit_record_def audit_record_each_def
  actor_io_def update_apply_def create_io_def get_io_def in_flight_io_def advance_io_def
  record_snapshot_io_def record_warnings_io_def fail_io_def mark_interrupted_io_def
  record_rollback_io_def declare_incident_io_def latest_io_def get_snapshot_io_def
  sections_of_io_def commit_snapshot_io_def maintenance_get_def maintenance_save_def
  maintenance_audited_def engage_def release_def mark_read_def mark_record_def

end
