(* ===== verification/Runner.thy ===== *)
theory Runner
  imports Stores
begin

text \<open>
  Driving an Apply through its stages (\<open>app/pipeline/applies.py\<close>): the \<open>ApplyEngine\<close> protocol
  as a record of operations, \<open>ApplyRunner._run\<close> and \<open>_roll_back\<close>, and the recovery of the Applies
  a restart interrupted. The runner knows nothing of what an engine does; what it relies on is
  the locale \<open>apply_engine\<close>: an engine's stages leave the Apply records and the health of
  MongoDB alone, and \<open>guarded_engine\<close>: declaring an incident engages Maintenance Mode.
\<close>

section \<open>The engine's interface\<close>

record ('r, 'e) engine_ops =
  eo_init :: "string \<Rightarrow> ('r, 'e, unit) act"
  eo_validate :: "('r, 'e, unit) act"
  eo_apply :: "('r, 'e, unit) act"
  eo_verify :: "('r, 'e, unit) act"
  eo_commit :: "('r, 'e, int option) act"
  eo_rollout_needed :: "('r, 'e) world \<Rightarrow> bool"
  eo_warnings :: "('r, 'e) world \<Rightarrow> validation_failure list"
  eo_roll_out :: "('r, 'e, unit) act"
  eo_roll_back :: "('r, 'e, unit) act"
  eo_declare_incident :: "string \<Rightarrow> ('r, 'e, unit) act"

definition no_op_engine :: "('r, unit) engine_ops" where
  "no_op_engine = \<lparr>eo_init = (\<lambda>_. ret ()), eo_validate = ret (), eo_apply = ret (), eo_verify = ret (),
     eo_commit = ret None, eo_rollout_needed = (\<lambda>_. False), eo_warnings = (\<lambda>_. []),
     eo_roll_out = ret (), eo_roll_back = ret (), eo_declare_incident = (\<lambda>_. ret ())\<rparr>"

section \<open>ApplyRunner\<close>

definition INCIDENT_MESSAGE :: string where
  "INCIDENT_MESSAGE = ''The Trino cluster is currently unhealthy after applying configuration. Please contact our team.''"

text \<open>What a runner is built with: the settings of its stores and its audit category.\<close>

record runner =
  rn_settings :: settings
  rn_category :: category

definition audited ::
  "runner \<Rightarrow> identity \<Rightarrow> string \<Rightarrow> action \<Rightarrow> int option \<Rightarrow> outcome \<Rightarrow> string option \<Rightarrow> ('r, 'e, unit) act" where
  "audited rn who apply_id act snap out detail =
     try_io is_pymongo
       (audit_record (rn_settings rn) who (Some apply_id)
         \<lparr>en_category = rn_category rn, en_action = act, en_resource = None, en_snapshot = snap,
          en_outcome = out, en_detail = detail\<rparr>)
       (\<lambda>_. ret ())"

definition step_of :: "('r, 'e) engine_ops \<Rightarrow> stage \<Rightarrow> ('r, 'e, int option) act" where
  "step_of eo st = (case st of
      VALIDATING \<Rightarrow> then_io (eo_validate eo) (ret None)
    | APPLYING \<Rightarrow> then_io (eo_apply eo) (ret None)
    | ROLLING_OUT \<Rightarrow> then_io (eo_roll_out eo) (ret None)
    | VERIFYING \<Rightarrow> then_io (eo_verify eo) (ret None)
    | COMMITTING \<Rightarrow> eo_commit eo
    | _ \<Rightarrow> ret None)"

text \<open>The first stage is recorded at creation; warnings are recorded as soon as Validation ends.\<close>

definition run_stage :: "('r, 'e) engine_ops \<Rightarrow> string \<Rightarrow> stage \<Rightarrow> ('r, 'e, int option) act" where
  "run_stage eo apply_id st =
     then_io (when_io (st \<noteq> VALIDATING) (advance_io apply_id st None))
       (bind_io (step_of eo st) (\<lambda>result.
         then_io (when_io (st = VALIDATING)
             (bind_io (asks (eo_warnings eo)) (record_warnings_io apply_id)))
           (ret (if st = COMMITTING then result else None))))"

text \<open>
  The loop over the steps, with the local \<open>reached\<close> and \<open>snapshot\<close> the handler reads: how far it
  got, and what stopped it or the Snapshot it committed.
\<close>

definition attempt :: "('w, 'a) io \<Rightarrow> ('w, exn + 'a) io" where
  "attempt m = (\<lambda>w. case m w of (r, w') \<Rightarrow> (Inr r, w'))"

fun run_steps ::
  "('r, 'e) engine_ops \<Rightarrow> string \<Rightarrow> stage list \<Rightarrow> stage \<Rightarrow> int option \<Rightarrow>
     ('r, 'e, stage \<times> (exn + int option)) act" where
  "run_steps eo apply_id [] reached snap = ret (reached, Inr snap)"
| "run_steps eo apply_id (st # sts) reached snap =
     bind_io (asks (eo_rollout_needed eo)) (\<lambda>needed.
       if st = ROLLING_OUT \<and> \<not> needed then run_steps eo apply_id sts reached snap
       else bind_io (attempt (run_stage eo apply_id st)) (\<lambda>r. case r of
           Inl e \<Rightarrow> ret (st, Inl e)
         | Inr result \<Rightarrow> run_steps eo apply_id sts st (if result = None then snap else result)))"

definition finish :: "runner \<Rightarrow> string \<Rightarrow> identity \<Rightarrow> int option \<Rightarrow> ('r, 'e, unit) act" where
  "finish rn apply_id who snap =
     then_io (case snap of None \<Rightarrow> ret () | Some n \<Rightarrow> record_snapshot_io apply_id n)
       (then_io (advance_io apply_id SUCCEEDED None)
         (audited rn who apply_id Applied snap Succeeded None))"

definition roll_back :: "runner \<Rightarrow> ('r, 'e) engine_ops \<Rightarrow> string \<Rightarrow> string \<Rightarrow> ('r, 'e, unit) act" where
  "roll_back rn eo apply_id reason =
     then_io (advance_io apply_id ROLLING_BACK (Some reason))
       (try_else_io is_exception (eo_roll_back eo)
         (\<lambda>exc. let combined = reason @ ''. Auto Rollback then failed: '' @ exn_message exc in
            then_io (record_rollback_io apply_id Rollback_Failed)
              (then_io (eo_declare_incident eo combined)
                (then_io (declare_incident_io apply_id combined INCIDENT_MESSAGE)
                  (audited rn SYSTEM_ACTOR apply_id Rolled_Back None Failed (Some combined)))))
         (\<lambda>_. then_io (record_rollback_io apply_id Rollback_Succeeded)
            (then_io (fail_io apply_id reason)
              (audited rn SYSTEM_ACTOR apply_id Rolled_Back None Succeeded (Some reason)))))"

definition failure_reason :: "exn \<Rightarrow> string" where
  "failure_reason e = exn_type_name e @ '': '' @ exn_message e"

definition handle_failure ::
  "runner \<Rightarrow> ('r, 'e) engine_ops \<Rightarrow> string \<Rightarrow> identity \<Rightarrow> stage \<Rightarrow> exn \<Rightarrow> ('r, 'e, unit) act" where
  "handle_failure rn eo apply_id who reached e =
     (let reason = failure_reason e in
      then_io (audited rn who apply_id Applied None Failed
          (Some (''failed in '' @ stage_value reached @ '': '' @ reason)))
        (if reached \<in> set ROLLED_BACK_FROM then roll_back rn eo apply_id reason
         else fail_io apply_id reason))"

definition run :: "runner \<Rightarrow> ('r, 'e) engine_ops \<Rightarrow> string \<Rightarrow> identity \<Rightarrow> ('r, 'e, unit) act" where
  "run rn eo apply_id who =
     then_io (eo_init eo apply_id)
       (bind_io (run_steps eo apply_id PIPELINE VALIDATING None) (\<lambda>(reached, out).
         bind_io (case out of
             Inl e \<Rightarrow> ret (Inl e)
           | Inr snap \<Rightarrow> attempt (finish rn apply_id who snap)) (\<lambda>r. case r of
             Inr _ \<Rightarrow> ret ()
           | Inl e \<Rightarrow> if is_exception e then handle_failure rn eo apply_id who reached e
                      else raise_io e)))"

section \<open>Recovery after a restart\<close>

definition INTERRUPTED_REASON :: string where
  "INTERRUPTED_REASON = ''Apchi restarted while this Apply was in flight; it was not completed.''"

definition restore_after_interruption :: "('r, 'e) engine_ops \<Rightarrow> string \<Rightarrow> ('r, 'e, unit) act" where
  "restore_after_interruption eo apply_id =
     then_io (eo_init eo apply_id)
       (try_else_io is_exception (eo_roll_back eo)
         (\<lambda>exc. let reason = INTERRUPTED_REASON @ '' Auto Rollback then failed: '' @ exn_message exc in
            then_io (record_rollback_io apply_id Rollback_Failed)
              (then_io (eo_declare_incident eo reason)
                (declare_incident_io apply_id reason INCIDENT_MESSAGE)))
         (\<lambda>_. record_rollback_io apply_id Rollback_Succeeded))"

definition recover_one ::
  "settings \<Rightarrow> ('r, 'e) engine_ops \<Rightarrow> bool \<Rightarrow> apply_record \<Rightarrow> ('r, 'e, unit) act" where
  "recover_one s eo audit r =
     then_io (mark_interrupted_io (ap_id r))
       (then_io (fail_io (ap_id r) INTERRUPTED_REASON)
         (then_io (when_io audit (try_io is_pymongo
             (audit_record s SYSTEM_ACTOR (Some (ap_id r))
               \<lparr>en_category = PIPELINE_CATEGORY, en_action = Applied, en_resource = None,
                en_snapshot = None, en_outcome = Failed,
                en_detail = Some (''interrupted in '' @ stage_value (ap_stage r)
                  @ '' by a restart; not completed'')\<rparr>)
             (\<lambda>_. ret ())))
           (when_io (ap_stage r \<in> set ROLLED_BACK_FROM) (restore_after_interruption eo (ap_id r)))))"

text \<open>
  \<open>while (record := await store.in_flight()) is not None\<close>, with fuel: \<open>None\<close> is a loop that has
  not ended yet.
\<close>

fun recover_interrupted ::
  "settings \<Rightarrow> ('r, 'e) engine_ops \<Rightarrow> bool \<Rightarrow> nat \<Rightarrow> ('r, 'e, string list option) act" where
  "recover_interrupted s eo audit 0 = ret None"
| "recover_interrupted s eo audit (Suc fuel) = bind_io in_flight_io (\<lambda>found. case found of
      None \<Rightarrow> ret (Some [])
    | Some r \<Rightarrow> then_io (recover_one s eo audit r)
        (bind_io (recover_interrupted s eo audit fuel) (\<lambda>rest. ret (map_option ((#) (ap_id r)) rest))))"

section \<open>What the runner relies on\<close>

text \<open>An engine step touches no Apply record and leaves a healthy MongoDB healthy.\<close>

definition frame :: "('r, 'e) world \<Rightarrow> ('r, 'e) world \<Rightarrow> bool" where
  "frame w w' \<longleftrightarrow> w_applies w' = w_applies w \<and> (w_mongo w = [] \<longrightarrow> w_mongo w' = [])"

interpretation frame: step_order frame
  by unfold_locales (auto simp: frame_def)

locale apply_engine =
  fixes eo :: "('r, 'e) engine_ops"
  assumes init_frame: "within frame (eo_init eo i)"
    and validate_frame: "within frame (eo_validate eo)"
    and apply_frame: "within frame (eo_apply eo)"
    and roll_out_frame: "within frame (eo_roll_out eo)"
    and verify_frame: "within frame (eo_verify eo)"
    and commit_frame: "within frame (eo_commit eo)"
    and roll_back_frame: "within frame (eo_roll_back eo)"
    and incident_frame: "within frame (eo_declare_incident eo why)"

definition engaged :: "('r, 'e) world \<Rightarrow> bool" where
  "engaged w \<longleftrightarrow> (\<exists>m. w_maintenance w = Some m \<and> ms_engaged m)"

locale guarded_engine = apply_engine eo for eo :: "('r, 'e) engine_ops" +
  assumes init_quiet: "wp (eo_init eo i) (\<lambda>_ _. True) (\<lambda>_ _. False) w"
    and incident_engages: "wp (eo_declare_incident eo why) (\<lambda>_. engaged) (\<lambda>_ _. True) w"
    and incident_quiet: "w_mongo w = [] \<Longrightarrow>
      wp (eo_declare_incident eo why) (\<lambda>_ _. True) (\<lambda>e _. e = Cancelled) w"

interpretation no_op: apply_engine no_op_engine
  by unfold_locales (auto simp: no_op_engine_def)

end
