(* ===== verification/Store_Rules.thy ===== *)
theory Store_Rules
  imports Stores
begin

text \<open>
  Weakest-precondition rules for the stores while MongoDB is healthy (its fault queue is
  empty): what each operation does to the Apply records, with everything outside the
  bookkeeping unchanged. \<open>outside w\<close> is the world with the bookkeeping blanked, so
  \<open>outside w' = outside w\<close> says the Cluster, the Candidate, the Snapshots and the engine are
  as they were.
\<close>

named_theorems store_rules

definition outside :: "('r, 'e) world \<Rightarrow> ('r, 'e) world" where
  "outside w = w\<lparr>w_applies := [], w_clock := 0, w_ticks := [], w_audit := [],
     w_audit_indexed := False, w_uuids_drawn := 0, w_mongo := []\<rparr>"

lemma outside_fields:
  assumes "outside w' = outside w"
  shows "w_maintenance w' = w_maintenance w" "w_snapshots w' = w_snapshots w"
    "w_candidate w' = w_candidate w" "w_admin w' = w_admin w" "w_admin_previous w' = w_admin_previous w"
    "w_secrets w' = w_secrets w" "w_config_maps w' = w_config_maps w" "w_pod w' = w_pod w"
    "w_live w' = w_live w" "w_engine w' = w_engine w" "w_restarts w' = w_restarts w"
    "w_kube w' = w_kube w" "w_trino w' = w_trino w"
proof -
  have "f w' = f w" if "\<And>v. f (outside v) = f v" for f
    using assms that by metis
  note this [of w_maintenance] this [of w_snapshots] this [of w_candidate] this [of w_admin]
    this [of w_admin_previous] this [of w_secrets] this [of w_config_maps] this [of w_pod]
    this [of w_live] this [of w_engine] this [of w_restarts] this [of w_kube] this [of w_trino]
  then show "w_maintenance w' = w_maintenance w" "w_snapshots w' = w_snapshots w"
    "w_candidate w' = w_candidate w" "w_admin w' = w_admin w" "w_admin_previous w' = w_admin_previous w"
    "w_secrets w' = w_secrets w" "w_config_maps w' = w_config_maps w" "w_pod w' = w_pod w"
    "w_live w' = w_live w" "w_engine w' = w_engine w" "w_restarts w' = w_restarts w"
    "w_kube w' = w_kube w" "w_trino w' = w_trino w"
    by (simp_all add: outside_def)
qed

text \<open>The world after some bookkeeping: the records are \<open>db\<close>, nothing outside moved.\<close>

definition booked :: "('r, 'e) world \<Rightarrow> applies \<Rightarrow> ('r, 'e) world \<Rightarrow> bool" where
  "booked w db w' \<longleftrightarrow> w_mongo w' = [] \<and> w_applies w' = db \<and> outside w' = outside w"

lemma bookedD:
  assumes "booked w db w'"
  shows "w_mongo w' = []" "w_applies w' = db" "outside w' = outside w"
  using assms by (simp_all add: booked_def)

lemma wp_now_io: "wp now_io Q E w = (\<exists>n w'. now_io w = (Inr n, w') \<and> Q n w')"
  by (auto simp: wp_def now_io_def Let_def)

lemma now_io_booked:
  assumes "w_mongo w = []" and "\<And>n w'. booked w (w_applies w) w' \<Longrightarrow> Q n w'"
  shows "wp now_io Q E w"
  using assms(1) unfolding wp_def now_io_def Let_def
  by (auto intro!: assms(2) simp: booked_def outside_def split: list.split)

lemma uuid_booked:
  assumes "w_mongo w = []" and "\<And>n w'. booked w (w_applies w) w' \<Longrightarrow> Q n w'"
  shows "wp uuid_hex Q E w"
  using assms(1) unfolding wp_def uuid_hex_def
  by (auto intro!: assms(2) simp: booked_def outside_def)

lemma wp_mongo_healthy [simp]: "w_mongo w = [] \<Longrightarrow> wp (mongo m) Q E w = wp m Q E w"
  by (simp add: mongo_def)

lemma booked_trans:
  "booked w db w' \<Longrightarrow> booked w' db' w'' \<Longrightarrow> booked w db' w''"
  by (simp add: booked_def)

lemma wp_update_apply [store_rules]:
  assumes "w_mongo w = []" and "\<And>w'. booked w (f (w_applies w)) w' \<Longrightarrow> Q () w'"
  shows "wp (update_apply f) Q E w"
  using assms(1) by (auto intro!: assms(2) simp: update_apply_def booked_def outside_def)

lemma wp_advance_io [store_rules]:
  assumes w: "w_mongo w = []"
    and Q: "\<And>now w'. booked w (advance i st d now (w_applies w)) w' \<Longrightarrow> Q () w'"
  shows "wp (advance_io i st d) Q E w"
  unfolding advance_io_def wp_bind
proof (rule now_io_booked [OF w])
  fix now w1 assume w1: "booked w (w_applies w) w1"
  show "wp (update_apply (advance i st d now)) Q E w1"
    by (rule wp_update_apply) (simp add: bookedD [OF w1], drule booked_trans [OF w1],
      unfold bookedD(2) [OF w1], erule Q)
qed

lemma wp_store_updates [store_rules]:
  assumes "w_mongo w = []"
  shows "(\<And>w'. booked w (record_snapshot i n (w_applies w)) w' \<Longrightarrow> Q () w') \<Longrightarrow>
      wp (record_snapshot_io i n) Q E w"
    and "(\<And>w'. booked w (record_warnings i ws (w_applies w)) w' \<Longrightarrow> Q () w') \<Longrightarrow>
      wp (record_warnings_io i ws) Q E w"
    and "(\<And>w'. booked w (mark_interrupted i (w_applies w)) w' \<Longrightarrow> Q () w') \<Longrightarrow>
      wp (mark_interrupted_io i) Q E w"
    and "(\<And>w'. booked w (record_rollback i out (w_applies w)) w' \<Longrightarrow> Q () w') \<Longrightarrow>
      wp (record_rollback_io i out) Q E w"
  using assms unfolding record_snapshot_io_def record_warnings_io_def mark_interrupted_io_def
    record_rollback_io_def by (auto intro: wp_update_apply)

lemma wp_fail_io [store_rules]:
  assumes w: "w_mongo w = []"
    and Q: "\<And>now w'. booked w (advance i FAILED (Some why) now (set_failure_reason i why (w_applies w))) w'
      \<Longrightarrow> Q () w'"
  shows "wp (fail_io i why) Q E w"
  unfolding fail_io_def wp_then
proof (rule wp_update_apply [OF w])
  fix w1 assume w1: "booked w (set_failure_reason i why (w_applies w)) w1"
  show "wp (advance_io i FAILED (Some why)) Q E w1"
    by (rule wp_advance_io) (simp add: bookedD [OF w1], drule booked_trans [OF w1],
      unfold bookedD(2) [OF w1], erule Q)
qed

lemma wp_declare_incident_io [store_rules]:
  assumes w: "w_mongo w = []"
    and Q: "\<And>now w'. booked w (advance i INCIDENT (Some msg) now (set_incident i why msg (w_applies w))) w'
      \<Longrightarrow> Q () w'"
  shows "wp (declare_incident_io i why msg) Q E w"
  unfolding declare_incident_io_def wp_then
proof (rule wp_update_apply [OF w])
  fix w1 assume w1: "booked w (set_incident i why msg (w_applies w)) w1"
  show "wp (advance_io i INCIDENT (Some msg)) Q E w1"
    by (rule wp_advance_io) (simp add: bookedD [OF w1], drule booked_trans [OF w1],
      unfold bookedD(2) [OF w1], erule Q)
qed

lemma wp_in_flight_io [store_rules]:
  "w_mongo w = [] \<Longrightarrow> Q (in_flight (w_applies w)) w \<Longrightarrow> wp in_flight_io Q E w"
  by (simp add: in_flight_io_def)

lemma wp_indexed_once:
  assumes w: "w_mongo w = []" and Q: "\<And>w'. booked w (w_applies w) w' \<Longrightarrow> Q () w'"
  shows "wp (indexed_once s) Q E w"
  using w by (auto simp: indexed_once_def ensure_indexes_def booked_def outside_def intro!: Q)

lemma wp_audit_record [store_rules]:
  assumes w: "w_mongo w = []" and Q: "\<And>w'. booked w (w_applies w) w' \<Longrightarrow> Q () w'"
  shows "wp (audit_record s who aid en) Q E w"
  unfolding audit_record_def wp_then wp_bind
proof (rule wp_indexed_once [OF w])
  fix w1 assume w1: "booked w (w_applies w) w1"
  show "wp now_io (\<lambda>now. wp uuid_hex (\<lambda>ident. wp (mongo (modify_io (w_audit_update
      (\<lambda>db. db @ [event_of who ident now aid en])))) Q E) E) E w1"
  proof (rule now_io_booked [OF bookedD(1) [OF w1]], rule uuid_booked)
    fix now w2 assume w2: "booked w1 (w_applies w1) w2"
    then show "w_mongo w2 = []" by (rule bookedD)
    fix ident w3 assume w3: "booked w2 (w_applies w2) w3"
    from w1 w2 w3 show "wp (mongo (modify_io (w_audit_update (\<lambda>db. db @ [event_of who ident now aid en])))) Q E w3"
      by (auto simp: booked_def outside_def intro!: Q)
  qed
qed

end
