(* ===== verification/Runner_Correct.thy ===== *)
theory Runner_Correct
  imports Runner Store_Rules
begin

text \<open>
  What the runner guarantees of every engine that keeps to its interface: the stages an Apply
  records form a path of the state machine \<open>stage_step\<close>, it ends in a terminal stage, a
  failure after the Cluster was touched is rolled back exactly once, and an incident never
  stands without Maintenance Mode. The specification is the state machine and the predicate
  \<open>resolved\<close> on the final record.
\<close>

section \<open>The state machine\<close>

inductive stage_step :: "stage \<Rightarrow> stage \<Rightarrow> bool" where
  begin_apply: "stage_step VALIDATING APPLYING"
| begin_rollout: "stage_step APPLYING ROLLING_OUT"
| skip_rollout: "stage_step APPLYING VERIFYING"
| begin_verify: "stage_step ROLLING_OUT VERIFYING"
| begin_commit: "stage_step VERIFYING COMMITTING"
| succeed: "stage_step COMMITTING SUCCEEDED"
| refuse: "stage_step VALIDATING FAILED"
| commit_failed: "stage_step COMMITTING FAILED"
| begin_roll_back: "s \<in> set ROLLED_BACK_FROM \<Longrightarrow> stage_step s ROLLING_BACK"
| rolled_back: "stage_step ROLLING_BACK FAILED"
| rollback_failed: "stage_step ROLLING_BACK INCIDENT"

inductive_simps stage_step_simps: "stage_step s t"
inductive_cases stage_step_terminal: "stage_step SUCCEEDED t" "stage_step FAILED t" "stage_step INCIDENT t"

text \<open>The whole history of a record, from \<open>VALIDATING\<close> to its current stage, is a path.\<close>

definition on_path :: "apply_record \<Rightarrow> bool" where
  "on_path r \<longleftrightarrow> coherent r \<and> successively stage_step (map ev_stage (ap_history r))"

lemma on_path_new [simp]: "on_path (new_record i now base)"
  using coherent_new_record by (simp add: on_path_def new_record_def)

lemma on_path_advance:
  "on_path r \<Longrightarrow> stage_step (ap_stage r) st \<Longrightarrow> on_path (advance_record st d now r)"
  by (auto simp: on_path_def coherent_advance_record)
    (auto simp: advance_record_def coherent_def successively_append_iff last_map)

text \<open>A record still walking the pipeline, at stage \<open>st\<close>.\<close>

definition running :: "stage \<Rightarrow> apply_record \<Rightarrow> bool" where
  "running st r \<longleftrightarrow> on_path r \<and> ap_stage r = st \<and> ap_rollback r = None \<and> ap_failure_reason r = None
     \<and> ap_operator_message r = None \<and> \<not> ap_interrupted r
     \<and> set (map ev_stage (ap_history r)) \<subseteq> set PIPELINE"

text \<open>
  How an Apply ends. Succeeded, with nothing to explain. Failed, with a reason and the
  Cluster either never touched (or already verified) or successfully returned to its latest
  Snapshot. Or an incident, with the diagnostic reason and the Operator's message.
\<close>

definition resolved :: "apply_record \<Rightarrow> bool" where
  "resolved r \<longleftrightarrow> on_path r \<and>
     (case ap_stage r of
        SUCCEEDED \<Rightarrow> ap_failure_reason r = None \<and> ap_rollback r = None \<and> ap_operator_message r = None
      | FAILED \<Rightarrow> ap_failure_reason r \<noteq> None \<and> ap_operator_message r = None
          \<and> ap_rollback r = (if ROLLING_BACK \<in> set (map ev_stage (ap_history r))
                            then Some Rollback_Succeeded else None)
      | INCIDENT \<Rightarrow> ap_failure_reason r \<noteq> None \<and> ap_operator_message r = Some INCIDENT_MESSAGE
          \<and> ap_rollback r = Some Rollback_Failed
      | _ \<Rightarrow> False)"

lemma resolved_terminal: "resolved r \<Longrightarrow> ap_stage r \<in> set TERMINAL"
  by (auto simp: resolved_def TERMINAL_def split: stage.splits)

lemma on_path_update [simp]:
  "on_path (r\<lparr>ap_snapshot := x1\<rparr>) = on_path r" "on_path (r\<lparr>ap_warnings := x2\<rparr>) = on_path r"
  "on_path (r\<lparr>ap_failure_reason := x3\<rparr>) = on_path r" "on_path (r\<lparr>ap_rollback := x4\<rparr>) = on_path r"
  "on_path (r\<lparr>ap_failure_reason := x3, ap_operator_message := x5\<rparr>) = on_path r"
  "on_path (r\<lparr>ap_interrupted := x6\<rparr>) = on_path r"
  by (simp_all add: on_path_def coherent_def)

section \<open>The record an Apply is\<close>

text \<open>The world holds the record \<open>r\<close> under the id \<open>i\<close>, satisfying \<open>P\<close>, and MongoDB is healthy.\<close>

definition holds :: "string \<Rightarrow> (apply_record \<Rightarrow> bool) \<Rightarrow> ('r, 'e) world \<Rightarrow> bool" where
  "holds i P w \<longleftrightarrow> w_mongo w = [] \<and> (\<exists>r. get_apply i (w_applies w) = Some r \<and> P r)"

lemma holdsI: "w_mongo w = [] \<Longrightarrow> get_apply i (w_applies w) = Some r \<Longrightarrow> P r \<Longrightarrow> holds i P w"
  by (auto simp: holds_def)

lemma holds_mongo: "holds i P w \<Longrightarrow> w_mongo w = []"
  by (simp add: holds_def)

lemma holds_mono: "holds i P w \<Longrightarrow> (\<And>r. P r \<Longrightarrow> P' r) \<Longrightarrow> holds i P' w"
  by (auto simp: holds_def)

lemma holds_frame: "frame w w' \<Longrightarrow> holds i P w \<Longrightarrow> holds i P w'"
  by (auto simp: holds_def frame_def)

lemma holds_booked: "booked w (w_applies w) w' \<Longrightarrow> holds i P w \<Longrightarrow> holds i P w'"
  by (auto simp: holds_def booked_def)

lemma holds_booked_update:
  assumes "booked w db w'" and "holds i P w"
    and "get_apply i db = map_option f (get_apply i (w_applies w))" and "\<And>r. P r \<Longrightarrow> P' (f r)"
  shows "holds i P' w'"
  using assms by (auto simp: holds_def booked_def)

lemma wp_attempt [simp]: "wp (attempt m) Q E w = wp m (\<lambda>a. Q (Inr a)) (\<lambda>e. Q (Inl e)) w"
  by (cases "m w") (simp add: wp_def attempt_def split: sum.split)

text \<open>The audit of an Apply is never fatal, and moves nothing but the trail.\<close>

lemma wp_audited:
  assumes "w_mongo w = []" and "\<And>w'. booked w (w_applies w) w' \<Longrightarrow> Q () w'"
  shows "wp (audited rn who i act snap out detail) Q E w"
  using assms by (auto simp: audited_def intro: wp_audit_record)

text \<open>The store's operations, as steps of the one record.\<close>

lemma holds_advance:
  assumes h: "holds i P w" and "\<And>r now. P r \<Longrightarrow> P' (advance_record st d now r)"
    and Q: "\<And>w'. holds i P' w' \<Longrightarrow> outside w' = outside w \<Longrightarrow> Q () w'"
  shows "wp (advance_io i st d) Q E w"
  by (rule wp_advance_io [OF holds_mongo [OF h]], rule Q, erule holds_booked_update [OF _ h])
    (auto intro: assms(2) dest: bookedD)

lemma holds_updates:
  assumes h: "holds i P w" and Q: "\<And>w'. holds i P' w' \<Longrightarrow> outside w' = outside w \<Longrightarrow> Q () w'"
  shows "(\<And>r. P r \<Longrightarrow> P' (r\<lparr>ap_snapshot := Some n\<rparr>)) \<Longrightarrow> wp (record_snapshot_io i n) Q E w"
    and "(\<And>r. P r \<Longrightarrow> P' (r\<lparr>ap_warnings := ws\<rparr>)) \<Longrightarrow> wp (record_warnings_io i ws) Q E w"
    and "(\<And>r. P r \<Longrightarrow> P' (r\<lparr>ap_interrupted := True\<rparr>)) \<Longrightarrow> wp (mark_interrupted_io i) Q E w"
    and "(\<And>r. P r \<Longrightarrow> P' (r\<lparr>ap_rollback := Some out\<rparr>)) \<Longrightarrow> wp (record_rollback_io i out) Q E w"
    and "(\<And>r now. P r \<Longrightarrow> P' (advance_record FAILED (Some why) now (r\<lparr>ap_failure_reason := Some why\<rparr>))) \<Longrightarrow>
      wp (fail_io i why) Q E w"
    and "(\<And>r now. P r \<Longrightarrow> P' (advance_record INCIDENT (Some msg) now
        (r\<lparr>ap_failure_reason := Some why, ap_operator_message := Some msg\<rparr>))) \<Longrightarrow>
      wp (declare_incident_io i why msg) Q E w"
  by (rule store_rules, rule holds_mongo [OF h], rule Q, erule holds_booked_update [OF _ h];
      auto simp: option.map_comp comp_def dest: bookedD)+

lemma holds_audited:
  assumes h: "holds i P w" and Q: "\<And>w'. holds i P w' \<Longrightarrow> outside w' = outside w \<Longrightarrow> Q () w'"
  shows "wp (audited rn who j act snap out detail) Q E w"
  by (rule wp_audited [OF holds_mongo [OF h]], rule Q) (auto dest: bookedD intro: holds_booked [OF _ h])

context apply_engine
begin

lemma step_frame: "within frame (step_of eo st)"
  using validate_frame apply_frame roll_out_frame verify_frame commit_frame
  by (auto simp: step_of_def split: stage.split)

text \<open>A stage leaves the record in that stage, whether or not the step raised.\<close>

lemma wp_run_stage:
  assumes h: "holds i (running p) w"
    and st: "st = VALIDATING \<and> p = VALIDATING \<or> stage_step p st" "st \<in> set PIPELINE"
    and Q: "\<And>a w'. holds i (running st) w' \<Longrightarrow> Q a w'"
    and E: "\<And>e w'. holds i (running st) w' \<Longrightarrow> E e w'"
  shows "wp (run_stage eo i st) Q E w"
proof -
  have enter: "wp (when_io (st \<noteq> VALIDATING) (advance_io i st None)) (\<lambda>_. holds i (running st)) E w"
  proof (cases "st = VALIDATING")
    case True
    with st have "p = VALIDATING" by (auto simp: stage_step_simps)
    with True h show ?thesis by simp
  next
    case False
    with st have "stage_step p st" by blast
    then have "running p r \<Longrightarrow> running st (advance_record st None now r)" for r now
      using on_path_advance [of r st] st(2) by (auto simp: running_def advance_record_def)
    with False show ?thesis by (auto intro!: holds_advance [OF h, where P' = "running st"])
  qed
  have warn: "wp (when_io (st = VALIDATING) (bind_io (asks (eo_warnings eo)) (record_warnings_io i)))
      (\<lambda>_. holds i (running st)) E w'" if "holds i (running st) w'" for w'
    using that by (auto intro!: holds_updates(2) [OF that, where P' = "running st"] simp: running_def)
  show ?thesis
    unfolding run_stage_def wp_then wp_bind
  proof (rule wp_mono [OF enter], rule wp_within [OF step_frame])
    fix w1 w2 :: "('r, 'e) world" and a assume "holds i (running st) w1" "frame w1 w2"
    then have w2: "holds i (running st) w2" by (rule holds_frame [rotated])
    show "wp (when_io (st = VALIDATING) (bind_io (asks (eo_warnings eo)) (record_warnings_io i)))
        (\<lambda>_. wp (ret (if st = COMMITTING then a else None)) Q E) E w2"
      by (rule wp_mono [OF warn [OF w2]]) (auto intro: Q)
  qed (auto intro: E elim: holds_frame)
qed

text \<open>The end of the loop: committed, or stopped by an exception at a stage it had recorded.\<close>

definition stepped :: "string \<Rightarrow> stage \<times> (exn + int option) \<Rightarrow> ('r, 'e) world \<Rightarrow> bool" where
  "stepped i ro w \<longleftrightarrow> holds i (running (fst ro)) w \<and> fst ro \<in> set PIPELINE
     \<and> (\<forall>snap. snd ro = Inr snap \<longrightarrow> fst ro = COMMITTING)"

lemma wp_run_steps_Cons:
  assumes "holds i (running p) w" and "st = VALIDATING \<and> p = VALIDATING \<or> stage_step p st" "st \<in> set PIPELINE"
    and next_stage: "\<And>w' s. holds i (running st) w' \<Longrightarrow> wp (run_steps eo i sts st s) (stepped i) E w'"
    and skip: "st = ROLLING_OUT \<Longrightarrow> wp (run_steps eo i sts reached snap) (stepped i) E w"
  shows "wp (run_steps eo i (st # sts) reached snap) (stepped i) E w"
  by (auto intro!: wp_run_stage [OF assms(1-3)] next_stage skip simp: stepped_def assms(3))

lemma wp_run_steps:
  assumes "holds i (running VALIDATING) w"
  shows "wp (run_steps eo i PIPELINE reached snap) (stepped i) E w"
proof -
  have commit: "wp (run_steps eo i [COMMITTING] rc s) (stepped i) E w" if "holds i (running VERIFYING) w" for w rc s
    by (rule wp_run_steps_Cons [OF that]) (auto simp: stage_step_simps PIPELINE_def stepped_def)
  have verify: "wp (run_steps eo i [VERIFYING, COMMITTING] rc s) (stepped i) E w"
    if "holds i (running p) w" "p = APPLYING \<or> p = ROLLING_OUT" for w rc s p
    by (rule wp_run_steps_Cons [OF that(1)])
      (use that(2) in \<open>auto simp: stage_step_simps PIPELINE_def intro!: commit simp del: run_steps.simps\<close>)
  have roll_out: "wp (run_steps eo i [ROLLING_OUT, VERIFYING, COMMITTING] rc s) (stepped i) E w"
    if "holds i (running APPLYING) w" for w rc s
    by (rule wp_run_steps_Cons [OF that])
      (use that in \<open>auto simp: stage_step_simps PIPELINE_def intro!: verify simp del: run_steps.simps\<close>)
  have apply_it: "wp (run_steps eo i [APPLYING, ROLLING_OUT, VERIFYING, COMMITTING] rc s) (stepped i) E w"
    if "holds i (running VALIDATING) w" for w rc s
    by (rule wp_run_steps_Cons [OF that])
      (auto simp: stage_step_simps PIPELINE_def intro!: roll_out simp del: run_steps.simps)
  show ?thesis
    unfolding PIPELINE_def
    by (rule wp_run_steps_Cons [OF assms])
      (auto simp: PIPELINE_def intro!: apply_it simp del: run_steps.simps)
qed

end

section \<open>Every run resolves its Apply\<close>

text \<open>A record on its way back: nothing is known of the outcome yet.\<close>

definition returning :: "rollback option \<Rightarrow> apply_record \<Rightarrow> bool" where
  "returning rb r \<longleftrightarrow> on_path r \<and> ap_stage r = ROLLING_BACK \<and> ap_rollback r = rb
     \<and> ap_operator_message r = None"

lemma returning_advance:
  "running st r \<Longrightarrow> st \<in> set ROLLED_BACK_FROM \<Longrightarrow> returning None (advance_record ROLLING_BACK d now r)"
  using on_path_advance [OF _ begin_roll_back]
  by (auto simp: running_def returning_def) (auto simp: advance_record_def)

lemma returning_in_history: "returning rb r \<Longrightarrow> ROLLING_BACK \<in> set (map ev_stage (ap_history r))"
  by (force simp: returning_def on_path_def coherent_def dest!: last_in_set)

lemma resolved_rolled_back:
  assumes "returning (Some Rollback_Succeeded) r"
  shows "resolved (advance_record FAILED (Some why) now (r\<lparr>ap_failure_reason := Some why\<rparr>))"
proof -
  have "on_path (advance_record FAILED (Some why) now (r\<lparr>ap_failure_reason := Some why\<rparr>))"
    using assms by (intro on_path_advance) (auto simp: returning_def intro: stage_step.intros)
  then show ?thesis
    using assms returning_in_history [OF assms]
    by (auto simp: resolved_def returning_def advance_record_def)
qed

lemma resolved_incident:
  assumes "returning (Some Rollback_Failed) r"
  shows "resolved (advance_record INCIDENT (Some INCIDENT_MESSAGE) now
    (r\<lparr>ap_failure_reason := Some why, ap_operator_message := Some INCIDENT_MESSAGE\<rparr>))"
proof -
  have "on_path (advance_record INCIDENT (Some INCIDENT_MESSAGE) now
      (r\<lparr>ap_failure_reason := Some why, ap_operator_message := Some INCIDENT_MESSAGE\<rparr>))"
    using assms by (intro on_path_advance) (auto simp: returning_def intro: stage_step.intros)
  then show ?thesis
    using assms by (auto simp: resolved_def returning_def advance_record_def)
qed

lemma resolved_failed:
  assumes "running st r" and "st \<in> {VALIDATING, COMMITTING}"
  shows "resolved (advance_record FAILED (Some why) now (r\<lparr>ap_failure_reason := Some why\<rparr>))"
proof -
  have "on_path (advance_record FAILED (Some why) now (r\<lparr>ap_failure_reason := Some why\<rparr>))"
    using assms by (intro on_path_advance) (auto simp: running_def intro: stage_step.intros)
  then show ?thesis
    using assms by (auto simp: resolved_def running_def advance_record_def PIPELINE_def)
qed

lemma resolved_succeeded:
  assumes "running COMMITTING r"
  shows "resolved (advance_record SUCCEEDED None now r)"
proof -
  have "on_path (advance_record SUCCEEDED None now r)"
    using assms by (intro on_path_advance) (auto simp: running_def intro: stage_step.intros)
  then show ?thesis
    using assms by (auto simp: resolved_def running_def advance_record_def)
qed

text \<open>Resolved, and if as an incident, behind Maintenance Mode.\<close>

definition guarded :: "string \<Rightarrow> ('r, 'e) world \<Rightarrow> bool" where
  "guarded i w \<longleftrightarrow> holds i (\<lambda>r. resolved r \<and> (ap_stage r = INCIDENT \<longrightarrow> engaged w)) w"

lemma guardedI:
  "holds i (\<lambda>r. resolved r \<and> ap_stage r \<noteq> INCIDENT) w \<Longrightarrow> guarded i w"
  "holds i resolved w \<Longrightarrow> engaged w \<Longrightarrow> guarded i w"
  by (auto simp: guarded_def holds_def)

lemma engaged_outside: "engaged w \<Longrightarrow> outside w' = outside w \<Longrightarrow> engaged w'"
  unfolding engaged_def by (drule outside_fields(1)) simp

context guarded_engine
begin

lemma wp_roll_back:
  assumes h: "holds i (running st) w" and st: "st \<in> set ROLLED_BACK_FROM"
  shows "wp (roll_back rn eo i why) (\<lambda>_. guarded i) (\<lambda>e _. e = Cancelled) w"
  unfolding roll_back_def wp_then Let_def
proof (rule holds_advance [OF h, where P' = "returning None"])
  fix w1 :: "('r, 'e) world" assume w1: "holds i (returning None) w1"
  let ?combined = "\<lambda>e. why @ ''. Auto Rollback then failed: '' @ exn_message e"
  have restored: "wp (then_io (record_rollback_io i Rollback_Succeeded) (then_io (fail_io i why)
      (audited rn SYSTEM_ACTOR i Rolled_Back None Succeeded (Some why)))) (\<lambda>_. guarded i) E w2"
    if w2: "holds i (returning None) w2" for w2 :: "('r, 'e) world" and E
    unfolding wp_then
  proof (rule holds_updates(4) [OF w2, where P' = "returning (Some Rollback_Succeeded)"])
    fix w3 :: "('r, 'e) world" assume w3: "holds i (returning (Some Rollback_Succeeded)) w3"
    show "wp (fail_io i why) (\<lambda>_. wp (audited rn SYSTEM_ACTOR i Rolled_Back None Succeeded (Some why))
        (\<lambda>_. guarded i) E) E w3"
      by (rule holds_updates(5) [OF w3, where P' = "\<lambda>r. resolved r \<and> ap_stage r \<noteq> INCIDENT"],
          erule holds_audited, erule guardedI)
        (auto intro: resolved_rolled_back)
  qed (simp add: returning_def)
  have incident: "wp (then_io (record_rollback_io i Rollback_Failed)
      (then_io (eo_declare_incident eo c) (then_io (declare_incident_io i c INCIDENT_MESSAGE)
        (audited rn SYSTEM_ACTOR i Rolled_Back None Failed (Some c)))))
      (\<lambda>_. guarded i) (\<lambda>e _. e = Cancelled) w2"
    if w2: "holds i (returning None) w2" for w2 :: "('r, 'e) world" and c
    unfolding wp_then
  proof (rule holds_updates(4) [OF w2, where P' = "returning (Some Rollback_Failed)"])
    fix w3 :: "('r, 'e) world" assume w3: "holds i (returning (Some Rollback_Failed)) w3"
    have "wp (eo_declare_incident eo c)
        (\<lambda>_ w'. frame w3 w' \<and> engaged w') (\<lambda>e _. e = Cancelled) w3"
      using wp_within_and [OF incident_frame
          wp_conj [OF incident_engages incident_quiet [OF holds_mongo [OF w3]]]]
      by (rule wp_mono) auto
    then show "wp (eo_declare_incident eo c) (\<lambda>_. wp (declare_incident_io i c INCIDENT_MESSAGE)
        (\<lambda>_. wp (audited rn SYSTEM_ACTOR i Rolled_Back None Failed (Some c)) (\<lambda>_. guarded i)
          (\<lambda>e _. e = Cancelled)) (\<lambda>e _. e = Cancelled)) (\<lambda>e _. e = Cancelled) w3"
    proof (rule wp_mono)
      fix w4 :: "('r, 'e) world" assume "frame w3 w4 \<and> engaged w4"
      then have w4: "holds i (returning (Some Rollback_Failed)) w4" and eng: "engaged w4"
        using holds_frame [OF _ w3] by auto
      show "wp (declare_incident_io i c INCIDENT_MESSAGE)
          (\<lambda>_. wp (audited rn SYSTEM_ACTOR i Rolled_Back None Failed (Some c)) (\<lambda>_. guarded i)
            (\<lambda>e _. e = Cancelled)) (\<lambda>e _. e = Cancelled) w4"
        by (rule holds_updates(6) [OF w4, where P' = resolved], erule holds_audited, erule guardedI(2))
          (blast intro: resolved_incident engaged_outside eng)+
    qed auto
  qed (simp add: returning_def)
  show "wp (try_else_io is_exception (eo_roll_back eo)
      (\<lambda>exc. then_io (record_rollback_io i Rollback_Failed)
         (then_io (eo_declare_incident eo (?combined exc))
           (then_io (declare_incident_io i (?combined exc) INCIDENT_MESSAGE)
             (audited rn SYSTEM_ACTOR i Rolled_Back None Failed (Some (?combined exc))))))
      (\<lambda>_. then_io (record_rollback_io i Rollback_Succeeded) (then_io (fail_io i why)
         (audited rn SYSTEM_ACTOR i Rolled_Back None Succeeded (Some why)))))
      (\<lambda>_. guarded i) (\<lambda>e _. e = Cancelled) w1"
    unfolding wp_try_else
    by (rule wp_within [OF roll_back_frame])
      (auto simp del: wp_then intro!: restored incident holds_frame [OF _ w1] simp: is_exception_def)
qed (use st in \<open>auto intro: returning_advance\<close>)

lemma wp_handle_failure:
  assumes h: "holds i (running st) w" and "st \<in> set PIPELINE"
  shows "wp (handle_failure rn eo i who st e) (\<lambda>_. guarded i) (\<lambda>e _. e = Cancelled) w"
  unfolding handle_failure_def Let_def wp_then
proof (rule holds_audited [OF h])
  fix w1 :: "('r, 'e) world" assume w1: "holds i (running st) w1"
  have "st \<in> {VALIDATING, COMMITTING}" if "st \<notin> set ROLLED_BACK_FROM"
    using that assms(2) by (auto simp: stage_sets)
  then show "wp (if st \<in> set ROLLED_BACK_FROM then roll_back rn eo i (failure_reason e)
      else fail_io i (failure_reason e)) (\<lambda>_. guarded i) (\<lambda>e _. e = Cancelled) w1"
    using resolved_failed [of st]
    by (auto intro!: wp_roll_back [OF w1] guardedI(1)
        holds_updates(5) [OF w1, where P' = "\<lambda>r. resolved r \<and> ap_stage r \<noteq> INCIDENT"])
qed

lemma wp_finish:
  assumes h: "holds i (running COMMITTING) (w :: ('r, 'e) world)"
  shows "wp (finish rn i who snap) (\<lambda>_. guarded i) (\<lambda>_ _. False) w"
proof -
  have "wp (case snap of None \<Rightarrow> ret () | Some n \<Rightarrow> record_snapshot_io i n)
      (\<lambda>_. holds i (running COMMITTING)) (\<lambda>_ _. False) w"
    using h by (cases snap) (auto intro!: holds_updates(1) [OF h] simp: running_def)
  then show ?thesis
    unfolding finish_def wp_then
  proof (rule wp_mono)
    fix w1 :: "('r, 'e) world" assume w1: "holds i (running COMMITTING) w1"
    show "wp (advance_io i SUCCEEDED None) (\<lambda>_. wp (audited rn who i Applied snap Succeeded None)
        (\<lambda>_. guarded i) (\<lambda>_ _. False)) (\<lambda>_ _. False) w1"
      by (rule holds_advance [OF w1, where P' = "\<lambda>r. resolved r \<and> ap_stage r \<noteq> INCIDENT"])
        (auto intro: resolved_succeeded holds_audited guardedI)
  qed auto
qed

theorem wp_run:
  assumes h: "holds i (running VALIDATING) w"
  shows "wp (run rn eo i who) (\<lambda>_. guarded i) (\<lambda>e _. e = Cancelled) w"
proof -
  let ?E = "\<lambda>e (_ :: ('r, 'e) world). e = Cancelled"
  have init: "wp (eo_init eo i) (\<lambda>_. holds i (running VALIDATING)) (\<lambda>_ _. False) w"
    by (rule wp_mono [OF wp_within_and [OF init_frame init_quiet]]) (auto intro: holds_frame [OF _ h])
  have ended: "wp (bind_io (case out of Inl e \<Rightarrow> ret (Inl e) | Inr snap \<Rightarrow> attempt (finish rn i who snap))
      (\<lambda>r. case r of Inr _ \<Rightarrow> ret () | Inl e \<Rightarrow>
         if is_exception e then handle_failure rn eo i who reached e else raise_io e))
      (\<lambda>_. guarded i) ?E w2"
    if "stepped i (reached, out) w2" for reached out w2
    using that
    by (cases out) (auto simp: stepped_def is_exception_def intro: wp_handle_failure wp_mono [OF wp_finish])
  show ?thesis
    unfolding run_def wp_then wp_bind
  proof (rule wp_mono [OF init])
    fix w1 :: "('r, 'e) world" assume w1: "holds i (running VALIDATING) w1"
    show "wp (run_steps eo i PIPELINE VALIDATING None) (\<lambda>ro. wp (case ro of (reached, out) \<Rightarrow>
        bind_io (case out of Inl e \<Rightarrow> ret (Inl e) | Inr snap \<Rightarrow> attempt (finish rn i who snap))
          (\<lambda>r. case r of Inl e \<Rightarrow> if is_exception e then handle_failure rn eo i who reached e else raise_io e
             | Inr _ \<Rightarrow> ret ())) (\<lambda>_. guarded i) ?E) ?E w1"
    proof (rule wp_mono [OF wp_run_steps [OF w1]])
      fix ro and w2 :: "('r, 'e) world" assume "stepped i ro w2"
      then show "wp (case ro of (reached, out) \<Rightarrow>
        bind_io (case out of Inl e \<Rightarrow> ret (Inl e) | Inr snap \<Rightarrow> attempt (finish rn i who snap))
          (\<lambda>r. case r of Inl e \<Rightarrow> if is_exception e then handle_failure rn eo i who reached e else raise_io e
             | Inr _ \<Rightarrow> ret ())) (\<lambda>_. guarded i) ?E w2"
        by (cases ro) (simp only: prod.case ended)
    qed simp
  qed simp
qed

end

end
