(* ===== verification/Recovery_Correct.thy ===== *)
theory Recovery_Correct
  imports Runner_Correct
begin

text \<open>
  Recovery after a restart: with a healthy MongoDB the loop of \<open>recover_interrupted\<close> ends, no
  Apply is left in flight, and each interrupted one is marked so and, if it had reached a
  stage that touches the Cluster, carries the outcome of its rollback.
\<close>

section \<open>One record of the collection at a time\<close>

text \<open>The collection is \<open>db\<close> with the record of id \<open>i\<close> replaced by \<open>r\<close>.\<close>

definition record_at :: "string \<Rightarrow> apply_record \<Rightarrow> applies \<Rightarrow> ('r, 'e) world \<Rightarrow> bool" where
  "record_at i r db w \<longleftrightarrow> w_mongo w = [] \<and> ap_id r = i \<and> w_applies w = update_one i (\<lambda>_. r) db"

lemma record_at_mongo: "record_at i r db w \<Longrightarrow> w_mongo w = []"
  by (simp add: record_at_def)

lemma record_at_start:
  assumes "w_mongo w = []" "unique_ids (w_applies w)" "r \<in> set (w_applies w)"
  shows "record_at (ap_id r) r (w_applies w) w"
proof -
  have "r = x" if "x \<in> set (w_applies w)" "ap_id x = ap_id r" for x
    using assms(2,3) that by (auto simp: unique_ids_def distinct_map inj_on_def)
  then have "update_one (ap_id r) (\<lambda>_. r) (w_applies w) = w_applies w"
    by (auto simp: update_one_def intro!: map_idI)
  then show ?thesis using assms(1) by (simp add: record_at_def)
qed

lemma update_one_twice:
  "ap_id r = i \<Longrightarrow> update_one i f (update_one i (\<lambda>_. r) db) = update_one i (\<lambda>_. f r) db"
  by (simp add: update_one_def comp_def)

lemma record_at_booked:
  assumes "record_at i r db w" and "booked w (update_one i f (w_applies w)) w'" and "ap_id (f r) = i"
  shows "record_at i (f r) db w'"
  using assms by (simp add: record_at_def booked_def update_one_twice)

lemma record_at_frame: "frame w w' \<Longrightarrow> record_at i r db w \<Longrightarrow> record_at i r db w'"
  by (simp add: record_at_def frame_def)

lemma record_at_same: "booked w (w_applies w) w' \<Longrightarrow> record_at i r db w \<Longrightarrow> record_at i r db w'"
  by (simp add: record_at_def booked_def)

lemma record_at_advance:
  assumes h: "record_at i r db w" and Q: "\<And>now w'. record_at i (advance_record st d now r) db w' \<Longrightarrow>
    outside w' = outside w \<Longrightarrow> Q () w'"
  shows "wp (advance_io i st d) Q E w"
proof (rule wp_advance_io [OF record_at_mongo [OF h]])
  fix now and w' :: "('a, 'b) world" assume w': "booked w (advance i st d now (w_applies w)) w'"
  show "Q () w'"
    by (rule Q [OF record_at_booked [OF h w' [unfolded advance_def]] bookedD(3) [OF w']])
      (use h in \<open>simp add: record_at_def advance_record_def\<close>)
qed

lemma record_at_updates:
  assumes h: "record_at i r db w"
  shows "(\<And>w'. record_at i (r\<lparr>ap_interrupted := True\<rparr>) db w' \<Longrightarrow> outside w' = outside w \<Longrightarrow> Q () w') \<Longrightarrow>
      wp (mark_interrupted_io i) Q E w"
    and "(\<And>w'. record_at i (r\<lparr>ap_rollback := Some out\<rparr>) db w' \<Longrightarrow> outside w' = outside w \<Longrightarrow> Q () w') \<Longrightarrow>
      wp (record_rollback_io i out) Q E w"
proof -
  have id: "ap_id r = i" using h by (simp add: record_at_def)
  show "wp (mark_interrupted_io i) Q E w"
    if Q: "\<And>w'. record_at i (r\<lparr>ap_interrupted := True\<rparr>) db w' \<Longrightarrow> outside w' = outside w \<Longrightarrow> Q () w'"
    by (rule wp_store_updates(3) [OF record_at_mongo [OF h]], rule Q)
      (auto simp: mark_interrupted_def id dest: bookedD intro: record_at_booked [OF h])
  show "wp (record_rollback_io i out) Q E w"
    if Q: "\<And>w'. record_at i (r\<lparr>ap_rollback := Some out\<rparr>) db w' \<Longrightarrow> outside w' = outside w \<Longrightarrow> Q () w'"
    by (rule wp_store_updates(4) [OF record_at_mongo [OF h]], rule Q)
      (auto simp: record_rollback_def id dest: bookedD intro: record_at_booked [OF h])
qed

lemma record_at_fail:
  assumes h: "record_at i r db w"
    and Q: "\<And>now w'. record_at i (advance_record FAILED (Some why) now (r\<lparr>ap_failure_reason := Some why\<rparr>)) db w' \<Longrightarrow>
      outside w' = outside w \<Longrightarrow> Q () w'"
  shows "wp (fail_io i why) Q E w"
  unfolding fail_io_def wp_then
proof (rule wp_update_apply [OF record_at_mongo [OF h]])
  fix w1 assume w1: "booked w (set_failure_reason i why (w_applies w)) w1"
  have "record_at i (r\<lparr>ap_failure_reason := Some why\<rparr>) db w1"
    by (rule record_at_booked [OF h w1 [unfolded set_failure_reason_def]]) (use h in \<open>simp add: record_at_def\<close>)
  then show "wp (advance_io i FAILED (Some why)) Q E w1"
    by (rule record_at_advance) (auto intro: Q simp: bookedD(3) [OF w1])
qed

lemma record_at_incident:
  assumes h: "record_at i r db w"
    and Q: "\<And>now w'. record_at i (advance_record INCIDENT (Some msg) now
        (r\<lparr>ap_failure_reason := Some why, ap_operator_message := Some msg\<rparr>)) db w' \<Longrightarrow>
      outside w' = outside w \<Longrightarrow> Q () w'"
  shows "wp (declare_incident_io i why msg) Q E w"
  unfolding declare_incident_io_def wp_then
proof (rule wp_update_apply [OF record_at_mongo [OF h]])
  fix w1 assume w1: "booked w (set_incident i why msg (w_applies w)) w1"
  have "record_at i (r\<lparr>ap_failure_reason := Some why, ap_operator_message := Some msg\<rparr>) db w1"
    by (rule record_at_booked [OF h w1 [unfolded set_incident_def]]) (use h in \<open>simp add: record_at_def\<close>)
  then show "wp (advance_io i INCIDENT (Some msg)) Q E w1"
    by (rule record_at_advance) (auto intro: Q simp: bookedD(3) [OF w1])
qed

lemma record_at_audit:
  assumes h: "record_at i r db w" and Q: "\<And>w'. record_at i r db w' \<Longrightarrow> outside w' = outside w \<Longrightarrow> Q () w'"
  shows "wp (audit_record s who aid en) Q E w"
  by (rule wp_audit_record [OF record_at_mongo [OF h]], rule Q)
    (auto dest: bookedD intro: record_at_same [OF _ h])

section \<open>One interrupted Apply\<close>

text \<open>What becomes of a record: untouched if it was over, resolved if it was in flight.\<close>

definition recovered_record :: "apply_record \<Rightarrow> apply_record \<Rightarrow> bool" where
  "recovered_record x y \<longleftrightarrow>
     (if record_in_flight x then ap_id y = ap_id x \<and> ap_interrupted y
        \<and> ap_stage y \<in> {FAILED, INCIDENT}
        \<and> (if ap_stage x \<in> set ROLLED_BACK_FROM
           then ap_rollback y = Some (if ap_stage y = FAILED then Rollback_Succeeded else Rollback_Failed)
           else ap_stage y = FAILED \<and> ap_rollback y = ap_rollback x)
      else y = x)"

lemma recovered_refl_terminal: "ap_stage x \<in> set TERMINAL \<Longrightarrow> recovered_record x x"
  by (simp add: recovered_record_def record_in_flight_def)

lemma recovered_terminal: "recovered_record x y \<Longrightarrow> ap_stage y \<in> set TERMINAL"
  by (auto simp: recovered_record_def record_in_flight_def TERMINAL_def split: if_splits)

lemma recovered_id: "recovered_record x y \<Longrightarrow> ap_id y = ap_id x"
  by (auto simp: recovered_record_def split: if_splits)

text \<open>The interrupted record after it is failed, before the Cluster is touched.\<close>

definition failed_record :: "apply_record \<Rightarrow> apply_record \<Rightarrow> bool" where
  "failed_record r x \<longleftrightarrow> ap_id x = ap_id r \<and> ap_interrupted x \<and> ap_stage x = FAILED \<and> ap_rollback x = ap_rollback r"

context guarded_engine
begin

lemma wp_restore_after_interruption:
  assumes h: "record_at i x db (w :: ('r, 'e) world)" and x: "failed_record r x"
    and r: "record_in_flight r" "ap_stage r \<in> set ROLLED_BACK_FROM"
  shows "wp (restore_after_interruption eo i)
    (\<lambda>_ w'. \<exists>y. record_at i y db w' \<and> recovered_record r y \<and> (ap_stage y = INCIDENT \<longrightarrow> engaged w'))
    (\<lambda>e _. e = Cancelled) w"
proof -
  let ?Q = "\<lambda>_ w'. \<exists>y. record_at i y db w' \<and> recovered_record r y \<and> (ap_stage y = INCIDENT \<longrightarrow> engaged w')"
  let ?E = "\<lambda>e (_ :: ('r, 'e) world). e = Cancelled"
  have init: "wp (eo_init eo i) (\<lambda>_. record_at i x db) (\<lambda>_ _. False) w"
    by (rule wp_mono [OF wp_within_and [OF init_frame init_quiet]]) (auto intro: record_at_frame [OF _ h])
  have ok: "wp (record_rollback_io i Rollback_Succeeded) ?Q ?E w2" if "record_at i x db w2" for w2
    using x r by (auto intro!: record_at_updates(2) [OF that] exI
        simp: recovered_record_def failed_record_def)
  have bad: "wp (then_io (record_rollback_io i Rollback_Failed) (then_io (eo_declare_incident eo c)
      (declare_incident_io i c INCIDENT_MESSAGE))) ?Q ?E w2"
    if w2: "record_at i x db w2" for w2 :: "('r, 'e) world" and c
    unfolding wp_then
  proof (rule record_at_updates(2) [OF w2])
    fix w3 :: "('r, 'e) world" assume w3: "record_at i (x\<lparr>ap_rollback := Some Rollback_Failed\<rparr>) db w3"
    show "wp (eo_declare_incident eo c) (\<lambda>_. wp (declare_incident_io i c INCIDENT_MESSAGE) ?Q ?E) ?E w3"
    proof (rule wp_mono [OF wp_within_and [OF incident_frame
          wp_conj [OF incident_engages incident_quiet [OF record_at_mongo [OF w3]]]]])
      fix w4 :: "('r, 'e) world" assume w4: "frame w3 w4 \<and> engaged w4 \<and> True"
      then have "record_at i (x\<lparr>ap_rollback := Some Rollback_Failed\<rparr>) db w4"
        using record_at_frame [OF _ w3] by blast
      then show "wp (declare_incident_io i c INCIDENT_MESSAGE) ?Q ?E w4"
      proof (rule record_at_incident)
        fix now and w5 :: "('r, 'e) world"
        assume "record_at i (advance_record INCIDENT (Some INCIDENT_MESSAGE) now
            (x\<lparr>ap_rollback := Some Rollback_Failed, ap_failure_reason := Some c,
               ap_operator_message := Some INCIDENT_MESSAGE\<rparr>)) db w5" and "outside w5 = outside w4"
        then show "?Q () w5"
          using x r w4 engaged_outside [of w4 w5]
          by (auto intro!: exI simp: recovered_record_def failed_record_def)
            (simp_all add: advance_record_def)
      qed
    qed auto
  qed
  show ?thesis
    unfolding restore_after_interruption_def Let_def wp_then [of "eo_init eo i"]
  proof (rule wp_mono [OF init])
    fix w1 :: "('r, 'e) world" assume w1: "record_at i x db w1"
    show "wp (try_else_io is_exception (eo_roll_back eo)
        (\<lambda>exc. then_io (record_rollback_io i Rollback_Failed)
          (then_io (eo_declare_incident eo (INTERRUPTED_REASON @ '' Auto Rollback then failed: '' @ exn_message exc))
            (declare_incident_io i (INTERRUPTED_REASON @ '' Auto Rollback then failed: '' @ exn_message exc)
              INCIDENT_MESSAGE)))
        (\<lambda>_. record_rollback_io i Rollback_Succeeded)) ?Q ?E w1"
      unfolding wp_try_else
    proof (rule wp_within [OF roll_back_frame])
      fix w2 :: "('r, 'e) world" assume "frame w1 w2"
      then have w2: "record_at i x db w2" by (rule record_at_frame [OF _ w1])
      show "wp (record_rollback_io i Rollback_Succeeded) ?Q ?E w2" by (rule ok [OF w2])
      show "if is_exception e then wp (then_io (record_rollback_io i Rollback_Failed)
          (then_io (eo_declare_incident eo (INTERRUPTED_REASON @ '' Auto Rollback then failed: '' @ exn_message e))
            (declare_incident_io i (INTERRUPTED_REASON @ '' Auto Rollback then failed: '' @ exn_message e)
              INCIDENT_MESSAGE))) ?Q ?E w2 else e = Cancelled" for e
        using bad [OF w2] by (simp add: is_exception_def)
    qed
  qed simp
qed

text \<open>The whole of one iteration of the loop.\<close>

lemma wp_recover_one:
  assumes w: "w_mongo w = []" and uniq: "unique_ids (w_applies w)"
    and r: "r \<in> set (w_applies w)" "record_in_flight r"
  shows "wp (recover_one s eo audit r)
    (\<lambda>_ w'. \<exists>y. record_at (ap_id r) y (w_applies w) w' \<and> recovered_record r y
       \<and> (ap_stage y = INCIDENT \<longrightarrow> engaged w'))
    (\<lambda>e _. e = Cancelled) (w :: ('r, 'e) world)"
  unfolding recover_one_def wp_then
proof (rule record_at_updates(1) [OF record_at_start [OF w uniq r(1)]], rule record_at_fail, assumption)
  let ?Q = "\<lambda>_ w'. \<exists>y. record_at (ap_id r) y (w_applies w) w' \<and> recovered_record r y
       \<and> (ap_stage y = INCIDENT \<longrightarrow> engaged w')"
  let ?E = "\<lambda>e (_ :: ('r, 'e) world). e = Cancelled"
  fix now and w2 :: "('r, 'e) world"
  let ?x = "advance_record FAILED (Some INTERRUPTED_REASON) now
    (r\<lparr>ap_interrupted := True, ap_failure_reason := Some INTERRUPTED_REASON\<rparr>)"
  assume w2: "record_at (ap_id r) ?x (w_applies w) w2"
  have x: "failed_record r ?x" by (simp add: failed_record_def advance_record_def)
  have last: "wp (when_io (ap_stage r \<in> set ROLLED_BACK_FROM) (restore_after_interruption eo (ap_id r))) ?Q ?E w3"
    if w3: "record_at (ap_id r) ?x (w_applies w) w3" for w3
    using wp_restore_after_interruption [OF w3 x r(2)] w3 x r(2)
    by (auto simp: recovered_record_def failed_record_def)
  have rest: "wp (when_io audit (try_io is_pymongo (audit_record s SYSTEM_ACTOR aid en) (\<lambda>_. ret ())))
      (\<lambda>_. wp (when_io (ap_stage r \<in> set ROLLED_BACK_FROM) (restore_after_interruption eo (ap_id r))) ?Q ?E)
      ?E w2" for aid en
  proof (cases audit)
    case True
    show ?thesis unfolding if_P [OF True] wp_try
      by (rule record_at_audit [OF w2]) (rule last)
  next
    case False
    show ?thesis unfolding if_not_P [OF False] wp_ret by (rule last [OF w2])
  qed
  show "wp (when_io audit (try_io is_pymongo (audit_record s SYSTEM_ACTOR (Some (ap_id r))
      \<lparr>en_category = PIPELINE_CATEGORY, en_action = Applied, en_resource = None, en_snapshot = None,
       en_outcome = Failed, en_detail = Some (''interrupted in '' @ stage_value (ap_stage r)
         @ '' by a restart; not completed'')\<rparr>) (\<lambda>_. ret ())))
      (\<lambda>_. wp (when_io (ap_stage r \<in> set ROLLED_BACK_FROM) (restore_after_interruption eo (ap_id r))) ?Q ?E)
      ?E w2"
    by (rule rest)
qed

end

section \<open>The loop\<close>

definition flying :: "applies \<Rightarrow> nat" where
  "flying db = length (filter record_in_flight db)"

lemma list_all2_update_one:
  assumes "unique_ids db" and "r \<in> set db" and "recovered_record r y" and "record_in_flight r"
  shows "list_all2 (\<lambda>x z. if ap_id x = ap_id r then z = y else z = x) db (update_one (ap_id r) (\<lambda>_. y) db)"
  by (simp add: update_one_def list_all2_conv_all_nth)

lemma flying_update_one:
  assumes "record_in_flight r" "r \<in> set db" "\<not> record_in_flight y"
  shows "flying (update_one (ap_id r) (\<lambda>_. y) db) < flying db"
  using assms(2)
proof (induction db)
  case (Cons x db)
  have le: "flying (update_one (ap_id r) (\<lambda>_. y) db) \<le> flying db" for db
    by (induction db) (auto simp: flying_def update_one_def assms(3))
  have "flying (update_one (ap_id r) (\<lambda>_. y) (x # db)) =
      (if ap_id x \<noteq> ap_id r \<and> record_in_flight x then 1 else 0) + flying (update_one (ap_id r) (\<lambda>_. y) db)"
    by (simp add: flying_def update_one_def assms(3))
  moreover have "flying (x # db) = (if record_in_flight x then 1 else 0) + flying db"
    by (simp add: flying_def)
  ultimately show ?case
    using Cons assms(1) le [of db] by (auto split: if_splits)
qed simp

text \<open>The collection after recovery, record by record.\<close>

definition recovered :: "applies \<Rightarrow> applies \<Rightarrow> bool" where
  "recovered db db' \<longleftrightarrow> list_all2 recovered_record db db'"

lemma recovered_one:
  assumes "unique_ids db" "r \<in> set db" "record_in_flight r" "recovered_record r y"
    and "recovered (update_one (ap_id r) (\<lambda>_. y) db) db'"
  shows "recovered db db'"
  unfolding recovered_def list_all2_conv_all_nth
proof (intro conjI allI impI)
  let ?db1 = "update_one (ap_id r) (\<lambda>_. y) db"
  have len: "length ?db1 = length db" by (simp add: update_one_def)
  show "length db = length db'"
    using assms(5) len by (metis list_all2_lengthD recovered_def)
  fix k assume k: "k < length db"
  have rel: "recovered_record (?db1 ! k) (db' ! k)"
    using assms(5) k len by (simp add: recovered_def list_all2_conv_all_nth)
  show "recovered_record (db ! k) (db' ! k)"
  proof (cases "ap_id (db ! k) = ap_id r")
    case True
    then have r: "db ! k = r"
      using assms(1,2) k by (auto simp: unique_ids_def distinct_map inj_on_def)
    from True k have "?db1 ! k = y" by (simp add: update_one_def)
    with rel recovered_terminal [OF assms(4)] have "db' ! k = y"
      by (auto simp: recovered_record_def record_in_flight_def)
    with r assms(4) show ?thesis by simp
  next
    case False
    with k have "?db1 ! k = db ! k" by (simp add: update_one_def)
    with rel show ?thesis by simp
  qed
qed

lemma recovered_refl: "\<forall>r \<in> set db. ap_stage r \<in> set TERMINAL \<Longrightarrow> recovered db db"
  by (simp add: recovered_def list_all2_same recovered_refl_terminal)

context guarded_engine
begin

theorem wp_recover_interrupted:
  assumes "w_mongo w = []" and "unique_ids (w_applies w)" and "flying (w_applies w) < fuel"
  shows "wp (recover_interrupted s eo audit fuel)
    (\<lambda>res w'. res \<noteq> None \<and> in_flight (w_applies w') = None \<and> recovered (w_applies w) (w_applies w'))
    (\<lambda>e _. e = Cancelled) (w :: ('r, 'e) world)"
  using assms
proof (induction fuel arbitrary: w)
  case (Suc fuel)
  let ?E = "\<lambda>e (_ :: ('r, 'e) world). e = Cancelled"
  show ?case
  proof (cases "in_flight (w_applies w)")
    case None
    then have "recovered (w_applies w) (w_applies w)"
      by (intro recovered_refl) (simp add: in_flight_None_iff)
    with None Suc.prems(1) show ?thesis
      by (simp add: in_flight_io_def del: in_flight_None_iff)
  next
    case (Some r)
    from in_flight_Some [OF Some] have r: "r \<in> set (w_applies w)" "record_in_flight r"
      by (auto simp: record_in_flight_def)
    let ?Q = "\<lambda>res w'. map_option ((#) (ap_id r)) res \<noteq> None \<and> in_flight (w_applies w') = None
        \<and> recovered (w_applies w) (w_applies w')"
    have rest: "wp (recover_interrupted s eo audit fuel) ?Q ?E w1"
      if y: "record_at (ap_id r) y (w_applies w) w1" "recovered_record r y" for y w1
    proof -
      have db1: "w_applies w1 = update_one (ap_id r) (\<lambda>_. y) (w_applies w)" "w_mongo w1 = []"
        using y(1) by (simp_all add: record_at_def)
      have ids: "map ap_id (w_applies w1) = map ap_id (w_applies w)"
        using recovered_id [OF y(2)] by (simp add: db1 update_one_def comp_def)
      have "\<not> record_in_flight y" using recovered_terminal [OF y(2)] by (simp add: record_in_flight_def)
      then have "flying (w_applies w1) < fuel"
        using flying_update_one [OF r(2,1)] Suc.prems(3) by (fastforce simp: db1)
      then have "wp (recover_interrupted s eo audit fuel)
          (\<lambda>res w'. res \<noteq> None \<and> in_flight (w_applies w') = None \<and> recovered (w_applies w1) (w_applies w')) ?E w1"
        using Suc.prems(2) ids by (intro Suc.IH) (auto simp: db1 unique_ids_def)
      then show ?thesis
        by (rule wp_mono) (auto intro: recovered_one [OF Suc.prems(2) r y(2)] simp: db1)
    qed
    show ?thesis
      using Some
      by (auto intro!: wp_in_flight_io [OF Suc.prems(1)] wp_mono [OF wp_recover_one [OF Suc.prems(1,2) r]]
          wp_mono [OF rest])
  qed
qed simp

end

end
