(* ===== verification/Candidate_Store.thy ===== *)
theory Candidate_Store
  imports Stores
begin

text \<open>
  The Configuration Candidate (\<open>app/pipeline/candidate.py\<close>): one shared document, derived from
  the latest Snapshot when none is stored, refused when it would not fit, replaced whole with
  its pre-image returned by the write, and audited from the difference. The size of an encoded
  document is \<open>bson\<close>'s, a parameter: \<open>encoded_size\<close> of a Candidate, \<open>section_size\<close> of one
  Section's resources.
\<close>

record 'r bson =
  encoded_size :: "'r candidate \<Rightarrow> nat"
  section_size :: "'r resources \<Rightarrow> nat"

text \<open>\<open>candidate.sections.setdefault(name, {}) for name in SECTIONS\<close>.\<close>

definition set_defaults :: "'r sections \<Rightarrow> 'r sections" where
  "set_defaults ss = fold (\<lambda>name d. if has_key d name then d else d @ [(name, [])]) SECTIONS ss"

definition derive_from_latest :: "('r, 'e, 'r candidate) act" where
  "derive_from_latest = bind_io latest_io (\<lambda>snap.
     let number = map_option sn_number snap in
     bind_io (sections_of_io number) (\<lambda>ss.
       ret \<lparr>ca_base = number, ca_sections = ss, ca_updated_at = None\<rparr>))"

definition candidate_load :: "('r, 'e, 'r candidate) act" where
  "candidate_load = bind_io (mongo (asks w_candidate)) (\<lambda>doc. case doc of
      None \<Rightarrow> derive_from_latest
    | Some c \<Rightarrow> ret (c\<lparr>ca_sections := set_defaults (ca_sections c)\<rparr>))"

definition candidate_stored :: "('r, 'e, 'r candidate option) act" where
  "candidate_stored = mongo (asks w_candidate)"

text \<open>\<open>max(sections, key=..., default="the Candidate")\<close>: the first of the largest.\<close>

fun largest_from :: "('r resources \<Rightarrow> nat) \<Rightarrow> string \<times> nat \<Rightarrow> 'r sections \<Rightarrow> string" where
  "largest_from sz best [] = fst best"
| "largest_from sz best ((name, r) # ss) =
     largest_from sz (if snd best < sz r then (name, sz r) else best) ss"

definition largest_section :: "('r resources \<Rightarrow> nat) \<Rightarrow> 'r sections \<Rightarrow> string" where
  "largest_section sz ss = (case ss of
      [] \<Rightarrow> ''the Candidate''
    | (name, r) # rest \<Rightarrow> largest_from sz (name, sz r) rest)"

definition refuse_if_too_large :: "'r bson \<Rightarrow> nat \<Rightarrow> 'r candidate \<Rightarrow> ('r, 'e, unit) act" where
  "refuse_if_too_large b max_bytes c =
     (if encoded_size b c \<le> max_bytes then ret ()
      else raise_io (Raised CandidateTooLarge (largest_section (section_size b) (ca_sections c))))"

definition sections_of_document :: "'r candidate option \<Rightarrow> 'r sections" where
  "sections_of_document doc = (case doc of None \<Rightarrow> [] | Some c \<Rightarrow> ca_sections c)"

text \<open>One event for an act the caller names, one per resource that moved otherwise.\<close>

definition candidate_record ::
  "settings \<Rightarrow> 'r sections \<Rightarrow> 'r sections \<Rightarrow> category option \<Rightarrow> action option \<Rightarrow> string option \<Rightarrow>
     ('r, 'e, unit) act" where
  "candidate_record s before later category act detail = bind_io actor_io (\<lambda>who.
     case (category, act) of
       (Some c, Some a) \<Rightarrow> audit_record s who None ((mk_entry c a None)\<lparr>en_detail := detail\<rparr>)
     | _ \<Rightarrow> audit_record_each s who None
         (map (\<lambda>ch. mk_entry (ch_category ch) (ch_action ch) (Some (ch_resource ch)))
           (changes_between before later)))"

definition candidate_save ::
  "settings \<Rightarrow> 'r bson \<Rightarrow> 'r candidate \<Rightarrow> category option \<Rightarrow> action option \<Rightarrow> string option \<Rightarrow>
     ('r, 'e, 'r candidate) act" where
  "candidate_save s b candidate category act detail = bind_io now_io (\<lambda>now.
     let c = candidate\<lparr>ca_updated_at := Some now\<rparr> in
     then_io (refuse_if_too_large b (st_candidate_max_bytes s) c)
       (bind_io (mongo (\<lambda>w. (Inr (w_candidate w), w\<lparr>w_candidate := Some c\<rparr>))) (\<lambda>previous.
         then_io (candidate_record s (sections_of_document previous) (ca_sections c) category act detail)
           (ret c))))"

definition from_snapshot :: "int option \<Rightarrow> string" where
  "from_snapshot number = (case number of
      None \<Rightarrow> ''restored from an empty baseline''
    | Some n \<Rightarrow> ''restored from Snapshot '' @ show_int n)"

definition candidate_replace :: "settings \<Rightarrow> 'r bson \<Rightarrow> 'r sections \<Rightarrow> ('r, 'e, 'r candidate) act" where
  "candidate_replace s b ss = bind_io latest_io (\<lambda>snap.
     candidate_save s b \<lparr>ca_base = map_option sn_number snap, ca_sections = ss, ca_updated_at = None\<rparr>
       (Some PIPELINE_CATEGORY) (Some Imported) None)"

definition candidate_reset :: "settings \<Rightarrow> 'r bson \<Rightarrow> int option \<Rightarrow> ('r, 'e, 'r candidate) act" where
  "candidate_reset s b base_snapshot =
     bind_io (case base_snapshot of
         None \<Rightarrow> derive_from_latest
       | Some n \<Rightarrow> bind_io (sections_of_io (Some n)) (\<lambda>ss.
           ret \<lparr>ca_base = Some n, ca_sections = ss, ca_updated_at = None\<rparr>))
     (\<lambda>fresh. candidate_save s b fresh (Some PIPELINE_CATEGORY) (Some Reset)
        (Some (from_snapshot (ca_base fresh))))"

section \<open>Lemmas\<close>

lemma sec_get_append_new:
  "\<not> has_key d n \<Longrightarrow> sec_get (d @ [(n, [])]) m = sec_get d m"
  by (auto simp: sec_get_def map_add_def split: option.splits)

lemma sec_get_fold_defaults:
  "sec_get (fold (\<lambda>name d. if has_key d name then d else d @ [(name, [])]) names d) m = sec_get d m"
  by (induction names arbitrary: d) (auto simp: sec_get_append_new)

lemma sec_get_set_defaults [simp]: "sec_get (set_defaults ss) m = sec_get ss m"
  unfolding set_defaults_def by (rule sec_get_fold_defaults)

lemma keys_fold_defaults:
  "fst ` set (fold (\<lambda>name d. if has_key d name then d else d @ [(name, [])]) names d) =
     fst ` set d \<union> set names"
  by (induction names arbitrary: d) auto

lemma keys_set_defaults [simp]: "fst ` set (set_defaults ss) = fst ` set ss \<union> set SECTIONS"
  unfolding set_defaults_def by (rule keys_fold_defaults)

lemma largest_from_ge:
  "largest_from sz best ss = fst best \<and> (\<forall>(n, r) \<in> set ss. sz r \<le> snd best)
   \<or> (\<exists>(n, r) \<in> set ss. largest_from sz best ss = n \<and> snd best < sz r
        \<and> (\<forall>(m, q) \<in> set ss. sz q \<le> sz r))"
proof (induction ss arbitrary: best)
  case (Cons a ss)
  obtain n r where a: "a = (n, r)" by force
  show ?case
    using Cons.IH [of "if snd best < sz r then (n, sz r) else best"]
    by (auto simp: a split: if_splits) (force+)
qed simp

lemmas candidate_defs = derive_from_latest_def candidate_load_def candidate_stored_def
  refuse_if_too_large_def candidate_record_def candidate_save_def candidate_replace_def
  candidate_reset_def

end
