(* ===== verification/Gates.thy ===== *)
theory Gates
  imports Recovery_Correct Candidate_Store
begin

text \<open>
  The gates of a mutating request (\<open>app/api/deps.py\<close>) and the two requests that start an Apply
  (\<open>app/api/applies.py\<close>, \<open>app/api/admin.py\<close>). Starting is split where the handler awaits, so
  that two requests can be interleaved: the check that nothing is in flight, and the creation
  of the record. Resolving the caller is the framework's part; a handler runs with an identity.
\<close>

definition mutations_enabled :: "('r, 'e, unit) act" where
  "mutations_enabled = bind_io maintenance_get (\<lambda>m.
     if ms_engaged m then raise_io (Raised MaintenanceModeEngaged
       (''Changes are temporarily disabled. '' @
        (case ms_reason m of None \<Rightarrow> ''An Admin has engaged Maintenance Mode.''
         | Some why \<Rightarrow> if why = [] then ''An Admin has engaged Maintenance Mode.'' else why)))
     else ret ())"

definition operator_mutation_allowed :: "('r, 'e, unit) act" where
  "operator_mutation_allowed = then_io mutations_enabled (bind_io in_flight_io (\<lambda>running.
     case running of None \<Rightarrow> ret ()
     | Some r \<Rightarrow> raise_io (Raised Conflict (''The Configuration Candidate is frozen: Apply '' @ ap_id r
         @ '' is in flight ('' @ stage_value (ap_stage r)
         @ ''). Changes are rejected until it finishes.''))))"

definition refuse_if_running :: "('r, 'e, unit) act" where
  "refuse_if_running = bind_io in_flight_io (\<lambda>running. case running of None \<Rightarrow> ret ()
     | Some r \<Rightarrow> raise_io (Raised Conflict (''Apply '' @ ap_id r
         @ '' is already in flight. The Candidate is frozen until it finishes.'')))"

definition create_for_candidate :: "('r, 'e, apply_record) act" where
  "create_for_candidate = bind_io candidate_load (\<lambda>c. create_io (ca_base c))"

definition start_apply :: "('r, 'e, apply_record) act" where
  "start_apply = then_io refuse_if_running create_for_candidate"

definition create_for_latest :: "('r, 'e, apply_record) act" where
  "create_for_latest = bind_io latest_io (\<lambda>s. create_io (map_option sn_number s))"

definition start_admin_apply :: "('r, 'e, apply_record) act" where
  "start_admin_apply = then_io refuse_if_running create_for_latest"

section \<open>Lemmas\<close>

text \<open>An id that the next draw produces and no record has.\<close>

definition fresh_id :: "('r, 'e) world \<Rightarrow> bool" where
  "fresh_id w \<longleftrightarrow> ''apl_'' @ take 16 (w_uuid w (w_uuids_drawn w)) \<notin> set (map ap_id (w_applies w))"

lemma new_record_id [simp]: "ap_id (new_record i now base) = i"
  by (simp add: new_record_def)

lemma wp_uuid_hex:
  "wp uuid_hex Q E w = Q (w_uuid w (w_uuids_drawn w)) (w\<lparr>w_uuids_drawn := Suc (w_uuids_drawn w)\<rparr>)"
  by (simp add: wp_def uuid_hex_def)

lemma now_io_uuids:
  assumes "w_mongo w = []" and "\<And>n w'. booked w (w_applies w) w' \<Longrightarrow> w_uuid w' = w_uuid w \<Longrightarrow>
    w_uuids_drawn w' = w_uuids_drawn w \<Longrightarrow> Q n w'"
  shows "wp now_io Q E w"
  using assms(1) unfolding wp_def now_io_def Let_def
  by (auto intro!: assms(2) simp: booked_def outside_def split: list.split)

lemma wp_create_io:
  assumes w: "w_mongo w = []" and fresh: "fresh_id w"
    and Q: "\<And>now w'. booked w (w_applies w @ [new_record (''apl_'' @ take 16 (w_uuid w (w_uuids_drawn w))) now base]) w' \<Longrightarrow>
      w_uuid w' = w_uuid w \<Longrightarrow> w_uuids_drawn w' = Suc (w_uuids_drawn w) \<Longrightarrow>
      Q (new_record (''apl_'' @ take 16 (w_uuid w (w_uuids_drawn w))) now base) w'"
  shows "wp (create_io base) Q E w"
  unfolding create_io_def wp_bind
proof (rule now_io_uuids [OF w])
  let ?i = "''apl_'' @ take 16 (w_uuid w (w_uuids_drawn w))"
  fix now and w1 :: "('a, 'b) world"
  assume w1: "booked w (w_applies w) w1" and u: "w_uuid w1 = w_uuid w" "w_uuids_drawn w1 = w_uuids_drawn w"
  let ?r = "new_record ?i now base"
  let ?w2 = "w1\<lparr>w_uuids_drawn := Suc (w_uuids_drawn w), w_applies := w_applies w @ [?r]\<rparr>"
  have "create_apply ?r (w_applies w) = Inr (w_applies w @ [?r])"
    using fresh by (auto simp: create_apply_def fresh_id_def)
  moreover have "booked w (w_applies w @ [?r]) ?w2"
    using w1 by (auto simp: booked_def outside_def)
  then have "Q ?r ?w2" by (rule Q) (simp_all add: u)
  ultimately show "wp uuid_hex (\<lambda>hex. wp (let record = new_record (''apl_'' @ take 16 hex) now base in
      then_io (mongo (update_io (\<lambda>w. case create_apply record (w_applies w) of
         Inl e \<Rightarrow> Inl e | Inr db \<Rightarrow> Inr (w\<lparr>w_applies := db\<rparr>)))) (ret record)) Q E) E w1"
    using bookedD [OF w1] u by (simp add: wp_uuid_hex Let_def)
qed

lemma wp_candidate_load:
  assumes "w_mongo w = []" and "\<And>c. Q c w"
  shows "wp candidate_load Q E w"
  using assms by (auto simp: candidate_load_def derive_from_latest_def latest_io_def sections_of_io_def
      get_snapshot_io_def Let_def split: option.split)

lemma candidate_load_world:
  assumes "w_mongo w = []"
  shows "wp candidate_load (\<lambda>_ w'. w' = w) (\<lambda>_ _. False) w"
  using assms by (auto intro: wp_candidate_load)

lemma wp_refuse:
  assumes "w_mongo w = []"
  shows "wp refuse_if_running Q E w =
    (case in_flight (w_applies w) of None \<Rightarrow> Q () w
     | Some r \<Rightarrow> E (Raised Conflict (''Apply '' @ ap_id r
         @ '' is already in flight. The Candidate is frozen until it finishes.'')) w)"
  using assms by (auto simp: refuse_if_running_def in_flight_io_def simp del: in_flight_None_iff split: option.split)

lemma flying_append [simp]: "flying (db @ db') = flying db + flying db'"
  by (simp add: flying_def)

lemma flying_new [simp]: "flying [new_record i now base] = 1"
  by (simp add: flying_def record_in_flight_def new_record_def TERMINAL_def)

lemma flying_zero: "in_flight db = None \<longleftrightarrow> flying db = 0"
  by (simp add: in_flight_None_iff flying_def filter_empty_conv record_in_flight_def)

text \<open>What starting an Apply leaves: one record more, found by its id, at the head of the pipeline.\<close>

lemma running_new [simp]: "running VALIDATING (new_record i now base)"
  by (simp add: running_def) (simp add: new_record_def PIPELINE_def)

lemma get_apply_new: "i \<notin> set (map ap_id db) \<Longrightarrow> get_apply i (db @ [new_record i now base]) = Some (new_record i now base)"
  by (induction db) (auto simp: get_apply_def)

lemma wp_start:
  assumes w: "w_mongo w = []" "in_flight (w_applies w) = None" "fresh_id w"
    and Q: "\<And>r w'. booked w (w_applies w @ [r]) w' \<Longrightarrow> running VALIDATING r \<Longrightarrow>
      get_apply (ap_id r) (w_applies w') = Some r \<Longrightarrow> Q r w'"
  shows "wp start_apply Q E w" "wp start_admin_apply Q E w"
proof -
  have create: "wp (create_io base) Q E w" for base
    by (rule wp_create_io [OF w(1,3)], rule Q)
      (use w(3) in \<open>auto simp: fresh_id_def get_apply_new bookedD(2)\<close>)
  show "wp start_apply Q E w"
    unfolding start_apply_def wp_then wp_refuse [OF w(1)] w(2) option.case create_for_candidate_def wp_bind
    by (rule wp_candidate_load [OF w(1)], rule create)
  show "wp start_admin_apply Q E w"
    unfolding start_admin_apply_def wp_then wp_refuse [OF w(1)] w(2) option.case create_for_latest_def wp_bind
    by (simp add: latest_io_def w(1) create)
qed

lemma in_flight_append: "in_flight db = None \<Longrightarrow> record_in_flight r \<Longrightarrow> in_flight (db @ [r]) = Some r"
  unfolding in_flight_def by (induction db) (auto split: if_splits)

end
