(* ===== verification/Python_Text.thy ===== *)
theory Python_Text
  imports Apchi_Prelude
begin

text \<open>
  The string methods the generators use, on text whose code points are below 256:
  \<open>str.strip\<close>, \<open>str.splitlines\<close>, \<open>str.partition\<close>, \<open>startswith\<close> and \<open>endswith\<close>, with the
  lemmas that read a rendered file back.
\<close>

section \<open>Stripping\<close>

definition is_space :: "char \<Rightarrow> bool" where
  "is_space c \<longleftrightarrow> (let n = of_char c :: nat in n \<in> {9, 10, 11, 12, 13, 28, 29, 30, 31, 32, 133, 160})"

definition strip :: "string \<Rightarrow> string" where
  "strip s = rev (dropWhile is_space (rev (dropWhile is_space s)))"

lemma dropWhile_twice: "dropWhile P (dropWhile P xs) = dropWhile P xs"
  by (induction xs) auto

lemma strip_strip [simp]: "strip (strip s) = strip s"
proof -
  have "dropWhile is_space (strip s) = strip s"
  proof (cases "strip s")
    case (Cons c cs)
    have "strip s = rev (dropWhile is_space (rev (dropWhile is_space s)))" by (simp add: strip_def)
    then obtain zs where "dropWhile is_space s = strip s @ zs"
      by (metis rev_append rev_rev_ident takeWhile_dropWhile_id)
    then have "dropWhile is_space s = c # (cs @ zs)" using Cons by simp
    then have "\<not> is_space c" by (metis hd_dropWhile list.distinct(1) list.sel(1))
    then show ?thesis by (simp add: Cons)
  qed simp
  then show ?thesis
    unfolding strip_def [of "strip s"] by (simp add: strip_def dropWhile_twice)
qed

lemma strip_id:
  assumes "s = [] \<or> \<not> is_space (hd s) \<and> \<not> is_space (last s)"
  shows "strip s = s"
proof (cases "s = []")
  case False
  with assms have "\<not> is_space (hd s)" "\<not> is_space (hd (rev s))" by (simp_all add: hd_rev)
  then have "dropWhile is_space s = s" "dropWhile is_space (rev s) = rev s"
    by (simp_all add: dropWhile_eq_self_iff)
  then show ?thesis by (simp add: strip_def)
qed (simp add: strip_def)

section \<open>Lines\<close>

definition is_break :: "char \<Rightarrow> bool" where
  "is_break c \<longleftrightarrow> (let n = of_char c :: nat in n \<in> {10, 11, 12, 13, 28, 29, 30, 133})"

definition newline :: char where
  "newline = CHR 0x0A"

text \<open>\<open>splitlines\<close>: a carriage return and the line feed after it are one break; nothing after the last break is no line.\<close>

fun lines_from :: "string \<Rightarrow> string \<Rightarrow> string list" where
  "lines_from acc [] = (if acc = [] then [] else [rev acc])"
| "lines_from acc (c # cs) =
     (if is_break c then rev acc #
        (case cs of [] \<Rightarrow> [] | d # ds \<Rightarrow> lines_from [] (if c = CHR 0x0D \<and> d = newline then ds else cs))
      else lines_from (c # acc) cs)"

definition splitlines :: "string \<Rightarrow> string list" where
  "splitlines s = lines_from [] s"

definition one_line :: "string \<Rightarrow> bool" where
  "one_line s \<longleftrightarrow> \<not> list_ex is_break s"

lemma is_break_newline [simp]: "is_break newline"
  by (simp add: is_break_def newline_def)

lemma newline_not_cr [simp]: "newline \<noteq> CHR 0x0D"
  by (simp add: newline_def)

lemma is_space_newline [simp]: "is_space newline"
  by (simp add: is_space_def newline_def)

lemma lines_from_line:
  "one_line l \<Longrightarrow> lines_from acc (l @ newline # s) = (rev acc @ l) # lines_from [] s"
proof (induction l arbitrary: acc)
  case Nil
  then show ?case by (cases s) simp_all
qed (simp_all add: one_line_def)

lemma splitlines_lines:
  "\<forall>l \<in> set ls. one_line l \<Longrightarrow> splitlines (concat (map (\<lambda>l. l @ [newline]) ls)) = ls"
  by (induction ls) (simp_all add: splitlines_def lines_from_line)

section \<open>Partition, prefixes and suffixes\<close>

text \<open>\<open>partition(sep)\<close> for a one-character separator: \<open>None\<close> where it does not occur.\<close>

definition partition_at :: "char \<Rightarrow> string \<Rightarrow> (string \<times> string) option" where
  "partition_at sep s = (case dropWhile (\<lambda>c. c \<noteq> sep) s of
      [] \<Rightarrow> None
    | _ # value \<Rightarrow> Some (takeWhile (\<lambda>c. c \<noteq> sep) s, value))"

lemma partition_at_append: "sep \<notin> set k \<Longrightarrow> partition_at sep (k @ sep # v) = Some (k, v)"
  by (induction k) (auto simp: partition_at_def split: list.splits)

definition starts_with :: "string \<Rightarrow> string \<Rightarrow> bool" where
  "starts_with p s \<longleftrightarrow> take (length p) s = p"

definition ends_with :: "string \<Rightarrow> string \<Rightarrow> bool" where
  "ends_with p s \<longleftrightarrow> length p \<le> length s \<and> drop (length s - length p) s = p"

definition chop :: "nat \<Rightarrow> string \<Rightarrow> string" where
  "chop n s = take (length s - n) s"

text \<open>\<open>p in s\<close>, and \<open>str.lower\<close> on ASCII letters.\<close>

fun contains :: "string \<Rightarrow> string \<Rightarrow> bool" where
  "contains p [] = (p = [])"
| "contains p (c # cs) = (starts_with p (c # cs) \<or> contains p cs)"

definition is_upper :: "char \<Rightarrow> bool" where
  "is_upper c \<longleftrightarrow> CHR ''A'' \<le> c \<and> c \<le> CHR ''Z''"

definition lower :: "char \<Rightarrow> char" where
  "lower c = (if is_upper c then char_of (of_char c + 32 :: nat) else c)"

definition lower_case :: "string \<Rightarrow> string" where
  "lower_case = map lower"

lemma starts_with_iff: "starts_with p s \<longleftrightarrow> (\<exists>t. s = p @ t)"
  by (auto simp: starts_with_def) (metis append_take_drop_id)

lemma starts_with_append [simp]: "starts_with p (p @ t)"
  by (simp add: starts_with_def)

lemma ends_with_append [simp]: "ends_with p (t @ p)"
  by (simp add: ends_with_def)

lemma chop_append [simp]: "length p = n \<Longrightarrow> chop n (t @ p) = t"
  by (simp add: chop_def)

lemma ends_with_iff: "ends_with p s \<longleftrightarrow> (\<exists>t. s = t @ p)"
  by (auto simp: ends_with_def) (metis append_take_drop_id)

definition rstrip_slash :: "string \<Rightarrow> string" where
  "rstrip_slash s = rev (dropWhile (\<lambda>c. c = CHR ''/'') (rev s))"

section \<open>Comprehensions that may raise\<close>

fun map_sum_list :: "('a \<Rightarrow> 'e + 'b) \<Rightarrow> 'a list \<Rightarrow> 'e + 'b list" where
  "map_sum_list f [] = Inr []"
| "map_sum_list f (x # xs) = (case f x of Inl e \<Rightarrow> Inl e | Inr y \<Rightarrow>
     (case map_sum_list f xs of Inl e \<Rightarrow> Inl e | Inr ys \<Rightarrow> Inr (y # ys)))"

lemma map_sum_list_Inr:
  "map_sum_list f xs = Inr ys \<longleftrightarrow> list_all2 (\<lambda>x y. f x = Inr y) xs ys"
proof (induction xs arbitrary: ys)
  case (Cons x xs)
  show ?case
    by (cases "f x"; cases "map_sum_list f xs") (auto simp: list_all2_Cons1 simp flip: Cons.IH)
qed auto

end
