(* ===== verification/Json_Text.thy ===== *)
theory Json_Text
  imports Python_Text
begin

text \<open>
  What the generators of JSON files use of the standard library: \<open>json.dumps(document, indent=2)\<close>,
  equality of decoded documents (\<open>canon\<close>), \<open>re.escape\<close>, and the literal name behind an anchored and
  escaped pattern. \<open>json.loads\<close> is not modelled: a parse starts from the decoded document, \<open>None\<close>
  where the text is not JSON.
\<close>

section \<open>Documents\<close>

text \<open>Two documents are equal when they are the same with their keys sorted.\<close>

fun canon :: "json \<Rightarrow> json" where
  "canon (JList js) = JList (map canon js)"
| "canon (JObj kvs) = JObj (sort_key fst (map (map_prod id canon) kvs))"
| "canon j = j"

definition same_json :: "json \<Rightarrow> json \<Rightarrow> bool" where
  "same_json a b \<longleftrightarrow> canon a = canon b"

lemma same_json_refl [simp]: "same_json a a"
  by (simp add: same_json_def)

fun is_object :: "json \<Rightarrow> bool" where
  "is_object (JObj _) = True" | "is_object _ = False"

fun fields_of :: "json \<Rightarrow> json dict" where
  "fields_of (JObj kvs) = kvs" | "fields_of _ = []"

text \<open>Equal objects agree field by field.\<close>

lemma map_of_sort_key:
  "distinct (map fst kvs) \<Longrightarrow> map_of (sort_key fst kvs) = map_of kvs"
proof -
  assume d: "distinct (map fst kvs)"
  have "distinct (map fst (sort_key fst kvs))"
    using d by (metis distinct_map distinct_sort set_sort)
  then show ?thesis by (intro map_of_eqI) (use d in \<open>auto simp: map_of_eq_Some_iff\<close>)
qed

lemma same_json_fields:
  assumes "same_json (JObj a) (JObj b)" and "distinct (map fst a)" and "distinct (map fst b)"
  shows "map_option canon (map_of a k) = map_option canon (map_of b k)"
proof -
  have m: "map_of (map (map_prod id canon) kvs) k = map_option canon (map_of kvs k)" for kvs
    by (induction kvs) auto
  have f: "map fst (map (map_prod id canon) kvs) = map fst kvs" for kvs :: "(string \<times> json) list"
    by (induction kvs) auto
  have "sort_key fst (map (map_prod id canon) a) = sort_key fst (map (map_prod id canon) b)"
    using assms(1) by (simp add: same_json_def)
  then have "map_of (map (map_prod id canon) a) = map_of (map (map_prod id canon) b)"
    using assms(2,3) map_of_sort_key [of "map (map_prod id canon) a"] map_of_sort_key [of "map (map_prod id canon) b"]
    by (simp add: f)
  then show ?thesis by (simp flip: m)
qed

section \<open>Dumping\<close>

definition hex_digit :: "nat \<Rightarrow> char" where
  "hex_digit n = (if n < 10 then char_of (48 + n) else char_of (87 + n))"

definition json_char :: "char \<Rightarrow> string" where
  "json_char c = (let n = of_char c :: nat in
     if c = CHR 0x22 then [CHR 0x5C, CHR 0x22]
     else if c = CHR 0x5C then [CHR 0x5C, CHR 0x5C]
     else if n = 10 then [CHR 0x5C, CHR ''n''] else if n = 13 then [CHR 0x5C, CHR ''r'']
     else if n = 9 then [CHR 0x5C, CHR ''t''] else if n = 8 then [CHR 0x5C, CHR ''b'']
     else if n = 12 then [CHR 0x5C, CHR ''f'']
     else if 32 \<le> n \<and> n \<le> 126 then [c]
     else [CHR 0x5C, CHR ''u'', CHR ''0'', CHR ''0'', hex_digit (n div 16), hex_digit (n mod 16)])"

definition json_string :: "string \<Rightarrow> string" where
  "json_string s = CHR 0x22 # concat (map json_char s) @ [CHR 0x22]"

definition line_at :: "nat \<Rightarrow> string" where
  "line_at indent = newline # replicate indent CHR '' ''"

fun dump :: "nat \<Rightarrow> json \<Rightarrow> string" where
  "dump i JNull = ''null''"
| "dump i (JBool b) = (if b then ''true'' else ''false'')"
| "dump i (JNum n) = show_int n"
| "dump i (JStr s) = json_string s"
| "dump i (JList js) = (if js = [] then ''[]'' else
     ''['' @ line_at (i + 2) @ join_with ('','' @ line_at (i + 2)) (map (dump (i + 2)) js) @ line_at i @ '']'')"
| "dump i (JObj kvs) = (if kvs = [] then ''{}'' else
     ''{'' @ line_at (i + 2)
     @ join_with ('','' @ line_at (i + 2)) (map (\<lambda>(k, v). json_string k @ '': '' @ dump (i + 2) v) kvs)
     @ line_at i @ ''}'')"

definition dumps_line :: "json \<Rightarrow> string" where
  "dumps_line document = dump 0 document @ [newline]"

section \<open>Literal names as patterns\<close>

definition special :: "char \<Rightarrow> bool" where
  "special c \<longleftrightarrow> c \<in> set ''()[]{}?*+-|^$.&~# '' \<or> c = CHR 0x5C
     \<or> (of_char c :: nat) \<in> {9, 10, 11, 12, 13}"

definition re_escape :: "string \<Rightarrow> string" where
  "re_escape s = concat (map (\<lambda>c. if special c then [CHR 0x5C, c] else [c]) s)"

definition anchored :: "string \<Rightarrow> string" where
  "anchored s = ''^'' @ re_escape s @ ''$''"

text \<open>\<open>re.sub\<close> of a backslash and the character after it by that character; a dot matches no line feed.\<close>

fun unescape :: "string \<Rightarrow> string" where
  "unescape (c # d # cs) = (if c = CHR 0x5C \<and> d \<noteq> newline then d # unescape cs else c # unescape (d # cs))"
| "unescape cs = cs"

text \<open>The group of \<open>^\^(.*)\$$\<close>: the final anchor also matches before a trailing line feed.\<close>

definition between_anchors :: "string \<Rightarrow> string option" where
  "between_anchors p = (case p of [] \<Rightarrow> None | c # r \<Rightarrow>
     (let r' = (if r \<noteq> [] \<and> last r = newline then butlast r else r) in
      if c = CHR ''^'' \<and> r' \<noteq> [] \<and> last r' = CHR ''$'' \<and> newline \<notin> set (butlast r') then Some (butlast r')
      else None))"

definition unanchor :: "string \<Rightarrow> string option" where
  "unanchor p = (case between_anchors p of None \<Rightarrow> None
     | Some literal \<Rightarrow> if re_escape (unescape literal) = literal then Some (unescape literal) else None)"

lemma re_escape_Cons: "re_escape (c # cs) = (if special c then [CHR 0x5C, c] else [c]) @ re_escape cs"
  by (simp add: re_escape_def)

lemma special_backslash: "special CHR 0x5C"
  by (simp add: special_def)

lemma unescape_escape: "newline \<notin> set s \<Longrightarrow> unescape (re_escape s) = s"
proof (induction s)
  case (Cons c cs)
  show ?case
  proof (cases "special c")
    case True
    then show ?thesis using Cons by (auto simp: re_escape_Cons)
  next
    case False
    then have "c \<noteq> CHR 0x5C" using special_backslash by auto
    then show ?thesis using Cons False by (cases "re_escape cs") (simp_all add: re_escape_Cons)
  qed
qed (simp add: re_escape_def)

lemma newline_escape: "newline \<in> set (re_escape s) \<longleftrightarrow> newline \<in> set s"
  by (induction s) (auto simp: re_escape_Cons newline_def, simp add: re_escape_def)

lemma unanchor_anchored:
  assumes "newline \<notin> set s"
  shows "unanchor (anchored s) = Some s"
proof -
  have "CHR ''$'' \<noteq> newline" by (simp add: newline_def)
  then have "between_anchors (anchored s) = Some (re_escape s)"
    using assms by (simp add: between_anchors_def anchored_def newline_escape butlast_append)
  then show ?thesis by (simp add: unanchor_def unescape_escape [OF assms])
qed

end
