(* ===== verification/Admin_Store.thy ===== *)
theory Admin_Store
  imports Stores Json_Text
begin

text \<open>
  The Admin values document and its one-step pre-image (\<open>app/pipeline/admin_values.py\<close>):
  \<open>save\<close> keeps what it replaced, \<open>restore_previous\<close> puts it back without rotating it. Two values
  are compared as their JSON with sorted keys (\<open>canon\<close>).
\<close>

definition admin_document :: "admin_values option \<Rightarrow> admin_values" where
  "admin_document doc = (case doc of None \<Rightarrow> default_admin | Some v \<Rightarrow> v)"

definition admin_load :: "('r, 'e, admin_values) act" where
  "admin_load = bind_io (mongo (asks w_admin)) (\<lambda>doc. ret (admin_document doc))"

definition admin_previous :: "('r, 'e, admin_values) act" where
  "admin_previous = bind_io (mongo (asks w_admin_previous)) (\<lambda>doc. ret (admin_document doc))"

text \<open>\<open>model_dump(mode="json")\<close>, field by field.\<close>

definition dump_mapping :: "certificate_mapping \<Rightarrow> json" where
  "dump_mapping m = JObj [(''pattern'', JStr (cm_pattern m)), (''user'', JStr (cm_user m)),
     (''case'', JStr (case_value (cm_case m)))]"

definition dump_admin :: "admin_values \<Rightarrow> json dict" where
  "dump_admin v =
     [(''enforce_permissions'', JBool (av_enforce_permissions v)),
      (''preserved_access_control'', JObj (map (map_prod id JList) (av_preserved_access_control v))),
      (''raw_files'', JObj (map (map_prod id JStr) (av_raw_files v))),
      (''preserved_certificate_mappings'', JList (map dump_mapping (av_preserved_mappings v)))]"

definition POLICY_FLAGS :: "string list" where "POLICY_FLAGS = [''enforce_permissions'']"

definition direction :: "string \<Rightarrow> json \<Rightarrow> string option" where
  "direction key v = (if key \<in> set POLICY_FLAGS then (case v of
       JBool b \<Rightarrow> Some (key @ '' set to '' @ (if b then ''true'' else ''false''))
     | _ \<Rightarrow> None) else None)"

definition admin_moved :: "json dict \<Rightarrow> json dict \<Rightarrow> string list" where
  "admin_moved before later =
     filter (\<lambda>k. map_option canon (map_of before k) \<noteq> map_option canon (map_of later k))
       (sorted_set (dict_keys before @ dict_keys later))"

definition admin_entries :: "json dict \<Rightarrow> json dict \<Rightarrow> entry list" where
  "admin_entries before later =
     map (\<lambda>k. (mk_entry ADMIN_CATEGORY Updated (Some k))
            \<lparr>en_detail := (case map_of later k of None \<Rightarrow> None | Some v \<Rightarrow> direction k v)\<rparr>)
       (admin_moved before later)"

definition admin_keep :: "admin_values \<Rightarrow> ('r, 'e, unit) act" where
  "admin_keep previous = mongo (modify_io (w_admin_previous_update (\<lambda>_. Some previous)))"

definition admin_save :: "settings \<Rightarrow> admin_values \<Rightarrow> ('r, 'e, admin_values) act" where
  "admin_save s v =
     bind_io (mongo (\<lambda>w. (Inr (w_admin w), w\<lparr>w_admin := Some v\<rparr>))) (\<lambda>previous.
       let before = admin_document previous in
       then_io (admin_keep before)
         (bind_io actor_io (\<lambda>who.
           then_io (audit_record_each s who None (admin_entries (dump_admin before) (dump_admin v)))
             (ret v))))"

definition restore_previous :: "('r, 'e, admin_values) act" where
  "restore_previous = bind_io admin_previous (\<lambda>previous.
     then_io (mongo (modify_io (w_admin_update (\<lambda>_. Some previous)))) (ret previous))"

section \<open>Lemmas\<close>

lemma admin_document_simps [simp]:
  "admin_document None = default_admin" "admin_document (Some v) = v"
  by (simp_all add: admin_document_def)

lemma dump_admin_keys [simp]: "dict_keys (dump_admin v) =
    [''enforce_permissions'', ''preserved_access_control'', ''raw_files'', ''preserved_certificate_mappings'']"
  by (simp add: dump_admin_def)

text \<open>Only the policy flag's event carries content: no other value reaches the trail.\<close>

lemma admin_entries_detail:
  "en \<in> set (admin_entries before (dump_admin v)) \<Longrightarrow>
     en_detail en = None \<or>
     en_resource en = Some ''enforce_permissions''
       \<and> en_detail en = Some (''enforce_permissions set to ''
            @ (if av_enforce_permissions v then ''true'' else ''false''))"
  by (auto simp: admin_entries_def direction_def POLICY_FLAGS_def dump_admin_def mk_entry_def
      split: json.splits option.splits if_splits)

lemma admin_entries_moved:
  "(\<exists>en \<in> set (admin_entries (dump_admin u) (dump_admin v)). en_resource en = Some k) \<longleftrightarrow>
     map_option canon (map_of (dump_admin u) k) \<noteq> map_option canon (map_of (dump_admin v) k)"
proof -
  have "k \<in> set (admin_moved (dump_admin u) (dump_admin v)) \<longleftrightarrow>
      map_option canon (map_of (dump_admin u) k) \<noteq> map_option canon (map_of (dump_admin v) k)"
    using map_of_None_iff [of "dump_admin u" k] map_of_None_iff [of "dump_admin v" k]
    by (auto simp: admin_moved_def simp del: set_map)
  then show ?thesis by (auto simp: admin_entries_def mk_entry_def)
qed

lemmas admin_defs = admin_load_def admin_previous_def admin_keep_def admin_save_def restore_previous_def

end
