(* ===== verification/Keeps.thy ===== *)
theory Keeps
  imports Admin_Store Candidate_Store
begin

text \<open>
  Operations that leave one component of the world alone: \<open>keeps f\<close> relates worlds on which
  the projection \<open>f\<close> agrees. For a projection that does not read the fault queues, the clock
  or the identifiers, the rules \<open>keeps_intros\<close> discharge a composed operation by \<open>auto\<close>, faults
  and cancellation included.
\<close>

definition keeps :: "('w \<Rightarrow> 'a) \<Rightarrow> 'w \<Rightarrow> 'w \<Rightarrow> bool" where
  "keeps f w w' \<longleftrightarrow> f w' = f w"

interpretation keeps: step_order "keeps f" for f
  by unfold_locales (auto simp: keeps_def)

definition plain :: "(('r, 'e) world \<Rightarrow> 'a) \<Rightarrow> bool" where
  "plain f \<longleftrightarrow> (\<forall>w g. f (w_mongo_update g w) = f w \<and> f (w_kube_update g w) = f w \<and> f (w_trino_update g w) = f w
       \<and> f (w_probe_update g w) = f w)
     \<and> (\<forall>w g h k. f (w_clock_update g w) = f w \<and> f (w_ticks_update h w) = f w \<and> f (w_uuids_drawn_update g w) = f w
         \<and> f (w_audit_update k w) = f w)
     \<and> (\<forall>w g. f (w_audit_indexed_update g w) = f w)"

lemma plain_fields [simp]:
  "plain w_applies" "plain w_snapshots" "plain w_candidate" "plain w_maintenance" "plain w_admin"
  "plain w_admin_previous" "plain w_secrets" "plain w_config_maps" "plain w_pod" "plain w_live"
  "plain w_restarts" "plain w_engine" "plain w_pods" "plain w_labelled"
  by (simp_all add: plain_def)

named_theorems keeps_intros

lemma keeps_external [keeps_intros]:
  assumes "plain f" and m: "within (keeps f) m"
  shows "within (keeps f) (mongo m)" "within (keeps f) (kube m)" "within (keeps f) (trino m)"
    "within (keeps f) (probe m)"
proof -
  have "f (snd (m v)) = f v" for v using withinD [OF m, of v] by (simp add: keeps_def)
  then show "within (keeps f) (mongo m)" "within (keeps f) (kube m)" "within (keeps f) (trino m)"
    "within (keeps f) (probe m)"
    using assms(1) by (auto simp: within_def external_defs external_def keeps_def plain_def
        split: list.splits fault.splits)
qed

lemma keeps_modify: "(\<And>w. f (g w) = f w) \<Longrightarrow> within (keeps f) (modify_io g)"
  by (simp add: within_def modify_io_def keeps_def)

lemma keeps_update: "(\<And>w w'. g w = Inr w' \<Longrightarrow> f w' = f w) \<Longrightarrow> within (keeps f) (update_io g)"
  by (auto simp: within_def update_io_def keeps_def split: sum.splits)

lemma keeps_pair: "(\<And>w. f (g w) = f w) \<Longrightarrow> within (keeps f) (\<lambda>w. (h w, g w))"
  by (simp add: within_def keeps_def)

lemma keeps_time [keeps_intros]:
  assumes "plain f"
  shows "within (keeps f) now_io" "within (keeps f) uuid_hex" "within (keeps f) (sleep n)"
  using assms by (auto simp: within_def keeps_def now_io_def uuid_hex_def sleep_def modify_io_def plain_def Let_def
      split: list.split)

lemma keeps_audit [keeps_intros]:
  assumes f: "plain f"
  shows "within (keeps f) (indexed_once s)" "within (keeps f) (audit_record s who aid en)"
    "within (keeps f) (audit_record_each s who aid ens)" "within (keeps f) actor_io"
proof -
  have "within (keeps f) (modify_io (w_audit_update g))" "within (keeps f) (modify_io (w_audit_indexed_update h))"
    for g h using f by (auto intro!: keeps_modify simp: plain_def)
  then show "within (keeps f) (indexed_once s)" "within (keeps f) (audit_record s who aid en)"
    "within (keeps f) (audit_record_each s who aid ens)" "within (keeps f) actor_io"
    using f by (auto simp: indexed_once_def ensure_indexes_def audit_record_def audit_record_each_def actor_io_def
        intro!: keeps_intros)
qed

lemma keeps_reads [keeps_intros]:
  assumes f: "plain f"
  shows "within (keeps f) (read_secret_if_present name)" "within (keeps f) (read_secret name)"
    "within (keeps f) (read_config_map name)" "within (keeps f) deployment_pod_spec"
    "within (keeps f) ready_replicas" "within (keeps f) trino_catalogs" "within (keeps f) active_worker_count"
    "within (keeps f) latest_io" "within (keeps f) (get_snapshot_io n)" "within (keeps f) (sections_of_io k)"
    "within (keeps f) candidate_load" "within (keeps f) admin_load" "within (keeps f) in_flight_io"
    "within (keeps f) maintenance_get" "within (keeps f) admin_previous"
  using f by (auto simp: adapter_defs store_io_defs candidate_defs admin_defs Let_def
      intro!: keeps_intros split: option.split)

lemma keeps_smoke [keeps_intros]: "plain f \<Longrightarrow> within (keeps f) smoke_query"
  unfolding smoke_query_def by (intro keeps_intros keeps_pair) auto

end
