(* ===== verification/Posix_Path.thy ===== *)
theory Posix_Path
  imports Apchi_Prelude
begin

text \<open>
  \<open>pathlib.PurePosixPath\<close>, as far as the code uses it: a path is its root (none, \<open>/\<close>, or the
  \<open>//\<close> POSIX keeps apart) and its parts, with empty parts and \<open>.\<close> dropped and \<open>..\<close> kept, since
  a pure path cannot know what a symbolic link makes of it. \<open>resolved_parts\<close> is what the kernel
  makes of \<open>..\<close> when no symbolic link is involved: the reference the code is compared with.
\<close>

fun split_on :: "char \<Rightarrow> string \<Rightarrow> string list" where
  "split_on sep [] = [[]]"
| "split_on sep (c # cs) = (if c = sep then [] # split_on sep cs
     else (case split_on sep cs of [] \<Rightarrow> [[c]] | p # ps \<Rightarrow> (c # p) # ps))"

record ppath =
  pp_root :: string
  pp_parts :: "string list"

fun root_of :: "string \<Rightarrow> string" where
  "root_of (a # b # c # cs) = (if a \<noteq> CHR ''/'' then '''' else if b = CHR ''/'' \<and> c \<noteq> CHR ''/'' then ''//'' else ''/'')"
| "root_of [a, b] = (if a \<noteq> CHR ''/'' then '''' else if b = CHR ''/'' then ''//'' else ''/'')"
| "root_of [a] = (if a = CHR ''/'' then ''/'' else '''')"
| "root_of [] = ''''"

definition real_part :: "string \<Rightarrow> bool" where
  "real_part p \<longleftrightarrow> p \<noteq> [] \<and> p \<noteq> ''.''"

definition posix :: "string \<Rightarrow> ppath" where
  "posix s = \<lparr>pp_root = root_of s, pp_parts = filter real_part (split_on (CHR ''/'') s)\<rparr>"

definition path_str :: "ppath \<Rightarrow> string" where
  "path_str p = (if pp_root p = [] \<and> pp_parts p = [] then ''.'' else pp_root p @ join_with ''/'' (pp_parts p))"

definition path_name :: "ppath \<Rightarrow> string" where
  "path_name p = (if pp_parts p = [] then [] else last (pp_parts p))"

definition path_parent :: "ppath \<Rightarrow> ppath" where
  "path_parent p = p\<lparr>pp_parts := butlast (pp_parts p)\<rparr>"

definition is_absolute :: "ppath \<Rightarrow> bool" where
  "is_absolute p \<longleftrightarrow> pp_root p \<noteq> []"

fun is_prefix :: "'a list \<Rightarrow> 'a list \<Rightarrow> bool" where
  "is_prefix [] ys = True"
| "is_prefix (x # xs) [] = False"
| "is_prefix (x # xs) (y # ys) = (x = y \<and> is_prefix xs ys)"

definition is_relative_to :: "ppath \<Rightarrow> ppath \<Rightarrow> bool" where
  "is_relative_to p q \<longleftrightarrow> pp_root p = pp_root q \<and> is_prefix (pp_parts q) (pp_parts p)"

text \<open>What the path names on a filesystem without symbolic links: \<open>..\<close> takes the last part away.\<close>

fun resolve_onto :: "string list \<Rightarrow> string list \<Rightarrow> string list" where
  "resolve_onto acc [] = rev acc"
| "resolve_onto acc (p # ps) = resolve_onto (if p = ''..'' then drop 1 acc else p # acc) ps"

definition resolved_parts :: "ppath \<Rightarrow> string list" where
  "resolved_parts p = resolve_onto [] (pp_parts p)"

section \<open>Lemmas\<close>

lemma is_prefix_iff: "is_prefix xs ys \<longleftrightarrow> (\<exists>zs. ys = xs @ zs)"
  by (induction xs ys rule: is_prefix.induct) auto

lemma split_on_ne [simp]: "split_on sep s \<noteq> []"
  by (induction s) (auto split: list.splits)

lemma split_on_no_sep: "p \<in> set (split_on sep s) \<Longrightarrow> sep \<notin> set p"
  by (induction s arbitrary: p) (auto split: list.splits if_splits)

lemma split_on_id: "sep \<notin> set s \<Longrightarrow> split_on sep s = [s]"
  by (induction s) auto

lemma split_on_append_sep: "sep \<notin> set p \<Longrightarrow> split_on sep (p @ sep # s) = p # split_on sep s"
  by (induction p) auto

lemma split_on_at_sep: "split_on sep (p @ sep # s) = split_on sep p @ split_on sep s"
  by (induction p) (auto split: list.split)

lemma split_on_join:
  "ps \<noteq> [] \<Longrightarrow> \<forall>p \<in> set ps. sep \<notin> set p \<Longrightarrow> split_on sep (join_with [sep] ps) = ps"
proof (induction ps)
  case (Cons p ps)
  then show ?case by (cases ps) (simp_all add: split_on_append_sep split_on_id)
qed simp

text \<open>Well-formed pure paths, the image of \<open>posix\<close>.\<close>

definition wf_ppath :: "ppath \<Rightarrow> bool" where
  "wf_ppath p \<longleftrightarrow> pp_root p \<in> {'''', ''/'', ''//''} \<and> (\<forall>q \<in> set (pp_parts p). real_part q \<and> CHR ''/'' \<notin> set q)"

lemma root_of_cases: "root_of s \<in> {'''', ''/'', ''//''}"
  by (induction s rule: root_of.induct) auto

lemma wf_posix [simp]: "wf_ppath (posix s)"
  using root_of_cases [of s] by (auto simp: wf_ppath_def posix_def dest: split_on_no_sep)

lemma join_with_ne_first:
  "ps \<noteq> [] \<Longrightarrow> \<forall>p \<in> set ps. real_part p \<and> CHR ''/'' \<notin> set p \<Longrightarrow>
     \<exists>c cs. join_with ''/'' ps = c # cs \<and> c \<noteq> CHR ''/''"
  by (induction ps rule: join_with.induct [of _ "''/''"]) (auto simp: real_part_def neq_Nil_conv)

lemma root_of_join:
  assumes "c \<noteq> CHR ''/''"
  shows "root_of (c # cs) = ''''" "root_of (CHR ''/'' # c # cs) = ''/''"
    "root_of (CHR ''/'' # CHR ''/'' # c # cs) = ''//''"
  using assms by (cases cs; cases "tl cs"; auto simp: neq_Nil_conv)+

lemma filter_real_id: "\<forall>q \<in> set ps. real_part q \<and> P q \<Longrightarrow> filter real_part ps = ps"
  by (simp add: filter_id_conv)

text \<open>Parsing the text of a path gives the path back, so a normal form is one.\<close>

lemma posix_path_str: "wf_ppath p \<Longrightarrow> posix (path_str p) = p"
proof (cases p)
  case (fields root parts)
  assume wf: "wf_ppath p"
  then have root: "root \<in> {'''', ''/'', ''//''}"
    and ps: "\<forall>q \<in> set parts. real_part q \<and> CHR ''/'' \<notin> set q"
    by (simp_all add: fields wf_ppath_def)
  show ?thesis
  proof (cases "parts = []")
    case True
    with root show ?thesis
      by (auto simp: fields path_str_def posix_def real_part_def)
  next
    case False
    obtain c cs where j: "join_with ''/'' parts = c # cs" "c \<noteq> CHR ''/''"
      using join_with_ne_first [OF False ps] by blast
    have sp: "split_on (CHR ''/'') (c # cs) = parts"
      using split_on_join [OF False, of "CHR ''/''"] ps j by auto
    have "split_on (CHR ''/'') (CHR ''/'' # s) = [] # split_on (CHR ''/'') s" for s by simp
    with root show ?thesis
      using False j sp root_of_join [OF j(2), of cs] filter_real_id [OF ps]
      by (auto simp: fields path_str_def posix_def real_part_def simp del: split_on.simps root_of.simps)
  qed
qed

lemma posix_normal [simp]: "posix (path_str (posix s)) = posix s"
  by (rule posix_path_str) simp

lemma resolve_onto_no_dots: "''..'' \<notin> set ps \<Longrightarrow> resolve_onto acc ps = rev acc @ ps"
  by (induction ps arbitrary: acc) auto

lemma resolved_no_dots: "''..'' \<notin> set (pp_parts p) \<Longrightarrow> resolved_parts p = pp_parts p"
  by (simp add: resolved_parts_def resolve_onto_no_dots)

end
