(* ===== verification/Section_Protocol.thy ===== *)
theory Section_Protocol
  imports World Posix_Path
begin

text \<open>
  What a Section is to the pipeline (\<open>app/sections/base.py\<close>): where its files go, and the record
  of operations the pipeline calls. Resources (\<open>'r\<close>) and plans (\<open>'p\<close>) belong to the Section; the
  pipeline only carries them. An operation acts on the world and may raise.
\<close>

record coordinator_file =
  cf_secret :: string
  cf_volume :: string
  cf_path :: string
  cf_probe_config :: "string dict"
  cf_credentials :: bool

record coordinator_directory =
  cd_secret :: string
  cd_path :: string
  cd_probe_files :: "string dict"
  cd_probe_config :: "string dict"
  cd_credentials :: bool

datatype delivery = File coordinator_file | Directory coordinator_directory

definition file_key :: "coordinator_file \<Rightarrow> string" where
  "file_key f = path_name (posix (cf_path f))"

fun spec_secret :: "delivery \<Rightarrow> string" where
  "spec_secret (File f) = cf_secret f"
| "spec_secret (Directory d) = cd_secret d"

fun spec_credentials :: "delivery \<Rightarrow> bool" where
  "spec_credentials (File f) = cf_credentials f"
| "spec_credentials (Directory d) = cd_credentials d"

fun spec_probe_config :: "delivery \<Rightarrow> string dict" where
  "spec_probe_config (File f) = cf_probe_config f"
| "spec_probe_config (Directory d) = cd_probe_config d"

text \<open>Where a Section's configuration is on a Cluster: Apchi's path to the path it is at.\<close>

record discovered_paths =
  dp_files :: "string dict"
  dp_directories :: "string dict"
  dp_why :: "string option"

definition at_files :: "string dict \<Rightarrow> string option \<Rightarrow> discovered_paths" where
  "at_files files why = \<lparr>dp_files = files, dp_directories = [], dp_why = why\<rparr>"

definition everywhere_looked :: "discovered_paths \<Rightarrow> string list" where
  "everywhere_looked d = sorted_set (map snd (dp_files d) @ map snd (dp_directories d))"

text \<open>What a Section may touch: the adapters are the world's, the rest is carried.\<close>

record cluster =
  cl_settings :: settings
  cl_admin :: admin_values

record ('r, 'p, 'e) section_ops =
  so_name :: section_name
  so_requires_rollout :: bool
  so_coordinator_files :: "settings \<Rightarrow> delivery list"
  so_render_files :: "'r resources \<Rightarrow> settings \<Rightarrow> admin_values \<Rightarrow> string dict"
  so_plan :: "'r resources \<Rightarrow> 'r resources \<Rightarrow> 'p"
  so_empty :: "'p \<Rightarrow> bool"
  so_apply :: "cluster \<Rightarrow> 'r resources \<Rightarrow> 'p \<Rightarrow> ('r, 'e, unit) act"
  so_restore :: "cluster \<Rightarrow> 'r resources \<Rightarrow> ('r, 'e, bool) act"
  so_check :: "cluster \<Rightarrow> 'r resources \<Rightarrow> 'p \<Rightarrow> ('r, 'e, validation_failure list) act"
  so_check_probe :: "'r resources \<Rightarrow> ('r, 'e, validation_failure list) act"
  so_needs_probe :: "'r resources \<Rightarrow> bool"
  so_discover_paths :: "settings \<Rightarrow> string dict \<Rightarrow> discovered_paths"
  so_verify :: "cluster \<Rightarrow> 'r resources \<Rightarrow> ('r, 'e, string list) act"

end
