(* ===== verification/Files.thy ===== *)
theory Files
  imports Section_Protocol Store_Rules
begin

text \<open>
  Delivering the files Sections declare (\<open>app/pipeline/files.py\<close>): one write per Secret, one
  mount per file that has content, one unmount per volume for those that have none; the
  question whether a delivery would change anything; and what the preconditions and the probe
  read off the same declarations.
\<close>

text \<open>\<open>contents.get(path)\<close> used as a truth value: present and not empty.\<close>

definition has_content :: "string dict \<Rightarrow> string \<Rightarrow> bool" where
  "has_content contents path = (case map_of contents path of None \<Rightarrow> False | Some c \<Rightarrow> c \<noteq> [])"

section \<open>One write per Secret\<close>

definition put_key :: "string \<Rightarrow> string \<Rightarrow> string \<Rightarrow> string dict dict \<Rightarrow> string dict dict" where
  "put_key secret key content secrets =
     AList.update secret (AList.update key content (sec_get secrets secret)) secrets"

text \<open>The loop's state: the Secrets being filled and the rendered paths nobody claimed yet.\<close>

type_synonym claims = "string dict dict \<times> string dict"

definition claim_path :: "string \<Rightarrow> string \<Rightarrow> string \<Rightarrow> claims \<Rightarrow> claims" where
  "claim_path secret key path = (\<lambda>(secrets, unclaimed).
     (if has_content unclaimed path then put_key secret key (the (map_of unclaimed path)) secrets
      else secrets, AList.delete path unclaimed))"

fun claim_spec :: "delivery \<Rightarrow> claims \<Rightarrow> claims" where
  "claim_spec (File f) st = claim_path (cf_secret f) (file_key f) (cf_path f) st"
| "claim_spec (Directory d) (secrets, unclaimed) =
     fold (\<lambda>p. claim_path (cd_secret d) (path_name (posix p)) p)
       (filter (\<lambda>p. path_parent (posix p) = posix (cd_path d)) (dict_keys unclaimed))
       (secrets, unclaimed)"

definition empty_secrets :: "delivery list \<Rightarrow> string dict dict" where
  "empty_secrets declared = fold (\<lambda>spec. AList.update (spec_secret spec) []) declared []"

definition by_secret :: "delivery list \<Rightarrow> string dict \<Rightarrow> exn + string dict dict" where
  "by_secret declared contents =
     (let (secrets, unclaimed) = fold claim_spec declared (empty_secrets declared, contents) in
      if unclaimed \<noteq> [] then Inl (Raised ValueError (join_with '', '' (sorted_keys unclaimed)))
      else Inr secrets)"

definition by_volume :: "delivery list \<Rightarrow> coordinator_file list dict" where
  "by_volume declared = fold (\<lambda>spec vols. case spec of
       File f \<Rightarrow> AList.update (cf_volume f)
         (case map_of vols (cf_volume f) of None \<Rightarrow> [f] | Some fs \<Rightarrow> fs @ [f]) vols
     | Directory d \<Rightarrow> vols) declared []"

section \<open>Delivery\<close>

definition deliver_volume :: "settings \<Rightarrow> string dict \<Rightarrow> string \<times> coordinator_file list \<Rightarrow> ('r, 'e, unit) act" where
  "deliver_volume s contents = (\<lambda>(volume, files).
     let present = filter (\<lambda>f. has_content contents (cf_path f)) files;
         absent = filter (\<lambda>f. \<not> has_content contents (cf_path f)) files in
     then_io (for_io (\<lambda>f. mount_secret_file (st_container s) volume (cf_secret f) (cf_path f) (file_key f)) present)
       (when_io (absent \<noteq> [])
         (unmount_secret_files (st_container s) volume (map cf_path absent) (present = []))))"

definition lift_error :: "exn + 'a \<Rightarrow> ('w, 'a) io" where
  "lift_error r = (case r of Inl e \<Rightarrow> raise_io e | Inr a \<Rightarrow> ret a)"

definition deliver :: "('r, 'p, 'e) section_ops \<Rightarrow> cluster \<Rightarrow> 'r resources \<Rightarrow> ('r, 'e, unit) act" where
  "deliver so cl desired =
     (let declared = so_coordinator_files so (cl_settings cl) in
      if declared = [] then ret ()
      else let contents = so_render_files so desired (cl_settings cl) (cl_admin cl) in
        bind_io (lift_error (by_secret declared contents)) (\<lambda>secrets.
          then_io (for_io (\<lambda>(secret, data). write_secret secret data) secrets)
            (for_io (deliver_volume (cl_settings cl) contents) (by_volume declared))))"

fun any_differs :: "string dict dict \<Rightarrow> ('r, 'e, bool) act" where
  "any_differs [] = ret False"
| "any_differs ((secret, data) # rest) = bind_io (read_secret secret) (\<lambda>live.
     if \<not> dict_eq live data then ret True else any_differs rest)"

definition would_change :: "('r, 'p, 'e) section_ops \<Rightarrow> cluster \<Rightarrow> 'r resources \<Rightarrow> ('r, 'e, bool) act" where
  "would_change so cl desired =
     (let declared = so_coordinator_files so (cl_settings cl) in
      if declared = [] then ret False
      else bind_io (lift_error (by_secret declared
          (so_render_files so desired (cl_settings cl) (cl_admin cl)))) any_differs)"

section \<open>What is read off the declarations\<close>

definition probe_files :: "('r, 'p, 'e) section_ops \<Rightarrow> settings \<Rightarrow> 'r resources \<Rightarrow> admin_values \<Rightarrow> string dict" where
  "probe_files so s desired admin =
     (let declared = so_coordinator_files so s;
          files = filter (\<lambda>(p, c). c \<noteq> []) (so_render_files so desired s admin) in
      if declared = [] \<or> files = [] then []
      else fold (\<lambda>spec fs. case spec of File f \<Rightarrow> fs
             | Directory d \<Rightarrow> fold (\<lambda>(k, v). AList.update k v) (cd_probe_files d) fs) declared files)"

definition all_specs :: "('r, 'p, 'e) section_ops list \<Rightarrow> settings \<Rightarrow> delivery list" where
  "all_specs registered s = concat (map (\<lambda>so. so_coordinator_files so s) registered)"

definition owned_paths :: "('r, 'p, 'e) section_ops list \<Rightarrow> settings \<Rightarrow> string dict" where
  "owned_paths registered s = fold (\<lambda>spec d. case spec of
       File f \<Rightarrow> AList.update (cf_path f) (cf_volume f) d | Directory _ \<Rightarrow> d) (all_specs registered s) []"

definition credential_secrets :: "('r, 'p, 'e) section_ops list \<Rightarrow> settings \<Rightarrow> string list" where
  "credential_secrets registered s =
     remdups (map spec_secret (filter spec_credentials (all_specs registered s)))"

definition admin_mounted_secrets :: "('r, 'p, 'e) section_ops list \<Rightarrow> settings \<Rightarrow> string list" where
  "admin_mounted_secrets registered s = remdups (concat (map (\<lambda>spec. case spec of
       File _ \<Rightarrow> [] | Directory d \<Rightarrow> [cd_secret d]) (all_specs registered s)))"

section \<open>Lemmas\<close>

lemma wp_lift_error [simp]:
  "wp (lift_error r) Q E w = (case r of Inl e \<Rightarrow> E e w | Inr a \<Rightarrow> Q a w)"
  by (simp add: lift_error_def split: sum.split)

subsection \<open>The Secrets on a healthy API server\<close>

text \<open>Nothing but the Secrets moved.\<close>

definition sealed :: "('r, 'e) world \<Rightarrow> ('r, 'e) world" where
  "sealed w = w\<lparr>w_secrets := []\<rparr>"

lemma wp_kube_healthy [simp]: "w_kube w = [] \<Longrightarrow> wp (kube m) Q E w = wp m Q E w"
  by (simp add: kube_def)

lemma wp_read_secret [simp]:
  "w_kube w = [] \<Longrightarrow> wp (read_secret name) Q E w =
     Q (case map_of (w_secrets w) name of None \<Rightarrow> [] | Some d \<Rightarrow> d) w"
  by (simp add: adapter_defs)

lemma write_secret_exact:
  assumes w: "w_kube w = []" and wf: "wf_dict data"
    and Q: "\<And>w' d. sealed w' = sealed w \<Longrightarrow> w_secrets w' = AList.update name d (w_secrets w) \<Longrightarrow>
      map_of d = map_of data \<Longrightarrow> Q () w'"
  shows "wp (write_secret name data) Q E w"
proof (cases "map_of (w_secrets w) name")
  case None
  then have "name \<notin> fst ` set (w_secrets w)" by (simp add: map_of_eq_None_iff)
  moreover have "Q () (w\<lparr>w_secrets := AList.update name data (w_secrets w)\<rparr>)"
    by (rule Q [where d = data]) (simp_all add: sealed_def)
  ultimately show ?thesis
    using w by (simp add: write_secret_def patch_secret_def create_secret_def None)
next
  case (Some current)
  then show ?thesis
    using w by (auto simp: write_secret_def patch_secret_def sealed_def
        intro!: Q merge_patch_exact [OF wf])
qed

text \<open>Writing several Secrets: each holds exactly its data, the others are as they were.\<close>

definition secrets_hold :: "string dict dict \<Rightarrow> ('r, 'e) world \<Rightarrow> bool" where
  "secrets_hold secrets w \<longleftrightarrow> (\<forall>(name, data) \<in> set secrets.
     \<exists>d. map_of (w_secrets w) name = Some d \<and> map_of d = map_of data)"

lemma write_secrets_exact:
  assumes "w_kube w = []" and "distinct (map fst secrets)" and "\<forall>(n, d) \<in> set secrets. wf_dict d"
    and "\<And>w'. sealed w' = sealed w \<Longrightarrow> secrets_hold secrets w' \<Longrightarrow>
      (\<forall>n. n \<notin> fst ` set secrets \<longrightarrow> map_of (w_secrets w') n = map_of (w_secrets w) n) \<Longrightarrow> Q () w'"
  shows "wp (for_io (\<lambda>(secret, data). write_secret secret data) secrets) Q E w"
  using assms
proof (induction secrets arbitrary: w)
  case Nil
  then show ?case by (simp add: secrets_hold_def)
next
  case (Cons sd secrets)
  obtain n data where sd: "sd = (n, data)" by force
  from Cons.prems(3) have wf: "wf_dict data" by (simp add: sd)
  show ?case
    unfolding for_io.simps sd wp_then prod.case
  proof (rule write_secret_exact [OF Cons.prems(1) wf])
    fix w1 d assume w1: "sealed w1 = sealed w" "w_secrets w1 = AList.update n d (w_secrets w)"
      "map_of d = map_of data"
    show "wp (for_io (\<lambda>(secret, data). write_secret secret data) secrets) Q E w1"
    proof (rule Cons.IH)
      have "w_kube (sealed w1) = w_kube (sealed w)" by (simp add: w1)
      then show "w_kube w1 = []" using Cons.prems(1) by (simp add: sealed_def)
      show "distinct (map fst secrets)" using Cons.prems(2) by simp
      show "\<forall>(n, d) \<in> set secrets. wf_dict d" using Cons.prems(3) by simp
      fix w2 assume w2: "sealed w2 = sealed w1" "secrets_hold secrets w2"
        "\<forall>m. m \<notin> fst ` set secrets \<longrightarrow> map_of (w_secrets w2) m = map_of (w_secrets w1) m"
      have "n \<notin> fst ` set secrets" using Cons.prems(2) by (simp add: sd)
      then show "Q () w2"
        using w1 w2 by (intro Cons.prems(4)) (auto simp: sd secrets_hold_def)
    qed
  qed
qed

lemma any_differs_same:
  assumes "w_kube w = []" and "secrets_hold secrets w" and "Q False w"
  shows "wp (any_differs secrets) Q E w"
  using assms by (induction secrets) (auto simp: secrets_hold_def dict_eq_iff)

subsection \<open>What \<open>by_secret\<close> returns\<close>

definition wf_claims :: "claims \<Rightarrow> bool" where
  "wf_claims st \<longleftrightarrow> wf_dict (fst st) \<and> (\<forall>(n, d) \<in> set (fst st). wf_dict d) \<and> wf_dict (snd st)"

lemma update_values: "(n, d) \<in> set (AList.update k v ds) \<Longrightarrow> (n, d) = (k, v) \<or> (n, d) \<in> set ds"
  by (induction ds) (auto split: if_splits)

lemma wf_sec_get: "\<forall>(n, d) \<in> set ds. wf_dict d \<Longrightarrow> wf_dict (sec_get ds k)"
  by (auto simp: sec_get_def wf_dict_def split: option.splits dest!: map_of_SomeD)

lemma wf_claim_path: "wf_claims st \<Longrightarrow> wf_claims (claim_path secret key path st)"
proof (cases st)
  case (Pair a b)
  assume wf: "wf_claims st"
  then have "wf_dict (sec_get a secret)" by (auto simp: wf_claims_def Pair intro: wf_sec_get)
  with wf show ?thesis
    by (auto simp: Pair wf_claims_def claim_path_def put_key_def dest!: update_values)
qed

lemma wf_claim_spec: "wf_claims st \<Longrightarrow> wf_claims (claim_spec spec st)"
proof (cases spec)
  case (Directory d)
  moreover have "wf_claims (fold (\<lambda>p. claim_path (cd_secret d) (path_name (posix p)) p) ps st)"
    if "wf_claims st" for ps st
    using that by (induction ps arbitrary: st) (auto simp: wf_claim_path)
  moreover assume "wf_claims st"
  ultimately show ?thesis by (cases st) simp
qed (simp add: wf_claim_path)

lemma wf_empty_secrets: "wf_dict (empty_secrets declared)" "\<forall>(n, d) \<in> set (empty_secrets declared). wf_dict d"
proof -
  have "wf_dict (fold (\<lambda>spec. AList.update (spec_secret spec) []) declared ds)
      \<and> (\<forall>(n, d) \<in> set (fold (\<lambda>spec. AList.update (spec_secret spec) []) declared ds). wf_dict d)"
    if "wf_dict ds" "\<forall>(n, d) \<in> set ds. wf_dict (d :: string dict)" for ds
    using that
  proof (induction declared arbitrary: ds)
    case (Cons spec declared)
    have "\<forall>(n, d) \<in> set (AList.update (spec_secret spec) [] ds). wf_dict d"
      using Cons.prems(2) by (auto dest!: update_values simp: wf_dict_def)
    from Cons.IH [OF wf_dict_update [OF Cons.prems(1)] this] show ?case by simp
  qed simp
  from this [of "[]"] show "wf_dict (empty_secrets declared)"
    "\<forall>(n, d) \<in> set (empty_secrets declared). wf_dict d"
    by (simp_all add: empty_secrets_def wf_dict_def)
qed

lemma wf_by_secret:
  assumes "by_secret declared contents = Inr secrets" and "wf_dict contents"
  shows "wf_dict secrets" "\<forall>(n, d) \<in> set secrets. wf_dict d"
proof -
  have "wf_claims (fold claim_spec declared st)" if "wf_claims st" for st
    using that by (induction declared arbitrary: st) (auto simp: wf_claim_spec)
  from this [of "(empty_secrets declared, contents)"]
  have "wf_claims (fold claim_spec declared (empty_secrets declared, contents))"
    using wf_empty_secrets [of declared] assms(2) by (simp add: wf_claims_def)
  then show "wf_dict secrets" "\<forall>(n, d) \<in> set secrets. wf_dict d"
    using assms(1) by (auto simp: by_secret_def wf_claims_def split: prod.splits if_splits)
qed

subsection \<open>Delivering twice changes nothing\<close>

text \<open>Mounting and unmounting leave the Secrets alone.\<close>

definition keeps_secrets :: "('r, 'e) world \<Rightarrow> ('r, 'e) world \<Rightarrow> bool" where
  "keeps_secrets w w' \<longleftrightarrow> w_secrets w' = w_secrets w \<and> (w_kube w = [] \<longrightarrow> w_kube w' = [])"

interpretation keeps_secrets: step_order keeps_secrets
  by unfold_locales (auto simp: keeps_secrets_def)

lemma keeps_secrets_kube:
  assumes "\<And>w. keeps_secrets w (snd (m w))"
  shows "within keeps_secrets (kube m)"
proof -
  have "w_secrets (snd (m (w_kube_update (\<lambda>_. fs) w))) = w_secrets w" for fs w
    using assms [of "w_kube_update (\<lambda>_. fs) w"] by (simp add: keeps_secrets_def)
  then show ?thesis
    using assms by (auto simp: within_def kube_def external_def keeps_secrets_def split: list.splits fault.splits)
qed

lemma keeps_secrets_mounts:
  "within keeps_secrets (mount_secret_file cont vol sec path key)"
  "within keeps_secrets (unmount_secret_files cont vol paths drop_volume)"
  unfolding mount_secret_file_def unmount_secret_files_def patch_template_def deployment_pod_spec_def
  by (intro keeps_secrets.within_bind keeps_secrets_kube;
      simp add: asks_def update_io_def keeps_secrets_def)+

lemma keeps_secrets_deliver_volume: "within keeps_secrets (deliver_volume s contents vg)"
  by (auto simp: deliver_volume_def Let_def intro!: keeps_secrets_mounts split: prod.split)

lemma deliver_settles:
  assumes w: "w_kube w = []" and wf: "wf_dict (so_render_files so r (cl_settings cl) (cl_admin cl))"
  shows "wp (deliver so cl r) (\<lambda>_ w'. would_change so cl r w' = (Inr False, w')) (\<lambda>_ _. True) w"
proof (cases "so_coordinator_files so (cl_settings cl) = []")
  case True
  then show ?thesis by (simp add: deliver_def would_change_def) (simp add: ret_def)
next
  case False
  let ?d = "so_coordinator_files so (cl_settings cl)"
  let ?c = "so_render_files so r (cl_settings cl) (cl_admin cl)"
  show ?thesis
  proof (cases "by_secret ?d ?c")
    case (Inl e)
    with False show ?thesis by (simp add: deliver_def Let_def)
  next
    case (Inr secrets)
    note ok = wf_by_secret [OF Inr wf]
    have volumes: "wp (for_io (deliver_volume (cl_settings cl) ?c) (by_volume ?d))
        (\<lambda>_ w'. would_change so cl r w' = (Inr False, w')) (\<lambda>_ _. True) w1"
      if w1: "w_kube w1 = []" "secrets_hold secrets w1" for w1
    proof (rule wp_within [where R = keeps_secrets])
      show "within keeps_secrets (for_io (deliver_volume (cl_settings cl) ?c) (by_volume ?d))"
        by (rule keeps_secrets.within_for) (rule keeps_secrets_deliver_volume)
      fix w2 assume "keeps_secrets w1 w2"
      with w1 have w2: "w_kube w2 = []" "secrets_hold secrets w2"
        by (auto simp: keeps_secrets_def secrets_hold_def)
      show "would_change so cl r w2 = (Inr False, w2)"
        using False Inr by (intro wp_returns) (auto simp: would_change_def Let_def intro: any_differs_same [OF w2])
    qed simp
    have "wp (for_io (\<lambda>(secret, data). write_secret secret data) secrets)
        (\<lambda>_. wp (for_io (deliver_volume (cl_settings cl) ?c) (by_volume ?d))
          (\<lambda>_ w'. would_change so cl r w' = (Inr False, w')) (\<lambda>_ _. True)) (\<lambda>_ _. True) w"
    proof (rule write_secrets_exact [OF w])
      fix w1 assume "sealed w1 = sealed w" and hold: "secrets_hold secrets w1"
      then have "w_kube (sealed w1) = w_kube (sealed w)" by simp
      then have "w_kube w1 = []" using w by (simp add: sealed_def)
      then show "wp (for_io (deliver_volume (cl_settings cl) ?c) (by_volume ?d))
          (\<lambda>_ w'. would_change so cl r w' = (Inr False, w')) (\<lambda>_ _. True) w1"
        by (rule volumes [OF _ hold])
    qed (use ok in \<open>simp_all add: wf_dict_def\<close>)
    then show ?thesis using False Inr by (simp add: deliver_def Let_def)
  qed
qed

end
