(* ===== verification/Raw_Files.thy ===== *)
theory Raw_Files
  imports Files Python_Text
begin

text \<open>
  Admin raw files (\<open>app/sections/raw_files.py\<close>, \<open>app/pipeline/raw_files.py\<close>): which paths may be
  written, and the delivery of what was. \<open>hashlib.sha256(...).hexdigest()\<close> is the parameter
  \<open>sha\<close>.
\<close>

section \<open>Paths\<close>

definition CONFIG_DIR :: string where "CONFIG_DIR = ''/etc/trino''"

definition MAX_FILES :: nat where "MAX_FILES = 25"

definition normalised :: "string \<Rightarrow> string" where
  "normalised path = path_str (posix (strip path))"

definition within_config_dir :: "string \<Rightarrow> bool" where
  "within_config_dir path = (let candidate = posix (normalised path) in
     is_absolute candidate \<and> candidate \<noteq> posix CONFIG_DIR \<and> is_relative_to candidate (posix CONFIG_DIR))"

text \<open>What Apchi already generates at this path: the first declaration that claims it.\<close>

definition claims_path :: "string \<Rightarrow> delivery \<Rightarrow> bool" where
  "claims_path path spec = (case spec of
      File f \<Rightarrow> posix path = posix (cf_path f)
    | Directory d \<Rightarrow> is_relative_to (posix path) (posix (cd_path d)))"

definition owner_of :: "('r, 'p, 'e) section_ops list \<Rightarrow> settings \<Rightarrow> string \<Rightarrow> delivery option" where
  "owner_of registered s path = find (claims_path path) (all_specs registered s)"

definition covers :: "string \<Rightarrow> string \<Rightarrow> bool" where
  "covers mount_path directory = (let m = rstrip_slash mount_path in
     directory = m \<or> is_prefix (m @ ''/'') directory)"

definition whole_directory_mount :: "pod_spec \<Rightarrow> string \<Rightarrow> volume_mount \<Rightarrow> bool" where
  "whole_directory_mount spec parent m \<longleftrightarrow>
     (case mt_sub_path m of None \<Rightarrow> True | Some k \<Rightarrow> k = [])
     \<and> (case volumes_by_name spec (mt_name m) of None \<Rightarrow> False | Some v \<Rightarrow> read_only_by_nature v)
     \<and> covers (mt_path m) parent"

definition refuse_if_unmountable :: "string \<Rightarrow> ('r, 'e, unit) act" where
  "refuse_if_unmountable path = try_else_io is_exception deployment_pod_spec (\<lambda>_. ret ())
     (\<lambda>spec. case find (whole_directory_mount spec (path_str (path_parent (posix path))))
         (concat (map ct_mounts (ps_containers spec))) of
       None \<Rightarrow> ret ()
     | Some m \<Rightarrow> raise_io (Raised UnprocessablePayload (mt_path m)))"

definition refuse_unusable ::
  "('r, 'p, 'e) section_ops list \<Rightarrow> settings \<Rightarrow> string \<Rightarrow> nat \<Rightarrow> ('r, 'e, string) act" where
  "refuse_unusable registered s path existing =
     (let candidate = normalised path in
      if \<not> within_config_dir candidate then raise_io (Raised UnprocessablePayload candidate)
      else case owner_of registered s candidate of
        Some spec \<Rightarrow> raise_io (Raised UnprocessablePayload (spec_secret spec))
      | None \<Rightarrow>
          if MAX_FILES \<le> existing then raise_io (Raised UnprocessablePayload (show_nat existing))
          else then_io (refuse_if_unmountable candidate) (ret candidate))"

section \<open>Delivery\<close>

definition secret_key :: "(string \<Rightarrow> string) \<Rightarrow> string \<Rightarrow> string" where
  "secret_key sha path = take 12 (sha path) @ ''-'' @ path_name (posix path)"

definition planned :: "admin_values \<Rightarrow> string dict" where
  "planned v = av_raw_files v"

text \<open>\<open>{secret_key(path): content for path, content in desired.items()}\<close>.\<close>

definition raw_secret :: "(string \<Rightarrow> string) \<Rightarrow> string dict \<Rightarrow> string dict" where
  "raw_secret sha desired = fold (\<lambda>(p, c). AList.update (secret_key sha p) c) desired []"

definition raw_mounts :: "settings \<Rightarrow> pod_spec \<Rightarrow> string list" where
  "raw_mounts s spec = remdups (map mt_path (filter
     (\<lambda>m. mt_name m = st_raw_files_volume s \<and> (case mt_sub_path m of None \<Rightarrow> False | Some k \<Rightarrow> k \<noteq> []))
     (concat (map ct_mounts (ps_containers spec)))))"

definition mounted_paths :: "settings \<Rightarrow> ('r, 'e, string list) act" where
  "mounted_paths s = bind_io deployment_pod_spec (\<lambda>spec. ret (raw_mounts s spec))"

definition raw_deliver :: "(string \<Rightarrow> string) \<Rightarrow> cluster \<Rightarrow> ('r, 'e, unit) act" where
  "raw_deliver sha cl =
     (let desired = planned (cl_admin cl); s = cl_settings cl in
      then_io (write_secret (st_raw_files_secret s) (raw_secret sha desired))
        (bind_io (mounted_paths s) (\<lambda>mounted.
          let gone = filter (\<lambda>p. \<not> has_key desired p) (sorted_set mounted) in
          then_io (for_io (\<lambda>path. mount_secret_file (st_container s) (st_raw_files_volume s)
              (st_raw_files_secret s) path (secret_key sha path)) (sorted_keys desired))
            (when_io (gone \<noteq> []) (unmount_secret_files (st_container s) (st_raw_files_volume s) gone
              (desired = []))))))"

definition raw_changed :: "(string \<Rightarrow> string) \<Rightarrow> cluster \<Rightarrow> ('r, 'e, bool) act" where
  "raw_changed sha cl =
     (let desired = planned (cl_admin cl); s = cl_settings cl in
      bind_io (mounted_paths s) (\<lambda>mounted.
        if set (dict_keys desired) \<noteq> set mounted then ret True
        else bind_io (read_secret_if_present (st_raw_files_secret s)) (\<lambda>live.
          ret (\<not> dict_eq (raw_secret sha desired) (case live of None \<Rightarrow> [] | Some d \<Rightarrow> d)))))"

section \<open>Lemmas on paths\<close>

text \<open>The configuration directory, as a path.\<close>

lemma posix_CONFIG_DIR: "posix CONFIG_DIR = \<lparr>pp_root = ''/'', pp_parts = [''etc'', ''trino'']\<rparr>"
  by (simp add: CONFIG_DIR_def posix_def real_part_def)

text \<open>Without \<open>..\<close>, what is accepted is inside the directory for the kernel too.\<close>

lemma accepted_inside:
  assumes "within_config_dir path" and "''..'' \<notin> set (pp_parts (posix (normalised path)))"
  shows "\<exists>rest. rest \<noteq> [] \<and> resolved_parts (posix (normalised path)) = [''etc'', ''trino''] @ rest"
  using assms resolved_no_dots [OF assms(2)]
  by (cases "posix (normalised path)")
    (auto simp: within_config_dir_def Let_def is_relative_to_def is_prefix_iff posix_CONFIG_DIR)

end
