(* ===== verification/Cluster_Ops.thy ===== *)
theory Cluster_Ops
  imports Raw_Files
begin

text \<open>
  What the pipeline does to the Cluster as a whole: restarting it and waiting
  (\<open>app/pipeline/rollout.py\<close>), deciding whether a restart is needed and what it costs
  (\<open>app/pipeline/impact.py\<close>), Verification (\<open>app/pipeline/verification.py\<close>) and the one
  bounded attempt of Auto Rollback (\<open>app/pipeline/auto_rollback.py\<close>). The polling loops read a
  clock that every sleep moves on, so their fuel is the deadline itself.
\<close>

section \<open>Rollout\<close>

definition ROLLOUT_POLL_SECONDS :: nat where "ROLLOUT_POLL_SECONDS = 2"

text \<open>\<open>None\<close> is a loop that has not ended.\<close>

fun await_rollout :: "nat \<Rightarrow> nat \<Rightarrow> rollout_state \<Rightarrow> ('r, 'e, unit option) act" where
  "await_rollout 0 deadline st = ret None"
| "await_rollout (Suc fuel) deadline st =
     (if rollout_complete st then ret (Some ())
      else bind_io now_io (\<lambda>now.
        if deadline \<le> now then raise_io (Raised RolloutFailed ''did not finish rolling out'')
        else then_io (sleep ROLLOUT_POLL_SECONDS)
          (bind_io rollout_state_io (await_rollout fuel deadline))))"

definition roll_out_io :: "string \<Rightarrow> nat \<Rightarrow> ('r, 'e, unit) act" where
  "roll_out_io reason timeout =
     then_io (restart_deployment reason)
       (bind_io now_io (\<lambda>now. let deadline = now + timeout in
         bind_io rollout_state_io (\<lambda>st.
           then_io (await_rollout (Suc (Suc timeout)) deadline st) (ret ()))))"

section \<open>Verification\<close>

definition RESPONSE_GRACE_SECONDS :: nat where "RESPONSE_GRACE_SECONDS = 30"

fun await_response :: "nat \<Rightarrow> nat \<Rightarrow> ('r, 'e, unit option) act" where
  "await_response 0 deadline = ret None"
| "await_response (Suc fuel) deadline = bind_io is_starting (\<lambda>starting.
     if starting = Some False then ret (Some ())
     else bind_io now_io (\<lambda>now.
       if deadline \<le> now then
         (if starting = None then raise_io (Raised VerificationFailed ''did not respond'')
          else raise_io (Raised VerificationFailed ''was still starting''))
       else then_io (sleep 1) (await_response fuel deadline)))"

fun confirm_sections ::
  "cluster \<Rightarrow> 'r sections \<Rightarrow> ('r, 'p, 'e) section_ops list \<Rightarrow> ('r, 'e, unit) act" where
  "confirm_sections cl desired [] = ret ()"
| "confirm_sections cl desired (so # sos) =
     bind_io (so_verify so cl (sec_get desired (so_name so))) (\<lambda>reasons. case reasons of
         [] \<Rightarrow> confirm_sections cl desired sos
       | reason # _ \<Rightarrow> raise_io (Raised VerificationFailed reason))"

definition verify ::
  "('r, 'p, 'e) section_ops list \<Rightarrow> cluster \<Rightarrow> 'r sections \<Rightarrow> ('r, 'e, unit) act" where
  "verify registered cl desired =
     bind_io now_io (\<lambda>now.
     then_io (await_response (RESPONSE_GRACE_SECONDS + 2) (now + RESPONSE_GRACE_SECONDS))
       (bind_io ready_replicas (\<lambda>expected. bind_io active_worker_count (\<lambda>actual.
         if actual < expected then raise_io (Raised VerificationFailed ''workers have not registered'')
         else then_io (try_io is_exception smoke_query
             (\<lambda>e. raise_io (Raised VerificationFailed (''The smoke query failed: '' @ exn_message e))))
           (confirm_sections cl desired registered)))))"

section \<open>What an Apply costs\<close>

fun sections_needing_rollout ::
  "('r, 'p, 'e) section_ops list \<Rightarrow> 'p dict \<Rightarrow> 'r sections \<Rightarrow> cluster \<Rightarrow> ('r, 'e, section_name list) act" where
  "sections_needing_rollout [] plans desired cl = ret []"
| "sections_needing_rollout (so # sos) plans desired cl =
     (let rest = sections_needing_rollout sos plans desired cl;
          moved = (case map_of plans (so_name so) of None \<Rightarrow> False | Some p \<Rightarrow> \<not> so_empty so p) in
      if \<not> so_requires_rollout so then rest
      else if moved then bind_io rest (\<lambda>xs. ret (so_name so # xs))
      else bind_io (try_io is_exception (would_change so cl (sec_get desired (so_name so))) (\<lambda>_. ret False))
        (\<lambda>differs. bind_io rest (\<lambda>xs. ret (if differs then so_name so # xs else xs))))"

record apply_cost =
  ac_restarts :: bool
  ac_at_risk :: "nat option"
  ac_warning :: bool

definition cost_of ::
  "('r, 'p, 'e) section_ops list \<Rightarrow> ('r, 'e, nat) act \<Rightarrow> 'p dict \<Rightarrow> 'r sections \<Rightarrow> cluster \<Rightarrow>
     ('r, 'e, apply_cost) act" where
  "cost_of registered queries_at_risk plans desired cl =
     bind_io (sections_needing_rollout registered plans desired cl) (\<lambda>changed.
       if changed = [] then ret \<lparr>ac_restarts = False, ac_at_risk = None, ac_warning = False\<rparr>
       else bind_io (try_io is_exception (bind_io queries_at_risk (\<lambda>n. ret (Some n))) (\<lambda>_. ret None))
         (\<lambda>risk. ret \<lparr>ac_restarts = True, ac_at_risk = risk, ac_warning = True\<rparr>))"

section \<open>Auto Rollback\<close>

text \<open>Every Section back to the Snapshot; the names of those that changed.\<close>

fun restore_sections ::
  "('r, 'p, 'e) section_ops list \<Rightarrow> 'r sections \<Rightarrow> cluster \<Rightarrow> ('r, 'e, section_name list) act" where
  "restore_sections [] ss cl = ret []"
| "restore_sections (so # sos) ss cl =
     (let snap = sec_get ss (so_name so) in
      bind_io (would_change so cl snap) (\<lambda>file_differs.
        then_io (deliver so cl snap)
          (bind_io (if file_differs then ret True else so_restore so cl snap) (\<lambda>moved.
            bind_io (restore_sections sos ss cl) (\<lambda>rest.
              ret (if moved then so_name so # rest else rest))))))"

definition restore :: "('r, 'p, 'e) section_ops list \<Rightarrow> 'r sections \<Rightarrow> cluster \<Rightarrow> ('r, 'e, unit) act" where
  "restore registered ss cl = bind_io (restore_sections registered ss cl) (\<lambda>changed.
     then_io (when_io (list_ex (\<lambda>so. so_requires_rollout so \<and> so_name so \<in> set changed) registered)
         (roll_out_io ''auto rollback to the latest Snapshot'' (st_rollout_timeout (cl_settings cl))))
       (verify registered cl ss))"

text \<open>A failure to alert is logged and never raised.\<close>

definition alert :: "settings \<Rightarrow> string \<Rightarrow> ('r, 'e, unit) act" where
  "alert s reason = (case st_alert_webhook s of
      None \<Rightarrow> ret ()
    | Some url \<Rightarrow> if url = [] then ret () else
        try_io is_exception (\<lambda>w. case w_alert_fault w of
            None \<Rightarrow> (Inr (), w\<lparr>w_alerts := w_alerts w @ [reason]\<rparr>)
          | Some e \<Rightarrow> (Inl e, w)) (\<lambda>_. ret ()))"

end
