(* ===== verification/Frames.thy ===== *)
theory Frames
  imports Runner Candidate_Store Admin_Store Keeps Cluster_Ops
begin

text \<open>
  Steps that touch the Cluster only. A relation between worlds that allows every change of the
  Cluster, of the clock, of the audit trail and of the fault queues is kept by every operation of
  the adapters, and so by every composed operation of the pipeline, whatever fails. The first locale
  states what such a relation has to allow and proves the composed operations once; the second adds
  the stores an engine reads and writes. They are interpreted for \<open>frame\<close>, what the runner relies on
  of an engine step, and for the Snapshots staying as they are.
\<close>

section \<open>Steps on the Cluster\<close>

named_theorems frame_intros

locale quiet_steps = step_order R for R :: "('r, 'e) world \<Rightarrow> ('r, 'e) world \<Rightarrow> bool" +
  assumes faults: "R w (w_kube_update g w)" "R w (w_trino_update g w)" "R w (w_probe_update g w)"
      "w_mongo w \<noteq> [] \<Longrightarrow> R w (w_mongo_update g w)"
    and bookkeeping: "R w (w_clock_update g1 w)" "R w (w_ticks_update g2 w)" "R w (w_uuids_drawn_update g1 w)"
      "R w (w_audit_update g3 w)" "R w (w_audit_indexed_update g4 w)" "R w (w_alerts_update g5 w)"
    and objects: "R w (w_secrets_update h1 w)" "R w (w_config_maps_update h1 w)" "R w (w_pod_update h2 w)"
      "R w (w_restarts_update g5 w)" "R w (w_live_update h3 w)" "R w (w_probe_live_update h3 w)"
      "R w (w_pods_update h4 w)" "R w (w_labelled_update g5 w)"
    and readings: "R w (w_rollouts_update h5 w)" "R w (w_starting_update h6 w)"
      "R w (w_pod_states_update h7 w)" "R w (w_probe_starting_update h6 w)"
begin

text \<open>The fields that move together.\<close>

lemma two_fields:
  "R w (w_clock_update g1 (w_ticks_update g2 w))" "R w (w_ticks_update g2 (w_clock_update g1 w))"
  "R w (w_labelled_update g5 (w_secrets_update h1 w))" "R w (w_secrets_update h1 (w_labelled_update g5 w))"
  by (rule step_trans [OF bookkeeping(2) bookkeeping(1)], rule step_trans [OF bookkeeping(1) bookkeeping(2)],
      rule step_trans [OF objects(1) objects(8)], rule step_trans [OF objects(8) objects(1)])

lemma quiet_external:
  assumes m: "within R m"
  shows "within R (kube m)" "within R (trino m)" "within R (probe m)" "within R (mongo m)"
proof -
  have through: "R w (snd (m v))" if "R w v" for w v
    using step_trans [OF that withinD [OF m]] .
  show "within R (kube m)" "within R (trino m)" "within R (probe m)" "within R (mongo m)"
    by (auto simp: within_def external_defs external_def faults withinD [OF m] intro: through
        split: list.split fault.split)
qed

lemmas quiet_calls [frame_intros] = quiet_external

lemma quiet_modify: "(\<And>w. R w (f w)) \<Longrightarrow> within R (modify_io f)"
  by (simp add: within_def modify_io_def)

lemma quiet_update: "(\<And>w w'. f w = Inr w' \<Longrightarrow> R w w') \<Longrightarrow> within R (update_io f)"
  by (auto simp: within_def update_io_def step_refl split: sum.splits)

lemma quiet_pair: "(\<And>w. R w (f w)) \<Longrightarrow> within R (\<lambda>w. (g w, f w))"
  by (simp add: within_def)

lemma quiet_reading: "(\<And>xs w. R w (put xs w)) \<Longrightarrow> within R (next_reading d get put)"
  by (auto simp: within_def next_reading_def step_refl split: list.splits)

lemma quiet_time [frame_intros]: "within R now_io" "within R uuid_hex" "within R (sleep n)"
  by (auto simp: within_def now_io_def uuid_hex_def sleep_def modify_io_def Let_def step_refl bookkeeping two_fields
      split: list.splits)

lemma quiet_lift [frame_intros]: "within R (lift_error r)"
  by (auto simp: lift_error_def split: sum.split)

section \<open>The adapters\<close>

lemma quiet_kubernetes [frame_intros]:
  "within R (read_secret_if_present name)" "within R (read_secret name)"
  "within R (read_config_map name)" "within R (write_secret name data)"
  "within R (write_config_map name data)" "within R deployment_pod_spec"
  "within R (mount_secret_file cont vol sec path key)"
  "within R (unmount_secret_files cont vol paths drop_volume)"
  "within R (restart_deployment reason)" "within R rollout_state_io" "within R ready_replicas"
  by (auto simp: adapter_defs objects readings intro!: quiet_calls quiet_update quiet_modify quiet_reading
      split: option.splits if_splits)

lemma quiet_trino [frame_intros]:
  "within R trino_catalogs" "within R (create_catalog_stmt name conn props)"
  "within R (drop_catalog_stmt name)" "within R is_starting"
  "within R active_worker_count" "within R smoke_query"
  by (auto simp: adapter_defs objects readings step_refl
      intro!: quiet_calls quiet_update quiet_reading quiet_pair split: option.splits if_splits)

lemma quiet_validation_pod [frame_intros]:
  "within R deployment_pod_spec_if_present" "within R (deployment_image cont)"
  "within R (create_pod p)" "within R (create_labelled_secret name data)"
  "within R (delete_secret name)" "within R (delete_pod name)" "within R delete_pods"
  "within R delete_secrets" "within R (pod_state_io name)" "within R (pod_logs name)"
  "within R probe_starting" "within R (probe_create_catalog name conn props)"
  "within R (schemas_of name)"
  by (auto simp: validation_defs adapter_defs objects readings two_fields step_refl
      intro!: quiet_calls quiet_update quiet_reading quiet_pair split: option.splits if_splits)

lemma quiet_audit [frame_intros]:
  "within R (indexed_once s)" "within R (audit_record s who aid en)"
  "within R (audit_record_each s who aid ens)" "within R actor_io"
  by (auto simp: indexed_once_def ensure_indexes_def audit_record_def audit_record_each_def actor_io_def
      bookkeeping intro!: frame_intros quiet_modify)

lemma quiet_alert [frame_intros]: "within R (alert s why)"
proof -
  have "within R (\<lambda>w. case w_alert_fault w of None \<Rightarrow> (Inr (), w\<lparr>w_alerts := w_alerts w @ [why]\<rparr>)
      | Some e \<Rightarrow> (Inl e, w))"
    by (simp add: within_def bookkeeping step_refl split: option.split)
  then show ?thesis
    by (auto simp: alert_def split: option.split)
qed

section \<open>The pipeline's operations on the Cluster\<close>

lemma quiet_deliver [frame_intros]: "within R (deliver so cl res)"
  by (auto simp: deliver_def deliver_volume_def Let_def intro!: frame_intros split: prod.split)

lemma quiet_any_differs [frame_intros]: "within R (any_differs ss)"
  by (induction ss) (auto intro!: frame_intros)

lemma quiet_would_change [frame_intros]: "within R (would_change so cl res)"
  by (auto simp: would_change_def Let_def intro!: frame_intros)

lemma quiet_await [frame_intros]:
  "within R (await_rollout fuel deadline st)" "within R (await_response fuel deadline)"
proof -
  show "within R (await_rollout fuel deadline st)"
    by (induction fuel arbitrary: st) (auto intro!: frame_intros)
  show "within R (await_response fuel deadline)"
    by (induction fuel) (auto intro!: frame_intros)
qed

lemma quiet_roll_out [frame_intros]: "within R (roll_out_io why timeout)"
  by (auto simp: roll_out_io_def Let_def simp del: await_rollout.simps intro!: frame_intros)

lemma quiet_needing [frame_intros]: "within R (sections_needing_rollout sos ps ss cl)"
  by (induction sos) (auto simp: Let_def intro!: frame_intros split: option.split)

lemma quiet_raw_files [frame_intros]: "within R (raw_deliver sha cl)" "within R (raw_changed sha cl)"
  by (auto simp: raw_deliver_def raw_changed_def mounted_paths_def Let_def intro!: frame_intros)

text \<open>What the Sections themselves do is theirs; the pipeline's loops over them add nothing.\<close>

definition quiet_section :: "('r, 'p, 'e) section_ops \<Rightarrow> bool" where
  "quiet_section so \<longleftrightarrow> (\<forall>cl res plan. within R (so_apply so cl res plan))
     \<and> (\<forall>cl res. within R (so_restore so cl res) \<and> within R (so_verify so cl res))"

lemma quiet_verify: "list_all quiet_section sos \<Longrightarrow> within R (verify sos cl ss)"
proof -
  have "list_all quiet_section xs \<Longrightarrow> within R (confirm_sections cl ss xs)" for xs
    by (induction xs) (auto simp: quiet_section_def split: list.split)
  then show "list_all quiet_section sos \<Longrightarrow> within R (verify sos cl ss)"
    by (auto simp: verify_def numeral_2_eq_2 simp del: await_response.simps intro!: frame_intros)
qed

lemma quiet_restore: "list_all quiet_section sos \<Longrightarrow> within R (restore sos ss cl)"
proof -
  have "list_all quiet_section xs \<Longrightarrow> within R (restore_sections xs ss cl)" for xs
    by (induction xs) (auto simp: quiet_section_def Let_def intro!: frame_intros)
  then show "list_all quiet_section sos \<Longrightarrow> within R (restore sos ss cl)"
    by (auto simp: restore_def intro!: quiet_verify frame_intros)
qed

end

text \<open>An operation that touches the Cluster only, and a Section all of whose operations do.\<close>

definition cluster_only :: "('r, 'e, 'a) act \<Rightarrow> bool" where
  "cluster_only m \<longleftrightarrow> (\<forall>R. quiet_steps R \<longrightarrow> within R m)"

definition cluster_section :: "('r, 'p, 'e) section_ops \<Rightarrow> bool" where
  "cluster_section so \<longleftrightarrow> (\<forall>R. quiet_steps R \<longrightarrow> quiet_steps.quiet_section R so)"

section \<open>Steps on the stores of an engine\<close>

locale quiet_stores = quiet_steps R for R :: "('r, 'e) world \<Rightarrow> ('r, 'e) world \<Rightarrow> bool" +
  assumes documents: "R w (w_candidate_update c1 w)" "R w (w_maintenance_update c2 w)"
      "R w (w_admin_update c3 w)" "R w (w_admin_previous_update c3 w)" "R w (w_engine_update c4 w)"
begin

lemma quiet_reads [frame_intros]:
  "within R latest_io" "within R (sections_of_io n)" "within R (get_snapshot_io k)"
  "within R candidate_load" "within R admin_load" "within R maintenance_get" "within R admin_previous"
  by (auto simp: latest_io_def sections_of_io_def get_snapshot_io_def candidate_load_def derive_from_latest_def
      admin_defs store_io_defs Let_def intro!: frame_intros split: option.split)

lemma quiet_maintenance [frame_intros]: "within R (engage s why by)"
  by (auto simp: engage_def maintenance_save_def maintenance_audited_def documents Let_def
      intro!: frame_intros quiet_modify)

lemma quiet_mark [frame_intros]: "within R (mark_read s)" "within R (mark_record s n)"
  by (auto simp: mark_read_def mark_record_def intro!: frame_intros split: option.split)

lemma quiet_candidate [frame_intros]:
  "within R (candidate_save s b c cat act detail)" "within R (candidate_reset s b n)"
  by (auto simp: candidate_defs documents Let_def intro!: frame_intros quiet_pair split: option.split)

lemma quiet_admin [frame_intros]: "within R restore_previous"
  by (auto simp: admin_defs documents intro!: frame_intros quiet_modify split: option.split)

end

interpretation frame: quiet_stores frame
  by unfold_locales (auto simp: frame_def)

interpretation snapshots_kept: quiet_stores "keeps w_snapshots"
  by unfold_locales (auto simp: keeps_def)

lemma frame_commit [frame_intros]: "within frame (commit_snapshot_io ss aid)"
  by (auto simp: commit_snapshot_io_def Let_def intro!: frame_intros frame.quiet_update split: sum.splits)
    (auto simp: frame_def split: sum.splits)

end
