(* ===== verification/Engine.thy ===== *)
theory Engine
  imports Cluster_Ops Runner_Correct Frames Keeps
begin

text \<open>
  The two engines (\<open>app/pipeline/engine.py\<close>). An engine object lives in the world's \<open>w_engine\<close>:
  the state its stages share. What an engine is built with is \<open>parts\<close>: the registered Sections,
  the settings, the third-party functions it uses, and the two steps of Validation modelled
  elsewhere or not at all (the deployment's preconditions, the ephemeral coordinator).
\<close>

record ('r, 'p) engine_state =
  es_apply_id :: string
  es_desired :: "'r sections"
  es_plans :: "'p dict"
  es_rollout :: "section_name list"
  es_raw_files_changed :: bool
  es_warnings :: "validation_failure list"
  es_admin :: admin_values

type_synonym ('r, 'p, 'a) eact = "('r, ('r, 'p) engine_state, 'a) act"

record ('r, 'p) parts =
  pt_registered :: "('r, 'p, ('r, 'p) engine_state) section_ops list"
  pt_settings :: settings
  pt_bson :: "'r bson"
  pt_sha :: "string \<Rightarrow> string"
  pt_preconditions :: "('r, 'p, unit) eact"
  pt_validate_candidate ::
    "'r sections \<Rightarrow> 'p dict \<Rightarrow> cluster \<Rightarrow> string \<Rightarrow> ('r, 'p, validation_failure list) eact"

abbreviation set_engine ::
  "(('r, 'p) engine_state \<Rightarrow> ('r, 'p) engine_state) \<Rightarrow> ('r, 'p, unit) eact" where
  "set_engine f \<equiv> modify_io (w_engine_update f)"

abbreviation engine :: "('r, 'p, ('r, 'p) engine_state) eact" where
  "engine \<equiv> asks w_engine"

definition cluster_of :: "('r, 'p) parts \<Rightarrow> ('r, 'p) engine_state \<Rightarrow> cluster" where
  "cluster_of pt es = \<lparr>cl_settings = pt_settings pt, cl_admin = es_admin es\<rparr>"

definition engine_init :: "string \<Rightarrow> ('r, 'p, unit) eact" where
  "engine_init apply_id = set_engine (\<lambda>_. \<lparr>es_apply_id = apply_id, es_desired = [], es_plans = [],
     es_rollout = [], es_raw_files_changed = False, es_warnings = [], es_admin = default_admin\<rparr>)"

definition freeze_admin_values :: "('r, 'p, unit) eact" where
  "freeze_admin_values = bind_io admin_load (\<lambda>v. set_engine (\<lambda>es. es\<lparr>es_admin := v\<rparr>))"

definition plan_all :: "('r, 'p) parts \<Rightarrow> 'r sections \<Rightarrow> 'r sections \<Rightarrow> 'p dict" where
  "plan_all pt desired current = map (\<lambda>so. (so_name so,
     so_plan so (sec_get desired (so_name so)) (sec_get current (so_name so)))) (pt_registered pt)"

section \<open>The Operator's engine\<close>

definition desired_and_baseline :: "('r, 'p, 'r sections \<times> 'r sections) eact" where
  "desired_and_baseline = bind_io candidate_load (\<lambda>c.
     bind_io (sections_of_io (ca_base c)) (\<lambda>current. ret (ca_sections c, current)))"

definition validate_rest :: "('r, 'p) parts \<Rightarrow> 'r sections \<Rightarrow> 'r sections \<Rightarrow> ('r, 'p, unit) eact" where
  "validate_rest pt desired current =
     then_io (set_engine (\<lambda>es. es\<lparr>es_plans := plan_all pt desired current\<rparr>))
     (bind_io engine (\<lambda>es. let cl = cluster_of pt es in
      bind_io (sections_needing_rollout (pt_registered pt) (es_plans es) desired cl) (\<lambda>rollout.
      then_io (set_engine (\<lambda>es. es\<lparr>es_rollout := rollout\<rparr>))
      (bind_io (raw_changed (pt_sha pt) cl) (\<lambda>raw.
      then_io (set_engine (\<lambda>es. es\<lparr>es_raw_files_changed := raw\<rparr>))
      (bind_io (pt_validate_candidate pt desired (es_plans es) cl (es_apply_id es)) (\<lambda>ws.
       set_engine (\<lambda>es. es\<lparr>es_warnings := ws\<rparr>))))))))"

definition validate_with ::
  "('r, 'p) parts \<Rightarrow> ('r, 'p, 'r sections \<times> 'r sections) eact \<Rightarrow> ('r, 'p, unit) eact" where
  "validate_with pt read =
     then_io (pt_preconditions pt)
     (then_io freeze_admin_values
     (bind_io read (\<lambda>(desired, current).
     then_io (set_engine (\<lambda>es. es\<lparr>es_desired := desired\<rparr>)) (validate_rest pt desired current))))"

text \<open>The files first, then whatever else the Section does; the raw files after the Sections.\<close>

fun apply_sections ::
  "('r, 'p) engine_state \<Rightarrow> cluster \<Rightarrow> ('r, 'p, ('r, 'p) engine_state) section_ops list \<Rightarrow> ('r, 'p, unit) eact" where
  "apply_sections es cl [] = ret ()"
| "apply_sections es cl (so # sos) =
     (let desired = sec_get (es_desired es) (so_name so) in
      then_io (deliver so cl desired)
        (case map_of (es_plans es) (so_name so) of
           None \<Rightarrow> raise_io (Raised KeyError (so_name so))
         | Some plan \<Rightarrow> then_io (so_apply so cl desired plan) (apply_sections es cl sos)))"

definition engine_apply :: "('r, 'p) parts \<Rightarrow> ('r, 'p, unit) eact" where
  "engine_apply pt = bind_io engine (\<lambda>es. let cl = cluster_of pt es in
     then_io (apply_sections es cl (pt_registered pt)) (raw_deliver (pt_sha pt) cl))"

definition engine_rollout_needed :: "('r, ('r, 'p) engine_state) world \<Rightarrow> bool" where
  "engine_rollout_needed w \<longleftrightarrow> es_rollout (w_engine w) \<noteq> [] \<or> es_raw_files_changed (w_engine w)"

definition engine_roll_out :: "('r, 'p) parts \<Rightarrow> ('r, 'p, unit) eact" where
  "engine_roll_out pt = bind_io engine (\<lambda>es.
     roll_out_io (''apply '' @ es_apply_id es @ '' changed '' @ join_with '', '' (sorted_set (es_rollout es)))
       (st_rollout_timeout (pt_settings pt)))"

definition engine_verify :: "('r, 'p) parts \<Rightarrow> ('r, 'p, unit) eact" where
  "engine_verify pt = bind_io engine (\<lambda>es. verify (pt_registered pt) (cluster_of pt es) (es_desired es))"

definition latest_sections :: "('r, 'p, 'r sections) eact" where
  "latest_sections = bind_io latest_io (\<lambda>s. sections_of_io (map_option sn_number s))"

definition engine_roll_back :: "('r, 'p) parts \<Rightarrow> ('r, 'p, unit) eact" where
  "engine_roll_back pt = then_io freeze_admin_values (bind_io latest_sections (\<lambda>ss.
     bind_io engine (\<lambda>es. restore (pt_registered pt) ss (cluster_of pt es))))"

definition engine_declare_incident :: "('r, 'p) parts \<Rightarrow> string \<Rightarrow> ('r, 'p, unit) eact" where
  "engine_declare_incident pt reason = bind_io engine (\<lambda>es.
     then_io (engage (pt_settings pt)
         (''Auto Rollback failed after Apply '' @ es_apply_id es @ '': '' @ reason) By_Auto_Rollback_Failure)
       (alert (pt_settings pt) reason))"

definition engine_commit :: "('r, 'p) parts \<Rightarrow> ('r, 'p, int option) eact" where
  "engine_commit pt = bind_io engine (\<lambda>es.
     bind_io (commit_snapshot_io (es_desired es) (es_apply_id es)) (\<lambda>snap.
     then_io (try_io is_exception (mark_record (pt_settings pt) (nat (sn_number snap))) (\<lambda>_. ret ()))
     (then_io (bind_io (candidate_reset (pt_settings pt) (pt_bson pt) (Some (sn_number snap))) (\<lambda>_. ret ()))
       (ret (Some (sn_number snap))))))"

definition operator_engine :: "('r, 'p) parts \<Rightarrow> ('r, ('r, 'p) engine_state) engine_ops" where
  "operator_engine pt = \<lparr>eo_init = engine_init, eo_validate = validate_with pt desired_and_baseline,
     eo_apply = engine_apply pt, eo_verify = engine_verify pt, eo_commit = engine_commit pt,
     eo_rollout_needed = engine_rollout_needed, eo_warnings = (\<lambda>w. es_warnings (w_engine w)),
     eo_roll_out = engine_roll_out pt, eo_roll_back = engine_roll_back pt,
     eo_declare_incident = engine_declare_incident pt\<rparr>"

section \<open>The Admin's engine\<close>

text \<open>The latest Snapshot on both sides: nothing an Operator owns is changing.\<close>

definition admin_desired_and_baseline :: "('r, 'p, 'r sections \<times> 'r sections) eact" where
  "admin_desired_and_baseline = bind_io latest_sections (\<lambda>ss. ret (ss, ss))"

definition admin_roll_back :: "('r, 'p) parts \<Rightarrow> ('r, 'p, unit) eact" where
  "admin_roll_back pt = bind_io restore_previous (\<lambda>restored.
     then_io (set_engine (\<lambda>es. es\<lparr>es_admin := restored\<rparr>))
     (bind_io latest_sections (\<lambda>ss. bind_io engine (\<lambda>es. let cl = cluster_of pt es in
       then_io (restore (pt_registered pt) ss cl) (raw_deliver (pt_sha pt) cl)))))"

definition admin_engine :: "('r, 'p) parts \<Rightarrow> ('r, ('r, 'p) engine_state) engine_ops" where
  "admin_engine pt = (operator_engine pt)\<lparr>
     eo_validate := validate_with pt admin_desired_and_baseline,
     eo_commit := ret None, eo_roll_back := admin_roll_back pt\<rparr>"

section \<open>The engines keep to the interface\<close>

text \<open>
  What the stages after Validation do of their own is to the Cluster; they keep every relation the
  Sections keep. The others also write documents.
\<close>

locale quiet_engine = quiet_steps R
  for R :: "('r, ('r, 'p) engine_state) world \<Rightarrow> ('r, ('r, 'p) engine_state) world \<Rightarrow> bool"
begin

lemma quiet_apply_sections: "list_all quiet_section sos \<Longrightarrow> within R (apply_sections es cl sos)"
  by (induction sos) (auto simp: quiet_section_def Let_def intro!: frame_intros split: option.split)

lemma quiet_stages:
  assumes "list_all quiet_section (pt_registered pt)"
  shows "within R (engine_apply pt)" "within R (engine_roll_out pt)" "within R (engine_verify pt)"
  using assms by (auto simp: engine_apply_def engine_roll_out_def engine_verify_def Let_def
      intro!: frame_intros quiet_apply_sections quiet_verify)

end

locale quiet_pipeline = quiet_stores R
  for R :: "('r, ('r, 'p) engine_state) world \<Rightarrow> ('r, ('r, 'p) engine_state) world \<Rightarrow> bool"

sublocale quiet_pipeline \<subseteq> quiet_engine R
  by unfold_locales

context quiet_pipeline
begin

lemma quiet_state [frame_intros]:
  "within R (set_engine f)" "within R freeze_admin_values" "within R latest_sections" "within R (engine_init i)"
  by (auto simp: freeze_admin_values_def latest_sections_def engine_init_def documents
      intro!: frame_intros quiet_modify)

lemma quiet_validate:
  assumes "within R (pt_preconditions pt)" and "\<And>ss ps cl i. within R (pt_validate_candidate pt ss ps cl i)"
  shows "within R (eo_validate (operator_engine pt))" "within R (eo_validate (admin_engine pt))"
  using assms by (auto simp: operator_engine_def admin_engine_def validate_with_def validate_rest_def desired_and_baseline_def
      admin_desired_and_baseline_def Let_def intro!: frame_intros split: prod.split)

lemma quiet_roll_backs:
  assumes "list_all quiet_section (pt_registered pt)"
  shows "within R (engine_roll_back pt)" "within R (admin_roll_back pt)"
  using assms by (auto simp: engine_roll_back_def admin_roll_back_def Let_def intro!: frame_intros quiet_restore)

lemma quiet_incident [frame_intros]: "within R (engine_declare_incident pt why)"
  by (auto simp: engine_declare_incident_def intro!: frame_intros)

end

interpretation frame_stages: quiet_pipeline frame
  by unfold_locales

interpretation snapshots_stages: quiet_pipeline "keeps w_snapshots"
  by unfold_locales

text \<open>The Candidate as it was read at Validation stays what the later stages work on.\<close>

interpretation desired_stages: quiet_engine "keeps (\<lambda>w. es_desired (w_engine w))"
  by unfold_locales (auto simp: keeps_def)

text \<open>
  What the engines rely on of the Sections they drive: a Section's operations touch the
  Cluster only, and the same of the two borrowed steps of Validation.
\<close>

locale sections_contract =
  fixes pt :: "('r, 'p) parts"
  assumes sections: "list_all cluster_section (pt_registered pt)"
    and preconditions: "cluster_only (pt_preconditions pt)"
    and validation: "cluster_only (pt_validate_candidate pt ss ps cl i)"
begin

lemma quiet_sections: "quiet_steps R \<Longrightarrow> list_all (quiet_steps.quiet_section R) (pt_registered pt)"
  using sections by (auto simp: list_all_iff cluster_section_def)

lemma quiet_validation:
  "quiet_steps R \<Longrightarrow> within R (pt_preconditions pt)"
  "quiet_steps R \<Longrightarrow> within R (pt_validate_candidate pt ss ps cl i)"
  using preconditions validation by (auto simp: cluster_only_def)

end

lemma wp_engage_quiet:
  assumes "w_mongo w = []"
  shows "wp (engage s why by) (\<lambda>_. engaged) (\<lambda>_ _. False) w"
  unfolding engage_def Let_def wp_bind wp_then wp_ret
proof (rule now_io_booked [OF assms])
  fix now and w1 assume w1: "booked w (w_applies w) w1"
  let ?m = "\<lparr>ms_engaged = True, ms_reason = Some why, ms_engaged_by = Some by, ms_engaged_at = Some now\<rparr>"
  have "wp (maintenance_audited s Engaged d by) (\<lambda>_. engaged) (\<lambda>_ _. False) w2"
    if "w_mongo w2 = []" "engaged w2" for d w2
  proof -
    have "wp (audit_record s who None en) (\<lambda>_. engaged) E w2" for who en E
      by (rule wp_audit_record [OF that(1)], rule engaged_outside [OF that(2)], erule bookedD(3))
    then show ?thesis by (simp add: maintenance_audited_def actor_io_def)
  qed
  from this [of "w1\<lparr>w_maintenance := Some ?m\<rparr>"]
  show "wp (maintenance_save ?m) (\<lambda>_. wp (maintenance_audited s Engaged
      (Some (''engaged by '' @ engaged_by_value by @ '': '' @ why)) by) (\<lambda>_. engaged)
      (\<lambda>_ _. False)) (\<lambda>_ _. False) w1"
    using bookedD(1) [OF w1] by (simp add: maintenance_save_def engaged_def)
qed

text \<open>Maintenance Mode is engaged before anything else an incident does, whatever then fails.\<close>

lemma keeps_alert: "within (keeps w_maintenance) (alert s why)"
  by (auto simp: alert_def within_def try_io_def ret_def keeps_def split: option.split sum.split)

lemma wp_now_any: "(\<And>n w'. Q n w') \<Longrightarrow> wp now_io Q E w"
  by (auto simp: wp_def now_io_def Let_def split: list.split)

lemma wp_engage:
  "wp (engage s why by) (\<lambda>_. engaged) (\<lambda>_ _. True) w"
proof -
  have audited: "wp (maintenance_audited s act d by) (\<lambda>_. engaged) (\<lambda>_ _. True) w2" if "engaged w2" for act d w2
  proof (rule wp_within [where R = "keeps w_maintenance"])
    show "within (keeps w_maintenance) (maintenance_audited s act d by)"
      by (auto simp: maintenance_audited_def intro!: keeps_intros)
  qed (use that in \<open>simp_all add: keeps_def engaged_def\<close>)
  show ?thesis
    unfolding engage_def Let_def wp_bind wp_then wp_ret
    by (rule wp_now_any) (auto simp: maintenance_save_def mongo_def wp_external engaged_def
        intro!: audited split: list.split fault.split)
qed

lemma incident_engages_always:
  "wp (engine_declare_incident pt why) (\<lambda>_. engaged) (\<lambda>_ _. True) w"
proof -
  have "wp (alert s why) (\<lambda>_. engaged) (\<lambda>_ _. True) w2" if "engaged w2" for s w2
    by (rule wp_within [OF keeps_alert]) (use that in \<open>simp_all add: keeps_def engaged_def\<close>)
  then show ?thesis
    by (auto simp: engine_declare_incident_def intro!: wp_mono [OF wp_engage])
qed

lemma wp_alert_quiet: "wp (alert s why) (\<lambda>_ _. True) (\<lambda>e _. e = Cancelled) w"
  by (auto simp: alert_def is_exception_def wp_def try_io_def ret_def split: option.split)

lemma incident_quiet_always:
  assumes "w_mongo w = []"
  shows "wp (engine_declare_incident pt why) (\<lambda>_ _. True) (\<lambda>e _. e = Cancelled) w"
  using assms
  by (auto simp: engine_declare_incident_def intro!: wp_mono [OF wp_engage_quiet] wp_alert_quiet)

sublocale sections_contract \<subseteq> operator: guarded_engine "operator_engine pt"
proof unfold_locales
  note stages = frame_stages.quiet_stages [OF quiet_sections [OF frame.quiet_steps_axioms]]
    frame_stages.quiet_roll_backs [OF quiet_sections [OF frame.quiet_steps_axioms]]
  show "within frame (eo_validate (operator_engine pt))"
    by (rule frame_stages.quiet_validate(1)) (rule quiet_validation [OF frame.quiet_steps_axioms])+
  show "within frame (eo_commit (operator_engine pt))"
    by (auto simp: operator_engine_def engine_commit_def intro!: frame_intros)
  show "within frame (eo_apply (operator_engine pt))" "within frame (eo_roll_out (operator_engine pt))"
    "within frame (eo_verify (operator_engine pt))" "within frame (eo_roll_back (operator_engine pt))"
    "within frame (eo_init (operator_engine pt) i)" "within frame (eo_declare_incident (operator_engine pt) why)"
    for i why
    by (auto simp: operator_engine_def intro!: stages frame_intros)
  show "wp (eo_init (operator_engine pt) i) (\<lambda>_ _. True) (\<lambda>_ _. False) w" for i w
    by (simp add: operator_engine_def engine_init_def)
  show "wp (eo_declare_incident (operator_engine pt) why) (\<lambda>_. engaged) (\<lambda>_ _. True) w" for why w
    by (simp add: operator_engine_def incident_engages_always)
  show "wp (eo_declare_incident (operator_engine pt) why) (\<lambda>_ _. True) (\<lambda>e _. e = Cancelled) w"
    if "w_mongo w = []" for why w
    using that by (simp add: operator_engine_def incident_quiet_always)
qed

sublocale sections_contract \<subseteq> admin: guarded_engine "admin_engine pt"
proof unfold_locales
  show "within frame (eo_validate (admin_engine pt))"
    by (rule frame_stages.quiet_validate(2)) (rule quiet_validation [OF frame.quiet_steps_axioms])+
  show "within frame (eo_commit (admin_engine pt))"
    by (auto simp: admin_engine_def)
  show "within frame (eo_roll_back (admin_engine pt))"
    using frame_stages.quiet_roll_backs [OF quiet_sections [OF frame.quiet_steps_axioms]]
    by (simp add: admin_engine_def)
  show "within frame (eo_apply (admin_engine pt))" "within frame (eo_roll_out (admin_engine pt))"
    "within frame (eo_verify (admin_engine pt))" "within frame (eo_init (admin_engine pt) i)"
    "within frame (eo_declare_incident (admin_engine pt) why)" for i why
    using operator.apply_frame operator.roll_out_frame operator.verify_frame operator.init_frame
      operator.incident_frame by (simp_all add: admin_engine_def)
  show "wp (eo_init (admin_engine pt) i) (\<lambda>_ _. True) (\<lambda>_ _. False) w" for i w
    using operator.init_quiet by (simp add: admin_engine_def)
  show "wp (eo_declare_incident (admin_engine pt) why) (\<lambda>_. engaged) (\<lambda>_ _. True) w" for why w
    using operator.incident_engages by (simp add: admin_engine_def)
  show "wp (eo_declare_incident (admin_engine pt) why) (\<lambda>_ _. True) (\<lambda>e _. e = Cancelled) w"
    if "w_mongo w = []" for why w
    using operator.incident_quiet [OF that] by (simp add: admin_engine_def)
qed

end
