(* ===== verification/Client_Certificates.thy ===== *)
theory Client_Certificates
  imports Files Python_Text
begin

text \<open>
  Client Certificates (\<open>app/sections/client_certificates/generator.py\<close>, \<open>section.py\<close>) and how a
  Catalog refers to one (\<open>app/sections/catalogs/certificates.py\<close>): the pair of files each
  certificate renders to, the parse back, the operations on staged certificates, and the
  expansion of \<open>${cert:name}\<close> and \<open>${key:name}\<close>.
\<close>

section \<open>The generator\<close>

definition MOUNT_DIR :: string where "MOUNT_DIR = ''/etc/trino/certs''"
definition CERTIFICATE_SUFFIX :: string where "CERTIFICATE_SUFFIX = ''.crt''"
definition KEY_SUFFIX :: string where "KEY_SUFFIX = ''.key''"

lemmas certificate_file_defs = MOUNT_DIR_def CERTIFICATE_SUFFIX_def KEY_SUFFIX_def

definition alnum :: "char \<Rightarrow> bool" where
  "alnum c \<longleftrightarrow> CHR ''A'' \<le> c \<and> c \<le> CHR ''Z'' \<or> CHR ''a'' \<le> c \<and> c \<le> CHR ''z''
     \<or> CHR ''0'' \<le> c \<and> c \<le> CHR ''9''"

definition name_char :: "char \<Rightarrow> bool" where
  "name_char c \<longleftrightarrow> alnum c \<or> c = CHR ''.'' \<or> c = CHR ''_'' \<or> c = CHR ''-''"

text \<open>\<open>CERTIFICATE_NAME.fullmatch(name)\<close>.\<close>

definition certificate_name_ok :: "string \<Rightarrow> bool" where
  "certificate_name_ok n \<longleftrightarrow> n \<noteq> [] \<and> alnum (hd n) \<and> list_all name_char n \<and> length n \<le> 63"

definition certificate_path :: "string \<Rightarrow> string" where
  "certificate_path name = MOUNT_DIR @ ''/'' @ name @ CERTIFICATE_SUFFIX"

definition key_path :: "string \<Rightarrow> string" where
  "key_path name = MOUNT_DIR @ ''/'' @ name @ KEY_SUFFIX"

record client_certificate =
  cc_certificate :: string
  cc_private_key :: string

definition render_certificates :: "client_certificate resources \<Rightarrow> string dict" where
  "render_certificates desired = fold (\<lambda>name files. case map_of desired name of
       None \<Rightarrow> files
     | Some stored \<Rightarrow> AList.update (key_path name) (cc_private_key stored)
         (AList.update (certificate_path name) (cc_certificate stored) files))
     (sorted_keys desired) []"

text \<open>\<open>len(content.encode())\<close>: a code point from 128 on takes two bytes.\<close>

definition encoded_length :: "string \<Rightarrow> nat" where
  "encoded_length s = sum_list (map (\<lambda>c. if (of_char c :: nat) < 128 then 1 else 2) s)"

definition rendered_size :: "client_certificate resources \<Rightarrow> nat" where
  "rendered_size desired = sum_list (map (\<lambda>(_, content). encoded_length content) (render_certificates desired))"

datatype half = Certificate_half | Key_half

definition certificate_of_path :: "string \<Rightarrow> (string \<times> half) option" where
  "certificate_of_path path =
     (if \<not> starts_with (MOUNT_DIR @ ''/'') path then None
      else let filename = drop (length MOUNT_DIR + 1) path in
        if ends_with CERTIFICATE_SUFFIX filename
        then Some (chop (length CERTIFICATE_SUFFIX) filename, Certificate_half)
        else if ends_with KEY_SUFFIX filename
        then Some (chop (length KEY_SUFFIX) filename, Key_half)
        else None)"

text \<open>The halves found so far, and what no certificate can hold.\<close>

datatype unaccounted_certificate =
    Not_Apchis string | Bad_Name string | Lone_Key string | Lone_Certificate string

definition half_of :: "(string option \<times> string option) \<Rightarrow> half \<Rightarrow> string \<Rightarrow> (string option \<times> string option)" where
  "half_of p h content = (case h of Certificate_half \<Rightarrow> (Some content, snd p) | Key_half \<Rightarrow> (fst p, Some content))"

fun gather_halves ::
  "string dict \<Rightarrow> string list \<Rightarrow> (string option \<times> string option) dict \<Rightarrow>
     (string option \<times> string option) dict \<times> unaccounted_certificate list" where
  "gather_halves files [] halves = (halves, [])"
| "gather_halves files (path # paths) halves = (case certificate_of_path path of
       None \<Rightarrow> (let (hs, un) = gather_halves files paths halves in (hs, Not_Apchis path # un))
     | Some (name, h) \<Rightarrow>
         if \<not> certificate_name_ok name
         then (let (hs, un) = gather_halves files paths halves in (hs, Bad_Name path # un))
         else gather_halves files paths (AList.update name
           (half_of (case map_of halves name of None \<Rightarrow> (None, None) | Some p \<Rightarrow> p) h
              (case map_of files path of None \<Rightarrow> [] | Some c \<Rightarrow> c)) halves))"

fun pair_halves ::
  "(string option \<times> string option) dict \<Rightarrow> string list \<Rightarrow>
     client_certificate resources \<times> unaccounted_certificate list" where
  "pair_halves halves [] = ([], [])"
| "pair_halves halves (name # names) = (let (rs, un) = pair_halves halves names in
     case map_of halves name of
       Some (Some c, Some k) \<Rightarrow> ((name, \<lparr>cc_certificate = c, cc_private_key = k\<rparr>) # rs, un)
     | Some (Some c, None) \<Rightarrow> (rs, Lone_Certificate (certificate_path name) # un)
     | _ \<Rightarrow> (rs, Lone_Key (key_path name) # un))"

definition parse_certificates ::
  "string dict \<Rightarrow> client_certificate resources \<times> unaccounted_certificate list" where
  "parse_certificates files = (let (halves, un) = gather_halves files (sorted_keys files) [];
       (rs, lone) = pair_halves halves (sorted_keys halves) in (rs, un @ lone))"

section \<open>Operations on staged certificates\<close>

text \<open>\<open>store_certificate\<close>: refused, and nothing stored, when the Secret would not hold it.\<close>

definition store_certificate ::
  "nat \<Rightarrow> client_certificate resources \<Rightarrow> string \<Rightarrow> client_certificate \<Rightarrow> exn + client_certificate resources" where
  "store_certificate max_bytes stored name bundle =
     (let candidate = AList.update name bundle stored in
      if max_bytes < rendered_size candidate
      then Inl (Raised UnprocessablePayload ''the Secret would be too large'')
      else Inr candidate)"

definition delete_certificate ::
  "client_certificate resources \<Rightarrow> string \<Rightarrow> exn + client_certificate resources" where
  "delete_certificate stored name =
     (if \<not> has_key stored name then Inl (Raised NotFound name) else Inr (AList.delete name stored))"

definition certificates_plan ::
  "client_certificate resources \<Rightarrow> client_certificate resources \<Rightarrow> named_plan" where
  "certificates_plan desired current = named_diff (=) desired current"

definition certificates_coordinator_files :: "settings \<Rightarrow> delivery list" where
  "certificates_coordinator_files s = [Directory \<lparr>cd_secret = st_certificate_secret s, cd_path = MOUNT_DIR,
     cd_probe_files = [], cd_probe_config = [], cd_credentials = True\<rparr>]"

definition certificates_discover_paths :: "settings \<Rightarrow> string dict \<Rightarrow> discovered_paths" where
  "certificates_discover_paths s properties = \<lparr>dp_files = [], dp_directories = [(MOUNT_DIR, MOUNT_DIR)],
     dp_why = Some (''nothing in Trino'' @ [CHR 0x27] @ ''s configuration names a certificate directory, so this is ''
       @ ''where Apchi would mount one rather than where the Cluster says it is'')\<rparr>"

section \<open>References from a Catalog\<close>

text \<open>
  A match of \<open>TOKEN\<close> at the start of a string: which half, the name, and what follows. The name's
  characters and the closing brace are disjoint, so the longest run is the only candidate.
\<close>

definition match_name :: "half \<Rightarrow> string \<Rightarrow> (half \<times> string \<times> string) option" where
  "match_name h s = (let name = takeWhile name_char s in
     if name = [] \<or> \<not> alnum (hd name) then None
     else case dropWhile name_char s of
       [] \<Rightarrow> None
     | c # rest \<Rightarrow> if c = CHR ''}'' then Some (h, name, rest) else None)"

definition match_token :: "string \<Rightarrow> (half \<times> string \<times> string) option" where
  "match_token s =
     (if starts_with ''${cert:'' s then match_name Certificate_half (drop 7 s)
      else if starts_with ''${key:'' s then match_name Key_half (drop 6 s)
      else None)"

lemma match_name_length: "match_name h s = Some (h', n, rest) \<Longrightarrow> length rest < length s"
proof -
  assume "match_name h s = Some (h', n, rest)"
  then have "dropWhile name_char s = CHR ''}'' # rest"
    by (auto simp: match_name_def Let_def split: if_splits list.splits)
  then show ?thesis using length_dropWhile_le [of name_char s] by simp
qed

lemma match_token_length: "match_token s = Some (h, n, rest) \<Longrightarrow> length rest < length s"
  by (auto simp: match_token_def split: if_splits dest!: match_name_length)

definition path_of :: "half \<Rightarrow> string \<Rightarrow> string" where
  "path_of h n = (case h of Certificate_half \<Rightarrow> certificate_path n | Key_half \<Rightarrow> key_path n)"

text \<open>\<open>TOKEN.sub(path, value)\<close> and \<open>TOKEN.finditer(value)\<close>: leftmost, without overlap.\<close>

function expand_value :: "string \<Rightarrow> string" where
  "expand_value s = (case s of [] \<Rightarrow> [] | c # cs \<Rightarrow> (case match_token s of
       Some (h, n, rest) \<Rightarrow> path_of h n @ expand_value rest
     | None \<Rightarrow> c # expand_value cs))"
  by auto
termination by (relation "measure length") (auto dest: match_token_length)

function tokens :: "string \<Rightarrow> (half \<times> string) list" where
  "tokens s = (case s of [] \<Rightarrow> [] | c # cs \<Rightarrow> (case match_token s of
       Some (h, n, rest) \<Rightarrow> (h, n) # tokens rest
     | None \<Rightarrow> tokens cs))"
  by auto
termination by (relation "measure length") (auto dest: match_token_length)

declare expand_value.simps [simp del] tokens.simps [simp del]

definition expand :: "string dict \<Rightarrow> string dict" where
  "expand properties = map (\<lambda>(k, v). (k, expand_value v)) properties"

definition referenced :: "string dict \<Rightarrow> string option \<Rightarrow> string list" where
  "referenced properties certificate =
     remdups (map snd (tokens (join_with '' '' (map snd properties)))
       @ (case certificate of None \<Rightarrow> [] | Some c \<Rightarrow> if c = [] then [] else [c]))"

definition wire :: "string \<Rightarrow> string dict \<Rightarrow> string \<Rightarrow> exn + string dict" where
  "wire connector properties certificate =
     (if connector \<noteq> ''postgresql'' then Inl (Raised ValueError connector)
      else case map_of properties ''connection-url'' of
        None \<Rightarrow> Inl (Raised KeyError ''connection-url'')
      | Some url \<Rightarrow> Inr (AList.update ''connection-url''
          (url @ (if CHR ''?'' \<in> set url then ''&'' else ''?'') @ ''sslcert='' @ certificate_path certificate
             @ ''&sslkey='' @ key_path certificate) properties))"

section \<open>What the generator writes, read back\<close>

lemma path_of_inject [simp]: "path_of h n = path_of h' n' \<longleftrightarrow> h = h' \<and> n = n'"
proof -
  have last: "last (path_of h n) = (case h of Certificate_half \<Rightarrow> CHR ''t'' | Key_half \<Rightarrow> CHR ''y'')" for h n
    by (simp add: path_of_def certificate_path_def key_path_def certificate_file_defs split: half.split)
  show ?thesis
  proof (cases "h = h'")
    case True
    then show ?thesis by (cases h') (auto simp: path_of_def certificate_path_def key_path_def)
  next
    case False
    then show ?thesis using last [of h n] last [of h' n'] by (cases h; cases h') auto
  qed
qed

lemma path_names:
  "certificate_path n = path_of Certificate_half n" "key_path n = path_of Key_half n"
  by (simp_all add: path_of_def)

lemma not_crt_key: "\<not> ends_with ''.crt'' (n @ ''.key'')"
  by (simp add: ends_with_def)

lemma certificate_of_path_of [simp]: "certificate_of_path (path_of h n) = Some (n, h)"
proof -
  have "starts_with (MOUNT_DIR @ ''/'') (path_of h n)"
    by (cases h) (simp_all add: starts_with_iff path_of_def certificate_path_def key_path_def)
  moreover have "drop (length MOUNT_DIR + 1) (path_of h n) =
      n @ (case h of Certificate_half \<Rightarrow> CERTIFICATE_SUFFIX | Key_half \<Rightarrow> KEY_SUFFIX)"
    by (cases h) (simp_all add: path_of_def certificate_path_def key_path_def)
  ultimately show ?thesis
    using not_crt_key [of n]
    by (cases h) (simp_all add: certificate_of_path_def Let_def CERTIFICATE_SUFFIX_def KEY_SUFFIX_def)
qed

definition pair_files :: "client_certificate resources \<Rightarrow> string \<Rightarrow> (string \<times> string) list" where
  "pair_files d n = (case map_of d n of None \<Rightarrow> []
     | Some st \<Rightarrow> [(path_of Certificate_half n, cc_certificate st), (path_of Key_half n, cc_private_key st)])"

lemma render_certificates_pairs:
  "render_certificates d = concat (map (pair_files d) (sorted_keys d))"
proof -
  have "fold (\<lambda>name files. case map_of d name of None \<Rightarrow> files
       | Some stored \<Rightarrow> AList.update (path_of Key_half name) (cc_private_key stored)
           (AList.update (path_of Certificate_half name) (cc_certificate stored) files)) ns acc
      = acc @ concat (map (pair_files d) ns)"
    if "distinct ns" "\<forall>n \<in> set ns. \<forall>h. \<not> has_key acc (path_of h n)" for ns acc
    using that
  proof (induction ns arbitrary: acc)
    case (Cons n ns)
    show ?case
    proof (cases "map_of d n")
      case (Some st)
      have "\<forall>m \<in> set ns. \<forall>h. \<not> has_key (acc @ pair_files d n) (path_of h m)"
        using Cons.prems by (auto simp: pair_files_def Some)
      from Cons.IH [OF _ this] show ?thesis
        using Cons.prems by (simp add: update_fresh pair_files_def Some)
    qed (use Cons in \<open>simp add: pair_files_def\<close>)
  qed simp
  from this [of "sorted_keys d" "[]"] show ?thesis
    unfolding render_certificates_def path_names by simp
qed

lemma map_of_render:
  assumes "map_of d n = Some st"
  shows "map_of (render_certificates d) (path_of h n) =
    Some (case h of Certificate_half \<Rightarrow> cc_certificate st | Key_half \<Rightarrow> cc_private_key st)"
proof -
  have "map_of (concat (map (pair_files d) ns)) (path_of h n) =
      (if n \<in> set ns then Some (case h of Certificate_half \<Rightarrow> cc_certificate st | Key_half \<Rightarrow> cc_private_key st) else None)" for ns
    using assms by (induction ns) (auto simp: pair_files_def map_add_def split: option.splits half.splits)
  moreover have "n \<in> set (sorted_keys d)" using map_of_Some_has_key [OF assms] by simp
  ultimately show ?thesis by (simp add: render_certificates_pairs)
qed

lemma keys_render: "fst ` set (render_certificates d) = (\<Union>n \<in> fst ` set d. {path_of Certificate_half n, path_of Key_half n})"
proof -
  have "fst ` set (pair_files d n) = {path_of Certificate_half n, path_of Key_half n}" if "n \<in> fst ` set d" for n
    using that by (cases "map_of d n") (auto simp: pair_files_def map_of_eq_None_iff)
  then show ?thesis by (simp add: render_certificates_pairs image_UN)
qed

definition found :: "string dict \<Rightarrow> string list \<Rightarrow> string option \<Rightarrow> half \<Rightarrow> string \<Rightarrow> string option" where
  "found files ps old h n = (if path_of h n \<in> set ps
     then Some (case map_of files (path_of h n) of None \<Rightarrow> [] | Some c \<Rightarrow> c) else old)"

definition old_pair :: "(string option \<times> string option) dict \<Rightarrow> string \<Rightarrow> string option \<times> string option" where
  "old_pair hs n = (case map_of hs n of None \<Rightarrow> (None, None) | Some p \<Rightarrow> p)"

lemma gather_rendered:
  assumes "\<forall>p \<in> set ps. \<exists>h n. p = path_of h n \<and> certificate_name_ok n"
  shows "snd (gather_halves files ps hs) = [] \<and>
    fst ` set (fst (gather_halves files ps hs)) = fst ` set hs \<union> {n. \<exists>h. path_of h n \<in> set ps} \<and>
    (\<forall>n. old_pair (fst (gather_halves files ps hs)) n =
      (found files ps (fst (old_pair hs n)) Certificate_half n, found files ps (snd (old_pair hs n)) Key_half n))"
  using assms
proof (induction ps arbitrary: hs)
  case Nil
  then show ?case by (simp add: found_def)
next
  case (Cons p ps)
  then obtain h n where p: "p = path_of h n" "certificate_name_ok n" by auto
  let ?c = "case map_of files p of None \<Rightarrow> [] | Some c \<Rightarrow> c"
  let ?hs = "AList.update n (half_of (old_pair hs n) h ?c) hs"
  have step: "gather_halves files (p # ps) hs = gather_halves files ps ?hs"
    using p by (simp add: old_pair_def)
  have old: "old_pair ?hs m = (if m = n then half_of (old_pair hs n) h ?c else old_pair hs m)" for m
    by (simp add: old_pair_def)
  have "\<forall>p \<in> set ps. \<exists>h n. p = path_of h n \<and> certificate_name_ok n" using Cons.prems by simp
  note IH = Cons.IH [OF this, of ?hs]
  have found: "(found files ps (fst (old_pair ?hs m)) Certificate_half m, found files ps (snd (old_pair ?hs m)) Key_half m)
      = (found files (p # ps) (fst (old_pair hs m)) Certificate_half m, found files (p # ps) (snd (old_pair hs m)) Key_half m)" for m
    unfolding old by (cases h; cases "m = n") (simp_all add: found_def half_of_def p)
  have "insert n (fst ` set hs) \<union> {m. \<exists>h'. path_of h' m \<in> set ps} = fst ` set hs \<union> {m. \<exists>h'. path_of h' m \<in> set (p # ps)}"
    by (auto simp: p)
  then show ?case
    unfolding step using IH unfolding found by simp
qed

lemma pair_halves_complete:
  assumes "\<forall>n \<in> set ns. map_of hs n = Some (Some (c n), Some (k n))"
  shows "pair_halves hs ns = (map (\<lambda>n. (n, \<lparr>cc_certificate = c n, cc_private_key = k n\<rparr>)) ns, [])"
  using assms by (induction ns) simp_all

text \<open>Client Certificates survive the round trip. The files every staged set of certificates
  renders to parse back to exactly those certificates, in name order, with nothing unaccounted for.\<close>

theorem parse_render_certificates:
  assumes ok: "\<forall>n \<in> fst ` set d. certificate_name_ok n"
  shows "parse_certificates (render_certificates d) = (map (\<lambda>n. (n, the (map_of d n))) (sorted_keys d), [])"
proof -
  let ?f = "render_certificates d"
  let ?g = "gather_halves ?f (sorted_keys ?f) []"
  have "\<forall>p \<in> set (sorted_keys ?f). \<exists>h n. p = path_of h n \<and> certificate_name_ok n"
    using ok by (force simp: keys_render)
  note g = gather_rendered [OF this, of ?f "[]"]
  have keys: "fst ` set (fst ?g) = fst ` set d"
  proof -
    have "{n. \<exists>h. path_of h n \<in> set (sorted_keys ?f)} = fst ` set d"
      by (auto simp: keys_render)
    then show ?thesis using conjunct1 [OF conjunct2 [OF g]] by simp
  qed
  have "map_of (fst ?g) n = Some (Some (cc_certificate (the (map_of d n))), Some (cc_private_key (the (map_of d n))))"
    if n: "n \<in> fst ` set d" for n
  proof -
    from n obtain st where st: "map_of d n = Some st" by (metis has_key_obtains set_map)
    from n keys obtain p where p: "map_of (fst ?g) n = Some p" by (metis has_key_obtains set_map)
    have "path_of h n \<in> fst ` set ?f" for h using n by (cases h) (auto simp: keys_render)
    then have "old_pair (fst ?g) n = (Some (cc_certificate st), Some (cc_private_key st))"
      using g by (simp add: found_def map_of_render [OF st])
    then show ?thesis by (simp add: old_pair_def p st)
  qed
  then have pairs: "pair_halves (fst ?g) (sorted_keys (fst ?g)) =
      (map (\<lambda>n. (n, the (map_of d n))) (sorted_keys (fst ?g)), [])"
    by (subst pair_halves_complete [where c = "\<lambda>n. cc_certificate (the (map_of d n))"
        and k = "\<lambda>n. cc_private_key (the (map_of d n))"]) (simp_all add: keys)
  have "sorted_keys (fst ?g) = sorted_keys d"
    unfolding sorted_keys_def by (rule sorted_set_cong) (simp only: set_map keys [unfolded sorted_keys_def])
  then show ?thesis
    using pairs g by (simp add: parse_certificates_def split_beta Let_def)
qed

lemma parse_render_certificates_witness:
  "parse_certificates (render_certificates [(''pg'', \<lparr>cc_certificate = ''C'', cc_private_key = ''K''\<rparr>)]) =
    (map (\<lambda>n. (n, the (map_of [(''pg'', \<lparr>cc_certificate = ''C'', cc_private_key = ''K''\<rparr>)] n)))
      (sorted_keys [(''pg'', \<lparr>cc_certificate = ''C'', cc_private_key = ''K''\<rparr>)]), [])"
  by (rule parse_render_certificates) code_simp

section \<open>The Secret's size\<close>

lemma size_pairs: "rendered_size d = sum_list (map (\<lambda>n. case map_of d n of None \<Rightarrow> 0
    | Some st \<Rightarrow> encoded_length (cc_certificate st) + encoded_length (cc_private_key st)) (sorted_keys d))"
proof -
  have "sum_list (map (\<lambda>(_, content). encoded_length content) (concat (map (pair_files d) ns))) =
      sum_list (map (\<lambda>n. case map_of d n of None \<Rightarrow> 0
        | Some st \<Rightarrow> encoded_length (cc_certificate st) + encoded_length (cc_private_key st)) ns)" for ns
    by (induction ns) (auto simp: pair_files_def split: option.split)
  then show ?thesis by (simp add: rendered_size_def render_certificates_pairs)
qed

lemma size_delete: "rendered_size (AList.delete n d) \<le> rendered_size d"
proof -
  let ?s = "\<lambda>d n. case map_of d n of None \<Rightarrow> 0
    | Some st \<Rightarrow> encoded_length (cc_certificate st) + encoded_length (cc_private_key st)"
  have sum: "sum_list (map (?s d) (sorted_keys d)) = sum (?s d) (fst ` set d)" for d
    by (simp add: sum_list_distinct_conv_sum_set)
  have "rendered_size (AList.delete n d) = sum (?s (AList.delete n d)) (fst ` set d - {n})"
    unfolding size_pairs sum by simp
  also have "\<dots> = sum (?s d) (fst ` set d - {n})"
    by (rule sum.cong) auto
  also have "\<dots> \<le> sum (?s d) (fst ` set d)" by (rule sum_mono2) auto
  also have "\<dots> = rendered_size d" unfolding size_pairs sum ..
  finally show ?thesis .
qed

text \<open>Uploads and removals, one after another; a refused one changes nothing.\<close>

datatype certificate_request = Upload string client_certificate | Remove string

definition stage_certificate ::
  "nat \<Rightarrow> certificate_request \<Rightarrow> client_certificate resources \<Rightarrow> client_certificate resources" where
  "stage_certificate max_bytes r stored = (case (case r of Upload n c \<Rightarrow> store_certificate max_bytes stored n c
       | Remove n \<Rightarrow> delete_certificate stored n) of Inl _ \<Rightarrow> stored | Inr stored' \<Rightarrow> stored')"

text \<open>The certificate Secret always fits. After any sequence of uploads, renewals and removals,
  what is staged renders to no more than a Kubernetes Secret may hold.\<close>

theorem staged_certificates_fit:
  "rendered_size (fold (stage_certificate max_bytes) requests []) \<le> max_bytes"
proof -
  have "rendered_size (fold (stage_certificate max_bytes) requests stored) \<le> max_bytes"
    if "rendered_size stored \<le> max_bytes" for stored
    using that
  proof (induction requests arbitrary: stored)
    case (Cons r requests)
    have "rendered_size (stage_certificate max_bytes r stored) \<le> max_bytes"
      using Cons.prems size_delete [of _ stored]
      by (cases r) (auto simp: stage_certificate_def store_certificate_def delete_certificate_def Let_def intro: order.trans)
    from Cons.IH [OF this] show ?case by simp
  qed simp
  from this [of "[]"] show ?thesis by (simp add: rendered_size_def render_certificates_def)
qed

section \<open>Expansion leaves no token\<close>

text \<open>What a match reads: the token's text, which has no slash, and after its first character no dollar.\<close>

definition token_text :: "half \<Rightarrow> string \<Rightarrow> string" where
  "token_text h n = (case h of Certificate_half \<Rightarrow> ''${cert:'' | Key_half \<Rightarrow> ''${key:'') @ n @ ''}''"

lemma name_char_plain [simp]: "name_char CHR ''/'' = False" "name_char CHR ''$'' = False" "name_char CHR ''}'' = False"
  by (simp_all add: name_char_def alnum_def)

lemma match_name_iff:
  "match_name h s = Some (h', n, rest) \<longleftrightarrow>
     h' = h \<and> n \<noteq> [] \<and> alnum (hd n) \<and> list_all name_char n \<and> s = n @ CHR ''}'' # rest"
proof
  assume "match_name h s = Some (h', n, rest)"
  then have "h' = h" "n = takeWhile name_char s" "n \<noteq> []" "alnum (hd n)" "dropWhile name_char s = CHR ''}'' # rest"
    by (auto simp: match_name_def Let_def split: if_splits list.splits)
  then show "h' = h \<and> n \<noteq> [] \<and> alnum (hd n) \<and> list_all name_char n \<and> s = n @ CHR ''}'' # rest"
    by (metis list_all_iff set_takeWhileD takeWhile_dropWhile_id)
next
  assume a: "h' = h \<and> n \<noteq> [] \<and> alnum (hd n) \<and> list_all name_char n \<and> s = n @ CHR ''}'' # rest"
  then have "takeWhile name_char s = n" "dropWhile name_char s = CHR ''}'' # rest"
    by (auto simp: list_all_iff takeWhile_append2 dropWhile_append2)
  with a show "match_name h s = Some (h', n, rest)" by (simp add: match_name_def)
qed

lemma match_token_iff:
  "match_token s = Some (h, n, rest) \<longleftrightarrow>
     n \<noteq> [] \<and> alnum (hd n) \<and> list_all name_char n \<and> s = token_text h n @ rest"
  by (cases h) (auto simp: match_token_def match_name_iff starts_with_iff token_text_def)

lemma expand_value_Nil [simp]: "expand_value [] = []"
  by (simp add: expand_value.simps)

lemma path_of_slash: "\<exists>t. path_of h n = CHR ''/'' # t"
  by (cases h) (auto simp: path_of_def certificate_path_def key_path_def MOUNT_DIR_def)

lemma prefix_expand:
  "expand_value s = t @ u \<Longrightarrow> CHR ''/'' \<notin> set t \<Longrightarrow> \<exists>v. s = t @ v"
proof (induction s arbitrary: t u rule: expand_value.induct)
  case (1 s)
  show ?case
  proof (cases s)
    case Nil
    with "1.prems" show ?thesis by simp
  next
    case (Cons c cs)
    show ?thesis
    proof (cases "match_token s")
      case None
      then have "expand_value s = c # expand_value cs" using Cons by (simp add: expand_value.simps)
      then show ?thesis
        using "1.prems" "1.IH"(1) [OF Cons None, of "tl t" u] Cons by (cases t) auto
    next
      case (Some m)
      obtain h n rest where m: "m = (h, n, rest)" by (cases m) auto
      then have "expand_value s = path_of h n @ expand_value rest"
        using Cons Some by (simp add: expand_value.simps)
      then show ?thesis
        using "1.prems" path_of_slash [of h n] by (cases t) auto
    qed
  qed
qed

lemma tokens_no_dollar: "CHR ''$'' \<notin> set s \<Longrightarrow> tokens (s @ t) = tokens t"
proof (induction s)
  case (Cons c cs)
  have "match_token (c # cs @ t) = None"
  proof (rule ccontr)
    assume "match_token (c # cs @ t) \<noteq> None"
    then obtain h n rest where "match_token (c # cs @ t) = Some (h, n, rest)" by auto
    then have "c = CHR ''$''" by (cases h) (auto simp: match_token_iff token_text_def)
    with Cons.prems show False by simp
  qed
  then show ?case using Cons by (simp add: tokens.simps [of "c # cs @ t"])
qed simp

lemma token_text_plain:
  "list_all name_char n \<Longrightarrow> CHR ''/'' \<notin> set (token_text h n)"
  by (cases h) (auto simp: token_text_def list_all_iff)

lemma token_name_ok: "match_token s = Some (h, n, rest) \<Longrightarrow> CHR ''$'' \<notin> set (path_of h n)"
  by (cases h) (auto simp: match_token_iff list_all_iff path_of_def certificate_path_def key_path_def
      certificate_file_defs)

lemma tokens_expand: "tokens (expand_value s) = []"
proof (induction s rule: expand_value.induct)
  case (1 s)
  show ?case
  proof (cases s)
    case Nil
    then show ?thesis by (simp add: tokens.simps)
  next
    case (Cons c cs)
    show ?thesis
    proof (cases "match_token s")
      case None
      have ex: "expand_value s = c # expand_value cs" using Cons None by (simp add: expand_value.simps)
      have "match_token (c # expand_value cs) = None"
      proof (rule ccontr)
        assume "match_token (c # expand_value cs) \<noteq> None"
        then obtain h n rest where m: "n \<noteq> [] \<and> alnum (hd n) \<and> list_all name_char n"
            "expand_value s = token_text h n @ rest"
          by (auto simp: match_token_iff ex)
        then obtain v where "s = token_text h n @ v"
          using prefix_expand token_text_plain by blast
        with m have "match_token s = Some (h, n, v)" by (simp add: match_token_iff)
        with None show False by simp
      qed
      then show ?thesis using "1.IH"(1) [OF Cons None] by (simp add: ex tokens.simps [of "c # expand_value cs"])
    next
      case (Some m)
      obtain h n rest where m: "m = (h, n, rest)" by (cases m) auto
      then have "expand_value s = path_of h n @ expand_value rest"
        using Cons Some by (simp add: expand_value.simps)
      then show ?thesis
        using "1.IH"(2) [OF Cons Some, of h "(n, rest)" n rest] token_name_ok [of s h n rest] Some m
        by (simp add: tokens_no_dollar)
    qed
  qed
qed

end
