(* ===== verification/Property_Schema.thy ===== *)
theory Property_Schema
  imports Section_Base
begin

text \<open>
  Validating properties against a curated schema (\<open>app/sections/properties.py\<close>) and the curated
  connector schemas (\<open>app/sections/catalogs/schemas.py\<close>). A problem is named by the property
  and what is wrong with it; the near miss \<open>difflib\<close> suggests in its message is left out.
\<close>

section \<open>Schemas\<close>

record branch =
  br_selector :: string
  br_values :: "string list dict"
  br_default :: "string option"
  br_allowed :: "string list"

record property_schema =
  sc_required :: "string list"
  sc_optional :: "string list"
  sc_branches :: "branch list"
  sc_open_ended :: "string list"

definition branch_names :: "branch \<Rightarrow> string list" where
  "branch_names b = br_selector b # concat (map snd (br_values b))"

definition known :: "property_schema \<Rightarrow> string list" where
  "known sc = sc_required sc @ sc_optional sc @ sc_open_ended sc @ concat (map branch_names (sc_branches sc))"

text \<open>Required names, including those a selector property brings into play.\<close>

definition branch_required :: "string dict \<Rightarrow> branch \<Rightarrow> string list" where
  "branch_required properties b =
     (case (case map_of properties (br_selector b) of Some v \<Rightarrow> Some v | None \<Rightarrow> br_default b) of
        None \<Rightarrow> []
      | Some chosen \<Rightarrow> (case map_of (br_values b) chosen of None \<Rightarrow> [] | Some names \<Rightarrow> names))"

definition required_for :: "property_schema \<Rightarrow> string dict \<Rightarrow> string list" where
  "required_for sc properties = sc_required sc @ concat (map (branch_required properties) (sc_branches sc))"

datatype property_problem = Bad_Value string | Unknown_Property string | Missing_Property string

definition selector_problems :: "property_schema \<Rightarrow> string dict \<Rightarrow> property_problem list" where
  "selector_problems sc properties = concat (map (\<lambda>b.
     case map_of properties (br_selector b) of
       None \<Rightarrow> []
     | Some v \<Rightarrow> if br_allowed b = [] \<or> v \<in> set (br_allowed b) then [] else [Bad_Value (br_selector b)])
     (sc_branches sc))"

definition schema_problems :: "property_schema \<Rightarrow> string dict \<Rightarrow> property_problem list" where
  "schema_problems sc flattened =
     selector_problems sc flattened
     @ map Unknown_Property (filter (\<lambda>n. n \<notin> set (known sc)) (sorted_keys flattened))
     @ map Missing_Property (filter (\<lambda>n. \<not> has_key flattened n) (sorted_set (required_for sc flattened)))"

text \<open>No schema means pass-through. The properties arrive as strings (\<open>str(v)\<close> of each value).\<close>

definition validate_schema ::
  "property_schema option \<Rightarrow> string dict \<Rightarrow> property_problem list + string dict" where
  "validate_schema schema flattened = (case schema of
      None \<Rightarrow> Inr flattened
    | Some sc \<Rightarrow> (let ps = schema_problems sc flattened in if ps = [] then Inr flattened else Inl ps))"

section \<open>The curated connectors\<close>

definition JDBC_CREDENTIALS :: "string list" where
  "JDBC_CREDENTIALS =
     [''connection-user'', ''connection-password'', ''credential-provider.type'',
     ''connection-credential-file'', ''keystore-file-path'', ''keystore-type'',
     ''keystore-password'', ''keystore-user-credential-name'',
     ''keystore-password-credential-name'']"

definition JDBC_TUNING :: "string list" where
  "JDBC_TUNING =
     [''case-insensitive-name-matching'', ''case-insensitive-name-matching.cache-ttl'',
     ''metadata.cache-ttl'', ''metadata.cache-missing'', ''metadata.cache-maximum-size'',
     ''write.batch-size'', ''dynamic-filtering.enabled'', ''dynamic-filtering.wait-timeout'',
     ''join-pushdown.enabled'', ''join-pushdown.strategy'', ''domain-compaction-threshold'',
     ''unsupported-type-handling'']"

definition METASTORE :: "string list" where
  "METASTORE =
     [''hive.metastore'', ''hive.metastore.uri'', ''hive.metastore.username'',
     ''hive.metastore.authentication.type'', ''hive.metastore.thrift.client.connect-timeout'',
     ''hive.metastore.thrift.client.read-timeout'', ''hive.metastore.thrift.client.ssl.enabled'',
     ''hive.metastore.glue.region'', ''hive.metastore.glue.pin-client-to-current-region'',
     ''hive.metastore.glue.max-connections'', ''hive.metastore.glue.catalogid'',
     ''hive.metastore.glue.endpoint-url'', ''hive.metastore-cache-ttl'']"

definition FILE_SYSTEM :: "string list" where
  "FILE_SYSTEM =
     [''fs.s3.enabled'', ''fs.native-azure.enabled'', ''fs.native-gcs.enabled'',
     ''fs.hadoop.enabled'', ''s3.aws-access-key'', ''s3.aws-secret-key'', ''s3.region'',
     ''s3.endpoint'', ''s3.path-style-access'', ''s3.iam-role'', ''s3.auth-type'']"

definition tls :: "string \<Rightarrow> string list" where
  "tls prefix = [prefix @ ''.enabled'', prefix @ ''.keystore-path'', prefix @ ''.keystore-password'',
     prefix @ ''.truststore-path'', prefix @ ''.truststore-password'']"

definition schema_postgresql :: property_schema where
  "schema_postgresql =
     \<lparr>sc_required = [''connection-url''], sc_optional = JDBC_CREDENTIALS @ JDBC_TUNING @
     [''postgresql.array-mapping'', ''postgresql.include-system-tables''], sc_branches = [],
     sc_open_ended = []\<rparr>"

definition schema_mongodb :: property_schema where
  "schema_mongodb =
     \<lparr>sc_required = [''mongodb.connection-url''], sc_optional =
     [''mongodb.schema-collection'', ''mongodb.case-insensitive-name-matching'',
     ''mongodb.min-connections-per-host'', ''mongodb.connections-per-host'',
     ''mongodb.max-wait-time'', ''mongodb.max-connection-idle-time'',
     ''mongodb.connection-timeout'', ''mongodb.socket-timeout'', ''mongodb.read-preference'',
     ''mongodb.write-concern'', ''mongodb.required-replica-set''] @ tls ''mongodb.tls'',
     sc_branches = [], sc_open_ended = []\<rparr>"

definition schema_hive :: property_schema where
  "schema_hive =
     \<lparr>sc_required = [], sc_optional = METASTORE @ FILE_SYSTEM @
     [''hive.recursive-directories'', ''hive.storage-format'', ''hive.compression-codec'',
     ''hive.target-max-file-size'', ''hive.non-managed-table-writes-enabled'',
     ''hive.hive-views.enabled'', ''hive.query-partition-filter-required'',
     ''hive.max-partitions-per-scan'', ''hive.security'', ''hive.timestamp-precision'',
     ''hive.metastore.glue.aws-access-key'', ''hive.metastore.glue.aws-secret-key''], sc_branches
     = [\<lparr>br_selector = ''hive.metastore'', br_values = [(''thrift'',
     [''hive.metastore.uri'']), (''glue'', [])], br_default = Some ''thrift'', br_allowed =
     [''thrift'', ''glue'']\<rparr>], sc_open_ended = []\<rparr>"

definition schema_iceberg :: property_schema where
  "schema_iceberg =
     \<lparr>sc_required = [], sc_optional = METASTORE @ FILE_SYSTEM @ [''iceberg.file-format'',
     ''iceberg.compression-codec'', ''iceberg.max-partitions-per-writer'',
     ''iceberg.target-max-file-size'', ''iceberg.unique-table-location'',
     ''iceberg.dynamic-filtering.wait-timeout'', ''iceberg.table-statistics-enabled'',
     ''iceberg.register-table-procedure.enabled'', ''iceberg.security'',
     ''iceberg.jdbc-catalog.connection-user'', ''iceberg.jdbc-catalog.connection-password'',
     ''iceberg.rest-catalog.security'', ''iceberg.rest-catalog.session'',
     ''iceberg.rest-catalog.oauth2.token'', ''iceberg.rest-catalog.oauth2.credential'',
     ''iceberg.nessie-catalog.authentication.token''], sc_branches = [\<lparr>br_selector =
     ''iceberg.catalog.type'', br_values = [(''hive_metastore'', [''hive.metastore.uri'']),
     (''glue'', []), (''rest'', [''iceberg.rest-catalog.uri'']), (''jdbc'',
     [''iceberg.jdbc-catalog.driver-class'', ''iceberg.jdbc-catalog.connection-url'',
     ''iceberg.jdbc-catalog.default-warehouse-dir'', ''iceberg.jdbc-catalog.catalog-name'']),
     (''nessie'', [''iceberg.nessie-catalog.uri'']), (''snowflake'',
     [''iceberg.snowflake-catalog.account-uri'', ''iceberg.snowflake-catalog.user'',
     ''iceberg.snowflake-catalog.password'', ''iceberg.snowflake-catalog.database''])],
     br_default = Some ''hive_metastore'', br_allowed = [''hive_metastore'', ''glue'', ''jdbc'',
     ''rest'', ''nessie'', ''snowflake'']\<rparr>], sc_open_ended =
     [''iceberg.rest-catalog.http-headers'']\<rparr>"

definition schema_redis :: property_schema where
  "schema_redis =
     \<lparr>sc_required = [''redis.nodes''], sc_optional = [''redis.table-names'',
     ''redis.default-schema'', ''redis.scan-count'', ''redis.max-keys-per-fetch'',
     ''redis.key-prefix-schema-table'', ''redis.key-delimiter'', ''redis.table-description-dir'',
     ''redis.table-description-cache-ttl'', ''redis.hide-internal-columns'',
     ''redis.database-index'', ''redis.user'', ''redis.password''] @ tls ''redis.tls'',
     sc_branches = [], sc_open_ended = []\<rparr>"

definition schema_elasticsearch :: property_schema where
  "schema_elasticsearch =
     \<lparr>sc_required = [''elasticsearch.host''], sc_optional = [''elasticsearch.port'',
     ''elasticsearch.default-schema-name'', ''elasticsearch.scroll-size'',
     ''elasticsearch.scroll-timeout'', ''elasticsearch.request-timeout'',
     ''elasticsearch.connect-timeout'', ''elasticsearch.backoff-init-delay'',
     ''elasticsearch.backoff-max-delay'', ''elasticsearch.max-retry-time'',
     ''elasticsearch.node-refresh-interval'', ''elasticsearch.tls.verify-hostnames'',
     ''elasticsearch.aws.access-key'', ''elasticsearch.aws.secret-key'',
     ''elasticsearch.aws.iam-role'', ''elasticsearch.aws.external-id''] @ tls
     ''elasticsearch.tls'', sc_branches = [\<lparr>br_selector = ''elasticsearch.security'',
     br_values = [(''AWS'', [''elasticsearch.aws.region'']), (''PASSWORD'',
     [''elasticsearch.auth.user'', ''elasticsearch.auth.password''])], br_default = None,
     br_allowed = [''AWS'', ''PASSWORD'']\<rparr>], sc_open_ended = []\<rparr>"

definition schema_kafka :: property_schema where
  "schema_kafka =
     \<lparr>sc_required = [''kafka.nodes''], sc_optional = [''kafka.default-schema'',
     ''kafka.buffer-size'', ''kafka.hide-internal-columns'', ''kafka.internal-column-prefix'',
     ''kafka.messages-per-split'', ''kafka.table-description-dir'',
     ''kafka.protobuf-any-support-enabled'',
     ''kafka.timestamp-upper-bound-force-push-down-enabled'',
     ''kafka.confluent-schema-registry-client-cache-size'', ''kafka.empty-field-strategy'',
     ''kafka.security-protocol'', ''kafka.ssl.keystore.location'',
     ''kafka.ssl.keystore.password'', ''kafka.ssl.keystore.type'',
     ''kafka.ssl.truststore.location'', ''kafka.ssl.truststore.password'',
     ''kafka.ssl.truststore.type'', ''kafka.ssl.key.password'',
     ''kafka.ssl.endpoint-identification-algorithm''], sc_branches = [\<lparr>br_selector =
     ''kafka.table-description-supplier'', br_values = [(''FILE'', [''kafka.table-names'']),
     (''CONFLUENT'', [''kafka.confluent-schema-registry-url''])], br_default = Some ''FILE'',
     br_allowed = [''FILE'', ''CONFLUENT'']\<rparr>], sc_open_ended =
     [''kafka.config.resources'']\<rparr>"

definition CURATED_SCHEMAS :: "property_schema dict" where
  "CURATED_SCHEMAS = [(''postgresql'', schema_postgresql), (''mongodb'', schema_mongodb), (''hive'', schema_hive),
     (''iceberg'', schema_iceberg), (''redis'', schema_redis), (''elasticsearch'',
     schema_elasticsearch), (''kafka'', schema_kafka)]"


definition is_curated :: "string \<Rightarrow> bool" where
  "is_curated connector \<longleftrightarrow> has_key CURATED_SCHEMAS connector"

definition validate_properties :: "string \<Rightarrow> string dict \<Rightarrow> property_problem list + string dict" where
  "validate_properties connector properties = validate_schema (map_of CURATED_SCHEMAS connector) properties"

text \<open>Nothing is refused when the coordinator would not say what it has.\<close>

definition unknown_connector :: "string \<Rightarrow> string list option \<Rightarrow> bool" where
  "unknown_connector connector available =
     (case available of None \<Rightarrow> False | Some names \<Rightarrow> connector \<notin> set names)"

section \<open>Lemmas\<close>

text \<open>What a schema accepts, as one condition on the properties.\<close>

definition fits :: "property_schema \<Rightarrow> string dict \<Rightarrow> bool" where
  "fits sc d \<longleftrightarrow>
     fst ` set d \<subseteq> set (known sc) \<and> set (required_for sc d) \<subseteq> fst ` set d
     \<and> (\<forall>b \<in> set (sc_branches sc). \<forall>v. map_of d (br_selector b) = Some v \<longrightarrow> br_allowed b = [] \<or> v \<in> set (br_allowed b))"

lemma schema_problems_empty: "schema_problems sc d = [] \<longleftrightarrow> fits sc d"
  by (auto simp: schema_problems_def selector_problems_def fits_def filter_empty_conv split: option.splits)

lemma validate_schema_iff:
  "validate_schema (Some sc) d = (if fits sc d then Inr d else Inl (schema_problems sc d))"
  by (simp add: validate_schema_def Let_def schema_problems_empty)

text \<open>A schema that can be satisfied: what its branches default to is allowed, and everything required is known.\<close>

definition coherent_branch :: "branch \<Rightarrow> bool" where
  "coherent_branch b \<longleftrightarrow> (case br_default b of None \<Rightarrow> True
     | Some d \<Rightarrow> (br_allowed b = [] \<or> d \<in> set (br_allowed b)) \<and> has_key (br_values b) d)
     \<and> list_all (\<lambda>v. has_key (br_values b) v) (br_allowed b)"

end
