(* ===== verification/Properties_File.thy ===== *)
theory Properties_File
  imports Python_Text
begin

text \<open>
  The \<open>.properties\<close> files Catalogs and Event Listeners render to and read back
  (\<open>render_properties\<close> and \<open>parse_properties\<close> of both generators): a first line that names the
  plugin under a marker key (\<open>connector.name\<close> or \<open>event-listener.name\<close>), then one line per
  property in key order. A comment is reported by its line, since it cannot be written back.
\<close>

section \<open>Rendering\<close>

definition property_lines :: "string dict \<Rightarrow> string list" where
  "property_lines d = concat (map (\<lambda>k. case map_of d k of None \<Rightarrow> [] | Some v \<Rightarrow> [k @ CHR ''='' # v]) (sorted_keys d))"

text \<open>Lines joined by line feeds, with one at the end: each line followed by its own.\<close>

definition render_file :: "string \<Rightarrow> string \<Rightarrow> string dict \<Rightarrow> string" where
  "render_file marker value properties =
     concat (map (\<lambda>l. l @ [newline]) ((marker @ CHR ''='' # value) # property_lines properties))"

section \<open>Parsing\<close>

datatype unreadable = Not_Key_Value nat string | No_Marker

text \<open>The value of the marker, the properties, and the lines a round trip would lose.\<close>

fun parse_lines ::
  "string \<Rightarrow> nat \<Rightarrow> string list \<Rightarrow> string option \<Rightarrow> string dict \<Rightarrow> nat list \<Rightarrow>
     unreadable + (string option \<times> string dict \<times> nat list)" where
  "parse_lines marker number [] value properties lost = Inr (value, properties, lost)"
| "parse_lines marker number (raw # raws) value properties lost = (let line = strip raw in
     if line = [] then parse_lines marker (Suc number) raws value properties lost
     else if hd line = CHR ''#'' then parse_lines marker (Suc number) raws value properties (lost @ [number])
     else case partition_at (CHR ''='') line of
        None \<Rightarrow> Inl (Not_Key_Value number line)
      | Some (k, v) \<Rightarrow> (let key = strip k; val = strip v in
          if key = marker then parse_lines marker (Suc number) raws (Some val) properties lost
          else parse_lines marker (Suc number) raws value (AList.update key val properties) lost))"

definition parse_file :: "string \<Rightarrow> string \<Rightarrow> unreadable + (string \<times> string dict \<times> nat list)" where
  "parse_file marker content = (case parse_lines marker 1 (splitlines content) None [] [] of
      Inl e \<Rightarrow> Inl e
    | Inr (None, _, _) \<Rightarrow> Inl No_Marker
    | Inr (Some c, ps, lost) \<Rightarrow> Inr (c, ps, lost))"

section \<open>Rendering and reading back\<close>

definition clean_text :: "string \<Rightarrow> bool" where
  "clean_text s \<longleftrightarrow> one_line s \<and> strip s = s"

definition clean_key :: "string \<Rightarrow> string \<Rightarrow> bool" where
  "clean_key marker k \<longleftrightarrow> k \<noteq> [] \<and> clean_text k \<and> CHR ''='' \<notin> set k \<and> hd k \<noteq> CHR ''#'' \<and> k \<noteq> marker"

definition clean_properties :: "string \<Rightarrow> string dict \<Rightarrow> bool" where
  "clean_properties marker d \<longleftrightarrow> list_all (\<lambda>(k, v). clean_key marker k \<and> clean_text v) d"

lemma strip_ends: "strip s = s \<Longrightarrow> s \<noteq> [] \<Longrightarrow> \<not> is_space (hd s) \<and> \<not> is_space (last s)"
proof -
  assume s: "strip s = s" "s \<noteq> []"
  let ?t = "dropWhile is_space s"
  have rev: "rev s = dropWhile is_space (rev ?t)" using s(1) by (metis strip_def rev_rev_ident)
  have "rev s \<noteq> []" using s(2) by simp
  then have "\<not> is_space (hd (rev s))" by (metis rev hd_dropWhile)
  moreover have "length ?t = length s"
    using rev length_dropWhile_le [of is_space "rev ?t"] length_dropWhile_le [of is_space s]
    by (metis le_antisym length_rev)
  then have "?t = s" by (metis append_eq_conv_conj length_0_conv length_append add_cancel_left_left
        append_Nil takeWhile_dropWhile_id)
  then have "\<not> is_space (hd s)" using s(2) by (metis hd_dropWhile)
  ultimately show ?thesis using s(2) by (simp add: hd_rev)
qed

lemma strip_field:
  assumes "clean_text k" and "clean_text v" and "k \<noteq> []"
  shows "strip (k @ CHR ''='' # v) = k @ CHR ''='' # v"
proof (rule strip_id, rule disjI2)
  have "\<not> is_space CHR ''=''" by (simp add: is_space_def)
  then show "\<not> is_space (hd (k @ CHR ''='' # v)) \<and> \<not> is_space (last (k @ CHR ''='' # v))"
    using assms strip_ends [of k] strip_ends [of v] by (auto simp: clean_text_def)
qed

lemma one_line_field: "one_line k \<Longrightarrow> one_line v \<Longrightarrow> one_line (k @ CHR ''='' # v)"
  by (auto simp: one_line_def is_break_def)

lemma property_lines_map:
  "property_lines d = map (\<lambda>k. k @ CHR ''='' # the (map_of d k)) (sorted_keys d)"
proof -
  have "concat (map (\<lambda>k. case map_of d k of None \<Rightarrow> [] | Some v \<Rightarrow> [k @ CHR ''='' # v]) ks) =
      map (\<lambda>k. k @ CHR ''='' # the (map_of d k)) ks" if "set ks \<subseteq> fst ` set d" for ks
    using that by (induction ks) (auto simp: map_of_eq_None_iff split: option.split)
  then show ?thesis by (simp add: property_lines_def)
qed

lemma clean_value:
  "clean_properties marker d \<Longrightarrow> k \<in> fst ` set d \<Longrightarrow> clean_key marker k \<and> clean_text (the (map_of d k))"
proof -
  assume d: "clean_properties marker d" "k \<in> fst ` set d"
  then obtain v where v: "map_of d k = Some v" by (metis has_key_obtains set_map)
  then have "(k, v) \<in> set d" by (rule map_of_SomeD)
  with d(1) v show ?thesis by (auto simp: clean_properties_def list_all_iff)
qed

lemma parse_clean_lines:
  assumes "\<forall>k \<in> set ks. clean_key marker k \<and> clean_text (v k)"
  shows "parse_lines marker n (map (\<lambda>k. k @ CHR ''='' # v k) ks) c ps lost =
    Inr (c, fold (\<lambda>k. AList.update k (v k)) ks ps, lost)"
  using assms
proof (induction ks arbitrary: n ps)
  case (Cons k ks)
  then have k: "clean_key marker k" "clean_text (v k)" by auto
  then have line: "strip (k @ CHR ''='' # v k) = k @ CHR ''='' # v k" "strip k = k" "strip (v k) = v k"
      "partition_at CHR ''='' (k @ CHR ''='' # v k) = Some (k, v k)"
      "hd (k @ CHR ''='' # v k) \<noteq> CHR ''#''" "k \<noteq> marker"
    by (auto simp: clean_key_def clean_text_def strip_field partition_at_append)
  show ?case
    using Cons by (simp add: line Let_def)
qed simp

lemma fold_update_fresh:
  "distinct ks \<Longrightarrow> \<forall>k \<in> set ks. \<not> has_key ps k \<Longrightarrow>
     fold (\<lambda>k. AList.update k (v k)) ks ps = ps @ map (\<lambda>k. (k, v k)) ks"
proof (induction ks arbitrary: ps)
  case (Cons k ks)
  then have "\<forall>m \<in> set ks. \<not> has_key (ps @ [(k, v k)]) m" by auto
  with Cons show ?case by (simp add: update_fresh)
qed simp

text \<open>A marker that is a key in its own right.\<close>

definition marker_ok :: "string \<Rightarrow> bool" where
  "marker_ok m \<longleftrightarrow> m \<noteq> [] \<and> clean_text m \<and> CHR ''='' \<notin> set m \<and> hd m \<noteq> CHR ''#''"

lemma parse_render:
  assumes m: "marker_ok marker" and c: "clean_text c" and d: "clean_properties marker d"
  shows "parse_file marker (render_file marker c d) = Inr (c, map (\<lambda>k. (k, the (map_of d k))) (sorted_keys d), [])"
proof -
  let ?v = "\<lambda>k. the (map_of d k)"
  let ?first = "marker @ CHR ''='' # c"
  have clean: "\<forall>k \<in> set (sorted_keys d). clean_key marker k \<and> clean_text (?v k)"
    using clean_value [OF d] by simp
  have one: "\<forall>l \<in> set (?first # property_lines d). one_line l"
    using clean c m by (auto simp: property_lines_map one_line_field clean_key_def clean_text_def marker_ok_def)
  have "strip ?first = ?first" using strip_field [of marker c] c m by (simp add: marker_ok_def)
  moreover have "partition_at CHR ''='' ?first = Some (marker, c)"
    using m by (simp add: partition_at_append marker_ok_def)
  moreover have "strip marker = marker" "strip c = c" "hd ?first \<noteq> CHR ''#''"
    using m c by (simp_all add: clean_text_def marker_ok_def)
  ultimately have "parse_lines marker 1 (?first # property_lines d) None [] [] =
      parse_lines marker 2 (property_lines d) (Some c) [] []"
    by (simp add: Let_def numeral_2_eq_2)
  also have "\<dots> = Inr (Some c, map (\<lambda>k. (k, ?v k)) (sorted_keys d), [])"
    by (simp add: property_lines_map parse_clean_lines [OF clean] fold_update_fresh)
  finally have parsed: "parse_lines marker 1 (?first # property_lines d) None [] [] =
      Inr (Some c, map (\<lambda>k. (k, ?v k)) (sorted_keys d), [])" .
  have "splitlines (render_file marker c d) = ?first # property_lines d"
    unfolding render_file_def by (rule splitlines_lines [OF one])
  then show ?thesis unfolding parse_file_def by (simp only: parsed) simp
qed

lemma map_of_sorted: "map_of (map (\<lambda>k. (k, the (map_of d k))) (sorted_keys d)) = map_of d"
proof (rule ext)
  fix k show "map_of (map (\<lambda>k. (k, the (map_of d k))) (sorted_keys d)) k = map_of d k"
    using map_of_eq_None_iff [of d k] by (cases "map_of d k") (auto simp: map_of_comprehension dest: map_of_Some_has_key)
qed

lemma render_inject:
  assumes "render_file marker c d = render_file marker c' d'" and "marker_ok marker"
    and "clean_text c" "clean_text c'" "clean_properties marker d" "clean_properties marker d'"
  shows "c = c' \<and> map_of d = map_of d'"
proof -
  have "(Inr (c, map (\<lambda>k. (k, the (map_of d k))) (sorted_keys d), []) :: unreadable + string \<times> string dict \<times> nat list) =
      Inr (c', map (\<lambda>k. (k, the (map_of d' k))) (sorted_keys d'), [])"
    using parse_render [OF assms(2,3,5)] parse_render [OF assms(2,4,6)] unfolding assms(1) by (rule trans [OF sym])
  then have "c = c'" and "map_of (map (\<lambda>k. (k, the (map_of d k))) (sorted_keys d)) =
      map_of (map (\<lambda>k. (k, the (map_of d' k))) (sorted_keys d'))"
    by simp_all
  then show ?thesis by (simp only: map_of_sorted)
qed

end
