(* ===== verification/Catalogs.thy ===== *)
theory Catalogs
  imports Client_Certificates Property_Schema Properties_File
begin

text \<open>
  The Catalogs Section (\<open>app/sections/catalogs\<close>): a Catalog as it is staged, the operations an
  Operator stages one with, the two renderings of it (the properties a DDL statement carries and
  the \<open>.properties\<close> file the Secret holds), the parse back, the plan an Apply follows and the
  plan a rollback follows, and the Section's operations on the Cluster.
\<close>

record catalog =
  cat_connector :: string
  cat_properties :: "string dict"
  cat_certificate :: "string option"

text \<open>Python's \<open>==\<close> on two stored Catalogs.\<close>

definition same_catalog :: "catalog \<Rightarrow> catalog \<Rightarrow> bool" where
  "same_catalog a b \<longleftrightarrow> cat_connector a = cat_connector b
     \<and> dict_eq (cat_properties a) (cat_properties b) \<and> cat_certificate a = cat_certificate b"

section \<open>Staging\<close>

definition WIRED :: "string list" where "WIRED = [''postgresql'']"

text \<open>
  \<open>ssl_is_configured\<close>. The query of a URL is what follows its first \<open>?\<close> and precedes the first
  \<open>#\<close>, tabs and line ends dropped; \<open>parse_qsl\<close> keeps the fields that have a value. (A bracketed
  host that is not one makes \<open>urlsplit\<close> raise; that refusal is not modelled.)
\<close>

definition query_of :: "string \<Rightarrow> string" where
  "query_of url = (let u = filter (\<lambda>c. (of_char c :: nat) \<notin> {9, 10, 13}) url;
       v = takeWhile (\<lambda>c. c \<noteq> CHR ''#'') u in
     case partition_at (CHR ''?'') v of None \<Rightarrow> [] | Some (_, q) \<Rightarrow> q)"

definition hex_value :: "char \<Rightarrow> nat option" where
  "hex_value c = (let n = of_char c :: nat in
     if 48 \<le> n \<and> n \<le> 57 then Some (n - 48)
     else if 65 \<le> n \<and> n \<le> 70 then Some (n - 55)
     else if 97 \<le> n \<and> n \<le> 102 then Some (n - 87) else None)"

fun unquote :: "string \<Rightarrow> string" where
  "unquote (c # a # b # cs) =
     (if c = CHR ''%'' then (case (hex_value a, hex_value b) of
         (Some x, Some y) \<Rightarrow> char_of (16 * x + y) # unquote cs
       | _ \<Rightarrow> c # unquote (a # b # cs))
      else c # unquote (a # b # cs))"
| "unquote cs = cs"

definition query_keys :: "string \<Rightarrow> string list" where
  "query_keys q = concat (map (\<lambda>field. case partition_at (CHR ''='') field of
       None \<Rightarrow> []
     | Some (k, v) \<Rightarrow> if v = [] then [] else [unquote (map (\<lambda>c. if c = CHR ''+'' then CHR '' '' else c) k)])
     (split_on (CHR ''&'') q))"

definition without_prefix :: "string \<Rightarrow> string \<Rightarrow> string" where
  "without_prefix p s = (if starts_with p s then drop (length p) s else s)"

definition ssl_is_configured :: "string \<Rightarrow> string dict \<Rightarrow> bool" where
  "ssl_is_configured connector properties \<longleftrightarrow> connector \<noteq> ''postgresql''
     \<or> (let url = (case map_of properties ''connection-url'' of None \<Rightarrow> [] | Some u \<Rightarrow> u) in
        ''sslmode'' \<in> set (query_keys (query_of (without_prefix ''jdbc:'' url))))"

definition certificate_usable :: "string \<Rightarrow> string dict \<Rightarrow> (exn + unit)" where
  "certificate_usable connector properties =
     (if connector \<notin> set WIRED then Inl (Raised UnprocessablePayload ''certificate: not wired'')
      else if \<not> ssl_is_configured connector properties
      then Inl (Raised UnprocessablePayload ''properties: no sslmode on the connection URL'')
      else Inr ())"

definition checked_properties :: "string \<Rightarrow> string dict \<Rightarrow> exn + string dict" where
  "checked_properties connector properties = (case validate_properties connector properties of
      Inl problems \<Rightarrow> Inl (Raised UnprocessablePayload ''properties'')
    | Inr flattened \<Rightarrow> Inr flattened)"

text \<open>An empty certificate name counts as none.\<close>

definition given :: "string option \<Rightarrow> string option" where
  "given c = (if c = Some [] then None else c)"

definition judged :: "string \<Rightarrow> string dict \<Rightarrow> string option \<Rightarrow> exn + catalog" where
  "judged connector raw certificate = (case checked_properties connector raw of
      Inl e \<Rightarrow> Inl e
    | Inr properties \<Rightarrow> (case given certificate of
        None \<Rightarrow> Inr \<lparr>cat_connector = connector, cat_properties = properties, cat_certificate = None\<rparr>
      | Some c \<Rightarrow> (case certificate_usable connector properties of
          Inl e \<Rightarrow> Inl e
        | Inr _ \<Rightarrow> Inr \<lparr>cat_connector = connector, cat_properties = properties, cat_certificate = Some c\<rparr>)))"

record catalog_write =
  cw_name :: string
  cw_connector :: string
  cw_properties :: "string dict"
  cw_certificate :: "string option"

text \<open>\<open>validated\<close>.\<close>

definition validated_catalog :: "catalog_write \<Rightarrow> exn + catalog" where
  "validated_catalog w = judged (cw_connector w) (cw_properties w) (cw_certificate w)"

definition create_catalog :: "catalog resources \<Rightarrow> catalog_write \<Rightarrow> exn + catalog resources" where
  "create_catalog stored w =
     (if has_key stored (cw_name w) then Inl (Raised NameAlreadyTaken (cw_name w))
      else case validated_catalog w of Inl e \<Rightarrow> Inl e | Inr c \<Rightarrow> Inr (AList.update (cw_name w) c stored))"

text \<open>A field of a partial update: not sent, sent as null, or sent.\<close>

datatype 'a sent = Omitted | Null | Sent 'a

record catalog_update =
  cu_connector :: "string sent"
  cu_properties :: "string dict sent"
  cu_certificate :: "string sent"

definition update_catalog ::
  "catalog resources \<Rightarrow> string \<Rightarrow> catalog_update \<Rightarrow> exn + catalog resources" where
  "update_catalog stored name u = (case map_of stored name of
      None \<Rightarrow> Inl (Raised NotFound name)
    | Some current \<Rightarrow>
       (let connector = (case cu_connector u of Omitted \<Rightarrow> Some (cat_connector current) | Null \<Rightarrow> None | Sent c \<Rightarrow> Some c);
            raw = (case cu_properties u of Omitted \<Rightarrow> Some (cat_properties current) | Null \<Rightarrow> None | Sent p \<Rightarrow> Some p);
            certificate = (case cu_certificate u of Omitted \<Rightarrow> cat_certificate current | Null \<Rightarrow> None | Sent c \<Rightarrow> Some c)
        in case connector of
          None \<Rightarrow> Inl (Raised UnprocessablePayload ''connector: cannot be cleared'')
        | Some con \<Rightarrow> (case raw of
            None \<Rightarrow> Inl (Raised UnprocessablePayload ''properties: cannot be cleared'')
          | Some ps \<Rightarrow> (case judged con ps certificate of
              Inl e \<Rightarrow> Inl e
            | Inr c \<Rightarrow> Inr (AList.update name c stored)))))"

definition delete_catalog :: "catalog resources \<Rightarrow> string \<Rightarrow> exn + catalog resources" where
  "delete_catalog stored name =
     (if \<not> has_key stored name then Inl (Raised NotFound name) else Inr (AList.delete name stored))"

section \<open>Rendering\<close>

definition effective :: "catalog \<Rightarrow> exn + string dict" where
  "effective stored = (case given (cat_certificate stored) of
      None \<Rightarrow> Inr (expand (cat_properties stored))
    | Some c \<Rightarrow> (case wire (cat_connector stored) (cat_properties stored) c of
        Inl e \<Rightarrow> Inl e | Inr properties \<Rightarrow> Inr (expand properties)))"

definition render_properties :: "string \<Rightarrow> string dict \<Rightarrow> string" where
  "render_properties connector properties = render_file ''connector.name'' connector properties"

definition SUFFIX :: string where "SUFFIX = ''.properties''"

definition rendered_catalog :: "catalog \<Rightarrow> exn + string" where
  "rendered_catalog stored = (case effective stored of
      Inl e \<Rightarrow> Inl e | Inr properties \<Rightarrow> Inr (render_properties (cat_connector stored) properties))"

definition render_entry :: "catalog resources \<Rightarrow> string \<Rightarrow> exn + (string \<times> string)" where
  "render_entry catalogs name = (case map_of catalogs name of
      None \<Rightarrow> Inl (Raised KeyError name)
    | Some stored \<Rightarrow> (case rendered_catalog stored of
        Inl e \<Rightarrow> Inl e | Inr text \<Rightarrow> Inr (name @ SUFFIX, text)))"

definition render_secret :: "catalog resources \<Rightarrow> exn + string dict" where
  "render_secret catalogs = map_sum_list (render_entry catalogs) (sorted_keys catalogs)"

definition name_of :: "string \<Rightarrow> string \<Rightarrow> string option" where
  "name_of path directory = (let prefix = rstrip_slash directory @ ''/'' in
     if \<not> starts_with prefix path \<or> \<not> ends_with SUFFIX path then None
     else let name = drop (length prefix) (chop (length SUFFIX) path) in
       if name = [] then None else Some name)"

definition parse_properties :: "string \<Rightarrow> unreadable + (string \<times> string dict \<times> nat list)" where
  "parse_properties content = parse_file ''connector.name'' content"

text \<open>\<open>parse_files\<close>: what no Catalog holds is reported with its path.\<close>

datatype unaccounted_catalog = Not_A_Catalog string | Comment string nat

fun parse_catalog_paths ::
  "string dict \<Rightarrow> string \<Rightarrow> string list \<Rightarrow> catalog resources \<Rightarrow> unaccounted_catalog list \<Rightarrow>
     (string \<times> unreadable) + (catalog resources \<times> unaccounted_catalog list)" where
  "parse_catalog_paths files directory [] rs un = Inr (rs, un)"
| "parse_catalog_paths files directory (path # paths) rs un = (case name_of path directory of
      None \<Rightarrow> parse_catalog_paths files directory paths rs (un @ [Not_A_Catalog path])
    | Some name \<Rightarrow> (case parse_properties (case map_of files path of None \<Rightarrow> [] | Some c \<Rightarrow> c) of
        Inl e \<Rightarrow> Inl (path, e)
      | Inr (c, ps, lost) \<Rightarrow> parse_catalog_paths files directory paths
          (AList.update name \<lparr>cat_connector = c, cat_properties = ps, cat_certificate = None\<rparr> rs)
          (un @ map (Comment path) lost)))"

definition parse_catalog_files ::
  "string dict \<Rightarrow> string \<Rightarrow> (string \<times> unreadable) + (catalog resources \<times> unaccounted_catalog list)" where
  "parse_catalog_files files directory = parse_catalog_paths files directory (sorted_keys files) [] []"

section \<open>Plans\<close>

record catalog_plan =
  cp_created :: "string list"
  cp_replaced :: "string list"
  cp_dropped :: "string list"

definition catalog_plan_empty :: "catalog_plan \<Rightarrow> bool" where
  "catalog_plan_empty p \<longleftrightarrow> cp_created p = [] \<and> cp_replaced p = [] \<and> cp_dropped p = []"

text \<open>\<open>plan\<close>.\<close>

definition changed_catalog :: "catalog resources \<Rightarrow> catalog resources \<Rightarrow> string \<Rightarrow> bool" where
  "changed_catalog desired current name = (case (map_of desired name, map_of current name) of
      (Some d, Some c) \<Rightarrow> \<not> same_catalog d c | _ \<Rightarrow> False)"

definition plan_catalogs :: "catalog resources \<Rightarrow> catalog resources \<Rightarrow> catalog_plan" where
  "plan_catalogs desired current = \<lparr>
     cp_created = filter (\<lambda>n. \<not> has_key current n) (sorted_keys desired),
     cp_replaced = filter (changed_catalog desired current) (sorted_keys desired),
     cp_dropped = filter (\<lambda>n. \<not> has_key desired n) (sorted_keys current)\<rparr>"

definition rollback_plan ::
  "catalog resources \<Rightarrow> string list \<Rightarrow> string dict \<Rightarrow> string dict \<Rightarrow> catalog_plan" where
  "rollback_plan snapshot live durable snapshot_copy = (let wanted = sorted_keys snapshot in \<lparr>
     cp_created = filter (\<lambda>n. n \<notin> set live) wanted,
     cp_replaced = filter (\<lambda>n. n \<in> set live \<and> map_of durable (n @ SUFFIX) \<noteq> map_of snapshot_copy (n @ SUFFIX)) wanted,
     cp_dropped = filter (\<lambda>n. n \<notin> set wanted \<and> map_of durable (n @ SUFFIX) \<noteq> None) (sorted_set live)\<rparr>)"

definition settled :: "catalog_plan \<Rightarrow> string list \<Rightarrow> string dict \<Rightarrow> string dict \<Rightarrow> catalog_plan" where
  "settled p live durable desired_copy = p\<lparr>cp_created := filter (\<lambda>n. \<not> (n \<in> set live
     \<and> map_of durable (n @ SUFFIX) = map_of desired_copy (n @ SUFFIX))) (cp_created p)\<rparr>"

definition collision_failures :: "string list \<Rightarrow> string list \<Rightarrow> validation_failure list" where
  "collision_failures created live = map (\<lambda>n. \<lparr>vf_section = Some CATALOGS, vf_resource = Some n,
     vf_reason = ''already exists on the Cluster and is not managed by Apchi''\<rparr>)
     (filter (\<lambda>n. n \<in> set live) (sorted_set created))"

section \<open>On the Cluster\<close>

text \<open>\<open>desired[name]\<close>, its connector and its effective properties.\<close>

definition statement_of :: "catalog resources \<Rightarrow> string \<Rightarrow> exn + (string \<times> string dict)" where
  "statement_of desired name = (case map_of desired name of
      None \<Rightarrow> Inl (Raised KeyError name)
    | Some stored \<Rightarrow> (case effective stored of
        Inl e \<Rightarrow> Inl e | Inr ps \<Rightarrow> Inr (cat_connector stored, ps)))"

definition issue_create :: "catalog resources \<Rightarrow> string \<Rightarrow> ('r, 'e, unit) act" where
  "issue_create desired name = bind_io (lift_error (statement_of desired name))
     (\<lambda>(connector, properties). create_catalog_stmt name connector properties)"

text \<open>A replace looks the Catalog up before it drops, and renders it after.\<close>

definition issue_replace :: "catalog resources \<Rightarrow> string \<Rightarrow> ('r, 'e, unit) act" where
  "issue_replace desired name =
     (if \<not> has_key desired name then raise_io (Raised KeyError name)
      else then_io (drop_catalog_stmt name) (issue_create desired name))"

definition execute :: "catalog resources \<Rightarrow> catalog_plan \<Rightarrow> ('r, 'e, unit) act" where
  "execute desired p =
     then_io (for_io (issue_create desired) (cp_created p))
       (then_io (for_io (issue_replace desired) (cp_replaced p))
         (for_io drop_catalog_stmt (cp_dropped p)))"

definition catalogs_apply :: "cluster \<Rightarrow> catalog resources \<Rightarrow> catalog_plan \<Rightarrow> ('r, 'e, unit) act" where
  "catalogs_apply cl desired p =
     bind_io (lift_error (render_secret desired)) (\<lambda>durable_copy.
     bind_io trino_catalogs (\<lambda>live.
     bind_io (read_secret (st_catalog_secret (cl_settings cl))) (\<lambda>durable.
     then_io (write_secret (st_catalog_secret (cl_settings cl)) durable_copy)
       (execute desired (settled p live durable durable_copy)))))"

definition catalogs_restore :: "cluster \<Rightarrow> catalog resources \<Rightarrow> ('r, 'e, bool) act" where
  "catalogs_restore cl snapshot =
     bind_io (lift_error (render_secret snapshot)) (\<lambda>durable_copy.
     bind_io (read_secret (st_catalog_secret (cl_settings cl))) (\<lambda>durable_now.
     bind_io trino_catalogs (\<lambda>live. let rollback = rollback_plan snapshot live durable_now durable_copy in
     then_io (write_secret (st_catalog_secret (cl_settings cl)) durable_copy)
     (then_io (execute snapshot rollback)
       (ret (\<not> dict_eq durable_now durable_copy \<or> \<not> catalog_plan_empty rollback))))))"

definition catalogs_check ::
  "cluster \<Rightarrow> catalog resources \<Rightarrow> catalog_plan \<Rightarrow> ('r, 'e, validation_failure list) act" where
  "catalogs_check cl desired p =
     (if cp_created p = [] then ret []
      else bind_io trino_catalogs (\<lambda>live.
        bind_io (read_secret (st_catalog_secret (cl_settings cl))) (\<lambda>durable.
        bind_io (lift_error (render_secret desired)) (\<lambda>copy.
          ret (collision_failures (cp_created (settled p live durable copy)) live)))))"

definition catalogs_verify :: "cluster \<Rightarrow> catalog resources \<Rightarrow> ('r, 'e, string list) act" where
  "catalogs_verify cl desired = bind_io trino_catalogs (\<lambda>live.
     let missing = filter (\<lambda>n. n \<notin> set live) (sorted_keys desired) in
     ret (if missing = [] then []
          else [''The coordinator is not serving '' @ join_with '', '' missing
            @ '': the configuration was applied but is not live.'']))"

text \<open>Every \<open>CREATE CATALOG\<close> against the probe, and what it rejects: a statement refused or one Apchi will not
  issue. An exception of any other kind goes on.\<close>

fun is_statement_error :: "exn \<Rightarrow> bool" where
  "is_statement_error (Raised TrinoError _) = True"
| "is_statement_error (Raised ValueError _) = True"
| "is_statement_error _ = False"

definition probe_catalog :: "catalog resources \<Rightarrow> string \<Rightarrow> ('r, 'e, validation_failure list) act" where
  "probe_catalog desired name = try_io is_statement_error
     (bind_io (lift_error (statement_of desired name)) (\<lambda>(connector, properties).
        then_io (probe_create_catalog name connector properties) (ret [])))
     (\<lambda>e. ret [\<lparr>vf_section = Some CATALOGS, vf_resource = Some name, vf_reason = exn_message e\<rparr>])"

definition catalogs_check_probe :: "catalog resources \<Rightarrow> ('r, 'e, validation_failure list) act" where
  "catalogs_check_probe desired = bind_io (collect_io (probe_catalog desired) (sorted_keys desired)) (\<lambda>fs. ret (concat fs))"

definition catalogs_needs_probe :: "catalog resources \<Rightarrow> bool" where
  "catalogs_needs_probe desired \<longleftrightarrow> desired \<noteq> []"

definition DEFAULT_STORE_DIR :: string where "DEFAULT_STORE_DIR = ''/etc/trino/catalog''"

definition catalogs_discover_paths :: "settings \<Rightarrow> string dict \<Rightarrow> discovered_paths" where
  "catalogs_discover_paths s properties = (let named = map_of properties ''catalog.config-dir'' in
     \<lparr>dp_files = [],
      dp_directories = [(st_catalog_store_dir s, case named of
          None \<Rightarrow> DEFAULT_STORE_DIR | Some d \<Rightarrow> if d = [] then DEFAULT_STORE_DIR else d)],
      dp_why = (if named \<noteq> None then None else Some (''no catalog.config-dir property was found, so Trino''
        @ [CHR 0x27] @ ''s own default '' @ DEFAULT_STORE_DIR
        @ '' was read rather than a path the Cluster named''))\<rparr>)"

end
