(* ===== verification/Catalogs_Correct.thy ===== *)
theory Catalogs_Correct
  imports Catalogs
begin

text \<open>
  What the Catalogs Section promises. The file it renders reads back as what was rendered, and
  two Catalogs that render alike are alike, for the values a line can hold. Whatever fails on the
  way, no Catalog becomes live that the Secret does not name, and none outside the plan goes
  away. On a Cluster that answers, an Apply makes the desired Catalogs live and a rollback puts
  back every Catalog of the Snapshot, from wherever a failed Apply left the Cluster.
\<close>

section \<open>Rendering and reading back\<close>

lemma connector_marker: "marker_ok ''connector.name''"
  by (simp add: marker_ok_def clean_text_def one_line_def is_break_def strip_def is_space_def)

abbreviation "clean_catalog_properties \<equiv> clean_properties ''connector.name''"

section \<open>The Secret's keys\<close>

text \<open>The connector and properties Trino is sent for a Catalog.\<close>

definition live_of :: "catalog resources \<Rightarrow> string \<Rightarrow> (string \<times> string dict) option" where
  "live_of d n = (case statement_of d n of Inl _ \<Rightarrow> None | Inr x \<Rightarrow> Some x)"

lemma render_entry_Inr:
  "render_entry d n = Inr kv \<longleftrightarrow> (\<exists>c ps. statement_of d n = Inr (c, ps) \<and> kv = (n @ SUFFIX, render_properties c ps))"
  by (auto simp: render_entry_def rendered_catalog_def statement_of_def split: option.splits sum.splits)

lemma map_of_rendered:
  assumes "list_all2 (\<lambda>n kv. render_entry d n = Inr kv) ns c"
  shows "map_of c (n @ SUFFIX) = (if n \<in> set ns then map_option (\<lambda>(c, ps). render_properties c ps) (live_of d n) else None)"
    and "fst ` set c = (\<lambda>n. n @ SUFFIX) ` set ns"
    and "\<forall>n \<in> set ns. live_of d n \<noteq> None"
  using assms by (induction rule: list_all2_induct) (auto simp: render_entry_Inr live_of_def)

lemma live_of_None: "\<not> has_key d n \<Longrightarrow> live_of d n = None"
  using map_of_eq_None_iff [of d n] by (simp add: live_of_def statement_of_def)

lemma render_secret_at:
  assumes "render_secret d = Inr c"
  shows "map_of c (n @ SUFFIX) = map_option (\<lambda>(c, ps). render_properties c ps) (live_of d n)"
    and "fst ` set c = (\<lambda>n. n @ SUFFIX) ` fst ` set d"
    and "has_key d n \<Longrightarrow> \<exists>x. live_of d n = Some x"
proof -
  from assms have "list_all2 (\<lambda>n kv. render_entry d n = Inr kv) (sorted_keys d) c"
    by (simp add: render_secret_def map_sum_list_Inr)
  note r = map_of_rendered [OF this]
  show "map_of c (n @ SUFFIX) = map_option (\<lambda>(c, ps). render_properties c ps) (live_of d n)"
    using r(1) [of n] live_of_None [of n d] by auto
  show "fst ` set c = (\<lambda>n. n @ SUFFIX) ` fst ` set d" using r(2) by simp
  show "has_key d n \<Longrightarrow> \<exists>x. live_of d n = Some x" using r(3) by auto
qed

lemma wf_render_secret: "render_secret d = Inr c \<Longrightarrow> wf_dict c"
proof -
  assume "render_secret d = Inr c"
  then have "list_all2 (\<lambda>n kv. render_entry d n = Inr kv) (sorted_keys d) c"
    by (simp add: render_secret_def map_sum_list_Inr)
  then have "map fst c = map (\<lambda>n. n @ SUFFIX) (sorted_keys d)"
    by (induction rule: list_all2_induct) (auto simp: render_entry_Inr)
  then show ?thesis by (simp add: wf_dict_def distinct_map inj_on_def)
qed

section \<open>Statements, whatever fails\<close>

text \<open>Each name's live Catalog stays among those \<open>A\<close> allows it; the Secrets do not move.\<close>

definition allowed :: "(string \<Rightarrow> (string \<times> string dict) option set) \<Rightarrow> ('r, 'e) world \<Rightarrow> bool" where
  "allowed A w \<longleftrightarrow> (\<forall>n. map_of (w_live w) n \<in> A n)"

definition stays :: "(string \<Rightarrow> (string \<times> string dict) option set) \<Rightarrow> ('r, 'e) world \<Rightarrow> ('r, 'e) world \<Rightarrow> bool" where
  "stays A w w' \<longleftrightarrow> (allowed A w \<longrightarrow> allowed A w') \<and> w_secrets w' = w_secrets w"

interpretation stays: step_order "stays A" for A
  by unfold_locales (auto simp: stays_def)

lemma stays_trino:
  assumes "\<And>w. stays A w (snd (m w))"
  shows "within (stays A) (trino m)"
proof -
  have "stays A (w\<lparr>w_trino := fs\<rparr>) (snd (m (w\<lparr>w_trino := fs\<rparr>)))" for w fs by (rule assms)
  then show ?thesis
    using assms by (auto simp: within_def trino_def external_def stays_def allowed_def split: list.splits fault.splits)
qed

lemma stays_create: "Some (c, ps) \<in> A n \<Longrightarrow> within (stays A) (create_catalog_stmt n c ps)"
  by (auto simp: create_catalog_stmt_def intro!: stays_trino)
    (auto simp: update_io_def stays_def allowed_def)

lemma stays_drop: "None \<in> A n \<Longrightarrow> within (stays A) (drop_catalog_stmt n)"
  by (auto simp: drop_catalog_stmt_def intro!: stays_trino)
    (auto simp: update_io_def stays_def allowed_def)

lemma stays_lift_error: "within (stays A) (lift_error r)"
  by (auto simp: lift_error_def split: sum.split)

lemma stays_issue_create: "live_of d n \<in> A n \<Longrightarrow> within (stays A) (issue_create d n :: ('r, 'e, unit) act)"
proof (cases "statement_of d n")
  case (Inr x)
  obtain c ps where x: "x = (c, ps)" by (cases x)
  have "issue_create d n = (create_catalog_stmt n c ps :: ('r, 'e, unit) act)"
    by (rule ext) (simp add: issue_create_def lift_error_def bind_io_def ret_def Inr x)
  moreover assume "live_of d n \<in> A n"
  ultimately show ?thesis by (simp add: Inr x live_of_def stays_create)
next
  case (Inl e)
  have "issue_create d n = (raise_io e :: ('r, 'e, unit) act)"
    by (rule ext) (simp add: issue_create_def lift_error_def bind_io_def raise_io_def Inl)
  then show ?thesis by (simp add: stays.within_raise)
qed

lemma stays_issue_replace: "live_of d n \<in> A n \<Longrightarrow> None \<in> A n \<Longrightarrow> within (stays A) (issue_replace d n)"
  by (auto simp: issue_replace_def intro!: stays_drop stays_issue_create)

text \<open>What a plan may make of each name, from what was live.\<close>

definition plan_allows ::
  "catalog resources \<Rightarrow> catalog_plan \<Rightarrow> (string \<rightharpoonup> string \<times> string dict) \<Rightarrow> string \<Rightarrow> (string \<times> string dict) option set" where
  "plan_allows d p before n = {before n}
     \<union> (if n \<in> set (cp_created p) \<union> set (cp_replaced p) then {live_of d n} else {})
     \<union> (if n \<in> set (cp_replaced p) \<union> set (cp_dropped p) then {None} else {})"

lemma stays_execute:
  assumes "set (cp_created q) \<subseteq> set (cp_created p)" and "cp_replaced q = cp_replaced p" and "cp_dropped q = cp_dropped p"
  shows "within (stays (plan_allows d p before)) (execute d q)"
  unfolding execute_def
  by (intro stays.within_then stays.within_for stays_issue_create stays_issue_replace stays_drop)
    (use assms in \<open>auto simp: plan_allows_def\<close>)

lemma allowed_now: "allowed (plan_allows d p (map_of (w_live w))) w"
  by (simp add: allowed_def plan_allows_def)

section \<open>The Secret, whatever fails\<close>

text \<open>Each key of the Secret is as it was or as \<open>data\<close> has it; nothing else but Kubernetes moved.\<close>

definition secret_at :: "string \<Rightarrow> ('r, 'e) world \<Rightarrow> string dict" where
  "secret_at name w = sec_get (w_secrets w) name"

definition touches :: "string \<Rightarrow> string dict \<Rightarrow> ('r, 'e) world \<Rightarrow> ('r, 'e) world \<Rightarrow> bool" where
  "touches name data w w' \<longleftrightarrow> w_live w' = w_live w
     \<and> (\<forall>k. map_of (secret_at name w') k \<in> {map_of (secret_at name w) k, map_of data k})"

interpretation touches: step_order "touches name data" for name data
  by unfold_locales (simp_all add: touches_def, metis)

lemma touches_kube:
  assumes "\<And>w. touches name data w (snd (m w))"
  shows "within (touches name data) (kube m)"
proof -
  have "touches name data (w\<lparr>w_kube := fs\<rparr>) (snd (m (w\<lparr>w_kube := fs\<rparr>)))" for w fs by (rule assms)
  then show ?thesis
    using assms by (auto simp: within_def kube_def external_def touches_def secret_at_def split: list.splits fault.splits)
qed

lemma merge_patch_at:
  assumes "wf_dict data" and "\<forall>k \<in> set nulls. \<not> has_key data k"
  shows "map_of (merge_patch data nulls current) k = (case map_of data k of Some v \<Rightarrow> Some v
    | None \<Rightarrow> if k \<in> set nulls then None else map_of current k)"
  by (auto simp: merge_patch_def map_of_fold_update map_of_fold_delete map_of_rev_wf [OF assms(1)] split: option.splits)

lemma not_stale: "\<forall>k \<in> set (stale_keys existing data). \<not> has_key data k"
  by (simp add: stale_keys_def)

lemma touches_write:
  assumes "wf_dict data"
  shows "within (touches name data) (write_secret name data :: ('r, 'e, unit) act)"
proof -
  have "touches name data w (w\<lparr>w_secrets := AList.update name (merge_patch data (stale_keys existing data) current) (w_secrets w)\<rparr>)"
    if "map_of (w_secrets w) name = Some current" for w :: "('r, 'e) world" and existing current
    using merge_patch_at [OF assms not_stale] that
    by (auto simp: touches_def secret_at_def sec_get_def split: option.splits)
  moreover have "touches name data w (w\<lparr>w_secrets := AList.update name data (w_secrets w)\<rparr>)" for w :: "('r, 'e) world"
    by (auto simp: touches_def secret_at_def sec_get_def)
  ultimately show ?thesis
    unfolding write_secret_def read_secret_def read_secret_if_present_def or_absent_def patch_secret_def create_secret_def
    by (intro touches.within_bind touches.within_try touches_kube touches.within_ret touches.within_raise)
      (auto simp: asks_def update_io_def touches_def split: option.split)
qed

lemma wp_kube_returned:
  assumes "\<And>fs. wp m Q (\<lambda>_ _. True) (w\<lparr>w_kube := fs\<rparr>)"
  shows "wp (kube m) Q (\<lambda>_ _. True) w"
proof -
  have "wp m Q (\<lambda>_ _. True) w" using assms [of "w_kube w"] by simp
  then show ?thesis
    using assms by (auto simp: kube_def wp_external split: list.split fault.split)
qed

lemma write_returned:
  assumes "wf_dict data" and "map_of data k = Some v"
  shows "wp (write_secret name data) (\<lambda>_ w'. map_of (secret_at name w') k = Some v) (\<lambda>_ _. True) (w :: ('r, 'e) world)"
proof -
  have patch: "wp (patch_secret name data (stale_keys existing data)) (\<lambda>_ w'. map_of (secret_at name w') k = Some v) (\<lambda>_ _. True) w"
    for existing and w :: "('r, 'e) world"
    unfolding patch_secret_def using merge_patch_at [OF assms(1) not_stale] assms(2)
    by (intro wp_kube_returned) (auto simp: secret_at_def sec_get_def split: option.split)
  have create: "wp (create_secret name data) (\<lambda>_ w'. map_of (secret_at name w') k = Some v) (\<lambda>_ _. True) w" for w :: "('r, 'e) world"
    unfolding create_secret_def using assms(2)
    by (intro wp_kube_returned) (auto simp: secret_at_def sec_get_def)
  have "wp (try_io (\<lambda>e. e = kube_404) (patch_secret name data (stale_keys existing data)) (\<lambda>_. create_secret name data))
      (\<lambda>_ w'. map_of (secret_at name w') k = Some v) (\<lambda>_ _. True) w" for existing and w :: "('r, 'e) world"
    by (auto intro!: wp_mono [OF patch] create)
  then show ?thesis
    unfolding write_secret_def wp_bind by (auto simp: wp_def split: sum.split prod.split)
qed

definition same_cluster :: "('r, 'e) world \<Rightarrow> ('r, 'e) world \<Rightarrow> bool" where
  "same_cluster w w' \<longleftrightarrow> w_live w' = w_live w \<and> w_secrets w' = w_secrets w"

interpretation same_cluster: step_order same_cluster
  by unfold_locales (auto simp: same_cluster_def)

lemma same_cluster_read: "within same_cluster (read_secret name)" "within same_cluster trino_catalogs"
  by (auto simp: within_def adapter_defs external_defs external_def same_cluster_def asks_def ret_def bind_io_def
      try_io_def split: list.splits fault.splits option.splits)

lemma same_secret: "w_secrets w' = w_secrets w \<Longrightarrow> secret_at name w' = secret_at name w"
  by (simp add: secret_at_def)

text \<open>How an Apply may leave the Cluster, whatever failed.\<close>

definition left :: "string \<Rightarrow> catalog resources \<Rightarrow> string dict \<Rightarrow> catalog_plan \<Rightarrow> ('r, 'e) world \<Rightarrow> ('r, 'e) world \<Rightarrow> bool" where
  "left secret desired copy p w w' \<longleftrightarrow>
     (\<forall>k. map_of (secret_at secret w') k \<in> {map_of (secret_at secret w) k, map_of copy k})
     \<and> allowed (plan_allows desired p (map_of (w_live w))) w'
     \<and> (w_live w' = w_live w \<or> (\<forall>k v. map_of copy k = Some v \<longrightarrow> map_of (secret_at secret w') k = Some v))"

lemma left_before: "same_cluster w w' \<Longrightarrow> left s d c p w w'"
  using allowed_now [of d p w] by (simp add: left_def same_cluster_def secret_at_def allowed_def)

lemma left_touched: "same_cluster w u \<Longrightarrow> touches s c u w' \<Longrightarrow> left s d c p w w'"
  using allowed_now [of d p w] by (simp add: left_def same_cluster_def touches_def secret_at_def allowed_def)

lemma catalogs_apply_leaves:
  fixes cl :: cluster
  assumes copy: "render_secret desired = Inr copy"
  defines "s \<equiv> st_catalog_secret (cl_settings cl)"
  shows "wp (catalogs_apply cl desired p) (\<lambda>_. left s desired copy p w) (\<lambda>_. left s desired copy p w) (w :: ('r, 'e) world)"
proof -
  let ?L = "\<lambda>_. left s desired copy p w"
  note wf = wf_render_secret [OF copy]
  have execute: "wp (execute desired (settled p live durable copy)) ?L ?L w'"
    if u: "same_cluster w u" and t: "touches s copy u w'"
      and returned: "\<forall>k v. map_of copy k = Some v \<longrightarrow> map_of (secret_at s w') k = Some v"
    for u w' :: "('r, 'e) world" and live durable
  proof (rule wp_within)
    show "within (stays (plan_allows desired p (map_of (w_live w)))) (execute desired (settled p live durable copy))"
      by (rule stays_execute) (auto simp: settled_def)
    have now: "allowed (plan_allows desired p (map_of (w_live w))) w'"
      using left_touched [OF u t, of desired p] by (simp add: left_def)
    have after: "left s desired copy p w v" if "stays (plan_allows desired p (map_of (w_live w))) w' v" for v
      using that now u t returned same_secret [of v w' s]
      by (auto simp: left_def stays_def touches_def same_cluster_def secret_at_def)
    show "left s desired copy p w v" if "stays (plan_allows desired p (map_of (w_live w))) w' v" for v
      by (rule after [OF that])
    show "left s desired copy p w v" if "stays (plan_allows desired p (map_of (w_live w))) w' v" for v
      by (rule after [OF that])
  qed
  have written: "wp (write_secret s copy) (\<lambda>_ w'. wp (execute desired (settled p live durable copy)) ?L ?L w') ?L u"
    if u: "same_cluster w u" for u :: "('r, 'e) world" and live durable
  proof -
    have "wp (write_secret s copy) (\<lambda>_ w'. \<forall>k v. map_of copy k = Some v \<longrightarrow> map_of (secret_at s w') k = Some v) (\<lambda>_ _. True) u"
    proof (cases "write_secret s copy u")
      case (Pair r v)
      show ?thesis
      proof (cases r)
        case (Inr x)
        then show ?thesis
          using write_returned [OF wf, of _ _ s u] by (simp add: wp_def Pair)
      qed (simp add: wp_def Pair)
    qed
    from wp_within_and [OF touches_write [OF wf] this] show ?thesis
      by (rule wp_mono) (auto intro: execute [OF u] left_touched [OF u])
  qed
  have step: "wp (read_secret s) (\<lambda>durable. wp (write_secret s copy)
      (\<lambda>_ w'. wp (execute desired (settled p live durable copy)) ?L ?L w') ?L) ?L u"
    if u: "same_cluster w u" for u :: "('r, 'e) world" and live
    by (rule wp_within [OF same_cluster_read(1)])
      (auto intro: written left_before same_cluster.step_trans [OF u])
  have "wp trino_catalogs (\<lambda>live. wp (read_secret s) (\<lambda>durable. wp (write_secret s copy)
      (\<lambda>_ w'. wp (execute desired (settled p live durable copy)) ?L ?L w') ?L) ?L) ?L w"
    by (rule wp_within [OF same_cluster_read(2)]) (auto intro: step left_before)
  then show ?thesis
    unfolding catalogs_apply_def wp_bind wp_then wp_lift_error copy s_def by simp
qed

section \<open>Statements on a coordinator that answers\<close>

text \<open>Only the live Catalogs moved.\<close>

definition unlive :: "('r, 'e) world \<Rightarrow> ('r, 'e) world" where
  "unlive w = w\<lparr>w_live := []\<rparr>"

definition issuable :: "catalog resources \<Rightarrow> string \<Rightarrow> bool" where
  "issuable d n = (case live_of d n of None \<Rightarrow> False | Some (c, ps) \<Rightarrow> connector_name_ok c)"

lemma unlive_trino: "unlive w' = unlive w \<Longrightarrow> w_trino w' = w_trino w"
proof -
  assume "unlive w' = unlive w"
  then have "w_trino (unlive w') = w_trino (unlive w)" by simp
  then show ?thesis by (simp add: unlive_def)
qed

lemma wp_issue_create:
  assumes "w_trino w = []" and "issuable d n" and "map_of (w_live w) n = None"
    and Q: "\<And>w'. unlive w' = unlive w \<Longrightarrow> map_of (w_live w') = (map_of (w_live w))(n := live_of d n) \<Longrightarrow> Q () w'"
  shows "wp (issue_create d n) Q E w"
proof -
  obtain c ps where st: "statement_of d n = Inr (c, ps)" "connector_name_ok c"
    using assms(2) by (auto simp: issuable_def live_of_def split: sum.splits)
  have "Q () (w\<lparr>w_live := AList.update n (c, ps) (w_live w)\<rparr>)"
    by (rule Q) (simp_all add: unlive_def live_of_def st)
  then show ?thesis
    using assms(1,3) by (simp add: issue_create_def st create_catalog_stmt_def trino_def map_of_eq_None_iff)
qed

lemma wp_drop:
  assumes "w_trino w = []" and "map_of (w_live w) n \<noteq> None"
    and Q: "\<And>w'. unlive w' = unlive w \<Longrightarrow> map_of (w_live w') = (map_of (w_live w))(n := None) \<Longrightarrow> Q () w'"
  shows "wp (drop_catalog_stmt n) Q E w"
proof -
  have "Q () (w\<lparr>w_live := AList.delete n (w_live w)\<rparr>)"
    by (rule Q) (simp_all add: unlive_def)
  then show ?thesis
    using assms(1,2) by (auto simp: drop_catalog_stmt_def trino_def map_of_eq_None_iff)
qed

lemma wp_issue_replace:
  assumes "w_trino w = []" and "issuable d n" and "map_of (w_live w) n \<noteq> None"
    and Q: "\<And>w'. unlive w' = unlive w \<Longrightarrow> map_of (w_live w') = (map_of (w_live w))(n := live_of d n) \<Longrightarrow> Q () w'"
  shows "wp (issue_replace d n) Q E w"
proof -
  have "has_key d n"
    by (rule ccontr) (use assms(2) live_of_None [of n d] in \<open>simp add: issuable_def\<close>)
  moreover have "wp (drop_catalog_stmt n) (\<lambda>_. wp (issue_create d n) Q E) E w"
  proof (rule wp_drop [OF assms(1,3)])
    fix w1 assume w1: "unlive w1 = unlive w" "map_of (w_live w1) = (map_of (w_live w))(n := None)"
    show "wp (issue_create d n) Q E w1"
      by (rule wp_issue_create) (use assms(1,2) w1 unlive_trino [OF w1(1)] in \<open>auto intro!: Q\<close>)
  qed
  ultimately show ?thesis by (simp add: issue_replace_def)
qed

text \<open>A loop of statements, each of which sets its own name.\<close>

lemma wp_statements:
  assumes step: "\<And>n w Q. n \<in> set ns \<Longrightarrow> w_trino w = [] \<Longrightarrow> ok n (map_of (w_live w) n) \<Longrightarrow>
      (\<And>w'. unlive w' = unlive w \<Longrightarrow> map_of (w_live w') = (map_of (w_live w))(n := v n) \<Longrightarrow> Q () w') \<Longrightarrow>
      wp (f n) Q E w"
    and "distinct ns" and "w_trino w = []" and "\<forall>n \<in> set ns. ok n (map_of (w_live w) n)"
    and "\<And>w'. unlive w' = unlive w \<Longrightarrow> map_of (w_live w') = (\<lambda>n. if n \<in> set ns then v n else map_of (w_live w) n) \<Longrightarrow> Q () w'"
  shows "wp (for_io f ns) Q E w"
  using assms
proof (induction ns arbitrary: w)
  case Nil
  then show ?case by simp
next
  case (Cons n ns)
  show ?case
    unfolding for_io.simps wp_then
  proof (rule Cons.prems(1))
    fix w1 assume w1: "unlive w1 = unlive w" "map_of (w_live w1) = (map_of (w_live w))(n := v n)"
    show "wp (for_io f ns) Q E w1"
    proof (rule Cons.IH)
      show "w_trino w1 = []" using unlive_trino [OF w1(1)] Cons.prems(3) by simp
      show "\<forall>m \<in> set ns. ok m (map_of (w_live w1) m)" using Cons.prems(2,4) by (auto simp: w1)
      show "distinct ns" using Cons.prems(2) by simp
      fix w2 assume "unlive w2 = unlive w1"
        "map_of (w_live w2) = (\<lambda>m. if m \<in> set ns then v m else map_of (w_live w1) m)"
      then show "Q () w2" using Cons.prems(2) w1 by (intro Cons.prems(5)) (auto simp: fun_eq_iff)
    qed (rule Cons.prems(1); simp)
  qed (use Cons.prems in simp_all)
qed

lemma wp_execute:
  assumes w: "w_trino w = []"
    and sets: "distinct (cp_created p @ cp_replaced p @ cp_dropped p)"
    and created: "\<forall>n \<in> set (cp_created p). issuable d n \<and> map_of (w_live w) n = None"
    and replaced: "\<forall>n \<in> set (cp_replaced p). issuable d n \<and> map_of (w_live w) n \<noteq> None"
    and dropped: "\<forall>n \<in> set (cp_dropped p). map_of (w_live w) n \<noteq> None"
    and Q: "\<And>w'. unlive w' = unlive w \<Longrightarrow> map_of (w_live w') = (\<lambda>n. if n \<in> set (cp_dropped p) then None
        else if n \<in> set (cp_created p) \<union> set (cp_replaced p) then live_of d n else map_of (w_live w) n) \<Longrightarrow> Q () w'"
  shows "wp (execute d p) Q E w"
  unfolding execute_def wp_then
proof (rule wp_statements [where v = "live_of d" and ok = "\<lambda>n x. issuable d n \<and> x = None"])
  fix w1 assume w1: "unlive w1 = unlive w"
    "map_of (w_live w1) = (\<lambda>n. if n \<in> set (cp_created p) then live_of d n else map_of (w_live w) n)"
  show "wp (for_io (issue_replace d) (cp_replaced p)) (\<lambda>_. wp (for_io drop_catalog_stmt (cp_dropped p)) Q E) E w1"
  proof (rule wp_statements [where v = "live_of d" and ok = "\<lambda>n x. issuable d n \<and> x \<noteq> None"])
    fix w2 assume w2: "unlive w2 = unlive w1"
      "map_of (w_live w2) = (\<lambda>n. if n \<in> set (cp_replaced p) then live_of d n else map_of (w_live w1) n)"
    show "wp (for_io drop_catalog_stmt (cp_dropped p)) Q E w2"
    proof (rule wp_statements [where v = "\<lambda>_. None" and ok = "\<lambda>n x. x \<noteq> None"])
      show "\<forall>n \<in> set (cp_dropped p). map_of (w_live w2) n \<noteq> None"
        using dropped sets by (auto simp: w1 w2)
      fix w3 assume "unlive w3 = unlive w2"
        "map_of (w_live w3) = (\<lambda>n. if n \<in> set (cp_dropped p) then None else map_of (w_live w2) n)"
      then show "Q () w3" by (intro Q) (auto simp: w1 w2)
    qed (use w w1 w2 sets unlive_trino [OF w1(1)] unlive_trino [OF w2(1)] in \<open>auto intro: wp_drop\<close>)
  qed (use w w1 sets replaced unlive_trino [OF w1(1)] in \<open>auto intro: wp_issue_replace\<close>)
qed (use w sets created in \<open>auto intro: wp_issue_create\<close>)

section \<open>Applying\<close>

text \<open>Two live Catalogs are the same Catalog: Trino keeps no order of properties.\<close>

definition alike :: "(string \<times> string dict) option \<Rightarrow> (string \<times> string dict) option \<Rightarrow> bool" where
  "alike x y = (case (x, y) of
      (None, None) \<Rightarrow> True
    | (Some (c, ps), Some (c', ps')) \<Rightarrow> c = c' \<and> dict_eq ps ps'
    | _ \<Rightarrow> False)"

lemma alike_refl [simp]: "alike x x"
  by (simp add: alike_def split: option.split prod.split)

lemma issuable_key: "issuable d n \<Longrightarrow> has_key d n"
  by (rule ccontr) (use live_of_None [of n d] in \<open>simp add: issuable_def\<close>)

lemma wp_write_quiet:
  assumes "w_kube w = []" and "wf_dict data"
    and "\<And>w'. w_live w' = w_live w \<Longrightarrow> w_trino w' = w_trino w \<Longrightarrow> w_kube w' = [] \<Longrightarrow>
      map_of (secret_at name w') = map_of data \<Longrightarrow> Q () w'"
  shows "wp (write_secret name data) Q E w"
proof (rule write_secret_exact [OF assms(1,2)])
  fix w' d assume a: "sealed w' = sealed w" "w_secrets w' = AList.update name d (w_secrets w)" "map_of d = map_of data"
  then have "w_live (sealed w') = w_live (sealed w)" "w_trino (sealed w') = w_trino (sealed w)"
    "w_kube (sealed w') = w_kube (sealed w)" by simp_all
  then have "w_live w' = w_live w" "w_trino w' = w_trino w" "w_kube w' = w_kube w"
    by (simp_all add: sealed_def)
  moreover have "map_of (secret_at name w') = map_of data" using a(2,3) by (simp add: secret_at_def sec_get_def)
  ultimately show "Q () w'" using assms(1) by (intro assms(3)) simp_all
qed

lemma secret_unlive: "unlive w' = unlive w \<Longrightarrow> secret_at name w' = secret_at name w"
proof -
  assume "unlive w' = unlive w"
  then have "w_secrets (unlive w') = w_secrets (unlive w)" by simp
  then show ?thesis by (simp add: unlive_def secret_at_def)
qed

lemma wp_trino_catalogs [simp]: "w_trino w = [] \<Longrightarrow> wp trino_catalogs Q E w = Q (dict_keys (w_live w)) w"
  by (simp add: trino_catalogs_def trino_def)

lemma live_keys: "n \<in> set (dict_keys (w_live w)) \<longleftrightarrow> map_of (w_live w) n \<noteq> None"
  by (simp add: map_of_eq_None_iff)

lemma wp_read_secret_at [simp]: "w_kube w = [] \<Longrightarrow> wp (read_secret name) Q E w = Q (secret_at name w) w"
  by (simp add: secret_at_def sec_get_def)

text \<open>C7: An Apply of Catalogs serves what was asked for. On a Cluster that answers and serves the
  Snapshot, where each new name is free or already recorded and served as desired, \<open>apply\<close> returns
  with every desired Catalog served as desired, those of the Snapshot no longer desired gone, every
  other Catalog as it was, and the Secret holding exactly the desired rendering.\<close>

theorem catalogs_apply_live:
  fixes cl :: cluster and w :: "('r, 'e) world"
  assumes quiet: "w_trino w = []" "w_kube w = []"
    and copy: "render_secret desired = Inr copy" "\<forall>n \<in> fst ` set desired. issuable desired n"
    and serving: "\<forall>n \<in> fst ` set current. map_of (w_live w) n \<noteq> None"
    and kept: "\<forall>n. has_key current n \<and> has_key desired n \<and> \<not> changed_catalog desired current n \<longrightarrow>
      alike (map_of (w_live w) n) (live_of desired n)"
    and free: "\<forall>n. has_key desired n \<and> \<not> has_key current n \<longrightarrow> map_of (w_live w) n = None
      \<or> map_of (secret_at (st_catalog_secret (cl_settings cl)) w) (n @ SUFFIX) = map_of copy (n @ SUFFIX)
        \<and> alike (map_of (w_live w) n) (live_of desired n)"
  shows "wp (catalogs_apply cl desired (plan_catalogs desired current))
    (\<lambda>_ w'. (\<forall>n. if has_key desired n then alike (map_of (w_live w') n) (live_of desired n)
        else map_of (w_live w') n = (if has_key current n then None else map_of (w_live w) n))
      \<and> map_of (secret_at (st_catalog_secret (cl_settings cl)) w') = map_of copy)
    (\<lambda>_ _. False) w"
proof -
  let ?s = "st_catalog_secret (cl_settings cl)"
  let ?p = "plan_catalogs desired current"
  let ?q = "settled ?p (dict_keys (w_live w)) (secret_at ?s w) copy"
  let ?goal = "\<lambda>w'. (\<forall>n. if has_key desired n then alike (map_of (w_live w') n) (live_of desired n)
        else map_of (w_live w') n = (if has_key current n then None else map_of (w_live w) n))
      \<and> map_of (secret_at ?s w') = map_of copy"
  have keys: "set (cp_created ?q) \<union> set (cp_replaced ?q) \<subseteq> fst ` set desired"
    by (auto simp: settled_def plan_catalogs_def)
  have fresh: "map_of (w_live w) n = None" if "n \<in> set (cp_created ?q)" for n
    using that free by (auto simp: settled_def plan_catalogs_def map_of_eq_None_iff)
  have replaced: "has_key current n" if "n \<in> set (cp_replaced ?q)" for n
    using that by (auto simp: settled_def plan_catalogs_def changed_catalog_def dest: map_of_Some_has_key split: option.splits)
  have main: "wp (execute desired ?q) (\<lambda>_. ?goal) (\<lambda>_ _. False) w1"
    if w1: "w_live w1 = w_live w" "w_trino w1 = w_trino w" "map_of (secret_at ?s w1) = map_of copy" for w1
  proof (rule wp_execute)
    show "w_trino w1 = []" using quiet w1 by simp
    show "distinct (cp_created ?q @ cp_replaced ?q @ cp_dropped ?q)"
      using keys replaced by (auto simp: settled_def plan_catalogs_def)
    show "\<forall>n \<in> set (cp_created ?q). issuable desired n \<and> map_of (w_live w1) n = None"
      using fresh keys copy(2) w1 by auto
    show "\<forall>n \<in> set (cp_replaced ?q). issuable desired n \<and> map_of (w_live w1) n \<noteq> None"
      using keys copy(2) bspec [OF serving replaced [unfolded set_map]] by (auto simp: w1)
    show "\<forall>n \<in> set (cp_dropped ?q). map_of (w_live w1) n \<noteq> None"
      using serving by (auto simp: settled_def plan_catalogs_def w1)
    fix w' assume w': "unlive w' = unlive w1" "map_of (w_live w') = (\<lambda>n. if n \<in> set (cp_dropped ?q) then None
        else if n \<in> set (cp_created ?q) \<union> set (cp_replaced ?q) then live_of desired n else map_of (w_live w1) n)"
    have "alike (map_of (w_live w') n) (live_of desired n)" if n: "has_key desired n" for n
    proof (cases "n \<in> set (cp_created ?q) \<union> set (cp_replaced ?q)")
      case False
      then have "alike (map_of (w_live w) n) (live_of desired n)"
        using n kept free by (cases "has_key current n") (auto simp: settled_def plan_catalogs_def map_of_eq_None_iff)
      moreover have "n \<notin> set (cp_dropped ?q)" using n by (simp add: settled_def plan_catalogs_def)
      ultimately show ?thesis using False by (simp add: w' w1)
    qed (use n in \<open>simp add: w' settled_def plan_catalogs_def\<close>)
    moreover have "map_of (w_live w') n = (if has_key current n then None else map_of (w_live w) n)"
      if n: "\<not> has_key desired n" for n
      using n by (auto simp: w' w1 settled_def plan_catalogs_def)
    ultimately show "?goal w'" using secret_unlive [OF w'(1)] w1 by auto
  qed
  have "wp (write_secret ?s copy) (\<lambda>_. wp (execute desired ?q) (\<lambda>_. ?goal) (\<lambda>_ _. False)) (\<lambda>_ _. False) w"
    by (rule wp_write_quiet [OF quiet(2) wf_render_secret [OF copy(1)]]) (rule main; simp)
  then show ?thesis
    by (simp only: catalogs_apply_def wp_bind wp_then wp_lift_error copy(1) sum.case
        wp_trino_catalogs [OF quiet(1)] wp_read_secret_at [OF quiet(2)])
qed

section \<open>Rolling back\<close>

lemma wp_ret_fun: "wp (ret x) Q E = Q x"
  by (rule ext) simp

lemma wp_then_ret: "wp (then_io m (ret x)) Q E = wp m (\<lambda>_. Q x) E"
  by (rule ext) (simp add: wp_ret_fun)

definition clean_catalogs :: "catalog resources \<Rightarrow> bool" where
  "clean_catalogs d \<longleftrightarrow> list_all (\<lambda>n. case live_of d n of None \<Rightarrow> True
     | Some (c, ps) \<Rightarrow> clean_text c \<and> clean_catalog_properties ps) (dict_keys d)"

lemma clean_live: "clean_catalogs d \<Longrightarrow> live_of d n = Some (c, ps) \<Longrightarrow> clean_text c \<and> clean_catalog_properties ps"
proof -
  assume a: "clean_catalogs d" "live_of d n = Some (c, ps)"
  then have "has_key d n" using live_of_None [of n d] by (metis option.distinct(1))
  with a show ?thesis by (auto simp: clean_catalogs_def list_all_iff)
qed

lemma alike_rendered:
  assumes "clean_catalogs d" "clean_catalogs e" "live_of d n = Some x" "live_of e n = Some y"
    and "render_properties (fst x) (snd x) = render_properties (fst y) (snd y)"
  shows "alike (Some x) (Some y)"
  using clean_live [OF assms(1), of n] clean_live [OF assms(2), of n] assms(3-5) render_inject [OF assms(5) [unfolded render_properties_def] connector_marker]
  by (cases x; cases y) (simp add: alike_def dict_eq_iff)

lemma not_suffixed: "n \<notin> fst ` set d \<Longrightarrow> render_secret d = Inr c \<Longrightarrow> map_of c (n @ SUFFIX) = None"
  by (simp add: render_secret_at(1) live_of_None)

text \<open>
  From wherever an Apply of \<open>desired\<close> over the Snapshot \<open>current\<close> left the Cluster, the rollback
  serves again what was served before: the Snapshot's Catalogs as the Snapshot has them, none the
  Apply added, and every Catalog that is not managed as it was.
\<close>

lemma catalogs_restore_undoes:
  fixes cl :: cluster and w w1 :: "('r, 'e) world"
  defines "s \<equiv> st_catalog_secret (cl_settings cl)"
  assumes quiet: "w_trino w1 = []" "w_kube w1 = []"
    and cc: "render_secret current = Inr cc" "\<forall>n \<in> fst ` set current. issuable current n" "clean_catalogs current"
    and dc: "render_secret desired = Inr dc" "clean_catalogs desired"
    and serving: "\<forall>n \<in> fst ` set current. map_of (w_live w) n = live_of current n"
    and free: "\<forall>n \<in> fst ` set desired - fst ` set current. map_of (w_live w) n = None"
    and recorded: "map_of (secret_at s w) = map_of cc"
    and left: "left s desired dc (plan_catalogs desired current) w w1"
  shows "wp (catalogs_restore cl current)
    (\<lambda>_ w2. (\<forall>n. alike (map_of (w_live w2) n) (map_of (w_live w) n)) \<and> map_of (secret_at s w2) = map_of cc)
    (\<lambda>_ _. False) w1"
proof -
  let ?now = "secret_at s w1"
  let ?r = "rollback_plan current (dict_keys (w_live w1)) ?now cc"
  let ?A = "plan_allows desired (plan_catalogs desired current) (map_of (w_live w))"
  let ?goal = "\<lambda>w2. (\<forall>n. alike (map_of (w_live w2) n) (map_of (w_live w) n)) \<and> map_of (secret_at s w2) = map_of cc"
  have pointwise: "map_of ?now k = map_of cc k \<or> map_of ?now k = map_of dc k" for k
    using left recorded by (auto simp: left_def)
  have allowed: "map_of (w_live w1) n \<in> ?A n" for n using left by (simp add: left_def allowed_def)
  have kept: "alike (map_of (w_live w1) n) (live_of current n)"
    if n: "n \<in> fst ` set current" "map_of (w_live w1) n \<noteq> None" "map_of ?now (n @ SUFFIX) = map_of cc (n @ SUFFIX)" for n
  proof (cases "map_of (w_live w1) n = map_of (w_live w) n")
    case True
    then show ?thesis using serving n by simp
  next
    case False
    then have d: "map_of (w_live w1) n = live_of desired n"
      using allowed [of n] n(2) by (auto simp: plan_allows_def split: if_splits)
    with n(2) obtain x where x: "live_of desired n = Some x" by auto
    obtain y where y: "live_of current n = Some y" using render_secret_at(3) [OF cc(1), of n] n(1) unfolding set_map by blast
    have "w_live w1 \<noteq> w_live w" using False by auto
    moreover have "map_of dc (n @ SUFFIX) = Some (render_properties (fst x) (snd x))"
      by (simp add: render_secret_at(1) [OF dc(1)] x split_beta)
    ultimately have "map_of ?now (n @ SUFFIX) = Some (render_properties (fst x) (snd x))"
      using left by (auto simp: left_def)
    then have "render_properties (fst x) (snd x) = render_properties (fst y) (snd y)"
      using n(3) by (simp add: render_secret_at(1) [OF cc(1)] y split_beta)
    then have "alike (Some x) (Some y)" by (rule alike_rendered [OF dc(2) cc(3) x y])
    then show ?thesis by (simp add: d x y)
  qed
  have added: "map_of (w_live w1) n = None \<or> n \<in> set (cp_dropped ?r)"
    if n: "n \<in> fst ` set desired" "n \<notin> fst ` set current" for n
  proof (cases "map_of (w_live w1) n")
    case (Some x)
    have "map_of (w_live w) n = None" by (rule bspec [OF free]) (use n in simp)
    with Some have "w_live w1 \<noteq> w_live w" by auto
    moreover obtain y where "live_of desired n = Some y" using render_secret_at(3) [OF dc(1), of n] n(1) unfolding set_map by blast
    ultimately have "map_of ?now (n @ SUFFIX) \<noteq> None"
      using left by (auto simp: left_def render_secret_at(1) [OF dc(1)] split_beta)
    then show ?thesis using n Some live_keys [of n w1] by (simp add: rollback_plan_def Let_def)
  qed simp
  have other: "map_of (w_live w1) n = map_of (w_live w) n \<and> n \<notin> set (cp_dropped ?r)"
    if n: "n \<notin> fst ` set desired" "n \<notin> fst ` set current" for n
  proof
    show "map_of (w_live w1) n = map_of (w_live w) n"
      using allowed [of n] n by (auto simp: plan_allows_def plan_catalogs_def)
    have "map_of ?now (n @ SUFFIX) = None"
      using pointwise [of "n @ SUFFIX"] not_suffixed [OF n(1) dc(1)] not_suffixed [OF n(2) cc(1)] by simp
    then show "n \<notin> set (cp_dropped ?r)" by (simp add: rollback_plan_def Let_def)
  qed
  have main: "wp (execute current ?r) (\<lambda>_. ?goal) (\<lambda>_ _. False) w2"
    if w2: "w_live w2 = w_live w1" "w_trino w2 = w_trino w1" "map_of (secret_at s w2) = map_of cc" for w2
  proof (rule wp_execute)
    show "w_trino w2 = []" using quiet w2 by simp
    show "distinct (cp_created ?r @ cp_replaced ?r @ cp_dropped ?r)"
      by (auto simp: rollback_plan_def Let_def)
    show "\<forall>n \<in> set (cp_created ?r). issuable current n \<and> map_of (w_live w2) n = None"
      by (simp add: rollback_plan_def Let_def w2 map_of_eq_None_iff bspec [OF cc(2)])
    show "\<forall>n \<in> set (cp_replaced ?r). issuable current n \<and> map_of (w_live w2) n \<noteq> None"
      by (simp add: rollback_plan_def Let_def w2 map_of_eq_None_iff bspec [OF cc(2)])
    show "\<forall>n \<in> set (cp_dropped ?r). map_of (w_live w2) n \<noteq> None"
      by (simp add: rollback_plan_def Let_def w2 map_of_eq_None_iff)
    fix w3 assume w3: "unlive w3 = unlive w2" "map_of (w_live w3) = (\<lambda>n. if n \<in> set (cp_dropped ?r) then None
        else if n \<in> set (cp_created ?r) \<union> set (cp_replaced ?r) then live_of current n else map_of (w_live w2) n)"
    have "alike (map_of (w_live w3) n) (map_of (w_live w) n)" for n
    proof (cases "n \<in> fst ` set current")
      case True
      then have "n \<notin> set (cp_dropped ?r)" by (simp add: rollback_plan_def Let_def)
      moreover have "n \<in> set (cp_created ?r) \<union> set (cp_replaced ?r) \<or> alike (map_of (w_live w1) n) (live_of current n)"
        using True kept [OF True] live_keys [of n w1] by (auto simp: rollback_plan_def Let_def)
      ultimately show ?thesis using True serving by (auto simp: w3 w2)
    next
      case False
      then have "n \<notin> set (cp_created ?r) \<union> set (cp_replaced ?r)" by (simp add: rollback_plan_def Let_def)
      then show ?thesis
        using False added [of n] other [of n] free by (cases "n \<in> fst ` set desired") (auto simp: w3 w2)
    qed
    then show "?goal w3" using secret_unlive [OF w3(1)] w2 by simp
  qed
  have "wp (write_secret s cc) (\<lambda>_. wp (execute current ?r) (\<lambda>_. ?goal) (\<lambda>_ _. False)) (\<lambda>_ _. False) w1"
    by (rule wp_write_quiet [OF quiet(2) wf_render_secret [OF cc(1)]]) (rule main; simp)
  then show ?thesis
    by (simp only: catalogs_restore_def s_def wp_bind wp_then wp_then_ret wp_lift_error cc(1) sum.case Let_def
        wp_trino_catalogs [OF quiet(1)] wp_read_secret_at [OF quiet(2)])
qed

section \<open>What is staged renders\<close>

text \<open>What an Operator may ask for, one request after another; a refused one changes nothing.\<close>

datatype catalog_request = Create catalog_write | Update string catalog_update | Delete string

definition stage_catalog :: "catalog_request \<Rightarrow> catalog resources \<Rightarrow> catalog resources" where
  "stage_catalog r stored = (case (case r of Create w \<Rightarrow> create_catalog stored w
       | Update n u \<Rightarrow> update_catalog stored n u | Delete n \<Rightarrow> delete_catalog stored n) of
     Inl _ \<Rightarrow> stored | Inr stored' \<Rightarrow> stored')"

definition renderable :: "catalog \<Rightarrow> bool" where
  "renderable c \<longleftrightarrow> given (cat_certificate c) = None
     \<or> cat_connector c = ''postgresql'' \<and> has_key (cat_properties c) ''connection-url''"

lemma query_keys_Nil: "query_keys (query_of (without_prefix ''jdbc:'' [])) = []"
  by (simp add: query_keys_def query_of_def without_prefix_def starts_with_def partition_at_def)

lemma judged_renderable: "judged con raw cert = Inr c \<Longrightarrow> renderable c"
  by (auto simp: judged_def renderable_def certificate_usable_def WIRED_def ssl_is_configured_def given_def
      query_keys_Nil Let_def map_of_eq_None_iff split: sum.splits option.splits if_splits dest!: map_of_Some_has_key)

lemma renderable_effective: "renderable c \<Longrightarrow> \<exists>ps. effective c = Inr ps"
  by (auto simp: renderable_def effective_def wire_def map_of_eq_None_iff split: option.splits)

lemma stage_renderable:
  assumes "\<forall>c \<in> ran (map_of stored). renderable c"
  shows "\<forall>c \<in> ran (map_of (stage_catalog r stored)). renderable c"
proof -
  have upd: "\<forall>c' \<in> ran ((map_of stored)(n \<mapsto> c)). renderable c'" if "renderable c" for n c
    using assms that by (auto simp: ran_def)
  have del: "\<forall>c' \<in> ran ((map_of stored)(n := None)). renderable c'" for n
    using assms by (auto simp: ran_def)
  show ?thesis
  proof (cases r)
    case (Create w)
    then show ?thesis
      using assms upd by (auto simp: stage_catalog_def create_catalog_def validated_catalog_def
          split: sum.splits dest!: judged_renderable)
  next
    case (Update n u)
    then show ?thesis
      using assms upd by (auto simp: stage_catalog_def update_catalog_def Let_def
          split: sum.splits option.splits sent.splits dest!: judged_renderable)
  next
    case (Delete n)
    then show ?thesis using assms del by (auto simp: stage_catalog_def delete_catalog_def)
  qed
qed

lemma renderable_secret:
  assumes "\<forall>c \<in> ran (map_of d). renderable c"
  shows "\<exists>copy. render_secret d = Inr copy"
proof -
  have "\<exists>kv. render_entry d n = Inr kv" if n: "n \<in> fst ` set d" for n
  proof -
    from n obtain c where c: "map_of d n = Some c" by (metis has_key_obtains set_map)
    then have "renderable c" using assms by (auto simp: ran_def)
    then show ?thesis using renderable_effective by (fastforce simp: render_entry_def rendered_catalog_def c)
  qed
  then have "\<exists>kvs. map_sum_list (render_entry d) ns = Inr kvs" if "set ns \<subseteq> fst ` set d" for ns
    using that by (induction ns) fastforce+
  then show ?thesis by (simp add: render_secret_def)
qed

section \<open>Properties\<close>

text \<open>Kubernetes and Trino answer again.\<close>

definition healed :: "('r, 'e) world \<Rightarrow> ('r, 'e) world" where
  "healed w = w\<lparr>w_trino := [], w_kube := []\<rparr>"

text \<open>C8: A rollback undoes a failed Apply of Catalogs. Whatever Kubernetes and Trino calls fail on
  the way of the Apply, before or after they took effect, once the services answer again \<open>restore\<close>
  makes Trino serve exactly what it served before, managed Catalogs and unmanaged ones alike, and
  makes the Secret record the Snapshot, without raising.\<close>

theorem catalogs_rollback_undoes:
  fixes cl :: cluster and w :: "('r, 'e) world"
  defines "s \<equiv> st_catalog_secret (cl_settings cl)"
  assumes "render_secret current = Inr cc" and "\<forall>n \<in> fst ` set current. issuable current n" and "clean_catalogs current"
    and "render_secret desired = Inr dc" and "clean_catalogs desired"
    and "\<forall>n \<in> fst ` set current. map_of (w_live w) n = live_of current n"
    and "\<forall>n \<in> fst ` set desired - fst ` set current. map_of (w_live w) n = None"
    and "map_of (secret_at s w) = map_of cc"
  shows "wp (catalogs_restore cl current)
    (\<lambda>_ w2. (\<forall>n. alike (map_of (w_live w2) n) (map_of (w_live w) n)) \<and> map_of (secret_at s w2) = map_of cc)
    (\<lambda>_ _. False) (healed (snd (catalogs_apply cl desired (plan_catalogs desired current) w)))"
proof -
  let ?w1 = "snd (catalogs_apply cl desired (plan_catalogs desired current) w)"
  have "left s desired dc (plan_catalogs desired current) w ?w1"
    using catalogs_apply_leaves [OF assms(5), of cl "plan_catalogs desired current" w]
    by (simp add: wp_world s_def)
  then have "left s desired dc (plan_catalogs desired current) w (healed ?w1)"
    by (simp add: left_def healed_def secret_at_def allowed_def)
  then show ?thesis
    unfolding s_def
    by (intro catalogs_restore_undoes) (use assms in \<open>simp_all add: healed_def s_def\<close>)
qed

definition demo_current :: "catalog resources" where
  "demo_current = [(''a'', \<lparr>cat_connector = ''tpch'', cat_properties = [], cat_certificate = None\<rparr>)]"

definition demo_desired :: "catalog resources" where
  "demo_desired = [(''b'', \<lparr>cat_connector = ''memory'', cat_properties = [(''memory.max'', ''1GB'')], cat_certificate = None\<rparr>)]"

text \<open>The Snapshot is live and recorded; the statement that creates \<open>b\<close> takes effect and its answer is lost.\<close>

definition demo_world :: "(unit, unit) world" where
  "demo_world = (new_install ())\<lparr>w_live := [(''system'', ''system'', []), (''a'', ''tpch'', [])],
     w_secrets := [(''trino-catalogs'', [(''a.properties'', render_properties ''tpch'' [])])],
     w_trino := [Fine, Fail_after (Raised TrinoError ''lost'')]\<rparr>"

definition demo_cluster :: cluster where
  "demo_cluster = \<lparr>cl_settings = demo_settings, cl_admin = default_admin\<rparr>"

lemma catalogs_rollback_undoes_witness:
  "wp (catalogs_restore demo_cluster demo_current)
    (\<lambda>_ w2. (\<forall>n. alike (map_of (w_live w2) n) (map_of (w_live demo_world) n))
      \<and> map_of (secret_at ''trino-catalogs'' w2) = map_of [(''a.properties'', render_properties ''tpch'' [])])
    (\<lambda>_ _. False) (healed (snd (catalogs_apply demo_cluster demo_desired (plan_catalogs demo_desired demo_current) demo_world)))"
proof -
  have s: "st_catalog_secret (cl_settings demo_cluster) = ''trino-catalogs''" by code_simp
  have 1: "render_secret demo_current = Inr [(''a.properties'', render_properties ''tpch'' [])]" by code_simp
  have 2: "\<forall>n \<in> fst ` set demo_current. issuable demo_current n" by code_simp
  have 3: "clean_catalogs demo_current" "clean_catalogs demo_desired" by code_simp+
  have 4: "render_secret demo_desired = Inr [(''b.properties'', render_properties ''memory'' [(''memory.max'', ''1GB'')])]" by code_simp
  have 5: "\<forall>n \<in> fst ` set demo_current. map_of (w_live demo_world) n = live_of demo_current n"
    "\<forall>n \<in> fst ` set demo_desired - fst ` set demo_current. map_of (w_live demo_world) n = None"
    by (simp_all add: demo_world_def demo_current_def demo_desired_def live_of_def statement_of_def
        effective_def given_def expand_def)
  have 6: "secret_at ''trino-catalogs'' demo_world = [(''a.properties'', render_properties ''tpch'' [])]"
    by (simp add: demo_world_def secret_at_def sec_get_def)
  show ?thesis
    using catalogs_rollback_undoes [OF 1 2 3(1) 4 3(2) 5, of demo_cluster] by (simp only: s 6)
qed

text \<open>The Secret is written before Trino is told. Whatever fails during an Apply, a Catalog
  Trino serves afterwards and did not serve before is named in the Secret, with the text the
  desired Catalog renders to, and a Catalog the plan neither replaces nor drops is still served.\<close>

theorem catalogs_secret_before_ddl:
  fixes cl :: cluster and w :: "('r, 'e) world"
  defines "s \<equiv> st_catalog_secret (cl_settings cl)"
  assumes "render_secret desired = Inr copy"
  shows "let p = plan_catalogs desired current; w1 = snd (catalogs_apply cl desired p w) in
    (\<forall>n. map_of (w_live w) n = None \<and> map_of (w_live w1) n \<noteq> None \<longrightarrow> map_of (secret_at s w1) (n @ SUFFIX) = map_of copy (n @ SUFFIX)
       \<and> map_of copy (n @ SUFFIX) \<noteq> None)
    \<and> (\<forall>n. n \<notin> set (cp_replaced p) \<and> n \<notin> set (cp_dropped p) \<and> map_of (w_live w) n \<noteq> None \<longrightarrow> map_of (w_live w1) n \<noteq> None)"
proof -
  let ?p = "plan_catalogs desired current"
  let ?w1 = "snd (catalogs_apply cl desired ?p w)"
  have left: "left s desired copy ?p w ?w1"
    using catalogs_apply_leaves [OF assms(2), of cl ?p w] by (simp add: wp_world s_def)
  then have allowed: "map_of (w_live ?w1) n \<in> plan_allows desired ?p (map_of (w_live w)) n" for n
    by (simp add: left_def allowed_def)
  have "map_of (secret_at s ?w1) (n @ SUFFIX) = map_of copy (n @ SUFFIX) \<and> map_of copy (n @ SUFFIX) \<noteq> None"
    if n: "map_of (w_live w) n = None" "map_of (w_live ?w1) n \<noteq> None" for n
  proof -
    have "live_of desired n \<noteq> None"
      using allowed [of n] n by (cases "live_of desired n") (auto simp: plan_allows_def split: if_splits)
    then obtain t where "map_of copy (n @ SUFFIX) = Some t"
      by (auto simp: render_secret_at(1) [OF assms(2)])
    moreover have "w_live ?w1 \<noteq> w_live w" using n by auto
    ultimately show ?thesis using left by (auto simp: left_def)
  qed
  moreover have "map_of (w_live ?w1) n \<noteq> None"
    if "n \<notin> set (cp_replaced ?p)" "n \<notin> set (cp_dropped ?p)" "map_of (w_live w) n \<noteq> None" for n
  proof -
    have "n \<in> set (cp_created ?p) \<Longrightarrow> live_of desired n \<noteq> None"
      using render_secret_at(3) [OF assms(2), of n] by (auto simp: plan_catalogs_def)
    then show ?thesis using allowed [of n] that by (auto simp: plan_allows_def split: if_splits)
  qed
  ultimately show ?thesis by (auto simp: Let_def)
qed

lemma catalogs_secret_before_ddl_witness:
  "let p = plan_catalogs demo_desired demo_current; w1 = snd (catalogs_apply demo_cluster demo_desired p demo_world);
       copy = [(''b.properties'', render_properties ''memory'' [(''memory.max'', ''1GB'')])] in
    (\<forall>n. map_of (w_live demo_world) n = None \<and> map_of (w_live w1) n \<noteq> None \<longrightarrow>
       map_of (secret_at (st_catalog_secret (cl_settings demo_cluster)) w1) (n @ SUFFIX) = map_of copy (n @ SUFFIX)
       \<and> map_of copy (n @ SUFFIX) \<noteq> None)
    \<and> (\<forall>n. n \<notin> set (cp_replaced p) \<and> n \<notin> set (cp_dropped p) \<and> map_of (w_live demo_world) n \<noteq> None \<longrightarrow> map_of (w_live w1) n \<noteq> None)"
proof -
  have "render_secret demo_desired = Inr [(''b.properties'', render_properties ''memory'' [(''memory.max'', ''1GB'')])]" by code_simp
  from catalogs_secret_before_ddl [OF this, where cl = demo_cluster and current = demo_current and w = demo_world] show ?thesis
    by (simp only: Let_def)
qed

lemma catalogs_apply_live_witness:
  "wp (catalogs_apply demo_cluster demo_desired (plan_catalogs demo_desired demo_current))
    (\<lambda>_ w'. (\<forall>n. if has_key demo_desired n then alike (map_of (w_live w') n) (live_of demo_desired n)
        else map_of (w_live w') n = (if has_key demo_current n then None else map_of (w_live (healed demo_world)) n))
      \<and> map_of (secret_at (st_catalog_secret (cl_settings demo_cluster)) w') =
          map_of [(''b.properties'', render_properties ''memory'' [(''memory.max'', ''1GB'')])])
    (\<lambda>_ _. False) (healed demo_world)"
proof (rule catalogs_apply_live)
  show "render_secret demo_desired = Inr [(''b.properties'', render_properties ''memory'' [(''memory.max'', ''1GB'')])]" by code_simp
  show "\<forall>n \<in> fst ` set demo_desired. issuable demo_desired n" by code_simp
qed (simp_all add: healed_def demo_world_def demo_current_def demo_desired_def)

text \<open>C25: What is staged always renders. After any sequence of requests to create, update or delete
  Catalogs, the refused ones included, the Secret's contents can be rendered: no staged Catalog
  carries a certificate that could not be wired.\<close>

theorem staged_catalogs_render: "\<exists>copy. render_secret (fold stage_catalog requests []) = Inr copy"
proof (rule renderable_secret)
  have "\<forall>c \<in> ran (map_of (fold stage_catalog requests stored)). renderable c"
    if "\<forall>c \<in> ran (map_of stored). renderable c" for stored
    using that
  proof (induction requests arbitrary: stored)
    case (Cons r requests)
    from Cons.IH [OF stage_renderable [OF Cons.prems]] show ?case by simp
  qed simp
  from this [of "[]"] show "\<forall>c \<in> ran (map_of (fold stage_catalog requests [])). renderable c" by simp
qed

definition sorted_dict :: "string dict \<Rightarrow> string dict" where
  "sorted_dict d = map (\<lambda>k. (k, the (map_of d k))) (sorted_keys d)"

definition store_files :: "string \<Rightarrow> string dict \<Rightarrow> string dict" where
  "store_files directory secret = map (\<lambda>(key, text). (rstrip_slash directory @ ''/'' @ key, text)) secret"

lemma name_of_path: "n \<noteq> [] \<Longrightarrow> name_of (rstrip_slash dir @ ''/'' @ n @ SUFFIX) dir = Some n"
proof -
  have "starts_with (rstrip_slash dir @ ''/'') (rstrip_slash dir @ ''/'' @ n @ SUFFIX)"
    using starts_with_append [of "rstrip_slash dir @ ''/''" "n @ SUFFIX"] by simp
  moreover have "ends_with SUFFIX (rstrip_slash dir @ ''/'' @ n @ SUFFIX)"
    using ends_with_append [of SUFFIX "rstrip_slash dir @ ''/'' @ n"] by simp
  moreover have "chop (length SUFFIX) (rstrip_slash dir @ ''/'' @ n @ SUFFIX) = rstrip_slash dir @ ''/'' @ n"
    using chop_append [of SUFFIX _ "rstrip_slash dir @ ''/'' @ n"] by simp
  moreover assume "n \<noteq> []"
  ultimately show ?thesis by (simp add: name_of_def)
qed

lemma parse_paths_rendered:
  assumes "\<forall>p \<in> set ps. \<exists>n c d. n \<noteq> [] \<and> p = rstrip_slash dir @ ''/'' @ n @ SUFFIX \<and> live_of cats n = Some (c, d)
      \<and> clean_text c \<and> clean_catalog_properties d \<and> map_of files p = Some (render_properties c d)"
  shows "\<exists>rs'. parse_catalog_paths files dir ps rs un = Inr (rs', un) \<and>
    (\<forall>n. map_of rs' n = (if rstrip_slash dir @ ''/'' @ n @ SUFFIX \<in> set ps
      then map_option (\<lambda>(c, d). \<lparr>cat_connector = c, cat_properties = sorted_dict d, cat_certificate = None\<rparr>) (live_of cats n)
      else map_of rs n))"
  using assms
proof (induction ps arbitrary: rs)
  case (Cons p ps)
  then obtain n c d where p: "n \<noteq> []" "p = rstrip_slash dir @ ''/'' @ n @ SUFFIX" "live_of cats n = Some (c, d)"
      "clean_text c" "clean_catalog_properties d" "map_of files p = Some (render_properties c d)" by auto
  let ?c = "\<lparr>cat_connector = c, cat_properties = sorted_dict d, cat_certificate = None\<rparr>"
  have "parse_catalog_paths files dir (p # ps) rs un = parse_catalog_paths files dir ps (AList.update n ?c rs) un"
    using p name_of_path [OF p(1), of dir] by (simp add: parse_properties_def render_properties_def parse_render [OF connector_marker] sorted_dict_def)
  moreover obtain rs' where "parse_catalog_paths files dir ps (AList.update n ?c rs) un = Inr (rs', un)"
      "\<forall>m. map_of rs' m = (if rstrip_slash dir @ ''/'' @ m @ SUFFIX \<in> set ps
        then map_option (\<lambda>(c, d). \<lparr>cat_connector = c, cat_properties = sorted_dict d, cat_certificate = None\<rparr>) (live_of cats m)
        else map_of (AList.update n ?c rs) m)"
    using Cons.IH [of "AList.update n ?c rs"] Cons.prems by auto
  ultimately show ?case by (auto simp: p(2,3))
qed simp

lemma keys_store_files:
  "fst ` set (store_files dir secret) = (\<lambda>k. rstrip_slash dir @ ''/'' @ k) ` fst ` set secret"
  by (induction secret) (auto simp: store_files_def)

lemma map_of_store_files: "map_of (store_files dir secret) (rstrip_slash dir @ ''/'' @ k) = map_of secret k"
  by (induction secret) (auto simp: store_files_def)

text \<open>The Secret reads back as the Catalogs it was rendered from. Laid out in the store
  directory, one file per Catalog, \<open>parse_files\<close> returns every Catalog with the connector and the
  properties Trino was sent, reports nothing, and returns nothing else.\<close>

theorem catalog_files_roundtrip:
  assumes "render_secret d = Inr copy" and "clean_catalogs d" and "\<not> has_key d []"
  shows "\<exists>rs. parse_catalog_files (store_files directory copy) directory = Inr (rs, []) \<and>
    (\<forall>n. map_of rs n = map_option (\<lambda>(c, ps). \<lparr>cat_connector = c, cat_properties = sorted_dict ps, cat_certificate = None\<rparr>)
      (live_of d n))"
proof -
  let ?files = "store_files directory copy"
  have keys: "set (sorted_keys ?files) = (\<lambda>n. rstrip_slash directory @ ''/'' @ n @ SUFFIX) ` fst ` set d"
    by (simp add: keys_store_files render_secret_at(2) [OF assms(1)] image_image)
  have "\<exists>rs. parse_catalog_paths ?files directory (sorted_keys ?files) [] [] = Inr (rs, []) \<and>
    (\<forall>n. map_of rs n = (if rstrip_slash directory @ ''/'' @ n @ SUFFIX \<in> set (sorted_keys ?files)
      then map_option (\<lambda>(c, d). \<lparr>cat_connector = c, cat_properties = sorted_dict d, cat_certificate = None\<rparr>) (live_of d n)
      else map_of [] n))"
  proof (rule parse_paths_rendered, rule ballI)
    fix p assume "p \<in> set (sorted_keys ?files)"
    then obtain n where n: "p = rstrip_slash directory @ ''/'' @ n @ SUFFIX" "has_key d n" unfolding keys by auto
    then obtain c ps where l: "live_of d n = Some (c, ps)" using render_secret_at(3) [OF assms(1) n(2)] by auto
    have "map_of ?files p = Some (render_properties c ps)"
      unfolding n(1) map_of_store_files by (simp add: render_secret_at(1) [OF assms(1)] l)
    moreover have "n \<noteq> []" using n(2) assms(3) by (metis)
    ultimately show "\<exists>n c da. n \<noteq> [] \<and> p = rstrip_slash directory @ ''/'' @ n @ SUFFIX \<and> live_of d n = Some (c, da)
        \<and> clean_text c \<and> clean_catalog_properties da \<and> map_of ?files p = Some (render_properties c da)"
      using n(1) l clean_live [OF assms(2) l] by blast
  qed
  moreover have "rstrip_slash directory @ ''/'' @ n @ SUFFIX \<in> set (sorted_keys ?files) \<longleftrightarrow> has_key d n" for n
    unfolding keys by auto
  ultimately show ?thesis
    using live_of_None [of _ d] by (fastforce simp: parse_catalog_files_def)
qed

lemma catalog_files_roundtrip_witness:
  "\<exists>rs. parse_catalog_files (store_files ''/data/catalogs/'' [(''b.properties'', render_properties ''memory'' [(''memory.max'', ''1GB'')])])
      ''/data/catalogs/'' = Inr (rs, []) \<and>
    (\<forall>n. map_of rs n = map_option (\<lambda>(c, ps). \<lparr>cat_connector = c, cat_properties = sorted_dict ps, cat_certificate = None\<rparr>)
      (live_of demo_desired n))"
  by (rule catalog_files_roundtrip) (code_simp+)

end
