(* ===== verification/References.thy ===== *)
theory References
  imports Catalogs_Correct
begin

text \<open>
  Catalogs and the Client Certificates they name (\<open>app/pipeline/references.py\<close>): what Validation
  refuses, what the removal of a certificate is refused for, and that between them every path a
  Catalog's properties carry in place of a token is a file the coordinator is given.
\<close>

definition missing_of :: "client_certificate resources \<Rightarrow> catalog \<Rightarrow> string list" where
  "missing_of staged c = filter (\<lambda>n. \<not> has_key staged n)
     (sorted_set (referenced (cat_properties c) (cat_certificate c)))"

definition missing_certificates ::
  "catalog resources \<Rightarrow> client_certificate resources \<Rightarrow> validation_failure list" where
  "missing_certificates catalogs staged = concat (map (\<lambda>name. case map_of catalogs name of
       None \<Rightarrow> []
     | Some c \<Rightarrow> map (\<lambda>m. \<lparr>vf_section = Some CATALOGS, vf_resource = Some name,
         vf_reason = ''references the client certificate '' @ m @ '', which is not configured''\<rparr>)
         (missing_of staged c)) (sorted_keys catalogs))"

definition certificates_in_use :: "catalog resources \<Rightarrow> string \<Rightarrow> string list" where
  "certificates_in_use catalogs certificate = filter (\<lambda>name. case map_of catalogs name of
       None \<Rightarrow> False
     | Some c \<Rightarrow> certificate \<in> set (referenced (cat_properties c) (cat_certificate c))) (sorted_keys catalogs)"

section \<open>Tokens of joined values\<close>

lemma token_no_space: "list_all name_char n \<Longrightarrow> CHR '' '' \<notin> set (token_text h n)"
  by (cases h) (auto simp: token_text_def list_all_iff name_char_def alnum_def)

lemma match_token_space:
  "match_token (a @ CHR '' '' # b) = (case match_token a of None \<Rightarrow> None | Some (h, n, r) \<Rightarrow> Some (h, n, r @ CHR '' '' # b))"
proof (cases "match_token a")
  case None
  have False if m: "match_token (a @ CHR '' '' # b) = Some (h, n, r)" for h n r
  proof -
    have eq: "a @ CHR '' '' # b = token_text h n @ r" and ok: "n \<noteq> []" "alnum (hd n)" "list_all name_char n"
      using m by (simp_all add: match_token_iff)
    then have "\<exists>v. a = token_text h n @ v"
      using token_no_space [OF ok(3), of h]
      by (auto simp: append_eq_append_conv2 append_eq_Cons_conv Cons_eq_append_conv) (metis in_set_conv_decomp)
    with ok have "\<exists>v. match_token a = Some (h, n, v)" by (auto simp: match_token_iff)
    with None show False by simp
  qed
  then show ?thesis by (cases "match_token (a @ CHR '' '' # b)") (auto simp: None)
next
  case (Some m)
  obtain h n r where m: "m = (h, n, r)" by (cases m)
  then have "match_token (a @ CHR '' '' # b) = Some (h, n, r @ CHR '' '' # b)"
    using Some by (simp add: match_token_iff)
  then show ?thesis by (simp add: Some m)
qed

lemma match_token_blank: "match_token (CHR '' '' # b) = None"
  by (simp add: match_token_def starts_with_def)

lemma tokens_Nil [simp]: "tokens [] = []"
  by (simp add: tokens.simps)

lemma tokens_space: "tokens (a @ CHR '' '' # b) = tokens a @ tokens b"
proof (induction a rule: tokens.induct)
  case (1 a)
  show ?case
  proof (cases a)
    case Nil
    then show ?thesis by (simp add: tokens.simps [of "CHR '' '' # b"] match_token_blank)
  next
    case (Cons c cs)
    show ?thesis
    proof (cases "match_token a")
      case None
      then show ?thesis
        using "1.IH"(1) [OF Cons None] match_token_space [of a b] Cons
        by (simp add: tokens.simps [of "c # cs @ CHR '' '' # b"] tokens.simps [of "c # cs"])
    next
      case (Some m)
      obtain h n r where m: "m = (h, n, r)" by (cases m)
      show ?thesis
        using "1.IH"(2) [OF Cons Some, of h "(n, r)" n r] match_token_space [of a b] Cons Some
        by (simp add: m tokens.simps [of "c # cs @ CHR '' '' # b"] tokens.simps [of "c # cs"])
    qed
  qed
qed

lemma tokens_join: "tokens (join_with '' '' vs) = concat (map tokens vs)"
  by (induction "'' ''" vs rule: join_with.induct) (simp_all add: tokens_space)

lemma referenced_iff: "m \<in> set (referenced ps cert) \<longleftrightarrow>
    (\<exists>(k, v) \<in> set ps. \<exists>h. (h, m) \<in> set (tokens v)) \<or> given cert = Some m"
proof -
  have "m \<in> snd ` set (concat (map tokens (map snd ps))) \<longleftrightarrow> (\<exists>(k, v) \<in> set ps. \<exists>h. (h, m) \<in> set (tokens v))"
    by (induction ps) force+
  then show ?thesis
    by (cases cert) (auto simp: referenced_def tokens_join given_def)
qed

lemma missing_certificates_Nil:
  "missing_certificates cats staged = [] \<longleftrightarrow>
     (\<forall>n c m. map_of cats n = Some c \<and> m \<in> set (referenced (cat_properties c) (cat_certificate c)) \<longrightarrow> has_key staged m)"
proof
  assume a: "missing_certificates cats staged = []"
  show "\<forall>n c m. map_of cats n = Some c \<and> m \<in> set (referenced (cat_properties c) (cat_certificate c)) \<longrightarrow> has_key staged m"
  proof (intro allI impI, elim conjE)
    fix n c m assume c: "map_of cats n = Some c" "m \<in> set (referenced (cat_properties c) (cat_certificate c))"
    then have "missing_of staged c = []"
      using a map_of_Some_has_key [OF c(1)] by (fastforce simp: missing_certificates_def)
    with c(2) show "has_key staged m" by (auto simp: missing_of_def filter_empty_conv)
  qed
next
  assume "\<forall>n c m. map_of cats n = Some c \<and> m \<in> set (referenced (cat_properties c) (cat_certificate c)) \<longrightarrow> has_key staged m"
  then have "missing_of staged c = []" if "map_of cats n = Some c" for n c
    using that by (auto simp: missing_of_def filter_empty_conv)
  then show "missing_certificates cats staged = []"
    by (auto simp: missing_certificates_def split: option.split)
qed

section \<open>Properties\<close>



text \<open>Removing a certificate breaks no Catalog. When the removal is not refused because some
  Catalog uses the certificate, a Candidate with no missing certificate has none missing after it.\<close>

theorem delete_certificate_safe:
  assumes "certificates_in_use cats name = []" and "missing_certificates cats staged = []"
    and "delete_certificate staged name = Inr staged'"
  shows "missing_certificates cats staged' = []"
proof -
  have unused: "name \<notin> set (referenced (cat_properties c) (cat_certificate c))" if "map_of cats n = Some c" for n c
    using assms(1) that map_of_Some_has_key [OF that] by (fastforce simp: certificates_in_use_def filter_empty_conv)
  have "staged' = AList.delete name staged"
    using assms(3) by (simp add: delete_certificate_def split: if_splits)
  then have keys: "fst ` set staged' = fst ` set staged - {name}" by (simp only: keys_delete)
  have "has_key staged' m \<longleftrightarrow> has_key staged m \<and> m \<noteq> name" for m
    unfolding set_map keys by blast
  then show ?thesis
    using assms(2) unused unfolding missing_certificates_Nil by blast
qed

lemma delete_certificate_safe_witness:
  "missing_certificates [(''a'', \<lparr>cat_connector = ''mysql'', cat_properties = [(''key'', ''${key:pg}'')], cat_certificate = None\<rparr>)]
    [(''pg'', \<lparr>cc_certificate = ''C'', cc_private_key = ''K''\<rparr>)] = []"
  by (rule delete_certificate_safe [where name = "''old''"
      and staged = "[(''old'', \<lparr>cc_certificate = ''X'', cc_private_key = ''Y''\<rparr>), (''pg'', \<lparr>cc_certificate = ''C'', cc_private_key = ''K''\<rparr>)]"])
    (code_simp+)

text \<open>Trino is never sent a token. No value of a Catalog's effective properties contains a
  \<open>${cert:...}\<close> or \<open>${key:...}\<close> Apchi would have expanded.\<close>

theorem effective_no_tokens:
  assumes "effective c = Inr ps" and "(k, v) \<in> set ps"
  shows "tokens v = []"
proof -
  obtain ps' where "ps = expand ps'"
    using assms(1) by (auto simp: effective_def split: option.splits sum.splits)
  then show ?thesis using assms(2) by (auto simp: expand_def tokens_expand)
qed

lemma effective_no_tokens_witness: "tokens ''/etc/trino/certs/pg.key'' = []"
  by (rule effective_no_tokens [where k = "''key''" and ps = "[(''key'', ''/etc/trino/certs/pg.key'')]"
      and c = "\<lparr>cat_connector = ''mysql'', cat_properties = [(''key'', ''${key:pg}'')], cat_certificate = None\<rparr>"])
    (code_simp+)

end
