(* ===== verification/Event_Listeners.thy ===== *)
theory Event_Listeners
  imports Property_Schema Properties_File Section_Protocol
begin

text \<open>
  The Event Listeners Section (\<open>app/sections/event_listeners\<close>): at most one listener, rendered to the
  one file Trino reads at startup, and refused emptiness where the deployment's own pointer would
  leave a coordinator that cannot start.
\<close>

record event_listener =
  el_type :: string
  el_properties :: "string dict"

definition same_listener :: "event_listener \<Rightarrow> event_listener \<Rightarrow> bool" where
  "same_listener a b \<longleftrightarrow> el_type a = el_type b \<and> dict_eq (el_properties a) (el_properties b)"

section \<open>The curated types\<close>

definition listener_schema_http :: property_schema where
  "listener_schema_http = \<lparr>sc_required = [''http-event-listener.connect-ingest-uri''],
     sc_optional = [''http-event-listener.log-created'', ''http-event-listener.log-completed'',
       ''http-event-listener.connect-http-headers'', ''http-event-listener.connect-retry-count'',
       ''http-event-listener.connect-retry-delay'', ''http-event-listener.connect-backoff-base'',
       ''http-event-listener.connect-max-delay''],
     sc_branches = [\<lparr>br_selector = ''http-event-listener.connect-http-method'', br_values = [],
       br_default = None, br_allowed = [''POST'', ''PUT'']\<rparr>],
     sc_open_ended = []\<rparr>"

definition listener_schema_kafka :: property_schema where
  "listener_schema_kafka = \<lparr>sc_required = [''kafka-event-listener.broker-endpoints'',
       ''kafka-event-listener.created-event.topic'', ''kafka-event-listener.completed-event.topic'',
       ''kafka-event-listener.client-id''],
     sc_optional = [''kafka-event-listener.anonymization.enabled'', ''kafka-event-listener.max-request-size'',
       ''kafka-event-listener.batch-size'', ''kafka-event-listener.publish-created-event'',
       ''kafka-event-listener.publish-completed-event'', ''kafka-event-listener.excluded-fields'',
       ''kafka-event-listener.request-timeout'', ''kafka-event-listener.terminate-on-initialization-failure'',
       ''kafka-event-listener.env-var-prefix'', ''kafka-event-listener.config.resources''],
     sc_branches = [], sc_open_ended = []\<rparr>"

definition LISTENER_SCHEMAS :: "property_schema dict" where
  "LISTENER_SCHEMAS = [(''http'', listener_schema_http), (''kafka'', listener_schema_kafka)]"

definition listener_properties :: "string \<Rightarrow> string dict \<Rightarrow> exn + string dict" where
  "listener_properties listener_type properties =
     (case validate_schema (map_of LISTENER_SCHEMAS listener_type) properties of
        Inl problems \<Rightarrow> Inl (Raised UnprocessablePayload ''properties'')
      | Inr flattened \<Rightarrow> Inr flattened)"

section \<open>Staging\<close>

definition MAX_LISTENERS :: nat where "MAX_LISTENERS = 1"

definition create_event_listener ::
  "event_listener resources \<Rightarrow> string \<Rightarrow> string \<Rightarrow> string dict \<Rightarrow> exn + event_listener resources" where
  "create_event_listener stored name listener_type properties =
     (if has_key stored name then Inl (Raised NameAlreadyTaken name)
      else if MAX_LISTENERS \<le> length stored then Inl (Raised Conflict ''too_many_event_listeners'')
      else case listener_properties listener_type properties of
        Inl e \<Rightarrow> Inl e
      | Inr ps \<Rightarrow> Inr (AList.update name \<lparr>el_type = listener_type, el_properties = ps\<rparr> stored))"

text \<open>Of a partial update, a field is not sent (\<open>None\<close>), null (\<open>Some None\<close>) or sent.\<close>

definition update_event_listener ::
  "event_listener resources \<Rightarrow> string \<Rightarrow> string option option \<Rightarrow> string dict option option \<Rightarrow>
     exn + event_listener resources" where
  "update_event_listener stored name new_type new_properties = (case map_of stored name of
      None \<Rightarrow> Inl (Raised NotFound name)
    | Some current \<Rightarrow>
       (let listener_type = (case new_type of None \<Rightarrow> Some (el_type current) | Some t \<Rightarrow> t);
            raw = (case new_properties of None \<Rightarrow> Some (el_properties current) | Some p \<Rightarrow> p) in
        case listener_type of
          None \<Rightarrow> Inl (Raised UnprocessablePayload ''type: cannot be cleared'')
        | Some t \<Rightarrow> (case raw of
            None \<Rightarrow> Inl (Raised UnprocessablePayload ''properties: cannot be cleared'')
          | Some ps \<Rightarrow> (case listener_properties t ps of
              Inl e \<Rightarrow> Inl e
            | Inr ps' \<Rightarrow> Inr (AList.update name \<lparr>el_type = t, el_properties = ps'\<rparr> stored)))))"

definition delete_event_listener ::
  "event_listener resources \<Rightarrow> string \<Rightarrow> exn + event_listener resources" where
  "delete_event_listener stored name =
     (if \<not> has_key stored name then Inl (Raised NotFound name) else Inr (AList.delete name stored))"

definition CANNOT_EMPTY :: string where
  "CANNOT_EMPTY = ''This Cluster'' @ [CHR 0x27] @ ''s deployment sets event-listener.config-files, which names a file ''
     @ ''Trino refuses to start without. Removing the last Event Listener would leave a coordinator that cannot come ''
     @ ''back, and Trino has no listener that does nothing to put in its place. Remove event-listener.config-files ''
     @ ''from the deployment first, or keep at least one listener.''"

definition refuse_if_emptying :: "event_listener resources \<Rightarrow> settings \<Rightarrow> exn + unit" where
  "refuse_if_emptying stored s =
     (if \<not> st_listener_from_deployment s then Inr ()
      else if stored = [] then Inl (Raised Conflict CANNOT_EMPTY)
      else Inr ())"

section \<open>The file\<close>

definition LISTENER_KEY :: string where "LISTENER_KEY = ''event-listener.properties''"
definition LISTENER_PATH :: string where "LISTENER_PATH = ''/etc/trino/event-listener.properties''"
definition LISTENER_DIR :: string where "LISTENER_DIR = ''/etc/trino/event-listener''"
definition LISTENER_PATH_IN_DIR :: string where "LISTENER_PATH_IN_DIR = ''/etc/trino/event-listener/event-listener.properties''"

definition render_listener :: "event_listener \<Rightarrow> string" where
  "render_listener l = render_file ''event-listener.name'' (el_type l) (el_properties l)"

definition listener_secret :: "event_listener resources \<Rightarrow> string dict" where
  "listener_secret listeners = (case sorted_keys listeners of
      [] \<Rightarrow> []
    | name # _ \<Rightarrow> (case map_of listeners name of None \<Rightarrow> [] | Some l \<Rightarrow> [(LISTENER_KEY, render_listener l)]))"

definition listener_path :: "settings \<Rightarrow> string" where
  "listener_path s = (if st_listener_from_deployment s then LISTENER_PATH_IN_DIR else LISTENER_PATH)"

definition listener_files :: "event_listener resources \<Rightarrow> settings \<Rightarrow> string dict" where
  "listener_files desired s = (case map_of (listener_secret desired) LISTENER_KEY of
      None \<Rightarrow> []
    | Some content \<Rightarrow> if content = [] then [] else [(listener_path s, content)])"

text \<open>The parse names the listener after its type: the file has no place for a name.\<close>

definition parse_listener ::
  "string dict \<Rightarrow> settings \<Rightarrow> (string \<times> unreadable) + (event_listener resources \<times> nat list)" where
  "parse_listener files s = (case map_of files (listener_path s) of
      None \<Rightarrow> Inr ([], [])
    | Some content \<Rightarrow> (case parse_file ''event-listener.name'' content of
        Inl e \<Rightarrow> Inl (listener_path s, e)
      | Inr (t, ps, lost) \<Rightarrow> Inr ([(t, \<lparr>el_type = t, el_properties = ps\<rparr>)], lost)))"

section \<open>The Section\<close>

definition listener_coordinator_files :: "settings \<Rightarrow> delivery list" where
  "listener_coordinator_files s =
     (if st_listener_from_deployment s
      then [Directory \<lparr>cd_secret = st_listener_secret s, cd_path = LISTENER_DIR, cd_probe_files = [],
              cd_probe_config = [(''event-listener.config-files'', LISTENER_PATH_IN_DIR)], cd_credentials = True\<rparr>]
      else [File \<lparr>cf_secret = st_listener_secret s, cf_volume = st_listener_volume s, cf_path = LISTENER_PATH,
              cf_probe_config = [], cf_credentials = True\<rparr>])"

definition listeners_check :: "settings \<Rightarrow> event_listener resources \<Rightarrow> validation_failure list" where
  "listeners_check s desired =
     (if st_listener_from_deployment s \<and> desired = []
      then [\<lparr>vf_section = Some EVENT_LISTENERS, vf_resource = None, vf_reason = CANNOT_EMPTY\<rparr>]
      else [])"

definition listeners_plan :: "event_listener resources \<Rightarrow> event_listener resources \<Rightarrow> named_plan" where
  "listeners_plan desired current = named_diff same_listener desired current"

definition listener_discover_paths :: "settings \<Rightarrow> string dict \<Rightarrow> discovered_paths" where
  "listener_discover_paths s properties =
     (let unnamed = at_files [(LISTENER_PATH_IN_DIR, LISTENER_PATH_IN_DIR)]
        (Some (''this Cluster is configured for the deployment to set event-listener.config-files, and no such ''
          @ ''property was found -- so this is where Apchi would put the file rather than where Trino reads it'')) in
      if \<not> st_listener_from_deployment s then at_files [(LISTENER_PATH, LISTENER_PATH)] None
      else case map_of properties ''event-listener.config-files'' of
        None \<Rightarrow> unnamed
      | Some named \<Rightarrow> if named = [] then unnamed else at_files [(LISTENER_PATH_IN_DIR, named)] None)"

section \<open>Properties\<close>

datatype listener_request =
    Create_listener string string "string dict"
  | Update_listener string "string option option" "string dict option option"
  | Delete_listener string

definition stage_listener :: "settings \<Rightarrow> listener_request \<Rightarrow> event_listener resources \<Rightarrow> event_listener resources" where
  "stage_listener s r stored = (case r of
      Create_listener n t ps \<Rightarrow> (case create_event_listener stored n t ps of Inl _ \<Rightarrow> stored | Inr st \<Rightarrow> st)
    | Update_listener n t ps \<Rightarrow> (case update_event_listener stored n t ps of Inl _ \<Rightarrow> stored | Inr st \<Rightarrow> st)
    | Delete_listener n \<Rightarrow> (case delete_event_listener stored n of Inl _ \<Rightarrow> stored
        | Inr st \<Rightarrow> (case refuse_if_emptying st s of Inl _ \<Rightarrow> stored | Inr _ \<Rightarrow> st)))"

lemma length_update: "has_key d k \<Longrightarrow> length (AList.update k v d) = length d"
  by (induction d) auto

lemma length_delete: "length (AList.delete k d) \<le> length d"
  by (simp add: AList.delete_eq)

lemma stage_listener_keeps:
  assumes "length stored \<le> MAX_LISTENERS"
  shows "length (stage_listener s r stored) \<le> MAX_LISTENERS"
    and "st_listener_from_deployment s \<Longrightarrow> stored \<noteq> [] \<Longrightarrow> stage_listener s r stored \<noteq> []"
proof -
  have ne: "AList.update k v d \<noteq> []" for k v and d :: "event_listener resources" by (cases d) auto
  show "length (stage_listener s r stored) \<le> MAX_LISTENERS"
  proof (cases r)
    case (Create_listener n t ps)
    then show ?thesis
      using assms by (cases stored) (auto simp: stage_listener_def create_event_listener_def MAX_LISTENERS_def update_fresh split: sum.split)
  next
    case (Update_listener n t ps)
    then show ?thesis
      using assms by (auto simp: stage_listener_def update_event_listener_def Let_def length_update
          split: sum.splits option.splits dest!: map_of_Some_has_key)
  next
    case (Delete_listener n)
    then show ?thesis
      using assms length_delete [of n stored]
      by (auto simp: stage_listener_def delete_event_listener_def split: sum.split)
  qed
  show "stage_listener s r stored \<noteq> []" if "st_listener_from_deployment s" "stored \<noteq> []"
    using that ne
    by (cases r) (auto simp: stage_listener_def create_event_listener_def update_event_listener_def
        refuse_if_emptying_def Let_def split: sum.splits option.splits if_splits)
qed

text \<open>There is at most one Event Listener, and where the deployment names the listener file a
  Section that has one never loses its last. Whatever sequence of requests is served, refused ones
  included, the number staged stays within the limit, and a non-empty Section stays non-empty in
  that mode.\<close>

theorem staged_listeners_bounded:
  "length (fold (stage_listener s) requests []) \<le> MAX_LISTENERS \<and>
   (\<forall>first. length first \<le> MAX_LISTENERS \<and> first \<noteq> [] \<and> st_listener_from_deployment s \<longrightarrow>
     fold (stage_listener s) requests first \<noteq> [])"
proof -
  have "length (fold (stage_listener s) requests st) \<le> MAX_LISTENERS
      \<and> (st_listener_from_deployment s \<and> st \<noteq> [] \<longrightarrow> fold (stage_listener s) requests st \<noteq> [])"
    if "length st \<le> MAX_LISTENERS" for st
    using that by (induction requests arbitrary: st) (auto simp: stage_listener_keeps)
  then show ?thesis by simp
qed

lemma staged_listeners_bounded_witness:
  "fold (stage_listener (demo_settings\<lparr>st_listener_from_deployment := True\<rparr>)) [Delete_listener ''a'']
     [(''a'', \<lparr>el_type = ''custom'', el_properties = []\<rparr>)] \<noteq> []"
  using staged_listeners_bounded [of "demo_settings\<lparr>st_listener_from_deployment := True\<rparr>" "[Delete_listener ''a'']"]
  by (simp add: MAX_LISTENERS_def)

text \<open>The listener file survives the round trip, up to the name. A clean listener's file parses
  back to one listener, named after its type, with the same type and properties and nothing lost.\<close>

theorem listener_roundtrip:
  assumes "clean_text (el_type l)" and "clean_properties ''event-listener.name'' (el_properties l)"
  shows "\<exists>ps. parse_listener (listener_files [(name, l)] s) s =
      Inr ([(el_type l, \<lparr>el_type = el_type l, el_properties = ps\<rparr>)], []) \<and> dict_eq ps (el_properties l)"
proof -
  have m: "marker_ok ''event-listener.name''"
    by (simp add: marker_ok_def clean_text_def one_line_def is_break_def strip_def is_space_def)
  have "render_listener l \<noteq> []" by (simp add: render_listener_def render_file_def)
  then have "listener_files [(name, l)] s = [(listener_path s, render_listener l)]"
    by (simp add: listener_files_def listener_secret_def sorted_keys_def sorted_set_def)
  then show ?thesis
    using parse_render [OF m assms]
    by (simp add: parse_listener_def render_listener_def dict_eq_iff map_of_sorted)
qed

lemma listener_roundtrip_witness:
  "\<exists>ps. parse_listener (listener_files [(''audit'', \<lparr>el_type = ''kafka'', el_properties = [(''b'', ''2''), (''a'', ''1'')]\<rparr>)] demo_settings) demo_settings =
      Inr ([(''kafka'', \<lparr>el_type = ''kafka'', el_properties = ps\<rparr>)], []) \<and> dict_eq ps [(''b'', ''2''), (''a'', ''1'')]"
proof -
  let ?l = "\<lparr>el_type = ''kafka'', el_properties = [(''b'', ''2''), (''a'', ''1'')]\<rparr>"
  have "clean_text (el_type ?l)" "clean_properties ''event-listener.name'' (el_properties ?l)" by code_simp+
  from listener_roundtrip [OF this, of "''audit''" demo_settings] show ?thesis by simp
qed

end
