(* ===== verification/Permissions.thy ===== *)
theory Permissions
  imports Section_Protocol Json_Text
begin

text \<open>
  The Permissions Section (\<open>app/sections/permissions\<close>): grants and the key that addresses each, the
  rules file generated from them, and the parse back into grants, preserved rules and posture.
  \<open>allowed_privileges\<close> is how Trino reads a tables block as the module documents it: the first rule
  whose every field matches decides, and what no rule matches is denied; whether a pattern that is
  no literal name matches is the parameter \<open>re\<close>.
\<close>

section \<open>Grants\<close>

datatype privilege = SELECT | INSERT | UPDATE | DELETE | OWNERSHIP | GRANT_SELECT

fun privilege_name :: "privilege \<Rightarrow> string" where
  "privilege_name SELECT = ''SELECT''"
| "privilege_name INSERT = ''INSERT''"
| "privilege_name UPDATE = ''UPDATE''"
| "privilege_name DELETE = ''DELETE''"
| "privilege_name OWNERSHIP = ''OWNERSHIP''"
| "privilege_name GRANT_SELECT = ''GRANT_SELECT''"

definition EVERY_PRIVILEGE :: "privilege list" where
  "EVERY_PRIVILEGE = [SELECT, INSERT, UPDATE, DELETE, OWNERSHIP, GRANT_SELECT]"

definition privilege_of :: "string \<Rightarrow> privilege option" where
  "privilege_of s = find (\<lambda>p. privilege_name p = s) EVERY_PRIVILEGE"

record grant =
  gr_identity :: string
  gr_catalog :: string
  gr_schema :: "string option"
  gr_table :: "string option"
  gr_privileges :: "privilege list"

definition name_ok :: "string \<Rightarrow> bool" where
  "name_ok s \<longleftrightarrow> s \<noteq> [] \<and> length s \<le> 256 \<and> CHR '':'' \<notin> set s"

definition optional_ok :: "string option \<Rightarrow> bool" where
  "optional_ok n = (case n of None \<Rightarrow> True | Some s \<Rightarrow> name_ok s)"

text \<open>What \<open>GrantWrite\<close> accepts.\<close>

definition grant_ok :: "grant \<Rightarrow> bool" where
  "grant_ok g \<longleftrightarrow> name_ok (gr_identity g) \<and> name_ok (gr_catalog g) \<and> optional_ok (gr_schema g)
     \<and> optional_ok (gr_table g) \<and> gr_privileges g \<noteq> [] \<and> (gr_table g \<noteq> None \<longrightarrow> gr_schema g \<noteq> None)"

definition ANY :: string where "ANY = ''*''"

definition or_any :: "string option \<Rightarrow> string" where
  "or_any n = (case n of None \<Rightarrow> ANY | Some s \<Rightarrow> if s = [] then ANY else s)"

definition key_of :: "grant \<Rightarrow> string" where
  "key_of g = join_with '':'' [gr_identity g, gr_catalog g, or_any (gr_schema g), or_any (gr_table g)]"

definition add_grant :: "grant resources \<Rightarrow> grant \<Rightarrow> exn + grant resources" where
  "add_grant stored write = (let key = key_of write in
     if has_key stored key then Inl (Raised Conflict key) else Inr (AList.update key write stored))"

definition set_privileges :: "grant resources \<Rightarrow> string \<Rightarrow> privilege list \<Rightarrow> exn + grant resources" where
  "set_privileges stored key privileges = (case map_of stored key of
      None \<Rightarrow> Inl (Raised NotFound key)
    | Some g \<Rightarrow> Inr (AList.update key (g\<lparr>gr_privileges := privileges\<rparr>) stored))"

definition delete_grant :: "grant resources \<Rightarrow> string \<Rightarrow> exn + grant resources" where
  "delete_grant stored key =
     (if \<not> has_key stored key then Inl (Raised NotFound key) else Inr (AList.delete key stored))"

section \<open>The rules file\<close>

definition RULES_KEY :: string where "RULES_KEY = ''rules.json''"
definition ACCESS_DIR :: string where "ACCESS_DIR = ''/etc/trino/access-control''"
definition ACCESS_PATH :: string where "ACCESS_PATH = ''/etc/trino/access-control/rules.json''"
definition PROPERTIES_PATH :: string where "PROPERTIES_PATH = ''/etc/trino/access-control.properties''"

definition PROBE_PROPERTIES :: string where
  "PROBE_PROPERTIES = ''access-control.name=file'' @ [newline] @ ''security.refresh-period=1s'' @ [newline]
     @ ''security.config-file=/etc/trino/access-control/rules.json'' @ [newline]"

definition privilege_list :: "privilege list \<Rightarrow> json" where
  "privilege_list ps = JList (map (JStr \<circ> privilege_name) ps)"

definition reserved_table_rule :: "string \<Rightarrow> string \<Rightarrow> json" where
  "reserved_table_rule trino_user verification_catalog = JObj [(''user'', JStr (anchored trino_user)),
     (''catalog'', JStr (anchored verification_catalog)), (''privileges'', privilege_list [SELECT])]"

definition query_rules :: "string \<Rightarrow> string list \<Rightarrow> json list" where
  "query_rules trino_user identities =
     [JObj [(''user'', JStr (anchored trino_user)), (''allow'', JList [JStr ''execute'', JStr ''view'', JStr ''kill''])]]
     @ map (\<lambda>i. JObj [(''user'', JStr (anchored i)), (''queryOwner'', JStr (anchored i)),
          (''allow'', JList [JStr ''view'', JStr ''kill''])]) (filter (\<lambda>i. i \<noteq> trino_user) identities)
     @ [JObj [(''allow'', JList [JStr ''execute''])]]"

definition procedure_rules :: "json list" where
  "procedure_rules = [JObj [(''catalog'', JStr ''^system$''), (''schema'', JStr ''^runtime$''),
     (''procedure'', JStr ''^kill_query$''), (''privileges'', JList [JStr ''EXECUTE''])]]"

definition name_field :: "string \<Rightarrow> string option \<Rightarrow> (string \<times> json) list" where
  "name_field key n = (case n of None \<Rightarrow> [] | Some s \<Rightarrow> [(key, JStr (anchored s))])"

definition grant_rule :: "grant \<Rightarrow> json" where
  "grant_rule g = JObj ([(''user'', JStr (anchored (gr_identity g))), (''catalog'', JStr (anchored (gr_catalog g)))]
     @ name_field ''schema'' (gr_schema g) @ name_field ''table'' (gr_table g)
     @ [(''privileges'', privilege_list (gr_privileges g))])"

definition catch_all :: json where
  "catch_all = JObj [(''privileges'', privilege_list EVERY_PRIVILEGE)]"

definition with_preserved_queries :: "json list \<Rightarrow> json list \<Rightarrow> json list" where
  "with_preserved_queries generated preserved_rules =
     (if preserved_rules = [] then generated else butlast generated @ preserved_rules @ [last generated])"

definition kept_rules :: "json list dict \<Rightarrow> string \<Rightarrow> json list" where
  "kept_rules kept block = (case map_of kept block of None \<Rightarrow> [] | Some rs \<Rightarrow> rs)"

text \<open>The staged grants, in the order of their keys, and the identities they name.\<close>

definition grants_in_order :: "grant resources \<Rightarrow> grant list" where
  "grants_in_order staged = concat (map (\<lambda>k. case map_of staged k of None \<Rightarrow> [] | Some g \<Rightarrow> [g]) (sorted_keys staged))"

definition identities :: "grant list \<Rightarrow> string list" where
  "identities gs = sorted_set (map gr_identity gs)"

definition catalogs_block :: "string \<Rightarrow> json list dict \<Rightarrow> json list" where
  "catalogs_block trino_user kept =
     [JObj [(''user'', JStr (anchored trino_user)), (''allow'', JStr ''owner'')]]
     @ kept_rules kept ''catalogs'' @ [JObj [(''allow'', JStr ''all'')]]"

definition tables_block ::
  "string \<Rightarrow> grant resources \<Rightarrow> string \<Rightarrow> bool \<Rightarrow> json list dict \<Rightarrow> json list" where
  "tables_block trino_user staged verification_catalog enforced kept =
     [reserved_table_rule trino_user verification_catalog]
     @ map grant_rule (grants_in_order staged) @ kept_rules kept ''tables''
     @ (if enforced then [] else [catch_all])"

definition OWN_BLOCKS :: "string list" where
  "OWN_BLOCKS = [''catalogs'', ''tables'', ''procedures'', ''queries'']"

definition rules_document ::
  "string \<Rightarrow> grant resources \<Rightarrow> string \<Rightarrow> bool \<Rightarrow> json list dict \<Rightarrow> json list dict" where
  "rules_document trino_user staged verification_catalog enforced kept =
     [(''catalogs'', catalogs_block trino_user kept),
      (''tables'', tables_block trino_user staged verification_catalog enforced kept),
      (''procedures'', procedure_rules @ kept_rules kept ''procedures''),
      (''queries'', with_preserved_queries
         (query_rules trino_user (identities (grants_in_order staged))) (kept_rules kept ''queries''))]
     @ map (\<lambda>b. (b, kept_rules kept b)) (filter (\<lambda>b. b \<notin> set OWN_BLOCKS) (sorted_keys kept))"

definition rules_json :: "json list dict \<Rightarrow> json" where
  "rules_json d = JObj (map (\<lambda>(b, rs). (b, JList rs)) d)"

definition render_rules ::
  "string \<Rightarrow> grant resources \<Rightarrow> string \<Rightarrow> bool \<Rightarrow> json list dict \<Rightarrow> string" where
  "render_rules trino_user staged verification_catalog enforced kept =
     dumps_line (rules_json (rules_document trino_user staged verification_catalog enforced kept))"

section \<open>Parsing\<close>

datatype rules_error = Not_JSON | Not_An_Object | Not_A_List string | Rule_Not_An_Object string nat

definition rules_in :: "json dict \<Rightarrow> string \<Rightarrow> rules_error + json list" where
  "rules_in document block = (case map_of document block of
      None \<Rightarrow> Inr []
    | Some (JList rules) \<Rightarrow> if list_all is_object rules then Inr rules else Inl (Rule_Not_An_Object block (length (takeWhile is_object rules)))
    | Some _ \<Rightarrow> Inl (Not_A_List block))"

definition literal_field :: "json dict \<Rightarrow> string \<Rightarrow> string option option" where
  "literal_field rule key = (case map_of rule key of
      None \<Rightarrow> Some None
    | Some (JStr p) \<Rightarrow> (case unanchor p of None \<Rightarrow> None | Some s \<Rightarrow> Some (Some s))
    | Some _ \<Rightarrow> None)"

fun json_strings :: "json \<Rightarrow> string list option" where
  "json_strings (JList js) = (if list_all (\<lambda>j. case j of JStr _ \<Rightarrow> True | _ \<Rightarrow> False) js
     then Some (map (\<lambda>j. case j of JStr s \<Rightarrow> s | _ \<Rightarrow> []) js) else None)"
| "json_strings _ = None"

definition GRANT_KEYS :: "string list" where
  "GRANT_KEYS = [''user'', ''catalog'', ''schema'', ''table'', ''privileges'']"

text \<open>\<open>_as_grant\<close>, and \<open>GrantWrite.model_validate\<close> of what it returns.\<close>

definition all_privileges :: "string list \<Rightarrow> privilege list option" where
  "all_privileges names = (if list_all (\<lambda>s. privilege_of s \<noteq> None) names
     then Some (map (\<lambda>s. the (privilege_of s)) names) else None)"

definition as_grant :: "json dict \<Rightarrow> grant option" where
  "as_grant rule =
     (if \<not> list_all (\<lambda>k. k \<in> set GRANT_KEYS) (dict_keys rule)
         \<or> \<not> list_all (has_key rule) [''user'', ''catalog'', ''privileges''] then None
      else case (literal_field rule ''user'', literal_field rule ''catalog'', literal_field rule ''schema'', literal_field rule ''table'') of
        (Some (Some u), Some (Some c), Some s, Some t) \<Rightarrow>
          (case map_of rule ''privileges'' of None \<Rightarrow> None | Some pj \<Rightarrow>
          (case json_strings pj of None \<Rightarrow> None | Some names \<Rightarrow>
          (case all_privileges names of None \<Rightarrow> None | Some ps \<Rightarrow>
            (let g = \<lparr>gr_identity = u, gr_catalog = c, gr_schema = s, gr_table = t, gr_privileges = ps\<rparr> in
             if grant_ok g then Some g else None))))
      | _ \<Rightarrow> None)"

type_synonym parsed_tables = "grant resources \<times> json list \<times> bool" \<comment> \<open>grants, preserved rules, enforced\<close>

definition parse_table_rule :: "json \<Rightarrow> json \<Rightarrow> parsed_tables \<Rightarrow> parsed_tables" where
  "parse_table_rule reserved rule = (\<lambda>(grants, preserved, enforced).
     if same_json rule reserved then (grants, preserved, enforced)
     else if same_json rule catch_all then (grants, preserved, False)
     else case as_grant (fields_of rule) of
       None \<Rightarrow> (grants, preserved @ [rule], enforced)
     | Some g \<Rightarrow> (AList.update (key_of g) g grants, preserved, enforced))"

definition owned_rules :: "string \<Rightarrow> grant resources \<Rightarrow> json list dict" where
  "owned_rules trino_user grants =
     [(''catalogs'', [JObj [(''user'', JStr (anchored trino_user)), (''allow'', JStr ''owner'')], JObj [(''allow'', JStr ''all'')]]),
      (''procedures'', procedure_rules),
      (''queries'', query_rules trino_user (identities (map snd grants)))]"

fun parse_blocks ::
  "json dict \<Rightarrow> json list dict \<Rightarrow> string list \<Rightarrow> json list dict \<Rightarrow> rules_error + json list dict" where
  "parse_blocks document owned [] preserved = Inr preserved"
| "parse_blocks document owned (b # bs) preserved = (case rules_in document b of
      Inl e \<Rightarrow> Inl e
    | Inr rules \<Rightarrow> (let kept = filter (\<lambda>r. \<not> list_ex (same_json r) (kept_rules owned b)) rules in
        parse_blocks document owned bs
          (if kept = [] then preserved else AList.update b kept preserved)))"

definition parse_rules ::
  "json option \<Rightarrow> string \<Rightarrow> string \<Rightarrow> rules_error + (grant resources \<times> json list dict \<times> bool)" where
  "parse_rules content trino_user verification_catalog = (case content of
      None \<Rightarrow> Inl Not_JSON
    | Some (JObj document) \<Rightarrow> (case rules_in document ''tables'' of
        Inl e \<Rightarrow> Inl e
      | Inr rules \<Rightarrow>
         (let (grants, kept, enforced) =
                fold (parse_table_rule (reserved_table_rule trino_user verification_catalog)) rules ([], [], True) in
          case parse_blocks document (owned_rules trino_user grants)
                 (filter (\<lambda>b. b \<noteq> ''tables'') (sorted_keys document))
                 (if kept = [] then [] else [(''tables'', kept)]) of
            Inl e \<Rightarrow> Inl e
          | Inr preserved \<Rightarrow> Inr (grants, preserved, enforced)))
    | Some _ \<Rightarrow> Inl Not_An_Object)"

section \<open>The Section\<close>

definition permissions_coordinator_files :: "settings \<Rightarrow> delivery list" where
  "permissions_coordinator_files s = [Directory \<lparr>cd_secret = st_access_control_secret s, cd_path = ACCESS_DIR,
     cd_probe_files = [(PROPERTIES_PATH, PROBE_PROPERTIES)], cd_probe_config = [], cd_credentials = False\<rparr>]"

definition permissions_files :: "grant resources \<Rightarrow> settings \<Rightarrow> admin_values \<Rightarrow> string dict" where
  "permissions_files desired s admin = [(ACCESS_PATH, render_rules (st_trino_user s) desired
     (st_verification_catalog s) (av_enforce_permissions admin) (av_preserved_access_control admin))]"

definition permissions_plan :: "grant resources \<Rightarrow> grant resources \<Rightarrow> named_plan" where
  "permissions_plan desired current = named_diff (=) desired current"

definition permissions_discover_paths :: "settings \<Rightarrow> string dict \<Rightarrow> discovered_paths" where
  "permissions_discover_paths s properties =
     (let unnamed = at_files [(ACCESS_PATH, ACCESS_PATH)]
        (Some (''no security.config-file property was found, so this Cluster may have no file-based access control ''
          @ ''at all -- this is where Apchi would put the rules'')) in
      case map_of properties ''security.config-file'' of
        None \<Rightarrow> unnamed
      | Some named \<Rightarrow> if named = [] then unnamed else at_files [(ACCESS_PATH, named)] None)"

section \<open>How Trino reads the tables block\<close>

definition pattern_matches :: "(string \<Rightarrow> string \<Rightarrow> bool) \<Rightarrow> string \<Rightarrow> string \<Rightarrow> bool" where
  "pattern_matches re p x = (case unanchor p of Some s \<Rightarrow> x = s | None \<Rightarrow> re p x)"

definition field_matches :: "(string \<Rightarrow> string \<Rightarrow> bool) \<Rightarrow> json dict \<Rightarrow> string \<Rightarrow> string \<Rightarrow> bool" where
  "field_matches re rule key x = (case map_of rule key of
      None \<Rightarrow> True | Some (JStr p) \<Rightarrow> pattern_matches re p x | Some _ \<Rightarrow> False)"

record place =
  pl_user :: string
  pl_catalog :: string
  pl_schema :: string
  pl_table :: string

definition rule_applies :: "(string \<Rightarrow> string \<Rightarrow> bool) \<Rightarrow> place \<Rightarrow> json \<Rightarrow> bool" where
  "rule_applies re p rule \<longleftrightarrow> field_matches re (fields_of rule) ''user'' (pl_user p)
     \<and> field_matches re (fields_of rule) ''catalog'' (pl_catalog p)
     \<and> field_matches re (fields_of rule) ''schema'' (pl_schema p)
     \<and> field_matches re (fields_of rule) ''table'' (pl_table p)"

definition rule_privileges :: "json \<Rightarrow> string list" where
  "rule_privileges rule = (case map_of (fields_of rule) ''privileges'' of
      None \<Rightarrow> [] | Some j \<Rightarrow> (case json_strings j of None \<Rightarrow> [] | Some ps \<Rightarrow> ps))"

definition allowed_privileges :: "(string \<Rightarrow> string \<Rightarrow> bool) \<Rightarrow> json list \<Rightarrow> place \<Rightarrow> string list" where
  "allowed_privileges re rules p = (case find (rule_applies re p) rules of
      None \<Rightarrow> [] | Some r \<Rightarrow> rule_privileges r)"

text \<open>What a grant covers, in the Operator's terms.\<close>

definition covers_place :: "grant \<Rightarrow> place \<Rightarrow> bool" where
  "covers_place g p \<longleftrightarrow> pl_user p = gr_identity g \<and> pl_catalog p = gr_catalog g
     \<and> (case gr_schema g of None \<Rightarrow> True | Some s \<Rightarrow> pl_schema p = s)
     \<and> (case gr_table g of None \<Rightarrow> True | Some t \<Rightarrow> pl_table p = t)"

end
