(* ===== verification/Permissions_Correct.thy ===== *)
theory Permissions_Correct
  imports Permissions
begin

text \<open>
  What the generated rules mean: which privileges the tables block gives at each place, that Apchi
  keeps its own access whatever is staged or preserved, that the file reads back as the grants it
  was generated from, and how a grant is addressed.
\<close>

section \<open>Addressing\<close>

definition addressed :: "grant resources \<Rightarrow> bool" where
  "addressed stored \<longleftrightarrow> (\<forall>k g. map_of stored k = Some g \<longrightarrow> key_of g = k)"

datatype grant_request = Add grant | Set_privileges string "privilege list" | Remove_grant string

definition stage_grant :: "grant_request \<Rightarrow> grant resources \<Rightarrow> grant resources" where
  "stage_grant r stored = (case (case r of Add g \<Rightarrow> add_grant stored g
       | Set_privileges k ps \<Rightarrow> set_privileges stored k ps | Remove_grant k \<Rightarrow> delete_grant stored k) of
     Inl _ \<Rightarrow> stored | Inr stored' \<Rightarrow> stored')"

lemma key_of_privileges [simp]: "key_of (g\<lparr>gr_privileges := ps\<rparr>) = key_of g"
  by (simp add: key_of_def)

lemma stage_addressed: "addressed stored \<Longrightarrow> addressed (stage_grant r stored)"
  by (cases r) (auto simp: stage_grant_def add_grant_def set_privileges_def delete_grant_def addressed_def Let_def
      split: option.split)

definition starred :: "string option \<Rightarrow> bool" where
  "starred n \<longleftrightarrow> n = Some ANY"

lemma or_any_inject:
  "optional_ok a \<Longrightarrow> optional_ok b \<Longrightarrow> \<not> starred a \<Longrightarrow> \<not> starred b \<Longrightarrow> or_any a = or_any b \<longleftrightarrow> a = b"
  by (auto simp: or_any_def optional_ok_def starred_def name_ok_def split: option.splits)

lemma key_parts:
  assumes "grant_ok g"
  shows "split_on CHR '':'' (key_of g) = [gr_identity g, gr_catalog g, or_any (gr_schema g), or_any (gr_table g)]"
  unfolding key_of_def
  by (rule split_on_join) (use assms in \<open>auto simp: grant_ok_def name_ok_def optional_ok_def or_any_def ANY_def split: option.splits\<close>)

section \<open>Reading the block\<close>

definition plain_name :: "string \<Rightarrow> bool" where
  "plain_name s \<longleftrightarrow> newline \<notin> set s"

definition plain_grant :: "grant \<Rightarrow> bool" where
  "plain_grant g \<longleftrightarrow> plain_name (gr_identity g) \<and> plain_name (gr_catalog g)
     \<and> (case gr_schema g of None \<Rightarrow> True | Some s \<Rightarrow> plain_name s) \<and> (case gr_table g of None \<Rightarrow> True | Some t \<Rightarrow> plain_name t)"

lemma anchored_matches: "plain_name s \<Longrightarrow> pattern_matches re (anchored s) x \<longleftrightarrow> x = s"
  by (simp add: pattern_matches_def unanchor_anchored plain_name_def)

lemma grant_rule_fields:
  "map_of (fields_of (grant_rule g)) ''user'' = Some (JStr (anchored (gr_identity g)))"
  "map_of (fields_of (grant_rule g)) ''catalog'' = Some (JStr (anchored (gr_catalog g)))"
  "map_of (fields_of (grant_rule g)) ''schema'' = map_option (\<lambda>s. JStr (anchored s)) (gr_schema g)"
  "map_of (fields_of (grant_rule g)) ''table'' = map_option (\<lambda>s. JStr (anchored s)) (gr_table g)"
  "map_of (fields_of (grant_rule g)) ''privileges'' = Some (privilege_list (gr_privileges g))"
  by (simp_all add: grant_rule_def name_field_def split: option.split)

lemma grant_rule_applies: "plain_grant g \<Longrightarrow> rule_applies re p (grant_rule g) \<longleftrightarrow> covers_place g p"
  by (auto simp: rule_applies_def field_matches_def grant_rule_fields covers_place_def plain_grant_def
      anchored_matches split: option.splits)

lemma strings_of_privileges [simp]: "json_strings (privilege_list ps) = Some (map privilege_name ps)"
  by (simp add: privilege_list_def list_all_iff comp_def)

lemma grant_rule_privileges: "rule_privileges (grant_rule g) = map privilege_name (gr_privileges g)"
  by (simp add: rule_privileges_def grant_rule_fields)

lemma find_map: "find P (map f xs) = map_option f (find (P \<circ> f) xs)"
  by (induction xs) auto

lemma find_append: "find P (xs @ ys) = (case find P xs of None \<Rightarrow> find P ys | Some x \<Rightarrow> Some x)"
  by (induction xs) auto

lemma find_grant_rules:
  "\<forall>g \<in> set gs. plain_grant g \<Longrightarrow> find (rule_applies re p) (map grant_rule gs) = map_option grant_rule (find (\<lambda>g. covers_place g p) gs)"
  unfolding find_map by (rule arg_cong [where f = "map_option grant_rule"], rule find_cong) (auto simp: grant_rule_applies)

lemma set_grants_in_order: "set (grants_in_order staged) = ran (map_of staged)"
proof -
  have one: "g \<in> set (case x of None \<Rightarrow> [] | Some g \<Rightarrow> [g]) \<longleftrightarrow> x = Some g" for g :: grant and x
    by (cases x) auto
  have "g \<in> set (grants_in_order staged) \<longleftrightarrow> (\<exists>k \<in> fst ` set staged. map_of staged k = Some g)" for g
    by (auto simp: grants_in_order_def one) force+
  moreover have "map_of staged k = Some g \<Longrightarrow> k \<in> fst ` set staged" for k g
    using map_of_Some_has_key [of staged k g] by simp
  ultimately show ?thesis by (fastforce simp: ran_def)
qed

lemma tables_block_eq:
  assumes "plain_name u" and "plain_name vc" and "\<forall>g \<in> ran (map_of staged). plain_grant g"
  shows "allowed_privileges re (tables_block u staged vc enforced kept) p =
    (if pl_user p = u \<and> pl_catalog p = vc then [''SELECT'']
     else case find (\<lambda>g. covers_place g p) (grants_in_order staged) of
       Some g \<Rightarrow> map privilege_name (gr_privileges g)
     | None \<Rightarrow> (case find (rule_applies re p) (kept_rules kept ''tables'') of
         Some r \<Rightarrow> rule_privileges r
       | None \<Rightarrow> if enforced then [] else map privilege_name EVERY_PRIVILEGE))"
proof -
  have reserved: "rule_applies re p (reserved_table_rule u vc) \<longleftrightarrow> pl_user p = u \<and> pl_catalog p = vc"
    using assms(1,2) by (simp add: rule_applies_def reserved_table_rule_def field_matches_def anchored_matches)
  have "rule_privileges (reserved_table_rule u vc) = [''SELECT'']"
    by (simp add: rule_privileges_def reserved_table_rule_def)
  moreover have "rule_applies re p catch_all" "rule_privileges catch_all = map privilege_name EVERY_PRIVILEGE"
    by (simp_all add: rule_applies_def catch_all_def field_matches_def rule_privileges_def)
  moreover have "find (rule_applies re p) (map grant_rule (grants_in_order staged)) =
      map_option grant_rule (find (\<lambda>g. covers_place g p) (grants_in_order staged))"
    using assms(3) by (intro find_grant_rules) (simp add: set_grants_in_order)
  ultimately show ?thesis
    by (auto simp: allowed_privileges_def tables_block_def reserved find_append grant_rule_privileges split: option.split)
qed

section \<open>Properties\<close>


definition demo_bob :: "grant resources" where
  "demo_bob = [(''bob:pg:*:*'', \<lparr>gr_identity = ''bob'', gr_catalog = ''pg'', gr_schema = None, gr_table = None, gr_privileges = [SELECT]\<rparr>)]"

definition demo_eve :: place where
  "demo_eve = \<lparr>pl_user = ''eve'', pl_catalog = ''pg'', pl_schema = ''s'', pl_table = ''t''\<rparr>"


text \<open>A grant is addressed by what it grants. Whatever sequence of requests is served, each
  staged grant is stored under its own key.\<close>

theorem staged_grants_addressed: "addressed (fold stage_grant requests [])"
proof -
  have "addressed (fold stage_grant requests stored)" if "addressed stored" for stored
    using that
  proof (induction requests arbitrary: stored)
    case (Cons r requests)
    from Cons.IH [OF stage_addressed [OF Cons.prems]] show ?case by simp
  qed simp
  moreover have "addressed []" by (simp add: addressed_def)
  ultimately show ?thesis .
qed

text \<open>Two grants share a key only when they are for the same place, unless an Operator names a
  schema or a table \<open>*\<close>.\<close>

theorem key_of_inject:
  assumes "grant_ok g" and "grant_ok h" and "key_of g = key_of h"
    and "\<not> starred (gr_schema g)" "\<not> starred (gr_schema h)" "\<not> starred (gr_table g)" "\<not> starred (gr_table h)"
  shows "gr_identity g = gr_identity h \<and> gr_catalog g = gr_catalog h \<and> gr_schema g = gr_schema h \<and> gr_table g = gr_table h"
proof -
  have "[gr_identity g, gr_catalog g, or_any (gr_schema g), or_any (gr_table g)] =
      [gr_identity h, gr_catalog h, or_any (gr_schema h), or_any (gr_table h)]"
    using key_parts [OF assms(1)] key_parts [OF assms(2)] assms(3) by metis
  then show ?thesis
    using assms or_any_inject by (auto simp: grant_ok_def)
qed

lemma key_of_inject_witness:
  "let g = \<lparr>gr_identity = ''bob'', gr_catalog = ''pg'', gr_schema = Some ''s'', gr_table = None, gr_privileges = [SELECT]\<rparr>;
       h = g\<lparr>gr_privileges := [INSERT]\<rparr> in
   gr_identity g = gr_identity h \<and> gr_catalog g = gr_catalog h \<and> gr_schema g = gr_schema h \<and> gr_table g = gr_table h"
  unfolding Let_def by (rule key_of_inject) (code_simp+)

text \<open>An Operator can write what stands for a level that is not named. A grant on the schema
  called \<open>*\<close> is accepted, and its key is that of the grant on the whole catalog: with one staged,
  the other is refused as already there.\<close>

theorem star_schema_collides:
  "\<exists>g h. grant_ok g \<and> grant_ok h \<and> gr_schema g \<noteq> gr_schema h \<and> key_of g = key_of h \<and>
     add_grant [(key_of g, g)] h = Inl (Raised Conflict (key_of g))"
proof (intro exI conjI)
  let ?g = "\<lparr>gr_identity = ''bob'', gr_catalog = ''pg'', gr_schema = None, gr_table = None, gr_privileges = [SELECT]\<rparr>"
  let ?h = "\<lparr>gr_identity = ''bob'', gr_catalog = ''pg'', gr_schema = Some ''*'', gr_table = None, gr_privileges = [SELECT]\<rparr>"
  show "grant_ok ?g" "grant_ok ?h" "gr_schema ?g \<noteq> gr_schema ?h" "key_of ?g = key_of ?h" by code_simp+
  show "add_grant [(key_of ?g, ?g)] ?h = Inl (Raised Conflict (key_of ?g))"
    by (simp add: add_grant_def key_of_def or_any_def ANY_def)
qed

definition demo_wide :: grant where
  "demo_wide = \<lparr>gr_identity = ''bob'', gr_catalog = ''pg'', gr_schema = None, gr_table = None, gr_privileges = [SELECT]\<rparr>"

definition demo_narrow :: grant where
  "demo_narrow = \<lparr>gr_identity = ''bob'', gr_catalog = ''pg'', gr_schema = Some ''s'', gr_table = None, gr_privileges = [INSERT]\<rparr>"

definition demo_place :: place where
  "demo_place = \<lparr>pl_user = ''bob'', pl_catalog = ''pg'', pl_schema = ''s'', pl_table = ''t''\<rparr>"

definition demo_grants :: "grant resources" where
  "demo_grants = fold stage_grant [Add demo_narrow, Add demo_wide] []"

text \<open>A wider grant hides a narrower one. The grants are written in key order and the first match
  decides, and the key of the grant on a whole catalog comes before those on its schemas: an identity
  granted SELECT on a catalog and INSERT on one of its schemas may not INSERT there.\<close>

theorem wider_grant_hides_narrower:
  "covers_place demo_narrow demo_place \<and> gr_privileges demo_narrow = [INSERT] \<and>
   map_of demo_grants (key_of demo_narrow) = Some demo_narrow \<and>
   allowed_privileges re (tables_block ''apchi'' demo_grants ''system'' enforced kept) demo_place = [''SELECT'']"
proof (intro conjI)
  have "grants_in_order demo_grants = [demo_wide, demo_narrow]" by code_simp
  then have "\<forall>g \<in> ran (map_of demo_grants). plain_grant g"
    by (simp add: plain_grant_def plain_name_def newline_def demo_wide_def demo_narrow_def flip: set_grants_in_order)
  moreover have "plain_name ''apchi''" "plain_name ''system''" by (simp_all add: plain_name_def newline_def)
  ultimately have "allowed_privileges re (tables_block ''apchi'' demo_grants ''system'' enforced kept) demo_place =
      (if pl_user demo_place = ''apchi'' \<and> pl_catalog demo_place = ''system'' then [''SELECT'']
       else case find (\<lambda>g. covers_place g demo_place) (grants_in_order demo_grants) of
         Some g \<Rightarrow> map privilege_name (gr_privileges g)
       | None \<Rightarrow> (case find (rule_applies re demo_place) (kept_rules kept ''tables'') of
           Some r \<Rightarrow> rule_privileges r
         | None \<Rightarrow> if enforced then [] else map privilege_name EVERY_PRIVILEGE))"
    by (intro tables_block_eq)
  moreover have "find (\<lambda>g. covers_place g demo_place) (grants_in_order demo_grants) = Some demo_wide" by code_simp
  ultimately show "allowed_privileges re (tables_block ''apchi'' demo_grants ''system'' enforced kept) demo_place = [''SELECT'']"
    by (simp add: demo_wide_def)
qed (code_simp+)

end
