(* ===== verification/Store_Guarantees.thy ===== *)
theory Store_Guarantees
  imports Gates Keeps Cluster_Ops Recovery_Correct Property_Schema
begin

text \<open>
  What the stores and the Cluster-wide operations promise, as properties: numbering and paging,
  the audit of a change, the Candidate's reset, the Admin values' pre-image, the high-water
  mark, delivery of files, and the ends of the polling loops.
\<close>

section \<open>Snapshots and pages\<close>

text \<open>Committing on a healthy MongoDB appends exactly one Snapshot: it is numbered one past the
  last, it holds the configuration committed and the Apply that committed it, it becomes the
  latest, and the numbering of the collection stays 1, 2, 3 and so on.\<close>

theorem commit_appends_next:
  fixes w :: "('r, 'e) world"
  assumes "w_mongo w = []" and "numbered (w_snapshots w)"
  shows "wp (commit_snapshot_io ss i) (\<lambda>s w'. w_snapshots w' = w_snapshots w @ [s]
      \<and> sn_number s = int (length (w_snapshots w)) + 1 \<and> sn_sections s = ss \<and> sn_apply_id s = i
      \<and> latest (w_snapshots w') = Some s \<and> numbered (w_snapshots w')) (\<lambda>_ _. False) w"
proof -
  have "wp now_io (\<lambda>now w'. w_mongo w' = [] \<and> w_snapshots w' = w_snapshots w) (\<lambda>_ _. False) w"
    using assms(1) by (auto intro!: now_io_booked dest: bookedD outside_fields(2))
  then show ?thesis
    unfolding commit_snapshot_io_def latest_io_def wp_bind wp_mongo_healthy [OF assms(1)] wp_asks Let_def
    using insert_next [OF assms(2)] latest_snoc [OF assms(2)] next_number_numbered [OF assms(2)]
    by (elim wp_mono) (auto simp: build_snapshot_def next_number_def)
qed

theorem commit_appends_next_witness:
  "let w = (new_install () :: (nat, unit) world) in
   wp (commit_snapshot_io [] ''apl_1'') (\<lambda>s w'. w_snapshots w' = w_snapshots w @ [s]
      \<and> sn_number s = int (length (w_snapshots w)) + 1 \<and> sn_sections s = [] \<and> sn_apply_id s = ''apl_1''
      \<and> latest (w_snapshots w') = Some s \<and> numbered (w_snapshots w')) (\<lambda>_ _. False) w"
  unfolding Let_def by (rule commit_appends_next) (simp_all add: new_install_def numbered_def)

text \<open>A client that follows the cursors of the audit history from the first page reads every
  event its filters match exactly once, newest first, whatever page size it asked for, and comes to
  the end within one page per event and one more.\<close>

theorem audit_pages_list_all:
  assumes "unique_events db"
  shows "walk (\<lambda>b. page_audit category who since until limit b db) (Suc (length db)) None
      = Some (rev (sort_key audit_key (filter (audit_matches category who since until) db)))
    \<and> length (fst (page_audit category who since until limit before db)) \<le> 500"
proof -
  let ?rows = "filter (audit_matches category who since until) db"
  have u: "unique_events ?rows" using assms by (simp add: unique_events_def distinct_map_filter)
  have "walk (\<lambda>b. page_of audit_key limit b ?rows) (Suc (length db)) None = Some (rev (sort_key audit_key ?rows))"
    by (rule audit_pages.walk_rest [OF u, where xs = "[]"]) (simp_all add: le_imp_less_Suc)
  then show ?thesis
    using audit_pages.page_size [of limit before ?rows] by (simp add: page_audit_def MAX_LIMIT_def)
qed

theorem audit_pages_list_all_witness:
  "let db = [event_of SYSTEM_ACTOR ''a'' 5 None (mk_entry ADMIN_CATEGORY Engaged None),
     event_of SYSTEM_ACTOR ''b'' 5 None (mk_entry ADMIN_CATEGORY Released None)] in
   walk (\<lambda>b. page_audit None None None None 1 b db) (Suc (length db)) None
      = Some (rev (sort_key audit_key (filter (audit_matches None None None None) db)))
    \<and> length (fst (page_audit None None None None 1 None db)) \<le> 500"
  unfolding Let_def by (rule audit_pages_list_all) (simp add: unique_events_def event_of_def)

text \<open>The Apply list has one page: an Apply's start is stored as text and a cursor asks for dates
  before it, which match nothing, so a client that follows the cursors reads the newest page and
  none of the Applies beyond it.\<close>

theorem apply_pages_stop:
  "page_applies limit (Some k) db = ([], None)
    \<and> walk (\<lambda>b. page_applies limit b db) (Suc (Suc fuel)) None
      = Some (take (nat (bounded limit)) (rev (sort_key apply_key db)))"
  by (simp add: page_applies_def page_of_texts_rest walk_texts del: walk.simps)

section \<open>The audit of a change\<close>


text \<open>Of the Admin values, a save is audited key by key, an event for exactly the keys whose
  value moved, and no value reaches the trail but the direction of a policy flag.\<close>

theorem admin_audit_exact:
  "((\<exists>en \<in> set (admin_entries (dump_admin u) (dump_admin v)). en_resource en = Some k) \<longleftrightarrow>
     map_option canon (map_of (dump_admin u) k) \<noteq> map_option canon (map_of (dump_admin v) k))
   \<and> list_all (\<lambda>en. en_detail en = None \<or> en_resource en = Some ''enforce_permissions''
       \<and> en_detail en = Some (''enforce_permissions set to ''
            @ (if av_enforce_permissions v then ''true'' else ''false'')))
       (admin_entries (dump_admin u) (dump_admin v))"
  using admin_entries_moved [of u v k] admin_entries_detail [of _ "dump_admin u" v]
  by (simp add: list_all_iff)

section \<open>The Candidate\<close>

lemma changes_between_same: "changes_between ss ss = []"
proof -
  have "c \<notin> set (changes_between ss ss)" for c
    unfolding in_changes_between by (auto simp: moved_def split: option.splits)
  then show ?thesis by (cases "changes_between ss ss") auto
qed

lemma wp_candidate_record:
  fixes w :: "('r, 'e) world"
  assumes "w_mongo w = []"
    and "\<And>w'. w_candidate w' = w_candidate w \<Longrightarrow> w_snapshots w' = w_snapshots w \<Longrightarrow> Q () w'"
  shows "wp (candidate_record s before later (Some c) (Some a) d) Q E w"
  unfolding candidate_record_def actor_io_def
  by (simp, rule wp_audit_record [OF assms(1)]) (auto dest!: bookedD(3) intro!: assms(2) dest: outside_fields)

lemma wp_candidate_save:
  fixes w :: "('r, 'e) world"
  assumes w: "w_mongo w = []"
    and big: "\<And>m w'. w_candidate w' = w_candidate w \<Longrightarrow> E (Raised CandidateTooLarge m) w'"
    and Q: "\<And>now w'. w_candidate w' = Some (c\<lparr>ca_updated_at := Some now\<rparr>) \<Longrightarrow>
      w_snapshots w' = w_snapshots w \<Longrightarrow> Q (c\<lparr>ca_updated_at := Some now\<rparr>) w'"
  shows "wp (candidate_save s b c (Some cat) (Some a) d) Q E w"
  unfolding candidate_save_def wp_bind Let_def wp_then
proof (rule now_io_booked [OF w])
  fix now and w1 :: "('r, 'e) world" assume b: "booked w (w_applies w) w1"
  note same = outside_fields [OF bookedD(3) [OF b]]
  let ?c = "c\<lparr>ca_updated_at := Some now\<rparr>"
  have stored: "wp (candidate_record s before (ca_sections ?c) (Some cat) (Some a) d) (\<lambda>_. wp (ret ?c) Q E) E
      (w1\<lparr>w_candidate := Some ?c\<rparr>)" for before
    by (rule wp_candidate_record) (auto simp: bookedD [OF b] same intro!: Q)
  show "wp (refuse_if_too_large b (st_candidate_max_bytes s) ?c)
      (\<lambda>_. wp (mongo (\<lambda>w. (Inr (w_candidate w), w\<lparr>w_candidate := Some ?c\<rparr>)))
        (\<lambda>previous. wp (candidate_record s (sections_of_document previous) (ca_sections ?c) (Some cat) (Some a) d)
          (\<lambda>_. wp (ret ?c) Q E) E) E) E w1"
    using stored big same(3) unfolding refuse_if_too_large_def
    by (simp add: bookedD [OF b]) (simp add: wp_def)
qed

text \<open>Resetting the Candidate on a healthy MongoDB either refuses it as too large, with the
  stored Candidate untouched, or stores exactly the configuration of the Snapshot it was reset
  to: the difference between the two is empty, in every Section.\<close>

theorem reset_empties_the_difference:
  fixes w :: "('r, 'e) world"
  assumes "w_mongo w = []"
  shows "wp (candidate_reset s b (Some n))
    (\<lambda>c w'. w_candidate w' = Some c \<and> ca_base c = Some n \<and> w_snapshots w' = w_snapshots w
       \<and> changes_between (sections_of (Some n) (w_snapshots w)) (ca_sections c) = [])
    (\<lambda>e w'. w_candidate w' = w_candidate w \<and> (\<exists>m. e = Raised CandidateTooLarge m)) w"
proof -
  have "wp (sections_of_io (Some n)) (\<lambda>ss w'. w' = w \<and> ss = sections_of (Some n) (w_snapshots w)) E w" for E
    using assms by (auto simp: sections_of_io_def get_snapshot_io_def sections_of_def split: option.split)
  then show ?thesis
    unfolding candidate_reset_def wp_bind option.case
    by (rule wp_mono) (auto intro!: wp_candidate_save simp: assms changes_between_same)
qed

theorem reset_empties_the_difference_witness:
  "let w = (new_install ())\<lparr>w_snapshots := [\<lparr>sn_number = 1, sn_sections = [(CATALOGS, [(''pg'', 7 :: nat)])],
       sn_created_at = 0, sn_apply_id = ''apl_1''\<rparr>]\<rparr>;
     b = \<lparr>encoded_size = (\<lambda>c. length (ca_sections c)), section_size = length\<rparr> in
   wp (candidate_reset demo_settings b (Some 1))
    (\<lambda>c w'. w_candidate w' = Some c \<and> ca_base c = Some 1 \<and> w_snapshots w' = w_snapshots w
       \<and> changes_between (sections_of (Some 1) (w_snapshots w)) (ca_sections c) = [])
    (\<lambda>e w'. w_candidate w' = w_candidate w \<and> (\<exists>m. e = Raised CandidateTooLarge m)) w"
  unfolding Let_def by (rule reset_empties_the_difference) (simp add: new_install_def)

section \<open>The Admin values\<close>

lemma wp_pair [simp]: "wp (\<lambda>w. (Inr (f w), g w)) Q E w = Q (f w) (g w)"
  by (simp add: wp_def)

text \<open>Putting the Admin values back is repeatable: on a healthy MongoDB the document becomes
  the pre-image kept by the last save, the pre-image stays, and a second restore returns and
  stores the same values, so a rollback repeated after a restart ends in the same place.\<close>

theorem restore_previous_repeatable:
  fixes w :: "('r, 'e) world"
  assumes "w_mongo w = []"
  shows "restore_previous w = (Inr (admin_document (w_admin_previous w)),
       w\<lparr>w_admin := Some (admin_document (w_admin_previous w))\<rparr>)
    \<and> restore_previous (snd (restore_previous w)) = restore_previous w"
proof -
  have one: "restore_previous v = (Inr (admin_document (w_admin_previous v)),
      v\<lparr>w_admin := Some (admin_document (w_admin_previous v))\<rparr>)" if "w_mongo v = []" for v :: "('r, 'e) world"
    by (rule wp_returns) (use that in \<open>simp add: admin_defs\<close>)
  show ?thesis
    unfolding one [OF assms] snd_conv
    by (subst one) (simp_all add: assms)
qed

theorem restore_previous_repeatable_witness:
  "let w = (new_install () :: (nat, unit) world) in
   restore_previous w = (Inr (admin_document (w_admin_previous w)),
       w\<lparr>w_admin := Some (admin_document (w_admin_previous w))\<rparr>)
    \<and> restore_previous (snd (restore_previous w)) = restore_previous w"
  unfolding Let_def by (rule restore_previous_repeatable) (simp add: new_install_def)

text \<open>Saving Admin values on a healthy MongoDB stores them and keeps what they replaced as
  the pre-image, so the restore that follows brings the former values back.\<close>

theorem save_then_restore:
  fixes w :: "('r, 'e) world"
  assumes "w_mongo w = []"
  shows "wp (then_io (admin_save s v) restore_previous)
    (\<lambda>r w'. r = admin_document (w_admin w) \<and> w_admin w' = Some (admin_document (w_admin w)))
    (\<lambda>_ _. False) w"
proof -
  have each: "wp (audit_record_each s who None ens) (\<lambda>_ w'. w_mongo w' = [] \<and>
      w_admin w' = w_admin u \<and> w_admin_previous w' = w_admin_previous u) E u"
    if "w_mongo u = []" for who ens E and u :: "('r, 'e) world"
  proof -
    have "wp (collect_io (\<lambda>_. uuid_hex) xs) (\<lambda>_ w'. booked u1 (w_applies u1) w') E u1"
      if "w_mongo u1 = []" for xs and u1 :: "('r, 'e) world"
      using that
    proof (induction xs arbitrary: u1)
      case Nil then show ?case by (simp add: booked_def)
    next
      case (Cons x xs)
      show ?case
        by (auto intro!: uuid_booked [OF Cons.prems] wp_mono [OF Cons.IH] simp: booked_def)
    qed
    note ids = this
    show ?thesis
      unfolding audit_record_each_def
      using that outside_fields
      by (auto intro!: now_io_booked [OF that] wp_indexed_once wp_mono [OF ids] simp: bookedD)
        (auto dest!: bookedD)
  qed
  show ?thesis
    using assms unfolding admin_defs
    by (auto simp: actor_io_def Let_def intro!: wp_mono [OF each])
qed

theorem save_then_restore_witness:
  "let w = (new_install () :: (nat, unit) world) in
   wp (then_io (admin_save demo_settings (default_admin\<lparr>av_enforce_permissions := True\<rparr>)) restore_previous)
    (\<lambda>r w'. r = admin_document (w_admin w) \<and> w_admin w' = Some (admin_document (w_admin w)))
    (\<lambda>_ _. False) w"
  unfolding Let_def by (rule save_then_restore) (simp add: new_install_def)

section \<open>The high-water mark\<close>

text \<open>Recording a Snapshot's number never lowers the mark, and afterwards the mark is at least
  that number: what is read back from the ConfigMap is the larger of the two.\<close>

theorem mark_only_rises:
  fixes w :: "('r, 'e) world"
  assumes "w_kube w = []"
  shows "wp (mark_record s n) (\<lambda>_ w'. mark_of s w' = Some (case mark_of s w of None \<Rightarrow> n | Some k \<Rightarrow> max k n))
    (\<lambda>_ _. False) w"
proof -
  have read: "wp (mark_read s) Q E w = Q (mark_of s w) w" for Q E
    using assms by (simp add: mark_read_def mark_of_def read_config_map_def or_absent_def kube_def split: option.split)
  have put: "wp (write_config_map (st_high_water s) [(HIGHEST_KEY, show_nat n)])
      (\<lambda>_ w'. mark_of s w' = Some n) (\<lambda>_ _. False) w"
  proof (cases "map_of (w_config_maps w) (st_high_water s)")
    case None
    then have "\<not> has_key (w_config_maps w) (st_high_water s)" by (simp add: map_of_None_iff)
    with None assms show ?thesis
      by (auto simp: write_config_map_def kube_def mark_of_def kube_404_def)
  next
    case (Some d)
    with assms show ?thesis by (simp add: write_config_map_def kube_def mark_of_def merge_patch_def)
  qed
  show ?thesis
    unfolding mark_record_def wp_bind read
    by (auto intro!: wp_mono [OF put] simp: max_def split: option.split)
qed

theorem mark_only_rises_witness:
  "let w = (new_install () :: (nat, unit) world)\<lparr>w_config_maps := [(''apchi-high-water'', [(''highest_snapshot'', ''41'')])]\<rparr> in
   wp (mark_record demo_settings 7) (\<lambda>_ w'. mark_of demo_settings w' =
     Some (case mark_of demo_settings w of None \<Rightarrow> 7 | Some k \<Rightarrow> max k 7)) (\<lambda>_ _. False) w"
  unfolding Let_def by (rule mark_only_rises) (simp add: new_install_def)

section \<open>The Secrets of the Cluster\<close>

text \<open>Writing a Secret replaces its contents: whatever it held before, and whether or not it
  existed, afterwards its keys and values are exactly the ones given, and nothing else on the
  Cluster or in MongoDB moves.\<close>

theorem write_secret_replaces:
  fixes w :: "('r, 'e) world"
  assumes "w_kube w = []" and "wf_dict data"
  shows "wp (write_secret name data) (\<lambda>_ w'. sealed w' = sealed w
      \<and> (\<exists>d. w_secrets w' = AList.update name d (w_secrets w) \<and> map_of d = map_of data)) (\<lambda>_ _. False) w"
  by (rule write_secret_exact [OF assms]) auto

theorem write_secret_replaces_witness:
  "let w = (new_install () :: (nat, unit) world)\<lparr>w_secrets := [(''s'', [(''old'', ''1''), (''kept'', ''2'')])]\<rparr> in
   wp (write_secret ''s'' [(''kept'', ''3'')]) (\<lambda>_ w'. sealed w' = sealed w
      \<and> (\<exists>d. w_secrets w' = AList.update ''s'' d (w_secrets w) \<and> map_of d = map_of [(''kept'', ''3'')])) (\<lambda>_ _. False) w"
  unfolding Let_def by (rule write_secret_replaces) (simp_all add: new_install_def wf_dict_def)

section \<open>Polling ends\<close>

lemma now_clock: "wp now_io (\<lambda>n w'. n = w_clock w' \<and> w_clock w \<le> w_clock w') (\<lambda>_ _. False) w"
  by (auto simp: wp_def now_io_def Let_def split: list.split)

lemma keeps_clock_kube: "within (keeps w_clock) m \<Longrightarrow> within (keeps w_clock) (kube m)"
  by (auto simp: within_def keeps_def kube_def external_def split: list.split fault.split)

lemma reading_clock: "within (keeps w_clock) rollout_state_io" "within (keeps w_clock) is_starting"
  unfolding rollout_state_io_def is_starting_def
  by (auto intro!: keeps_clock_kube) (auto simp: within_def keeps_def next_reading_def split: list.split)

lemma await_rollout_ends:
  fixes w :: "('r, 'e) world"
  shows "0 < fuel \<Longrightarrow> deadline < w_clock w + fuel \<Longrightarrow>
    wp (await_rollout fuel deadline st) (\<lambda>r _. r = Some ()) (\<lambda>_ _. True) w"
proof (induction fuel arbitrary: st w)
  case (Suc fuel)
  have poll: "wp (bind_io rollout_state_io (await_rollout fuel deadline)) (\<lambda>r _. r = Some ()) (\<lambda>_ _. True) v"
    if "0 < fuel" "deadline < w_clock v + fuel" for v :: "('r, 'e) world"
    using that unfolding wp_bind
    by (intro wp_within [OF reading_clock(1)]) (auto simp: keeps_def intro: Suc.IH)
  show ?case
    using Suc.prems
    by (auto simp del: wp_bind simp: wp_bind [of now_io] sleep_def ROLLOUT_POLL_SECONDS_def
        intro!: wp_mono [OF now_clock] poll)
qed simp

lemma await_response_ends:
  fixes w :: "('r, 'e) world"
  shows "0 < fuel \<Longrightarrow> deadline < w_clock w + fuel \<Longrightarrow>
    wp (await_response fuel deadline) (\<lambda>r _. r = Some ()) (\<lambda>_ _. True) w"
proof (induction fuel arbitrary: w)
  case (Suc fuel)
  show ?case
    unfolding await_response.simps wp_bind
  proof (rule wp_within [OF reading_clock(2)])
    fix starting and v :: "('r, 'e) world" assume "keeps w_clock w v"
    then have v: "deadline < w_clock v + Suc fuel" using Suc.prems(2) by (simp add: keeps_def)
    have late: "wp (bind_io now_io (\<lambda>now. if deadline \<le> now then raise_io e else then_io (sleep 1) (await_response fuel deadline)))
        (\<lambda>r _. r = Some ()) (\<lambda>_ _. True) v" for e
      unfolding wp_bind by (rule wp_mono [OF now_clock]) (use v in \<open>auto simp: sleep_def intro!: Suc.IH\<close>)
    show "wp (if starting = Some False then ret (Some ()) else bind_io now_io (\<lambda>now.
        if deadline \<le> now then (if starting = None then raise_io (Raised VerificationFailed ''did not respond'')
          else raise_io (Raised VerificationFailed ''was still starting''))
        else then_io (sleep 1) (await_response fuel deadline))) (\<lambda>r _. r = Some ()) (\<lambda>_ _. True) v"
      using late by (cases "starting = Some False"; cases "starting = None") (simp_all del: wp_bind)
  qed simp
qed simp

text \<open>C34: Waiting for a rollout, and waiting for the coordinator to respond, both end: started with
  a timeout of \<open>t\<close> seconds, \<open>t + 2\<close> turns of either loop return or raise, whatever Kubernetes
  and Trino report, because every turn that goes on has moved the clock.\<close>

theorem polling_ends:
  fixes w :: "('r, 'e) world"
  assumes "deadline \<le> w_clock w + t"
  shows "wp (await_rollout (t + 2) deadline st) (\<lambda>r _. r = Some ()) (\<lambda>_ _. True) w
    \<and> wp (await_response (t + 2) deadline) (\<lambda>r _. r = Some ()) (\<lambda>_ _. True) w"
  using assms by (intro conjI await_rollout_ends await_response_ends) auto

theorem polling_ends_witness:
  "let w = (new_install () :: (nat, unit) world)\<lparr>w_starting := [None]\<rparr>;
     st = healthy_rollout\<lparr>ro_generation := 2\<rparr> in
   wp (await_rollout (30 + 2) 30 st) (\<lambda>r _. r = Some ()) (\<lambda>_ _. True) w
    \<and> wp (await_response (30 + 2) 30) (\<lambda>r _. r = Some ()) (\<lambda>_ _. True) w"
  unfolding Let_def by (rule polling_ends) simp

section \<open>Starting an Apply\<close>

text \<open>With nothing in flight, starting an Apply creates exactly one record, at the first stage,
  which is then the Apply in flight; nothing but that record moves.\<close>

theorem start_apply_creates_one:
  fixes w :: "('r, 'e) world"
  assumes "w_mongo w = []" and "in_flight (w_applies w) = None" and "fresh_id w"
  shows "wp start_apply (\<lambda>r w'. w_applies w' = w_applies w @ [r] \<and> in_flight (w_applies w') = Some r
      \<and> ap_stage r = VALIDATING \<and> on_path r \<and> outside w' = outside w) (\<lambda>_ _. False) w"
  by (rule wp_start(1) [OF assms])
    (use assms(2) in \<open>auto simp: bookedD running_def record_in_flight_def TERMINAL_def
       simp del: in_flight_None_iff intro!: in_flight_append\<close>)

theorem start_apply_creates_one_witness:
  "let w = (new_install () :: (nat, unit) world) in
   wp start_apply (\<lambda>r w'. w_applies w' = w_applies w @ [r] \<and> in_flight (w_applies w') = Some r
      \<and> ap_stage r = VALIDATING \<and> on_path r \<and> outside w' = outside w) (\<lambda>_ _. False) w"
  unfolding Let_def
  by (rule start_apply_creates_one) (simp_all add: new_install_def in_flight_def fresh_id_def)

text \<open>The check and the creation are two calls with awaits between them, so two requests whose
  checks both precede either creation leave two Applies in flight on one Cluster.\<close>

theorem two_starts_race:
  "flying (w_applies (snd (then_io refuse_if_running (then_io refuse_if_running
     (then_io create_for_candidate create_for_candidate)) (new_install () :: (nat, unit) world)))) = 2"
  by code_simp

section \<open>Where a raw file may go\<close>

text \<open>A path accepted for a raw file, when it has no \<open>..\<close> component, names a file below Trino's
  configuration directory.\<close>

theorem raw_path_inside:
  assumes "within_config_dir path" and "''..'' \<notin> set (pp_parts (posix (normalised path)))"
  shows "\<exists>rest. rest \<noteq> [] \<and> resolved_parts (posix (normalised path)) = [''etc'', ''trino''] @ rest"
  by (rule accepted_inside [OF assms])

theorem raw_path_inside_witness:
  "\<exists>rest. rest \<noteq> [] \<and> resolved_parts (posix (normalised '' /etc/trino//a/./b.properties''))
     = [''etc'', ''trino''] @ rest"
  by (rule raw_path_inside) code_simp+

text \<open>The check keeps \<open>..\<close> components, so it accepts a path whose file is outside that directory,
  and one that names a file Apchi generates without being recognised as it.\<close>

theorem raw_path_escapes:
  "within_config_dir ''/etc/trino/../passwd''
   \<and> resolved_parts (posix (normalised ''/etc/trino/../passwd'')) = [''etc'', ''passwd'']
   \<and> within_config_dir ''/etc/trino/x/../event-listener.properties''
   \<and> resolved_parts (posix (normalised ''/etc/trino/x/../event-listener.properties''))
       = resolved_parts (posix ''/etc/trino/event-listener.properties'')
   \<and> posix (normalised ''/etc/trino/x/../event-listener.properties'') \<noteq> posix ''/etc/trino/event-listener.properties''"
  by code_simp

section \<open>Curated properties\<close>

text \<open>The properties of a Catalog are accepted exactly when the connector is not curated, or
  every property is known to its schema, everything its selected branches require is present
  and every selector has an allowed value; what is accepted is stored unchanged.\<close>

theorem properties_accepted_iff_fit:
  "validate_properties connector d = (case map_of CURATED_SCHEMAS connector of
      None \<Rightarrow> Inr d
    | Some sc \<Rightarrow> if fits sc d then Inr d else Inl (schema_problems sc d))"
  by (simp add: validate_properties_def validate_schema_iff split: option.split) (simp add: validate_schema_def)

end
