(* ===== verification/Certificate_Mapping.thy ===== *)
theory Certificate_Mapping
  imports Section_Protocol Permissions
begin

text \<open>
  The Certificate Mapping Section (\<open>app/sections/certificate_mapping\<close>): one pattern, the checks made
  of it when it is staged, the rules file with Apchi's own rule first and the catch-all last, and
  the file read back. Two third-party functions are parameters: \<open>compiled\<close>, the number of capturing
  groups \<open>re.compile\<close> counts in a pattern (\<open>None\<close> where it raises), and \<open>validate\<close>, Pydantic's
  \<open>CertificateMappingWrite.model_validate\<close> of a rule (\<open>None\<close> where it raises). As in the other
  parsers of JSON, the content read is the decoded document, \<open>None\<close> where the text is not JSON.
\<close>

section \<open>Staging\<close>

definition RESOURCE :: string where "RESOURCE = ''pattern''"

text \<open>\<open>findall\<close> of \<open>\$(\d+)\<close>: the number after each dollar sign that digits follow.\<close>

definition is_digit :: "char \<Rightarrow> bool" where
  "is_digit c \<longleftrightarrow> digit_value c \<noteq> None"

fun group_references :: "string \<Rightarrow> nat list" where
  "group_references [] = []"
| "group_references (c # cs) =
     (if c = CHR ''$'' then (case read_nat (takeWhile is_digit cs) of
          None \<Rightarrow> group_references cs | Some n \<Rightarrow> n # group_references cs)
      else group_references cs)"

datatype pattern_problem = Bad_Pattern string | Bad_User string nat nat

definition pattern_problems ::
  "(string \<Rightarrow> nat option) \<Rightarrow> certificate_mapping \<Rightarrow> string \<Rightarrow> pattern_problem list" where
  "pattern_problems compiled write prefix = (case compiled (cm_pattern write) of
      None \<Rightarrow> [Bad_Pattern (prefix @ ''pattern'')]
    | Some groups \<Rightarrow> (case filter (\<lambda>n. groups < n) (group_references (cm_user write)) of
          [] \<Rightarrow> [] | n # _ \<Rightarrow> [Bad_User (prefix @ ''user'') n groups]))"

definition get_mapping :: "certificate_mapping resources \<Rightarrow> exn + certificate_mapping" where
  "get_mapping stored = (case map_of stored RESOURCE of
      None \<Rightarrow> Inl (Raised NotFound ''No Certificate Mapping Pattern is configured.'') | Some m \<Rightarrow> Inr m)"

definition set_mapping ::
  "(string \<Rightarrow> nat option) \<Rightarrow> certificate_mapping resources \<Rightarrow> certificate_mapping \<Rightarrow>
     exn + certificate_mapping resources" where
  "set_mapping compiled stored write =
     (if pattern_problems compiled write [] = [] then Inr (AList.update RESOURCE write stored)
      else Inl (Raised UnprocessablePayload ''The Certificate Mapping Pattern is not usable.''))"

definition clear_mapping :: "certificate_mapping resources \<Rightarrow> exn + certificate_mapping resources" where
  "clear_mapping stored =
     (if \<not> has_key stored RESOURCE then Inl (Raised NotFound ''No Certificate Mapping Pattern is configured.'')
      else Inr (AList.delete RESOURCE stored))"

text \<open>The same checks over the preserved patterns, every problem with the index it is at.\<close>

definition preserved_problems ::
  "(string \<Rightarrow> nat option) \<Rightarrow> certificate_mapping list \<Rightarrow> pattern_problem list" where
  "preserved_problems compiled patterns = concat (map (\<lambda>(i, p).
     pattern_problems compiled p (''patterns['' @ show_nat i @ ''].'')) (enumerate 0 patterns))"

definition validate_patterns :: "(string \<Rightarrow> nat option) \<Rightarrow> certificate_mapping list \<Rightarrow> exn + unit" where
  "validate_patterns compiled patterns =
     (if preserved_problems compiled patterns = [] then Inr ()
      else Inl (Raised UnprocessablePayload ''A preserved mapping pattern is not usable.''))"

section \<open>The rules file\<close>

definition MAPPING_DIR :: string where "MAPPING_DIR = ''/etc/trino/user-mapping''"
definition MAPPING_PATH :: string where "MAPPING_PATH = ''/etc/trino/user-mapping/user-mapping.json''"
definition UNCHANGED :: string where "UNCHANGED = ''(.*)''"

definition reserved_rule :: "string \<Rightarrow> json" where
  "reserved_rule trino_user = JObj [(''pattern'', JStr (anchored trino_user)), (''user'', JStr trino_user)]"

definition mapping_rule :: "certificate_mapping \<Rightarrow> json" where
  "mapping_rule m = JObj ([(''pattern'', JStr (cm_pattern m))]
     @ (if cm_user m = ''$1'' then [] else [(''user'', JStr (cm_user m))])
     @ (if cm_case m = Keep then [] else [(''case'', JStr (case_value (cm_case m)))]))"

definition unchanged_rule :: json where
  "unchanged_rule = JObj [(''pattern'', JStr UNCHANGED)]"

definition mapping_rules ::
  "certificate_mapping resources \<Rightarrow> string \<Rightarrow> certificate_mapping list \<Rightarrow> json list" where
  "mapping_rules desired trino_user preserved =
     [reserved_rule trino_user]
     @ (case map_of desired RESOURCE of None \<Rightarrow> [] | Some m \<Rightarrow> [mapping_rule m])
     @ map mapping_rule preserved @ [unchanged_rule]"

definition mapping_document ::
  "certificate_mapping resources \<Rightarrow> string \<Rightarrow> certificate_mapping list \<Rightarrow> json" where
  "mapping_document desired trino_user preserved =
     JObj [(''rules'', JList (mapping_rules desired trino_user preserved))]"

definition render_mapping ::
  "certificate_mapping resources \<Rightarrow> string \<Rightarrow> certificate_mapping list \<Rightarrow> string" where
  "render_mapping desired trino_user preserved = dumps_line (mapping_document desired trino_user preserved)"

section \<open>Reading it back\<close>

datatype mapping_error = Mapping_Not_JSON | Mapping_Not_An_Object | No_Rules_Array | Mapping_Rule_Not_An_Object nat
  | Invalid_Rule nat \<comment> \<open>Pydantic's own exception, which is not turned into \<open>Unreadable\<close>\<close>

datatype unaccounted_mapping = Outside string json | Uses nat "string list" json | Further nat json

definition extra_keys :: "json \<Rightarrow> string list" where
  "extra_keys rule = filter (\<lambda>k. k \<notin> {''pattern'', ''user'', ''case''}) (sorted_keys (fields_of rule))"

text \<open>The loop over what is left of the rules: the first usable one is the Operator's.\<close>

fun read_rules ::
  "(nat \<times> json) list \<Rightarrow> (nat \<times> json) option \<Rightarrow> unaccounted_mapping list \<Rightarrow>
     (nat \<times> json) option \<times> unaccounted_mapping list" where
  "read_rules [] operator un = (operator, un)"
| "read_rules ((i, rule) # rest) operator un =
     (if extra_keys rule \<noteq> [] \<or> \<not> has_key (fields_of rule) ''pattern''
      then read_rules rest operator (un @ [Uses i (extra_keys rule) rule])
      else case operator of
        None \<Rightarrow> read_rules rest (Some (i, rule)) un
      | Some _ \<Rightarrow> read_rules rest operator (un @ [Further i rule]))"

definition rules_body :: "string \<Rightarrow> json list \<Rightarrow> (nat \<times> json) list" where
  "rules_body trino_user rules =
     (let body = enumerate 0 rules;
          body' = (if body \<noteq> [] \<and> same_json (snd (hd body)) (reserved_rule trino_user) then tl body else body)
      in if body' \<noteq> [] \<and> same_json (snd (last body')) unchanged_rule then butlast body' else body')"

definition parse_mapping ::
  "(json \<Rightarrow> certificate_mapping option) \<Rightarrow> json option \<Rightarrow> string \<Rightarrow>
     mapping_error + (certificate_mapping resources \<times> unaccounted_mapping list)" where
  "parse_mapping validate content trino_user = (case content of
      None \<Rightarrow> Inl Mapping_Not_JSON
    | Some (JObj document) \<Rightarrow> (case map_of document ''rules'' of
        Some (JList rules) \<Rightarrow>
         (let outside = map (\<lambda>k. Outside k (the (map_of document k))) (filter (\<lambda>k. k \<noteq> ''rules'') (sorted_keys document)) in
          case find (\<lambda>(i, r). \<not> is_object r) (enumerate 0 rules) of
            Some (i, _) \<Rightarrow> Inl (Mapping_Rule_Not_An_Object i)
          | None \<Rightarrow> (case read_rules (rules_body trino_user rules) None outside of
              (None, un) \<Rightarrow> Inr ([], un)
            | (Some (i, rule), un) \<Rightarrow> (case validate rule of
                None \<Rightarrow> Inl (Invalid_Rule i)
              | Some m \<Rightarrow> Inr ([(RESOURCE, m)], un))))
      | _ \<Rightarrow> Inl No_Rules_Array)
    | Some _ \<Rightarrow> Inl Mapping_Not_An_Object)"

section \<open>The Section\<close>

definition PROBE_CONFIG :: "string dict" where
  "PROBE_CONFIG = [(''http-server.authentication.insecure.user-mapping.file'', MAPPING_PATH)]"

definition mapping_coordinator_files :: "settings \<Rightarrow> delivery list" where
  "mapping_coordinator_files s = [Directory \<lparr>cd_secret = st_mapping_secret s, cd_path = MAPPING_DIR,
     cd_probe_files = [], cd_probe_config = PROBE_CONFIG, cd_credentials = False\<rparr>]"

definition mapping_files :: "certificate_mapping resources \<Rightarrow> settings \<Rightarrow> admin_values \<Rightarrow> string dict" where
  "mapping_files desired s admin =
     [(MAPPING_PATH, render_mapping desired (st_trino_user s) (av_preserved_mappings admin))]"

text \<open>\<open>MappingPlan\<close> is one flag, and \<open>empty\<close> its negation.\<close>

definition mapping_plan :: "certificate_mapping resources \<Rightarrow> certificate_mapping resources \<Rightarrow> bool" where
  "mapping_plan desired current \<longleftrightarrow> map_of desired RESOURCE \<noteq> map_of current RESOURCE"

definition mapping_plan_empty :: "bool \<Rightarrow> bool" where
  "mapping_plan_empty changed \<longleftrightarrow> \<not> changed"

definition mapping_needs_probe :: "certificate_mapping resources \<Rightarrow> bool" where
  "mapping_needs_probe desired \<longleftrightarrow> desired \<noteq> []"

text \<open>\<open>read_back\<close>: the one key this Section has room for.\<close>

definition mapping_read_back :: "certificate_mapping resources \<Rightarrow> validation_failure list" where
  "mapping_read_back resources = map (\<lambda>name. \<lparr>vf_section = Some CERTIFICATE_MAPPING, vf_resource = Some name,
      vf_reason = ''is not a resource this Section holds: it has room for one pattern, stored as '' @ [CHR 0x27] @ RESOURCE @ [CHR 0x27]\<rparr>) (filter (\<lambda>n. n \<noteq> RESOURCE) (sorted_keys resources))"

text \<open>Where an authenticator names its file, matched by the shape of the property.\<close>

definition names_mapping_file :: "string \<Rightarrow> bool" where
  "names_mapping_file n \<longleftrightarrow> starts_with ''http-server.authentication.'' n \<and> ends_with ''.user-mapping.file'' n"

definition mapping_discover_paths :: "settings \<Rightarrow> string dict \<Rightarrow> discovered_paths" where
  "mapping_discover_paths s properties =
     (case filter names_mapping_file (sorted_keys properties) of
        n # _ \<Rightarrow> at_files [(MAPPING_PATH, the (map_of properties n))] None
      | [] \<Rightarrow> at_files [(MAPPING_PATH, MAPPING_PATH)] (Some (''no authenticator names a user-mapping file, so this is where ''
          @ ''Apchi would put one rather than where the Cluster says it is'')))"

text \<open>The Section's \<open>parse_files\<close>: an absent file means nothing is configured.\<close>

definition mapping_parse_files ::
  "(json \<Rightarrow> certificate_mapping option) \<Rightarrow> (string \<Rightarrow> json option) \<Rightarrow> string dict \<Rightarrow> settings \<Rightarrow>
     mapping_error + (certificate_mapping resources \<times> unaccounted_mapping list)" where
  "mapping_parse_files validate loads files s = (case map_of files MAPPING_PATH of
      None \<Rightarrow> Inr ([], [])
    | Some content \<Rightarrow> parse_mapping validate (loads content) (st_trino_user s))"

section \<open>What the file decides\<close>

text \<open>Trino takes the first rule whose pattern matches, and denies where none does.\<close>

definition mapping_rule_applies :: "(string \<Rightarrow> string \<Rightarrow> bool) \<Rightarrow> string \<Rightarrow> json \<Rightarrow> bool" where
  "mapping_rule_applies re subject rule = (case map_of (fields_of rule) ''pattern'' of
      Some (JStr p) \<Rightarrow> pattern_matches re p subject | _ \<Rightarrow> False)"



section \<open>Staging and the round trip\<close>

definition stage_mapping ::
  "(string \<Rightarrow> nat option) \<Rightarrow> certificate_mapping option \<Rightarrow> certificate_mapping resources \<Rightarrow> certificate_mapping resources" where
  "stage_mapping compiled request stored = (case request of
      Some write \<Rightarrow> (case set_mapping compiled stored write of Inl _ \<Rightarrow> stored | Inr st \<Rightarrow> st)
    | None \<Rightarrow> (case clear_mapping stored of Inl _ \<Rightarrow> stored | Inr st \<Rightarrow> st))"

definition usable_mapping :: "(string \<Rightarrow> nat option) \<Rightarrow> certificate_mapping resources \<Rightarrow> bool" where
  "usable_mapping compiled stored = (case stored of
      [] \<Rightarrow> True
    | [(k, m)] \<Rightarrow> k = RESOURCE \<and> (case compiled (cm_pattern m) of None \<Rightarrow> False
        | Some groups \<Rightarrow> list_all (\<lambda>n. n \<le> groups) (group_references (cm_user m)))
    | _ \<Rightarrow> False)"

lemma pattern_problems_iff: "pattern_problems compiled m prefix = [] \<longleftrightarrow> (case compiled (cm_pattern m) of
    None \<Rightarrow> False | Some groups \<Rightarrow> list_all (\<lambda>n. n \<le> groups) (group_references (cm_user m)))"
proof (cases "compiled (cm_pattern m)")
  case (Some groups)
  have "filter (\<lambda>n. groups < n) xs = [] \<longleftrightarrow> list_all (\<lambda>n. n \<le> groups) xs" for xs
    by (induction xs) auto
  from this [of "group_references (cm_user m)"] show ?thesis
    using Some by (cases "filter ((<) groups) (group_references (cm_user m))") (simp_all add: pattern_problems_def)
qed (simp add: pattern_problems_def)

lemma usable_mapping_cases:
  assumes "usable_mapping compiled stored"
  obtains "stored = []" | m where "stored = [(RESOURCE, m)]"
  using assms by (cases stored; cases "tl stored") (auto simp: usable_mapping_def)

lemma stage_mapping_usable:
  assumes "usable_mapping compiled stored"
  shows "usable_mapping compiled (stage_mapping compiled request stored)"
proof -
  have "usable_mapping compiled [(RESOURCE, m)] \<longleftrightarrow> pattern_problems compiled m [] = []" for m
    by (simp add: usable_mapping_def pattern_problems_iff)
  with assms show ?thesis
    by (cases rule: usable_mapping_cases; cases request)
      (auto simp: stage_mapping_def set_mapping_def clear_mapping_def usable_mapping_def)
qed

text \<open>Whatever sequence of patterns is set and cleared, refused requests included, the Section
  holds at most one pattern, under its one name, and its replacement refers to no capturing
  group the pattern does not have.\<close>

theorem staged_mapping_usable: "usable_mapping compiled (fold (stage_mapping compiled) requests [])"
proof -
  have "usable_mapping compiled stored \<Longrightarrow> usable_mapping compiled (fold (stage_mapping compiled) requests stored)" for stored
    by (induction requests arbitrary: stored) (auto intro: stage_mapping_usable)
  then show ?thesis by (simp add: usable_mapping_def)
qed

lemma mapping_rule_fields:
  "fields_of (mapping_rule m) = (''pattern'', JStr (cm_pattern m))
     # (if cm_user m = ''$1'' then [] else [(''user'', JStr (cm_user m))])
     @ (if cm_case m = Keep then [] else [(''case'', JStr (case_value (cm_case m)))])"
  by (simp add: mapping_rule_def)

lemma read_mapping_rule [simp]:
  "extra_keys (mapping_rule m) = []" "''pattern'' \<in> fst ` set (fields_of (mapping_rule m))"
  "is_object (mapping_rule m)"
  by (auto simp: extra_keys_def filter_empty_conv mapping_rule_fields) (simp add: mapping_rule_def)

lemma read_rules_mappings:
  "read_rules (enumerate n (map mapping_rule ms)) (Some op) un =
     (Some op, un @ map (\<lambda>(i, m). Further i (mapping_rule m)) (enumerate n ms))"
  by (induction ms arbitrary: n un) simp_all

definition operator_first :: "certificate_mapping resources \<Rightarrow> certificate_mapping list \<Rightarrow> certificate_mapping list" where
  "operator_first desired preserved = (case map_of desired RESOURCE of None \<Rightarrow> [] | Some m \<Rightarrow> [m]) @ preserved"

lemma rules_body_mapping:
  "rules_body u (mapping_rules desired u preserved) = enumerate 1 (map mapping_rule (operator_first desired preserved))"
proof -
  have "mapping_rules desired u preserved =
      reserved_rule u # map mapping_rule (operator_first desired preserved) @ [unchanged_rule]"
    by (simp add: mapping_rules_def operator_first_def split: option.split)
  then show ?thesis by (simp add: rules_body_def Let_def enumerate_append_eq)
qed

text \<open>The file reads back: from what is rendered the parse recovers the Operator's pattern, and
  reports every preserved pattern, with its position, as one the Section has no room for. Where no
  pattern is staged the first preserved one is taken for it.\<close>

theorem mapping_roundtrip:
  assumes "\<And>m. m \<in> set (operator_first desired preserved) \<Longrightarrow> validate (mapping_rule m) = Some m"
  shows "parse_mapping validate (Some (mapping_document desired u preserved)) u =
    (case operator_first desired preserved of
       [] \<Rightarrow> Inr ([], [])
     | m # ms \<Rightarrow> Inr ([(RESOURCE, m)], map (\<lambda>(i, p). Further i (mapping_rule p)) (enumerate 2 ms)))"
proof -
  have objects: "\<forall>r \<in> set (mapping_rules desired u preserved). is_object r"
    by (auto simp: mapping_rules_def reserved_rule_def unchanged_rule_def mapping_rule_def split: option.splits)
  have "find (\<lambda>(i, r). \<not> is_object r) (enumerate 0 (mapping_rules desired u preserved)) = None"
    by (auto simp: find_None_iff dest!: bspec [OF objects] in_set_enumerate_eq [THEN iffD1] nth_mem)
  moreover have "sorted_keys [(''rules'', j)] = [''rules'']" for j :: json
    by (simp add: sorted_keys_def sorted_set_def)
  ultimately show ?thesis
    using assms
    by (cases "operator_first desired preserved")
      (simp_all add: parse_mapping_def mapping_document_def rules_body_mapping Let_def
        read_rules_mappings numeral_2_eq_2)
qed

definition demo_validate :: "json \<Rightarrow> certificate_mapping option" where
  "demo_validate rule = (case (map_of (fields_of rule) ''pattern'', map_of (fields_of rule) ''user'', map_of (fields_of rule) ''case'') of
      (Some (JStr p), u, c) \<Rightarrow> Some \<lparr>cm_pattern = p,
        cm_user = (case u of Some (JStr s) \<Rightarrow> s | _ \<Rightarrow> ''$1''),
        cm_case = (case c of Some (JStr s) \<Rightarrow> (if s = ''lower'' then Lower else Upper) | _ \<Rightarrow> Keep)\<rparr>
    | _ \<Rightarrow> None)"

theorem mapping_roundtrip_witness:
  "let ms = [\<lparr>cm_pattern = ''CN=(.*)'', cm_user = ''$1'', cm_case = Lower\<rparr>,
       \<lparr>cm_pattern = ''(.*)'', cm_user = ''u_$1'', cm_case = Keep\<rparr>] in
   parse_mapping demo_validate (Some (mapping_document [] ''apchi'' ms)) ''apchi'' =
    (case operator_first [] ms of
       [] \<Rightarrow> Inr ([], [])
     | m # ms \<Rightarrow> Inr ([(RESOURCE, m)], map (\<lambda>(i, p). Further i (mapping_rule p)) (enumerate 2 ms)))"
  unfolding Let_def
  by (rule mapping_roundtrip) (auto simp: operator_first_def demo_validate_def mapping_rule_def)

end
