(* ===== verification/Resource_Groups.thy ===== *)
theory Resource_Groups
  imports Section_Protocol Json_Text
begin

text \<open>
  The Resource Groups Section (\<open>app/sections/resource_groups\<close>): groups staged flat under their dotted
  paths, the tree rebuilt from them for the file Trino reads, and the file flattened back. What the
  code uses of Pydantic is a parameter: the alias generator \<open>to_camel\<close>, and \<open>model_validate\<close> of the
  three models, \<open>None\<close> where it raises.
\<close>

section \<open>The model\<close>

definition SELECTORS :: string where "SELECTORS = ''#selectors''"
definition SETTINGS :: string where "SETTINGS = ''#settings''"
definition SEPARATOR :: char where "SEPARATOR = CHR ''.''"

datatype scheduling_policy = Fair | Weighted | Weighted_Fair | Query_Priority

fun policy_value :: "scheduling_policy \<Rightarrow> string" where
  "policy_value Fair = ''fair''"
| "policy_value Weighted = ''weighted''"
| "policy_value Weighted_Fair = ''weighted_fair''"
| "policy_value Query_Priority = ''query_priority''"

record resource_group =
  rg_hard_concurrency_limit :: int
  rg_max_queued :: "int option"
  rg_soft_memory_limit :: "string option"
  rg_soft_concurrency_limit :: "int option"
  rg_soft_cpu_limit :: "string option"
  rg_hard_cpu_limit :: "string option"
  rg_scheduling_policy :: "scheduling_policy option"
  rg_scheduling_weight :: "int option"
  rg_jmx_export :: "bool option"

definition limit_ok :: "string \<Rightarrow> bool" where
  "limit_ok s \<longleftrightarrow> s \<noteq> [] \<and> length s \<le> 32"

definition each_opt :: "('a \<Rightarrow> bool) \<Rightarrow> 'a option \<Rightarrow> bool" where
  "each_opt p x = (case x of None \<Rightarrow> True | Some a \<Rightarrow> p a)"

text \<open>What \<open>ResourceGroupWrite\<close> accepts.\<close>

definition group_ok :: "resource_group \<Rightarrow> bool" where
  "group_ok g \<longleftrightarrow> 0 \<le> rg_hard_concurrency_limit g \<and> each_opt (\<lambda>n. 0 \<le> n) (rg_max_queued g)
     \<and> each_opt (\<lambda>n. 0 \<le> n) (rg_soft_concurrency_limit g) \<and> each_opt limit_ok (rg_soft_memory_limit g)
     \<and> each_opt limit_ok (rg_soft_cpu_limit g) \<and> each_opt limit_ok (rg_hard_cpu_limit g)
     \<and> \<not> (rg_soft_cpu_limit g \<noteq> None \<and> rg_hard_cpu_limit g = None)"

definition group_name_ok :: "string \<Rightarrow> bool" where
  "group_name_ok s \<longleftrightarrow> s \<noteq> [] \<and> CHR ''.'' \<notin> set s \<and> CHR ''#'' \<notin> set s"

definition group_path_ok :: "string \<Rightarrow> bool" where
  "group_path_ok path \<longleftrightarrow> list_all group_name_ok (split_on SEPARATOR path) \<and> length path \<le> 512"

record selector =
  sl_group :: string
  sl_user :: "string option"
  sl_original_user :: "string option"
  sl_authenticated_user :: "string option"
  sl_user_group :: "string option"
  sl_source :: "string option"
  sl_query_type :: "string option"
  sl_query_text :: "string option"
  sl_client_tags :: "string list option"

definition QUERY_TYPES :: "string list" where
  "QUERY_TYPES = [''SELECT'', ''INSERT'', ''DELETE'', ''UPDATE'', ''MERGE'', ''ANALYZE'', ''EXPLAIN'', ''DESCRIBE'',
     ''DATA_DEFINITION'', ''ALTER_TABLE_EXECUTE'']"

definition selector_ok :: "selector \<Rightarrow> bool" where
  "selector_ok s \<longleftrightarrow> group_path_ok (sl_group s) \<and> each_opt (\<lambda>q. q \<in> set QUERY_TYPES) (sl_query_type s)"

text \<open>One dictionary holds the groups by path and, under two keys no group can have, the rest.\<close>

datatype group_resource = Group resource_group | Selector_list "selector list" | Quota_period "string option"

definition reserved_key :: "string \<Rightarrow> bool" where
  "reserved_key k \<longleftrightarrow> k = SELECTORS \<or> k = SETTINGS"

definition groups_of :: "group_resource resources \<Rightarrow> resource_group dict" where
  "groups_of stored = List.map_filter (\<lambda>(k, v). case v of
      Group g \<Rightarrow> if reserved_key k then None else Some (k, g) | _ \<Rightarrow> None) stored"

definition settings_of :: "group_resource resources \<Rightarrow> string option" where
  "settings_of stored = (case map_of stored SETTINGS of Some (Quota_period p) \<Rightarrow> p | _ \<Rightarrow> None)"

definition selectors_of :: "group_resource resources \<Rightarrow> selector list" where
  "selectors_of stored = (case map_of stored SELECTORS of Some (Selector_list ss) \<Rightarrow> ss | _ \<Rightarrow> [])"

definition store_settings :: "group_resource resources \<Rightarrow> string option \<Rightarrow> group_resource resources" where
  "store_settings stored p = (case p of
      Some _ \<Rightarrow> AList.update SETTINGS (Quota_period p) stored
    | None \<Rightarrow> AList.delete SETTINGS stored)"

definition store_selectors :: "group_resource resources \<Rightarrow> selector list \<Rightarrow> group_resource resources" where
  "store_selectors stored ss =
     (if ss \<noteq> [] then AList.update SELECTORS (Selector_list ss) stored else AList.delete SELECTORS stored)"

section \<open>Paths\<close>

text \<open>\<open>rpartition\<close> at the separator.\<close>

definition parent_of :: "string \<Rightarrow> string option" where
  "parent_of path = (case dropWhile (\<lambda>c. c \<noteq> SEPARATOR) (rev path) of [] \<Rightarrow> None | _ # h \<Rightarrow> Some (rev h))"

definition leaf_of :: "string \<Rightarrow> string" where
  "leaf_of path = rev (takeWhile (\<lambda>c. c \<noteq> SEPARATOR) (rev path))"

definition children_of :: "string list \<Rightarrow> string \<Rightarrow> string list" where
  "children_of paths path = filter (\<lambda>other. parent_of other = Some path) paths"

section \<open>Staging\<close>

definition add_group ::
  "group_resource resources \<Rightarrow> string \<Rightarrow> resource_group \<Rightarrow> exn + group_resource resources" where
  "add_group stored path write =
     (if has_key (groups_of stored) path then Inl (Raised Conflict path)
      else case parent_of path of
        Some p \<Rightarrow> if \<not> has_key (groups_of stored) p then Inl (Raised UnprocessablePayload p)
                 else Inr (AList.update path (Group write) stored)
      | None \<Rightarrow> Inr (AList.update path (Group write) stored))"

definition edit_group ::
  "group_resource resources \<Rightarrow> string \<Rightarrow> resource_group \<Rightarrow> exn + group_resource resources" where
  "edit_group stored path write =
     (if \<not> has_key (groups_of stored) path then Inl (Raised NotFound path)
      else Inr (AList.update path (Group write) stored))"

definition delete_group :: "group_resource resources \<Rightarrow> string \<Rightarrow> exn + group_resource resources" where
  "delete_group stored path =
     (if \<not> has_key (groups_of stored) path then Inl (Raised NotFound path)
      else if children_of (sorted_keys (groups_of stored)) path \<noteq> [] then Inl (Raised Conflict path)
      else Inr (AList.delete path stored))"

text \<open>The requests of \<open>app/api/resource_groups.py\<close>, each behind the validation of its body; a refused
  one stores nothing.\<close>

definition MAX_SELECTORS :: nat where "MAX_SELECTORS = 200"

datatype group_request = Add_group string resource_group | Edit_group string resource_group | Delete_group string
  | Put_selectors "selector list" | Put_settings "string option"

fun group_request_ok :: "group_request \<Rightarrow> bool" where
  "group_request_ok (Add_group path write) = (group_path_ok path \<and> group_ok write)"
| "group_request_ok (Edit_group path write) = group_ok write"
| "group_request_ok (Delete_group path) = True"
| "group_request_ok (Put_selectors ss) = (list_all selector_ok ss \<and> length ss \<le> MAX_SELECTORS)"
| "group_request_ok (Put_settings p) = each_opt limit_ok p"

fun group_operation :: "group_request \<Rightarrow> group_resource resources \<Rightarrow> exn + group_resource resources" where
  "group_operation (Add_group path write) stored = add_group stored path write"
| "group_operation (Edit_group path write) stored = edit_group stored path write"
| "group_operation (Delete_group path) stored = delete_group stored path"
| "group_operation (Put_selectors ss) stored = Inr (store_selectors stored ss)"
| "group_operation (Put_settings p) stored = Inr (store_settings stored p)"

definition stage_group :: "group_request \<Rightarrow> group_resource resources \<Rightarrow> group_resource resources" where
  "stage_group r stored = (if \<not> group_request_ok r then stored
     else case group_operation r stored of Inl e \<Rightarrow> stored | Inr stored' \<Rightarrow> stored')"

section \<open>The rules file\<close>

definition some_field :: "string \<Rightarrow> ('a \<Rightarrow> json) \<Rightarrow> 'a option \<Rightarrow> (string \<times> json) list" where
  "some_field name f x = (case x of None \<Rightarrow> [] | Some v \<Rightarrow> [(name, f v)])"

text \<open>\<open>model_dump(mode="json", exclude_none=True)\<close> of the three models.\<close>

definition group_fields :: "resource_group \<Rightarrow> (string \<times> json) list" where
  "group_fields g = [(''hard_concurrency_limit'', JNum (rg_hard_concurrency_limit g))]
     @ some_field ''max_queued'' JNum (rg_max_queued g)
     @ some_field ''soft_memory_limit'' JStr (rg_soft_memory_limit g)
     @ some_field ''soft_concurrency_limit'' JNum (rg_soft_concurrency_limit g)
     @ some_field ''soft_cpu_limit'' JStr (rg_soft_cpu_limit g)
     @ some_field ''hard_cpu_limit'' JStr (rg_hard_cpu_limit g)
     @ some_field ''scheduling_policy'' (JStr \<circ> policy_value) (rg_scheduling_policy g)
     @ some_field ''scheduling_weight'' JNum (rg_scheduling_weight g)
     @ some_field ''jmx_export'' JBool (rg_jmx_export g)"

definition selector_fields :: "selector \<Rightarrow> (string \<times> json) list" where
  "selector_fields s = [(''group'', JStr (sl_group s))]
     @ some_field ''user'' JStr (sl_user s)
     @ some_field ''original_user'' JStr (sl_original_user s)
     @ some_field ''authenticated_user'' JStr (sl_authenticated_user s)
     @ some_field ''user_group'' JStr (sl_user_group s)
     @ some_field ''source'' JStr (sl_source s)
     @ some_field ''query_type'' JStr (sl_query_type s)
     @ some_field ''query_text'' JStr (sl_query_text s)
     @ some_field ''client_tags'' (JList \<circ> map JStr) (sl_client_tags s)"

definition settings_fields :: "string option \<Rightarrow> (string \<times> json) list" where
  "settings_fields p = some_field ''cpu_quota_period'' JStr p"

definition trino_fields :: "(string \<Rightarrow> string) \<Rightarrow> (string \<times> json) list \<Rightarrow> (string \<times> json) list" where
  "trino_fields camel = map (\<lambda>(n, v). (camel n, v))"

definition longest :: "string list \<Rightarrow> nat" where
  "longest paths = foldr (max \<circ> length) paths 0"

lemma longest_ge: "p \<in> set paths \<Longrightarrow> length p \<le> longest paths"
  by (induction paths) (auto simp: longest_def)

lemma parent_shorter: "parent_of c = Some p \<Longrightarrow> length p < length c"
proof -
  assume "parent_of c = Some p"
  then obtain s where "dropWhile (\<lambda>c. c \<noteq> SEPARATOR) (rev c) = s # rev p"
    by (auto simp: parent_of_def split: list.splits)
  then have "length (s # rev p) \<le> length (rev c)" by (metis length_dropWhile_le)
  then show ?thesis by simp
qed

text \<open>\<open>_spec\<close>: one group with its children beneath it.\<close>

function group_spec ::
  "(string \<Rightarrow> string) \<Rightarrow> resource_group dict \<Rightarrow> string list \<Rightarrow> string \<Rightarrow> json" where
  "group_spec camel groups paths path =
     (let subgroups = map (group_spec camel groups paths) (sort (children_of paths path)) in
      JObj ([(''name'', JStr (leaf_of path))] @ trino_fields camel (group_fields (the (map_of groups path)))
        @ (if subgroups = [] then [] else [(''subGroups'', JList subgroups)])))"
  by pat_completeness auto
termination
proof (relation "measure (\<lambda>(camel, groups, paths, path). Suc (longest paths) - length path)")
  fix camel groups paths path c
  assume "c \<in> set (sort (children_of paths path))"
  then have "c \<in> set paths" "parent_of c = Some path" by (auto simp: children_of_def)
  then show "((camel, groups, paths, c), camel, groups, paths, path)
      \<in> measure (\<lambda>(camel, groups, paths, path). Suc (longest paths) - length path)"
    using longest_ge [of c paths] parent_shorter [of c path] by simp
qed simp

declare group_spec.simps [simp del]

definition groups_document :: "(string \<Rightarrow> string) \<Rightarrow> group_resource resources \<Rightarrow> json" where
  "groups_document camel desired =
     (let groups = groups_of desired; paths = sorted_keys groups in
      JObj (trino_fields camel (settings_fields (settings_of desired))
        @ [(''rootGroups'', JList (map (group_spec camel groups paths) (filter (\<lambda>p. parent_of p = None) paths))),
           (''selectors'', JList (map (\<lambda>s. JObj (trino_fields camel (selector_fields s))) (selectors_of desired)))]))"

definition render_group_rules :: "(string \<Rightarrow> string) \<Rightarrow> group_resource resources \<Rightarrow> string" where
  "render_group_rules camel desired = dumps_line (groups_document camel desired)"

definition is_empty :: "group_resource resources \<Rightarrow> bool" where
  "is_empty desired \<longleftrightarrow> groups_of desired = [] \<and> selectors_of desired = []"

definition RULES_PATH :: string where "RULES_PATH = ''/etc/trino/resource-groups.json''"
definition MANAGER_PATH :: string where "MANAGER_PATH = ''/etc/trino/resource-groups.properties''"
definition RULES_DIR :: string where "RULES_DIR = ''/etc/trino/resource-groups''"
definition RULES_IN_DIR :: string where "RULES_IN_DIR = ''/etc/trino/resource-groups/resource-groups.json''"

definition manager_file :: "string \<Rightarrow> string" where
  "manager_file rules = ''resource-groups.configuration-manager=file'' @ [newline]
     @ ''resource-groups.config-file='' @ rules @ [newline]"

definition MANAGER_FILE :: string where "MANAGER_FILE = manager_file RULES_PATH"
definition MANAGER_FILE_IN_DIR :: string where "MANAGER_FILE_IN_DIR = manager_file RULES_IN_DIR"

definition render_groups :: "(string \<Rightarrow> string) \<Rightarrow> group_resource resources \<Rightarrow> string dict" where
  "render_groups camel desired = (if is_empty desired then []
     else [(RULES_PATH, render_group_rules camel desired), (MANAGER_PATH, MANAGER_FILE)])"

definition trino_default_rules :: string where
  "trino_default_rules = dumps_line (JObj
     [(''rootGroups'', JList [JObj [(''name'', JStr ''global''), (''hardConcurrencyLimit'', JNum 1000), (''maxQueued'', JNum 5000)]]),
      (''selectors'', JList [JObj [(''group'', JStr ''global'')]])])"

definition render_rules_only :: "(string \<Rightarrow> string) \<Rightarrow> group_resource resources \<Rightarrow> string dict" where
  "render_rules_only camel desired =
     [(RULES_IN_DIR, if is_empty desired then trino_default_rules else render_group_rules camel desired)]"

section \<open>Reading it back\<close>

record pydantic =
  px_camel :: "string \<Rightarrow> string"
  px_group :: "json dict \<Rightarrow> resource_group option"
  px_selector :: "json dict \<Rightarrow> selector option"
  px_settings :: "json dict \<Rightarrow> string option option"

fun snake_rest :: "string \<Rightarrow> string" where
  "snake_rest [] = []"
| "snake_rest (c # cs) = (if is_upper c then [CHR ''_'', lower c] else [c]) @ snake_rest cs"

definition snake :: "string \<Rightarrow> string" where
  "snake s = (case s of [] \<Rightarrow> [] | c # cs \<Rightarrow> lower c # snake_rest cs)"

definition GROUP_FIELDS :: "string list" where
  "GROUP_FIELDS = [''hard_concurrency_limit'', ''max_queued'', ''soft_memory_limit'', ''soft_concurrency_limit'',
     ''soft_cpu_limit'', ''hard_cpu_limit'', ''scheduling_policy'', ''scheduling_weight'', ''jmx_export'']"

definition SELECTOR_FIELDS :: "string list" where
  "SELECTOR_FIELDS = [''group'', ''user'', ''original_user'', ''authenticated_user'', ''user_group'', ''source'',
     ''query_type'', ''query_text'', ''client_tags'']"

definition SETTINGS_FIELDS :: "string list" where "SETTINGS_FIELDS = [''cpu_quota_period'']"

text \<open>The fields of an object that a model has, under the model's names, and the keys it has not.\<close>

definition known_fields :: "string list \<Rightarrow> string list \<Rightarrow> json dict \<Rightarrow> json dict" where
  "known_fields known skip fs = fold (\<lambda>(k, v) d.
     if k \<notin> set skip \<and> snake k \<in> set known then AList.update (snake k) v d else d) fs []"

definition other_fields :: "string list \<Rightarrow> string list \<Rightarrow> json dict \<Rightarrow> json dict" where
  "other_fields known skip fs = filter (\<lambda>(k, v). k \<notin> set skip \<and> snake k \<notin> set known) fs"

datatype groups_error = Groups_Not_JSON | Groups_Not_An_Object | Roots_Not_A_List | Group_Not_An_Object "string option"
  | Group_Without_Name "string option" | Group_Invalid string "json dict" | Subgroups_Not_A_List string | Selectors_Not_A_List | Selector_Not_An_Object nat
  | Selector_Invalid nat "json dict"
  | Settings_Invalid \<comment> \<open>Pydantic's own exception, which is not turned into \<open>Unreadable\<close>\<close>

datatype unaccounted_group = Group_Sets string string json | Selector_On nat string json | File_Sets string json

type_synonym flat = "resource_group dict \<times> unaccounted_group list"

lemma map_of_smaller: "map_of fs k = Some (JList js) \<Longrightarrow> size_list size js < size (JObj fs)"
  by (induction fs) (auto split: if_splits)

function (sequential) flatten :: "pydantic \<Rightarrow> json \<Rightarrow> string option \<Rightarrow> flat \<Rightarrow> groups_error + flat"
  and flatten_all :: "pydantic \<Rightarrow> json list \<Rightarrow> string option \<Rightarrow> flat \<Rightarrow> groups_error + flat" where
  "flatten px (JObj fs) parent (groups, un) = (case map_of fs ''name'' of
      Some (JStr name) \<Rightarrow>
       (if name = [] then Inl (Group_Without_Name parent)
        else let full = (case parent of None \<Rightarrow> name | Some p \<Rightarrow> p @ SEPARATOR # name);
                 un' = un @ map (\<lambda>(k, v). Group_Sets full k v) (other_fields GROUP_FIELDS [''name'', ''subGroups''] fs) in
          case px_group px (known_fields GROUP_FIELDS [''name'', ''subGroups''] fs) of
            None \<Rightarrow> Inl (Group_Invalid full (known_fields GROUP_FIELDS [''name'', ''subGroups''] fs))
          | Some g \<Rightarrow> (case map_of fs ''subGroups'' of
              None \<Rightarrow> Inr (AList.update full g groups, un')
            | Some (JList subs) \<Rightarrow> flatten_all px subs (Some full) (AList.update full g groups, un')
            | Some _ \<Rightarrow> Inl (Subgroups_Not_A_List full)))
    | _ \<Rightarrow> Inl (Group_Without_Name parent))"
| "flatten px _ parent st = Inl (Group_Not_An_Object parent)"
| "flatten_all px [] parent st = Inr st"
| "flatten_all px (j # js) parent st = (case flatten px j parent st of
      Inl e \<Rightarrow> Inl e | Inr st' \<Rightarrow> flatten_all px js parent st')"
  by pat_completeness auto
termination
  by (relation "measure (case_sum (\<lambda>(px, j, _). size j) (\<lambda>(px, js, _). size_list size js))")
    (use map_of_smaller in \<open>auto simp: Let_def\<close>)

fun read_selectors ::
  "pydantic \<Rightarrow> nat \<Rightarrow> json list \<Rightarrow> unaccounted_group list \<Rightarrow> groups_error + (selector list \<times> unaccounted_group list)" where
  "read_selectors px i [] un = Inr ([], un)"
| "read_selectors px i (JObj fs # js) un = (case px_selector px (known_fields SELECTOR_FIELDS [] fs) of
      None \<Rightarrow> Inl (Selector_Invalid i (known_fields SELECTOR_FIELDS [] fs))
    | Some s \<Rightarrow> (case read_selectors px (Suc i) js (un @ map (\<lambda>(k, v). Selector_On i k v) (other_fields SELECTOR_FIELDS [] fs)) of
        Inl e \<Rightarrow> Inl e | Inr (ss, un') \<Rightarrow> Inr (s # ss, un')))"
| "read_selectors px i (_ # js) un = Inl (Selector_Not_An_Object i)"

text \<open>\<open>document.get(key, [])\<close>, where it has to be a list.\<close>

definition list_at :: "json dict \<Rightarrow> string \<Rightarrow> json list option" where
  "list_at document key = (case map_of document key of
      None \<Rightarrow> Some [] | Some (JList js) \<Rightarrow> Some js | Some _ \<Rightarrow> None)"

definition parse_group_rules ::
  "pydantic \<Rightarrow> json option \<Rightarrow> groups_error + (group_resource resources \<times> unaccounted_group list)" where
  "parse_group_rules px content = (case content of
      None \<Rightarrow> Inl Groups_Not_JSON
    | Some (JObj document) \<Rightarrow> (case list_at document ''rootGroups'' of
        None \<Rightarrow> Inl Roots_Not_A_List
      | Some roots \<Rightarrow> (case flatten_all px roots None ([], []) of
          Inl e \<Rightarrow> Inl e
        | Inr (groups, un) \<Rightarrow> (case list_at document ''selectors'' of
            None \<Rightarrow> Inl Selectors_Not_A_List
          | Some raw \<Rightarrow> (case read_selectors px 0 raw un of
              Inl e \<Rightarrow> Inl e
            | Inr (selectors, un') \<Rightarrow> (case px_settings px (known_fields SETTINGS_FIELDS [] document) of
                None \<Rightarrow> Inl Settings_Invalid
              | Some period \<Rightarrow>
                  Inr (store_selectors (store_settings (map (\<lambda>(k, g). (k, Group g)) groups) period) selectors,
                    un' @ map (\<lambda>(k, v). File_Sets k v) (other_fields SETTINGS_FIELDS [''rootGroups'', ''selectors''] document)))))))
    | Some _ \<Rightarrow> Inl Groups_Not_An_Object)"

section \<open>Where a query lands\<close>

record query_facts =
  qf_user :: string
  qf_source :: string
  qf_text :: string
  qf_type :: string
  qf_tags :: "string list"

text \<open>\<open>re.fullmatch\<close>, a parameter: \<open>None\<close> where the expression does not compile, which is unpredictable.\<close>

definition text_matches :: "(string \<Rightarrow> string \<Rightarrow> bool option) \<Rightarrow> string option \<Rightarrow> string \<Rightarrow> bool option" where
  "text_matches full pattern value = (case pattern of None \<Rightarrow> Some True | Some p \<Rightarrow> full p value)"

text \<open>The conditions in the code's order: a field is not evaluated once an earlier one failed.\<close>

fun all_match :: "bool option list \<Rightarrow> bool option" where
  "all_match [] = Some True"
| "all_match (None # ms) = None"
| "all_match (Some False # ms) = Some False"
| "all_match (Some True # ms) = all_match ms"

definition selector_matches :: "(string \<Rightarrow> string \<Rightarrow> bool option) \<Rightarrow> query_facts \<Rightarrow> selector \<Rightarrow> bool option" where
  "selector_matches full q s = all_match
     [text_matches full (sl_user s) (qf_user q), text_matches full (sl_source s) (qf_source q),
      text_matches full (sl_query_text s) (qf_text q),
      Some (each_opt (\<lambda>t. t = qf_type q) (sl_query_type s)),
      Some (each_opt (\<lambda>tags. set tags \<subseteq> set (qf_tags q)) (sl_client_tags s))]"

definition unknowable :: "selector \<Rightarrow> bool" where
  "unknowable s \<longleftrightarrow> sl_user_group s \<noteq> None \<or> sl_authenticated_user s \<noteq> None \<or> sl_original_user s \<noteq> None"

text \<open>\<open>None\<close> is \<open>Unpredictable\<close>; \<open>Some None\<close> that no selector matches.\<close>

fun group_for ::
  "(string \<Rightarrow> string \<Rightarrow> bool option) \<Rightarrow> query_facts \<Rightarrow> selector list \<Rightarrow> string option option" where
  "group_for full q [] = Some None"
| "group_for full q (s # ss) = (if unknowable s then None else case selector_matches full q s of
      None \<Rightarrow> None
    | Some True \<Rightarrow> Some (Some (sl_group s))
    | Some False \<Rightarrow> group_for full q ss)"

section \<open>The Section\<close>

record groups_plan =
  gp_groups :: named_plan
  gp_selectors :: bool

definition groups_plan_empty :: "groups_plan \<Rightarrow> bool" where
  "groups_plan_empty p \<longleftrightarrow> named_plan_empty (gp_groups p) \<and> \<not> gp_selectors p"

definition plan_groups :: "group_resource resources \<Rightarrow> group_resource resources \<Rightarrow> groups_plan" where
  "plan_groups desired current = \<lparr>gp_groups = named_diff (=) (groups_of desired) (groups_of current),
     gp_selectors = (selectors_of desired \<noteq> selectors_of current)\<rparr>"

definition groups_coordinator_files :: "settings \<Rightarrow> delivery list" where
  "groups_coordinator_files s =
     (if st_groups_from_deployment s
      then [Directory \<lparr>cd_secret = st_groups_secret s, cd_path = RULES_DIR,
              cd_probe_files = [(MANAGER_PATH, MANAGER_FILE_IN_DIR)], cd_probe_config = [], cd_credentials = False\<rparr>]
      else map (\<lambda>p. File \<lparr>cf_secret = st_groups_secret s, cf_volume = st_groups_volume s, cf_path = p,
              cf_probe_config = [], cf_credentials = False\<rparr>) [RULES_PATH, MANAGER_PATH])"

definition groups_files ::
  "(string \<Rightarrow> string) \<Rightarrow> group_resource resources \<Rightarrow> settings \<Rightarrow> string dict" where
  "groups_files camel desired s =
     (if st_groups_from_deployment s then render_rules_only camel desired else render_groups camel desired)"

definition groups_rules_path :: "settings \<Rightarrow> string" where
  "groups_rules_path s = (if st_groups_from_deployment s then RULES_IN_DIR else RULES_PATH)"

definition groups_discover_paths :: "settings \<Rightarrow> string dict \<Rightarrow> discovered_paths" where
  "groups_discover_paths s properties = (let ours = groups_rules_path s in
     case map_of properties ''resource-groups.config-file'' of
       Some named \<Rightarrow> if named \<noteq> [] then at_files [(ours, named), (MANAGER_PATH, MANAGER_PATH)] None
         else at_files [(ours, ours), (MANAGER_PATH, MANAGER_PATH)] (Some (''no resource-groups.config-file property was found, so this is where ''
          @ ''Apchi would put the rules rather than where the Cluster says they are''))
     | None \<Rightarrow> at_files [(ours, ours), (MANAGER_PATH, MANAGER_PATH)]
         (Some (''no resource-groups.config-file property was found, so this is where ''
          @ ''Apchi would put the rules rather than where the Cluster says they are'')))"

text \<open>The Section's \<open>parse_files\<close>: the rules are the configuration, the properties file only points at them.\<close>

datatype unaccounted_groups_file = Dangling_Manager string | In_Rules unaccounted_group

definition groups_parse_files ::
  "pydantic \<Rightarrow> (string \<Rightarrow> json option) \<Rightarrow> string dict \<Rightarrow> settings \<Rightarrow>
     groups_error + (group_resource resources \<times> unaccounted_groups_file list)" where
  "groups_parse_files px loads files s = (case map_of files (groups_rules_path s) of
      None \<Rightarrow> (case map_of files MANAGER_PATH of
          None \<Rightarrow> Inr ([], []) | Some manager \<Rightarrow> Inr ([], [Dangling_Manager manager]))
    | Some content \<Rightarrow> (case parse_group_rules px (loads content) of
          Inl e \<Rightarrow> Inl e | Inr (resources, un) \<Rightarrow> Inr (resources, map In_Rules un)))"

definition uses_cpu_limit :: "resource_group \<Rightarrow> bool" where
  "uses_cpu_limit g \<longleftrightarrow> (case rg_soft_cpu_limit g of None \<Rightarrow> False | Some s \<Rightarrow> s \<noteq> [])
     \<or> (case rg_hard_cpu_limit g of None \<Rightarrow> False | Some s \<Rightarrow> s \<noteq> [])"

definition group_failure :: "string \<Rightarrow> string \<Rightarrow> validation_failure" where
  "group_failure place why = \<lparr>vf_section = Some RESOURCE_GROUPS, vf_resource = Some place, vf_reason = why\<rparr>"

text \<open>\<open>repr\<close> of a string, up to escapes.\<close>

definition quoted :: "string \<Rightarrow> string" where
  "quoted s = [CHR 0x27] @ s @ [CHR 0x27]"

definition selector_failure :: "group_resource resources \<Rightarrow> nat \<times> selector \<Rightarrow> validation_failure list" where
  "selector_failure desired = (\<lambda>(i, s).
     let place = SELECTORS @ ''['' @ show_nat i @ '']''; target = sl_group s in
     if \<not> has_key (groups_of desired) target
     then [group_failure place (''names resource group '' @ quoted target @ '', which is not configured.'')]
     else if children_of (sorted_keys (groups_of desired)) target \<noteq> []
     then [group_failure place (''names resource group '' @ quoted target
       @ '', which has subgroups. Only a group with no subgroups accepts queries.'')]
     else [])"

definition groups_check :: "group_resource resources \<Rightarrow> validation_failure list" where
  "groups_check desired =
     (if settings_of desired = None
      then map (\<lambda>p. group_failure p (''sets a CPU limit, but no CPU quota period is configured. Trino ''
          @ ''refuses to start without one.''))
        (filter (\<lambda>p. uses_cpu_limit (the (map_of (groups_of desired) p))) (sorted_keys (groups_of desired)))
      else [])
     @ concat (map (selector_failure desired) (enumerate 0 (selectors_of desired)))"

definition groups_needs_probe :: "group_resource resources \<Rightarrow> bool" where
  "groups_needs_probe desired \<longleftrightarrow> groups_of desired \<noteq> [] \<or> selectors_of desired \<noteq> []"

text \<open>The smoke query that Verification ran, and the group Trino filed it under.\<close>

definition smoke_facts :: "settings \<Rightarrow> query_facts" where
  "smoke_facts s = \<lparr>qf_user = st_trino_user s, qf_source = ''apchi'',
     qf_text = ''SELECT 1 FROM '' @ [CHR 0x22] @ st_verification_catalog s @ [CHR 0x22] @ ''.runtime.nodes LIMIT 1'',
     qf_type = ''SELECT'', qf_tags = []\<rparr>"

definition smoke_group :: "('r, 'e, string option) act" where
  "smoke_group = trino (asks (\<lambda>w. case w_smoke_group w of
      None \<Rightarrow> None | Some segments \<Rightarrow> if segments = [] then None else Some (join_with [SEPARATOR] segments)))"

definition groups_verify ::
  "(string \<Rightarrow> string \<Rightarrow> bool option) \<Rightarrow> cluster \<Rightarrow> group_resource resources \<Rightarrow> ('r, 'e, string list) act" where
  "groups_verify full cl desired =
     (if selectors_of desired = [] then ret []
      else case group_for full (smoke_facts (cl_settings cl)) (selectors_of desired) of
        None \<Rightarrow> ret []
      | Some None \<Rightarrow> ret []
      | Some (Some expected) \<Rightarrow> bind_io smoke_group (\<lambda>reached. case reached of
          None \<Rightarrow> ret []
        | Some r \<Rightarrow> ret (if r \<noteq> expected then [''The verification query ran in resource group '' @ quoted r @ '', but the selectors put it in ''
              @ quoted expected @ ''. The coordinator is not running the resource group configuration this Apply delivered.'']
            else [])))"

end
