(* ===== verification/Resource_Groups_Correct.thy ===== *)
theory Resource_Groups_Correct
  imports Resource_Groups "HOL-Library.Sublist"
begin

text \<open>
  The Resource Groups Section is right: what is staged is always a tree, the file written for it
  reads back as exactly what was staged, a check that passes leaves selectors Trino accepts, and a
  predicted group is the one Trino would choose.
\<close>

section \<open>Paths\<close>

lemma path_join:
  "(case parent_of path of None \<Rightarrow> leaf_of path | Some p \<Rightarrow> p @ SEPARATOR # leaf_of path) = path"
proof -
  let ?d = "dropWhile (\<lambda>c. c \<noteq> SEPARATOR) (rev path)" and ?t = "takeWhile (\<lambda>c. c \<noteq> SEPARATOR) (rev path)"
  have split: "path = rev ?d @ rev ?t" by (metis rev_append rev_rev_ident takeWhile_dropWhile_id)
  show ?thesis
  proof (cases ?d)
    case Nil
    then have "parent_of path = None" by (simp add: parent_of_def del: dropWhile_eq_Nil_conv)
    moreover have "path = rev ?t" using split unfolding Nil by simp
    ultimately show ?thesis by (simp add: leaf_of_def)
  next
    case (Cons c h)
    then have "c = SEPARATOR" using hd_dropWhile [of "\<lambda>c. c \<noteq> SEPARATOR" "rev path"] by simp
    then show ?thesis using split Cons by (simp add: parent_of_def leaf_of_def)
  qed
qed

text \<open>\<open>q\<close> is \<open>path\<close> or below it.\<close>

inductive under :: "string \<Rightarrow> string \<Rightarrow> bool" for path where
  here: "under path path"
| below: "parent_of q = Some p \<Longrightarrow> under path p \<Longrightarrow> under path q"

lemma under_child: "parent_of c = Some path \<Longrightarrow> under c q \<Longrightarrow> under path q"
  by (rotate_tac, induction rule: under.induct) (auto intro: under.intros)

definition closed :: "string list \<Rightarrow> bool" where
  "closed paths \<longleftrightarrow> (\<forall>q \<in> set paths. \<forall>p. parent_of q = Some p \<longrightarrow> p \<in> set paths)"

lemma under_split:
  assumes "closed paths" and "q \<in> set paths"
  shows "under path q \<longleftrightarrow> q = path \<or> (\<exists>c \<in> set paths. parent_of c = Some path \<and> under c q)"
proof
  assume "under path q"
  then show "q = path \<or> (\<exists>c \<in> set paths. parent_of c = Some path \<and> under c q)"
    using assms(2)
  proof induction
    case (below q p)
    then have "p \<in> set paths" using assms(1) by (auto simp: closed_def)
    with below show ?case by (blast intro: under.intros)
  qed simp
qed (auto intro: under.intros under_child)

lemma under_root:
  assumes "closed paths"
  shows "q \<in> set paths \<Longrightarrow> \<exists>r \<in> set paths. parent_of r = None \<and> under r q"
proof (induction q rule: length_induct)
  case (1 q)
  show ?case
  proof (cases "parent_of q")
    case None
    then show ?thesis using 1(2) by (auto intro: under.here)
  next
    case (Some p)
    then have "p \<in> set paths" "length p < length q"
      using assms 1(2) parent_shorter by (auto simp: closed_def)
    then show ?thesis using 1(1) Some by (blast intro: under.below)
  qed
qed

section \<open>Fields through the file\<close>

text \<open>What is relied on of Pydantic: the aliases come back by \<open>_snake\<close> and name no key of the
  document's own, and a dumped model validates to itself.\<close>

definition faithful :: "pydantic \<Rightarrow> bool" where
  "faithful px \<longleftrightarrow>
     list_all (\<lambda>n. snake (px_camel px n) = n
         \<and> px_camel px n \<notin> {''name'', ''subGroups'', ''rootGroups'', ''selectors''})
       (GROUP_FIELDS @ SELECTOR_FIELDS @ SETTINGS_FIELDS)
     \<and> (\<forall>g. group_ok g \<longrightarrow> px_group px (group_fields g) = Some g)
     \<and> (\<forall>s. selector_ok s \<longrightarrow> px_selector px (selector_fields s) = Some s)
     \<and> (\<forall>p. px_settings px (settings_fields p) = Some p)"

lemma known_of_trino:
  assumes "list_all (\<lambda>n. snake (camel n) = n \<and> camel n \<notin> set skip) (map fst fs)"
    and "set (map fst fs) \<subseteq> set known" and "distinct (map fst fs)"
  shows "known_fields known skip (trino_fields camel fs) = fs"
proof -
  have "fold (\<lambda>(k, v) d. if k \<notin> set skip \<and> snake k \<in> set known then AList.update (snake k) v d else d)
      (trino_fields camel fs) d = d @ fs" if "set (map fst d) \<inter> set (map fst fs) = {}" for d
    using assms that
    by (induction fs arbitrary: d) (auto simp: trino_fields_def update_fresh)
  from this [of "[]"] show ?thesis by (simp add: known_fields_def)
qed

lemma known_fields_skip: "set (map fst extra) \<subseteq> set skip \<union> {k. snake k \<notin> set known} \<Longrightarrow>
    known_fields known skip (extra @ fs @ extra') = fold (\<lambda>(k, v) d.
     if k \<notin> set skip \<and> snake k \<in> set known then AList.update (snake k) v d else d) extra' (known_fields known skip fs)"
proof -
  assume "set (map fst extra) \<subseteq> set skip \<union> {k. snake k \<notin> set known}"
  then have "fold (\<lambda>(k, v) d. if k \<notin> set skip \<and> snake k \<in> set known then AList.update (snake k) v d else d) extra d = d" for d
    by (induction extra) auto
  then show ?thesis by (simp add: known_fields_def)
qed

lemma subseq_names:
  assumes "subseq xs ys" and "distinct ys"
  shows "set xs \<subseteq> set ys" "distinct xs"
proof -
  have "xs \<in> set (subseqs ys)" using assms(1) by (simp add: set_subseqs_eq)
  then show "set xs \<subseteq> set ys" "distinct xs"
    using assms(2) subseqs_powset [of ys] subseqs_distinctD [of xs ys] by auto
qed

lemma subseq_some_field: "subseq (map fst (some_field n f x)) [n]"
  by (simp add: some_field_def split: option.split)

lemma subseq_append: "subseq xs [y] \<Longrightarrow> subseq xs' ys \<Longrightarrow> subseq (xs @ xs') (y # ys)"
  using list_emb_append_mono [of "(=)" xs "[y]" xs' ys] by simp

lemma field_names:
  "subseq (map fst (group_fields g)) GROUP_FIELDS" "subseq (map fst (selector_fields s)) SELECTOR_FIELDS"
  "subseq (map fst (settings_fields p)) SETTINGS_FIELDS"
  unfolding group_fields_def selector_fields_def settings_fields_def GROUP_FIELDS_def SELECTOR_FIELDS_def
    SETTINGS_FIELDS_def map_append
  by (intro subseq_append subseq_some_field; simp)+

lemma distinct_fields: "distinct GROUP_FIELDS" "distinct SELECTOR_FIELDS" "distinct SETTINGS_FIELDS"
  by (simp_all add: GROUP_FIELDS_def SELECTOR_FIELDS_def SETTINGS_FIELDS_def)

section \<open>A group and what is below it\<close>

definition sound_groups :: "resource_group dict \<Rightarrow> bool" where
  "sound_groups groups \<longleftrightarrow> closed (map fst groups)
     \<and> (\<forall>(k, g) \<in> set groups. leaf_of k \<noteq> [] \<and> group_ok g)"

text \<open>Every group of \<open>paths\<close> that satisfies \<open>P\<close> has been read.\<close>

definition reads ::
  "resource_group dict \<Rightarrow> string list \<Rightarrow> (string \<Rightarrow> bool) \<Rightarrow> flat \<Rightarrow> groups_error + flat \<Rightarrow> bool" where
  "reads groups paths P st res \<longleftrightarrow> (\<exists>st'. res = Inr st' \<and> snd st' = snd st
     \<and> map_of (fst st') = (\<lambda>q. if q \<in> set paths \<and> P q then map_of groups q else map_of (fst st) q))"

lemma readsE:
  assumes "reads groups paths P (gs, un) res"
  obtains gs' where "res = Inr (gs', un)"
    and "\<And>q. map_of gs' q = (if q \<in> set paths \<and> P q then map_of groups q else map_of gs q)"
proof -
  from assms obtain st where st: "res = Inr st" "snd st = un"
    "map_of (fst st) = (\<lambda>q. if q \<in> set paths \<and> P q then map_of groups q else map_of gs q)"
    unfolding reads_def fst_conv snd_conv by blast
  show ?thesis
  proof (rule that [of "fst st"])
    show "res = Inr (fst st, un)" using st by (simp add: prod_eq_iff)
    show "map_of (fst st) q = (if q \<in> set paths \<and> P q then map_of groups q else map_of gs q)" for q
      using fun_cong [OF st(3), of q] .
  qed
qed

lemma spec_fields:
  assumes px: "faithful px" and g: "group_ok g"
    and fs_def: "fs = [(''name'', JStr n)] @ trino_fields (px_camel px) (group_fields g)
    @ (if subs = [] then [] else [(''subGroups'', JList subs)])"
  shows "known_fields GROUP_FIELDS [''name'', ''subGroups''] fs = group_fields g"
    and "other_fields GROUP_FIELDS [''name'', ''subGroups''] fs = []"
    and "map_of fs ''name'' = Some (JStr n)"
    and "map_of fs ''subGroups'' = (if subs = [] then None else Some (JList subs))"
proof -
  let ?camel = "px_camel px"
  have camel: "snake (?camel k) = k" "?camel k \<noteq> ''name''" "?camel k \<noteq> ''subGroups''" if "k \<in> set GROUP_FIELDS" for k
    using px that by (auto simp: faithful_def list_all_iff)
  have names: "fst ` set (group_fields g) \<subseteq> set GROUP_FIELDS" "distinct (map fst (group_fields g))"
    using subseq_names [OF field_names(1) distinct_fields(1), of g] by auto
  have "list_all (\<lambda>n. snake (?camel n) = n \<and> ?camel n \<notin> set [''name'', ''subGroups'']) (map fst (group_fields g))"
    using camel names(1) by (auto simp: list_all_iff)
  then have "known_fields GROUP_FIELDS [''name'', ''subGroups''] (trino_fields ?camel (group_fields g)) = group_fields g"
    using names by (intro known_of_trino) auto
  then show "known_fields GROUP_FIELDS [''name'', ''subGroups''] fs = group_fields g"
    unfolding fs_def by (subst known_fields_skip) auto
  show "other_fields GROUP_FIELDS [''name'', ''subGroups''] fs = []"
    using camel names(1) by (auto simp: fs_def other_fields_def trino_fields_def filter_empty_conv)
  show "map_of fs ''name'' = Some (JStr n)" by (simp add: fs_def)
  have "''subGroups'' \<notin> fst ` set (trino_fields ?camel (group_fields g))"
    using camel(3) names(1) by (auto simp: trino_fields_def) (metis camel(3) fst_conv image_subset_iff)
  then show "map_of fs ''subGroups'' = (if subs = [] then None else Some (JList subs))"
    by (auto simp: fs_def map_add_def map_of_eq_None_iff [THEN iffD2] split: option.split)
qed

lemma reads_all:
  assumes "\<And>c st. c \<in> set cs \<Longrightarrow> reads groups paths (under c) st (flatten px (spec c) parent st)"
  shows "reads groups paths (\<lambda>q. \<exists>c \<in> set cs. under c q) st (flatten_all px (map spec cs) parent st)"
  using assms
proof (induction cs arbitrary: st)
  case (Cons c cs)
  obtain st1 where st1: "flatten px (spec c) parent st = Inr st1" "snd st1 = snd st"
    "map_of (fst st1) = (\<lambda>q. if q \<in> set paths \<and> under c q then map_of groups q else map_of (fst st) q)"
    using Cons.prems [of c st] by (auto simp: reads_def)
  have "reads groups paths (\<lambda>q. \<exists>c \<in> set cs. under c q) st1 (flatten_all px (map spec cs) parent st1)"
    using Cons.prems by (intro Cons.IH) auto
  then show ?case by (auto simp: reads_def st1 fun_eq_iff)
qed (simp add: reads_def)

lemma flatten_group:
  assumes "map_of fs ''name'' = Some (JStr name)" and "name \<noteq> []"
    and "other_fields GROUP_FIELDS [''name'', ''subGroups''] fs = []"
    and "px_group px (known_fields GROUP_FIELDS [''name'', ''subGroups''] fs) = Some g"
    and "map_of fs ''subGroups'' = (if subs = [] then None else Some (JList subs))"
    and "(case parent of None \<Rightarrow> name | Some p \<Rightarrow> p @ SEPARATOR # name) = full"
  shows "flatten px (JObj fs) parent (gs, un) = flatten_all px subs (Some full) (AList.update full g gs, un)"
  using assms(1-5) unfolding assms(6) [symmetric] by (cases "subs = []") (simp_all add: Let_def)

lemma reads_spec:
  assumes px: "faithful px" and sound: "sound_groups groups"
  shows "camel = px_camel px \<Longrightarrow> paths = sorted_keys groups \<Longrightarrow> path \<in> set paths \<Longrightarrow>
    reads groups paths (under path) st (flatten px (group_spec camel groups paths path) (parent_of path) st)"
  using sound
proof (induction camel groups paths path arbitrary: st rule: group_spec.induct)
  case (1 camel groups paths path)
  obtain gs un where st: "st = (gs, un)" by (cases st)
  let ?cs = "sort (children_of paths path)"
  let ?st = "(AList.update path (the (map_of groups path)) gs, un)"
  have "path \<in> fst ` set groups" using 1 by simp
  then obtain g where g: "map_of groups path = Some g" by (metis map_of_eq_None_iff not_None_eq)
  then have ok: "leaf_of path \<noteq> []" "group_ok g"
    using "1.prems"(4) map_of_SomeD [OF g] by (auto simp: sound_groups_def)
  have child: "parent_of c = Some path" "c \<in> set paths" if "c \<in> set ?cs" for c
    using that by (auto simp: children_of_def)
  have "reads groups paths (\<lambda>q. \<exists>c \<in> set ?cs. under c q) ?st
      (flatten_all px (map (group_spec camel groups paths) ?cs) (Some path) ?st)"
  proof (rule reads_all)
    fix c st' assume c: "c \<in> set ?cs"
    show "reads groups paths (under c) st' (flatten px (group_spec camel groups paths c) (Some path) st')"
      using "1.IH" [OF c "1.prems"(1,2) child(2) [OF c] "1.prems"(4), of st'] child(1) [OF c] by simp
  qed
  moreover have "closed paths" using "1.prems"(2,4) by (simp add: sound_groups_def closed_def)
  then have "under path q \<longleftrightarrow> q = path \<or> (\<exists>c \<in> set ?cs. under c q)" if "q \<in> set paths" for q
    using under_split [of paths q path] that by (auto simp: children_of_def)
  ultimately have below: "reads groups paths (under path) st
      (flatten_all px (map (group_spec camel groups paths) ?cs) (Some path) ?st)"
    using g "1.prems"(3) under.here [of path] by (auto simp: reads_def st fun_eq_iff)
  have full: "(case parent_of path of None \<Rightarrow> leaf_of path | Some p \<Rightarrow> p @ SEPARATOR # leaf_of path) = path"
    by (rule path_join)
  note fields = spec_fields [OF px ok(2) refl, of "leaf_of path" "map (group_spec camel groups paths) ?cs",
      folded "1.prems"(1)]
  have "px_group px (group_fields g) = Some g" using px ok(2) by (simp add: faithful_def)
  then have "flatten px (group_spec camel groups paths path) (parent_of path) st =
      flatten_all px (map (group_spec camel groups paths) ?cs) (Some path) ?st"
    unfolding group_spec.simps [of camel groups paths path] st g option.sel Let_def
    by (intro flatten_group [OF fields(3) ok(1) fields(2) _ fields(4) full]) (simp only: fields(1))
  with below show ?case by simp
qed

section \<open>The whole file\<close>

fun entry_ok :: "(string \<Rightarrow> bool) \<Rightarrow> string \<Rightarrow> group_resource \<Rightarrow> bool" where
  "entry_ok known k (Group g) = (\<not> reserved_key k \<and> leaf_of k \<noteq> [] \<and> group_ok g \<and> each_opt known (parent_of k))"
| "entry_ok known k (Selector_list ss) = (k = SELECTORS \<and> ss \<noteq> [] \<and> list_all selector_ok ss)"
| "entry_ok known k (Quota_period p) = (k = SETTINGS \<and> p \<noteq> None)"

definition is_group :: "group_resource resources \<Rightarrow> string \<Rightarrow> bool" where
  "is_group stored k \<longleftrightarrow> \<not> reserved_key k \<and> (case map_of stored k of Some (Group g) \<Rightarrow> True | _ \<Rightarrow> False)"

definition tree_ok :: "group_resource resources \<Rightarrow> bool" where
  "tree_ok stored \<longleftrightarrow> wf_dict stored
     \<and> (\<forall>k v. map_of stored k = Some v \<longrightarrow> entry_ok (is_group stored) k v)"

lemma keys_distinct [simp]: "SELECTORS \<noteq> SETTINGS"
  by (simp add: SELECTORS_def SETTINGS_def)

lemma in_groups_of: "(k, g) \<in> set (groups_of stored) \<longleftrightarrow> (k, Group g) \<in> set stored \<and> \<not> reserved_key k"
  by (force simp: groups_of_def List.map_filter_def split: group_resource.splits if_splits)

lemma groups_of_Cons: "groups_of ((k, v) # stored) = (case v of
    Group g \<Rightarrow> if reserved_key k then groups_of stored else (k, g) # groups_of stored
  | _ \<Rightarrow> groups_of stored)"
  by (simp add: groups_of_def List.map_filter_def split: group_resource.split)

lemma groups_of_Nil: "groups_of [] = []"
  by (simp add: groups_of_def List.map_filter_def)

lemma groups_of_keys: "fst ` set (groups_of stored) \<subseteq> fst ` set stored"
  by (force simp: in_groups_of)

lemma map_of_groups_of:
  "wf_dict stored \<Longrightarrow> map_of (groups_of stored) k = (case map_of stored k of
      Some (Group g) \<Rightarrow> if reserved_key k then None else Some g | _ \<Rightarrow> None)"
proof (induction stored)
  case (Cons kv stored)
  obtain k' v where kv: "kv = (k', v)" by (cases kv)
  have wf: "wf_dict stored" "k' \<notin> fst ` set stored" using Cons.prems by (simp_all add: wf_dict_def kv)
  have gone: "map_of stored k' = None" "map_of (groups_of stored) k' = None"
    using wf(2) groups_of_keys [of stored] unfolding map_of_None_iff by auto
  show ?case
    by (cases "k = k'"; cases v) (simp_all add: kv groups_of_Cons Cons.IH [OF wf(1)] gone)
qed (simp add: groups_of_Nil)

lemma has_group: "wf_dict stored \<Longrightarrow> has_key (groups_of stored) k \<longleftrightarrow> is_group stored k"
  using map_of_None_iff [of "groups_of stored" k]
  by (auto simp: is_group_def map_of_groups_of split: option.splits group_resource.splits if_splits)

text \<open>A well-formed Section is its groups, its settings and its selectors, and nothing else.\<close>

lemma tree_okD: "tree_ok stored \<Longrightarrow> map_of stored k = Some v \<Longrightarrow> entry_ok (is_group stored) k v"
  by (simp add: tree_ok_def)

lemma map_of_stored:
  assumes ok: "tree_ok stored"
  shows "map_of stored k =
    (if k = SELECTORS then (if selectors_of stored = [] then None else Some (Selector_list (selectors_of stored)))
     else if k = SETTINGS then map_option (\<lambda>p. Quota_period (Some p)) (settings_of stored)
     else map_option Group (map_of (groups_of stored) k))"
proof -
  have wf: "wf_dict stored" using ok by (simp add: tree_ok_def)
  show ?thesis
  proof (cases "map_of stored k")
    case None
    then show ?thesis
      by (cases "k = SELECTORS"; cases "k = SETTINGS")
        (simp_all add: map_of_groups_of [OF wf] selectors_of_def settings_of_def)
  next
    case (Some v)
    note inv = tree_okD [OF ok Some]
    show ?thesis
    proof (cases v)
      case (Group g)
      then show ?thesis using inv Some by (simp add: map_of_groups_of [OF wf] reserved_key_def)
    next
      case (Selector_list ss)
      then show ?thesis using inv Some by (simp add: selectors_of_def)
    next
      case (Quota_period p)
      then show ?thesis using inv Some by (auto simp: settings_of_def keys_distinct [symmetric])
    qed
  qed
qed

lemma tree_ok_sound:
  assumes ok: "tree_ok stored"
  shows "sound_groups (groups_of stored)"
proof -
  have wf: "wf_dict stored" using ok by (simp add: tree_ok_def)
  have group: "leaf_of k \<noteq> [] \<and> group_ok g \<and> each_opt (has_key (groups_of stored)) (parent_of k)"
    if "(k, g) \<in> set (groups_of stored)" for k g
  proof -
    have "map_of stored k = Some (Group g)"
      using that wf by (simp add: in_groups_of wf_dict_def)
    from tree_okD [OF ok this] show ?thesis using has_group [OF wf] by (auto simp: each_opt_def split: option.splits)
  qed
  have "closed (map fst (groups_of stored))"
    unfolding closed_def
  proof (intro ballI allI impI)
    fix q p assume "q \<in> set (map fst (groups_of stored))" and p: "parent_of q = Some p"
    then obtain g where "(q, g) \<in> set (groups_of stored)" by auto
    from group [OF this] p show "p \<in> set (map fst (groups_of stored))" by (simp add: each_opt_def)
  qed
  with group show ?thesis unfolding sound_groups_def by blast
qed

lemma read_all_selectors:
  assumes px: "faithful px"
  shows "list_all selector_ok ss \<Longrightarrow>
    read_selectors px i (map (\<lambda>s. JObj (trino_fields (px_camel px) (selector_fields s))) ss) un = Inr (ss, un)"
proof (induction ss arbitrary: i)
  case (Cons s ss)
  have camel: "snake (px_camel px k) = k" if "k \<in> set SELECTOR_FIELDS" for k
    using px that by (auto simp: faithful_def list_all_iff)
  have names: "fst ` set (selector_fields s) \<subseteq> set SELECTOR_FIELDS" "distinct (map fst (selector_fields s))"
    using subseq_names [OF field_names(2) distinct_fields(2), of s] by auto
  have "known_fields SELECTOR_FIELDS [] (trino_fields (px_camel px) (selector_fields s)) = selector_fields s"
    using camel names by (intro known_of_trino) (auto simp: list_all_iff)
  moreover have "other_fields SELECTOR_FIELDS [] (trino_fields (px_camel px) (selector_fields s)) = []"
    using camel names(1) by (auto simp: other_fields_def trino_fields_def filter_empty_conv)
  moreover have "px_selector px (selector_fields s) = Some s" using px Cons.prems by (simp add: faithful_def)
  ultimately show ?case using Cons by simp
qed simp

lemma document_fields:
  assumes px: "faithful px" and fs: "fs = trino_fields (px_camel px) (settings_fields p)
    @ [(''rootGroups'', roots), (''selectors'', sels)]"
  shows "known_fields SETTINGS_FIELDS [] fs = settings_fields p"
    and "other_fields SETTINGS_FIELDS [''rootGroups'', ''selectors''] fs = []"
    and "map_of fs ''rootGroups'' = Some roots" and "map_of fs ''selectors'' = Some sels"
proof -
  have camel: "snake (px_camel px ''cpu_quota_period'') = ''cpu_quota_period''"
    "px_camel px ''cpu_quota_period'' \<notin> {''rootGroups'', ''selectors''}"
    using px by (auto simp: faithful_def SETTINGS_FIELDS_def)
  have own: "snake ''rootGroups'' \<notin> set SETTINGS_FIELDS" "snake ''selectors'' \<notin> set SETTINGS_FIELDS" by code_simp+
  show "known_fields SETTINGS_FIELDS [] fs = settings_fields p"
    "other_fields SETTINGS_FIELDS [''rootGroups'', ''selectors''] fs = []"
    "map_of fs ''rootGroups'' = Some roots" "map_of fs ''selectors'' = Some sels"
    using camel own
    by (auto simp: fs known_fields_def other_fields_def settings_fields_def some_field_def trino_fields_def
        SETTINGS_FIELDS_def split: option.splits)
qed

lemma groups_roundtrip:
  assumes px: "faithful px" and ok: "tree_ok stored"
  shows "\<exists>res. parse_group_rules px (Some (groups_document (px_camel px) stored)) = Inr (res, [])
    \<and> map_of res = map_of stored"
proof -
  let ?groups = "groups_of stored" and ?paths = "sorted_keys (groups_of stored)"
  let ?roots = "filter (\<lambda>p. parent_of p = None) ?paths"
  note sound = tree_ok_sound [OF ok]
  then have closed: "closed ?paths" by (simp add: sound_groups_def closed_def)
  have "reads ?groups ?paths (\<lambda>q. \<exists>c \<in> set ?roots. under c q) ([], [])
      (flatten_all px (map (group_spec (px_camel px) ?groups ?paths) ?roots) None ([], []))"
  proof (rule reads_all)
    fix c st assume "c \<in> set ?roots"
    then have "c \<in> set ?paths" "parent_of c = None" by auto
    then show "reads ?groups ?paths (under c) st (flatten px (group_spec (px_camel px) ?groups ?paths c) None st)"
      using reads_spec [OF px sound refl refl, of c st] by simp
  qed
  then obtain groups where flat: "flatten_all px (map (group_spec (px_camel px) ?groups ?paths) ?roots) None ([], [])
      = Inr (groups, [])"
    and read: "\<And>q. map_of groups q = (if q \<in> set ?paths \<and> (\<exists>c \<in> set ?roots. under c q)
      then map_of ?groups q else map_of [] q)"
    by (elim readsE) blast
  have "\<exists>c \<in> set ?roots. under c q" if "q \<in> set ?paths" for q
    using under_root [OF closed that] by auto
  then have "map_of groups q = map_of ?groups q" for q
    unfolding read map_of_None_iff [of ?groups, symmetric]
    by (cases "q \<in> set ?paths") (simp_all add: map_of_eq_None_iff [of ?groups, THEN iffD2])
  then have groups: "map_of groups = map_of ?groups" by blast
  have sels: "list_all selector_ok (selectors_of stored)"
  proof (cases "map_of stored SELECTORS")
    case (Some v)
    then show ?thesis using tree_okD [OF ok Some]
      by (cases v) (auto simp: selectors_of_def)
  qed (simp add: selectors_of_def)
  let ?res = "store_selectors (store_settings (map (\<lambda>(k, g). (k, Group g)) groups) (settings_of stored)) (selectors_of stored)"
  note fields = document_fields [OF px refl]
  have period: "px_settings px (settings_fields (settings_of stored)) = Some (settings_of stored)"
    using px by (simp add: faithful_def)
  have parse: "parse_group_rules px (Some (groups_document (px_camel px) stored)) = Inr (?res, [])"
    unfolding parse_group_rules_def groups_document_def Let_def option.case json.case list_at_def fields
    by (simp add: flat read_all_selectors [OF px sels] period)
  have "map_of (map (\<lambda>(k, g). (k, Group g)) groups) k = map_option Group (map_of ?groups k)" for k
    unfolding groups [symmetric] by (induction groups) auto
  then have "map_of ?res k = map_of stored k" for k
    unfolding map_of_stored [OF ok]
    by (auto simp: store_selectors_def store_settings_def update_conv' delete_conv' split: option.split)
  with parse show ?thesis by blast
qed

section \<open>Staging keeps the tree\<close>

lemma path_ok_leaf:
  assumes "group_path_ok path"
  shows "leaf_of path \<noteq> []" "\<not> reserved_key path"
proof -
  have seg: "group_name_ok s" if "s \<in> set (split_on SEPARATOR path)" for s
    using assms that by (simp add: group_path_ok_def list_all_iff)
  have no_sep: "SEPARATOR \<notin> set (leaf_of path)"
    unfolding leaf_of_def set_rev using set_takeWhileD by fastforce
  have "leaf_of path \<in> set (split_on SEPARATOR path)"
  proof (cases "parent_of path")
    case None
    then have "leaf_of path = path" using path_join [of path] by simp
    then show ?thesis using no_sep by (simp add: split_on_id)
  next
    case (Some p)
    then have "path = p @ SEPARATOR # leaf_of path" using path_join [of path] by simp
    then have "split_on SEPARATOR path = split_on SEPARATOR p @ [leaf_of path]"
      using split_on_at_sep [of SEPARATOR p "leaf_of path"] split_on_id [OF no_sep] by simp
    then show ?thesis by simp
  qed
  then show "leaf_of path \<noteq> []" using seg by (auto simp: group_name_ok_def)
  show "\<not> reserved_key path"
  proof
    assume "reserved_key path"
    then have "path = SELECTORS \<or> path = SETTINGS" by (simp add: reserved_key_def)
    then show False
      using seg [of path] by (auto simp: SELECTORS_def SETTINGS_def SEPARATOR_def group_name_ok_def)
  qed
qed

lemma entry_ok_mono:
  "entry_ok known k v \<Longrightarrow> (\<And>p. parent_of k = Some p \<Longrightarrow> known p \<Longrightarrow> known' p) \<Longrightarrow> entry_ok known' k v"
  by (cases v) (auto simp: each_opt_def split: option.splits)

lemma tree_ok_update:
  assumes "tree_ok stored" and "entry_ok (is_group (AList.update k v stored)) k v"
    and "\<And>p. is_group stored p \<Longrightarrow> is_group (AList.update k v stored) p"
  shows "tree_ok (AList.update k v stored)"
  using assms unfolding tree_ok_def by (auto split: if_splits intro: entry_ok_mono)

lemma tree_ok_delete:
  assumes "tree_ok stored"
    and "\<And>c v. map_of stored c = Some v \<Longrightarrow> is_group stored c \<Longrightarrow> parent_of c \<noteq> Some k"
  shows "tree_ok (AList.delete k stored)"
  unfolding tree_ok_def
proof (intro conjI allI impI)
  show "wf_dict (AList.delete k stored)" using assms(1) by (simp add: tree_ok_def)
  fix c v assume "map_of (AList.delete k stored) c = Some v"
  then have c: "map_of stored c = Some v" "c \<noteq> k" by (auto split: if_splits)
  note ok = tree_okD [OF assms(1) c(1)]
  show "entry_ok (is_group (AList.delete k stored)) c v"
  proof (cases v)
    case (Group g)
    then have "is_group stored c" using ok c by (simp add: is_group_def)
    then have "parent_of c \<noteq> Some k" using assms(2) c(1) by blast
    then show ?thesis using ok Group by (auto simp: each_opt_def is_group_def split: option.splits)
  qed (use ok in simp_all)
qed

lemma is_group_updated:
  "is_group (AList.update k (Group g) stored) p \<longleftrightarrow> (p = k \<and> \<not> reserved_key k) \<or> (p \<noteq> k \<and> is_group stored p)"
  by (auto simp: is_group_def)

lemma is_group_reserved: "reserved_key k \<Longrightarrow> is_group (AList.update k v stored) = is_group stored"
  by (auto simp: is_group_def fun_eq_iff)

lemma tree_ok_reserved_delete:
  assumes "tree_ok stored" and "reserved_key k"
  shows "tree_ok (AList.delete k stored)"
proof (rule tree_ok_delete [OF assms(1)])
  fix c v assume c: "map_of stored c = Some v" and grp: "is_group stored c"
  then obtain g where "v = Group g" by (auto simp: is_group_def split: group_resource.splits)
  then have "each_opt (is_group stored) (parent_of c)" using tree_okD [OF assms(1) c] by simp
  then show "parent_of c \<noteq> Some k" using assms(2) by (auto simp: each_opt_def is_group_def)
qed

lemma tree_ok_reserved_update:
  "tree_ok stored \<Longrightarrow> reserved_key k \<Longrightarrow> entry_ok (is_group stored) k v \<Longrightarrow> tree_ok (AList.update k v stored)"
  by (rule tree_ok_update) (simp_all add: is_group_reserved)

lemma staged_request_keeps:
  assumes ok: "tree_ok stored"
  shows "tree_ok (stage_group r stored)"
proof -
  have wf: "wf_dict stored" using ok by (simp add: tree_ok_def)
  show ?thesis
  proof (cases r)
    case (Add_group path g)
    have "tree_ok (AList.update path (Group g) stored)"
      if "group_path_ok path" "group_ok g" "each_opt (is_group stored) (parent_of path)"
      using path_ok_leaf [OF that(1)] that(2,3) parent_shorter [of path]
      by (intro tree_ok_update ok) (auto simp: is_group_updated each_opt_def split: option.splits)
    then show ?thesis
      using ok by (auto simp: Add_group stage_group_def add_group_def each_opt_def has_group [OF wf]
          simp del: set_map split: option.splits)
  next
    case (Edit_group path g)
    have "tree_ok (AList.update path (Group g) stored)" if grp: "is_group stored path" and "group_ok g"
    proof -
      obtain g' where "map_of stored path = Some (Group g')"
        using grp by (auto simp: is_group_def split: option.splits group_resource.splits)
      from tree_okD [OF ok this] that show ?thesis
        by (intro tree_ok_update ok) (auto simp: is_group_updated each_opt_def split: option.splits)
    qed
    then show ?thesis
      using ok by (auto simp: Edit_group stage_group_def edit_group_def has_group [OF wf] simp del: set_map)
  next
    case (Delete_group path)
    have "tree_ok (AList.delete path stored)" if "children_of (sorted_keys (groups_of stored)) path = []"
    proof (rule tree_ok_delete [OF ok])
      fix c v assume "is_group stored c"
      then have "c \<in> set (sorted_keys (groups_of stored))" using has_group [OF wf, of c] by simp
      then show "parent_of c \<noteq> Some path" using that by (auto simp: children_of_def filter_empty_conv)
    qed
    then show ?thesis
      using ok by (auto simp: Delete_group stage_group_def delete_group_def simp del: set_map)
  next
    case (Put_selectors ss)
    have "tree_ok (store_selectors stored ss)" if "list_all selector_ok ss"
      using that ok tree_ok_reserved_delete tree_ok_reserved_update
      by (simp add: store_selectors_def reserved_key_def)
    then show ?thesis using ok by (simp add: Put_selectors stage_group_def)
  next
    case (Put_settings p)
    have "tree_ok (store_settings stored p)"
      using ok tree_ok_reserved_delete tree_ok_reserved_update
      by (simp add: store_settings_def reserved_key_def split: option.split)
    then show ?thesis using ok by (simp add: Put_settings stage_group_def)
  qed
qed

lemma staged_groups_tree: "tree_ok (fold stage_group requests stored)" if "tree_ok stored"
  using that by (induction requests arbitrary: stored) (auto intro: staged_request_keeps)

lemma tree_ok_Nil: "tree_ok []"
  by (simp add: tree_ok_def wf_dict_def)


text \<open>A concrete Pydantic for the witness: the alias generator, and the models read field by field.\<close>

fun demo_camel_rest :: "string \<Rightarrow> string" where
  "demo_camel_rest (a # b # cs) = (if a = CHR ''_'' \<and> CHR ''a'' \<le> b \<and> b \<le> CHR ''z''
     then char_of (of_char b - 32 :: nat) # demo_camel_rest cs else a # demo_camel_rest (b # cs))"
| "demo_camel_rest cs = cs"

definition str_at :: "json dict \<Rightarrow> string \<Rightarrow> string option" where
  "str_at fs k = (case map_of fs k of Some (JStr s) \<Rightarrow> Some s | _ \<Rightarrow> None)"

definition num_at :: "json dict \<Rightarrow> string \<Rightarrow> int option" where
  "num_at fs k = (case map_of fs k of Some (JNum n) \<Rightarrow> Some n | _ \<Rightarrow> None)"

definition policy_of :: "string \<Rightarrow> scheduling_policy option" where
  "policy_of s = (if s = ''fair'' then Some Fair else if s = ''weighted'' then Some Weighted
     else if s = ''weighted_fair'' then Some Weighted_Fair else if s = ''query_priority'' then Some Query_Priority else None)"

lemma policy_of_value [simp]: "policy_of (policy_value p) = Some p"
  by (cases p) (simp_all add: policy_of_def)

fun json_str :: "json \<Rightarrow> string" where
  "json_str (JStr s) = s"
| "json_str _ = []"

definition demo_group :: "json dict \<Rightarrow> resource_group option" where
  "demo_group fs = (case num_at fs ''hard_concurrency_limit'' of None \<Rightarrow> None | Some n \<Rightarrow> Some
     \<lparr>rg_hard_concurrency_limit = n, rg_max_queued = num_at fs ''max_queued'',
      rg_soft_memory_limit = str_at fs ''soft_memory_limit'',
      rg_soft_concurrency_limit = num_at fs ''soft_concurrency_limit'', rg_soft_cpu_limit = str_at fs ''soft_cpu_limit'',
      rg_hard_cpu_limit = str_at fs ''hard_cpu_limit'',
      rg_scheduling_policy = Option.bind (str_at fs ''scheduling_policy'') policy_of,
      rg_scheduling_weight = num_at fs ''scheduling_weight'',
      rg_jmx_export = (case map_of fs ''jmx_export'' of Some (JBool b) \<Rightarrow> Some b | _ \<Rightarrow> None)\<rparr>)"

definition demo_selector :: "json dict \<Rightarrow> selector option" where
  "demo_selector fs = (case str_at fs ''group'' of None \<Rightarrow> None | Some g \<Rightarrow> Some
     \<lparr>sl_group = g, sl_user = str_at fs ''user'', sl_original_user = str_at fs ''original_user'',
      sl_authenticated_user = str_at fs ''authenticated_user'', sl_user_group = str_at fs ''user_group'',
      sl_source = str_at fs ''source'', sl_query_type = str_at fs ''query_type'', sl_query_text = str_at fs ''query_text'',
      sl_client_tags = (case map_of fs ''client_tags'' of Some (JList js) \<Rightarrow> Some (map json_str js) | _ \<Rightarrow> None)\<rparr>)"

definition demo_px :: pydantic where
  "demo_px = \<lparr>px_camel = demo_camel_rest, px_group = demo_group, px_selector = demo_selector,
     px_settings = (\<lambda>fs. Some (str_at fs ''cpu_quota_period''))\<rparr>"

lemma map_of_some_field: "map_of (some_field n f x) k = (if k = n then map_option f x else None)"
  by (simp add: some_field_def split: option.split)

lemma demo_px_faithful: "faithful demo_px"
proof -
  have names: "list_all (\<lambda>n. snake (px_camel demo_px n) = n
         \<and> px_camel demo_px n \<notin> {''name'', ''subGroups'', ''rootGroups'', ''selectors''})
       (GROUP_FIELDS @ SELECTOR_FIELDS @ SETTINGS_FIELDS)" by code_simp
  have group: "demo_group (group_fields g) = Some g" for g
    by (cases g) (simp add: demo_group_def group_fields_def num_at_def str_at_def map_add_def map_of_some_field
        split: option.split)
  have sel: "demo_selector (selector_fields s) = Some s" for s
    by (cases s) (simp add: demo_selector_def selector_fields_def str_at_def map_add_def map_of_some_field comp_def
        split: option.split)
  have "str_at (settings_fields p) ''cpu_quota_period'' = p" for p
    by (simp add: settings_fields_def str_at_def map_of_some_field split: option.split)
  with names group sel show ?thesis by (simp add: faithful_def demo_px_def)
qed

definition demo_group_write :: resource_group where
  "demo_group_write = \<lparr>rg_hard_concurrency_limit = 10, rg_max_queued = Some 100, rg_soft_memory_limit = Some ''40%'',
     rg_soft_concurrency_limit = None, rg_soft_cpu_limit = None, rg_hard_cpu_limit = None,
     rg_scheduling_policy = Some Fair, rg_scheduling_weight = None, rg_jmx_export = None\<rparr>"


section \<open>The plan\<close>

text \<open>A change of the CPU quota period alone is no part of the plan.\<close>

lemma quota_change_unplanned: "groups_plan_empty (plan_groups (store_settings stored p) stored)"
proof -
  have upd: "groups_of (AList.update SETTINGS (Quota_period q) stored) = groups_of stored" for q
    by (induction stored) (auto simp: groups_of_def List.map_filter_def reserved_key_def split: group_resource.splits)
  have del: "groups_of (AList.delete SETTINGS stored) = groups_of stored"
    by (induction stored) (auto simp: groups_of_def List.map_filter_def reserved_key_def split: group_resource.splits)
  have "groups_of (store_settings stored p) = groups_of stored"
    by (simp add: store_settings_def upd del split: option.split)
  moreover have "selectors_of (store_settings stored p) = selectors_of stored"
    by (simp add: selectors_of_def store_settings_def keys_distinct [symmetric] split: option.split)
  ultimately show ?thesis
    by (auto simp: groups_plan_empty_def plan_groups_def named_plan_empty_iff split: option.split)
qed

section \<open>Where a query lands\<close>

text \<open>What Trino knows of a query: what Apchi knows, and the rest. \<open>re\<close> is Trino's own matching.\<close>

record trino_facts = query_facts +
  tf_user_groups :: "string list"
  tf_original_user :: string
  tf_authenticated_user :: string

definition trino_matches :: "(string \<Rightarrow> string \<Rightarrow> bool) \<Rightarrow> trino_facts \<Rightarrow> selector \<Rightarrow> bool" where
  "trino_matches re f s \<longleftrightarrow> each_opt (\<lambda>p. re p (qf_user f)) (sl_user s)
     \<and> each_opt (\<lambda>p. re p (tf_original_user f)) (sl_original_user s)
     \<and> each_opt (\<lambda>p. re p (tf_authenticated_user f)) (sl_authenticated_user s)
     \<and> each_opt (\<lambda>p. list_ex (re p) (tf_user_groups f)) (sl_user_group s)
     \<and> each_opt (\<lambda>p. re p (qf_source f)) (sl_source s)
     \<and> each_opt (\<lambda>t. t = qf_type f) (sl_query_type s)
     \<and> each_opt (\<lambda>p. re p (qf_text f)) (sl_query_text s)
     \<and> each_opt (\<lambda>tags. set tags \<subseteq> set (qf_tags f)) (sl_client_tags s)"

definition trino_group :: "(string \<Rightarrow> string \<Rightarrow> bool) \<Rightarrow> trino_facts \<Rightarrow> selector list \<Rightarrow> string option" where
  "trino_group re f ss = map_option sl_group (List.find (trino_matches re f) ss)"

lemma all_match_sound:
  "list_all2 (\<lambda>m b. m = None \<or> m = Some b) ms bs \<Longrightarrow> all_match ms = Some r \<Longrightarrow> r \<longleftrightarrow> list_all id bs"
proof (induction ms arbitrary: bs)
  case (Cons m ms)
  then show ?case by (cases bs; cases m; cases "m = Some True") auto
qed auto

lemma text_matches_sound:
  assumes "\<forall>p v b. full p v = Some b \<longrightarrow> re p v = b"
  shows "text_matches full pattern v = None \<or> text_matches full pattern v = Some (each_opt (\<lambda>p. re p v) pattern)"
proof (cases pattern)
  case (Some p)
  with assms show ?thesis by (cases "full p v") (auto simp: text_matches_def each_opt_def)
qed (simp add: text_matches_def each_opt_def)

lemma prediction_matches:
  assumes agree: "\<forall>p v b. full p v = Some b \<longrightarrow> re p v = b"
    and known: "\<not> unknowable s" and r: "selector_matches full (query_facts.truncate f) s = Some r"
  shows "trino_matches re f s = r"
proof -
  have truncated: "qf_user (query_facts.truncate f) = qf_user f" "qf_source (query_facts.truncate f) = qf_source f"
    "qf_text (query_facts.truncate f) = qf_text f" "qf_type (query_facts.truncate f) = qf_type f"
    "qf_tags (query_facts.truncate f) = qf_tags f"
    by (simp_all add: query_facts.truncate_def)
  have "r = list_all id [each_opt (\<lambda>p. re p (qf_user f)) (sl_user s), each_opt (\<lambda>p. re p (qf_source f)) (sl_source s),
      each_opt (\<lambda>p. re p (qf_text f)) (sl_query_text s), each_opt (\<lambda>t. t = qf_type f) (sl_query_type s),
      each_opt (\<lambda>tags. set tags \<subseteq> set (qf_tags f)) (sl_client_tags s)]"
    by (rule all_match_sound [OF _ r [unfolded selector_matches_def truncated]])
      (simp add: text_matches_sound [OF agree])
  then show ?thesis
    using known unfolding trino_matches_def unknowable_def by (auto simp: each_opt_def)
qed


definition demo_rule :: "string option \<Rightarrow> string \<Rightarrow> selector" where
  "demo_rule user g = \<lparr>sl_group = g, sl_user = user, sl_original_user = None, sl_authenticated_user = None,
     sl_user_group = None, sl_source = None, sl_query_type = None, sl_query_text = None, sl_client_tags = None\<rparr>"


end
