(* ===== verification/Registry.thy ===== *)
theory Registry
  imports References Certificate_Mapping Event_Listeners Permissions Resource_Groups
begin

text \<open>
  The registered Sections (\<open>app/sections/registry.py\<close>): the six, in registration order, each as the
  record of operations the pipeline calls. In the program resources and plans are dictionaries and
  objects the pipeline never looks into; here they are sums over the Sections, a Section reads its
  own, and the record wraps its operations. The third-party functions the Sections use are \<open>libs\<close>.
\<close>

datatype resource = A_catalog catalog | A_certificate client_certificate | A_mapping certificate_mapping
  | A_listener event_listener | A_grant grant | A_group group_resource

datatype section_plan = Catalogs_plan catalog_plan | Names_plan named_plan | Mapping_plan bool
  | Groups_plan groups_plan

record libs =
  lb_camel :: "string \<Rightarrow> string" \<comment> \<open>Pydantic's alias generator\<close>
  lb_fullmatch :: "string \<Rightarrow> string \<Rightarrow> bool option" \<comment> \<open>\<open>re.fullmatch\<close>, \<open>None\<close> where it raises\<close>

fun a_catalog :: "resource \<Rightarrow> catalog option" where
  "a_catalog (A_catalog c) = Some c" | "a_catalog _ = None"
fun a_certificate :: "resource \<Rightarrow> client_certificate option" where
  "a_certificate (A_certificate c) = Some c" | "a_certificate _ = None"
fun a_mapping :: "resource \<Rightarrow> certificate_mapping option" where
  "a_mapping (A_mapping m) = Some m" | "a_mapping _ = None"
fun a_listener :: "resource \<Rightarrow> event_listener option" where
  "a_listener (A_listener l) = Some l" | "a_listener _ = None"
fun a_grant :: "resource \<Rightarrow> grant option" where
  "a_grant (A_grant g) = Some g" | "a_grant _ = None"
fun a_group :: "resource \<Rightarrow> group_resource option" where
  "a_group (A_group g) = Some g" | "a_group _ = None"

text \<open>The resources of one Section, as that Section holds them.\<close>

definition own :: "(resource \<Rightarrow> 'a option) \<Rightarrow> resource resources \<Rightarrow> 'a resources" where
  "own f rs = List.map_filter (\<lambda>(k, v). map_option (Pair k) (f v)) rs"

definition whole :: "('a \<Rightarrow> resource) \<Rightarrow> 'a resources \<Rightarrow> resource resources" where
  "whole f rs = map (\<lambda>(k, v). (k, f v)) rs"

lemma own_whole: "(\<And>a. f (g a) = Some a) \<Longrightarrow> own f (whole g rs) = rs"
  by (induction rs) (auto simp: own_def whole_def List.map_filter_def)

fun plan_is_empty :: "section_plan \<Rightarrow> bool" where
  "plan_is_empty (Catalogs_plan p) = catalog_plan_empty p"
| "plan_is_empty (Names_plan p) = named_plan_empty p"
| "plan_is_empty (Mapping_plan p) = mapping_plan_empty p"
| "plan_is_empty (Groups_plan p) = groups_plan_empty p"

type_synonym 'e the_section = "(resource, section_plan, 'e) section_ops"

text \<open>A Section whose files are the whole of it: applying and restoring add nothing, and nothing is asserted.\<close>

definition file_section ::
  "section_name \<Rightarrow> bool \<Rightarrow> (settings \<Rightarrow> delivery list) \<Rightarrow>
   (resource resources \<Rightarrow> settings \<Rightarrow> admin_values \<Rightarrow> string dict) \<Rightarrow>
   (resource resources \<Rightarrow> resource resources \<Rightarrow> section_plan) \<Rightarrow> (resource resources \<Rightarrow> bool) \<Rightarrow>
   (settings \<Rightarrow> string dict \<Rightarrow> discovered_paths) \<Rightarrow> 'e the_section" where
  "file_section name restarts declared rendered planned needs discover = \<lparr>so_name = name,
     so_requires_rollout = restarts, so_coordinator_files = declared, so_render_files = rendered,
     so_plan = planned, so_empty = plan_is_empty, so_apply = (\<lambda>_ _ _. ret ()), so_restore = (\<lambda>_ _. ret False),
     so_check = (\<lambda>_ _ _. ret []), so_check_probe = (\<lambda>_. ret []), so_needs_probe = needs,
     so_discover_paths = discover, so_verify = (\<lambda>_ _. ret [])\<rparr>"

text \<open>\<open>assert isinstance(plan, CatalogPlan)\<close>.\<close>

definition with_catalog_plan :: "section_plan \<Rightarrow> (catalog_plan \<Rightarrow> ('r, 'e, 'a) act) \<Rightarrow> ('r, 'e, 'a) act" where
  "with_catalog_plan p f = (case p of Catalogs_plan cp \<Rightarrow> f cp | _ \<Rightarrow> raise_io (Raised AssertionError []))"

definition catalogs_section :: "'e the_section" where
  "catalogs_section = \<lparr>so_name = CATALOGS, so_requires_rollout = False, so_coordinator_files = (\<lambda>_. []),
     so_render_files = (\<lambda>_ _ _. []),
     so_plan = (\<lambda>desired current. Catalogs_plan (plan_catalogs (own a_catalog desired) (own a_catalog current))),
     so_empty = plan_is_empty,
     so_apply = (\<lambda>cl desired p. with_catalog_plan p (catalogs_apply cl (own a_catalog desired))),
     so_restore = (\<lambda>cl snap. catalogs_restore cl (own a_catalog snap)),
     so_check = (\<lambda>cl desired p. with_catalog_plan p (catalogs_check cl (own a_catalog desired))),
     so_check_probe = (\<lambda>desired. catalogs_check_probe (own a_catalog desired)),
     so_needs_probe = (\<lambda>desired. catalogs_needs_probe (own a_catalog desired)),
     so_discover_paths = catalogs_discover_paths,
     so_verify = (\<lambda>cl desired. catalogs_verify cl (own a_catalog desired))\<rparr>"

definition certificates_section :: "'e the_section" where
  "certificates_section = file_section CLIENT_CERTIFICATES False certificates_coordinator_files
     (\<lambda>desired _ _. render_certificates (own a_certificate desired))
     (\<lambda>desired current. Names_plan (certificates_plan (own a_certificate desired) (own a_certificate current)))
     (\<lambda>_. False) certificates_discover_paths"

definition mapping_section :: "'e the_section" where
  "mapping_section = file_section CERTIFICATE_MAPPING True mapping_coordinator_files
     (\<lambda>desired. mapping_files (own a_mapping desired))
     (\<lambda>desired current. Mapping_plan (mapping_plan (own a_mapping desired) (own a_mapping current)))
     (\<lambda>desired. mapping_needs_probe (own a_mapping desired)) mapping_discover_paths"

definition listeners_section :: "'e the_section" where
  "listeners_section = (file_section EVENT_LISTENERS True listener_coordinator_files
     (\<lambda>desired s _. listener_files (own a_listener desired) s)
     (\<lambda>desired current. Names_plan (listeners_plan (own a_listener desired) (own a_listener current)))
     (\<lambda>desired. own a_listener desired \<noteq> []) listener_discover_paths)
     \<lparr>so_check := \<lambda>cl desired _. ret (listeners_check (cl_settings cl) (own a_listener desired))\<rparr>"

definition permissions_section :: "'e the_section" where
  "permissions_section = file_section PERMISSIONS False permissions_coordinator_files
     (\<lambda>desired. permissions_files (own a_grant desired))
     (\<lambda>desired current. Names_plan (permissions_plan (own a_grant desired) (own a_grant current)))
     (\<lambda>desired. own a_grant desired \<noteq> []) permissions_discover_paths"

definition groups_section :: "libs \<Rightarrow> 'e the_section" where
  "groups_section lb = (file_section RESOURCE_GROUPS True groups_coordinator_files
     (\<lambda>desired s _. groups_files (lb_camel lb) (own a_group desired) s)
     (\<lambda>desired current. Groups_plan (plan_groups (own a_group desired) (own a_group current)))
     (\<lambda>desired. groups_needs_probe (own a_group desired)) groups_discover_paths)
     \<lparr>so_check := \<lambda>cl desired _. ret (groups_check (own a_group desired)),
      so_verify := \<lambda>cl desired. groups_verify (lb_fullmatch lb) cl (own a_group desired)\<rparr>"

definition REGISTERED :: "libs \<Rightarrow> 'e the_section list" where
  "REGISTERED lb = [catalogs_section, certificates_section, mapping_section, listeners_section,
     permissions_section, groups_section lb]"

lemmas section_defs = file_section_def catalogs_section_def certificates_section_def mapping_section_def
  listeners_section_def permissions_section_def groups_section_def

text \<open>The names derived from the registry are the ones the rest of the program uses.\<close>

lemma registered_names: "map so_name (REGISTERED lb) = SECTIONS"
  by (simp add: REGISTERED_def section_defs SECTIONS_def)

lemma in_REGISTERED:
  "so \<in> set (REGISTERED lb) \<longleftrightarrow> so = catalogs_section \<or> so = certificates_section \<or> so = mapping_section
     \<or> so = listeners_section \<or> so = permissions_section \<or> so = groups_section lb"
  by (auto simp: REGISTERED_def)

section \<open>What the declarations say\<close>

lemma owned_REGISTERED:
  "owned_paths (REGISTERED lb) s =
     (if st_listener_from_deployment s then [] else [(LISTENER_PATH, st_listener_volume s)])
     @ (if st_groups_from_deployment s then []
        else [(RULES_PATH, st_groups_volume s), (MANAGER_PATH, st_groups_volume s)])"
  by (simp add: owned_paths_def all_specs_def REGISTERED_def section_defs certificates_coordinator_files_def
      mapping_coordinator_files_def listener_coordinator_files_def permissions_coordinator_files_def
      groups_coordinator_files_def LISTENER_PATH_def RULES_PATH_def MANAGER_PATH_def)

end
