(* ===== verification/Coordinator.thy ===== *)
theory Coordinator
  imports Raw_Files
begin

text \<open>
  What the coordinator is actually running (\<open>app/pipeline/coordinator.py\<close>): which volume provides a
  path, under which key, and what is in it. The first question is answered by the pod template
  alone; the second reads the Secret or ConfigMap behind the volume.
\<close>

section \<open>Which mount serves a path\<close>

definition at_or_above :: "string \<Rightarrow> string \<Rightarrow> bool" where
  "at_or_above mount_path wanted \<longleftrightarrow>
     rstrip_slash mount_path = wanted \<or> starts_with (rstrip_slash mount_path @ ''/'') wanted"

definition depth_of :: "volume_mount \<Rightarrow> nat" where
  "depth_of m = length (rstrip_slash (mt_path m))"

text \<open>\<open>max(candidates, key=...)\<close>: the first of the greatest.\<close>

fun deepest :: "volume_mount list \<Rightarrow> volume_mount option" where
  "deepest [] = None"
| "deepest (m # ms) = (case deepest ms of None \<Rightarrow> Some m
     | Some n \<Rightarrow> Some (if depth_of m < depth_of n then n else m))"

definition provides :: "container \<Rightarrow> string \<Rightarrow> volume_mount option" where
  "provides c path = deepest (filter (\<lambda>m. at_or_above (mt_path m) (rstrip_slash path)) (ct_mounts c))"

record source =
  sr_mount :: volume_mount
  sr_volume :: volume
  sr_key :: "string option"

text \<open>\<open>removeprefix\<close>.\<close>

definition remove_prefix :: "string \<Rightarrow> string \<Rightarrow> string" where
  "remove_prefix p s = (if starts_with p s then drop (length p) s else s)"

definition or_name :: "string option \<Rightarrow> string \<Rightarrow> string" where
  "or_name sub name = (case sub of None \<Rightarrow> name | Some k \<Rightarrow> if k = [] then name else k)"

definition key_for :: "volume_mount \<Rightarrow> string \<Rightarrow> string option" where
  "key_for m path =
     (let mounted = rstrip_slash (mt_path m) in
      if mounted = rstrip_slash path then Some (or_name (mt_sub_path m) (path_name (posix path)))
      else let relative = remove_prefix (mounted @ ''/'') (rstrip_slash path) in
        if mt_sub_path m \<noteq> None \<or> CHR ''/'' \<in> set relative then None else Some relative)"

definition source_in :: "pod_spec \<Rightarrow> string \<Rightarrow> container \<Rightarrow> source option" where
  "source_in spec path c = (case provides c path of
      None \<Rightarrow> None
    | Some m \<Rightarrow> (case volumes_by_name spec (mt_name m) of
        None \<Rightarrow> None
      | Some v \<Rightarrow> Some \<lparr>sr_mount = m, sr_volume = v, sr_key = key_for m path\<rparr>))"

fun first_some :: "('a \<Rightarrow> 'b option) \<Rightarrow> 'a list \<Rightarrow> 'b option" where
  "first_some f [] = None"
| "first_some f (x # xs) = (case f x of None \<Rightarrow> first_some f xs | Some y \<Rightarrow> Some y)"

definition source_of :: "pod_spec \<Rightarrow> string option \<Rightarrow> string \<Rightarrow> source option" where
  "source_of spec container_name path = first_some (source_in spec path)
     (filter (\<lambda>c. case container_name of None \<Rightarrow> True | Some n \<Rightarrow> ct_name c = n) (ps_containers spec))"

section \<open>What is in it\<close>

definition data_of :: "volume \<Rightarrow> ('r, 'e, string dict option) act" where
  "data_of v = (case vo_config_map v of
      Some name \<Rightarrow> bind_io (read_config_map name) (\<lambda>d. ret (Some d))
    | None \<Rightarrow> (case vo_secret v of
        Some name \<Rightarrow> bind_io (read_secret name) (\<lambda>d. ret (Some d))
      | None \<Rightarrow> ret None))"

definition content_at :: "pod_spec \<Rightarrow> string \<Rightarrow> string option \<Rightarrow> ('r, 'e, string option) act" where
  "content_at spec path cont = (case source_of spec cont path of
      None \<Rightarrow> ret None
    | Some src \<Rightarrow> (case sr_key src of
        None \<Rightarrow> ret None
      | Some key \<Rightarrow> bind_io (data_of (sr_volume src)) (\<lambda>data. ret (case data of
          None \<Rightarrow> None | Some d \<Rightarrow> map_of d key))))"

definition files_under :: "pod_spec \<Rightarrow> string \<Rightarrow> string option \<Rightarrow> ('r, 'e, string dict option) act" where
  "files_under spec directory cont = (case source_of spec cont directory of
      None \<Rightarrow> ret None
    | Some src \<Rightarrow>
        if rstrip_slash (mt_path (sr_mount src)) \<noteq> rstrip_slash directory then ret None
        else bind_io (data_of (sr_volume src)) (\<lambda>data. ret (map_option
          (map (\<lambda>(key, content). (rstrip_slash directory @ ''/'' @ key, content))) data)))"

lemmas coordinator_defs = data_of_def content_at_def files_under_def

section \<open>The mount Trino sees\<close>

text \<open>The kubelet layers mounts: of those at or above a path the most specific serves it.\<close>

lemma deepest_None [simp]: "deepest ms = None \<longleftrightarrow> ms = []"
  by (cases ms) (auto split: option.split)

lemma deepest_Some: "deepest ms = Some m \<Longrightarrow> m \<in> set ms \<and> (\<forall>n \<in> set ms. depth_of n \<le> depth_of m)"
proof (induction ms arbitrary: m)
  case (Cons a ms)
  then show ?case by (cases "deepest ms") (fastforce split: if_splits)+
qed simp

lemma provides_deepest:
  assumes "provides c path = Some m"
  shows "m \<in> set (ct_mounts c)" "at_or_above (mt_path m) (rstrip_slash path)"
    "\<And>n. n \<in> set (ct_mounts c) \<Longrightarrow> at_or_above (mt_path n) (rstrip_slash path) \<Longrightarrow> depth_of n \<le> depth_of m"
  using deepest_Some [OF assms [unfolded provides_def]] by auto

lemma provides_None:
  "provides c path = None \<longleftrightarrow> (\<forall>m \<in> set (ct_mounts c). \<not> at_or_above (mt_path m) (rstrip_slash path))"
  by (auto simp: provides_def filter_empty_conv)

text \<open>A key read from a directory mount rebuilds the path it was asked for.\<close>

lemma key_rebuilds_path:
  assumes "at_or_above (mt_path m) (rstrip_slash path)" and "rstrip_slash (mt_path m) \<noteq> rstrip_slash path"
    and "key_for m path = Some key"
  shows "rstrip_slash (mt_path m) @ ''/'' @ key = rstrip_slash path"
  using assms by (auto simp: at_or_above_def key_for_def remove_prefix_def Let_def starts_with_iff split: if_splits)

lemma wp_read_config_map [simp]:
  "w_kube w = [] \<Longrightarrow> wp (read_config_map name) Q E w =
     Q (case map_of (w_config_maps w) name of None \<Rightarrow> [] | Some d \<Rightarrow> d) w"
  by (simp add: read_config_map_def or_absent_def)

text \<open>On a healthy API server a read is a function of the objects.\<close>

definition volume_data :: "('r, 'e) world \<Rightarrow> volume \<Rightarrow> string dict option" where
  "volume_data w v = (case vo_config_map v of
      Some name \<Rightarrow> Some (case map_of (w_config_maps w) name of None \<Rightarrow> [] | Some d \<Rightarrow> d)
    | None \<Rightarrow> map_option (\<lambda>name. case map_of (w_secrets w) name of None \<Rightarrow> [] | Some d \<Rightarrow> d) (vo_secret v))"

lemma wp_data_of [simp]: "w_kube w = [] \<Longrightarrow> wp (data_of v) Q E w = Q (volume_data w v) w"
  by (simp add: data_of_def volume_data_def split: option.split)

definition content_in :: "('r, 'e) world \<Rightarrow> pod_spec \<Rightarrow> string \<Rightarrow> string option \<Rightarrow> string option" where
  "content_in w spec path cont = (case source_of spec cont path of
      None \<Rightarrow> None
    | Some src \<Rightarrow> Option.bind (sr_key src) (\<lambda>key. Option.bind (volume_data w (sr_volume src)) (\<lambda>d. map_of d key)))"

lemma wp_content_at [simp]:
  "w_kube w = [] \<Longrightarrow> wp (content_at spec path cont) Q E w = Q (content_in w spec path cont) w"
  by (simp add: content_at_def content_in_def split: option.split)

end
