(* ===== verification/Preconditions.thy ===== *)
theory Preconditions
  imports Coordinator Permissions Event_Listeners Resource_Groups "HOL-Library.Word"
begin

text \<open>
  What Apchi asserts of the Trino deployment before every Apply (\<open>app/pipeline/preconditions.py\<close>):
  nine checks, each giving the list of its problems, all of them run, and one exception with
  everything that is wrong.
\<close>

unbundle bit_operations_syntax

section \<open>Texts\<close>

fun digits_in :: "nat \<Rightarrow> nat \<Rightarrow> string" where
  "digits_in base n = (if base < 2 \<or> n < base then [digit n] else digits_in base (n div base) @ [digit (n mod base)])"

declare digits_in.simps [simp del]

definition octal :: "nat \<Rightarrow> string" where
  "octal n = digits_in 8 n"

definition commas :: "string list \<Rightarrow> string" where
  "commas = join_with '', ''"

text \<open>What a check found: the values its message interpolates.\<close>

datatype problem =
    Sub_Path_Mount string string string string
  | No_Seed string
  | Read_Only_Store string string string string
  | Foreign_Mount string string string string
  | Unreadable_Properties string string string
  | No_Refresh_Period
  | No_Properties
  | Directory_Mount string string string "string list"
  | Pointer_File_Missing string string string string
  | Pointer_Unset string string string string
  | Pointer_Elsewhere string string string string
  | Pointer_Unprovided string string string
  | No_Group string "string list" bool
  | No_Mode string string
  | Open_Mode string string nat
  | Plain_Http string string
  | No_Certificate

definition REFRESH_PERIOD :: string where "REFRESH_PERIOD = ''security.refresh-period''"
definition CONFIG_PROPERTIES :: string where "CONFIG_PROPERTIES = ''/etc/trino/config.properties''"
definition AUTHENTICATION_TYPE :: string where "AUTHENTICATION_TYPE = ''http-server.authentication.type''"
definition ALLOW_INSECURE_OVER_HTTP :: string where
  "ALLOW_INSECURE_OVER_HTTP = ''http-server.authentication.allow-insecure-over-http''"
definition HTTPS_ENABLED :: string where "HTTPS_ENABLED = ''http-server.https.enabled''"

definition PROPERTIES_DIR :: string where
  "PROPERTIES_DIR = path_str (path_parent (posix PROPERTIES_PATH))"

primrec problem_text :: "problem \<Rightarrow> string" where
  "problem_text (Sub_Path_Mount c secret path sub) = ''Container '' @ quoted c @ '' mounts Secret '' @ quoted secret
     @ '' at '' @ path @ '' with subPath '' @ quoted sub @ ''. A subPath mount never receives updates, so Apchi ''
     @ ''would write this file and Trino would never see the change. Mount the whole volume instead.''"
| "problem_text (No_Seed secret) = ''No initContainer mounts the catalog seed Secret '' @ quoted secret
     @ ''. Without one the coordinator starts with an empty catalog store and every catalog in the latest ''
     @ ''Snapshot is missing.''"
| "problem_text (Read_Only_Store c m path store) = ''Container '' @ quoted c @ '' mounts a read-only volume ''
     @ quoted m @ '' at '' @ path @ '', which covers the catalog store '' @ store
     @ ''. Trino writes that directory itself, so every CREATE CATALOG would fail.''"
| "problem_text (Foreign_Mount c m path expected) = ''Container '' @ quoted c @ '' mounts '' @ quoted m @ '' at ''
     @ path @ '', which is a file Apchi delivers. Apchi adds and removes its own volume '' @ quoted expected
     @ '' there; remove this mount.''"
| "problem_text (Unreadable_Properties c m path) = ''Container '' @ quoted c @ '' mounts '' @ quoted m @ '' at ''
     @ path @ '', which should provide '' @ PROPERTIES_PATH @ '', but Apchi cannot read what is in it, so it cannot ''
     @ ''tell whether '' @ REFRESH_PERIOD @ '' is set.''"
| "problem_text No_Refresh_Period = PROPERTIES_PATH @ '' does not set '' @ REFRESH_PERIOD
     @ ''. Without it Trino reads the access-control rules once at startup and never again, so Apchi would ''
     @ ''write a permission change, report success, and the Cluster would never see it.''"
| "problem_text No_Properties = ''Nothing provides '' @ PROPERTIES_PATH @ '' -- neither that path nor the ''
     @ PROPERTIES_DIR @ '' directory is mounted -- so Trino is not configured to read the access-control rules ''
     @ ''Apchi writes. Every permission Apchi applies would be written and ignored.''"
| "problem_text (Directory_Mount c m path covered) = ''Container '' @ quoted c @ '' mounts '' @ quoted m
     @ '' as a directory at '' @ path @ '', and Apchi mounts '' @ commas covered
     @ '' inside it. Kubernetes cannot place a single file inside a read-only ConfigMap or Secret directory: the ''
     @ ''key is not in that volume, so there is nothing to bind onto and the container fails to start with ''
     @ [CHR 0x22] @ ''not a directory'' @ [CHR 0x22] @ ''. Trino logs nothing, because it never runs. Mount the ''
     @ ''files under '' @ path @ '' one at a time instead of mounting the whole directory.''"
| "problem_text (Pointer_File_Missing setting prop holder expected) = ''Apchi is configured with '' @ setting
     @ '', so the deployment must provide '' @ prop @ '' in '' @ holder @ ''. A volume covers that path but Apchi ''
     @ ''found no file there, so either it is not in that volume or Apchi cannot read it. Set '' @ prop @ ''=''
     @ expected @ '' in the file mounted at '' @ holder @ '', or turn '' @ setting
     @ '' off and let Apchi mount the file itself.''"
| "problem_text (Pointer_Unset setting prop holder expected) = holder @ '' does not set '' @ prop
     @ '', but Apchi is configured with '' @ setting @ '' and so writes nothing at the path Trino reads by default. ''
     @ ''Every '' @ takeWhile (\<lambda>c. c \<noteq> CHR ''.'') prop @ '' Apchi applies would be written and ignored. Set '' @ prop
     @ ''='' @ expected @ '', or turn '' @ setting @ '' off and let Apchi mount the file itself.''"
| "problem_text (Pointer_Elsewhere prop holder named expected) = holder @ '' sets '' @ prop @ ''='' @ named
     @ '', which is not '' @ expected @ '' -- the directory Apchi fills. Trino would read a file Apchi never writes, ''
     @ ''so the Section would look applied and have no effect.''"
| "problem_text (Pointer_Unprovided setting prop holder) = ''Nothing provides '' @ holder
     @ '', but Apchi is configured with '' @ setting @ '' and depends on the deployment setting '' @ prop
     @ '' there. Mount it, or turn '' @ setting @ '' off.''"
| "problem_text (No_Group role volumes ours) = ''The '' @ role @ '' mounts '' @ commas volumes
     @ '', which hold credentials, but sets no securityContext.fsGroup. A Secret volume'' @ [CHR 0x27]
     @ ''s files are owned by root whatever the container runs as, so without a group Trino belongs to they can ''
     @ ''only be world-readable or unreadable. Set securityContext.fsGroup to the group Trino runs as (''
     @ show_nat TRINO_GROUP @ '').''
     @ (if ours then '' Apchi then restricts the files it mounts itself.'' else [])"
| "problem_text (No_Mode role volume) = ''The '' @ role @ [CHR 0x27] @ ''s '' @ quoted volume
     @ '' volume holds credentials and sets no defaultMode, so the kubelet writes its files 0644 -- readable by ''
     @ ''every process in the pod, and a private key mounted like that is one libpq refuses to use outright. ''
     @ ''Set defaultMode: 0'' @ octal CREDENTIAL_FILE_MODE @ '' on that volume.''"
| "problem_text (Open_Mode role volume mode) = ''The '' @ role @ [CHR 0x27] @ ''s '' @ quoted volume
     @ '' volume holds credentials with defaultMode 0o'' @ octal mode
     @ '', which grants world access, group write or group execute to a credential. Set defaultMode: 0''
     @ octal CREDENTIAL_FILE_MODE @ '' on that volume.''"
| "problem_text (Plain_Http authenticator url) = CONFIG_PROPERTIES @ '' sets '' @ AUTHENTICATION_TYPE @ ''=''
     @ authenticator @ '' with '' @ HTTPS_ENABLED @ ''=true, and Trino then refuses plain HTTP from every client ''
     @ ''unless '' @ ALLOW_INSECURE_OVER_HTTP @ '' is true -- which it is not. Apchi'' @ [CHR 0x27]
     @ ''s trino_url is '' @ quoted url @ '', so no query it issues would be answered. Point trino_url at the ''
     @ ''coordinator'' @ [CHR 0x27] @ ''s https:// URL.''"
| "problem_text No_Certificate = CONFIG_PROPERTIES @ '' sets '' @ AUTHENTICATION_TYPE
     @ ''=CERTIFICATE, so Trino requires a certificate from every client including Apchi, and Apchi has none: ''
     @ ''trino_auth_certificate_file is unset. Give Apchi a certificate this Cluster'' @ [CHR 0x27]
     @ ''s truststore accepts.''"

section \<open>The checks of the template\<close>

text \<open>A list of problems over every mount of some containers.\<close>

definition over_mounts :: "container list \<Rightarrow> (container \<Rightarrow> volume_mount \<Rightarrow> problem list) \<Rightarrow> problem list" where
  "over_mounts cs f = concat (map (\<lambda>c. concat (map (f c) (ct_mounts c))) cs)"

definition sub_path_problems :: "pod_spec \<Rightarrow> string list \<Rightarrow> problem list" where
  "sub_path_problems spec managed = over_mounts (every_container spec) (\<lambda>c m.
     case (volumes_by_name spec (mt_name m), mt_sub_path m) of
       (Some v, Some sub) \<Rightarrow> (case vo_secret v of
           Some secret \<Rightarrow> if secret \<in> set managed then [Sub_Path_Mount (ct_name c) secret (mt_path m) sub] else []
         | None \<Rightarrow> [])
     | _ \<Rightarrow> [])"

definition seeds :: "pod_spec \<Rightarrow> settings \<Rightarrow> string list" where
  "seeds spec s = concat (map (\<lambda>c. map (\<lambda>_. ct_name c) (filter (\<lambda>m.
     case volumes_by_name spec (mt_name m) of
       None \<Rightarrow> False | Some v \<Rightarrow> vo_secret v = Some (st_catalog_secret s)) (ct_mounts c))) (ps_init_containers spec))"

definition seed_problems :: "pod_spec \<Rightarrow> settings \<Rightarrow> problem list" where
  "seed_problems spec s = (if seeds spec s = [] then [No_Seed (st_catalog_secret s)] else [])"

definition read_only_mount :: "pod_spec \<Rightarrow> volume_mount \<Rightarrow> bool" where
  "read_only_mount spec m \<longleftrightarrow> (case volumes_by_name spec (mt_name m) of
      None \<Rightarrow> False | Some v \<Rightarrow> read_only_by_nature v)"

definition store_problems :: "pod_spec \<Rightarrow> settings \<Rightarrow> problem list" where
  "store_problems spec s = over_mounts (ps_containers spec) (\<lambda>c m.
     if read_only_mount spec m \<and> covers (mt_path m) (st_catalog_store_dir s)
     then [Read_Only_Store (ct_name c) (mt_name m) (mt_path m) (st_catalog_store_dir s)] else [])"

definition foreign_problems :: "pod_spec \<Rightarrow> string dict \<Rightarrow> problem list" where
  "foreign_problems spec owned = over_mounts (ps_containers spec) (\<lambda>c m.
     case map_of owned (mt_path m) of
       None \<Rightarrow> []
     | Some expected \<Rightarrow> if mt_name m \<noteq> expected
         then [Foreign_Mount (ct_name c) (mt_name m) (mt_path m) expected] else [])"

definition covered_paths :: "string dict \<Rightarrow> volume_mount \<Rightarrow> string list" where
  "covered_paths owned m =
     filter (\<lambda>path. covers (mt_path m) (path_str (path_parent (posix path)))) (sorted_keys owned)"

definition directory_problems :: "pod_spec \<Rightarrow> string dict \<Rightarrow> problem list" where
  "directory_problems spec owned = over_mounts (ps_containers spec) (\<lambda>c m.
     if read_only_mount spec m \<and> covered_paths owned m \<noteq> []
     then [Directory_Mount (ct_name c) (mt_name m) (mt_path m) (covered_paths owned m)] else [])"

section \<open>The checks of the configuration\<close>

text \<open>A Java property: the last one wins.\<close>

definition property_of_line :: "string \<Rightarrow> string \<Rightarrow> string option" where
  "property_of_line prop line = (let stripped = strip line in
     if starts_with (prop @ ''='') stripped
     then map_option (strip \<circ> snd) (partition_at (CHR ''='') stripped) else None)"

definition property_in :: "string \<Rightarrow> string \<Rightarrow> string option" where
  "property_in content prop = fold (\<lambda>line found. case property_of_line prop line of
      None \<Rightarrow> found | Some v \<Rightarrow> Some v) (splitlines content) None"

definition sets_refresh_period :: "string \<Rightarrow> bool" where
  "sets_refresh_period content \<longleftrightarrow>
     list_ex (\<lambda>line. starts_with (REFRESH_PERIOD @ ''='') (strip line)) (splitlines content)"

fun refresh_from :: "pod_spec \<Rightarrow> container list \<Rightarrow> ('r, 'e, problem list) act" where
  "refresh_from spec [] = ret [No_Properties]"
| "refresh_from spec (c # cs) = (case provides c PROPERTIES_PATH of
      None \<Rightarrow> refresh_from spec cs
    | Some m \<Rightarrow> if volumes_by_name spec (mt_name m) = None then refresh_from spec cs
        else bind_io (content_at spec PROPERTIES_PATH (Some (ct_name c))) (\<lambda>content. ret (case content of
            None \<Rightarrow> [Unreadable_Properties (ct_name c) (mt_name m) (mt_path m)]
          | Some text \<Rightarrow> if sets_refresh_period text then [] else [No_Refresh_Period])))"

definition refresh_period_problems :: "pod_spec \<Rightarrow> ('r, 'e, problem list) act" where
  "refresh_period_problems spec = refresh_from spec (ps_containers spec)"

definition pointer_verdict :: "string \<Rightarrow> string \<Rightarrow> string \<Rightarrow> string \<Rightarrow> string option \<Rightarrow> problem list" where
  "pointer_verdict holder prop expected setting content = (case content of
      None \<Rightarrow> [Pointer_File_Missing setting prop holder expected]
    | Some text \<Rightarrow> (case property_in text prop of
        None \<Rightarrow> [Pointer_Unset setting prop holder expected]
      | Some named \<Rightarrow> if named \<noteq> expected then [Pointer_Elsewhere prop holder named expected] else []))"

fun pointer_from ::
  "pod_spec \<Rightarrow> container list \<Rightarrow> string \<Rightarrow> string \<Rightarrow> string \<Rightarrow> string \<Rightarrow> ('r, 'e, problem list) act" where
  "pointer_from spec [] holder prop expected setting = ret [Pointer_Unprovided setting prop holder]"
| "pointer_from spec (c # cs) holder prop expected setting =
     (if provides c holder = None then pointer_from spec cs holder prop expected setting
      else bind_io (content_at spec holder (Some (ct_name c)))
        (\<lambda>content. ret (pointer_verdict holder prop expected setting content)))"

definition pointer_problem ::
  "pod_spec \<Rightarrow> string \<Rightarrow> string \<Rightarrow> string \<Rightarrow> string \<Rightarrow> ('r, 'e, problem list) act" where
  "pointer_problem spec = pointer_from spec (ps_containers spec)"

definition pointer_problems :: "pod_spec \<Rightarrow> settings \<Rightarrow> ('r, 'e, problem list) act" where
  "pointer_problems spec s =
     bind_io (if st_groups_from_deployment s
       then pointer_problem spec MANAGER_PATH ''resource-groups.config-file'' RULES_IN_DIR
         ''resource_groups_properties_from_deployment''
       else ret []) (\<lambda>groups.
     bind_io (if st_listener_from_deployment s
       then pointer_problem spec CONFIG_PROPERTIES ''event-listener.config-files'' LISTENER_PATH_IN_DIR
         ''event_listener_config_files_from_deployment''
       else ret []) (\<lambda>listeners. ret (groups @ listeners)))"

section \<open>The check of the credentials\<close>

definition bearing_volumes :: "pod_spec \<Rightarrow> string list \<Rightarrow> volume list" where
  "bearing_volumes spec bearing = filter (\<lambda>v. case vo_secret v of
      None \<Rightarrow> False | Some secret \<Rightarrow> secret \<in> set bearing) (ps_volumes spec)"

definition mode_problems :: "string \<Rightarrow> string list \<Rightarrow> volume \<Rightarrow> problem list" where
  "mode_problems role ours v =
     (if vo_name v \<in> set ours then []
      else case vo_mode v of
        None \<Rightarrow> [No_Mode role (vo_name v)]
      | Some mode \<Rightarrow> if mode AND FORBIDDEN_CREDENTIAL_BITS \<noteq> 0 then [Open_Mode role (vo_name v) mode] else [])"

definition exposure_in :: "pod_spec \<Rightarrow> string \<Rightarrow> string list \<Rightarrow> string list \<Rightarrow> problem list" where
  "exposure_in spec role bearing ours =
     (let mounted = bearing_volumes spec bearing in
      if mounted = [] then []
      else if ps_fs_group spec = None then [No_Group role (sort (map vo_name mounted)) (ours \<noteq> [])]
      else concat (map (mode_problems role ours) mounted))"

definition bearing_secrets :: "('r, 'p, 'e) section_ops list \<Rightarrow> settings \<Rightarrow> string list" where
  "bearing_secrets registered s = credential_secrets registered s @ [st_catalog_secret s]"

definition credential_problems ::
  "('r, 'p, 'e) section_ops list \<Rightarrow> settings \<Rightarrow> pod_spec \<Rightarrow> ('r, 'e, problem list) act" where
  "credential_problems registered s spec = bind_io deployment_pod_spec_if_present (\<lambda>worker.
     ret (exposure_in spec ''coordinator'' (bearing_secrets registered s) (map snd (owned_paths registered s))
       @ (case worker of None \<Rightarrow> [] | Some w \<Rightarrow> exposure_in w ''worker'' (bearing_secrets registered s) [])))"

section \<open>The check of the connection\<close>

definition flag_in :: "string \<Rightarrow> string \<Rightarrow> bool" where
  "flag_in content prop \<longleftrightarrow> lower_case (strip (case property_in content prop of
      None \<Rightarrow> ''false'' | Some v \<Rightarrow> if v = [] then ''false'' else v)) = ''true''"

definition connection_problems :: "settings \<Rightarrow> string \<Rightarrow> problem list" where
  "connection_problems s content =
     (let tls = starts_with ''https://'' (st_trino_url s); authenticator = property_in content AUTHENTICATION_TYPE in
      if tls \<and> \<not> flag_in content HTTPS_ENABLED then []
      else case authenticator of
        None \<Rightarrow> []
      | Some a \<Rightarrow> if a \<noteq> [] \<and> flag_in content HTTPS_ENABLED \<and> \<not> flag_in content ALLOW_INSECURE_OVER_HTTP
          then (if \<not> tls then [Plain_Http a (st_trino_url s)]
            else if st_trino_certificate s = None \<and> lower_case a = ''certificate'' then [No_Certificate] else [])
          else [])"

definition unreachable_problems :: "pod_spec \<Rightarrow> settings \<Rightarrow> ('r, 'e, problem list) act" where
  "unreachable_problems spec s = bind_io (content_at spec CONFIG_PROPERTIES None) (\<lambda>content. ret (case content of
      None \<Rightarrow> [] | Some text \<Rightarrow> connection_problems s text))"

section \<open>All of them\<close>

text \<open>Every problem, and those of them whose fix is a setting of Apchi's own.\<close>

definition deployment_problems ::
  "('r, 'p, 'e) section_ops list \<Rightarrow> settings \<Rightarrow> pod_spec \<Rightarrow> ('r, 'e, problem list \<times> problem list) act" where
  "deployment_problems registered s spec =
     (let managed = admin_mounted_secrets registered s @ [st_catalog_secret s]; owned = owned_paths registered s in
      bind_io (refresh_period_problems spec) (\<lambda>refresh.
      bind_io (pointer_problems spec s) (\<lambda>pointers.
      bind_io (credential_problems registered s spec) (\<lambda>credentials.
      bind_io (unreachable_problems spec s) (\<lambda>own.
        ret (sub_path_problems spec managed @ seed_problems spec s @ store_problems spec s
          @ foreign_problems spec owned @ refresh @ directory_problems spec owned @ pointers @ credentials @ own, own))))))"

definition check_deployment :: "('r, 'p, 'e) section_ops list \<Rightarrow> settings \<Rightarrow> pod_spec \<Rightarrow> ('r, 'e, unit) act" where
  "check_deployment registered s spec = bind_io (deployment_problems registered s spec) (\<lambda>(problems, own).
     if problems \<noteq> [] then raise_io (Raised PreconditionFailed (join_with '' '' (map problem_text problems)))
     else ret ())"

text \<open>\<open>Engine._assert_preconditions\<close>.\<close>

definition assert_preconditions :: "('r, 'p, 'e) section_ops list \<Rightarrow> settings \<Rightarrow> ('r, 'e, unit) act" where
  "assert_preconditions registered s = bind_io deployment_pod_spec (check_deployment registered s)"

end
