(* ===== verification/Section_Parsing.thy ===== *)
theory Section_Parsing
  imports Registry Discovery_Data Preconditions
begin

text \<open>
  Reading the coordinator's files back: the \<open>parse_files\<close> of the six Sections with the result they
  share (\<open>Parsed\<close>, \<open>Unaccounted\<close>, \<open>ParseProblem\<close> of \<open>app/sections/base.py\<close>) and the words each
  generator uses for what it cannot read or cannot hold. The JSON decoder, Pydantic and their
  messages are \<open>readers\<close>, a parameter. A value in quotes is its \<open>repr\<close> up to escapes.
\<close>

record readers =
  rd_loads :: "string \<Rightarrow> json option" \<comment> \<open>\<open>json.loads\<close>\<close>
  rd_loads_error :: "string \<Rightarrow> string"
  rd_mapping :: "json \<Rightarrow> certificate_mapping option"
  rd_px :: pydantic
  rd_group_error :: "json dict \<Rightarrow> string"
  rd_selector_error :: "json dict \<Rightarrow> string"

record parsed =
  pa_resources :: "resource resources"
  pa_unaccounted :: "(string \<times> string) list" \<comment> \<open>path and what\<close>
  pa_admin :: "found_admin option"

datatype parse_failure = Parse_Problem string string | Uncaught exn

type_synonym parser = "string dict \<Rightarrow> settings \<Rightarrow> parse_failure + parsed"

definition parsed_as :: "('a \<Rightarrow> resource) \<Rightarrow> 'a resources \<Rightarrow> (string \<times> string) list \<Rightarrow> parsed" where
  "parsed_as f rs un = \<lparr>pa_resources = whole f rs, pa_unaccounted = un, pa_admin = None\<rparr>"

definition nothing_parsed :: parsed where
  "nothing_parsed = \<lparr>pa_resources = [], pa_unaccounted = [], pa_admin = None\<rparr>"

section \<open>What is said of a file\<close>

definition comment_on :: "nat \<Rightarrow> string" where
  "comment_on n = ''a comment on line '' @ show_nat n"

fun properties_reason :: "string \<Rightarrow> unreadable \<Rightarrow> string" where
  "properties_reason marker (Not_Key_Value n line) = ''line '' @ show_nat n @ '' is not key=value: '' @ quoted line"
| "properties_reason marker No_Marker = ''there is no '' @ marker"

definition catalog_reason :: "unreadable \<Rightarrow> string" where
  "catalog_reason e = properties_reason ''connector.name, so nothing says what this catalog is'' e"

definition listener_reason :: "unreadable \<Rightarrow> string" where
  "listener_reason e = properties_reason ''event-listener.name, so nothing says what plugin'' e"

fun unaccounted_catalog_at :: "unaccounted_catalog \<Rightarrow> string \<times> string" where
  "unaccounted_catalog_at (Not_A_Catalog path) = (path, ''a file in the catalog store Apchi does not own'')"
| "unaccounted_catalog_at (Comment path n) = (path, comment_on n)"

text \<open>The name in a certificate's path, as it is reported.\<close>

definition stem_of :: "string \<Rightarrow> string" where
  "stem_of path = (case certificate_of_path path of None \<Rightarrow> [] | Some (name, _) \<Rightarrow> name)"

fun unaccounted_certificate_at :: "unaccounted_certificate \<Rightarrow> string \<times> string" where
  "unaccounted_certificate_at (Not_Apchis path) = (path, ''a file in the certificate directory Apchi does not own'')"
| "unaccounted_certificate_at (Bad_Name path) = (path, quoted (stem_of path) @ '' is not a name Apchi can hold'')"
| "unaccounted_certificate_at (Lone_Key path) = (path, quoted (stem_of path) @ '' has a private key and no certificate'')"
| "unaccounted_certificate_at (Lone_Certificate path) =
     (path, quoted (stem_of path) @ '' has a certificate and no private key'')"

definition not_json :: "string \<Rightarrow> string" where
  "not_json why = ''not valid JSON: '' @ why"

fun mapping_failure :: "readers \<Rightarrow> string \<Rightarrow> mapping_error \<Rightarrow> parse_failure" where
  "mapping_failure rd content Mapping_Not_JSON = Parse_Problem MAPPING_PATH (not_json (rd_loads_error rd content))"
| "mapping_failure rd content Mapping_Not_An_Object = Parse_Problem MAPPING_PATH ''the file is not a JSON object''"
| "mapping_failure rd content No_Rules_Array =
     Parse_Problem MAPPING_PATH (''there is no '' @ quoted ''rules'' @ '' array'')"
| "mapping_failure rd content (Mapping_Rule_Not_An_Object i) =
     Parse_Problem MAPPING_PATH (''rule '' @ show_nat i @ '' is not an object'')"
| "mapping_failure rd content (Invalid_Rule i) = Uncaught (Raised ValidationError ''CertificateMappingWrite'')"

fun unaccounted_mapping_what :: "unaccounted_mapping \<Rightarrow> string" where
  "unaccounted_mapping_what (Outside k v) = quoted k @ '' outside the rules array''"
| "unaccounted_mapping_what (Uses i extra rule) =
     ''rule '' @ show_nat i @ '' uses '' @ (if extra = [] then ''no pattern'' else commas extra)"
| "unaccounted_mapping_what (Further i rule) = ''rule '' @ show_nat i @ '' is a further pattern''"

fun rules_reason :: "readers \<Rightarrow> string \<Rightarrow> rules_error \<Rightarrow> string" where
  "rules_reason rd content Not_JSON = not_json (rd_loads_error rd content)"
| "rules_reason rd content Not_An_Object = ''the file is not a JSON object''"
| "rules_reason rd content (Not_A_List block) = ''the '' @ quoted block @ '' block is not a list of rules''"
| "rules_reason rd content (Rule_Not_An_Object block i) = block @ ''['' @ show_nat i @ ''] is not an object''"

definition under :: "string option \<Rightarrow> string" where
  "under parent = ''a group under '' @ (case parent of None \<Rightarrow> ''the root'' | Some p \<Rightarrow> if p = [] then ''the root'' else p)"

fun groups_failure :: "readers \<Rightarrow> string \<Rightarrow> string \<Rightarrow> groups_error \<Rightarrow> parse_failure" where
  "groups_failure rd path content Groups_Not_JSON = Parse_Problem path (not_json (rd_loads_error rd content))"
| "groups_failure rd path content Groups_Not_An_Object = Parse_Problem path ''the file is not a JSON object''"
| "groups_failure rd path content Roots_Not_A_List = Parse_Problem path ''rootGroups is not a list''"
| "groups_failure rd path content (Group_Not_An_Object parent) = Parse_Problem path (under parent @ '' is not an object'')"
| "groups_failure rd path content (Group_Without_Name parent) = Parse_Problem path (under parent @ '' has no name'')"
| "groups_failure rd path content (Group_Invalid full fs) =
     Parse_Problem path (''group '' @ quoted full @ '' is not valid: '' @ rd_group_error rd fs)"
| "groups_failure rd path content (Subgroups_Not_A_List full) =
     Parse_Problem path (''group '' @ quoted full @ '' has a subGroups that is not a list'')"
| "groups_failure rd path content Selectors_Not_A_List = Parse_Problem path ''selectors is not a list''"
| "groups_failure rd path content (Selector_Not_An_Object i) =
     Parse_Problem path (''selector '' @ show_nat i @ '' is not an object'')"
| "groups_failure rd path content (Selector_Invalid i fs) =
     Parse_Problem path (''selector '' @ show_nat i @ '' is not valid: '' @ rd_selector_error rd fs)"
| "groups_failure rd path content Settings_Invalid = Uncaught (Raised ValidationError ''ResourceGroupSettings'')"

fun unaccounted_groups_at :: "settings \<Rightarrow> unaccounted_groups_file \<Rightarrow> string \<times> string" where
  "unaccounted_groups_at s (Dangling_Manager manager) =
     (MANAGER_PATH, ''Trino is told to read a resource groups file that is not there'')"
| "unaccounted_groups_at s (In_Rules (Group_Sets full k v)) =
     (groups_rules_path s, ''group '' @ quoted full @ '' sets '' @ quoted k)"
| "unaccounted_groups_at s (In_Rules (Selector_On i k v)) =
     (groups_rules_path s, ''selector '' @ show_nat i @ '' matches on '' @ quoted k)"
| "unaccounted_groups_at s (In_Rules (File_Sets k v)) = (groups_rules_path s, ''the file sets '' @ quoted k)"

section \<open>The six parsers\<close>

definition content_of :: "string dict \<Rightarrow> string \<Rightarrow> string" where
  "content_of files path = (case map_of files path of None \<Rightarrow> [] | Some c \<Rightarrow> c)"

definition parse_catalogs :: parser where
  "parse_catalogs files s = (case parse_catalog_files files (st_catalog_store_dir s) of
      Inl (path, e) \<Rightarrow> Inl (Parse_Problem path (catalog_reason e))
    | Inr (rs, un) \<Rightarrow> Inr (parsed_as A_catalog rs (map unaccounted_catalog_at un)))"

definition parse_certificate_files :: parser where
  "parse_certificate_files files s = (let (rs, un) = parse_certificates files in
     Inr (parsed_as A_certificate rs (map unaccounted_certificate_at un)))"

definition parse_mappings :: "readers \<Rightarrow> parser" where
  "parse_mappings rd files s = (case mapping_parse_files (rd_mapping rd) (rd_loads rd) files s of
      Inl e \<Rightarrow> Inl (mapping_failure rd (content_of files MAPPING_PATH) e)
    | Inr (rs, un) \<Rightarrow> Inr (parsed_as A_mapping rs (map (\<lambda>u. (MAPPING_PATH, unaccounted_mapping_what u)) un)))"

definition parse_listeners :: parser where
  "parse_listeners files s = (case parse_listener files s of
      Inl (path, e) \<Rightarrow> Inl (Parse_Problem path (listener_reason e))
    | Inr (rs, lost) \<Rightarrow> Inr (parsed_as A_listener rs (map (\<lambda>n. (listener_path s, comment_on n)) lost)))"

definition parse_permissions :: "readers \<Rightarrow> parser" where
  "parse_permissions rd files s = (case map_of files ACCESS_PATH of
      None \<Rightarrow> Inr nothing_parsed
    | Some content \<Rightarrow> (case parse_rules (rd_loads rd content) (st_trino_user s) (st_verification_catalog s) of
        Inl e \<Rightarrow> Inl (Parse_Problem ACCESS_PATH (rules_reason rd content e))
      | Inr (grants, preserved, enforced) \<Rightarrow> Inr ((parsed_as A_grant grants [])
          \<lparr>pa_admin := Some \<lparr>fa_preserved = preserved, fa_enforce = enforced\<rparr>\<rparr>)))"

definition parse_groups :: "readers \<Rightarrow> parser" where
  "parse_groups rd files s = (case groups_parse_files (rd_px rd) (rd_loads rd) files s of
      Inl e \<Rightarrow> Inl (groups_failure rd (groups_rules_path s) (content_of files (groups_rules_path s)) e)
    | Inr (rs, un) \<Rightarrow> Inr (parsed_as A_group rs (map (unaccounted_groups_at s) un)))"

text \<open>The parser of a Section, \<open>None\<close> for one that cannot be read back; every registered one can.\<close>

definition section_parser :: "readers \<Rightarrow> section_name \<Rightarrow> parser option" where
  "section_parser rd name = map_of [(CATALOGS, parse_catalogs), (CLIENT_CERTIFICATES, parse_certificate_files),
     (CERTIFICATE_MAPPING, parse_mappings rd), (EVENT_LISTENERS, parse_listeners),
     (PERMISSIONS, parse_permissions rd), (RESOURCE_GROUPS, parse_groups rd)] name"

lemma registered_sections_parse:
  assumes "so \<in> set (REGISTERED lb)" shows "section_parser rd (so_name so) \<noteq> None"
  using assms by (auto simp: in_REGISTERED section_parser_def section_defs section_name_defs)

section \<open>Equality of what was read\<close>

fun same_resource :: "resource \<Rightarrow> resource \<Rightarrow> bool" where
  "same_resource (A_catalog a) (A_catalog b) = same_catalog a b"
| "same_resource (A_listener a) (A_listener b) = same_listener a b"
| "same_resource a b = (a = b)"

definition same_dict :: "('v \<Rightarrow> 'v \<Rightarrow> bool) \<Rightarrow> 'v dict \<Rightarrow> 'v dict \<Rightarrow> bool" where
  "same_dict same a b \<longleftrightarrow> list_all (\<lambda>k. case (map_of a k, map_of b k) of
      (Some x, Some y) \<Rightarrow> same x y | _ \<Rightarrow> False) (dict_keys a @ dict_keys b)"

fun same_found :: "found_admin option \<Rightarrow> found_admin option \<Rightarrow> bool" where
  "same_found None None = True"
| "same_found (Some a) (Some b) = (fa_enforce a = fa_enforce b
     \<and> same_dict (list_all2 same_json) (fa_preserved a) (fa_preserved b))"
| "same_found _ _ = False"

text \<open>\<open>AdminValues.model_validate\<close>, of what was found.\<close>

definition values_of :: "found_admin option \<Rightarrow> admin_values" where
  "values_of read = (case read of None \<Rightarrow> default_admin
    | Some a \<Rightarrow> default_admin\<lparr>av_enforce_permissions := fa_enforce a, av_preserved_access_control := fa_preserved a\<rparr>)"

end
