(* ===== verification/Discovery.thy ===== *)
theory Discovery
  imports Section_Parsing Stores
begin

text \<open>
  Discovery (\<open>app/pipeline/discovery.py\<close>): what the Cluster is configured with, read off the Cluster.
  Each Section says where to look given Trino's own configuration, the files are read through the
  pod template, parsed, and checked to survive a round trip; the catalogs are reconciled with the
  seed Secret and with what Trino serves. Nothing is written. The Sections are a parameter, given
  with their parsers; the program's are \<open>REGISTERED\<close>.
\<close>

section \<open>Trino's own configuration\<close>

definition CONFIGURATION :: "string list" where
  "CONFIGURATION = [CONFIG_PROPERTIES, PROPERTIES_PATH, MANAGER_PATH]"

definition merge_line :: "string \<Rightarrow> string dict \<Rightarrow> string dict" where
  "merge_line line d = (let stripped = strip line in
     if stripped = [] \<or> hd stripped = CHR ''#'' then d
     else case partition_at (CHR ''='') stripped of
       None \<Rightarrow> d | Some (k, v) \<Rightarrow> AList.update (strip k) (strip v) d)"

definition merge_content :: "string option \<Rightarrow> string dict \<Rightarrow> string dict" where
  "merge_content content d = (case content of None \<Rightarrow> d | Some text \<Rightarrow> fold merge_line (splitlines text) d)"

definition trino_configuration :: "pod_spec \<Rightarrow> ('r, 'e, string dict) act" where
  "trino_configuration spec = bind_io (collect_io (\<lambda>path. content_at spec path None) CONFIGURATION)
     (\<lambda>contents. ret (fold merge_content contents []))"

section \<open>The preconditions, as things to do at the cutover\<close>

definition AFTER_SEED :: string where
  "AFTER_SEED = '' This one must come after the seed: adding the initContainer first copies an empty Secret over the catalog store and loses every catalog.''"

definition precondition_problem :: "settings \<Rightarrow> string list \<Rightarrow> string \<Rightarrow> discovery_problem" where
  "precondition_problem s ours text = mk_problem (if text \<in> set ours then Apchi_Configuration else Cutover) None None
     (if contains (st_catalog_secret s) text then text @ AFTER_SEED else text)"

definition precondition_problems ::
  "('r, 'p, 'e) section_ops list \<Rightarrow> settings \<Rightarrow> pod_spec \<Rightarrow> ('r, 'e, discovery_problem list) act" where
  "precondition_problems registered s spec = bind_io (deployment_problems registered s spec) (\<lambda>(problems, ours).
     ret (map (precondition_problem s (map problem_text ours)) (map problem_text problems)))"

section \<open>One Section\<close>

definition NOT_THERE :: string where
  "NOT_THERE = ''Trino is configured to read this file and it is not there. The coordinator will not come back from its next restart.''"

text \<open>What a file contributes: its content under Apchi's path for it, or a problem, or neither.\<close>

definition look_at_file ::
  "pod_spec \<Rightarrow> section_name \<Rightarrow> string dict \<Rightarrow> string \<times> string \<Rightarrow> ('r, 'e, (string \<times> string) list \<times> discovery_problem list) act" where
  "look_at_file spec name properties = (\<lambda>(canonical, path).
     bind_io (content_at spec path None) (\<lambda>content. ret (case content of
         Some c \<Rightarrow> ([(canonical, c)], [])
       | None \<Rightarrow>
           if path \<in> snd ` set properties then ([], [mk_problem Unreadable_File (Some name) (Some path) NOT_THERE])
           else (case source_of spec None path of
               None \<Rightarrow> ([], [])
             | Some src \<Rightarrow> if sr_key src = None
                 then ([], [mk_problem Unreadable_File (Some name) (Some path) (''volume '' @ quoted (vo_name (sr_volume src))
                   @ '' provides this path, but Apchi cannot resolve a Secret or ConfigMap key for it.'')])
                 else ([], [])))))"

text \<open>A directory's files, under Apchi's path for the directory.\<close>

definition rekey :: "string \<Rightarrow> string \<Rightarrow> string \<times> string \<Rightarrow> string \<times> string" where
  "rekey canonical directory = (\<lambda>(path, content).
     (rstrip_slash canonical @ remove_prefix (rstrip_slash directory) path, content))"

definition look_in_directory :: "pod_spec \<Rightarrow> string \<times> string \<Rightarrow> ('r, 'e, (string \<times> string) list) act" where
  "look_in_directory spec = (\<lambda>(canonical, directory).
     bind_io (files_under spec directory None) (\<lambda>listed. ret (case listed of
         None \<Rightarrow> [] | Some files \<Rightarrow> map (rekey canonical directory) files)))"

definition sorted_items :: "'v dict \<Rightarrow> (string \<times> 'v) list" where
  "sorted_items d = concat (map (\<lambda>k. case map_of d k of None \<Rightarrow> [] | Some v \<Rightarrow> [(k, v)]) (sorted_keys d))"

definition files_found :: "(string \<times> string) list \<Rightarrow> string dict" where
  "files_found items = fold (\<lambda>(k, v). AList.update k v) items []"

text \<open>Whether what was read survives being written and read again.\<close>

definition NOT_CARRIED :: string where
  "NOT_CARRIED = ''what Apchi parsed does not survive being written back and read again, so the configuration it holds is not the configuration it would apply.''"

definition lossy ::
  "(resource, 'p, 'e) section_ops \<Rightarrow> parser \<Rightarrow> settings \<Rightarrow> parsed \<Rightarrow> string dict \<Rightarrow> exn + discovery_problem list" where
  "lossy so parse s p read =
     (let again = so_render_files so (pa_resources p) s (values_of (pa_admin p)) in
      if again = [] then Inr []
      else case parse again s of
        Inl (Uncaught e) \<Rightarrow> Inl e
      | Inl (Parse_Problem path reason) \<Rightarrow> Inr [mk_problem Lossy (Some (so_name so)) (Some path)
          (''Apchi cannot read back the file it would write for this Section ('' @ reason
            @ ''), so applying what was discovered would leave a Cluster Apchi could not discover again.'')]
      | Inr q \<Rightarrow> if same_dict same_resource (pa_resources q) (pa_resources p) \<and> same_found (pa_admin q) (pa_admin p)
          then Inr []
          else Inr [mk_problem Lossy (Some (so_name so)) (case sorted_keys read of [] \<Rightarrow> None | k # _ \<Rightarrow> Some k) NOT_CARRIED])"

text \<open>What is made of the files found: the resources, the Admin values, and what is wrong.\<close>

definition understand ::
  "(resource, 'p, 'e) section_ops \<Rightarrow> parser \<Rightarrow> settings \<Rightarrow> string dict \<Rightarrow>
     exn + (resource resources \<times> found_admin option \<times> discovery_problem list)" where
  "understand so parse s read =
     (if read = [] then Inr ([], None, [])
      else case parse read s of
        Inl (Uncaught e) \<Rightarrow> Inl e
      | Inl (Parse_Problem path reason) \<Rightarrow>
          Inr ([], None, [mk_problem Unreadable_File (Some (so_name so)) (Some path) reason])
      | Inr p \<Rightarrow> (case lossy so parse s p read of
          Inl e \<Rightarrow> Inl e
        | Inr lost \<Rightarrow> Inr (pa_resources p, pa_admin p,
            map (\<lambda>(path, what). mk_problem Unaccounted_For (Some (so_name so)) (Some path) what) (pa_unaccounted p) @ lost)))"

definition discover_section ::
  "pod_spec \<Rightarrow> settings \<Rightarrow> (resource, 'p, 'e) section_ops \<Rightarrow> parser \<Rightarrow> string dict \<Rightarrow>
     (resource, 'e, resource section_discovery) act" where
  "discover_section spec s so parse properties =
     (let places = so_discover_paths so s properties in
      bind_io (collect_io (look_at_file spec (so_name so) properties) (sorted_items (dp_files places))) (\<lambda>files.
      bind_io (collect_io (look_in_directory spec) (sorted_items (dp_directories places))) (\<lambda>directories.
      bind_io (lift_error (understand so parse s
          (files_found (concat (map fst files) @ concat directories)))) (\<lambda>(resources, admin, problems).
        ret \<lparr>sd_section = so_name so, sd_resources = resources, sd_looked_at = everywhere_looked places,
          sd_guessed_because = dp_why places, sd_readable = True, sd_admin = admin,
          sd_problems = concat (map snd files) @ problems\<rparr>))))"

section \<open>Catalogs, from three sources\<close>

definition NEVER_ADOPTED :: "string list" where "NEVER_ADOPTED = [''system'']"

definition in_certificate_directory :: "string \<Rightarrow> bool" where
  "in_certificate_directory v \<longleftrightarrow> starts_with (rstrip_slash MOUNT_DIR @ ''/'') v"

definition pointing_keys :: "string dict \<Rightarrow> string list" where
  "pointing_keys properties = sorted_set (map fst (filter (\<lambda>(k, v). in_certificate_directory v) properties))"

definition certificate_use :: "string \<times> catalog \<Rightarrow> discovery_problem list" where
  "certificate_use = (\<lambda>(name, c). let pointing = pointing_keys (cat_properties c) in
     if pointing = [] then []
     else [mk_problem Unaccounted_For (Some CATALOGS) (Some name) (commas pointing
       @ '' points into the certificate directory, so this catalog uses a Client Certificate. Apchi reads a path and cannot tell which certificate it is -- name it, or removing that certificate will not be refused.'')])"

definition catalogs_using_a_certificate :: "resource resources \<Rightarrow> discovery_problem list" where
  "catalogs_using_a_certificate resources = concat (map certificate_use (sorted_items (own a_catalog resources)))"

definition catalogs_from_seed :: "settings \<Rightarrow> string dict \<Rightarrow> parse_failure + resource resources" where
  "catalogs_from_seed s seed =
     (case parse_catalogs (files_found (map (\<lambda>(k, v). (rstrip_slash (st_catalog_store_dir s) @ ''/'' @ k, v)) seed)) s of
        Inl e \<Rightarrow> Inl e | Inr p \<Rightarrow> Inr (pa_resources p))"

text \<open>\<open>ParseProblem\<close> is an exception, and nothing on this path catches it.\<close>

fun raised_by :: "parse_failure \<Rightarrow> exn" where
  "raised_by (Uncaught e) = e"
| "raised_by (Parse_Problem path reason) = Raised ParseProblem (path @ '': '' @ reason)"

text \<open>\<open>resources.setdefault\<close> for each.\<close>

definition with_defaults :: "'v dict \<Rightarrow> 'v dict \<Rightarrow> 'v dict" where
  "with_defaults extra d = fold (\<lambda>(k, v) d. if has_key d k then d else d @ [(k, v)]) extra d"

definition incomplete_problem :: "string \<times> string \<Rightarrow> discovery_problem" where
  "incomplete_problem = (\<lambda>(name, connector). mk_problem Incomplete (Some CATALOGS) (Some name)
     (''Trino is serving '' @ quoted name @ '' using the '' @ quoted connector
       @ '' connector, and its properties exist only in the coordinator'' @ [CHR 0x27]
       @ ''s writable store. Supply them: Apchi will not invent a connection it could not read.''))"

definition not_loaded_problem :: "string \<Rightarrow> discovery_problem" where
  "not_loaded_problem name = mk_problem Not_Loaded (Some CATALOGS) (Some name) (quoted name
     @ '' is configured and Trino is not serving it, which usually means the coordinator has not restarted since it was added.'')"

definition against_live :: "resource resources \<Rightarrow> string dict \<Rightarrow> discovery_problem list" where
  "against_live resources live =
     map incomplete_problem (filter (\<lambda>(name, _). name \<notin> set NEVER_ADOPTED \<and> \<not> has_key resources name) (sorted_items live))
     @ map not_loaded_problem (filter (\<lambda>n. \<not> has_key live n) (sorted_keys resources))
     @ catalogs_using_a_certificate resources"

definition UNASKED :: string where
  "UNASKED = ''Apchi could not ask Trino which catalogs are loaded, so a catalog that exists only in the coordinator'' @ [CHR 0x27]
     @ ''s store would not be noticed -- and would be gone at the first restart after adoption.''"

definition unanswered :: "exn \<Rightarrow> string" where
  "unanswered e = ''Apchi could not ask Trino which catalogs are loaded ('' @ exn_message e
     @ ''), so a catalog existing only in the coordinator'' @ [CHR 0x27] @ ''s store would not be noticed.''"

definition catalog_connectors :: "('r, 'e, string dict) act" where
  "catalog_connectors = trino (asks (\<lambda>w. map (\<lambda>(name, (connector, _)). (name, connector)) (w_live w)))"

text \<open>The seed Secret is read by name: it fills in what the files did not have.\<close>

definition with_seed ::
  "settings \<Rightarrow> string dict \<Rightarrow> resource section_discovery \<Rightarrow> (resource, 'e, resource section_discovery) act" where
  "with_seed s seed read = (if seed = [] then ret read else case catalogs_from_seed s seed of
       Inl f \<Rightarrow> raise_io (raised_by f)
     | Inr stored \<Rightarrow> ret (read\<lparr>sd_resources := with_defaults stored (sd_resources read),
         sd_looked_at := sd_looked_at read @ [''Secret '' @ st_catalog_secret s]\<rparr>))"

text \<open>\<open>asked\<close> says whether there is a Trino to ask.\<close>

definition ask_trino :: "bool \<Rightarrow> resource section_discovery \<Rightarrow> (resource, 'e, resource section_discovery) act" where
  "ask_trino asked read =
     (if \<not> asked
      then ret (read\<lparr>sd_problems := sd_problems read @ [mk_problem Unreadable_File (Some CATALOGS) None UNASKED]\<rparr>)
      else try_else_io is_exception catalog_connectors
       (\<lambda>e. ret (read\<lparr>sd_problems := sd_problems read @ [mk_problem Unreadable_File (Some CATALOGS) None (unanswered e)]\<rparr>))
       (\<lambda>live. ret (read\<lparr>sd_looked_at := sd_looked_at read @ [''system.metadata.catalogs''],
          sd_problems := sd_problems read @ against_live (sd_resources read) live\<rparr>)))"

definition reconcile_catalogs ::
  "settings \<Rightarrow> bool \<Rightarrow> resource section_discovery \<Rightarrow> (resource, 'e, resource section_discovery) act" where
  "reconcile_catalogs s asked read = bind_io (read_secret (st_catalog_secret s)) (\<lambda>seed.
     bind_io (with_seed s seed read) (ask_trino asked))"

section \<open>All of it\<close>

definition UNREAD_YET :: string where
  "UNREAD_YET = ''Apchi cannot read this Section'' @ [CHR 0x27] @ ''s configuration back yet, so nothing here was discovered. Reported rather than left empty, because empty would look like a Cluster with none.''"

definition unread_section :: "section_name \<Rightarrow> 'r section_discovery" where
  "unread_section name = \<lparr>sd_section = name, sd_resources = [], sd_looked_at = [], sd_guessed_because = None,
     sd_readable = False, sd_admin = None, sd_problems = [mk_problem Unreadable_Section (Some name) None UNREAD_YET]\<rparr>"

definition read_section ::
  "(section_name \<Rightarrow> parser option) \<Rightarrow> settings \<Rightarrow> bool \<Rightarrow> pod_spec \<Rightarrow> string dict \<Rightarrow>
     (resource, 'p, 'e) section_ops \<Rightarrow> (resource, 'e, resource section_discovery) act" where
  "read_section parsers s asked spec properties so = (case parsers (so_name so) of
      None \<Rightarrow> ret (unread_section (so_name so))
    | Some parse \<Rightarrow> bind_io (discover_section spec s so parse properties) (\<lambda>read.
        if so_name so = CATALOGS then reconcile_catalogs s asked read else ret read))"

definition discover ::
  "(resource, 'p, 'e) section_ops list \<Rightarrow> (section_name \<Rightarrow> parser option) \<Rightarrow> settings \<Rightarrow> bool \<Rightarrow>
     (resource, 'e, resource discovery) act" where
  "discover registered parsers s asked =
     bind_io (try_io is_exception deployment_pod_spec (\<lambda>e. raise_io (Raised DiscoveryFailed
       (''Apchi cannot read the coordinator Deployment '' @ quoted (st_coordinator s) @ '': '' @ exn_message e)))) (\<lambda>spec.
     bind_io (trino_configuration spec) (\<lambda>properties.
     bind_io (precondition_problems registered s spec) (\<lambda>problems.
     bind_io (collect_io (read_section parsers s asked spec properties) registered) (\<lambda>sections.
       ret \<lparr>di_coordinator = st_coordinator s, di_sections = sections, di_problems = problems\<rparr>))))"

end
