(* ===== verification/Discoveries.thy ===== *)
theory Discoveries
  imports Discovery
begin

text \<open>
  The store of the one discovery document (\<open>app/pipeline/discoveries.py\<close>). A new reading keeps the
  amendments made to the last; amending and withdrawing change one resource of one Section.
\<close>

definition discovery_load :: "('r, 'e, 'r stored_discovery option) act" where
  "discovery_load = mongo (asks w_discovery)"

definition discovery_save :: "'r stored_discovery \<Rightarrow> ('r, 'e, unit) act" where
  "discovery_save d = mongo (modify_io (w_discovery_update (\<lambda>_. Some d)))"

definition stored_reading :: "nat \<Rightarrow> resource stored_discovery option \<Rightarrow> resource discovery \<Rightarrow> resource stored_discovery" where
  "stored_reading now existing read = \<lparr>sv_read = read, sv_read_at = now,
     sv_amendments = (case existing of None \<Rightarrow> [] | Some d \<Rightarrow> sv_amendments d),
     sv_changed = differences same_resource (map_option sv_read existing) read\<rparr>"

definition discovery_record :: "resource discovery \<Rightarrow> (resource, 'e, resource stored_discovery) act" where
  "discovery_record read = bind_io discovery_load (\<lambda>existing. bind_io now_io (\<lambda>now.
     let d = stored_reading now existing read in then_io (discovery_save d) (ret d)))"

definition with_amendment :: "'r amendment \<Rightarrow> 'r stored_discovery \<Rightarrow> 'r stored_discovery" where
  "with_amendment a d = d\<lparr>sv_amendments := AList.update (am_section a)
     (AList.update (am_resource a) a (amendments_of d (am_section a))) (sv_amendments d)\<rparr>"

definition nothing_to_amend :: exn where
  "nothing_to_amend = Raised LookupError ''there is no discovery to amend''"

definition discovery_amend :: "section_name \<Rightarrow> string \<Rightarrow> 'r \<Rightarrow> ('r, 'e, 'r stored_discovery) act" where
  "discovery_amend name resource v = bind_io discovery_load (\<lambda>stored. case stored of
      None \<Rightarrow> raise_io nothing_to_amend
    | Some d \<Rightarrow> bind_io now_io (\<lambda>now.
        let d' = with_amendment \<lparr>am_section = name, am_resource = resource, am_value = v, am_at = now\<rparr> d in
        then_io (discovery_save d') (ret d')))"

definition without_amendment :: "section_name \<Rightarrow> string \<Rightarrow> 'r stored_discovery \<Rightarrow> 'r stored_discovery" where
  "without_amendment name resource d = d\<lparr>sv_amendments :=
     AList.update name (AList.delete resource (amendments_of d name)) (sv_amendments d)\<rparr>"

definition discovery_withdraw :: "section_name \<Rightarrow> string \<Rightarrow> ('r, 'e, 'r stored_discovery) act" where
  "discovery_withdraw name resource = bind_io discovery_load (\<lambda>stored. case stored of
      None \<Rightarrow> raise_io nothing_to_amend
    | Some d \<Rightarrow> if \<not> has_key (amendments_of d name) resource then raise_io (Raised KeyError resource)
        else let d' = without_amendment name resource d in then_io (discovery_save d') (ret d'))"

definition discovery_discard :: "('r, 'e, unit) act" where
  "discovery_discard = mongo (modify_io (w_discovery_update (\<lambda>_. None)))"

lemmas discovery_store_defs = discovery_load_def discovery_save_def discovery_record_def discovery_amend_def
  discovery_withdraw_def discovery_discard_def

section \<open>What an amendment does\<close>

definition wf_stored :: "'r stored_discovery \<Rightarrow> bool" where
  "wf_stored d \<longleftrightarrow> wf_dict (sv_amendments d) \<and> list_all (\<lambda>(n, am). wf_dict am) (sv_amendments d)"

lemma wf_amendments_of: "wf_stored d \<Longrightarrow> wf_dict (amendments_of d name)"
  by (auto simp: wf_stored_def amendments_of_def wf_dict_def list_all_iff split: option.split dest!: map_of_SomeD)

lemma map_of_fold_amendments:
  "wf_dict am \<Longrightarrow> map_of (fold (\<lambda>(k, a). AList.update k (g a)) am rs) =
     map_of rs ++ (\<lambda>k. map_option g (map_of am k))"
proof (induction am arbitrary: rs)
  case (Cons x am)
  obtain k a where x: "x = (k, a)" by force
  from Cons.prems have "k \<notin> fst ` set am" by (simp add: x wf_dict_def)
  then have "map_of am k = None" by (simp add: map_of_eq_None_iff)
  with Cons show ?case
    by (auto simp: x wf_dict_def map_add_def fun_eq_iff split: option.split)
qed simp

text \<open>The resolved resources are the reading's, overridden by the amendments.\<close>

lemma map_of_resolved_resources:
  assumes "wf_stored d"
  shows "map_of (resolved_resources d name) n = (case map_of (amendments_of d name) n of
      Some a \<Rightarrow> Some (am_value a) | None \<Rightarrow> map_of (read_resources (sv_read d) name) n)"
  unfolding resolved_resources_def map_of_fold_amendments [OF wf_amendments_of [OF assms]]
  by (simp add: map_add_def split: option.split)

lemma amendments_of_with:
  "amendments_of (with_amendment a d) name = (if name = am_section a
     then AList.update (am_resource a) a (amendments_of d name) else amendments_of d name)"
  by (simp add: amendments_of_def with_amendment_def)

lemma amendments_of_without:
  "amendments_of (without_amendment s n d) name = (if name = s
     then AList.delete n (amendments_of d name) else amendments_of d name)"
  by (simp add: amendments_of_def without_amendment_def)

lemma wf_values_update:
  "list_all (\<lambda>(n, am). P am) ds \<Longrightarrow> P v \<Longrightarrow> list_all (\<lambda>(n, am). P am) (AList.update k v ds)"
  by (induction ds) auto

lemma wf_with_amendment: "wf_stored d \<Longrightarrow> wf_stored (with_amendment a d)"
  using wf_amendments_of [of d "am_section a"]
  by (auto simp: wf_stored_def with_amendment_def intro!: wf_values_update)

lemma wf_without_amendment: "wf_stored d \<Longrightarrow> wf_stored (without_amendment s n d)"
  using wf_amendments_of [of d s]
  by (auto simp: wf_stored_def without_amendment_def intro!: wf_values_update)

text \<open>An answered problem is one an amendment names, so an amendment answers exactly its own.\<close>

lemma list_ex_key:
  "wf_dict d \<Longrightarrow> list_ex (\<lambda>(name, am). name = s \<and> P am) d \<longleftrightarrow> (\<exists>am. map_of d s = Some am \<and> P am)"
proof (induction d)
  case (Cons x d)
  obtain k a where x: "x = (k, a)" by force
  from Cons.prems have "wf_dict d" "k \<notin> fst ` set d" by (simp_all add: x wf_dict_def)
  then have "map_of d k = None" by (simp add: map_of_eq_None_iff)
  with Cons.IH [OF \<open>wf_dict d\<close>] show ?case by (auto simp: x)
qed simp

lemma answered_iff:
  assumes "wf_stored d"
  shows "answered d p \<longleftrightarrow> (\<exists>s n. dq_section p = Some s \<and> dq_path p = Some n \<and> has_key (amendments_of d s) n)"
proof -
  have wf: "wf_dict (sv_amendments d)" using assms by (simp add: wf_stored_def)
  show ?thesis
    by (cases "dq_section p"; cases "dq_path p"; cases "map_of (sv_amendments d) (the (dq_section p))")
      (simp_all add: answered_def amendments_of_def list_ex_key [OF wf])
qed

end
