(* ===== verification/Seed.thy ===== *)
theory Seed
  imports Discoveries
begin

text \<open>
  The seed (\<open>app/pipeline/seed.py\<close>): Apchi writes its own Secrets from a completed discovery and
  nothing else, says what the deployment still has to change, and can tell later whether the
  Secrets hold the discovery.
\<close>

section \<open>What the Secrets hold\<close>

text \<open>\<open>secrets.setdefault(secret, {}).update(data)\<close>, for each.\<close>

definition merge_secret :: "string \<times> string dict \<Rightarrow> string dict dict \<Rightarrow> string dict dict" where
  "merge_secret = (\<lambda>(secret, data) secrets.
     AList.update secret (fold (\<lambda>(k, v). AList.update k v) data (sec_get secrets secret)) secrets)"

definition add_rendered ::
  "(resource, 'p, 'e) section_ops \<Rightarrow> settings \<Rightarrow> admin_values \<Rightarrow> resource resources \<Rightarrow> string dict dict \<Rightarrow>
     exn + string dict dict" where
  "add_rendered so s admin resources secrets =
     (let declared = so_coordinator_files so s in
      if declared = [] then Inr secrets
      else case by_secret declared (so_render_files so resources s admin) of
        Inl e \<Rightarrow> Inl e | Inr data \<Rightarrow> Inr (fold merge_secret data secrets))"

definition add_catalog_seed ::
  "(resource, 'p, 'e) section_ops \<Rightarrow> settings \<Rightarrow> resource resources \<Rightarrow> string dict dict \<Rightarrow> exn + string dict dict" where
  "add_catalog_seed so s resources secrets =
     (if so_name so \<noteq> CATALOGS then Inr secrets
      else case render_secret (own a_catalog resources) of
        Inl e \<Rightarrow> Inl e | Inr data \<Rightarrow> Inr (AList.update (st_catalog_secret s) data secrets))"

fun contents_from ::
  "(resource, 'p, 'e) section_ops list \<Rightarrow> settings \<Rightarrow> admin_values \<Rightarrow> resource stored_discovery \<Rightarrow>
     string dict dict \<Rightarrow> exn + string dict dict" where
  "contents_from [] s admin stored secrets = Inr secrets"
| "contents_from (so # sos) s admin stored secrets = (case add_rendered so s admin (resolved_resources stored (so_name so)) secrets of
      Inl e \<Rightarrow> Inl e
    | Inr rendered \<Rightarrow> (case add_catalog_seed so s (resolved_resources stored (so_name so)) rendered of
        Inl e \<Rightarrow> Inl e | Inr seeded \<Rightarrow> contents_from sos s admin stored seeded))"

definition contents ::
  "(resource, 'p, 'e) section_ops list \<Rightarrow> settings \<Rightarrow> resource stored_discovery \<Rightarrow> exn + string dict dict" where
  "contents registered s stored = contents_from registered s (values_of (found_values (sv_read stored))) stored []"

section \<open>What the deployment still has to change\<close>

record cutover_change =
  co_secret :: "string option"
  co_path :: string
  co_whole_volume :: bool
  co_why :: string

definition ONE_THAT_COMES_AFTER :: string where
  "ONE_THAT_COMES_AFTER = '' This is the one change that must come after the seed: adding it first copies an empty Secret over the catalog store and loses every catalog.''"

definition precondition_change :: "settings \<Rightarrow> string \<Rightarrow> cutover_change" where
  "precondition_change s text = (if contains (st_catalog_secret s) text
     then \<lparr>co_secret = Some (st_catalog_secret s), co_path = st_catalog_store_dir s, co_whole_volume = True,
        co_why = text @ ONE_THAT_COMES_AFTER\<rparr>
     else \<lparr>co_secret = None, co_path = ''the coordinator'' @ [CHR 0x27] @ ''s deployment'', co_whole_volume = True,
        co_why = text\<rparr>)"

fun spec_path :: "delivery \<Rightarrow> string" where
  "spec_path (File f) = cf_path f"
| "spec_path (Directory d) = cd_path d"

text \<open>\<open>_within\<close>.\<close>

definition inside_declared :: "string \<Rightarrow> string list \<Rightarrow> bool" where
  "inside_declared path declared \<longleftrightarrow> list_ex (\<lambda>c. starts_with (rstrip_slash c @ ''/'') path) declared"

definition path_change :: "section_name \<Rightarrow> string list \<Rightarrow> string \<Rightarrow> cutover_change" where
  "path_change name declared path = \<lparr>co_secret = None, co_path = path, co_whole_volume = False,
     co_why = ''Trino reads '' @ name @ '' from here, and Apchi writes ''
       @ (case sorted_set declared of [] \<Rightarrow> [] | first # _ \<Rightarrow> first)
       @ ''. Until the deployment points at Apchi'' @ [CHR 0x27] @ ''s path, an Apply changes a file nothing reads''\<rparr>"

definition section_changes ::
  "(section_name \<Rightarrow> parser option) \<Rightarrow> settings \<Rightarrow> string dict \<Rightarrow> (resource, 'p, 'e) section_ops \<Rightarrow> cutover_change list" where
  "section_changes parsers s properties so =
     (let declared = map spec_path (so_coordinator_files so s) in
      if declared = [] \<or> parsers (so_name so) = None then []
      else map (path_change (so_name so) declared)
        (filter (\<lambda>path. path \<notin> set declared \<and> \<not> inside_declared path declared)
          (everywhere_looked (so_discover_paths so s properties))))"

definition cutover_changes ::
  "(resource, 'p, 'e) section_ops list \<Rightarrow> (section_name \<Rightarrow> parser option) \<Rightarrow> settings \<Rightarrow>
     (resource, 'e, cutover_change list) act" where
  "cutover_changes registered parsers s =
     bind_io deployment_pod_spec (\<lambda>spec.
     bind_io (deployment_problems registered s spec) (\<lambda>(problems, _).
     bind_io (trino_configuration spec) (\<lambda>properties.
       ret (map (precondition_change s) (map problem_text problems)
         @ concat (map (section_changes parsers s properties) registered)))))"

section \<open>Writing\<close>

record seeded =
  sd_secrets :: "string list"
  sd_changed :: "string list"
  sd_cutover :: "cutover_change list"
  sd_untouched :: "string list"

definition seed_refused :: "nat \<Rightarrow> exn" where
  "seed_refused n = Raised SeedRefused (''This discovery still has '' @ show_nat n
     @ '' thing(s) Apchi could not account for. Supply or withdraw them before seeding: a Secret written from a half-read Cluster is a Cluster Apchi would misconfigure at the cutover.'')"

text \<open>A Secret is written unless it is there with exactly this data.\<close>

definition seed_one :: "string \<times> string dict \<Rightarrow> ('r, 'e, string list) act" where
  "seed_one = (\<lambda>(name, data). bind_io (read_secret_if_present name) (\<lambda>before.
     if (case before of None \<Rightarrow> False | Some d \<Rightarrow> dict_eq d data) then ret []
     else then_io (write_secret name data) (ret [name])))"

definition volume_source :: "volume \<Rightarrow> string" where
  "volume_source v = or_name (vo_secret v) (or_name (vo_config_map v) (vo_name v))"

definition read_places :: "resource stored_discovery \<Rightarrow> string list" where
  "read_places stored = filter (\<lambda>path. \<not> starts_with ''Secret '' path \<and> path \<noteq> ''system.metadata.catalogs'')
     (concat (map sd_looked_at (di_sections (sv_read stored))))"

definition read_from :: "pod_spec \<Rightarrow> resource stored_discovery \<Rightarrow> string list \<Rightarrow> string list" where
  "read_from spec stored ours = sorted_set (filter (\<lambda>n. n \<notin> set ours)
     (List.map_filter (\<lambda>path. map_option (volume_source \<circ> sr_volume) (source_of spec None path)) (read_places stored)))"

definition seed ::
  "(resource, 'p, 'e) section_ops list \<Rightarrow> (section_name \<Rightarrow> parser option) \<Rightarrow> settings \<Rightarrow> resource stored_discovery \<Rightarrow>
     (resource, 'e, seeded) act" where
  "seed registered parsers s stored =
     (if \<not> stored_complete stored then raise_io (seed_refused (length (outstanding stored)))
      else bind_io (lift_error (contents registered s stored)) (\<lambda>secrets.
       bind_io (collect_io seed_one (sorted_items secrets)) (\<lambda>changed.
       bind_io deployment_pod_spec (\<lambda>spec.
       bind_io (cutover_changes registered parsers s) (\<lambda>cutover.
         ret \<lparr>sd_secrets = sorted_keys secrets, sd_changed = concat changed, sd_cutover = cutover,
           sd_untouched = read_from spec stored (dict_keys secrets)\<rparr>)))))"

definition stale_one :: "string \<times> string dict \<Rightarrow> ('r, 'e, string list) act" where
  "stale_one = (\<lambda>(name, data). bind_io (read_secret_if_present name) (\<lambda>before.
     ret (if (case before of None \<Rightarrow> True | Some d \<Rightarrow> \<not> dict_eq d data) then [name] else [])))"

definition unseeded ::
  "(resource, 'p, 'e) section_ops list \<Rightarrow> settings \<Rightarrow> resource stored_discovery \<Rightarrow> (resource, 'e, string list) act" where
  "unseeded registered s stored = bind_io (lift_error (contents registered s stored)) (\<lambda>secrets.
     bind_io (collect_io stale_one (sorted_items secrets)) (\<lambda>stale. ret (concat stale)))"

end
