(* ===== verification/Adoption.thy ===== *)
theory Adoption
  imports Seed Gates Admin_Store
begin

text \<open>
  Adoption's surface (\<open>app/api/adoption.py\<close>): the discovery an Admin reads, completes, seeds and
  adopts. Every handler is here with its refusals in the order the code makes them; \<open>adopt\<close> stages
  and creates the Apply, whose run is the runner's.
\<close>

section \<open>The view\<close>

record section_view =
  vw_section :: section_name
  vw_readable :: bool
  vw_looked_at :: "string list"
  vw_guessed_because :: "string option"
  vw_resources :: "resource resources"
  vw_amended :: "string list"
  vw_problems :: "discovery_problem list"

record discovery_view =
  dv_read_at :: nat
  dv_complete :: bool
  dv_outstanding :: "discovery_problem list"
  dv_changed :: "string list"
  dv_sections :: "section_view list"
  dv_admin_values :: "found_admin option"

definition view_section :: "resource stored_discovery \<Rightarrow> resource section_discovery \<Rightarrow> section_view" where
  "view_section d sd = \<lparr>vw_section = sd_section sd, vw_readable = sd_readable sd, vw_looked_at = sd_looked_at sd,
     vw_guessed_because = sd_guessed_because sd, vw_resources = resolved_resources d (sd_section sd),
     vw_amended = sorted_keys (amendments_of d (sd_section sd)), vw_problems = sd_problems sd\<rparr>"

definition view_of :: "resource stored_discovery \<Rightarrow> discovery_view" where
  "view_of d = \<lparr>dv_read_at = sv_read_at d, dv_complete = stored_complete d, dv_outstanding = outstanding d,
     dv_changed = sv_changed d, dv_sections = map (view_section d) (di_sections (sv_read d)),
     dv_admin_values = found_values (sv_read d)\<rparr>"

section \<open>Reading, completing, discarding\<close>

definition NOTHING_READ :: string where
  "NOTHING_READ = ''No discovery has been read. POST /admin/adoption/discoveries first.''"

fun is_discovery_failed :: "exn \<Rightarrow> bool" where
  "is_discovery_failed (Raised DiscoveryFailed _) = True"
| "is_discovery_failed _ = False"

definition create_discovery ::
  "(resource, 'p, 'e) section_ops list \<Rightarrow> (section_name \<Rightarrow> parser option) \<Rightarrow> settings \<Rightarrow>
     (resource, 'e, discovery_view) act" where
  "create_discovery registered parsers s =
     bind_io (try_io is_discovery_failed (discover registered parsers s True)
       (\<lambda>e. raise_io (Raised Conflict (exn_message e)))) (\<lambda>read.
     bind_io (discovery_record read) (\<lambda>d. ret (view_of d)))"

definition loaded_discovery :: "('r, 'e, 'r stored_discovery) act" where
  "loaded_discovery = bind_io discovery_load (\<lambda>stored. case stored of
      None \<Rightarrow> raise_io (Raised NotFound NOTHING_READ) | Some d \<Rightarrow> ret d)"

definition get_discovery :: "(resource, 'e, discovery_view) act" where
  "get_discovery = bind_io loaded_discovery (\<lambda>d. ret (view_of d))"

definition discard_discovery :: "('r, 'e, unit) act" where
  "discard_discovery = discovery_discard"

definition amend_catalog :: "string \<Rightarrow> catalog_write \<Rightarrow> (resource, 'e, discovery_view) act" where
  "amend_catalog name body =
     (if cw_name body \<noteq> name
      then raise_io (Raised Conflict (''The body names '' @ quoted (cw_name body) @ '' and the path names ''
        @ quoted name @ ''. An amendment answers Apchi'' @ [CHR 0x27] @ ''s question about one Catalog.''))
      else bind_io loaded_discovery (\<lambda>_.
        bind_io (lift_error (validated_catalog body)) (\<lambda>c.
        bind_io (discovery_amend CATALOGS name (A_catalog c)) (\<lambda>d. ret (view_of d)))))"

text \<open>\<open>KeyError\<close> is a subclass of \<open>LookupError\<close>, and the clause for \<open>LookupError\<close> is the first.\<close>

fun is_lookup_error :: "exn \<Rightarrow> bool" where
  "is_lookup_error (Raised LookupError _) = True"
| "is_lookup_error (Raised KeyError _) = True"
| "is_lookup_error _ = False"

fun is_key_error :: "exn \<Rightarrow> bool" where
  "is_key_error (Raised KeyError _) = True"
| "is_key_error _ = False"

definition withdraw_refusal :: "section_name \<Rightarrow> string \<Rightarrow> exn \<Rightarrow> exn" where
  "withdraw_refusal name resource e =
     (if is_lookup_error e then Raised NotFound NOTHING_READ
      else if is_key_error e then Raised NotFound (''Nothing was supplied for '' @ quoted resource @ '' in '' @ quoted name @ ''.'')
      else e)"

definition withdraw_amendment :: "section_name \<Rightarrow> string \<Rightarrow> (resource, 'e, discovery_view) act" where
  "withdraw_amendment name resource =
     bind_io (try_io (\<lambda>_. True) (discovery_withdraw name resource)
       (\<lambda>e. raise_io (withdraw_refusal name resource e))) (\<lambda>d. ret (view_of d))"

section \<open>Seeding and adopting\<close>

fun is_seed_refused :: "exn \<Rightarrow> bool" where
  "is_seed_refused (Raised SeedRefused _) = True"
| "is_seed_refused _ = False"

definition seed_cluster ::
  "(resource, 'p, 'e) section_ops list \<Rightarrow> (section_name \<Rightarrow> parser option) \<Rightarrow> settings \<Rightarrow> (resource, 'e, seeded) act" where
  "seed_cluster registered parsers s = bind_io loaded_discovery (\<lambda>stored.
     try_io is_seed_refused (seed registered parsers s stored)
       (\<lambda>e. raise_io (Raised Conflict (exn_message e))))"

definition already_managed :: exn where
  "already_managed = Raised Conflict ''This Cluster already has Snapshots, so it is already managed. Adoption produces Snapshot 1 and runs once; editing the Candidate is how a managed Cluster changes.''"

definition once_managed :: "nat \<Rightarrow> exn" where
  "once_managed ever = Raised Conflict (''This Cluster has committed Snapshot '' @ show_nat ever
     @ '', so it is already managed, and MongoDB holds none of those Snapshots. Adopting now produces a new Snapshot 1 and does not bring them back. Point Apchi at the database that holds them, or -- if they are genuinely gone and you want to start again from what the Cluster is running -- repeat the number: POST /api/v1/admin/adoption/adopt?discard_history_through=''
     @ show_nat ever)"

definition busy :: "apply_record \<Rightarrow> exn" where
  "busy r = Raised Conflict (''Apply '' @ ap_id r @ '' is already in flight.'')"

definition half_understood :: "nat \<Rightarrow> exn" where
  "half_understood n = Raised Conflict (''This discovery still has '' @ show_nat n
     @ '' thing(s) Apchi could not account for. Nothing half-understood should reach the Cluster.'')"

definition not_cut_over :: "cutover_change list \<Rightarrow> exn" where
  "not_cut_over changes = Raised Conflict (''The cutover has not happened: ''
     @ join_with ''; '' (map (\<lambda>c. co_path c @ '' -- '' @ co_why c) changes)
     @ ''. Until the coordinator reads Apchi'' @ [CHR 0x27] @ ''s Secrets there is nothing for Verification to verify, and a Snapshot claiming otherwise would be the never-verified Snapshot '' @ [CHR 0xA7] @ ''15 refuses to create.'')"

definition not_seeded :: "string list \<Rightarrow> exn" where
  "not_seeded stale = Raised Conflict (''Apchi'' @ [CHR 0x27] @ ''s Secrets do not hold this discovery yet ('' @ commas stale
     @ ''). POST /admin/adoption/seed first -- the coordinator is reading Secrets that do not say what was discovered.'')"

definition refuse_when :: "bool \<Rightarrow> exn \<Rightarrow> ('r, 'e, unit) act" where
  "refuse_when b e = (if b then raise_io e else ret ())"

text \<open>Everything that has to hold before anything is staged: the discovery that is adopted.\<close>

definition adoptable ::
  "(resource, 'p, 'e) section_ops list \<Rightarrow> (section_name \<Rightarrow> parser option) \<Rightarrow> settings \<Rightarrow> nat option \<Rightarrow>
     (resource, 'e, resource stored_discovery) act" where
  "adoptable registered parsers s discard =
     bind_io latest_io (\<lambda>latest. then_io (refuse_when (latest \<noteq> None) already_managed)
     (bind_io (mark_read s) (\<lambda>ever. then_io (refuse_when (ever \<noteq> None \<and> discard \<noteq> ever) (once_managed (the ever)))
     (bind_io in_flight_io (\<lambda>running. then_io (refuse_when (running \<noteq> None) (busy (the running)))
     (bind_io loaded_discovery (\<lambda>d. then_io (refuse_when (\<not> stored_complete d) (half_understood (length (outstanding d))))
     (bind_io (cutover_changes registered parsers s) (\<lambda>changes. then_io (refuse_when (changes \<noteq> []) (not_cut_over changes))
     (bind_io (unseeded registered s d) (\<lambda>stale. then_io (refuse_when (stale \<noteq> []) (not_seeded stale))
       (ret d))))))))))))"

definition adopted_sections :: "resource stored_discovery \<Rightarrow> resource sections \<Rightarrow> resource sections" where
  "adopted_sections d ss = fold (\<lambda>name. AList.update name (resolved_resources d name)) (map sd_section (di_sections (sv_read d))) ss"

text \<open>The Admin values, then the Candidate, then the Apply.\<close>

definition stage_adoption ::
  "settings \<Rightarrow> resource bson \<Rightarrow> resource stored_discovery \<Rightarrow> (resource, 'e, apply_record) act" where
  "stage_adoption s b d =
     then_io (admin_save s (values_of (found_values (sv_read d))))
     (bind_io candidate_load (\<lambda>c.
      bind_io (candidate_save s b (c\<lparr>ca_sections := adopted_sections d (ca_sections c)\<rparr>) None None None) (\<lambda>saved.
        create_io (ca_base saved))))"

definition adopt ::
  "(resource, 'p, 'e) section_ops list \<Rightarrow> (section_name \<Rightarrow> parser option) \<Rightarrow> settings \<Rightarrow> resource bson \<Rightarrow> nat option \<Rightarrow>
     (resource, 'e, apply_record) act" where
  "adopt registered parsers s b discard = bind_io (adoptable registered parsers s discard) (stage_adoption s b)"

end
