(* ===== verification/Discovery_Correct.thy ===== *)
theory Discovery_Correct
  imports Adoption
begin

text \<open>
  What a discovery promises: reading only looks, whatever fails; a complete reading has accounted for
  every catalog Trino serves, and what it holds can be written and read again; re-reading never takes
  an amendment away.
\<close>

section \<open>Looking\<close>

text \<open>Nothing moved but the queues of faults, which every call takes from.\<close>

definition still :: "('r, 'e) world \<Rightarrow> ('r, 'e) world" where
  "still w = w\<lparr>w_mongo := [], w_kube := [], w_trino := []\<rparr>"

definition looked :: "('r, 'e) world \<Rightarrow> ('r, 'e) world \<Rightarrow> bool" where
  "looked w w' \<longleftrightarrow> still w' = still w \<and> (w_mongo w = [] \<longrightarrow> w_mongo w' = [])
     \<and> (w_kube w = [] \<longrightarrow> w_kube w' = []) \<and> (w_trino w = [] \<longrightarrow> w_trino w' = [])"

interpretation looked: step_order looked
  by unfold_locales (auto simp: looked_def)

named_theorems looks \<comment> \<open>operations that only look\<close>

lemma looked_read [looks]:
  "within looked (kube (asks f))" "within looked (mongo (asks f))" "within looked (trino (asks f))"
  by (auto simp: within_def looked_def still_def external_defs external_def asks_def split: list.split fault.split)

lemma looked_kubernetes [looks]:
  "within looked (read_secret_if_present name)" "within looked (read_secret name)"
  "within looked (read_config_map name)" "within looked deployment_pod_spec"
  "within looked deployment_pod_spec_if_present"
  by (auto simp: adapter_defs deployment_pod_spec_if_present_def intro!: looks)

lemma looked_stores [looks]:
  "within looked latest_io" "within looked in_flight_io" "within looked (mark_read s)"
  "within looked discovery_load" "within looked loaded_discovery" "within looked catalog_connectors"
  by (auto simp: store_io_defs discovery_load_def loaded_discovery_def catalog_connectors_def intro!: looks
      split: option.split)

lemma looked_lift [looks]: "within looked (lift_error r)"
  by (auto simp: lift_error_def split: sum.split)

lemma looked_content [looks]: "within looked (content_at spec path cont)" "within looked (files_under spec path cont)"
  by (auto simp: content_at_def files_under_def data_of_def intro!: looks split: option.split)

lemma looked_configuration [looks]: "within looked (trino_configuration spec)"
  by (auto simp: trino_configuration_def intro!: looks)

lemma looked_preconditions [looks]: "within looked (deployment_problems registered s spec)"
proof -
  have "within looked (refresh_from spec cs)" for spec cs
    by (induction cs) (auto intro!: looks split: option.split)
  moreover have "within looked (pointer_from spec cs f p e s)" for spec cs f p e s
    by (induction cs) (auto intro!: looks)
  ultimately show ?thesis
    by (auto simp: deployment_problems_def refresh_period_problems_def pointer_problems_def pointer_problem_def
        credential_problems_def unreachable_problems_def Let_def intro!: looks)
qed

lemma looked_section [looks]: "within looked (discover_section spec s so parse properties)"
  by (auto simp: discover_section_def look_at_file_def look_in_directory_def Let_def intro!: looks split: prod.split)

lemma looked_reconcile [looks]: "within looked (reconcile_catalogs s asked read)"
  by (auto simp: reconcile_catalogs_def with_seed_def ask_trino_def intro!: looks split: sum.split)

lemma looked_read_section [looks]: "within looked (read_section parsers s asked spec properties so)"
  by (auto simp: read_section_def intro!: looks split: option.split)

lemma looked_precondition_problems [looks]: "within looked (precondition_problems registered s spec)"
  by (auto simp: precondition_problems_def intro!: looks)

lemma looked_discover [looks]: "within looked (discover registered parsers s asked)"
  by (auto simp: discover_def intro!: looks)

lemma looked_cutover [looks]: "within looked (cutover_changes registered parsers s)"
  by (auto simp: cutover_changes_def intro!: looks)

lemma looked_unseeded [looks]: "within looked (unseeded registered s d)"
  by (auto simp: unseeded_def stale_one_def intro!: looks)

lemma looked_refuse [looks]: "within looked (refuse_when b e)"
  by (simp add: refuse_when_def looked.within_if looked.within_raise looked.within_ret)

lemma looked_adoptable [looks]: "within looked (adoptable registered parsers s discard)"
  unfolding adoptable_def by (intro looked.within_bind looked.within_then looks looked.within_ret)

lemma looked_live: "looked w w' \<Longrightarrow> w_live w' = w_live w"
proof -
  assume "looked w w'"
  then have "w_live (still w') = w_live (still w)" by (simp add: looked_def)
  then show ?thesis by (simp add: still_def)
qed

section \<open>Every live catalog is accounted for\<close>

definition in_order :: "'r section_discovery \<Rightarrow> bool" where
  "in_order sd \<longleftrightarrow> list_all (\<lambda>p. dq_kind p = Cutover) (sd_problems sd)"

definition accounts_for :: "live_catalogs \<Rightarrow> resource section_discovery \<Rightarrow> bool" where
  "accounts_for live sd \<longleftrightarrow> (in_order sd \<longrightarrow> (\<forall>n \<in> fst ` set live. n \<noteq> ''system'' \<longrightarrow> has_key (sd_resources sd) n))"

lemma set_sorted_items: "wf_dict d \<Longrightarrow> set (sorted_items d) = set d"
  by (auto simp: sorted_items_def wf_dict_def split: option.split dest: map_of_SomeD)

lemma in_sorted_items: "has_key d k \<Longrightarrow> \<exists>v. (k, v) \<in> set (sorted_items d)"
proof -
  assume k: "has_key d k"
  then obtain v where "map_of d k = Some v" by (rule has_key_obtains)
  with map_of_SomeD [OF this] have "(k, v) \<in> set (sorted_items d)" by (force simp: sorted_items_def)
  then show ?thesis ..
qed

lemma accounted:
  assumes "live' = map (\<lambda>(name, (connector, _)). (name, connector)) live"
    and "sd_problems sd = before @ against_live (sd_resources sd) live'"
  shows "accounts_for live sd"
  unfolding accounts_for_def
proof (intro impI ballI)
  fix n assume clean: "in_order sd" and n: "n \<in> fst ` set live" "n \<noteq> ''system''"
  have "has_key live' n" using n(1) by (force simp: assms(1))
  from in_sorted_items [OF this] obtain c where c: "(n, c) \<in> set (sorted_items live')" by blast
  show "has_key (sd_resources sd) n"
  proof (rule ccontr)
    assume "\<not> has_key (sd_resources sd) n"
    with c n(2) have "incomplete_problem (n, c) \<in> set (sd_problems sd)"
      unfolding assms(2) against_live_def by (auto simp: NEVER_ADOPTED_def)
    with clean show False
      by (auto simp: in_order_def list_all_iff incomplete_problem_def mk_problem_def)
  qed
qed

lemma wp_trino_asks:
  fixes w :: "('r, 'e) world"
  assumes "\<And>w'. Q (f w) w'" and "\<And>e w'. E e w'" and "\<And>g. f (w_trino_update g w) = f w"
  shows "wp (trino (asks f)) (\<lambda>a. Q a) E w"
  using assms by (auto simp: trino_def wp_external assms(3) split: list.split fault.split)

lemma answered_accounts:
  "accounts_for live (sd\<lparr>sd_looked_at := l, sd_problems := before
     @ against_live (sd_resources sd) (map (\<lambda>(name, (connector, _)). (name, connector)) live)\<rparr>)"
  by (rule accounted [OF refl]) simp

lemma unanswered_accounts:
  "dq_kind p = Unreadable_File \<Longrightarrow> accounts_for live (sd\<lparr>sd_problems := ps @ [p]\<rparr>)"
  by (simp add: accounts_for_def in_order_def)

lemma wp_ask_trino:
  "sd_section read = n \<Longrightarrow>
     wp (ask_trino asked read) (\<lambda>sd _. accounts_for (w_live w) sd \<and> sd_section sd = n) (\<lambda>_ _. True) w"
  by (auto simp: ask_trino_def catalog_connectors_def mk_problem_def
      intro!: wp_trino_asks unanswered_accounts answered_accounts)

lemma wp_reconcile:
  "wp (reconcile_catalogs s asked read) (\<lambda>sd _. accounts_for (w_live w) sd \<and> sd_section sd = sd_section read)
    (\<lambda>_ _. True) w"
  unfolding reconcile_catalogs_def wp_bind
proof (rule wp_within [OF looked_kubernetes(2)])
  fix seed and w1 :: "(resource, 'a) world" assume "looked w w1"
  then have live: "w_live w1 = w_live w" by (rule looked_live)
  show "wp (with_seed s seed read) (\<lambda>a. wp (ask_trino asked a) (\<lambda>sd _. accounts_for (w_live w) sd
      \<and> sd_section sd = sd_section read) (\<lambda>_ _. True)) (\<lambda>_ _. True) w1"
    by (auto simp: with_seed_def intro!: wp_ask_trino [where w = w1, unfolded live] split: sum.split)
qed simp

lemma names_itself:
  "wp (discover_section spec s so parse properties) (\<lambda>sd _. sd_section sd = so_name so) (\<lambda>_ _. True) w"
  unfolding discover_section_def Let_def wp_bind by (rule wp_ignore, rule wp_ignore) (auto split: sum.split prod.split)

lemma wp_read_catalogs:
  assumes "parsers CATALOGS \<noteq> None" and "so_name so = CATALOGS"
  shows "wp (read_section parsers s asked spec properties so)
    (\<lambda>sd _. accounts_for (w_live w) sd \<and> sd_section sd = CATALOGS) (\<lambda>_ _. True) w"
proof -
  from assms(1) obtain parse where parse: "parsers CATALOGS = Some parse" by blast
  have "wp (discover_section spec s so parse properties) (\<lambda>sd w'. looked w w' \<and> sd_section sd = CATALOGS) (\<lambda>_ _. True) w"
    by (rule wp_mono [OF wp_within_and [OF looked_section, where Q = "\<lambda>sd _. sd_section sd = CATALOGS" and E = "\<lambda>_ _. True"]])
      (use names_itself [of spec s so parse properties w] assms(2) in auto)
  then show ?thesis
    by (auto simp: read_section_def parse assms(2) looked_live elim!: wp_mono intro!: wp_mono [OF wp_reconcile])
qed

lemma wp_collect_first:
  assumes "wp (f x) (\<lambda>y _. P y) (\<lambda>_ _. True) w" and "\<And>y ys w'. P y \<Longrightarrow> Q (y # ys) w'" and "\<And>e w'. E e w'"
  shows "wp (collect_io f (x # xs)) Q E w"
  unfolding collect_io.simps wp_bind
  by (rule wp_mono [OF assms(1)], rule wp_ignore) (simp_all add: assms(2,3))

lemma wp_discover_accounts:
  fixes w :: "(resource, 'e) world"
  shows "wp (discover (REGISTERED lb) (section_parser rd) s asked)
    (\<lambda>d w'. looked w w' \<and> (\<exists>sd sds. di_sections d = sd # sds \<and> sd_section sd = CATALOGS
      \<and> accounts_for (w_live w) sd)) (\<lambda>_. looked w) w"
proof -
  have read: "wp (read_section (section_parser rd) s asked spec properties catalogs_section)
      (\<lambda>sd _. accounts_for (w_live w) sd \<and> sd_section sd = CATALOGS) (\<lambda>_ _. True) w1"
    if "looked w w1" for spec properties and w1 :: "(resource, 'e) world"
  proof -
    have "section_parser rd CATALOGS \<noteq> None" and "so_name (catalogs_section :: 'e the_section) = CATALOGS"
      by (simp_all add: section_parser_def catalogs_section_def)
    from wp_read_catalogs [where parsers = "section_parser rd", OF this, of s asked spec properties w1] show ?thesis
      by (simp add: looked_live [OF that])
  qed
  have "wp (discover (REGISTERED lb) (section_parser rd) s asked)
    (\<lambda>d _. \<exists>sd sds. di_sections d = sd # sds \<and> sd_section sd = CATALOGS \<and> accounts_for (w_live w) sd) (\<lambda>_ _. True) w"
    unfolding discover_def wp_bind
  proof (rule wp_within)
    show "within looked (try_io is_exception (deployment_pod_spec :: (resource, 'e, pod_spec) act)
        (\<lambda>e. raise_io (Raised DiscoveryFailed (''Apchi cannot read the coordinator Deployment ''
          @ quoted (st_coordinator s) @ '': '' @ exn_message e))))"
      by (auto intro!: looks)
    fix spec and w1 :: "(resource, 'e) world" assume w1: "looked w w1"
    show "wp (trino_configuration spec) (\<lambda>properties. wp (precondition_problems (REGISTERED lb) s spec) (\<lambda>problems.
        wp (collect_io (read_section (section_parser rd) s asked spec properties) (REGISTERED lb)) (\<lambda>sections.
          wp (ret \<lparr>di_coordinator = st_coordinator s, di_sections = sections, di_problems = problems\<rparr>)
            (\<lambda>d _. \<exists>sd sds. di_sections d = sd # sds \<and> sd_section sd = CATALOGS \<and> accounts_for (w_live w) sd)
            (\<lambda>_ _. True)) (\<lambda>_ _. True)) (\<lambda>_ _. True)) (\<lambda>_ _. True) w1"
    proof (rule wp_within [OF looked_configuration], rule wp_within [OF looked_precondition_problems])
      fix properties problems and w2 w3 :: "(resource, 'e) world"
      assume "looked w1 w2" "looked w2 w3"
      with w1 have w3: "looked w w3" by (blast intro: looked.step_trans)
      show "wp (collect_io (read_section (section_parser rd) s asked spec properties) (REGISTERED lb)) (\<lambda>sections.
          wp (ret \<lparr>di_coordinator = st_coordinator s, di_sections = sections, di_problems = problems\<rparr>)
            (\<lambda>d _. \<exists>sd sds. di_sections d = sd # sds \<and> sd_section sd = CATALOGS \<and> accounts_for (w_live w) sd)
            (\<lambda>_ _. True)) (\<lambda>_ _. True) w3"
        unfolding REGISTERED_def by (rule wp_collect_first, rule read [OF w3]) auto
    qed simp_all
  qed simp
  from wp_within_and [OF looked_discover this] show ?thesis
    by (auto elim!: wp_mono)
qed

text \<open>Every catalog Trino serves is held, if the discovery says that it is complete.\<close>

definition nothing_missed :: "live_catalogs \<Rightarrow> resource discovery \<Rightarrow> bool" where
  "nothing_missed live d \<longleftrightarrow> (discovery_complete d \<longrightarrow>
     fst ` set live \<subseteq> insert ''system'' (fst ` set (read_resources d CATALOGS)))"

text \<open>C20: Reading the Cluster changes nothing, whatever fails on the way: no document, no object of the Cluster,
  no catalog. And a discovery that calls itself complete has accounted for the Cluster: every catalog
  Trino serves, but its own \<open>system\<close>, is one the discovery holds.\<close>

theorem discovery_looks_and_misses_nothing:
  "wp (discover (REGISTERED lb) (section_parser rd) s asked)
     (\<lambda>d w'. looked w w' \<and> nothing_missed (w_live w) d) (\<lambda>_ w'. looked w w') w"
proof (rule wp_mono [OF wp_discover_accounts], elim conjE exE)
  fix d :: "resource discovery" and sd sds and w' :: "(resource, 'a) world"
  assume d: "di_sections d = sd # sds" "sd_section sd = CATALOGS" "accounts_for (w_live w) sd" and l: "looked w w'"
  then have "in_order sd" if "discovery_complete d"
    using that by (simp add: in_order_def discovery_complete_def every_problem_def)
  with d have "nothing_missed (w_live w) d"
    by (auto simp: nothing_missed_def accounts_for_def read_resources_def)
  with l show "looked w w' \<and> nothing_missed (w_live w) d" by simp
qed

section \<open>What is held can be carried\<close>

definition survives :: "(resource, 'p, 'e) section_ops \<Rightarrow> parser \<Rightarrow> settings \<Rightarrow> resource section_discovery \<Rightarrow> bool" where
  "survives so parse s sd \<longleftrightarrow>
     (let again = so_render_files so (sd_resources sd) s (values_of (sd_admin sd)) in
      again = [] \<or> (case parse again s of
         Inr q \<Rightarrow> same_dict same_resource (pa_resources q) (sd_resources sd) \<and> same_found (pa_admin q) (sd_admin sd)
       | Inl _ \<Rightarrow> False))"

definition carried :: "(section_name \<Rightarrow> parser option) \<Rightarrow> settings \<Rightarrow> (resource, 'p, 'e) section_ops \<Rightarrow> resource section_discovery \<Rightarrow> bool" where
  "carried parsers s so sd \<longleftrightarrow> sd_section sd = so_name so
     \<and> (in_order sd \<longrightarrow> sd_resources sd = [] \<or> (case parsers (so_name so) of None \<Rightarrow> False | Some parse \<Rightarrow> survives so parse s sd))"

lemma wp_collect:
  fixes f :: "'a \<Rightarrow> ('w, 'b) io"
  assumes "\<And>x w. x \<in> set xs \<Longrightarrow> wp (f x) (\<lambda>y _. P x y) (\<lambda>_ _. True) w"
  shows "wp (collect_io f xs) (\<lambda>ys _. list_all2 P xs ys) (\<lambda>_ _. True) w"
  using assms
proof (induction xs arbitrary: w)
  case (Cons z zs)
  have first: "wp (f z) (\<lambda>y _. P z y) (\<lambda>_ _. True) v" for v by (rule Cons.prems) simp
  have rest: "wp (collect_io f zs) (\<lambda>ys _. list_all2 P zs ys) (\<lambda>_ _. True) w1" for w1
    by (rule Cons.IH) (rule Cons.prems, simp)
  show ?case
    unfolding collect_io.simps wp_bind wp_ret
  proof (rule wp_mono [OF first])
    fix y w1 assume "P z y"
    then show "wp (collect_io f zs) (\<lambda>ys _. list_all2 P (z # zs) (y # ys)) (\<lambda>_ _. True) w1"
      by (intro wp_mono [OF rest]) simp_all
  qed simp
qed simp

lemma understood_carried:
  assumes "understand so parse s read = Inr (rs, admin, ps)" and "list_all (\<lambda>p. dq_kind p = Cutover) ps"
    and "rs \<noteq> []" and "sd_resources sd = rs" and "sd_admin sd = admin"
  shows "survives so parse s sd"
  using assms unfolding understand_def lossy_def survives_def Let_def
  by (auto simp: mk_problem_def split: if_splits sum.splits parse_failure.splits)

lemma discovered_carried:
  assumes "parsers (so_name so) = Some parse"
  shows "wp (discover_section spec s so parse properties) (\<lambda>sd _. carried parsers s so sd) (\<lambda>_ _. True) w"
  unfolding discover_section_def Let_def wp_bind
  by (rule wp_ignore, rule wp_ignore)
    (auto simp: carried_def assms in_order_def intro: understood_carried split: sum.split prod.split)

lemma with_catalogs_carried:
  "sd_section read = n \<Longrightarrow> wp (reconcile_catalogs s asked read) (\<lambda>sd _. sd_section sd = n) (\<lambda>_ _. True) w"
  by (rule wp_mono [OF wp_reconcile]) simp_all

lemma read_carried:
  assumes "so \<in> set (REGISTERED lb)"
  shows "wp (read_section (section_parser rd) s asked spec properties so)
    (\<lambda>sd _. carried (section_parser rd) s so sd) (\<lambda>_ _. True) w"
proof -
  obtain parse where parse: "section_parser rd (so_name so) = Some parse"
    using registered_sections_parse [OF assms, of rd] by blast
  have only: "so = catalogs_section" if "so_name so = CATALOGS"
    using assms that by (auto simp: in_REGISTERED section_defs section_name_defs)
  show ?thesis
  proof (cases "so_name so = CATALOGS")
    case True
    then have "so_render_files so rs st ad = []" for rs st ad by (simp add: only catalogs_section_def)
    then have names: "carried (section_parser rd) s so sd \<longleftrightarrow> sd_section sd = so_name so" for sd
      by (simp add: carried_def parse survives_def)
    show ?thesis
      unfolding read_section_def parse option.case wp_bind names
      by (rule wp_mono [OF names_itself]) (simp_all add: True with_catalogs_carried)
  next
    case False
    then show ?thesis
      using discovered_carried [where parsers = "section_parser rd", OF parse, of spec s properties w]
      by (auto simp: read_section_def parse elim!: wp_mono)
  qed
qed

text \<open>What a discovery holds Apchi can carry: a Section that was read without a problem renders to files that
  read back as the same resources and the same Admin values, so the first Apply after adoption does not
  drop anything the discovery held. Every registered Section is in the discovery, in order.\<close>

theorem discovery_is_carried:
  "let registered = (REGISTERED lb :: 'e the_section list) in
   wp (discover registered (section_parser rd) s asked)
     (\<lambda>d _. list_all2 (carried (section_parser rd) s) registered (di_sections d)) (\<lambda>_ _. True) w"
proof -
  let ?registered = "REGISTERED lb :: 'e the_section list"
  have "wp (collect_io (read_section (section_parser rd) s asked spec properties) ?registered)
      (\<lambda>sections. wp (ret \<lparr>di_coordinator = c, di_sections = sections, di_problems = ps\<rparr>)
        (\<lambda>d _. list_all2 (carried (section_parser rd) s) ?registered (di_sections d)) (\<lambda>_ _. True)) (\<lambda>_ _. True) w1"
    for spec properties c ps w1
    by (rule wp_mono [OF wp_collect [OF read_carried]]) simp_all
  then show ?thesis
    unfolding discover_def wp_bind Let_def by - (rule wp_ignore, rule wp_ignore, rule wp_ignore, assumption, simp_all)
qed

section \<open>Amendments\<close>

lemma wp_now_apart:
  "(\<And>n w'. w_mongo w' = w_mongo w \<Longrightarrow> w_discovery w' = w_discovery w \<Longrightarrow> Q n w') \<Longrightarrow> wp now_io Q E w"
  by (auto simp: wp_def now_io_def Let_def split: list.split)

lemma resolved_stored_reading:
  assumes "wf_stored d"
  shows "map_of (resolved_resources (stored_reading now (Some d) read) name)
    = map_of (read_resources read name) ++ (\<lambda>n. map_option am_value (map_of (amendments_of d name) n))"
  using map_of_fold_amendments [OF wf_amendments_of [OF assms]]
  by (simp add: resolved_resources_def stored_reading_def amendments_of_def)

lemma stored_reading_fields:
  "sv_read (stored_reading now (Some d) read) = read" "sv_amendments (stored_reading now (Some d) read) = sv_amendments d"
  by (simp_all add: stored_reading_def)

text \<open>Re-reading the Cluster never takes an amendment away: the new reading is stored with every amendment
  there was, and what was supplied still decides what a Section holds, whatever was read.\<close>

theorem rereading_keeps_amendments:
  assumes "w_mongo w = []" and "w_discovery w = Some d" and "wf_stored d"
  shows "wp (discovery_record read)
    (\<lambda>d' w'. w_discovery w' = Some d' \<and> sv_read d' = read \<and> sv_amendments d' = sv_amendments d
       \<and> map_of (resolved_resources d' name) = map_of (read_resources read name) ++ (\<lambda>n. map_option am_value (map_of (amendments_of d name) n)))
    (\<lambda>_ _. False) w"
  using assms unfolding discovery_record_def discovery_load_def discovery_save_def wp_bind
  by (auto simp: Let_def stored_reading_fields resolved_stored_reading intro!: wp_now_apart)

theorem rereading_keeps_amendments_witness:
  "let d = \<lparr>sv_read = \<lparr>di_coordinator = ''trino'', di_sections = [], di_problems = []\<rparr>, sv_read_at = 0,
       sv_amendments = [(CATALOGS, [(''pg'', \<lparr>am_section = CATALOGS, am_resource = ''pg'',
         am_value = A_catalog \<lparr>cat_connector = ''postgresql'', cat_properties = [], cat_certificate = None\<rparr>, am_at = 1\<rparr>)])],
       sv_changed = []\<rparr>;
     read = \<lparr>di_coordinator = ''trino'', di_sections = [], di_problems = []\<rparr>;
     w = (new_install ())\<lparr>w_discovery := Some d\<rparr> in
   wp (discovery_record read)
    (\<lambda>d' w'. w_discovery w' = Some d' \<and> sv_read d' = read \<and> sv_amendments d' = sv_amendments d
       \<and> map_of (resolved_resources d' CATALOGS) = map_of (read_resources read CATALOGS) ++ (\<lambda>n. map_option am_value (map_of (amendments_of d CATALOGS) n)))
    (\<lambda>_ _. False) w"
  unfolding Let_def
  by (rule rereading_keeps_amendments) (simp_all add: new_install_def wf_stored_def wf_dict_def)

text \<open>Withdrawing something that was never supplied answers that no discovery has been read, although one
  has: the clause for \<open>LookupError\<close> comes first and takes the \<open>KeyError\<close> too, so the answer that names the
  resource is never given. Nothing is changed.\<close>

theorem withdraw_misreports:
  assumes "w_mongo w = []" and "w_discovery w = Some d" and "\<not> has_key (amendments_of d name) resource"
  shows "withdraw_amendment name resource w = (Inl (Raised NotFound NOTHING_READ), w)"
  by (rule wp_raises)
    (use assms in \<open>simp add: withdraw_amendment_def discovery_withdraw_def discovery_load_def withdraw_refusal_def\<close>)

theorem withdraw_misreports_witness:
  "let d = \<lparr>sv_read = \<lparr>di_coordinator = ''trino'', di_sections = [], di_problems = []\<rparr>, sv_read_at = 0,
       sv_amendments = [], sv_changed = []\<rparr>;
     w = (new_install ())\<lparr>w_discovery := Some d\<rparr> in
   withdraw_amendment CATALOGS ''pg'' w = (Inl (Raised NotFound NOTHING_READ), w)"
  unfolding Let_def
  by (rule withdraw_misreports [where d = "\<lparr>sv_read = \<lparr>di_coordinator = ''trino'', di_sections = [], di_problems = []\<rparr>,
      sv_read_at = 0, sv_amendments = [], sv_changed = []\<rparr>"]) (simp_all add: new_install_def amendments_of_def)

end
