(* ===== verification/Staging.thy ===== *)
theory Staging
  imports Registry Engine
begin

text \<open>
  What is staged, before it is applied: the Review of the Candidate and the requests that replace it
  (\<open>app/api/candidate.py\<close>), Section Revert and Full Rollback (\<open>app/pipeline/recovery.py\<close>), and a
  configuration as one portable document (\<open>app/pipeline/configuration.py\<close>). None of these touches
  the Cluster. The Section readers that judge a document are Pydantic models: \<open>readers\<close> is a parameter.
\<close>

section \<open>The Cluster as a route sees it\<close>

definition cluster_dep :: "settings \<Rightarrow> ('r, 'e, cluster) act" where
  "cluster_dep s = bind_io admin_load (\<lambda>v. ret \<lparr>cl_settings = s, cl_admin = v\<rparr>)"

text \<open>The count includes the query that counts.\<close>

definition queries_at_risk :: "('r, 'e, nat) act" where
  "queries_at_risk = trino (asks (\<lambda>w. w_queries w - 1))"

definition plans_of :: "('r, 'p, 'e) section_ops list \<Rightarrow> 'r sections \<Rightarrow> 'r sections \<Rightarrow> 'p dict" where
  "plans_of sos desired current = map (\<lambda>so. (so_name so,
     so_plan so (sec_get desired (so_name so)) (sec_get current (so_name so)))) sos"

section \<open>Review\<close>

datatype change_kind = Added | Changed | Taken_out

record 'r resource_change =
  rc_resource :: string
  rc_change :: change_kind
  rc_before :: "'r option"
  rc_after :: "'r option"

definition diff_at :: "'r resources \<Rightarrow> 'r resources \<Rightarrow> string \<Rightarrow> 'r resource_change option" where
  "diff_at before later name = (let old = map_of before name; new = map_of later name in
     if old = new then None
     else if old = None then Some \<lparr>rc_resource = name, rc_change = Added, rc_before = None, rc_after = new\<rparr>
     else if new = None then Some \<lparr>rc_resource = name, rc_change = Taken_out, rc_before = old, rc_after = None\<rparr>
     else Some \<lparr>rc_resource = name, rc_change = Changed, rc_before = old, rc_after = new\<rparr>)"

definition diff :: "'r resources \<Rightarrow> 'r resources \<Rightarrow> 'r resource_change list" where
  "diff before later = List.map_filter (diff_at before later) (sorted_set (dict_keys before @ dict_keys later))"

record 'r reviewed =
  rw_base :: "int option"
  rw_has_changes :: bool
  rw_sections :: "'r resource_change list dict"
  rw_cost :: apply_cost

definition review_in :: "('r, 'p, 'e) section_ops list \<Rightarrow> cluster \<Rightarrow> ('r, 'e, 'r reviewed) act" where
  "review_in sos cl = bind_io candidate_load (\<lambda>c. bind_io (sections_of_io (ca_base c)) (\<lambda>baseline.
     let diffs = map (\<lambda>name. (name, diff (sec_get baseline name) (sec_get (ca_sections c) name))) SECTIONS in
     bind_io (cost_of sos queries_at_risk (plans_of sos (ca_sections c) baseline) (ca_sections c) cl) (\<lambda>cost.
       ret \<lparr>rw_base = ca_base c, rw_has_changes = list_ex (\<lambda>(_, changes). changes \<noteq> []) diffs,
         rw_sections = diffs, rw_cost = cost\<rparr>)))"

definition review :: "settings \<Rightarrow> ('r, 'p, 'e) section_ops list \<Rightarrow> ('r, 'e, 'r reviewed) act" where
  "review s sos = bind_io (cluster_dep s) (review_in sos)"

definition reset_candidate :: "settings \<Rightarrow> 'r bson \<Rightarrow> ('r, 'e, unit) act" where
  "reset_candidate s b = bind_io candidate_load (\<lambda>c. bind_io (candidate_reset s b (ca_base c)) (\<lambda>_. ret ()))"

section \<open>Going back to a Snapshot\<close>

record revert_effect =
  re_from :: int
  re_sections :: "section_name list"
  re_others :: "int option"
  re_dropped :: "string list"
  re_created :: "string list"
  re_replaced :: "string list"
  re_cost :: apply_cost
  re_summary :: string

definition RESTART_WARNING :: string where
  "RESTART_WARNING = ''Applying this restarts the Trino coordinator, which terminates every running and ''
     @ ''queued query. Trino cannot drain a coordinator, so there is no way to avoid it.''"

definition summary_parts :: "string list \<Rightarrow> apply_cost \<Rightarrow> int \<Rightarrow> string \<Rightarrow> string list" where
  "summary_parts dropped cost from_number what = [what]
     @ (if dropped = [] then [''Applying this will drop no catalogs.'']
        else [''Applying this will drop '' @ show_nat (length dropped) @ '' catalog''
          @ (if 1 < length dropped then ''s'' else []) @ '': '' @ join_with '', '' dropped @ ''.''])
     @ (if ac_restarts cost then RESTART_WARNING # (case ac_at_risk cost of None \<Rightarrow> []
          | Some n \<Rightarrow> [show_nat n @ '' are running or queued right now.'']) else [])
     @ [''Snapshot '' @ show_int from_number @ '' is not modified; applying this produces a new Snapshot.'']"

definition summary :: "string list \<Rightarrow> apply_cost \<Rightarrow> int \<Rightarrow> string \<Rightarrow> string" where
  "summary dropped cost from_number what = join_with '' '' (summary_parts dropped cost from_number what)"

definition snapshot_sections :: "int \<Rightarrow> ('r, 'e, 'r sections) act" where
  "snapshot_sections n = bind_io (get_snapshot_io n) (\<lambda>known. case known of
      None \<Rightarrow> raise_io (Raised NotFound (''No Snapshot numbered '' @ show_int n @ ''.''))
    | Some _ \<Rightarrow> sections_of_io (Some n))"

definition with_catalogs :: "section_plan option \<Rightarrow> (catalog_plan \<Rightarrow> ('r, 'e, 'a) act) \<Rightarrow> ('r, 'e, 'a) act" where
  "with_catalogs p f = (case p of None \<Rightarrow> raise_io (Raised KeyError CATALOGS) | Some p \<Rightarrow> with_catalog_plan p f)"

definition effect_of :: "libs \<Rightarrow> cluster \<Rightarrow> resource candidate \<Rightarrow> int \<Rightarrow> section_name list \<Rightarrow> int option \<Rightarrow> string \<Rightarrow>
    (resource, 'e, revert_effect) act" where
  "effect_of lb cl c n sections others what = bind_io (sections_of_io (ca_base c)) (\<lambda>baseline.
     let registered = (REGISTERED lb :: 'e the_section list); plans = plans_of registered (ca_sections c) baseline in
     with_catalogs (map_of plans CATALOGS) (\<lambda>p.
     bind_io (cost_of registered queries_at_risk plans (ca_sections c) cl) (\<lambda>cost.
       ret \<lparr>re_from = n, re_sections = sections, re_others = others, re_dropped = cp_dropped p,
         re_created = cp_created p, re_replaced = cp_replaced p, re_cost = cost,
         re_summary = summary (cp_dropped p) cost n what\<rparr>)))"

definition show_snapshot :: "int option \<Rightarrow> string" where
  "show_snapshot n = (case n of None \<Rightarrow> ''None'' | Some n \<Rightarrow> show_int n)"

definition section_revert :: "libs \<Rightarrow> settings \<Rightarrow> resource bson \<Rightarrow> cluster \<Rightarrow> section_name \<Rightarrow> int \<Rightarrow>
    (resource, 'e, revert_effect) act" where
  "section_revert lb s b cl name n = bind_io (snapshot_sections n) (\<lambda>restored. bind_io candidate_load (\<lambda>loaded.
     let c = loaded\<lparr>ca_sections := AList.update name (sec_get restored name) (ca_sections loaded)\<rparr> in
     bind_io (candidate_save s b c (Some name) (Some Reverted) (Some (''restored from Snapshot '' @ show_int n))) (\<lambda>_.
       effect_of lb cl c n [name] (ca_base c)
         (name @ '' will be restored to Snapshot '' @ show_int n @ ''; every other Section stays at Snapshot ''
          @ show_snapshot (ca_base c) @ ''. That combination has never run.''))))"

definition full_rollback :: "libs \<Rightarrow> settings \<Rightarrow> resource bson \<Rightarrow> cluster \<Rightarrow> int \<Rightarrow> (resource, 'e, revert_effect) act" where
  "full_rollback lb s b cl n = bind_io (snapshot_sections n) (\<lambda>restored. bind_io candidate_load (\<lambda>loaded.
     let c = loaded\<lparr>ca_sections := all_sections restored\<rparr> in
     bind_io (candidate_save s b c (Some PIPELINE_CATEGORY) (Some Rolled_Back)
         (Some (''the whole Candidate restored from Snapshot '' @ show_int n))) (\<lambda>_.
       effect_of lb cl c n SECTIONS None
         (''The entire Candidate will be replaced with Snapshot '' @ show_int n @ ''.''))))"

section \<open>A configuration as a document\<close>

datatype origin = From_snapshot | From_candidate

record 'r document =
  dm_source :: origin
  dm_snapshot :: "int option"
  dm_sections :: "'r sections"
  dm_admin :: "admin_values option"

definition of_snapshot :: "int \<Rightarrow> 'r sections \<Rightarrow> 'r document" where
  "of_snapshot n ss = \<lparr>dm_source = From_snapshot, dm_snapshot = Some n, dm_sections = ss, dm_admin = None\<rparr>"

definition of_candidate :: "int option \<Rightarrow> 'r sections \<Rightarrow> 'r document" where
  "of_candidate base ss = \<lparr>dm_source = From_candidate, dm_snapshot = base, dm_sections = ss, dm_admin = None\<rparr>"

definition of_cluster :: "int option \<Rightarrow> 'r sections \<Rightarrow> admin_values \<Rightarrow> 'r document" where
  "of_cluster base ss v = \<lparr>dm_source = From_candidate, dm_snapshot = base, dm_sections = ss, dm_admin = Some v\<rparr>"

type_synonym 'r readers = "section_name \<Rightarrow> 'r resources \<Rightarrow> validation_failure list"

definition missing_section :: "section_name \<Rightarrow> validation_failure" where
  "missing_section name = \<lparr>vf_section = Some name, vf_resource = None,
     vf_reason = ''is missing from the document. An import replaces the whole configuration, so a Section that should ''
       @ ''be empty is written as {} rather than left out.''\<rparr>"

definition unknown_section :: "string \<Rightarrow> validation_failure" where
  "unknown_section key = \<lparr>vf_section = None, vf_resource = None,
     vf_reason = quoted key @ '' is not a Section this Apchi manages. The Sections are: '' @ join_with '', '' SECTIONS @ ''.''\<rparr>"

definition problems_with :: "'r readers \<Rightarrow> 'r sections \<Rightarrow> validation_failure list" where
  "problems_with readers ss =
     map missing_section (filter (\<lambda>name. \<not> has_key ss name) (sorted_set SECTIONS))
     @ concat (map (\<lambda>key. if key \<in> set SECTIONS then readers key (sec_get ss key) else [unknown_section key]) (sorted_keys ss))"

definition accepted :: "'r readers \<Rightarrow> 'r document \<Rightarrow> exn + 'r sections" where
  "accepted readers d = (let problems = problems_with readers (dm_sections d) in
     if problems \<noteq> [] then Inl (Raised UnprocessablePayload (''This configuration has ''
       @ show_nat (length problems) @ '' problem(s), so none of it was stored.''))
     else Inr (dm_sections d))"

text \<open>\<open>admin: None\<close>: an Operator's document that carries Admin values is refused by its schema.\<close>

definition operator_document :: "'r document \<Rightarrow> ('r, 'e, unit) act" where
  "operator_document d = (if dm_admin d = None then ret ()
     else raise_io (Raised UnprocessablePayload ''The request payload is not valid.''))"

definition export_candidate :: "('r, 'e, 'r document) act" where
  "export_candidate = bind_io candidate_load (\<lambda>c. ret (of_candidate (ca_base c) (ca_sections c)))"

definition export_snapshot :: "int \<Rightarrow> ('r, 'e, 'r document) act" where
  "export_snapshot n = bind_io (get_snapshot_io n) (\<lambda>known. case known of
      None \<Rightarrow> raise_io (Raised NotFound (''No Snapshot numbered '' @ show_int n @ ''.''))
    | Some snap \<Rightarrow> ret (of_snapshot (sn_number snap) (sn_sections snap)))"

definition import_candidate ::
  "settings \<Rightarrow> 'r bson \<Rightarrow> ('r, 'p, 'e) section_ops list \<Rightarrow> 'r readers \<Rightarrow> 'r document \<Rightarrow> ('r, 'e, 'r reviewed) act" where
  "import_candidate s b sos readers d = then_io (operator_document d) (bind_io (cluster_dep s) (\<lambda>cl.
     bind_io (lift_error (accepted readers d)) (\<lambda>ss.
     bind_io (candidate_replace s b ss) (\<lambda>_. review_in sos cl))))"

lemmas staging_defs = cluster_dep_def queries_at_risk_def review_in_def review_def reset_candidate_def snapshot_sections_def
  with_catalogs_def effect_of_def section_revert_def full_rollback_def operator_document_def export_candidate_def
  export_snapshot_def import_candidate_def

end
