(* ===== verification/Validation.thy ===== *)
theory Validation
  imports Registry Preconditions Cluster_Ops
begin

text \<open>
  Trino validation (\<open>app/pipeline/validation.py\<close>, \<open>app/pipeline/connectivity.py\<close>): every Section's own
  checks and the rules between Sections first, then, where some Section has anything a coordinator
  could refuse, an ephemeral coordinator with the files and statements of the Candidate. The pod and
  its Secret are born and die with the run. Four catalogs are asked for their schemas at a time; the
  answers are collected in name order whatever order they come in, so the model asks in that order.
\<close>

section \<open>Names and texts\<close>

definition lower_alnum :: "char \<Rightarrow> bool" where
  "lower_alnum c \<longleftrightarrow> (CHR ''a'' \<le> c \<and> c \<le> CHR ''z'') \<or> (CHR ''0'' \<le> c \<and> c \<le> CHR ''9'')"

text \<open>\<open>re.sub(r"[^a-z0-9]+", "-", text)\<close>.\<close>

fun dashed :: "bool \<Rightarrow> string \<Rightarrow> string" where
  "dashed in_run [] = []"
| "dashed in_run (c # cs) = (if lower_alnum c then c # dashed False cs
     else if in_run then dashed True cs else CHR ''-'' # dashed True cs)"

definition strip_dashes :: "string \<Rightarrow> string" where
  "strip_dashes s = rev (dropWhile (\<lambda>c. c = CHR ''-'') (rev (dropWhile (\<lambda>c. c = CHR ''-'') s)))"

definition rstrip_dashes :: "string \<Rightarrow> string" where
  "rstrip_dashes s = rev (dropWhile (\<lambda>c. c = CHR ''-'') (rev s))"

definition pod_name :: "string \<Rightarrow> string" where
  "pod_name validation_id = rstrip_dashes (take 63 (''apchi-validate-''
     @ strip_dashes (dashed False (lower_case validation_id))))"

definition telling :: "string \<Rightarrow> bool" where
  "telling line \<longleftrightarrow> (contains ''ERROR'' line \<or> contains ''Caused by'' line \<or> contains ''Configuration is invalid'' line)
     \<and> \<not> starts_with ''http'' (strip line)"

definition why_of :: "string \<Rightarrow> string" where
  "why_of logs = (let interesting = map strip (filter telling (splitlines logs)) in
     join_with '' / '' (drop (length interesting - 3) interesting))"

definition blame_of :: "string \<Rightarrow> string dict \<Rightarrow> string option" where
  "blame_of logs blame = (case map snd (filter (\<lambda>(path, _). contains path logs) blame) of
      [resource] \<Rightarrow> Some resource
    | [] \<Rightarrow> (case blame of [(_, resource)] \<Rightarrow> Some resource | _ \<Rightarrow> None)
    | _ \<Rightarrow> None)"

section \<open>The ephemeral coordinator\<close>

definition VALIDATION_POLL_SECONDS :: nat where "VALIDATION_POLL_SECONDS = 2"

definition PROBE_CONFIGURATION :: "string dict" where
  "PROBE_CONFIGURATION = [(''coordinator'', ''true''), (''node-scheduler.include-coordinator'', ''true''),
     (''discovery.uri'', ''http://localhost:8080''), (''catalog.management'', ''${ENV:CATALOG_MANAGEMENT}'')]"

definition file_mounts :: "string dict \<Rightarrow> string dict" where
  "file_mounts files = map (\<lambda>path. (path, path_name (posix path))) (sorted_keys files)"

definition validation_manifest :: "string \<Rightarrow> string \<Rightarrow> nat \<Rightarrow> string dict \<Rightarrow> probe_pod" where
  "validation_manifest name img deadline files = \<lparr>pr_name = name, pr_image = img, pr_deadline = deadline,
     pr_secret = (if files = [] then None else Some name), pr_mounts = file_mounts files\<rparr>"

text \<open>The Secret is flat and the mount paths are not: two files of one name are refused.\<close>

definition probe_secret :: "string dict \<Rightarrow> exn + string dict" where
  "probe_secret files =
     (let keyed = fold (\<lambda>(path, content). AList.update (path_name (posix path)) content) files [] in
      if length keyed \<noteq> length files then Inl (Raised ValueError (commas (sorted_keys files))) else Inr keyed)"

definition could_not_start :: "string \<Rightarrow> string \<Rightarrow> string dict \<Rightarrow> validation_failure" where
  "could_not_start what logs blame = \<lparr>vf_section = None, vf_resource = blame_of logs blame,
     vf_reason = strip (''The validation coordinator could not start: '' @ what @ ''. '' @ why_of logs)\<rparr>"

definition not_in_time :: "nat \<Rightarrow> string \<Rightarrow> validation_failure" where
  "not_in_time timeout phase = \<lparr>vf_section = None, vf_resource = None,
     vf_reason = ''The validation coordinator was not serving within '' @ show_nat timeout @ ''s (last seen ''
       @ phase @ ''). The Cluster was not touched.''\<rparr>"

definition validation_failed :: "validation_failure list \<Rightarrow> exn" where
  "validation_failed failures = Failed_Validation failures"

text \<open>\<open>None\<close> is a loop that has not ended.\<close>

fun await_serving :: "nat \<Rightarrow> nat \<Rightarrow> nat \<Rightarrow> string \<Rightarrow> string dict \<Rightarrow> ('r, 'e, unit option) act" where
  "await_serving 0 deadline timeout name blame = ret None"
| "await_serving (Suc fuel) deadline timeout name blame =
     bind_io (pod_state_io name) (\<lambda>st. case po_problem st of
       Some what \<Rightarrow> bind_io (pod_logs name) (\<lambda>logs. raise_io (validation_failed [could_not_start what logs blame]))
     | None \<Rightarrow>
         bind_io (if po_host st = None then ret None else probe_starting) (\<lambda>starting.
           if starting = Some False then ret (Some ())
           else bind_io now_io (\<lambda>now.
             if deadline \<le> now then raise_io (validation_failed [not_in_time timeout (po_phase st)])
             else then_io (sleep VALIDATION_POLL_SECONDS) (await_serving fuel deadline timeout name blame))))"

definition serving :: "settings \<Rightarrow> string \<Rightarrow> string dict \<Rightarrow> ('r, 'e, unit) act" where
  "serving s name blame = bind_io now_io (\<lambda>now. let timeout = st_validation_timeout s in
     then_io (await_serving (Suc (Suc timeout)) (now + timeout) timeout name blame) (ret ()))"

text \<open>\<open>async with ephemeral_trino(...)\<close>: deleted however the block exits.\<close>

definition with_probe ::
  "settings \<Rightarrow> string \<Rightarrow> string dict \<Rightarrow> string dict \<Rightarrow> ('r, 'e, 'a) act \<Rightarrow> ('r, 'e, 'a) act" where
  "with_probe s validation_id files blame body =
     bind_io (deployment_image (st_container s)) (\<lambda>img. let name = pod_name validation_id in
     then_io (when_io (files \<noteq> []) (bind_io (lift_error (probe_secret files)) (create_labelled_secret name)))
     (then_io (create_pod (validation_manifest name img (st_validation_timeout s + 60) files))
       (finally_io (then_io (serving s name blame) body)
         (then_io (delete_pod name) (when_io (files \<noteq> []) (delete_secret name))))))"

section \<open>Reachability\<close>

definition ask_schemas :: "string \<Rightarrow> ('r, 'e, validation_failure list) act" where
  "ask_schemas name = try_io is_exception (then_io (schemas_of name) (ret []))
     (\<lambda>e. ret [\<lparr>vf_section = Some CATALOGS, vf_resource = Some name,
        vf_reason = ''The validation coordinator could not reach this Catalog: '' @ exn_message e\<rparr>])"

definition unreachable_catalogs :: "'r resources \<Rightarrow> ('r, 'e, validation_failure list) act" where
  "unreachable_catalogs catalogs =
     bind_io (collect_io ask_schemas (sorted_keys catalogs)) (\<lambda>results. ret (concat results))"

section \<open>Validating a Candidate\<close>

definition updated_with :: "'v dict \<Rightarrow> 'v dict \<Rightarrow> 'v dict" where
  "updated_with d e = fold (\<lambda>(k, v). AList.update k v) e d"

fun check_sections ::
  "cluster \<Rightarrow> 'r sections \<Rightarrow> 'p dict \<Rightarrow> ('r, 'p, 'e) section_ops list \<Rightarrow> ('r, 'e, validation_failure list) act" where
  "check_sections cl ss plans [] = ret []"
| "check_sections cl ss plans (so # sos) = (case map_of plans (so_name so) of
      None \<Rightarrow> raise_io (Raised KeyError (so_name so))
    | Some plan \<Rightarrow> bind_io (so_check so cl (sec_get ss (so_name so)) plan) (\<lambda>found.
        bind_io (check_sections cl ss plans sos) (\<lambda>rest. ret (found @ rest))))"

definition probing :: "('r, 'p, 'e) section_ops list \<Rightarrow> 'r sections \<Rightarrow> ('r, 'p, 'e) section_ops list" where
  "probing registered ss = filter (\<lambda>so. so_needs_probe so (sec_get ss (so_name so))) registered"

text \<open>The files in front of the probe, which resource each belongs to, and the properties that name them.\<close>

record probe_plan =
  pb_files :: "string dict"
  pb_blame :: "string dict"
  pb_properties :: "string dict"

definition contribute :: "cluster \<Rightarrow> 'r sections \<Rightarrow> ('r, 'p, 'e) section_ops \<Rightarrow> probe_plan \<Rightarrow> probe_plan" where
  "contribute cl ss so p =
     (let staged = sec_get ss (so_name so);
          contributed = probe_files so (cl_settings cl) staged (cl_admin cl) in
      \<lparr>pb_files = updated_with (pb_files p) contributed,
       pb_blame = (case sorted_keys staged of [] \<Rightarrow> pb_blame p
         | first # _ \<Rightarrow> updated_with (pb_blame p) (map (\<lambda>(path, _). (path, first)) contributed)),
       pb_properties = fold (\<lambda>spec d. updated_with d (spec_probe_config spec))
         (so_coordinator_files so (cl_settings cl)) (pb_properties p)\<rparr>)"

definition probe_plan_of :: "cluster \<Rightarrow> 'r sections \<Rightarrow> ('r, 'p, 'e) section_ops list \<Rightarrow> probe_plan" where
  "probe_plan_of cl ss sos = fold (contribute cl ss) sos \<lparr>pb_files = [], pb_blame = [], pb_properties = PROBE_CONFIGURATION\<rparr>"

definition raw_on_probe :: "cluster \<Rightarrow> string dict" where
  "raw_on_probe cl = filter (\<lambda>(path, _). path \<noteq> CONFIG_PROPERTIES) (av_raw_files (cl_admin cl))"

definition probe_contents :: "cluster \<Rightarrow> probe_plan \<Rightarrow> string dict" where
  "probe_contents cl p =
     (let files = updated_with (pb_files p) (raw_on_probe cl) in
      if files = [] then []
      else AList.update CONFIG_PROPERTIES
        (concat (map (\<lambda>(k, v). k @ ''='' @ v @ [newline]) (pb_properties p))) files)"

fun probe_sections ::
  "'r sections \<Rightarrow> ('r, 'p, 'e) section_ops list \<Rightarrow> ('r, 'e, validation_failure list) act" where
  "probe_sections ss [] = ret []"
| "probe_sections ss (so # sos) = bind_io (so_check_probe so (sec_get ss (so_name so))) (\<lambda>found.
     bind_io (probe_sections ss sos) (\<lambda>rest. ret (found @ rest)))"

definition on_probe ::
  "settings \<Rightarrow> 'r sections \<Rightarrow> ('r, 'p, 'e) section_ops list \<Rightarrow>
     ('r, 'e, validation_failure list \<times> validation_failure list) act" where
  "on_probe s ss sos = bind_io (probe_sections ss sos) (\<lambda>failures.
     if sec_get ss CATALOGS \<noteq> [] \<and> failures = []
     then bind_io (unreachable_catalogs (sec_get ss CATALOGS)) (\<lambda>unreached.
       ret (if st_connectivity_blocks s then (unreached, []) else ([], unreached)))
     else ret (failures, []))"

definition validate_candidate ::
  "libs \<Rightarrow> resource sections \<Rightarrow> section_plan dict \<Rightarrow> cluster \<Rightarrow> string \<Rightarrow>
     (resource, 'e, validation_failure list) act" where
  "validate_candidate lb ss plans cl validation_id =
     bind_io (check_sections cl ss plans (REGISTERED lb)) (\<lambda>checked.
     let failures = checked @ missing_certificates (own a_catalog (sec_get ss CATALOGS))
           (own a_certificate (sec_get ss CLIENT_CERTIFICATES));
         sos = probing (REGISTERED lb :: 'e the_section list) ss; plan = probe_plan_of cl ss sos in
     if failures \<noteq> [] then raise_io (validation_failed failures)
     else if sos = [] then ret []
     else bind_io (with_probe (cl_settings cl) validation_id (probe_contents cl plan) (pb_blame plan)
         (on_probe (cl_settings cl) ss sos)) (\<lambda>(failures, warnings).
       if failures \<noteq> [] then raise_io (validation_failed failures) else ret warnings))"

section \<open>The startup sweep\<close>

text \<open>What \<open>main.lifespan\<close> does about a crash in mid-validation.\<close>

definition sweep_orphans :: "('r, 'e, string list \<times> string list) act" where
  "sweep_orphans = try_io is_exception
     (bind_io delete_pods (\<lambda>orphans. bind_io delete_secrets (\<lambda>stale. ret (orphans, stale))))
     (\<lambda>_. ret ([], []))"

end
