(* ===== verification/Validation_Correct.thy ===== *)
theory Validation_Correct
  imports Validation Keeps
begin

text \<open>
  Validation touches nothing but its own pod and Secret, whatever fails on the way, and with the
  Kubernetes API answering neither outlives it. A pod that cannot be created leaves its Secret behind.
\<close>

section \<open>The Cluster, as Validation could touch it\<close>

definition cluster_view :: "string \<Rightarrow> ('r, 'e) world \<Rightarrow>
  live_catalogs \<times> pod_spec \<times> string dict dict \<times> string list \<times> (string \<Rightarrow> string dict option)" where
  "cluster_view name w = (w_live w, w_pod w, w_config_maps w, w_restarts w,
     (map_of (w_secrets w))(name := None))"

lemma plain_view [simp]: "plain (cluster_view name)"
  by (simp add: plain_def cluster_view_def)

lemma keeps_lift_error [keeps_intros]: "within (keeps f) (lift_error r)"
  by (auto simp: lift_error_def split: sum.split)

lemma keeps_collect: "(\<And>x. within (keeps f) (g x)) \<Longrightarrow> within (keeps f) (collect_io g xs)"
  by (induction xs) auto

lemma keeps_catalogs_check [keeps_intros]: "plain f \<Longrightarrow> within (keeps f) (catalogs_check cl desired p)"
  by (auto simp: catalogs_check_def Let_def intro!: keeps_intros)

lemma view_image: "within (keeps (cluster_view name)) (deployment_image cont)"
  by (auto simp: deployment_image_def intro!: keeps_intros split: option.split)

lemma view_pods: "within (keeps (cluster_view name)) (create_pod p)" "within (keeps (cluster_view name)) (delete_pod n)"
  by (auto simp: create_pod_def delete_pod_def or_gone_def cluster_view_def
      intro!: keeps_intros keeps_update split: if_splits)

lemma view_secret: "within (keeps (cluster_view name)) (create_labelled_secret name data)"
  "within (keeps (cluster_view name)) (delete_secret name)"
  by (auto simp: create_labelled_secret_def delete_secret_def or_gone_def cluster_view_def fun_eq_iff
      intro!: keeps_intros keeps_update split: if_splits)

lemma keeps_reading: "(\<And>xs w. f (put xs w) = f w) \<Longrightarrow> within (keeps f) (next_reading d get put)"
  by (auto simp: within_def keeps_def next_reading_def split: list.splits)

lemma view_states: "within (keeps (cluster_view name)) (pod_state_io n)"
  "within (keeps (cluster_view name)) (pod_logs n)" "within (keeps (cluster_view name)) probe_starting"
  by (auto simp: pod_state_io_def pod_logs_def probe_starting_def cluster_view_def intro!: keeps_intros keeps_reading)

lemma view_probe: "within (keeps (cluster_view name)) (probe_create_catalog n conn ps)"
  "within (keeps (cluster_view name)) (schemas_of n)"
  by (auto simp: probe_create_catalog_def schemas_of_def cluster_view_def
      intro!: keeps_intros keeps_update keeps_pair split: if_splits)

lemma view_serving: "within (keeps (cluster_view name)) (serving s n blame)"
proof -
  have "within (keeps (cluster_view name)) (await_serving fuel deadline timeout n blame)" for fuel deadline timeout
    by (induction fuel) (auto intro!: view_states keeps_intros split: option.split)
  then show ?thesis by (auto simp: serving_def Let_def intro!: keeps_intros simp del: await_serving.simps)
qed

lemma view_unreachable: "within (keeps (cluster_view name)) (unreachable_catalogs cs)"
  by (auto simp: unreachable_catalogs_def ask_schemas_def intro!: view_probe keeps_collect)

lemma view_probe_catalogs: "within (keeps (cluster_view name)) (catalogs_check_probe desired)"
  by (auto simp: catalogs_check_probe_def probe_catalog_def
      intro!: keeps_collect view_probe keeps_intros split: prod.split)

lemma check_only_reads: "so \<in> set (REGISTERED lb) \<Longrightarrow> plain f \<Longrightarrow> within (keeps f) (so_check so cl res p)"
  by (auto simp: in_REGISTERED section_defs with_catalog_plan_def intro!: keeps_intros split: section_plan.split)

lemma check_probe_view: "so \<in> set (REGISTERED lb) \<Longrightarrow> within (keeps (cluster_view name)) (so_check_probe so res)"
  by (auto simp: in_REGISTERED section_defs intro!: view_probe_catalogs)

lemma view_on_probe:
  assumes "set sos \<subseteq> set (REGISTERED lb)"
  shows "within (keeps (cluster_view name)) (on_probe s ss sos)"
proof -
  have "within (keeps (cluster_view name)) (probe_sections ss sos)"
    using assms by (induction sos) (auto intro!: check_probe_view)
  then show ?thesis by (auto simp: on_probe_def intro!: view_unreachable)
qed

lemma view_with_probe:
  assumes "within (keeps (cluster_view (pod_name i))) body"
  shows "within (keeps (cluster_view (pod_name i))) (with_probe s i files blame body)"
  unfolding with_probe_def Let_def
  using assms by (auto intro!: view_image view_secret view_pods view_serving keeps_intros)

lemma view_check_sections:
  assumes "set sos \<subseteq> set (REGISTERED lb)" and "plain f"
  shows "within (keeps f) (check_sections cl ss plans sos)"
  using assms by (induction sos) (auto intro!: check_only_reads split: option.split)

lemma validation_keeps: "within (keeps (cluster_view (pod_name i))) (validate_candidate lb ss plans cl i)"
proof -
  have probed: "set (probing (REGISTERED lb) ss) \<subseteq> set (REGISTERED lb)" by (auto simp: probing_def)
  show ?thesis
    unfolding validate_candidate_def Let_def
    by (auto intro!: view_check_sections [OF order_refl] view_with_probe view_on_probe [OF probed] split: prod.split)
qed


section \<open>What is left of the probe\<close>

text \<open>The run itself leaves the pods and Secrets as they are and a healthy API server healthy.\<close>

definition steady :: "('r, 'e) world \<Rightarrow> ('r, 'e) world \<Rightarrow> bool" where
  "steady w w' \<longleftrightarrow> w_pods w' = w_pods w \<and> w_secrets w' = w_secrets w \<and> (w_kube w = [] \<longrightarrow> w_kube w' = [])"

interpretation steady: step_order steady
  by unfold_locales (auto simp: steady_def)

lemma steady_external:
  assumes "\<And>w. steady w (snd (m w))"
  shows "within steady (kube m)" "within steady (probe m)" "within steady (trino m)"
proof -
  have "w_pods (snd (m (w_kube_update (\<lambda>_. fs) w))) = w_pods w" "w_secrets (snd (m (w_kube_update (\<lambda>_. fs) w))) = w_secrets w"
    "steady w (snd (m (w_probe_update (\<lambda>_. fs) w)))" "steady w (snd (m (w_trino_update (\<lambda>_. fs) w)))" for fs w
    using assms [of "w_kube_update (\<lambda>_. fs) w"] assms [of "w_probe_update (\<lambda>_. fs) w"]
      assms [of "w_trino_update (\<lambda>_. fs) w"] by (simp_all add: steady_def)
  then show "within steady (kube m)" "within steady (probe m)" "within steady (trino m)"
    using assms by (auto simp: within_def external_defs external_def steady_def split: list.splits fault.splits)
qed

lemma steady_reading: "(\<And>xs w. steady w (put xs w)) \<Longrightarrow> within steady (next_reading d get put)"
  by (auto simp: within_def next_reading_def steady.step_refl split: list.splits)

lemma steady_update: "(\<And>w w'. f w = Inr w' \<Longrightarrow> steady w w') \<Longrightarrow> within steady (update_io f)"
  by (auto simp: within_def update_io_def steady.step_refl split: sum.splits)

lemma steady_kube: "within steady m \<Longrightarrow> within steady (kube m)" "within steady m \<Longrightarrow> within steady (probe m)"
  "within steady m \<Longrightarrow> within steady (trino m)"
  by (rule steady_external, erule withinD)+

lemma steady_calls:
  "within steady (pod_state_io n)" "within steady (pod_logs n)" "within steady probe_starting"
  "within steady now_io" "within steady (sleep k)" "within steady (schemas_of n)"
  "within steady (probe_create_catalog n conn ps)" "within steady (deployment_image cont)"
proof -
  show "within steady (pod_state_io n)" "within steady (pod_logs n)" "within steady probe_starting"
    "within steady (deployment_image cont)"
    by (auto simp: pod_state_io_def pod_logs_def probe_starting_def deployment_image_def
        intro!: steady_kube steady_reading split: option.split) (auto simp: steady_def)
  show "within steady now_io" "within steady (sleep k)"
    by (auto simp: within_def now_io_def sleep_def modify_io_def steady_def Let_def split: list.split)
  show "within steady (schemas_of n)"
    unfolding schemas_of_def by (rule steady_kube(2)) (simp add: within_def steady.step_refl)
  show "within steady (probe_create_catalog n conn ps)"
    unfolding probe_create_catalog_def
    by (auto intro!: steady_kube(2) steady_update split: if_splits) (simp_all add: steady_def)
qed

lemma steady_serving: "within steady (serving s n blame)"
proof -
  have "within steady (await_serving fuel deadline timeout n blame)" for fuel deadline timeout
    by (induction fuel) (auto intro!: steady_calls split: option.split)
  then show ?thesis by (auto simp: serving_def Let_def intro!: steady_calls simp del: await_serving.simps)
qed

lemma steady_lift: "within steady (lift_error r)"
  by (auto simp: lift_error_def split: sum.split)

lemma steady_collect: "(\<And>x. within steady (g x)) \<Longrightarrow> within steady (collect_io g xs)"
  by (induction xs) auto

lemma steady_on_probe:
  assumes "set sos \<subseteq> set (REGISTERED lb)"
  shows "within steady (on_probe s ss sos)"
proof -
  have "within steady (so_check_probe so res)" if "so \<in> set (REGISTERED lb)" for so and res
    using that by (auto simp: in_REGISTERED section_defs catalogs_check_probe_def probe_catalog_def
        intro!: steady_collect steady_lift steady_calls split: prod.split)
  then have "within steady (probe_sections ss sos)"
    using assms by (induction sos) auto
  then show ?thesis
    by (auto simp: on_probe_def unreachable_catalogs_def ask_schemas_def intro!: steady_collect steady_calls)
qed

lemma steady_check_sections:
  assumes "set sos \<subseteq> set (REGISTERED lb)"
  shows "within steady (check_sections cl ss plans sos)"
proof -
  have "within steady (catalogs_check cl desired p)" for desired p
    by (auto simp: catalogs_check_def adapter_defs Let_def intro!: steady_lift steady_kube split: option.split)
  then have "within steady (so_check so cl res p)" if "so \<in> set (REGISTERED lb)" for so and res p
    using that by (auto simp: in_REGISTERED section_defs with_catalog_plan_def split: section_plan.split)
  then show ?thesis using assms by (induction sos) (auto split: option.split)
qed

text \<open>Created, then deleted: as if it had never been.\<close>

lemma delete_fresh: "\<not> has_key d k \<Longrightarrow> AList.delete k (AList.update k v d) = d"
proof -
  assume "\<not> has_key d k"
  moreover from this have "AList.delete k d = d" by (force simp: AList.delete_eq filter_id_conv)
  ultimately show ?thesis by (simp add: update_fresh AList.delete_eq)
qed

definition restored :: "('r, 'e) world \<Rightarrow> ('r, 'e) world \<Rightarrow> bool" where
  "restored w w' \<longleftrightarrow> w_pods w' = w_pods w \<and> w_secrets w' = w_secrets w"

lemma steady_restored: "steady w w1 \<Longrightarrow> restored w1 w2 \<Longrightarrow> restored w w2"
  by (simp add: steady_def restored_def)

lemma wp_run_on_probe:
  assumes w: "w_kube w = []" and fresh: "pod_name i \<notin> set (map pr_name (w_pods w))" and body: "within steady body"
  shows "wp (with_probe s i files blame body) (\<lambda>_. restored w) (\<lambda>_. restored w) w"
proof -
  let ?name = "pod_name i" and ?R = "restored w"
  let ?cleanup = "then_io (delete_pod ?name) (when_io (files \<noteq> []) (delete_secret ?name))"
  have block: "wp (finally_io (then_io (serving s ?name blame) body) ?cleanup) (\<lambda>_. ?R) (\<lambda>_. ?R) w1"
    if w1: "w_kube w1 = []" "w_pods w1 = w_pods w @ [p]" "pr_name p = ?name"
      "w_secrets w1 = (if files = [] then w_secrets w else AList.update ?name data (w_secrets w))"
      "files \<noteq> [] \<longrightarrow> \<not> has_key (w_secrets w) ?name" for w1 p data
  proof -
    have after: "wp ?cleanup (\<lambda>_. ?R) (\<lambda>_. ?R) w2" if "steady w1 w2" for w2
    proof -
      have "w_kube w2 = []" "w_pods w2 = w_pods w @ [p]" "w_secrets w2 = w_secrets w1"
        using that w1 by (simp_all add: steady_def)
      moreover have "filter (\<lambda>q. pr_name q \<noteq> ?name) (w_pods w) = w_pods w"
        using fresh by (force simp: filter_id_conv)
      ultimately show ?thesis
        using w1 delete_fresh [of ?name "w_secrets w" data]
        by (cases "files = []") (simp_all add: delete_pod_def delete_secret_def or_gone_def restored_def)
    qed
    have "within steady (then_io (serving s ?name blame) body)" using body steady_serving by blast
    then show ?thesis unfolding wp_finally by (rule wp_within) (rule after, assumption)+
  qed
  show ?thesis
    unfolding with_probe_def Let_def wp_bind
  proof (rule wp_within [OF steady_calls(8)])
    fix img and w1 assume "steady w w1"
    then have w1: "w_kube w1 = []" "w_pods w1 = w_pods w" "w_secrets w1 = w_secrets w"
      using w by (simp_all add: steady_def)
    show "wp (then_io (when_io (files \<noteq> []) (bind_io (lift_error (probe_secret files)) (create_labelled_secret ?name)))
        (then_io (create_pod (validation_manifest ?name img (st_validation_timeout s + 60) files))
          (finally_io (then_io (serving s ?name blame) body) ?cleanup))) (\<lambda>_. ?R) (\<lambda>_. ?R) w1"
    proof (cases "files = []")
      case True
      let ?p = "validation_manifest ?name img (st_validation_timeout s + 60) files"
      have "pr_name ?p = ?name" by (simp add: validation_manifest_def)
      then show ?thesis
        using fresh w1 block [of "w1\<lparr>w_pods := w_pods w @ [?p]\<rparr>" ?p]
        by (simp add: create_pod_def True del: wp_finally)
    next
      case False
      show ?thesis
      proof (cases "probe_secret files")
        case (Inl e)
        then show ?thesis using False w1 by (simp add: restored_def)
      next
        case (Inr data)
        show ?thesis
        proof (cases "has_key (w_secrets w) ?name")
          case True
          then show ?thesis using False Inr w1 by (simp add: create_labelled_secret_def restored_def)
        next
          case fresh_secret: False
          let ?p = "validation_manifest ?name img (st_validation_timeout s + 60) files"
          have "pr_name ?p = ?name" by (simp add: validation_manifest_def)
          then show ?thesis
            using False Inr w1 fresh fresh_secret
              block [of "w1\<lparr>w_secrets := AList.update ?name data (w_secrets w),
                w_labelled := w_labelled w1 @ [?name], w_pods := w_pods w @ [?p]\<rparr>" ?p data]
            by (simp add: create_labelled_secret_def create_pod_def del: wp_finally)
        qed
      qed
    qed
  qed (simp add: steady_def restored_def)
qed

text \<open>C10: With the Kubernetes API answering, the ephemeral coordinator never outlives a Validation, however it
  ends: passed, refused, timed out, or cut off while it ran. The pods and Secrets afterwards are those there
  were before, of a validation whose pod name is not taken.\<close>

theorem probe_never_outlives:
  assumes "w_kube w = []" and "pod_name i \<notin> set (map pr_name (w_pods w))"
  shows "restored w (snd (validate_candidate lb ss plans cl i w))"
proof -
  have probed: "set (probing (REGISTERED lb) ss) \<subseteq> set (REGISTERED lb)" by (auto simp: probing_def)
  have "wp (validate_candidate lb ss plans cl i) (\<lambda>_. restored w) (\<lambda>_. restored w) w"
    unfolding validate_candidate_def wp_bind
  proof (rule wp_within [OF steady_check_sections [OF order_refl]])
    fix checked w1 assume w1: "steady w w1"
    then have "w_kube w1 = []" "pod_name i \<notin> set (map pr_name (w_pods w1))" using assms by (simp_all add: steady_def)
    note run = wp_run_on_probe [OF this steady_on_probe [OF probed]]
    show "wp (let failures = checked @ missing_certificates (own a_catalog (sec_get ss CATALOGS))
           (own a_certificate (sec_get ss CLIENT_CERTIFICATES));
         sos = probing (REGISTERED lb) ss; plan = probe_plan_of cl ss sos in
       if failures \<noteq> [] then raise_io (validation_failed failures)
       else if sos = [] then ret []
       else bind_io (with_probe (cl_settings cl) i (probe_contents cl plan) (pb_blame plan)
           (on_probe (cl_settings cl) ss sos)) (\<lambda>(failures, warnings).
         if failures \<noteq> [] then raise_io (validation_failed failures) else ret warnings))
       (\<lambda>_. restored w) (\<lambda>_. restored w) w1"
      using w1 steady_restored [OF w1] unfolding Let_def
      by (auto intro!: wp_mono [OF run]) (auto simp: steady_def restored_def)
  qed (auto simp: steady_def restored_def)
  then show ?thesis by (simp add: wp_world)
qed

theorem probe_never_outlives_witness:
  "restored (new_install ()) (snd (validate_candidate \<lparr>lb_camel = id, lb_fullmatch = (\<lambda>p v. Some (p = v))\<rparr>
     [(CATALOGS, [(''tpch'', A_catalog \<lparr>cat_connector = ''tpch'', cat_properties = [], cat_certificate = None\<rparr>)])]
     (map (\<lambda>n. (n, Catalogs_plan \<lparr>cp_created = [''tpch''], cp_replaced = [], cp_dropped = []\<rparr>)) SECTIONS)
     \<lparr>cl_settings = demo_settings, cl_admin = default_admin\<rparr> ''42'' (new_install ())))"
  by (rule probe_never_outlives) (simp_all add: new_install_def)

text \<open>
  A pod that cannot be created is outside the block that cleans up: its Secret, with whatever
  credentials the Candidate holds, stays until the next start sweeps it.
\<close>

lemma probe_secret_leaks:
  assumes "w_kube w = [Fine, Fine, Fail_before e]" and "map_of (w_images w) (st_container s) = Some img"
    and "files \<noteq> []" and "probe_secret files = Inr data" and "\<not> has_key (w_secrets w) (pod_name i)"
  shows "wp (with_probe s i files blame body) (\<lambda>_ _. False)
    (\<lambda>e' w'. e' = e \<and> map_of (w_secrets w') (pod_name i) = Some data \<and> w_pods w' = w_pods w) w"
  using assms by (simp add: with_probe_def deployment_image_def Let_def create_labelled_secret_def create_pod_def
      kube_def wp_external)

text \<open>Deleting a list of pods, as the sweep of the next start does.\<close>

lemma wp_delete_pod [simp]:
  "w_kube w = [] \<Longrightarrow> wp (delete_pod n) Q E w = Q () (w\<lparr>w_pods := filter (\<lambda>p. pr_name p \<noteq> n) (w_pods w)\<rparr>)"
proof (cases "n \<in> set (map pr_name (w_pods w))")
  case False
  moreover from this have "filter (\<lambda>p. pr_name p \<noteq> n) (w_pods w) = w_pods w" by (force simp: filter_id_conv)
  moreover assume "w_kube w = []"
  ultimately show ?thesis by (simp add: delete_pod_def or_gone_def)
qed (simp add: delete_pod_def or_gone_def)

lemma wp_delete_pods:
  "w_kube w = [] \<Longrightarrow> Q () (w\<lparr>w_pods := filter (\<lambda>p. pr_name p \<notin> set ns) (w_pods w)\<rparr>) \<Longrightarrow> wp (for_io delete_pod ns) Q E w"
proof (induction ns arbitrary: w)
  case (Cons n ns)
  then show ?case by (simp add: conj_commute)
qed simp

end
