(* ===== verification/Preconditions_Correct.thy ===== *)
theory Preconditions_Correct
  imports Preconditions
begin

text \<open>
  What the preconditions promise: they pass exactly on a deployment that can support an Apply. The
  deployment's side is stated without the code's loops: which mounts are where, what the files in
  force say, and how credentials are readable.
\<close>

section \<open>A deployment that supports an Apply\<close>

definition mounted :: "container list \<Rightarrow> volume_mount set" where
  "mounted cs = (\<Union>c \<in> set cs. set (ct_mounts c))"

definition secret_behind :: "pod_spec \<Rightarrow> volume_mount \<Rightarrow> string option" where
  "secret_behind spec m = Option.bind (volumes_by_name spec (mt_name m)) vo_secret"

text \<open>The files in force: what the first container that serves the path has there.\<close>

definition in_force :: "('r, 'e) world \<Rightarrow> pod_spec \<Rightarrow> (volume_mount \<Rightarrow> bool) \<Rightarrow> string \<Rightarrow> string option" where
  "in_force w spec declared path = (case find (\<lambda>c. case provides c path of
        None \<Rightarrow> False | Some m \<Rightarrow> declared m) (ps_containers spec) of
      None \<Rightarrow> None | Some c \<Rightarrow> content_in w spec path (Some (ct_name c)))"

definition refreshes :: "('r, 'e) world \<Rightarrow> pod_spec \<Rightarrow> bool" where
  "refreshes w spec \<longleftrightarrow> (\<exists>text. in_force w spec (\<lambda>m. volumes_by_name spec (mt_name m) \<noteq> None) PROPERTIES_PATH = Some text
     \<and> sets_refresh_period text)"

definition points_at :: "('r, 'e) world \<Rightarrow> pod_spec \<Rightarrow> string \<Rightarrow> string \<Rightarrow> string \<Rightarrow> bool" where
  "points_at w spec holder prop target \<longleftrightarrow> (\<exists>text. in_force w spec (\<lambda>_. True) holder = Some text
     \<and> property_in text prop = Some target)"

text \<open>A credential is readable by Trino's group and, on the volumes others mount, by nobody else.\<close>

definition credentials_restricted :: "pod_spec \<Rightarrow> string list \<Rightarrow> string list \<Rightarrow> bool" where
  "credentials_restricted spec bearing ours \<longleftrightarrow> (\<forall>v \<in> set (ps_volumes spec).
     (\<exists>secret \<in> set bearing. vo_secret v = Some secret) \<longrightarrow> ps_fs_group spec \<noteq> None
       \<and> (vo_name v \<notin> set ours \<longrightarrow> (\<exists>mode. vo_mode v = Some mode \<and> mode AND FORBIDDEN_CREDENTIAL_BITS = 0)))"

text \<open>Trino answers a client: plain HTTP unless it is off, a certificate where it asks for one.\<close>

definition answers :: "settings \<Rightarrow> string \<Rightarrow> bool" where
  "answers s content \<longleftrightarrow> (\<forall>a. property_in content AUTHENTICATION_TYPE = Some a \<and> a \<noteq> [] \<and> flag_in content HTTPS_ENABLED
      \<and> \<not> flag_in content ALLOW_INSECURE_OVER_HTTP \<longrightarrow>
     starts_with ''https://'' (st_trino_url s)
     \<and> (lower_case a = ''certificate'' \<longrightarrow> st_trino_certificate s \<noteq> None))"

definition supports :: "('r, 'p, 'e) section_ops list \<Rightarrow> settings \<Rightarrow> ('r, 'e) world \<Rightarrow> bool" where
  "supports registered s w \<longleftrightarrow> (let spec = w_pod w; owned = owned_paths registered s in
     (\<forall>m \<in> mounted (every_container spec). \<forall>secret \<in> set (st_catalog_secret s # admin_mounted_secrets registered s).
        secret_behind spec m = Some secret \<longrightarrow> mt_sub_path m = None)
     \<and> (\<exists>m \<in> mounted (ps_init_containers spec). secret_behind spec m = Some (st_catalog_secret s))
     \<and> (\<forall>m \<in> mounted (ps_containers spec). read_only_mount spec m \<longrightarrow> \<not> covers (mt_path m) (st_catalog_store_dir s))
     \<and> (\<forall>m \<in> mounted (ps_containers spec). \<forall>v. map_of owned (mt_path m) = Some v \<longrightarrow> mt_name m = v)
     \<and> refreshes w spec
     \<and> (\<forall>m \<in> mounted (ps_containers spec). \<forall>p \<in> fst ` set owned. read_only_mount spec m \<longrightarrow>
          \<not> covers (mt_path m) (path_str (path_parent (posix p))))
     \<and> (st_groups_from_deployment s \<longrightarrow> points_at w spec MANAGER_PATH ''resource-groups.config-file'' RULES_IN_DIR)
     \<and> (st_listener_from_deployment s \<longrightarrow>
          points_at w spec CONFIG_PROPERTIES ''event-listener.config-files'' LISTENER_PATH_IN_DIR)
     \<and> credentials_restricted spec (bearing_secrets registered s) (map snd (owned_paths registered s))
     \<and> (\<forall>worker. w_worker_pod w = Some worker \<longrightarrow> credentials_restricted worker (bearing_secrets registered s) [])
     \<and> (\<forall>text. content_in w spec CONFIG_PROPERTIES None = Some text \<longrightarrow> answers s text))"

section \<open>Each check is its clause\<close>

lemma over_mounts_Nil: "over_mounts cs f = [] \<longleftrightarrow> (\<forall>c \<in> set cs. \<forall>m \<in> set (ct_mounts c). f c m = [])"
  by (auto simp: over_mounts_def)

lemma ball_mounted: "(\<forall>m \<in> mounted cs. P m) \<longleftrightarrow> (\<forall>c \<in> set cs. \<forall>m \<in> set (ct_mounts c). P m)"
  by (auto simp: mounted_def)

lemma sub_path_clause:
  "sub_path_problems spec managed = [] \<longleftrightarrow> (\<forall>m \<in> mounted (every_container spec). \<forall>secret \<in> set managed.
     secret_behind spec m = Some secret \<longrightarrow> mt_sub_path m = None)"
  unfolding sub_path_problems_def over_mounts_Nil ball_mounted
  by (intro ball_cong refl) (auto simp: secret_behind_def bind_eq_Some_conv split: option.splits)

lemma seed_clause:
  "seed_problems spec s = [] \<longleftrightarrow>
     (\<exists>m \<in> mounted (ps_init_containers spec). secret_behind spec m = Some (st_catalog_secret s))"
proof -
  have "(case volumes_by_name spec (mt_name m) of None \<Rightarrow> False | Some v \<Rightarrow> vo_secret v = Some (st_catalog_secret s))
      \<longleftrightarrow> secret_behind spec m = Some (st_catalog_secret s)" for m
    by (simp add: secret_behind_def split: option.split)
  then have "seeds spec s = [] \<longleftrightarrow>
      (\<forall>m \<in> mounted (ps_init_containers spec). secret_behind spec m \<noteq> Some (st_catalog_secret s))"
    by (simp add: seeds_def ball_mounted filter_empty_conv)
  then show ?thesis by (auto simp: seed_problems_def)
qed

lemma store_clause:
  "store_problems spec s = [] \<longleftrightarrow> (\<forall>m \<in> mounted (ps_containers spec). read_only_mount spec m \<longrightarrow>
     \<not> covers (mt_path m) (st_catalog_store_dir s))"
  by (auto simp: store_problems_def over_mounts_Nil ball_mounted)

lemma foreign_clause:
  "foreign_problems spec owned = [] \<longleftrightarrow>
     (\<forall>m \<in> mounted (ps_containers spec). \<forall>v. map_of owned (mt_path m) = Some v \<longrightarrow> mt_name m = v)"
  unfolding foreign_problems_def over_mounts_Nil ball_mounted
  by (intro ball_cong refl) (auto split: option.splits)

lemma directory_clause:
  "directory_problems spec owned = [] \<longleftrightarrow>
     (\<forall>m \<in> mounted (ps_containers spec). \<forall>p \<in> fst ` set owned. read_only_mount spec m \<longrightarrow>
        \<not> covers (mt_path m) (path_str (path_parent (posix p))))"
  unfolding directory_problems_def over_mounts_Nil ball_mounted
  by (intro ball_cong refl) (auto simp: covered_paths_def filter_empty_conv)

lemma credentials_clause:
  "exposure_in spec role bearing ours = [] \<longleftrightarrow> credentials_restricted spec bearing ours"
proof -
  have vols: "set (bearing_volumes spec bearing) = {v \<in> set (ps_volumes spec). \<exists>secret \<in> set bearing. vo_secret v = Some secret}"
    by (auto simp: bearing_volumes_def split: option.splits)
  have mode: "mode_problems role ours v = [] \<longleftrightarrow>
      (vo_name v \<notin> set ours \<longrightarrow> (\<exists>mode. vo_mode v = Some mode \<and> mode AND FORBIDDEN_CREDENTIAL_BITS = 0))" for v
    by (auto simp: mode_problems_def split: option.splits)
  show ?thesis
  proof (cases "bearing_volumes spec bearing = []")
    case True
    then have "{v \<in> set (ps_volumes spec). \<exists>secret \<in> set bearing. vo_secret v = Some secret} = {}"
      using vols by simp
    then show ?thesis using True by (auto simp: exposure_in_def credentials_restricted_def)
  next
    case False
    then obtain v where "v \<in> set (bearing_volumes spec bearing)" by (cases "bearing_volumes spec bearing") auto
    then have v: "v \<in> set (ps_volumes spec)" "\<exists>secret \<in> set bearing. vo_secret v = Some secret"
      unfolding vols by simp_all
    show ?thesis
      using False v mode
      by (cases "ps_fs_group spec") (auto simp: exposure_in_def credentials_restricted_def vols)
  qed
qed

lemma connection_clause: "connection_problems s content = [] \<longleftrightarrow> answers s content"
  by (auto simp: connection_problems_def answers_def Let_def split: option.splits if_splits)

lemma wp_pod_spec [simp]:
  "w_kube w = [] \<Longrightarrow> wp deployment_pod_spec Q E w = Q (w_pod w) w"
  "w_kube w = [] \<Longrightarrow> wp deployment_pod_spec_if_present P E w = P (w_worker_pod w) w"
  by (simp_all add: deployment_pod_spec_def deployment_pod_spec_if_present_def or_absent_def)

lemma wp_refresh:
  assumes "w_kube w = []"
  shows "wp (refresh_from spec cs) Q E w = Q (case find (\<lambda>c. case provides c PROPERTIES_PATH of None \<Rightarrow> False
      | Some m \<Rightarrow> volumes_by_name spec (mt_name m) \<noteq> None) cs of
    None \<Rightarrow> [No_Properties]
  | Some c \<Rightarrow> (case content_in w spec PROPERTIES_PATH (Some (ct_name c)) of
      None \<Rightarrow> (let m = the (provides c PROPERTIES_PATH) in [Unreadable_Properties (ct_name c) (mt_name m) (mt_path m)])
    | Some text \<Rightarrow> if sets_refresh_period text then [] else [No_Refresh_Period])) w"
  by (induction cs) (auto simp: assms Let_def split: option.split)

lemma wp_pointer:
  assumes "w_kube w = []"
  shows "wp (pointer_from spec cs holder prop target setting) Q E w = Q (case find (\<lambda>c. provides c holder \<noteq> None) cs of
    None \<Rightarrow> [Pointer_Unprovided setting prop holder]
  | Some c \<Rightarrow> pointer_verdict holder prop target setting (content_in w spec holder (Some (ct_name c)))) w"
  by (induction cs) (auto simp: assms split: option.split)

lemma refresh_clause:
  "(case find (\<lambda>c. case provides c PROPERTIES_PATH of None \<Rightarrow> False
      | Some m \<Rightarrow> volumes_by_name spec (mt_name m) \<noteq> None) (ps_containers spec) of
    None \<Rightarrow> [No_Properties]
  | Some c \<Rightarrow> (case content_in w spec PROPERTIES_PATH (Some (ct_name c)) of
      None \<Rightarrow> (let m = the (provides c PROPERTIES_PATH) in [Unreadable_Properties (ct_name c) (mt_name m) (mt_path m)])
    | Some text \<Rightarrow> if sets_refresh_period text then [] else [No_Refresh_Period])) = [] \<longleftrightarrow> refreshes w spec"
  by (auto simp: refreshes_def in_force_def Let_def split: option.splits)

lemma pointer_clause:
  "(case find (\<lambda>c. provides c holder \<noteq> None) (ps_containers spec) of
    None \<Rightarrow> [Pointer_Unprovided setting prop holder]
  | Some c \<Rightarrow> pointer_verdict holder prop target setting (content_in w spec holder (Some (ct_name c)))) = []
   \<longleftrightarrow> points_at w spec holder prop target"
proof -
  have "(\<lambda>c. case provides c holder of None \<Rightarrow> False | Some m \<Rightarrow> True) = (\<lambda>c. provides c holder \<noteq> None)"
    by (auto simp: fun_eq_iff split: option.split)
  then show ?thesis
    by (auto simp: points_at_def in_force_def pointer_verdict_def split: option.splits)
qed

section \<open>The preconditions\<close>

text \<open>On a healthy API server the problems are a function of what is there.\<close>

definition refresh_now :: "('r, 'e) world \<Rightarrow> problem list" where
  "refresh_now w = (case find (\<lambda>c. case provides c PROPERTIES_PATH of None \<Rightarrow> False
      | Some m \<Rightarrow> volumes_by_name (w_pod w) (mt_name m) \<noteq> None) (ps_containers (w_pod w)) of
    None \<Rightarrow> [No_Properties]
  | Some c \<Rightarrow> (case content_in w (w_pod w) PROPERTIES_PATH (Some (ct_name c)) of
      None \<Rightarrow> (let m = the (provides c PROPERTIES_PATH) in [Unreadable_Properties (ct_name c) (mt_name m) (mt_path m)])
    | Some text \<Rightarrow> if sets_refresh_period text then [] else [No_Refresh_Period]))"

definition pointer_now :: "('r, 'e) world \<Rightarrow> string \<Rightarrow> string \<Rightarrow> string \<Rightarrow> string \<Rightarrow> problem list" where
  "pointer_now w holder prop target setting = (case find (\<lambda>c. provides c holder \<noteq> None) (ps_containers (w_pod w)) of
    None \<Rightarrow> [Pointer_Unprovided setting prop holder]
  | Some c \<Rightarrow> pointer_verdict holder prop target setting (content_in w (w_pod w) holder (Some (ct_name c))))"

definition pointers_now :: "settings \<Rightarrow> ('r, 'e) world \<Rightarrow> problem list" where
  "pointers_now s w =
     (if st_groups_from_deployment s then pointer_now w MANAGER_PATH ''resource-groups.config-file'' RULES_IN_DIR
         ''resource_groups_properties_from_deployment'' else [])
     @ (if st_listener_from_deployment s then pointer_now w CONFIG_PROPERTIES ''event-listener.config-files''
         LISTENER_PATH_IN_DIR ''event_listener_config_files_from_deployment'' else [])"

definition credentials_now :: "('r, 'p, 'e) section_ops list \<Rightarrow> settings \<Rightarrow> ('r, 'e) world \<Rightarrow> problem list" where
  "credentials_now registered s w =
     exposure_in (w_pod w) ''coordinator'' (bearing_secrets registered s) (map snd (owned_paths registered s))
     @ (case w_worker_pod w of None \<Rightarrow> [] | Some v \<Rightarrow> exposure_in v ''worker'' (bearing_secrets registered s) [])"

definition connection_now :: "settings \<Rightarrow> ('r, 'e) world \<Rightarrow> problem list" where
  "connection_now s w = (case content_in w (w_pod w) CONFIG_PROPERTIES None of
     None \<Rightarrow> [] | Some text \<Rightarrow> connection_problems s text)"

lemma now_clauses:
  "refresh_now w = [] \<longleftrightarrow> refreshes w (w_pod w)"
  "pointer_now w holder prop target setting = [] \<longleftrightarrow> points_at w (w_pod w) holder prop target"
  "credentials_now registered s w = [] \<longleftrightarrow>
     credentials_restricted (w_pod w) (bearing_secrets registered s) (map snd (owned_paths registered s))
     \<and> (\<forall>v. w_worker_pod w = Some v \<longrightarrow> credentials_restricted v (bearing_secrets registered s) [])"
  "connection_now s w = [] \<longleftrightarrow> (\<forall>text. content_in w (w_pod w) CONFIG_PROPERTIES None = Some text \<longrightarrow> answers s text)"
  unfolding refresh_now_def refresh_clause pointer_now_def pointer_clause
  by (auto simp: credentials_now_def credentials_clause connection_now_def connection_clause split: option.splits)

lemma pointers_clause:
  "pointers_now s w = [] \<longleftrightarrow>
     (st_groups_from_deployment s \<longrightarrow> points_at w (w_pod w) MANAGER_PATH ''resource-groups.config-file'' RULES_IN_DIR)
     \<and> (st_listener_from_deployment s \<longrightarrow>
          points_at w (w_pod w) CONFIG_PROPERTIES ''event-listener.config-files'' LISTENER_PATH_IN_DIR)"
  by (simp add: pointers_now_def now_clauses(2))

definition problems_now :: "('r, 'p, 'e) section_ops list \<Rightarrow> settings \<Rightarrow> ('r, 'e) world \<Rightarrow> problem list" where
  "problems_now registered s w = (let spec = w_pod w; owned = owned_paths registered s in
     sub_path_problems spec (admin_mounted_secrets registered s @ [st_catalog_secret s]) @ seed_problems spec s
     @ store_problems spec s @ foreign_problems spec owned @ refresh_now w @ directory_problems spec owned
     @ pointers_now s w @ credentials_now registered s w @ connection_now s w)"

lemma problems_clause: "problems_now registered s w = [] \<longleftrightarrow> supports registered s w"
proof -
  have managed: "set (admin_mounted_secrets registered s @ [st_catalog_secret s])
      = set (st_catalog_secret s # admin_mounted_secrets registered s)" by auto
  show ?thesis
    unfolding problems_now_def supports_def Let_def append_is_Nil_conv sub_path_clause managed seed_clause
      store_clause foreign_clause directory_clause now_clauses pointers_clause
    by (simp only: conj_assoc)
qed

lemma wp_deployment_problems:
  assumes "w_kube w = []"
  shows "wp (deployment_problems registered s (w_pod w)) Q E w =
    Q (problems_now registered s w, connection_now s w) w"
proof -
  have refresh: "wp (refresh_period_problems (w_pod w)) P E w = P (refresh_now w) w" for P
    unfolding refresh_period_problems_def refresh_now_def by (rule wp_refresh [OF assms])
  have pointer: "wp (pointer_problem (w_pod w) h p target g) P E w
      = P (pointer_now w h p target g) w" for h p target g P
    unfolding pointer_problem_def pointer_now_def by (rule wp_pointer [OF assms])
  have pointers: "wp (pointer_problems (w_pod w) s) P E w = P (pointers_now s w) w" for P
    by (simp add: pointer_problems_def pointers_now_def pointer)
  have credentials: "wp (credential_problems registered s (w_pod w)) P E w = P (credentials_now registered s w) w" for P
    by (simp add: credential_problems_def credentials_now_def assms)
  have connection: "wp (unreachable_problems (w_pod w) s) P E w = P (connection_now s w) w" for P
    by (simp add: unreachable_problems_def connection_now_def assms)
  show ?thesis
    by (simp add: deployment_problems_def Let_def problems_now_def refresh pointers credentials connection)
qed

text \<open>C11: With the Kubernetes API answering, the preconditions pass exactly on a deployment that supports an
  Apply: no Secret Apchi manages is frozen by a subPath mount, the catalog seed is mounted, the catalog store is
  writable, no file of Apchi's is mounted by anyone else or sits inside a read-only directory, Trino re-reads
  the access-control rules, every pointer the deployment claims to set is set, credentials are restricted on
  both roles, and Trino answers the connection Apchi makes. Otherwise they refuse. Nothing is written.\<close>

theorem preconditions_exact:
  assumes "w_kube w = []"
  shows "wp (assert_preconditions registered s)
    (\<lambda>_ w'. supports registered s w \<and> w' = w)
    (\<lambda>e w'. \<not> supports registered s w \<and> w' = w \<and> (\<exists>why. e = Raised PreconditionFailed why)) w"
  unfolding assert_preconditions_def check_deployment_def wp_bind
  by (simp add: assms wp_deployment_problems problems_clause)

text \<open>A deployment in the shape the chart gives it: the rules' properties, the seed, and nothing else.\<close>

definition demo_deployment :: "('r, unit) world" where
  "demo_deployment = (new_install ())\<lparr>
     w_config_maps := [(''trino-access'', [(''access-control.properties'',
       ''access-control.name=file'' @ [newline] @ ''security.refresh-period=1s'')])],
     w_pod := \<lparr>ps_containers = [\<lparr>ct_name = ''trino'', ct_mounts = [
          \<lparr>mt_name = ''access'', mt_path = ''/etc/trino/access-control.properties'', mt_sub_path = Some ''access-control.properties''\<rparr>]\<rparr>],
       ps_init_containers = [\<lparr>ct_name = ''seed'', ct_mounts = [
          \<lparr>mt_name = ''catalogs'', mt_path = ''/seed'', mt_sub_path = None\<rparr>]\<rparr>],
       ps_volumes = [\<lparr>vo_name = ''access'', vo_secret = None, vo_config_map = Some ''trino-access'', vo_mode = None\<rparr>,
          \<lparr>vo_name = ''catalogs'', vo_secret = Some ''trino-catalogs'', vo_config_map = None, vo_mode = Some 416\<rparr>],
       ps_fs_group = Some 1000\<rparr>\<rparr>"

theorem preconditions_exact_witness:
  "let registered = ([] :: (unit, unit, unit) section_ops list) in
   wp (assert_preconditions registered demo_settings)
     (\<lambda>_ w'. supports registered demo_settings demo_deployment \<and> w' = demo_deployment)
     (\<lambda>e w'. \<not> supports registered demo_settings demo_deployment \<and> w' = demo_deployment
        \<and> (\<exists>why. e = Raised PreconditionFailed why)) demo_deployment"
  unfolding Let_def by (rule preconditions_exact) (simp add: demo_deployment_def new_install_def)

end
