(* ===== verification/Pipeline.thy ===== *)
theory Pipeline
  imports Engine Validation_Correct Preconditions_Correct Recovery_Correct
begin

text \<open>
  The pipeline as \<open>main.build_pipeline\<close> puts it together: the engines over the registered Sections, the
  deployment's preconditions and the ephemeral coordinator. Each of them keeps to the frame of an
  engine step, so both engines keep to the interface the runner relies on, and what was proved of
  the runner holds of the whole program.
\<close>

definition the_parts ::
  "libs \<Rightarrow> settings \<Rightarrow> resource bson \<Rightarrow> (string \<Rightarrow> string) \<Rightarrow> (resource, section_plan) parts" where
  "the_parts lb s bs sha = \<lparr>pt_registered = REGISTERED lb, pt_settings = s, pt_bson = bs, pt_sha = sha,
     pt_preconditions = assert_preconditions (REGISTERED lb) s,
     pt_validate_candidate = validate_candidate lb\<rparr>"

section \<open>Every part touches the Cluster only\<close>

locale quiet_program = quiet_steps R for R :: "(resource, 'e) world \<Rightarrow> (resource, 'e) world \<Rightarrow> bool"
begin

lemma quiet_catalogs [frame_intros]:
  "within R (execute desired p)" "within R (catalogs_apply cl desired p)"
  "within R (catalogs_restore cl desired)" "within R (catalogs_check cl desired p)"
  "within R (catalogs_verify cl desired)" "within R (catalogs_check_probe desired)"
proof -
  have stmt: "within R (issue_create d n)" "within R (issue_replace d n)" "within R (probe_catalog d n)" for d n
    by (auto simp: issue_create_def issue_replace_def probe_catalog_def Let_def intro!: frame_intros split: option.split)
  have e: "within R (execute desired p)" for desired p
    by (auto simp: execute_def intro!: frame_intros stmt)
  show "within R (execute desired p)" "within R (catalogs_apply cl desired p)"
    "within R (catalogs_restore cl desired)" "within R (catalogs_check cl desired p)"
    "within R (catalogs_verify cl desired)" "within R (catalogs_check_probe desired)"
    by (auto simp: catalogs_apply_def catalogs_restore_def catalogs_check_def catalogs_verify_def
        catalogs_check_probe_def Let_def intro!: frame_intros e stmt)
qed

lemma quiet_groups_verify [frame_intros]: "within R (groups_verify full cl desired)"
  by (auto simp: groups_verify_def smoke_group_def intro!: frame_intros split: option.split)

lemma quiet_registered:
  assumes "so \<in> set (REGISTERED lb)"
  shows "within R (so_apply so cl res plan)" "within R (so_restore so cl res)"
    "within R (so_verify so cl res)" "within R (so_check so cl res plan)" "within R (so_check_probe so res)"
  using assms unfolding in_REGISTERED
  by (auto simp: section_defs with_catalog_plan_def intro!: frame_intros split: section_plan.split)

lemma quiet_sections: "list_all quiet_section (REGISTERED lb)"
  by (auto simp: list_all_iff quiet_section_def intro: quiet_registered)

lemma quiet_content [frame_intros]: "within R (content_at spec path cont)"
  by (auto simp: content_at_def data_of_def intro!: frame_intros split: option.split)

lemma quiet_preconditions: "within R (assert_preconditions registered s)"
proof -
  have "within R (refresh_from spec cs)" for spec cs
    by (induction cs) (auto intro!: frame_intros split: option.split)
  moreover have "within R (pointer_from spec cs f p e s)" for spec cs f p e s
    by (induction cs) (auto intro!: frame_intros)
  ultimately show ?thesis
    by (auto simp: assert_preconditions_def check_deployment_def deployment_problems_def refresh_period_problems_def
        pointer_problems_def pointer_problem_def credential_problems_def unreachable_problems_def Let_def
        intro!: frame_intros)
qed

lemma quiet_await_serving [frame_intros]: "within R (await_serving fuel deadline timeout name blame)"
  by (induction fuel) (auto intro!: frame_intros split: option.split)

lemma quiet_with_probe: "within R body \<Longrightarrow> within R (with_probe s i files blame body)"
  by (auto simp: with_probe_def serving_def Let_def simp del: await_serving.simps intro!: frame_intros)

lemma quiet_check_sections: "set sos \<subseteq> set (REGISTERED lb) \<Longrightarrow> within R (check_sections cl ss plans sos)"
  by (induction sos) (auto intro!: frame_intros quiet_registered split: option.split)

lemma quiet_on_probe:
  assumes "set sos \<subseteq> set (REGISTERED lb)" shows "within R (on_probe s ss sos)"
proof -
  have "within R (probe_sections ss sos)"
    using assms by (induction sos) (auto intro!: quiet_registered)
  then show ?thesis
    by (auto simp: on_probe_def unreachable_catalogs_def ask_schemas_def intro!: frame_intros)
qed

lemma quiet_validate_candidate: "within R (validate_candidate lb ss plans cl i)"
  by (auto simp: validate_candidate_def probing_def Let_def
      intro!: quiet_check_sections quiet_with_probe quiet_on_probe split: prod.split)

end

interpretation frame_program: quiet_program frame
  by unfold_locales

lemma quiet_program_iff: "quiet_program R = quiet_steps R"
  by (simp add: quiet_program_def)

lemma registered_cluster_only: "list_all cluster_section (REGISTERED lb)"
proof -
  have "quiet_steps.quiet_section R so" if "quiet_steps R" "so \<in> set (REGISTERED lb)"
    for R :: "(resource, 'e) world \<Rightarrow> (resource, 'e) world \<Rightarrow> bool" and so
    using quiet_program.quiet_sections [of R lb] that by (simp add: quiet_program_iff list_all_iff)
  then show ?thesis by (auto simp: list_all_iff cluster_section_def)
qed

lemma borrowed_cluster_only:
  "cluster_only (assert_preconditions (REGISTERED lb) s)" "cluster_only (validate_candidate lb ss plans cl i)"
  using quiet_program.quiet_preconditions [unfolded quiet_program_iff]
    quiet_program.quiet_validate_candidate [unfolded quiet_program_iff]
  unfolding cluster_only_def by blast+

section \<open>The interface, on the program's own parts\<close>

interpretation pipeline: sections_contract "the_parts lb s bs sha" for lb s bs sha
  by unfold_locales (auto simp: the_parts_def intro: registered_cluster_only borrowed_cluster_only)

end
