(* ===== verification/Commit_Correct.thy ===== *)
theory Commit_Correct
  imports Pipeline Gates
begin

text \<open>
  What an Apply commits. Validation reads the Candidate once; every later stage works on what it
  read; the one Snapshot an Apply may append is written by its last stage, after Verification, and
  holds exactly that configuration. Nothing else of a run moves the Snapshots.
\<close>

section \<open>The Candidate a run reads\<close>

definition candidate_of :: "('r, 'e) world \<Rightarrow> 'r candidate" where
  "candidate_of w = (case w_candidate w of
      Some c \<Rightarrow> c\<lparr>ca_sections := set_defaults (ca_sections c)\<rparr>
    | None \<Rightarrow> (let number = map_option sn_number (latest (w_snapshots w)) in
        \<lparr>ca_base = number, ca_sections = sections_of number (w_snapshots w), ca_updated_at = None\<rparr>))"

lemma candidate_of_engine [simp]: "candidate_of (w_engine_update f w) = candidate_of w"
  by (cases "w_candidate w") (simp_all add: candidate_of_def)

lemma wp_candidate_read:
  "w_mongo w = [] \<Longrightarrow> wp candidate_load Q E w = Q (candidate_of w) w"
  by (auto simp: candidate_load_def derive_from_latest_def latest_io_def sections_of_io_def get_snapshot_io_def
      candidate_of_def sections_of_def Let_def split: option.split)

lemma wp_sections_read:
  "w_mongo w = [] \<Longrightarrow> wp (sections_of_io n) Q E w = Q (sections_of n (w_snapshots w)) w"
  by (auto simp: sections_of_io_def get_snapshot_io_def sections_of_def split: option.split)

text \<open>What the stages work on, and what Validation reads it from.\<close>

definition ledger :: "('r, ('r, 'p) engine_state) world \<Rightarrow> 'r snapshots \<times> 'r sections \<times> string" where
  "ledger w = (w_snapshots w, es_desired (w_engine w), es_apply_id (w_engine w))"

definition staged :: "('r, ('r, 'p) engine_state) world \<Rightarrow> 'r candidate option \<times> 'r snapshots \<times> string" where
  "staged w = (w_candidate w, w_snapshots w, es_apply_id (w_engine w))"

definition carries :: "('r, ('r, 'p) engine_state) world \<Rightarrow> ('r, ('r, 'p) engine_state) world \<Rightarrow> bool" where
  "carries w w' \<longleftrightarrow> ledger w' = ledger w \<and> (w_mongo w = [] \<longrightarrow> w_mongo w' = [])"

interpretation carries: quiet_engine carries
  by unfold_locales (auto simp: carries_def ledger_def)

interpretation staged: quiet_steps "keeps staged"
  by unfold_locales (auto simp: keeps_def staged_def)

lemma staged_candidate: "keeps staged w w' \<Longrightarrow> candidate_of w' = candidate_of w"
  by (simp add: keeps_def staged_def candidate_of_def split: option.split)

text \<open>The Apply store writes the Apply records and nothing else.\<close>

lemma keeps_apply_store:
  assumes "plain f" and "\<And>w g. f (w_applies_update g w) = f w"
  shows "within (keeps f) (advance_io i st d)" "within (keeps f) (record_warnings_io i ws)"
    "within (keeps f) (record_rollback_io i out)" "within (keeps f) (record_snapshot_io i n)"
    "within (keeps f) (fail_io i why)" "within (keeps f) (declare_incident_io i why msg)"
    "within (keeps f) (audited rn who i act snap o' detail)"
proof -
  have u: "within (keeps f) (update_apply g)" for g
    using assms by (auto simp: update_apply_def intro!: keeps_intros keeps_modify)
  show "within (keeps f) (advance_io i st d)" "within (keeps f) (record_warnings_io i ws)"
    "within (keeps f) (record_rollback_io i out)" "within (keeps f) (record_snapshot_io i n)"
    "within (keeps f) (fail_io i why)" "within (keeps f) (declare_incident_io i why msg)"
    "within (keeps f) (audited rn who i act snap o' detail)"
    using assms(1) by (auto simp: advance_io_def record_warnings_io_def record_rollback_io_def record_snapshot_io_def
        fail_io_def declare_incident_io_def audited_def intro!: u keeps_intros)
qed

lemmas snapshots_store = keeps_apply_store [where f = w_snapshots, OF plain_fields(2)]

lemma carries_store:
  "within carries (advance_io i st d)" "within carries (record_warnings_io i ws)"
proof -
  have "within carries (update_apply g)" for g
    unfolding update_apply_def by (intro frame_intros carries.quiet_modify) (simp add: carries_def ledger_def)
  then show "within carries (advance_io i st d)" "within carries (record_warnings_io i ws)"
    by (auto simp: advance_io_def record_warnings_io_def intro!: frame_intros)
qed

section \<open>What the last stage writes\<close>

text \<open>Exactly one Snapshot more: numbered one past the last, of this configuration, by this Apply.\<close>

definition committed :: "string \<Rightarrow> 'r sections \<Rightarrow> 'r snapshots \<Rightarrow> 'r snapshots \<Rightarrow> bool" where
  "committed i ss db db' \<longleftrightarrow>
     (\<exists>s. db' = db @ [s] \<and> sn_sections s = ss \<and> sn_apply_id s = i \<and> sn_number s = next_number db)"

lemma next_number_free: "next_number db \<notin> sn_number ` set db"
  by (cases "latest db") (auto simp: next_number_def dest!: latest_Some)

lemma wp_commit_snapshot:
  assumes w: "w_mongo w = []"
  shows "wp (commit_snapshot_io ss i) (\<lambda>s w'. frame w w' \<and> committed i ss (w_snapshots w) (w_snapshots w'))
    (\<lambda>_ _. False) w"
proof -
  have "wp now_io (\<lambda>now w'. w_mongo w' = [] \<and> w_applies w' = w_applies w \<and> w_snapshots w' = w_snapshots w)
      (\<lambda>_ _. False) w"
    using w by (auto intro!: now_io_booked dest: bookedD outside_fields(2))
  then show ?thesis
    unfolding commit_snapshot_io_def latest_io_def wp_bind wp_mongo_healthy [OF w] wp_asks Let_def
    using next_number_free [of "w_snapshots w"]
    by (elim wp_mono) (auto simp: build_snapshot_def insert_snapshot_def next_number_def committed_def frame_def)
qed

lemma wp_engine_commit:
  assumes w: "w_mongo w = []" and l: "ledger w = (db, ss, i)"
  shows "wp (engine_commit pt) (\<lambda>n w'. committed i ss db (w_snapshots w')) (\<lambda>_ w'. committed i ss db (w_snapshots w')) w"
proof -
  let ?P = "\<lambda>w'. committed i ss db (w_snapshots w')"
  have rest: "within (keeps w_snapshots) (then_io (try_io is_exception (mark_record s n) (\<lambda>_. ret ()))
      (then_io (bind_io (candidate_reset s b k) (\<lambda>_. ret ())) (ret r)))" for s b n k r
    by (auto intro!: frame_intros)
  have "wp (then_io (try_io is_exception (mark_record s n) (\<lambda>_. ret ()))
      (then_io (bind_io (candidate_reset s b k) (\<lambda>_. ret ())) (ret r))) (\<lambda>_. ?P) (\<lambda>_. ?P) v"
    if "?P v" for s b n k r v
    by (rule wp_within [OF rest]) (use that in \<open>simp_all add: keeps_def\<close>)
  then show ?thesis
    using l unfolding engine_commit_def wp_bind wp_asks
    by (auto simp: ledger_def simp del: wp_then wp_bind intro!: wp_mono [OF wp_commit_snapshot [OF w]])
qed

section \<open>What the stages before it keep\<close>

lemma wp_within_two:
  assumes "within R m" and "within S m" and "\<And>a w'. R w w' \<Longrightarrow> S w w' \<Longrightarrow> Q a w'" and "\<And>e w'. E e w'"
  shows "wp m Q E w"
  by (rule wp_mono [OF wp_within_and [OF assms(1) wp_within [OF assms(2)], where Q = "\<lambda>_. S w" and E = "\<lambda>_ _. True"]])
    (auto intro: assms(3,4))

lemma staged_freeze: "within (keeps staged) freeze_admin_values"
proof -
  have "within (keeps staged) admin_load" by (auto simp: admin_load_def intro!: frame_intros)
  then show ?thesis
    by (auto simp: freeze_admin_values_def intro!: keeps_modify) (simp add: staged_def)
qed

lemma ledger_set_engine:
  "(\<And>es. es_desired (f es) = es_desired es \<and> es_apply_id (f es) = es_apply_id es) \<Longrightarrow>
     within carries (set_engine f)"
  by (rule carries.quiet_modify) (simp add: carries_def ledger_def)

context sections_contract
begin

lemma ledger_rest: "within carries (validate_rest pt desired current)"
  by (auto simp: validate_rest_def Let_def
      intro!: ledger_set_engine frame_intros quiet_validation [OF carries.quiet_steps_axioms])

lemma wp_validate_reads:
  assumes w: "w_mongo w = []" and i: "es_apply_id (w_engine w) = i"
  shows "wp (eo_validate (operator_engine pt))
    (\<lambda>_ w'. ledger w' = (w_snapshots w, ca_sections (candidate_of w), i)) (\<lambda>_ w'. w_snapshots w' = w_snapshots w) w"
proof -
  let ?L = "\<lambda>w'. ledger w' = (w_snapshots w, ca_sections (candidate_of w), i)"
  let ?read = "bind_io desired_and_baseline (\<lambda>(desired, current).
     then_io (set_engine (\<lambda>es. es\<lparr>es_desired := desired\<rparr>)) (validate_rest pt desired current))"
  have read: "wp ?read (\<lambda>_. ?L) (\<lambda>_ _. True) w2" if w2: "w_mongo w2 = []" "keeps staged w w2" for w2
    unfolding desired_and_baseline_def wp_bind wp_candidate_read [OF w2(1)] wp_sections_read [OF w2(1)]
      wp_ret prod.case wp_then wp_modify
    using i w2(2) staged_candidate [OF w2(2)]
    by (intro wp_within [OF ledger_rest]) (auto simp: carries_def keeps_def ledger_def staged_def)
  have "wp (eo_validate (operator_engine pt)) (\<lambda>_. ?L) (\<lambda>_ _. True) w"
    unfolding operator_engine_def engine_ops.simps validate_with_def wp_then [of "pt_preconditions pt"]
  proof (rule wp_within_two [OF quiet_validation(1) [OF frame.quiet_steps_axioms]
        quiet_validation(1) [OF staged.quiet_steps_axioms]])
    fix w1 assume w1: "frame w w1" "keeps staged w w1"
    show "wp (then_io freeze_admin_values ?read) (\<lambda>_. ?L) (\<lambda>_ _. True) w1"
      unfolding wp_then [of freeze_admin_values]
      by (rule wp_within_two [OF frame_stages.quiet_state(2) staged_freeze], rule read)
        (use w w1 in \<open>auto simp: frame_def keeps_def\<close>)
  qed simp
  moreover have "within (keeps w_snapshots) (eo_validate (operator_engine pt))"
    by (rule snapshots_stages.quiet_validate(1)) (rule quiet_validation [OF snapshots_kept.quiet_steps_axioms])+
  ultimately show ?thesis
    by (rule wp_mono [OF wp_within_and [rotated]]) (auto simp: keeps_def)
qed

section \<open>The run\<close>

lemma wp_first_stage:
  assumes w: "w_mongo w = []" and i: "es_apply_id (w_engine w) = i"
  shows "wp (run_stage (operator_engine pt) i VALIDATING)
    (\<lambda>_ w'. ledger w' = (w_snapshots w, ca_sections (candidate_of w), i)) (\<lambda>_ w'. w_snapshots w' = w_snapshots w) w"
  unfolding run_stage_def step_of_def stage.case wp_then wp_bind simp_thms if_True if_False wp_ret
  by (rule wp_mono [OF wp_validate_reads [OF assms]])
    (auto intro!: wp_within [OF carries_store(2)] simp: carries_def ledger_def)

lemma carries_stage:
  assumes "st \<in> {APPLYING, ROLLING_OUT, VERIFYING}"
  shows "within carries (run_stage (operator_engine pt) i st)"
  using assms carries.quiet_stages [OF quiet_sections [OF carries.quiet_steps_axioms]]
  by (auto simp: run_stage_def step_of_def operator_engine_def intro!: carries_store)

lemma wp_fun: "wp (ret a) Q E = Q a" "wp (bind_io m f) Q E = wp m (\<lambda>a. wp (f a) Q E) E"
    "wp (then_io m n) Q E = wp m (\<lambda>_. wp n Q E) E"
  by (auto intro!: ext)

lemma wp_steps:
  assumes "wp (run_stage eo i st) (\<lambda>a. wp (run_steps eo i sts st (if a = None then snap else a)) Q E)
      (\<lambda>e. Q (st, Inl e)) w"
    and "st = ROLLING_OUT \<Longrightarrow> wp (run_steps eo i sts rc snap) Q E w"
  shows "wp (run_steps eo i (st # sts) rc snap) Q E w"
  using assms by (auto simp: wp_fun)

text \<open>How the loop ends: committed if and only if it reached its last stage.\<close>

definition loop_end :: "string \<Rightarrow> 'r sections \<Rightarrow> 'r snapshots \<Rightarrow> stage \<times> (exn + int option) \<Rightarrow>
    ('r, ('r, 'p) engine_state) world \<Rightarrow> bool" where
  "loop_end i ss db ro w \<longleftrightarrow> (if fst ro = COMMITTING then committed i ss db (w_snapshots w) else w_snapshots w = db)"

lemma wp_commit_stage:
  "wp (run_stage eo i COMMITTING) Q E w = wp (advance_io i COMMITTING None) (\<lambda>_. wp (eo_commit eo) Q E) E w"
  by (simp add: run_stage_def step_of_def wp_fun)

lemma wp_last_stage:
  assumes w: "w_mongo w = []" and l: "ledger w = (db, ss, i)"
  shows "wp (run_steps (operator_engine pt) i [COMMITTING] rc snap) (loop_end i ss db) E w"
proof -
  have "wp (run_stage (operator_engine pt) i COMMITTING) (\<lambda>_ w'. committed i ss db (w_snapshots w'))
      (\<lambda>_ w'. committed i ss db (w_snapshots w')) w"
    unfolding wp_commit_stage
  proof (rule wp_advance_io [OF w])
    fix now w1 assume w1: "booked w (advance i COMMITTING None now (w_applies w)) w1"
    have "ledger w1 = (db, ss, i)"
      using outside_fields(2,10) [OF bookedD(3) [OF w1]] l by (simp add: ledger_def)
    from wp_engine_commit [OF bookedD(1) [OF w1] this, of pt]
    show "wp (eo_commit (operator_engine pt)) (\<lambda>_ w'. committed i ss db (w_snapshots w'))
        (\<lambda>_ w'. committed i ss db (w_snapshots w')) w1"
      by (simp add: operator_engine_def)
  qed
  then show ?thesis
    by (auto simp: loop_end_def elim!: wp_mono)
qed

lemma wp_middle:
  assumes "set sts \<subseteq> {APPLYING, ROLLING_OUT, VERIFYING}" and "rc \<noteq> COMMITTING"
    and "w_mongo w = []" and "ledger w = (db, ss, i)"
  shows "wp (run_steps (operator_engine pt) i (sts @ [COMMITTING]) rc snap) (loop_end i ss db) E w"
  using assms
proof (induction sts arbitrary: rc snap w)
  case Nil
  then show ?case using wp_last_stage by simp
next
  case (Cons st sts)
  have st: "st \<in> {APPLYING, ROLLING_OUT, VERIFYING}" "st \<noteq> COMMITTING" using Cons.prems(1) by auto
  have next_stage: "wp (run_steps (operator_engine pt) i (sts @ [COMMITTING]) st s) (loop_end i ss db) E w'"
    if "carries w w'" for w' s
    by (rule Cons.IH) (use Cons.prems st that in \<open>auto simp: carries_def\<close>)
  have skip: "wp (run_steps (operator_engine pt) i (sts @ [COMMITTING]) rc snap) (loop_end i ss db) E w"
    by (rule Cons.IH) (use Cons.prems in auto)
  have go: "wp (run_stage (operator_engine pt) i st)
      (\<lambda>a. wp (run_steps (operator_engine pt) i (sts @ [COMMITTING]) st (if a = None then snap else a)) (loop_end i ss db) E)
      (\<lambda>e w'. loop_end i ss db (st, Inl e) w') w"
    by (rule wp_within [OF carries_stage [OF st(1)] next_stage])
      (use Cons.prems(4) st(2) in \<open>auto simp: carries_def ledger_def loop_end_def\<close>)
  show ?case
    unfolding append_Cons by (rule wp_steps [OF go skip])
qed

lemma wp_loop:
  assumes w: "w_mongo w = []" and i: "es_apply_id (w_engine w) = i"
    and h: "holds i (running VALIDATING) w"
  shows "wp (run_steps (operator_engine pt) i PIPELINE VALIDATING None)
    (\<lambda>ro w'. operator.stepped i ro w' \<and> loop_end i (ca_sections (candidate_of w)) (w_snapshots w) ro w') E w"
proof (rule wp_mono [OF wp_conj [OF operator.wp_run_steps [OF h, where E = "\<lambda>_ _. False"]]])
  let ?Q = "loop_end i (ca_sections (candidate_of w)) (w_snapshots w)"
  have first: "wp (run_stage (operator_engine pt) i VALIDATING)
      (\<lambda>_ w'. holds i (running VALIDATING) w' \<and> ledger w' = (w_snapshots w, ca_sections (candidate_of w), i))
      (\<lambda>_ w'. w_snapshots w' = w_snapshots w) w"
    by (rule wp_mono [OF wp_conj [OF operator.wp_run_stage [OF h] wp_first_stage [OF w i]]])
      (auto simp: PIPELINE_def)
  have pipeline: "PIPELINE = VALIDATING # ([APPLYING, ROLLING_OUT, VERIFYING] @ [COMMITTING])"
    by (simp add: PIPELINE_def)
  show "wp (run_steps (operator_engine pt) i PIPELINE VALIDATING None) ?Q (\<lambda>_ _. True) w"
    unfolding pipeline
    by (rule wp_steps, rule wp_mono [OF first])
      (auto simp: loop_end_def simp del: append.simps run_steps.simps intro!: wp_middle intro: holds_mongo)
qed auto

end

section \<open>How a run ends\<close>

text \<open>The Snapshots and the record tell the same story.\<close>

definition stages_of :: "apply_record \<Rightarrow> stage set" where
  "stages_of r = set (map ev_stage (ap_history r))"

definition settled :: "string \<Rightarrow> 'r sections \<Rightarrow> 'r snapshots \<Rightarrow> ('r, 'e) world \<Rightarrow> bool" where
  "settled i ss db w \<longleftrightarrow> (\<exists>r. get_apply i (w_applies w) = Some r \<and>
     (case ap_stage r of
        SUCCEEDED \<Rightarrow> committed i ss db (w_snapshots w)
      | FAILED \<Rightarrow> (if COMMITTING \<in> stages_of r then committed i ss db (w_snapshots w) else w_snapshots w = db)
      | INCIDENT \<Rightarrow> w_snapshots w = db
      | _ \<Rightarrow> False))"

lemma stages_advance [simp]: "stages_of (advance_record st d now r) = insert st (stages_of r)"
  by (simp add: stages_of_def advance_record_def)

lemma stages_update [simp]:
  "stages_of (r\<lparr>ap_rollback := x1\<rparr>) = stages_of r" "stages_of (r\<lparr>ap_failure_reason := x2\<rparr>) = stages_of r"
  "stages_of (r\<lparr>ap_snapshot := x3\<rparr>) = stages_of r"
  "stages_of (r\<lparr>ap_failure_reason := x2, ap_operator_message := x4\<rparr>) = stages_of r"
  by (simp_all add: stages_of_def)

lemma stage_advance [simp]: "ap_stage (advance_record st d now r) = st"
  by (simp add: advance_record_def)

text \<open>A record still walking the pipeline has passed through \<open>COMMITTING\<close> only if it is there.\<close>

lemma committing_last:
  "successively stage_step xs \<Longrightarrow> set xs \<subseteq> set PIPELINE \<Longrightarrow> xs \<noteq> [] \<Longrightarrow> last xs \<noteq> COMMITTING \<Longrightarrow> COMMITTING \<notin> set xs"
proof (induction xs)
  case (Cons x xs)
  then show ?case
    by (cases xs) (auto simp: stage_step_simps PIPELINE_def)
qed simp

lemma running_uncommitted: "running st r \<Longrightarrow> st \<noteq> COMMITTING \<Longrightarrow> COMMITTING \<notin> stages_of r"
  using committing_last [of "map ev_stage (ap_history r)"]
  by (auto simp: running_def on_path_def coherent_def stages_of_def last_map)

lemma running_committed: "running COMMITTING r \<Longrightarrow> COMMITTING \<in> stages_of r"
  by (force simp: running_def on_path_def coherent_def stages_of_def dest!: last_in_set)

text \<open>Ended without having reached \<open>COMMITTING\<close>.\<close>

definition abandoned :: "apply_record \<Rightarrow> bool" where
  "abandoned r \<longleftrightarrow> ap_stage r \<in> {FAILED, INCIDENT} \<and> COMMITTING \<notin> stages_of r"

lemma settledI:
  "holds i abandoned w \<Longrightarrow> w_snapshots w = db \<Longrightarrow> settled i ss db w"
  "holds i (\<lambda>r. ap_stage r = FAILED \<and> COMMITTING \<in> stages_of r) w \<Longrightarrow> committed i ss db (w_snapshots w) \<Longrightarrow>
     settled i ss db w"
  "holds i (\<lambda>r. ap_stage r = SUCCEEDED) w \<Longrightarrow> committed i ss db (w_snapshots w) \<Longrightarrow> settled i ss db w"
  unfolding holds_def abandoned_def settled_def by (elim conjE exE, rule exI, force)+

context guarded_engine
begin

text \<open>A rollback never enters \<open>COMMITTING\<close>, and ends the Apply.\<close>

lemma wp_roll_back_ends:
  assumes h: "holds i (\<lambda>r. COMMITTING \<notin> stages_of r) (w :: ('r, 'e) world)"
  shows "wp (roll_back rn eo i why)
    (\<lambda>_. holds i abandoned) (\<lambda>e _. e = Cancelled) w"
proof -
  let ?U = "\<lambda>r. COMMITTING \<notin> stages_of r"
  let ?Q = "\<lambda>_ :: unit. holds i abandoned"
  let ?E = "\<lambda>e (_ :: ('r, 'e) world). e = Cancelled"
  have incident: "wp (then_io (record_rollback_io i Rollback_Failed) (then_io (eo_declare_incident eo c)
      (then_io (declare_incident_io i c INCIDENT_MESSAGE) (audited rn SYSTEM_ACTOR i Rolled_Back None Failed (Some c)))))
      ?Q ?E w2" if w2: "holds i ?U w2" for w2 c
    unfolding wp_then
  proof (rule holds_updates(4) [OF w2, where P' = ?U])
    fix w3 :: "('r, 'e) world" assume w3: "holds i ?U w3"
    show "wp (eo_declare_incident eo c) (\<lambda>_. wp (declare_incident_io i c INCIDENT_MESSAGE)
        (\<lambda>_. wp (audited rn SYSTEM_ACTOR i Rolled_Back None Failed (Some c)) ?Q ?E) ?E) ?E w3"
      by (rule wp_mono [OF wp_within_and [OF incident_frame incident_quiet [OF holds_mongo [OF w3]]]])
        (auto intro!: holds_updates(6) [OF holds_frame [OF _ w3], where P' = abandoned]
          elim: holds_audited simp: abandoned_def)
  qed simp
  have restored: "wp (then_io (record_rollback_io i Rollback_Succeeded) (then_io (fail_io i why)
      (audited rn SYSTEM_ACTOR i Rolled_Back None Succeeded (Some why)))) ?Q ?E w2" if w2: "holds i ?U w2" for w2
    unfolding wp_then
    by (rule holds_updates(4) [OF w2, where P' = ?U],
        rule holds_updates(5) [where P = ?U and P' = abandoned])
      (auto elim: holds_audited simp: abandoned_def)
  show ?thesis
    unfolding roll_back_def wp_then [of "advance_io i ROLLING_BACK (Some why)"] Let_def
  proof (rule holds_advance [OF h, where P' = ?U])
    fix w1 :: "('r, 'e) world" assume w1: "holds i ?U w1"
    show "wp (try_else_io is_exception (eo_roll_back eo)
        (\<lambda>exc. then_io (record_rollback_io i Rollback_Failed)
          (then_io (eo_declare_incident eo (why @ ''. Auto Rollback then failed: '' @ exn_message exc))
            (then_io (declare_incident_io i (why @ ''. Auto Rollback then failed: '' @ exn_message exc) INCIDENT_MESSAGE)
              (audited rn SYSTEM_ACTOR i Rolled_Back None Failed
                (Some (why @ ''. Auto Rollback then failed: '' @ exn_message exc))))))
        (\<lambda>_. then_io (record_rollback_io i Rollback_Succeeded) (then_io (fail_io i why)
          (audited rn SYSTEM_ACTOR i Rolled_Back None Succeeded (Some why))))) ?Q ?E w1"
      unfolding wp_try_else
      by (rule wp_within [OF roll_back_frame])
        (auto simp del: wp_then intro!: restored incident holds_frame [OF _ w1] simp: is_exception_def)
  qed simp
qed

lemma wp_handle_failure_ends:
  assumes h: "holds i (running st) (w :: ('r, 'e) world)" and "st \<in> set PIPELINE" and "st \<noteq> COMMITTING"
  shows "wp (handle_failure rn eo i who st e) (\<lambda>_. holds i abandoned) (\<lambda>e _. e = Cancelled) w"
  unfolding handle_failure_def Let_def wp_then
proof (rule holds_audited [OF h])
  fix w1 :: "('r, 'e) world" assume "holds i (running st) w1"
  then have w1: "holds i (\<lambda>r. COMMITTING \<notin> stages_of r) w1"
    using assms(3) by (auto elim!: holds_mono dest: running_uncommitted)
  show "wp (if st \<in> set ROLLED_BACK_FROM then roll_back rn eo i (failure_reason e)
      else fail_io i (failure_reason e)) (\<lambda>_. holds i abandoned) (\<lambda>e _. e = Cancelled) w1"
    by (auto intro: wp_roll_back_ends [OF w1] holds_updates(5) [OF w1, where P' = abandoned] simp: abandoned_def)
qed

lemma wp_handle_failure_committed:
  assumes h: "holds i (running COMMITTING) (w :: ('r, 'e) world)"
  shows "wp (handle_failure rn eo i who COMMITTING e)
    (\<lambda>_. holds i (\<lambda>r. ap_stage r = FAILED \<and> COMMITTING \<in> stages_of r)) (\<lambda>_ _. False) w"
  unfolding handle_failure_def Let_def wp_then
proof (rule holds_audited [OF h])
  fix w1 :: "('r, 'e) world" assume w1: "holds i (running COMMITTING) w1"
  show "wp (if COMMITTING \<in> set ROLLED_BACK_FROM then roll_back rn eo i (failure_reason e)
      else fail_io i (failure_reason e)) (\<lambda>_. holds i (\<lambda>r. ap_stage r = FAILED \<and> COMMITTING \<in> stages_of r)) (\<lambda>_ _. False) w1"
    by (auto intro!: holds_updates(5) [OF w1] simp: running_committed ROLLED_BACK_FROM_def)
qed

lemma wp_finish_ends:
  assumes h: "holds i (running COMMITTING) (w :: ('r, 'e) world)"
  shows "wp (finish rn i who snap) (\<lambda>_. holds i (\<lambda>r. ap_stage r = SUCCEEDED)) (\<lambda>_ _. False) w"
proof -
  have "wp (case snap of None \<Rightarrow> ret () | Some n \<Rightarrow> record_snapshot_io i n)
      (\<lambda>_. holds i (\<lambda>_. True)) (\<lambda>_ _. False) w"
    using h by (cases snap) (auto intro!: holds_updates(1) [OF h] elim: holds_mono)
  then show ?thesis
    unfolding finish_def wp_then
    by (elim wp_mono) (auto intro!: holds_advance [where P' = "\<lambda>r. ap_stage r = SUCCEEDED"] elim: holds_audited)
qed

end

lemma snapshots_finish: "within (keeps w_snapshots) (finish rn i who snap)"
  by (auto simp: finish_def intro!: snapshots_store split: option.split)

context sections_contract
begin

lemma snapshots_handle_failure: "within (keeps w_snapshots) (handle_failure rn (operator_engine pt) i who st e)"
proof -
  note rolls = snapshots_stages.quiet_roll_backs [OF quiet_sections [OF snapshots_kept.quiet_steps_axioms]]
  show ?thesis
    by (auto simp: handle_failure_def roll_back_def operator_engine_def Let_def
        intro!: snapshots_store frame_intros rolls)
qed

theorem wp_run_settles:
  assumes h: "holds i (running VALIDATING) w"
  shows "wp (run rn (operator_engine pt) i who)
    (\<lambda>_. settled i (ca_sections (candidate_of w)) (w_snapshots w)) (\<lambda>e _. e = Cancelled) w"
proof -
  let ?ss = "ca_sections (candidate_of w)" and ?db = "w_snapshots w"
  let ?E = "\<lambda>e _. e = Cancelled"
  have failed: "wp (handle_failure rn (operator_engine pt) i who st e) (\<lambda>_. settled i ?ss ?db) ?E w2"
    if "operator.stepped i (st, Inl e') w2" "loop_end i ?ss ?db (st, Inl e') w2" for st e e' w2
  proof (cases "st = COMMITTING")
    case True
    with that have r: "holds i (running COMMITTING) w2" and c: "committed i ?ss ?db (w_snapshots w2)"
      by (simp_all add: operator.stepped_def loop_end_def)
    show ?thesis unfolding True
      by (rule wp_mono [OF wp_within_and [OF snapshots_handle_failure operator.wp_handle_failure_committed [OF r]]])
        (use c in \<open>simp_all add: keeps_def settledI(2)\<close>)
  next
    case False
    with that have r: "holds i (running st) w2" "st \<in> set PIPELINE" and c: "w_snapshots w2 = ?db"
      by (simp_all add: operator.stepped_def loop_end_def)
    show ?thesis
      by (rule wp_mono [OF wp_within_and [OF snapshots_handle_failure operator.wp_handle_failure_ends [OF r False]]])
        (use c in \<open>simp_all add: keeps_def settledI(1)\<close>)
  qed
  have finished: "wp (finish rn i who snap) (\<lambda>_. settled i ?ss ?db) (\<lambda>_ _. False) w2"
    if "operator.stepped i (st, Inr snap) w2" "loop_end i ?ss ?db (st, Inr snap) w2" for st snap w2
  proof -
    from that have r: "holds i (running COMMITTING) w2" and c: "committed i ?ss ?db (w_snapshots w2)"
      by (auto simp: operator.stepped_def loop_end_def)
    show ?thesis
      by (rule wp_mono [OF wp_within_and [OF snapshots_finish operator.wp_finish_ends [OF r]]])
        (use c in \<open>simp_all add: keeps_def settledI(3)\<close>)
  qed
  have init: "wp (eo_init (operator_engine pt) i)
      (\<lambda>_ w1. holds i (running VALIDATING) w1 \<and> es_apply_id (w_engine w1) = i \<and> candidate_of w1 = candidate_of w
         \<and> w_snapshots w1 = ?db) ?E w"
    using h by (simp add: operator_engine_def engine_init_def holds_def)
  let ?rest = "\<lambda>(reached, out). bind_io (case out of Inl e \<Rightarrow> ret (Inl e) | Inr snap \<Rightarrow> attempt (finish rn i who snap))
     (\<lambda>r. case r of Inr _ \<Rightarrow> ret ()
        | Inl e \<Rightarrow> if is_exception e then handle_failure rn (operator_engine pt) i who reached e else raise_io e)"
  have ended: "wp (?rest ro) (\<lambda>_. settled i ?ss ?db) ?E w2"
    if "operator.stepped i ro w2" "loop_end i ?ss ?db ro w2" for ro w2
  proof (cases ro)
    case (Pair st out)
    show ?thesis
      using that unfolding Pair prod.case
      by (cases out) (simp_all add: is_exception_def failed wp_mono [OF finished])
  qed
  show ?thesis
    unfolding run_def wp_then wp_bind [of "run_steps _ _ _ _ _"]
  proof (rule wp_mono [OF init])
    fix w1 :: "('r, ('r, 'p) engine_state) world"
    assume w1: "holds i (running VALIDATING) w1 \<and> es_apply_id (w_engine w1) = i
      \<and> candidate_of w1 = candidate_of w \<and> w_snapshots w1 = ?db"
    then have r: "holds i (running VALIDATING) w1" and i: "es_apply_id (w_engine w1) = i"
      and c: "candidate_of w1 = candidate_of w" and s: "w_snapshots w1 = ?db" by blast+
    show "wp (run_steps (operator_engine pt) i PIPELINE VALIDATING None)
        (\<lambda>ro. wp (?rest ro) (\<lambda>_. settled i ?ss ?db) ?E) ?E w1"
      by (rule wp_mono [OF wp_loop [OF holds_mongo [OF r] i r, unfolded c s]], rule ended) blast+
  qed blast
qed

end

end
