(* ===== verification/Staging_Correct.thy ===== *)
theory Staging_Correct
  imports Staging Commit_Correct
begin

text \<open>
  What Review promises and what going back to a Snapshot stages. Review's decision on the restart is
  compared with the one the engine's Validation takes on the same Cluster.
\<close>

text \<open>The concrete inputs of the witnesses.\<close>

definition demo_libs :: libs where
  "demo_libs = \<lparr>lb_camel = id, lb_fullmatch = (\<lambda>p v. Some (p = v))\<rparr>"

definition demo_parts :: "(resource, section_plan) parts" where
  "demo_parts = the_parts demo_libs demo_settings \<lparr>encoded_size = (\<lambda>_. 0), section_size = (\<lambda>_. 0)\<rparr> (\<lambda>s. s)"

definition demo_state :: "apply_record list \<Rightarrow> (resource, (resource, section_plan) engine_state) world" where
  "demo_state db = (new_install \<lparr>es_apply_id = [], es_desired = [], es_plans = [], es_rollout = [],
     es_raw_files_changed = False, es_warnings = [], es_admin = default_admin\<rparr>)\<lparr>w_applies := db\<rparr>"

lemma demo_state_simps [simp]: "w_mongo (demo_state db) = []" "w_applies (demo_state db) = db"
  by (simp_all add: demo_state_def new_install_def)

section \<open>Reading a healthy Cluster\<close>

text \<open>The Cluster's Secrets are not the ones the Section would write.\<close>

definition stale_files :: "('r, 'p, 'e) section_ops \<Rightarrow> cluster \<Rightarrow> 'r resources \<Rightarrow> string dict dict \<Rightarrow> bool" where
  "stale_files so cl desired secrets = (case by_secret (so_coordinator_files so (cl_settings cl))
       (so_render_files so desired (cl_settings cl) (cl_admin cl)) of
      Inl e \<Rightarrow> False
    | Inr rendered \<Rightarrow> so_coordinator_files so (cl_settings cl) \<noteq> []
        \<and> list_ex (\<lambda>(name, data). \<not> dict_eq (sec_get secrets name) data) rendered)"

text \<open>The Sections whose restart an Apply of \<open>desired\<close> needs, on a Cluster that holds \<open>secrets\<close>.\<close>

definition restarting ::
  "('r, 'p, 'e) section_ops list \<Rightarrow> 'p dict \<Rightarrow> 'r sections \<Rightarrow> cluster \<Rightarrow> string dict dict \<Rightarrow> section_name list" where
  "restarting sos plans desired cl secrets = map so_name (filter (\<lambda>so. so_requires_rollout so
     \<and> ((case map_of plans (so_name so) of None \<Rightarrow> False | Some p \<Rightarrow> \<not> so_empty so p)
        \<or> stale_files so cl (sec_get desired (so_name so)) secrets)) sos)"

lemma wp_any_differs:
  "w_kube w = [] \<Longrightarrow> wp (any_differs rendered) Q E w
     = Q (list_ex (\<lambda>(name, data). \<not> dict_eq (sec_get (w_secrets w) name) data) rendered) w"
  by (induction rendered rule: any_differs.induct) (auto simp: sec_get_def)

lemma is_exception_by_secret: "by_secret declared contents = Inl e \<Longrightarrow> is_exception e"
  by (auto simp: by_secret_def is_exception_def Let_def split: prod.splits if_splits)

lemma wp_would_change:
  assumes "w_kube w = []"
  shows "wp (try_io is_exception (would_change so cl r) (\<lambda>_. ret False)) Q E w = Q (stale_files so cl r (w_secrets w)) w"
  using is_exception_by_secret assms
  by (auto simp: would_change_def stale_files_def Let_def wp_any_differs split: sum.split)

lemma wp_needing_rollout:
  assumes "w_kube w = []"
  shows "wp (sections_needing_rollout sos plans desired cl) Q E w = Q (restarting sos plans desired cl (w_secrets w)) w"
proof (induction sos arbitrary: Q)
  case (Cons so sos)
  then show ?case
    by (simp add: Let_def wp_would_change assms restarting_def del: wp_try split: option.split)
qed (simp add: restarting_def)

section \<open>Review and the Apply that follows\<close>

definition cluster_now :: "settings \<Rightarrow> ('r, 'e) world \<Rightarrow> cluster" where
  "cluster_now s w = \<lparr>cl_settings = s, cl_admin = admin_document (w_admin w)\<rparr>"

text \<open>The Sections an Apply of the Candidate would restart Trino for, as the world stands.\<close>

definition restarting_now :: "('r, 'p, 'e) section_ops list \<Rightarrow> settings \<Rightarrow> ('r, 'e) world \<Rightarrow> section_name list" where
  "restarting_now sos s w = (let c = candidate_of w in
     restarting sos (plans_of sos (ca_sections c) (sections_of (ca_base c) (w_snapshots w))) (ca_sections c)
       (cluster_now s w) (w_secrets w))"

lemma wp_cluster_dep: "w_mongo w = [] \<Longrightarrow> wp (cluster_dep s) Q E w = Q (cluster_now s w) w"
  by (simp add: cluster_dep_def admin_load_def cluster_now_def)

lemma wp_at_risk:
  "w_trino w = [] \<Longrightarrow> wp (try_io is_exception (bind_io queries_at_risk (\<lambda>n. ret (Some n))) (\<lambda>_. ret None)) Q E w
     = Q (Some (w_queries w - 1)) w"
  by (simp add: queries_at_risk_def external_defs wp_external_healthy)

lemma wp_review:
  assumes "w_mongo w = []" and "w_kube w = []" and "w_trino w = []"
  shows "wp (review s sos) (\<lambda>rv w'. w' = w \<and> (ac_restarts (rw_cost rv) \<longleftrightarrow> restarting_now sos s w \<noteq> [])) (\<lambda>_ _. False) w"
  by (simp add: review_def review_in_def wp_cluster_dep wp_candidate_read wp_sections_read cost_of_def wp_needing_rollout
      wp_at_risk restarting_now_def Let_def assms del: wp_try)

text \<open>The raw files on the Cluster are not the Admin's.\<close>

definition raw_files_stale :: "(string \<Rightarrow> string) \<Rightarrow> settings \<Rightarrow> ('r, 'e) world \<Rightarrow> bool" where
  "raw_files_stale sha s w = (let desired = planned (admin_document (w_admin w)) in
     set (dict_keys desired) \<noteq> set (raw_mounts s (w_pod w))
     \<or> \<not> dict_eq (raw_secret sha desired) (sec_get (w_secrets w) (st_raw_files_secret s)))"

lemma wp_raw_changed:
  "w_kube w = [] \<Longrightarrow> cl_settings cl = s \<Longrightarrow> cl_admin cl = admin_document (w_admin w) \<Longrightarrow>
     wp (raw_changed sha cl) Q E w = Q (raw_files_stale sha s w) w"
  by (auto simp: raw_changed_def raw_files_stale_def mounted_paths_def deployment_pod_spec_def read_secret_if_present_def
      or_absent_def sec_get_def Let_def)

definition decided :: "('r, ('r, 'p) engine_state) world \<Rightarrow> section_name list \<times> bool" where
  "decided w = (es_rollout (w_engine w), es_raw_files_changed (w_engine w))"

interpretation decided: quiet_steps "keeps decided"
  by unfold_locales (auto simp: keeps_def decided_def)

lemma wp_validate_decides:
  fixes w :: "(resource, (resource, section_plan) engine_state) world"
  assumes "w_mongo w = []" and "w_kube w = []"
  shows "wp (eo_validate (operator_engine (the_parts lb s bs sha)))
    (\<lambda>_ w'. decided w' = (restarting_now (REGISTERED lb) s w, raw_files_stale sha s w)) (\<lambda>_ _. True) w"
proof -
  let ?pt = "the_parts lb s bs sha"
  let ?R = "REGISTERED lb :: (resource, section_plan) engine_state the_section list"
  have settle: "wp (pt_validate_candidate ?pt ss ps cl i)
      (\<lambda>a w'. decided (w_engine_update (es_warnings_update (\<lambda>_. a)) w') = d) (\<lambda>_ _. True) w2" if "decided w2 = d" for ss ps cl i d w2
    by (rule wp_within [OF pipeline.quiet_validation(2) [OF decided.quiet_steps_axioms]])
      (use that in \<open>simp_all add: keeps_def decided_def\<close>)
  have chosen: "wp (validate_rest ?pt desired current)
      (\<lambda>_ w'. decided w' = (restarting ?R (plans_of ?R desired current) desired
          (cluster_now s w1) (w_secrets w1), raw_files_stale sha s w1)) (\<lambda>_ _. True) w1"
    if "w_kube w1 = []" "cluster_of ?pt (w_engine w1) = cluster_now s w1" for desired current w1
  proof -
    have plans: "plan_all ?pt desired current = plans_of ?R desired current"
      by (simp add: plan_all_def plans_of_def the_parts_def)
    have cl: "cluster_of ?pt (f (w_engine w1)) = cluster_now s w1" if "es_admin (f (w_engine w1)) = es_admin (w_engine w1)" for f
      using that \<open>cluster_of ?pt (w_engine w1) = cluster_now s w1\<close> by (simp add: cluster_of_def cluster_now_def)
    have parts: "pt_registered ?pt = ?R" "pt_sha ?pt = sha" by (simp_all add: the_parts_def)
    show ?thesis
      unfolding validate_rest_def plans Let_def wp_then wp_modify wp_bind wp_asks
      by (simp add: cl parts wp_needing_rollout that(1) cluster_now_def [of s w1] wp_raw_changed [where s = s] del: wp_bind, rule settle)
        (simp add: decided_def cluster_now_def raw_files_stale_def)
  qed
  let ?read = "bind_io desired_and_baseline (\<lambda>(desired, current).
     then_io (set_engine (es_desired_update (\<lambda>_. desired))) (validate_rest ?pt desired current))"
  let ?frozen = "\<lambda>ss. w_engine_update (es_desired_update (\<lambda>_. ss)) (w_engine_update (es_admin_update (\<lambda>_. admin_document (w_admin w))) w)"
  have "wp (validate_rest ?pt desired current)
      (\<lambda>_ w'. decided w' = (restarting ?R (plans_of ?R desired current) desired (cluster_now s w) (w_secrets w),
         raw_files_stale sha s w)) (\<lambda>_ _. True) (?frozen desired)" for desired current
    by (rule wp_mono [OF chosen]) (simp_all add: assms cluster_of_def cluster_now_def the_parts_def raw_files_stale_def)
  then have "wp (then_io freeze_admin_values ?read)
      (\<lambda>_ w'. decided w' = (restarting_now ?R s w, raw_files_stale sha s w)) (\<lambda>_ _. True) w"
    by (simp add: freeze_admin_values_def admin_load_def desired_and_baseline_def wp_candidate_read wp_sections_read assms
        restarting_now_def Let_def)
  moreover have "pt_preconditions ?pt = assert_preconditions ?R s" by (simp add: the_parts_def)
  ultimately show ?thesis
    unfolding operator_engine_def engine_ops.simps validate_with_def wp_then [of "pt_preconditions ?pt"]
    by (simp only:, intro wp_mono [OF preconditions_exact]) (auto simp: assms)
qed

text \<open>C13: Review foresees the restart. On a Cluster that answers, the Validation an Apply begins with decides on a Rollout
  exactly when Review announced a restart or the raw files of the Admin are not the ones on the Cluster: the Sections
  are judged alike, and the raw files are what Review leaves out.\<close>

theorem review_and_apply_agree:
  fixes w :: "(resource, (resource, section_plan) engine_state) world"
  assumes "w_mongo w = []" and "w_kube w = []" and "w_trino w = []"
  shows "wp (review s (REGISTERED lb)) (\<lambda>rv w1. w1 = w \<and>
      wp (eo_validate (operator_engine (the_parts lb s bs sha)))
        (\<lambda>_ w2. engine_rollout_needed w2 \<longleftrightarrow> ac_restarts (rw_cost rv) \<or> raw_files_stale sha s w) (\<lambda>_ _. True) w1)
    (\<lambda>_ _. False) w"
proof (rule wp_mono [OF wp_review [OF assms]])
  fix rv w1 assume rv: "w1 = w \<and> (ac_restarts (rw_cost rv) \<longleftrightarrow> restarting_now (REGISTERED lb) s w \<noteq> [])"
  have "wp (eo_validate (operator_engine (the_parts lb s bs sha)))
      (\<lambda>_ w2. engine_rollout_needed w2 \<longleftrightarrow> ac_restarts (rw_cost rv) \<or> raw_files_stale sha s w) (\<lambda>_ _. True) w"
    by (rule wp_mono [OF wp_validate_decides [OF assms(1,2)]]) (simp_all add: rv decided_def engine_rollout_needed_def)
  with rv show "w1 = w \<and> wp (eo_validate (operator_engine (the_parts lb s bs sha)))
      (\<lambda>_ w2. engine_rollout_needed w2 \<longleftrightarrow> ac_restarts (rw_cost rv) \<or> raw_files_stale sha s w) (\<lambda>_ _. True) w1" by simp
qed

section \<open>Going back\<close>

lemma wp_draws:
  fixes w :: "('r, 'e) world"
  assumes "w_mongo w = []" and "\<And>ids w'. booked w (w_applies w) w' \<Longrightarrow> Q ids w'"
  shows "wp (collect_io (\<lambda>_. uuid_hex) xs) Q E w"
  using assms
proof (induction xs arbitrary: w Q)
  case Nil then show ?case by (simp add: booked_def)
next
  case (Cons x xs)
  show ?case
    unfolding collect_io.simps wp_bind
  proof (rule uuid_booked [OF Cons.prems(1)])
    fix n and w1 :: "('r, 'e) world" assume b: "booked w (w_applies w) w1"
    show "wp (collect_io (\<lambda>_. uuid_hex) xs) (\<lambda>ys. wp (ret (n # ys)) Q E) E w1"
      by (rule Cons.IH) (use b Cons.prems(2) in \<open>auto simp: booked_def\<close>)
  qed
qed

lemma wp_record_each:
  fixes w :: "('r, 'e) world"
  assumes w: "w_mongo w = []" and Q: "\<And>w'. booked w (w_applies w) w' \<Longrightarrow> Q () w'"
  shows "wp (audit_record_each s who aid ens) Q E w"
proof (cases "ens = []")
  case True
  then show ?thesis using assms by (simp add: audit_record_each_def booked_def)
next
  case False
  have "wp (mongo (modify_io (w_audit_update g))) Q E w3" if "booked w (w_applies w) w3" for g w3
    using that by (auto simp: bookedD(1) intro!: Q) (simp add: booked_def outside_def)
  then show ?thesis
    using False unfolding audit_record_each_def
    by (auto intro!: now_io_booked [OF w] wp_indexed_once wp_draws simp: bookedD(1) del: Q)
      (auto simp: booked_def)
qed

lemma wp_record:
  fixes w :: "('r, 'e) world"
  assumes w: "w_mongo w = []" and Q: "\<And>w'. booked w (w_applies w) w' \<Longrightarrow> Q () w'"
  shows "wp (candidate_record s before later cat a d) Q E w"
  unfolding candidate_record_def actor_io_def
  by (cases cat; cases a) (auto intro!: wp_audit_record wp_record_each w Q)

lemma outside_candidate: "outside (w\<lparr>w_candidate := x\<rparr>) = (outside w)\<lparr>w_candidate := x\<rparr>"
  by (rule world.equality) (simp_all add: outside_def)

text \<open>The Candidate after a save, and nothing else of the stores.\<close>

lemma wp_candidate_saved:
  fixes w :: "('r, 'e) world"
  assumes w: "w_mongo w = []"
    and big: "\<And>now m w'. st_candidate_max_bytes s < encoded_size b (c\<lparr>ca_updated_at := Some now\<rparr>) \<Longrightarrow>
      booked w (w_applies w) w' \<Longrightarrow> E (Raised CandidateTooLarge m) w'"
    and Q: "\<And>now w'. booked (w\<lparr>w_candidate := Some (c\<lparr>ca_updated_at := Some now\<rparr>)\<rparr>) (w_applies w) w' \<Longrightarrow>
      Q (c\<lparr>ca_updated_at := Some now\<rparr>) w'"
  shows "wp (candidate_save s b c cat a d) Q E w"
  unfolding candidate_save_def wp_bind Let_def wp_then
proof (rule now_io_booked [OF w])
  fix now and w1 :: "('r, 'e) world" assume b: "booked w (w_applies w) w1"
  let ?c = "c\<lparr>ca_updated_at := Some now\<rparr>"
  have out: "outside (w1\<lparr>w_candidate := x\<rparr>) = outside (w\<lparr>w_candidate := x\<rparr>)" for x
    using bookedD(3) [OF b] by (simp add: outside_candidate)
  have stored: "wp (candidate_record s before (ca_sections ?c) cat a d) (\<lambda>_. wp (ret ?c) Q E) E
      (w1\<lparr>w_candidate := Some ?c\<rparr>)" for before
    by (rule wp_record) (auto simp: bookedD [OF b] booked_def out intro!: Q)
  show "wp (refuse_if_too_large b (st_candidate_max_bytes s) ?c)
      (\<lambda>_. wp (mongo (\<lambda>w. (Inr (w_candidate w), w\<lparr>w_candidate := Some ?c\<rparr>)))
        (\<lambda>previous. wp (candidate_record s (sections_of_document previous) (ca_sections ?c) cat a d)
          (\<lambda>_. wp (ret ?c) Q E) E) E) E w1"
    using stored big [OF _ b] unfolding refuse_if_too_large_def
    by (simp add: bookedD [OF b] not_le) (simp add: wp_def)
qed

text \<open>The Catalogs an Apply of one configuration over another drops.\<close>

definition catalogs_lost :: "resource sections \<Rightarrow> resource sections \<Rightarrow> string set" where
  "catalogs_lost desired base = fst ` set (own a_catalog (sec_get base CATALOGS))
     - fst ` set (own a_catalog (sec_get desired CATALOGS))"

lemma wp_effect:
  fixes w :: "(resource, 'e) world"
  assumes "w_mongo w = []" and "w_kube w = []" and "w_trino w = []"
    and "\<And>e. re_from e = n \<Longrightarrow> set (re_dropped e) = catalogs_lost (ca_sections c) (sections_of (ca_base c) (w_snapshots w)) \<Longrightarrow> Q e w"
  shows "wp (effect_of lb cl c n sections others what) Q E w"
proof -
  have plan: "map_of (plans_of (REGISTERED lb :: 'e the_section list) desired base) CATALOGS
      = Some (Catalogs_plan (plan_catalogs (own a_catalog (sec_get desired CATALOGS)) (own a_catalog (sec_get base CATALOGS))))"
    for desired base by (simp add: plans_of_def REGISTERED_def catalogs_section_def)
  have dropped: "set (cp_dropped (plan_catalogs desired current)) = fst ` set current - fst ` set desired"
    for desired current by (auto simp: plan_catalogs_def)
  show ?thesis
    unfolding effect_of_def Let_def wp_bind wp_sections_read [OF assms(1)] plan
    by (simp add: with_catalogs_def with_catalog_plan_def cost_of_def wp_needing_rollout wp_at_risk assms(1-3) dropped
        catalogs_lost_def assms(4) del: wp_try)
qed

lemma set_defaults_all:
  fixes ss :: "'r sections"
  shows "set_defaults (all_sections ss) = all_sections ss"
proof -
  have "fold (\<lambda>name d. if has_key d name then d else d @ [(name, [])]) names d = d" if "set names \<subseteq> fst ` set d"
    for names and d :: "'r sections" using that by (induction names) auto
  moreover have "fst ` set (all_sections ss) = set SECTIONS" by (simp flip: set_map)
  ultimately show ?thesis by (simp add: set_defaults_def)
qed

text \<open>Whatever is drawn next, no Apply has it.\<close>

definition fresh_ids :: "('r, 'e) world \<Rightarrow> bool" where
  "fresh_ids w \<longleftrightarrow> (\<forall>k. ''apl_'' @ take 16 (w_uuid w k) \<notin> set (map ap_id (w_applies w)))"

lemma fresh_ids_booked:
  assumes "fresh_ids w" and "booked (w\<lparr>w_candidate := x\<rparr>) (w_applies w) w'"
  shows "fresh_id w'"
proof -
  have "w_uuid w' = w_uuid w"
    using arg_cong [OF bookedD(3) [OF assms(2)], of w_uuid] by (simp add: outside_def)
  then show ?thesis using assms by (simp add: fresh_ids_def fresh_id_def bookedD)
qed

lemma wp_snapshot_sections:
  "w_mongo w = [] \<Longrightarrow> get_snapshot n (w_snapshots w) = Some snap \<Longrightarrow>
     wp (snapshot_sections n) Q E w = Q (all_sections (sn_sections snap)) w"
  by (simp add: snapshot_sections_def get_snapshot_io_def wp_sections_read sections_of_def)

text \<open>C3: A Full Rollback brings back one Snapshot, whole. On a healthy Cluster it stages the Snapshot's configuration or
  is refused as too large with the Candidate as it was; it names exactly the Catalogs the Snapshot does not have; and the
  Apply that is started next commits, if it succeeds, a new Snapshot with that configuration and changes no earlier one.\<close>

theorem full_rollback_is_the_snapshot:
  fixes w :: "(resource, (resource, section_plan) engine_state) world"
  assumes "w_mongo w = []" and "w_kube w = []" and "w_trino w = []"
    and "get_snapshot n (w_snapshots w) = Some snap" and "in_flight (w_applies w) = None" and "fresh_ids w"
  shows "wp (full_rollback lb s b cl n)
    (\<lambda>e w1. set (re_dropped e) = catalogs_lost (sn_sections snap) (sections_of (ca_base (candidate_of w)) (w_snapshots w))
      \<and> wp start_apply (\<lambda>r. wp (run rn (operator_engine (the_parts lb s b sha)) (ap_id r) who)
          (\<lambda>_. settled (ap_id r) (all_sections (sn_sections snap)) (w_snapshots w)) (\<lambda>e _. e = Cancelled)) (\<lambda>_ _. False) w1)
    (\<lambda>e w1. w_candidate w1 = w_candidate w \<and> (\<exists>m. e = Raised CandidateTooLarge m)) w"
proof -
  let ?ss = "all_sections (sn_sections snap)"
  have applied: "wp start_apply (\<lambda>r. wp (run rn (operator_engine (the_parts lb s b sha)) (ap_id r) who)
      (\<lambda>_. settled (ap_id r) ?ss (w_snapshots w)) (\<lambda>e _. e = Cancelled)) (\<lambda>_ _. False) w1"
    if b: "booked (w\<lparr>w_candidate := Some c\<rparr>) (w_applies w) w1" and c: "ca_sections c = ?ss" for c w1
  proof (rule wp_start(1))
    fix r w2 assume r: "booked w1 (w_applies w1 @ [r]) w2" "running VALIDATING r" "get_apply (ap_id r) (w_applies w2) = Some r"
    have "w_candidate w2 = Some c" "w_snapshots w2 = w_snapshots w"
      using outside_fields [OF bookedD(3) [OF r(1)]] outside_fields [OF bookedD(3) [OF b]] by simp_all
    then have "ca_sections (candidate_of w2) = ?ss" "w_snapshots w2 = w_snapshots w"
      by (simp_all add: candidate_of_def c set_defaults_all)
    then show "wp (run rn (operator_engine (the_parts lb s b sha)) (ap_id r) who)
        (\<lambda>_. settled (ap_id r) ?ss (w_snapshots w)) (\<lambda>e _. e = Cancelled) w2"
      using pipeline.wp_run_settles [OF holdsI [where P = "running VALIDATING", OF bookedD(1) [OF r(1)] r(3,2)]] by simp
  qed (use b assms fresh_ids_booked [OF assms(6) b] in \<open>simp_all add: bookedD\<close>)
  show ?thesis
    unfolding full_rollback_def Let_def wp_bind wp_snapshot_sections [OF assms(1,4)] wp_candidate_read [OF assms(1)]
      all_sections_idem
  proof (rule wp_candidate_saved [OF assms(1)])
    fix now w1 assume b: "booked (w\<lparr>w_candidate := Some (candidate_of w\<lparr>ca_sections := ?ss\<rparr>\<lparr>ca_updated_at := Some now\<rparr>)\<rparr>) (w_applies w) w1"
    note same = outside_fields [OF bookedD(3) [OF b]]
    show "wp (effect_of lb cl (candidate_of w\<lparr>ca_sections := ?ss\<rparr>) n SECTIONS None x)
      (\<lambda>e w1. set (re_dropped e) = catalogs_lost (sn_sections snap) (sections_of (ca_base (candidate_of w)) (w_snapshots w))
        \<and> wp start_apply (\<lambda>r. wp (run rn (operator_engine (the_parts lb s b sha)) (ap_id r) who)
            (\<lambda>_. settled (ap_id r) ?ss (w_snapshots w)) (\<lambda>e _. e = Cancelled)) (\<lambda>_ _. False) w1)
      (\<lambda>e w1. w_candidate w1 = w_candidate w \<and> (\<exists>m. e = Raised CandidateTooLarge m)) w1" for x
      by (rule wp_effect) (use same assms in \<open>auto simp: bookedD [OF b] catalogs_lost_def SECTIONS_def intro!: applied [OF b]\<close>)
  qed (auto dest: bookedD(3) outside_fields)
qed

text \<open>A Cluster that runs Snapshot 2, a Catalog more than Snapshot 1.\<close>

definition demo_history :: "resource snapshots" where
  "demo_history = [\<lparr>sn_number = 1, sn_sections = empty_sections, sn_created_at = 0, sn_apply_id = ''apl_1''\<rparr>,
     \<lparr>sn_number = 2, sn_sections = [(CATALOGS, [(''pg'', A_catalog \<lparr>cat_connector = ''postgresql'', cat_properties = [], cat_certificate = None\<rparr>)])],
       sn_created_at = 1, sn_apply_id = ''apl_2''\<rparr>]"

theorem review_and_apply_agree_witness:
  "let w = (demo_state []) \<lparr>w_snapshots := demo_history\<rparr> in
   wp (review demo_settings (REGISTERED demo_libs)) (\<lambda>rv w1. w1 = w \<and>
      wp (eo_validate (operator_engine demo_parts))
        (\<lambda>_ w2. engine_rollout_needed w2 \<longleftrightarrow> ac_restarts (rw_cost rv) \<or> raw_files_stale id demo_settings w) (\<lambda>_ _. True) w1)
    (\<lambda>_ _. False) w"
  unfolding Let_def demo_parts_def id_def [symmetric]
  by (rule review_and_apply_agree) (simp_all add: demo_state_def new_install_def)

theorem full_rollback_is_the_snapshot_witness:
  "let w = (demo_state []) \<lparr>w_snapshots := demo_history\<rparr>;
       b = \<lparr>encoded_size = (\<lambda>_. 0), section_size = (\<lambda>_. 0)\<rparr>;
       cl = \<lparr>cl_settings = demo_settings, cl_admin = default_admin\<rparr> in
   wp (full_rollback demo_libs demo_settings b cl 1)
    (\<lambda>e w1. set (re_dropped e) = catalogs_lost empty_sections (sections_of (ca_base (candidate_of w)) (w_snapshots w))
      \<and> wp start_apply (\<lambda>r. wp (run \<lparr>rn_settings = demo_settings, rn_category = PIPELINE_CATEGORY\<rparr>
            (operator_engine (the_parts demo_libs demo_settings b id)) (ap_id r) NOBODY)
          (\<lambda>_. settled (ap_id r) (all_sections empty_sections) (w_snapshots w)) (\<lambda>e _. e = Cancelled)) (\<lambda>_ _. False) w1)
    (\<lambda>e w1. w_candidate w1 = w_candidate w \<and> (\<exists>m. e = Raised CandidateTooLarge m)) w"
  unfolding Let_def
  using full_rollback_is_the_snapshot [of "(demo_state []) \<lparr>w_snapshots := demo_history\<rparr>" 1 "demo_history ! 0" demo_libs demo_settings
      "\<lparr>encoded_size = (\<lambda>_. 0), section_size = (\<lambda>_. 0)\<rparr>" "\<lparr>cl_settings = demo_settings, cl_admin = default_admin\<rparr>"]
  by (simp add: demo_state_def new_install_def demo_history_def get_snapshot_def in_flight_def fresh_ids_def)

section \<open>A document read back\<close>

text \<open>A document is stored as it is, or not at all.\<close>

definition stores_whole :: "'r document \<Rightarrow> ('r, 'e) world \<Rightarrow> ('r, 'e) world \<Rightarrow> bool" where
  "stores_whole d w w' \<longleftrightarrow> (\<exists>now. w_candidate w' = Some \<lparr>ca_base = map_option sn_number (latest (w_snapshots w)),
       ca_sections = dm_sections d, ca_updated_at = Some now\<rparr>)
     \<and> w_secrets w' = w_secrets w \<and> w_admin w' = w_admin w \<and> w_snapshots w' = w_snapshots w"

lemma no_problems_sections:
  assumes "problems_with readers ss = []" shows "fst ` set ss = set SECTIONS"
proof
  show "set SECTIONS \<subseteq> fst ` set ss" using assms by (auto simp: problems_with_def filter_empty_conv)
  have "name \<in> set SECTIONS" if "name \<in> fst ` set ss" for name
  proof (rule ccontr)
    assume "name \<notin> set SECTIONS"
    with that have "unknown_section name \<in> set (problems_with readers ss)" by (force simp: problems_with_def)
    with assms show False by simp
  qed
  then show "fst ` set ss \<subseteq> set SECTIONS" by blast
qed

lemma wp_review_in:
  assumes "w_mongo w = []" and "w_kube w = []" and "w_trino w = []" and "\<And>rv. Q rv w"
  shows "wp (review_in sos cl) Q E w"
  by (simp add: review_in_def wp_candidate_read wp_sections_read cost_of_def wp_needing_rollout
      wp_at_risk Let_def assms del: wp_try)

text \<open>C14: An import replaces the whole Candidate or nothing. On a healthy Cluster it is stored exactly as the document
  says, on the latest Snapshot of this Cluster, when the document has every Section, no other, no resource its Section
  cannot read and no Admin values; the Admin values and the Cluster stay as they were. Otherwise, or when it is too
  large, it is refused and the Candidate stays as it was.\<close>

theorem import_whole_or_nothing:
  fixes w :: "('r, 'e) world"
  assumes "w_mongo w = []" and "w_kube w = []" and "w_trino w = []"
  shows "wp (import_candidate s b sos readers d)
    (\<lambda>_ w'. stores_whole d w w' \<and> dm_admin d = None \<and> problems_with readers (dm_sections d) = [] \<and> fst ` set (dm_sections d) = set SECTIONS)
    (\<lambda>e w'. w_candidate w' = w_candidate w \<and> (dm_admin d \<noteq> None \<or> problems_with readers (dm_sections d) \<noteq> []
       \<or> (\<exists>m. e = Raised CandidateTooLarge m))) w"
proof -
  have replaced: "wp (bind_io (candidate_replace s b (dm_sections d)) (\<lambda>_. review_in sos cl)) (\<lambda>_. stores_whole d w)
      (\<lambda>e w'. w_candidate w' = w_candidate w \<and> (\<exists>m. e = Raised CandidateTooLarge m)) w" for cl
    unfolding candidate_replace_def latest_io_def wp_bind wp_mongo_healthy [OF assms(1)] wp_asks
  proof (rule wp_candidate_saved [OF assms(1)])
    fix now w1
    assume b: "booked (w\<lparr>w_candidate := Some (\<lparr>ca_base = map_option sn_number (latest (w_snapshots w)),
        ca_sections = dm_sections d, ca_updated_at = None\<rparr>\<lparr>ca_updated_at := Some now\<rparr>)\<rparr>) (w_applies w) w1"
    note same = outside_fields [OF bookedD(3) [OF b]]
    show "wp (review_in sos cl) (\<lambda>_. stores_whole d w)
        (\<lambda>e w'. w_candidate w' = w_candidate w \<and> (\<exists>m. e = Raised CandidateTooLarge m)) w1"
      by (rule wp_review_in) (use same assms in \<open>simp_all add: bookedD [OF b] stores_whole_def\<close>)
  qed (auto dest: bookedD(3) outside_fields)
  show ?thesis
    unfolding import_candidate_def operator_document_def wp_then
    by (auto simp: accepted_def Let_def wp_cluster_dep assms(1) no_problems_sections simp del: wp_bind
        intro!: wp_mono [OF replaced] simp: wp_bind [of "cluster_dep s"] wp_bind [of "lift_error e" for e])
qed

theorem import_whole_or_nothing_witness:
  "let w = demo_state [] \<lparr>w_snapshots := demo_history\<rparr>; d = of_snapshot 1 empty_sections; readers = (\<lambda>_ _. []);
       b = \<lparr>encoded_size = (\<lambda>_. 0), section_size = (\<lambda>_. 0)\<rparr> in
   wp (import_candidate demo_settings b (REGISTERED demo_libs) readers d)
    (\<lambda>_ w'. stores_whole d w w' \<and> dm_admin d = None \<and> problems_with readers (dm_sections d) = []
       \<and> fst ` set (dm_sections d) = set SECTIONS)
    (\<lambda>e w'. w_candidate w' = w_candidate w \<and> (dm_admin d \<noteq> None \<or> problems_with readers (dm_sections d) \<noteq> []
       \<or> (\<exists>m. e = Raised CandidateTooLarge m))) w"
  unfolding Let_def by (rule import_whole_or_nothing) (simp_all add: demo_state_def new_install_def)

end
