(* ===== verification/Trino_Adapter.thy ===== *)
theory Trino_Adapter
  imports Staging
begin

text \<open>
  The Trino adapter (\<open>app/adapters/trino.py\<close>) below the effects of \<open>World\<close>: the text of the statements
  Apchi issues, and the list of connectors, which Trino gives in the words of a refusal and Apchi
  caches. The reader of a statement, \<open>read_create\<close>, is the part of Trino's grammar the text uses.
\<close>

section \<open>Statements\<close>

definition double_quote :: char where "double_quote = CHR 0x22"
definition single_quote :: char where "single_quote = CHR 0x27"

definition doubled :: "char \<Rightarrow> string \<Rightarrow> string" where
  "doubled q v = concat (map (\<lambda>c. if c = q then [q, q] else [c]) v)"

definition sql_identifier :: "string \<Rightarrow> string" where
  "sql_identifier v = double_quote # doubled double_quote v @ [double_quote]"

definition sql_literal :: "string \<Rightarrow> string" where
  "sql_literal v = single_quote # doubled single_quote v @ [single_quote]"

definition connector_text :: "string \<Rightarrow> exn + string" where
  "connector_text v = (if connector_name_ok v then Inr v
     else Inl (Raised ValueError (''unusable connector name: '' @ quoted v)))"

definition property_text :: "string \<times> string \<Rightarrow> string" where
  "property_text p = sql_identifier (fst p) @ '' = '' @ sql_literal (snd p)"

definition in_key_order :: "string dict \<Rightarrow> (string \<times> string) list" where
  "in_key_order d = map (\<lambda>k. (k, the (map_of d k))) (sorted_keys d)"

definition with_clause :: "string dict \<Rightarrow> string" where
  "with_clause properties = (let rendered = join_with '', '' (map property_text (in_key_order properties)) in
     if rendered = [] then [] else '' WITH ('' @ rendered @ '')'')"

definition create_catalog_sql :: "string \<Rightarrow> string \<Rightarrow> string dict \<Rightarrow> exn + string" where
  "create_catalog_sql name connector properties = (case connector_text connector of
      Inl e \<Rightarrow> Inl e
    | Inr c \<Rightarrow> Inr (''CREATE CATALOG '' @ sql_identifier name @ '' USING '' @ c @ with_clause properties))"

definition drop_catalog_sql :: "string \<Rightarrow> string" where
  "drop_catalog_sql name = ''DROP CATALOG '' @ sql_identifier name"

definition show_schemas_sql :: "string \<Rightarrow> string" where
  "show_schemas_sql name = ''SHOW SCHEMAS FROM '' @ sql_identifier name"

section \<open>How Trino reads them\<close>

text \<open>A delimited token: to the first quote that is not doubled.\<close>

fun closing :: "char \<Rightarrow> string \<Rightarrow> string \<Rightarrow> (string \<times> string) option" where
  "closing q acc (c # d # cs) = (if c \<noteq> q then closing q (acc @ [c]) (d # cs)
     else if d = q then closing q (acc @ [q]) cs else Some (acc, d # cs))"
| "closing q acc [c] = (if c = q then Some (acc, []) else None)"
| "closing q acc [] = None"

definition read_token :: "char \<Rightarrow> string \<Rightarrow> (string \<times> string) option" where
  "read_token q s = (case s of [] \<Rightarrow> None | c # cs \<Rightarrow> if c = q then closing q [] cs else None)"

definition read_word :: "string \<Rightarrow> string \<Rightarrow> string option" where
  "read_word w s = (if starts_with w s then Some (drop (length w) s) else None)"

definition read_property :: "string \<Rightarrow> ((string \<times> string) \<times> string) option" where
  "read_property s = Option.bind (read_token double_quote s) (\<lambda>(k, s).
     Option.bind (read_word '' = '' s) (\<lambda>s. Option.bind (read_token single_quote s) (\<lambda>(v, s). Some ((k, v), s))))"

text \<open>A bracketed list, of at most as many properties as the text has characters.\<close>

fun read_properties :: "nat \<Rightarrow> string \<Rightarrow> (string \<times> string) list option" where
  "read_properties 0 s = None"
| "read_properties (Suc n) s = Option.bind (read_property s) (\<lambda>(p, s).
     if s = '')'' then Some [p]
     else Option.bind (read_word '', '' s) (\<lambda>s. map_option (Cons p) (read_properties n s)))"

definition read_with :: "string \<Rightarrow> (string \<times> string) list option" where
  "read_with s = (if s = [] then Some [] else Option.bind (read_word '' WITH ('' s) (\<lambda>s. read_properties (length s) s))"

definition read_create :: "string \<Rightarrow> (string \<times> string \<times> (string \<times> string) list) option" where
  "read_create s = Option.bind (read_word ''CREATE CATALOG '' s) (\<lambda>s. Option.bind (read_token double_quote s) (\<lambda>(name, s).
     Option.bind (read_word '' USING '' s) (\<lambda>s. let c = takeWhile (\<lambda>c. c \<noteq> CHR '' '') s in
       map_option (\<lambda>ps. (name, c, ps)) (read_with (dropWhile (\<lambda>c. c \<noteq> CHR '' '') s)))))"

lemma closing_doubled:
  assumes "rest = [] \<or> hd rest \<noteq> q"
  shows "closing q acc (doubled q v @ q # rest) = Some (acc @ v, rest)"
proof (induction v arbitrary: acc)
  case Nil
  then show ?case using assms by (cases rest) (auto simp: doubled_def)
next
  case (Cons c v)
  have tail: "doubled q v @ q # rest \<noteq> []" by simp
  show ?case
  proof (cases "c = q")
    case True
    then show ?thesis using Cons [of "acc @ [q]"] by (simp add: doubled_def)
  next
    case False
    then have "closing q acc (c # (doubled q v @ q # rest)) = closing q (acc @ [c]) (doubled q v @ q # rest)"
      using tail by (cases "doubled q v @ q # rest") auto
    with False show ?thesis using Cons [of "acc @ [c]"] by (simp add: doubled_def)
  qed
qed

lemma read_identifier: "rest = [] \<or> hd rest \<noteq> double_quote \<Longrightarrow> read_token double_quote (sql_identifier v @ rest) = Some (v, rest)"
  by (simp add: read_token_def sql_identifier_def closing_doubled)

lemma read_literal: "rest = [] \<or> hd rest \<noteq> single_quote \<Longrightarrow> read_token single_quote (sql_literal v @ rest) = Some (v, rest)"
  by (simp add: read_token_def sql_literal_def closing_doubled)

lemma read_word_append [simp]: "read_word w (w @ s) = Some s"
  by (auto simp: read_word_def starts_with_iff)

lemma read_property_text:
  assumes "rest \<noteq> [] \<and> hd rest \<noteq> single_quote"
  shows "read_property (property_text p @ rest) = Some (p, rest)"
proof -
  have "read_token double_quote (property_text p @ rest) = Some (fst p, '' = '' @ sql_literal (snd p) @ rest)"
    using read_identifier [of "'' = '' @ sql_literal (snd p) @ rest" "fst p"] by (simp add: property_text_def double_quote_def)
  then show ?thesis using read_literal [of rest "snd p"] assms by (simp add: read_property_def del: append.simps)
qed

lemma property_text_long: "length (property_text p) > 6"
  by (simp add: property_text_def sql_identifier_def sql_literal_def)

lemma read_properties_text:
  "ps \<noteq> [] \<Longrightarrow> length ps \<le> n \<Longrightarrow> read_properties n (join_with '', '' (map property_text ps) @ '')'') = Some ps"
proof (induction ps arbitrary: n)
  case (Cons p ps)
  then obtain m where n: "n = Suc m" by (cases n) auto
  show ?case
  proof (cases ps)
    case Nil
    then show ?thesis by (simp add: n read_property_text single_quote_def)
  next
    case (Cons q qs)
    let ?rest = "join_with '', '' (map property_text ps) @ '')''"
    have "join_with '', '' (map property_text (p # ps)) @ '')'' = property_text p @ '', '' @ ?rest" by (simp add: Cons)
    moreover have "read_property (property_text p @ '', '' @ ?rest) = Some (p, '', '' @ ?rest)"
      by (rule read_property_text) (simp add: single_quote_def)
    moreover have "read_properties m ?rest = Some ps" by (rule Cons.IH) (use Cons Cons.prems n in auto)
    ultimately show ?thesis using read_word_append [of "'', ''" ?rest] by (simp add: n del: read_word_append)
  qed
qed simp

lemma join_long: "length ps \<le> length (join_with '', '' (map property_text ps))"
proof (induction ps)
  case (Cons p ps)
  then show ?case using property_text_long [of p] by (cases ps) auto
qed simp

lemma read_with_clause: "read_with (with_clause d) = Some (in_key_order d)"
proof (cases "in_key_order d")
  case Nil
  then show ?thesis by (simp add: with_clause_def read_with_def)
next
  case (Cons p ps)
  let ?r = "join_with '', '' (map property_text (in_key_order d))"
  have "?r \<noteq> []" using property_text_long [of p] by (cases ps) (auto simp: Cons)
  then have clause: "with_clause d = '' WITH ('' @ ?r @ '')''" by (simp add: with_clause_def)
  have "read_properties (length (?r @ '')'')) (?r @ '')'') = Some (in_key_order d)"
    by (rule read_properties_text) (use join_long [of "in_key_order d"] in \<open>simp_all add: Cons le_SucI\<close>)
  then show ?thesis unfolding clause read_with_def by (simp del: append.simps)
qed

lemma connector_blank: "connector_name_ok c \<Longrightarrow> x \<in> set c \<Longrightarrow> x \<noteq> CHR '' ''"
  by (auto simp: connector_name_ok_def list_all_iff)

text \<open>C22: The CREATE CATALOG statement says what the Catalog says, and no more: Trino reads the text back as exactly the
  Catalog's name, its connector and its properties, whatever quotes or brackets an Operator's keys and values contain.
  A connector name that would have to be quoted is refused.\<close>

theorem create_statement_reads_back:
  "case create_catalog_sql name connector properties of
     Inl e \<Rightarrow> \<not> connector_name_ok connector
   | Inr sql \<Rightarrow> connector_name_ok connector \<and> read_create sql = Some (name, connector, in_key_order properties)"
proof (cases "connector_name_ok connector")
  case True
  let ?with = "with_clause properties"
  have "takeWhile (\<lambda>c. c \<noteq> CHR '' '') (connector @ ?with) = connector"
    "dropWhile (\<lambda>c. c \<noteq> CHR '' '') (connector @ ?with) = ?with"
    using connector_blank [OF True] by (auto simp: takeWhile_append dropWhile_append with_clause_def Let_def)
  moreover have "read_token double_quote (sql_identifier name @ '' USING '' @ connector @ ?with) = Some (name, '' USING '' @ connector @ ?with)"
    by (rule read_identifier) (simp add: double_quote_def)
  ultimately show ?thesis
    using True read_word_append [of "''CREATE CATALOG ''" "sql_identifier name @ '' USING '' @ connector @ ?with"]
      read_word_append [of "'' USING ''" "connector @ ?with"]
    by (simp add: create_catalog_sql_def connector_text_def read_create_def read_with_clause del: append.simps read_word_append)
qed (simp add: create_catalog_sql_def connector_text_def)

section \<open>The connectors of the Cluster\<close>

definition CONNECTOR_PROBE :: string where "CONNECTOR_PROBE = ''apchi_connector_probe''"
definition CONNECTORS_TTL_SECONDS :: nat where "CONNECTORS_TTL_SECONDS = 600"

text \<open>\<open>_FACTORIES.search\<close>: the text between the first \<open>Available factories: [\<close> and the next \<open>]\<close>.\<close>

fun after_text :: "string \<Rightarrow> string \<Rightarrow> string option" where
  "after_text w [] = None"
| "after_text w (c # cs) = (if starts_with w (c # cs) then Some (drop (length w) (c # cs)) else after_text w cs)"

definition factories_in :: "string \<Rightarrow> string option" where
  "factories_in message = Option.bind (after_text ''Available factories: ['' message) (\<lambda>s.
     if CHR '']'' \<in> set s then Some (takeWhile (\<lambda>c. c \<noteq> CHR '']'') s) else None)"

definition names_in :: "string \<Rightarrow> string list" where
  "names_in s = filter (\<lambda>n. n \<noteq> []) (map strip (split_on (CHR '','') s))"

text \<open>
  What a statement naming an unknown connector comes back with: a refusal in words, or, if there is
  such a connector after all, a catalog. The world says which; any other failure is a fault of Trino.
\<close>

datatype probe_answer = Refused_with string | Created_it

definition ask_for_probe :: "('r, 'e, probe_answer) act" where
  "ask_for_probe = trino (bind_io (next_reading (Some []) w_probe_answers (\<lambda>xs. w_probe_answers_update (\<lambda>_. xs))) (\<lambda>a. case a of
      Some message \<Rightarrow> ret (Refused_with message)
    | None \<Rightarrow> then_io (modify_io (w_live_update (AList.update CONNECTOR_PROBE (CONNECTOR_PROBE, [])))) (ret Created_it)))"

definition read_connector_factories :: "('r, 'e, string list option) act" where
  "read_connector_factories = bind_io (try_io is_exception (bind_io ask_for_probe (\<lambda>a. ret (Some a))) (\<lambda>_. ret None))
     (\<lambda>answer. case answer of
        None \<Rightarrow> ret None
      | Some (Refused_with message) \<Rightarrow> ret (map_option names_in (factories_in message))
      | Some Created_it \<Rightarrow> then_io (try_io is_exception (drop_catalog_stmt CONNECTOR_PROBE) (\<lambda>_. ret ())) (ret None))"

definition connectors_fresh :: "('r, 'e, bool) act" where
  "connectors_fresh = bind_io (asks w_connectors_read_at) (\<lambda>at. case at of
      None \<Rightarrow> ret False
    | Some t \<Rightarrow> bind_io now_io (\<lambda>now. ret (now < t + CONNECTORS_TTL_SECONDS)))"

definition connector_factories :: "('r, 'e, string list option) act" where
  "connector_factories = bind_io connectors_fresh (\<lambda>fresh. if fresh then asks w_connectors
     else bind_io read_connector_factories (\<lambda>names. then_io (modify_io (w_connectors_update (\<lambda>_. names)))
       (bind_io now_io (\<lambda>now. then_io (modify_io (w_connectors_read_at_update (\<lambda>_. Some now))) (ret names)))))"

text \<open>\<open>close\<close> stands for \<open>difflib.get_close_matches\<close>: the nearest name, if any is near.\<close>

definition unknown_connector_problem ::
  "(string \<Rightarrow> string list \<Rightarrow> string option) \<Rightarrow> string \<Rightarrow> string list option \<Rightarrow> string option" where
  "unknown_connector_problem close connector available = (case available of
      None \<Rightarrow> None
    | Some names \<Rightarrow> if connector \<in> set names then None
        else Some (''This Trino cluster has no connector named '' @ quoted connector
          @ '', so a Catalog using it could never load.'' @ (case close connector (sorted_set names) of
               None \<Rightarrow> [] | Some near \<Rightarrow> '' Did you mean '' @ quoted near @ ''?'')))"

definition refuse_unknown_connector ::
  "(string \<Rightarrow> string list \<Rightarrow> string option) \<Rightarrow> string \<Rightarrow> ('r, 'e, unit) act" where
  "refuse_unknown_connector close connector = bind_io connector_factories (\<lambda>available.
     case unknown_connector_problem close connector available of
       None \<Rightarrow> ret ()
     | Some why \<Rightarrow> raise_io (Raised UnknownConnector why))"

lemmas connector_defs = ask_for_probe_def read_connector_factories_def connectors_fresh_def connector_factories_def
  refuse_unknown_connector_def

text \<open>A list of connectors that Trino gave: the cached one, or the one in the words of a refusal.\<close>

definition listed :: "('r, 'e) world \<Rightarrow> string list \<Rightarrow> bool" where
  "listed w names \<longleftrightarrow> w_connectors w = Some names
     \<or> (\<exists>message text. Some message \<in> set (w_probe_answers w) \<and> factories_in message = Some text \<and> names = names_in text)"

lemma factories_in_empty [simp]: "factories_in [] = None"
  by (simp add: factories_in_def)

lemma listedI: "Some message \<in> set (w_probe_answers w) \<Longrightarrow> factories_in message = Some text \<Longrightarrow> listed w (names_in text)"
  by (auto simp: listed_def)

lemma listed_cached: "w_connectors w = Some names \<Longrightarrow> listed w names"
  by (simp add: listed_def)

lemma wp_ask_for_probe:
  "wp ask_for_probe (\<lambda>a _. \<forall>message. a = Refused_with message \<longrightarrow> message = [] \<or> Some message \<in> set (w_probe_answers w))
     (\<lambda>_ _. True) w"
  by (auto simp: ask_for_probe_def external_defs external_def wp_def next_reading_def bind_io_def then_io_def ret_def modify_io_def
      split: list.split fault.split option.split sum.splits)

lemma wp_now_connectors:
  assumes "\<And>n w'. w_connectors w' = w_connectors w \<Longrightarrow> w_probe_answers w' = w_probe_answers w \<Longrightarrow> Q n w'"
  shows "wp now_io Q E w"
  using assms by (auto simp: wp_def now_io_def Let_def split: list.split)

lemma wp_connectors_fresh:
  "wp connectors_fresh (\<lambda>_ w'. w_connectors w' = w_connectors w \<and> w_probe_answers w' = w_probe_answers w) (\<lambda>_ _. False) w"
  by (auto simp: connectors_fresh_def intro!: wp_now_connectors split: option.split)

lemma wp_connector_factories:
  fixes w :: "('r, 'e) world"
  shows "wp connector_factories (\<lambda>names _. \<forall>ns. names = Some ns \<longrightarrow> listed w ns) (\<lambda>e _. e = Cancelled) w"
proof -
  have dropped: "wp (try_io is_exception (drop_catalog_stmt n) (\<lambda>_. ret ())) Q (\<lambda>e _. e = Cancelled) w1"
    if "\<And>w'. Q () w'" for Q n and w1 :: "('r, 'e) world"
    unfolding wp_try by (rule wp_ignore) (auto simp: is_exception_def that)
  have asked: "wp read_connector_factories (\<lambda>names _. \<forall>ns. names = Some ns \<longrightarrow> listed w ns) (\<lambda>e _. e = Cancelled) w1"
    if "w_probe_answers w1 = w_probe_answers w" for w1 :: "('r, 'e) world"
    unfolding read_connector_factories_def wp_bind wp_try
    by (rule wp_mono [OF wp_ask_for_probe])
      (use that in \<open>auto simp: is_exception_def split: option.split probe_answer.split
         intro!: dropped intro: listedI simp del: wp_try\<close>)
  show ?thesis
    unfolding connector_factories_def wp_bind
    by (rule wp_mono [OF wp_connectors_fresh])
      (auto simp: listed_cached intro!: wp_mono [OF asked] wp_now_any)
qed

text \<open>A connector is refused only on Trino's own word: the request is refused when the list Trino gave does not have
  the connector, and whatever else happens, a coordinator that is down, a message that does not parse, a probe that
  succeeded, nothing is held against it.\<close>

theorem connector_refused_on_trinos_word:
  "wp (refuse_unknown_connector close connector) (\<lambda>_ _. True)
    (\<lambda>e _. e = Cancelled \<or> (\<exists>names why. listed w names \<and> connector \<notin> set names \<and> e = Raised UnknownConnector why)) w"
  unfolding refuse_unknown_connector_def wp_bind
  by (rule wp_mono [OF wp_connector_factories]) (auto simp: unknown_connector_problem_def split: option.split)

end
