(* ===== verification/Certificate_Bundles.thy ===== *)
theory Certificate_Bundles
  imports Client_Certificates Resource_Groups
begin

text \<open>
  An uploaded archive read into a certificate and its key
  (\<open>app/sections/client_certificates/bundle.py\<close>), and what Apchi says of a stored certificate
  (\<open>model.py\<close>, \<open>section.py\<close>). The ZIP reader and the cryptography library are \<open>crypto\<close>, a parameter;
  of a certificate the model has what is compared and shown.
\<close>

section \<open>The libraries\<close>

text \<open>Loading a key: it is one, it is encrypted (a \<open>TypeError\<close>), or it is not one.\<close>

datatype 'k key_load = Loaded 'k | Encrypted | Not_a_key

record zip_entry =
  ze_name :: string
  ze_dir :: bool
  ze_size :: nat
  ze_read :: "exn + string" \<comment> \<open>\<open>zipped.read\<close>, which raises on a damaged or encrypted member\<close>

record ('c, 'k) crypto =
  cr_zip :: "string \<Rightarrow> string + zip_entry list" \<comment> \<open>\<open>BadZipFile\<close> in words, or \<open>infolist\<close>\<close>
  cr_pem_certificate :: "string \<Rightarrow> 'c option"
  cr_der_certificate :: "string \<Rightarrow> 'c option"
  cr_pem_key :: "string \<Rightarrow> 'k key_load"
  cr_der_key :: "string \<Rightarrow> 'k key_load"
  cr_certificate_public :: "'c \<Rightarrow> string"
  cr_key_public :: "'k \<Rightarrow> string"
  cr_certificate_text :: "'c \<Rightarrow> string"
  cr_key_text :: "'k \<Rightarrow> string"
  cr_not_after :: "'c \<Rightarrow> nat"

section \<open>Reading an archive\<close>

text \<open>A \<open>BundleProblem\<close>, which the request answers with its words, or an exception nothing catches.\<close>

datatype bundle_refusal = Problem string | Escapes exn

definition MAX_MEMBER_BYTES :: nat where "MAX_MEMBER_BYTES = 1048576"
definition MAX_MEMBERS :: nat where "MAX_MEMBERS = 64"

definition last_segment :: "string \<Rightarrow> string" where
  "last_segment name = rev (takeWhile (\<lambda>c. c \<noteq> CHR ''/'') (rev name))"

definition wanted_entry :: "zip_entry \<Rightarrow> bool" where
  "wanted_entry e \<longleftrightarrow> \<not> ze_dir e \<and> \<not> starts_with ''.'' (last_segment (ze_name e)) \<and> \<not> starts_with ''__MACOSX/'' (ze_name e)"

fun contents_of :: "zip_entry list \<Rightarrow> bundle_refusal + string list" where
  "contents_of [] = Inr []"
| "contents_of (e # es) = (if MAX_MEMBER_BYTES < ze_size e
     then Inl (Problem (quoted (ze_name e) @ '' is '' @ show_nat (ze_size e)
       @ '' bytes, which is far larger than any certificate or key.''))
     else case ze_read e of
       Inl err \<Rightarrow> Inl (Escapes err)
     | Inr data \<Rightarrow> map_sum id (Cons data) (contents_of es))"

definition members_of :: "('c, 'k) crypto \<Rightarrow> string \<Rightarrow> bundle_refusal + string list" where
  "members_of cr archive = (case cr_zip cr archive of
      Inl why \<Rightarrow> Inl (Problem (''That is not a ZIP archive Apchi can read: '' @ why))
    | Inr infos \<Rightarrow> (let entries = filter wanted_entry infos in
        if entries = [] then Inl (Problem ''The ZIP archive is empty.'')
        else if MAX_MEMBERS < length entries
        then Inl (Problem (''The ZIP archive holds '' @ show_nat (length entries)
          @ '' files. A certificate bundle holds a certificate and a key.''))
        else contents_of entries))"

definition as_certificate :: "('c, 'k) crypto \<Rightarrow> string \<Rightarrow> 'c option" where
  "as_certificate cr data = (case cr_pem_certificate cr data of Some c \<Rightarrow> Some c | None \<Rightarrow> cr_der_certificate cr data)"

definition ENCRYPTED_KEY :: string where
  "ENCRYPTED_KEY = ''The private key is encrypted. Apchi holds no passphrase for it; upload it without one.''"

definition as_private_key :: "('c, 'k) crypto \<Rightarrow> string \<Rightarrow> string + 'k option" where
  "as_private_key cr data = (case cr_pem_key cr data of
      Loaded k \<Rightarrow> Inr (Some k)
    | Encrypted \<Rightarrow> Inl ENCRYPTED_KEY
    | Not_a_key \<Rightarrow> (case cr_der_key cr data of
        Loaded k \<Rightarrow> Inr (Some k)
      | Encrypted \<Rightarrow> Inl ENCRYPTED_KEY
      | Not_a_key \<Rightarrow> Inr None))"

fun sort_members :: "('c, 'k) crypto \<Rightarrow> string list \<Rightarrow> string + 'c list \<times> 'k list" where
  "sort_members cr [] = Inr ([], [])"
| "sort_members cr (data # rest) = (case as_certificate cr data of
      Some c \<Rightarrow> map_sum id (\<lambda>(cs, ks). (c # cs, ks)) (sort_members cr rest)
    | None \<Rightarrow> (case as_private_key cr data of
        Inl why \<Rightarrow> Inl why
      | Inr (Some k) \<Rightarrow> map_sum id (\<lambda>(cs, ks). (cs, k # ks)) (sort_members cr rest)
      | Inr None \<Rightarrow> sort_members cr rest))"

definition choose_pair :: "('c, 'k) crypto \<Rightarrow> 'c list \<times> 'k list \<Rightarrow> string + 'c \<times> 'k" where
  "choose_pair cr held = (case held of (certificates, keys) \<Rightarrow>
     if certificates = [] then Inl ''The ZIP archive holds no certificate Apchi can read.''
     else case keys of
       [] \<Rightarrow> Inl ''The ZIP archive holds no private key Apchi can read.''
     | [key] \<Rightarrow> (case find (\<lambda>c. cr_certificate_public cr c = cr_key_public cr key) certificates of
         Some c \<Rightarrow> Inr (c, key)
       | None \<Rightarrow> Inl ''The certificate and the private key in that archive are not a pair. A certificate presented with the wrong key is a connection that fails at handshake.'')
     | _ \<Rightarrow> Inl (''The ZIP archive holds '' @ show_nat (length keys)
         @ '' private keys. Apchi cannot tell which one belongs to the certificate; upload one certificate and its key.''))"

definition bundle_of :: "('c, 'k) crypto \<Rightarrow> 'c \<times> 'k \<Rightarrow> client_certificate" where
  "bundle_of cr pair = \<lparr>cc_certificate = cr_certificate_text cr (fst pair), cc_private_key = cr_key_text cr (snd pair)\<rparr>"

definition read_bundle :: "('c, 'k) crypto \<Rightarrow> string \<Rightarrow> bundle_refusal + client_certificate" where
  "read_bundle cr archive = (case members_of cr archive of
      Inl r \<Rightarrow> Inl r
    | Inr contents \<Rightarrow> (case sort_members cr contents of
        Inl why \<Rightarrow> Inl (Problem why)
      | Inr held \<Rightarrow> (case choose_pair cr held of
          Inl why \<Rightarrow> Inl (Problem why)
        | Inr pair \<Rightarrow> Inr (bundle_of cr pair))))"

section \<open>What is said of a certificate\<close>

datatype expiry = Valid | Expiring | Expired

definition expiry_at :: "nat \<Rightarrow> nat \<Rightarrow> nat \<Rightarrow> expiry" where
  "expiry_at now within_days expires = (if expires \<le> now then Expired
     else if (expires - now) div 86400 \<le> within_days then Expiring else Valid)"

record description =
  ds_name :: string
  ds_not_after :: nat
  ds_status :: expiry

text \<open>The stored text is parsed at every reading; text that does not parse raises.\<close>

definition describe_certificate :: "('c, 'k) crypto \<Rightarrow> nat \<Rightarrow> nat \<Rightarrow> string \<Rightarrow> string \<Rightarrow> exn + description" where
  "describe_certificate cr now within_days name text = (case cr_pem_certificate cr text of
      None \<Rightarrow> Inl (Raised ValueError ''Unable to load PEM file.'')
    | Some c \<Rightarrow> Inr \<lparr>ds_name = name, ds_not_after = cr_not_after cr c, ds_status = expiry_at now within_days (cr_not_after cr c)\<rparr>)"

definition get_certificate ::
  "('c, 'k) crypto \<Rightarrow> nat \<Rightarrow> nat \<Rightarrow> client_certificate resources \<Rightarrow> string \<Rightarrow> exn + description" where
  "get_certificate cr now within_days stored name = (case map_of stored name of
      None \<Rightarrow> Inl (Raised NotFound (''No client certificate named '' @ quoted name @ '' in the Configuration Candidate.''))
    | Some b \<Rightarrow> describe_certificate cr now within_days name (cc_certificate b))"

fun describe_all :: "('c, 'k) crypto \<Rightarrow> nat \<Rightarrow> nat \<Rightarrow> client_certificate resources \<Rightarrow> string list \<Rightarrow> exn + description list" where
  "describe_all cr now within_days stored [] = Inr []"
| "describe_all cr now within_days stored (name # names) = (case get_certificate cr now within_days stored name of
      Inl e \<Rightarrow> Inl e
    | Inr d \<Rightarrow> map_sum id (Cons d) (describe_all cr now within_days stored names))"

definition list_certificates ::
  "('c, 'k) crypto \<Rightarrow> nat \<Rightarrow> nat \<Rightarrow> client_certificate resources \<Rightarrow> expiry option \<Rightarrow> exn + description list" where
  "list_certificates cr now within_days stored status = map_sum id
     (filter (\<lambda>d. status = None \<or> status = Some (ds_status d))) (describe_all cr now within_days stored (sorted_keys stored))"

section \<open>A stored pair is a pair\<close>

text \<open>A member of the archive that Apchi looks at.\<close>

definition in_archive :: "('c, 'k) crypto \<Rightarrow> string \<Rightarrow> string \<Rightarrow> bool" where
  "in_archive cr archive data \<longleftrightarrow> (\<exists>infos e. cr_zip cr archive = Inr infos \<and> e \<in> set infos \<and> wanted_entry e
     \<and> ze_size e \<le> MAX_MEMBER_BYTES \<and> ze_read e = Inr data)"

lemma contents_of_entries:
  "contents_of es = Inr contents \<Longrightarrow> data \<in> set contents \<longleftrightarrow> (\<exists>e \<in> set es. ze_size e \<le> MAX_MEMBER_BYTES \<and> ze_read e = Inr data)"
  by (induction es arbitrary: contents) (auto split: if_splits sum.splits simp: map_sum_def)

lemma members_in_archive: "members_of cr archive = Inr contents \<Longrightarrow> data \<in> set contents \<longleftrightarrow> in_archive cr archive data"
  by (auto simp: members_of_def in_archive_def Let_def contents_of_entries split: sum.splits if_splits)

lemma sort_members_sound:
  "sort_members cr contents = Inr (cs, ks) \<Longrightarrow>
     set cs = {c. \<exists>data \<in> set contents. as_certificate cr data = Some c}
     \<and> set ks = {k. \<exists>data \<in> set contents. as_certificate cr data = None \<and> as_private_key cr data = Inr (Some k)}"
  by (induction contents arbitrary: cs ks) (auto split: option.splits sum.splits simp: map_sum_def)

lemma choose_pair_sound:
  "choose_pair cr (cs, ks) = Inr (c, k) \<Longrightarrow> c \<in> set cs \<and> ks = [k] \<and> cr_certificate_public cr c = cr_key_public cr k"
  by (auto simp: choose_pair_def find_Some_iff split: if_splits list.splits option.splits)

text \<open>The member \<open>data\<close> is a private key and not a certificate.\<close>

definition holds_key :: "('c, 'k) crypto \<Rightarrow> string \<Rightarrow> 'k \<Rightarrow> bool" where
  "holds_key cr data k \<longleftrightarrow> as_certificate cr data = None \<and> as_private_key cr data = Inr (Some k)"

definition from_pair :: "('c, 'k) crypto \<Rightarrow> string \<Rightarrow> client_certificate \<Rightarrow> bool" where
  "from_pair cr archive b \<longleftrightarrow> (\<exists>c k data keydata. b = bundle_of cr (c, k) \<and> cr_certificate_public cr c = cr_key_public cr k
     \<and> in_archive cr archive data \<and> as_certificate cr data = Some c
     \<and> in_archive cr archive keydata \<and> holds_key cr keydata k
     \<and> (\<forall>other k'. in_archive cr archive other \<longrightarrow> holds_key cr other k' \<longrightarrow> k' = k))"


end
