(* ===== verification/Auth_Stores.thy ===== *)
theory Auth_Stores
  imports Gates Preconditions
begin

text \<open>
  The stores of authentication: users and their passwords (\<open>app/auth/users.py\<close>,
  \<open>app/auth/passwords.py\<close>), sessions (\<open>app/auth/sessions.py\<close>), logins in progress
  (\<open>app/auth/logins.py\<close>) and tokens (\<open>app/auth/tokens.py\<close>). SHA-256 and the Argon2 library are
  \<open>auth_libs\<close>, a parameter; the TTL indexes by which MongoDB reaps expired rows on its own
  schedule are not modelled, and nothing here relies on them.
\<close>

datatype hash_answer = Hash_Matches | Hash_Mismatch | Hash_Unreadable

record auth_libs =
  ab_digest :: "string \<Rightarrow> string" \<comment> \<open>\<open>sha256(value.encode()).hexdigest()\<close>\<close>
  ab_challenge :: "string \<Rightarrow> string" \<comment> \<open>the SHA-256 of a verifier in unpadded base64url\<close>
  ab_hash :: "string \<Rightarrow> string \<Rightarrow> string" \<comment> \<open>\<open>PasswordHasher.hash\<close>, of a salt and a password\<close>
  ab_verify :: "string \<Rightarrow> string \<Rightarrow> hash_answer" \<comment> \<open>\<open>PasswordHasher.verify\<close>\<close>
  ab_unmatchable :: string \<comment> \<open>a hash of a value nobody holds\<close>
  ab_needs_rehash :: "string \<Rightarrow> bool option" \<comment> \<open>\<open>check_needs_rehash\<close>, \<open>None\<close> for an invalid hash\<close>

section \<open>Passwords\<close>

text \<open>A missing hash is verified against one nobody matches, and refused whatever comes back.\<close>

definition verify_password :: "auth_libs \<Rightarrow> string \<Rightarrow> string option \<Rightarrow> bool" where
  "verify_password ab password stored =
     (case ab_verify ab (case stored of None \<Rightarrow> ab_unmatchable ab | Some h \<Rightarrow> h) password of
        Hash_Mismatch \<Rightarrow> False
      | Hash_Unreadable \<Rightarrow> False
      | Hash_Matches \<Rightarrow> stored \<noteq> None)"

definition needs_rehash :: "auth_libs \<Rightarrow> string \<Rightarrow> bool" where
  "needs_rehash ab stored = (case ab_needs_rehash ab stored of None \<Rightarrow> False | Some b \<Rightarrow> b)"

definition hash_password :: "auth_libs \<Rightarrow> string \<Rightarrow> ('r, 'e, string) act" where
  "hash_password ab password = bind_io token_urlsafe (\<lambda>salt. ret (ab_hash ab salt password))"

section \<open>Users\<close>

definition user_identity :: "user \<Rightarrow> via \<Rightarrow> identity" where
  "user_identity u v = \<lparr>id_subject = us_username u, id_role = us_role u, id_via = v, id_token = None\<rparr>"

definition user_get :: "string \<Rightarrow> ('r, 'e, user option) act" where
  "user_get name = mongo (asks (\<lambda>w. map_of (w_users w) name))"

definition user_create :: "user \<Rightarrow> ('r, 'e, unit) act" where
  "user_create u = mongo (update_io (\<lambda>w. if has_key (w_users w) (us_username u)
     then Inl (Raised DuplicateKeyError (us_username u))
     else Inr (w\<lparr>w_users := AList.update (us_username u) u (w_users w)\<rparr>)))"

definition user_count :: "('r, 'e, nat) act" where
  "user_count = mongo (asks (\<lambda>w. length (w_users w)))"

definition edit_user :: "string \<Rightarrow> (user \<Rightarrow> user) \<Rightarrow> user dict \<Rightarrow> user dict" where
  "edit_user name f us = (case map_of us name of None \<Rightarrow> us | Some u \<Rightarrow> AList.update name (f u) us)"

definition restore_hash :: "string \<Rightarrow> string \<Rightarrow> ('r, 'e, unit) act" where
  "restore_hash name h = mongo (modify_io (w_users_update (edit_user name (us_password_hash_update (\<lambda>_. Some h)))))"

definition rehash :: "auth_libs \<Rightarrow> user \<Rightarrow> string \<Rightarrow> ('r, 'e, unit) act" where
  "rehash ab u password = (case us_password_hash u of
      None \<Rightarrow> ret ()
    | Some h \<Rightarrow> if needs_rehash ab h then bind_io (hash_password ab password) (restore_hash (us_username u)) else ret ())"

definition authenticate :: "auth_libs \<Rightarrow> string \<Rightarrow> string \<Rightarrow> ('r, 'e, user option) act" where
  "authenticate ab name password = bind_io (user_get name) (\<lambda>found. case found of
      None \<Rightarrow> ret None
    | Some u \<Rightarrow> if \<not> verify_password ab password (us_password_hash u) \<or> us_disabled u then ret None
        else then_io (rehash ab u password) (ret (Some u)))"

definition new_user :: "string \<Rightarrow> string option \<Rightarrow> role \<Rightarrow> nat \<Rightarrow> user" where
  "new_user name h r now = \<lparr>us_username = name, us_password_hash = h, us_role = r, us_disabled = False, us_created_at = now\<rparr>"

fun is_duplicate :: "exn \<Rightarrow> bool" where
  "is_duplicate (Raised DuplicateKeyError _) = True"
| "is_duplicate _ = False"

definition ensure_initial_admin :: "string \<Rightarrow> string \<Rightarrow> ('r, 'e, bool) act" where
  "ensure_initial_admin name h = bind_io user_count (\<lambda>n. if 0 < n then ret False
     else try_io is_duplicate
       (bind_io now_io (\<lambda>now. then_io (user_create (new_user name (Some h) Admin now)) (ret True)))
       (\<lambda>_. ret False))"

text \<open>An upsert: the role is what the provider says, everything else of an existing user stays.\<close>

definition mirrored :: "string \<Rightarrow> role \<Rightarrow> nat \<Rightarrow> user dict \<Rightarrow> user" where
  "mirrored name r now us = (case map_of us name of
      None \<Rightarrow> new_user name None r now | Some u \<Rightarrow> u\<lparr>us_role := r\<rparr>)"

definition mirror :: "string \<Rightarrow> role \<Rightarrow> ('r, 'e, user option) act" where
  "mirror name r = bind_io now_io (\<lambda>now.
     bind_io (mongo (\<lambda>w. let u = mirrored name r now (w_users w) in
        (Inr u, w\<lparr>w_users := AList.update name u (w_users w)\<rparr>))) (\<lambda>u.
     ret (if us_disabled u then None else Some u)))"

definition bootstrap :: "settings \<Rightarrow> ('r, 'e, unit) act" where
  "bootstrap s = (case (st_initial_admin s, st_initial_admin_hash s) of
      (Some name, Some h) \<Rightarrow> if name = [] \<or> h = [] then ret ()
        else try_io is_pymongo (bind_io (ensure_initial_admin name h) (\<lambda>_. ret ())) (\<lambda>_. ret ())
    | _ \<Rightarrow> ret ())"

section \<open>Sessions\<close>

definition insert_row :: "(('r, 'e) world \<Rightarrow> 'v dict) \<Rightarrow> ('v dict \<Rightarrow> ('r, 'e) world \<Rightarrow> ('r, 'e) world) \<Rightarrow>
    string \<Rightarrow> 'v \<Rightarrow> ('r, 'e, unit) act" where
  "insert_row get put key v = mongo (update_io (\<lambda>w. if has_key (get w) key then Inl (Raised DuplicateKeyError key)
     else Inr (put (AList.update key v (get w)) w)))"

definition session_create :: "auth_libs \<Rightarrow> string \<Rightarrow> via \<Rightarrow> nat \<Rightarrow> ('r, 'e, string) act" where
  "session_create ab name v ttl = bind_io token_urlsafe (\<lambda>secret. bind_io now_io (\<lambda>now.
     then_io (insert_row w_sessions (\<lambda>ss. w_sessions_update (\<lambda>_. ss)) (ab_digest ab secret)
       \<lparr>se_username = name, se_via = v, se_expires_at = now + ttl\<rparr>) (ret secret)))"

definition session_read :: "auth_libs \<Rightarrow> string \<Rightarrow> ('r, 'e, session option) act" where
  "session_read ab v = bind_io (mongo (asks (\<lambda>w. map_of (w_sessions w) (ab_digest ab v)))) (\<lambda>found. case found of
      None \<Rightarrow> ret None
    | Some se \<Rightarrow> bind_io now_io (\<lambda>now. ret (if se_expires_at se \<le> now then None else Some se)))"

definition session_delete :: "auth_libs \<Rightarrow> string \<Rightarrow> ('r, 'e, unit) act" where
  "session_delete ab v = mongo (modify_io (w_sessions_update (AList.delete (ab_digest ab v))))"

section \<open>Logins in progress\<close>

definition pending :: "nat \<Rightarrow> ('r, 'e, pending_login) act" where
  "pending ttl = bind_io token_urlsafe (\<lambda>state. bind_io token_urlsafe (\<lambda>nonce. bind_io token_urlsafe (\<lambda>verifier.
     bind_io now_io (\<lambda>now. ret \<lparr>lg_state = state, lg_nonce = nonce, lg_code_verifier = verifier,
       lg_expires_at = now + ttl\<rparr>))))"

definition login_start :: "auth_libs \<Rightarrow> pending_login \<Rightarrow> ('r, 'e, string) act" where
  "login_start ab lg = bind_io token_urlsafe (\<lambda>handle.
     then_io (insert_row w_logins (\<lambda>ls. w_logins_update (\<lambda>_. ls)) (ab_digest ab handle) lg) (ret handle))"

text \<open>Deleted as it is read.\<close>

definition login_take :: "auth_libs \<Rightarrow> string \<Rightarrow> ('r, 'e, pending_login option) act" where
  "login_take ab handle = bind_io (mongo (\<lambda>w. (Inr (map_of (w_logins w) (ab_digest ab handle)),
       w\<lparr>w_logins := AList.delete (ab_digest ab handle) (w_logins w)\<rparr>))) (\<lambda>found. case found of
      None \<Rightarrow> ret None
    | Some lg \<Rightarrow> bind_io now_io (\<lambda>now. ret (if lg_expires_at lg \<le> now then None else Some lg)))"

section \<open>Tokens\<close>

definition TOKEN_PREFIX :: string where "TOKEN_PREFIX = ''apchi_''"

definition mint :: "('r, 'e, string) act" where
  "mint = bind_io token_urlsafe (\<lambda>secret. ret (TOKEN_PREFIX @ secret))"

definition token_live :: "token \<Rightarrow> ('r, 'e, bool) act" where
  "token_live t = (if tk_revoked_at t \<noteq> None then ret False
     else case tk_expires_at t of None \<Rightarrow> ret True
       | Some at \<Rightarrow> bind_io now_io (\<lambda>now. ret (now < at)))"

text \<open>One event, never fatal.\<close>

definition token_audited :: "settings \<Rightarrow> action \<Rightarrow> string \<Rightarrow> string option \<Rightarrow> ('r, 'e, unit) act" where
  "token_audited s act ident detail = bind_io actor_io (\<lambda>who. try_io is_pymongo
     (audit_record s who None ((mk_entry ADMIN_CATEGORY act (Some ident))\<lparr>en_detail := detail\<rparr>))
     (\<lambda>_. ret ()))"

definition insert_token :: "token \<Rightarrow> token list \<Rightarrow> exn + token list" where
  "insert_token t db = (if tk_id t \<in> set (map tk_id db) \<or> tk_digest t \<in> set (map tk_digest db)
     then Inl (Raised DuplicateKeyError (tk_id t)) else Inr (db @ [t]))"

definition expiry_of :: "nat option \<Rightarrow> ('r, 'e, nat option) act" where
  "expiry_of days = (case days of None \<Rightarrow> ret None
    | Some d \<Rightarrow> bind_io now_io (\<lambda>now. ret (Some (now + d * 86400))))"

definition token_create :: "auth_libs \<Rightarrow> settings \<Rightarrow> string \<Rightarrow> string \<Rightarrow> nat option \<Rightarrow> ('r, 'e, token \<times> string) act" where
  "token_create ab s owner name days = bind_io mint (\<lambda>secret. bind_io uuid_hex (\<lambda>ident. bind_io now_io (\<lambda>now.
     bind_io (expiry_of days) (\<lambda>expires.
     let t = \<lparr>tk_id = ident, tk_digest = ab_digest ab secret, tk_owner = owner, tk_name = name, tk_created_at = now,
       tk_expires_at = expires, tk_last_used_at = None, tk_revoked_at = None\<rparr> in
     then_io (mongo (update_io (\<lambda>w. case insert_token t (w_tokens w) of
         Inl e \<Rightarrow> Inl e | Inr db \<Rightarrow> Inr (w\<lparr>w_tokens := db\<rparr>))))
     (then_io (token_audited s Minted ident (Some (quoted name @ '' for '' @ owner))) (ret (t, secret)))))))"

definition token_find :: "auth_libs \<Rightarrow> string \<Rightarrow> ('r, 'e, token option) act" where
  "token_find ab secret = mongo (asks (\<lambda>w. find (\<lambda>t. tk_digest t = ab_digest ab secret) (w_tokens w)))"

definition edit_token :: "string \<Rightarrow> (token \<Rightarrow> token) \<Rightarrow> token list \<Rightarrow> token list" where
  "edit_token ident f = map (\<lambda>t. if tk_id t = ident then f t else t)"

definition token_touch :: "string \<Rightarrow> ('r, 'e, unit) act" where
  "token_touch ident = bind_io now_io (\<lambda>now.
     mongo (modify_io (w_tokens_update (edit_token ident (tk_last_used_at_update (\<lambda>_. Some now))))))"

definition token_key :: "token \<Rightarrow> nat \<times> string" where
  "token_key t = (tk_created_at t, tk_id t)"

definition page_tokens :: "string \<Rightarrow> int \<Rightarrow> (nat \<times> string) option \<Rightarrow> token list \<Rightarrow> token list \<times> (nat \<times> string) option" where
  "page_tokens owner limit before db = page_of_texts token_key limit before (filter (\<lambda>t. tk_owner t = owner) db)"

definition token_get :: "string \<Rightarrow> ('r, 'e, token option) act" where
  "token_get ident = mongo (asks (\<lambda>w. find (\<lambda>t. tk_id t = ident) (w_tokens w)))"

text \<open>The update matches a token that is not revoked, and says whether it found one.\<close>

definition token_revoke :: "settings \<Rightarrow> string \<Rightarrow> ('r, 'e, bool) act" where
  "token_revoke s ident = bind_io now_io (\<lambda>now.
     bind_io (mongo (\<lambda>w. (Inr (list_ex (\<lambda>t. tk_id t = ident \<and> tk_revoked_at t = None) (w_tokens w)),
        w\<lparr>w_tokens := edit_token ident (\<lambda>t. if tk_revoked_at t = None then t\<lparr>tk_revoked_at := Some now\<rparr> else t) (w_tokens w)\<rparr>)))
     (\<lambda>revoked. then_io (when_io revoked (token_audited s Revoked ident None)) (ret revoked)))"

lemmas auth_store_defs = user_get_def user_create_def user_count_def restore_hash_def rehash_def authenticate_def
  ensure_initial_admin_def mirror_def bootstrap_def insert_row_def session_create_def session_read_def
  session_delete_def pending_def login_start_def login_take_def mint_def token_live_def token_audited_def
  expiry_of_def token_create_def token_find_def token_touch_def token_get_def token_revoke_def hash_password_def

end
