(* ===== verification/Oidc.thy ===== *)
theory Oidc
  imports Auth_Stores
begin

text \<open>
  Apchi as an OpenID Connect client (\<open>app/auth/oidc.py\<close>): discovery, the authorization URL, the
  exchange of the code and the verification of the ID token. What a request to the provider comes
  back with is the world's \<open>w_http\<close>, every request is written to \<open>w_sent\<close>; the JOSE library is
  \<open>jose\<close>, a parameter; what it says of a failure, which goes to the log, is left out.
\<close>

record jose =
  jo_str :: "json \<Rightarrow> string" \<comment> \<open>\<open>str\<close> of a value that is not a string\<close>
  jo_import :: "json list \<Rightarrow> bool" \<comment> \<open>\<open>KeySet.import_key_set\<close> accepts the keys\<close>
  jo_decode :: "string \<Rightarrow> json list \<Rightarrow> string list \<Rightarrow> json dict option" \<comment> \<open>\<open>jwt.decode\<close>, \<open>None\<close> for a \<open>JoseError\<close>\<close>
  jo_valid :: "string \<Rightarrow> string \<Rightarrow> nat \<Rightarrow> json dict \<Rightarrow> bool" \<comment> \<open>the registry's check of \<open>iss\<close>, \<open>aud\<close> and \<open>exp\<close>\<close>

definition oidc_error :: "string \<Rightarrow> exn" where
  "oidc_error why = Raised OidcError why"

fun is_oidc_error :: "exn \<Rightarrow> bool" where
  "is_oidc_error (Raised OidcError _) = True"
| "is_oidc_error _ = False"

fun py_text :: "jose \<Rightarrow> json \<Rightarrow> string" where
  "py_text jo (JStr s) = s"
| "py_text jo j = jo_str jo j"

definition SIGNING_ALGORITHMS :: "string list" where
  "SIGNING_ALGORITHMS = [''RS256'', ''RS384'', ''RS512'', ''ES256'', ''ES384'', ''ES512'', ''PS256'']"

section \<open>Requests\<close>

fun json_type :: "json \<Rightarrow> string" where
  "json_type JNull = ''NoneType''"
| "json_type (JBool _) = ''bool''"
| "json_type (JNum _) = ''int''"
| "json_type (JStr _) = ''str''"
| "json_type (JList _) = ''list''"
| "json_type (JObj _) = ''dict''"

definition send :: "http_request \<Rightarrow> ('r, 'e, http_answer) act" where
  "send rq = (\<lambda>w. case w_http w of
      [] \<Rightarrow> (Inr (Http_Error ''no route to the provider''), w\<lparr>w_sent := w_sent w @ [rq]\<rparr>)
    | a # as \<Rightarrow> (Inr a, w\<lparr>w_sent := w_sent w @ [rq], w_http := as\<rparr>))"

definition json_of :: "http_request \<Rightarrow> string \<Rightarrow> ('r, 'e, json dict) act" where
  "json_of rq what = bind_io (send rq) (\<lambda>a. case a of
      Http_Error why \<Rightarrow> raise_io (oidc_error (what @ '' failed: '' @ why))
    | Not_Json why \<Rightarrow> raise_io (oidc_error (what @ '' did not return JSON: '' @ why))
    | Answers (JObj fs) \<Rightarrow> ret fs
    | Answers j \<Rightarrow> raise_io (oidc_error (what @ '' returned '' @ json_type j @ '', not an object'')))"

definition get_from :: "string \<Rightarrow> http_request" where
  "get_from url = \<lparr>hr_method = ''GET'', hr_url = url, hr_form = [], hr_auth = None\<rparr>"

section \<open>Configuration and discovery\<close>

definition required :: "string \<Rightarrow> string option \<Rightarrow> ('r, 'e, string) act" where
  "required name v = (case v of
      Some s \<Rightarrow> if s = [] then raise_io (oidc_error (''APCHI_AUTH_MODE is '' @ quoted ''sso'' @ '' but APCHI_'' @ name @ '' is not set.'')) else ret s
    | None \<Rightarrow> raise_io (oidc_error (''APCHI_AUTH_MODE is '' @ quoted ''sso'' @ '' but APCHI_'' @ name @ '' is not set.'')))"

definition issuer_of :: "settings \<Rightarrow> ('r, 'e, string) act" where
  "issuer_of s = required ''OIDC_ISSUER'' (st_oidc_issuer s)"

definition client_id_of :: "settings \<Rightarrow> ('r, 'e, string) act" where
  "client_id_of s = required ''OIDC_CLIENT_ID'' (st_oidc_client_id s)"

definition redirect_url_of :: "settings \<Rightarrow> ('r, 'e, string) act" where
  "redirect_url_of s = required ''OIDC_REDIRECT_URL'' (st_oidc_redirect_url s)"

text \<open>The values of a list of JSON, as texts; Python iterates a list, and a string by characters.\<close>

fun texts_of :: "jose \<Rightarrow> json option \<Rightarrow> exn + string list" where
  "texts_of jo None = Inr []"
| "texts_of jo (Some (JList js)) = Inr (map (py_text jo) js)"
| "texts_of jo (Some (JStr s)) = Inr (map (\<lambda>c. [c]) s)"
| "texts_of jo (Some (JObj fs)) = Inr (map fst fs)"
| "texts_of jo (Some j) = Inl (Raised TypeError (json_type j @ '' object is not iterable''))"

definition algorithms_of :: "string list \<Rightarrow> string list" where
  "algorithms_of advertised = (let common = filter (\<lambda>a. a \<in> set SIGNING_ALGORITHMS) advertised in
     if common = [] then [''RS256''] else common)"

definition in_header :: "string list \<Rightarrow> bool" where
  "in_header methods \<longleftrightarrow> ''client_secret_basic'' \<in> set methods \<or> methods = []"

fun field_text :: "jose \<Rightarrow> string \<Rightarrow> json dict \<Rightarrow> string \<Rightarrow> ('r, 'e, string) act" where
  "field_text jo url fs name = (case map_of fs name of
      None \<Rightarrow> raise_io (oidc_error (url @ '' is missing '' @ quoted name))
    | Some j \<Rightarrow> ret (py_text jo j))"

definition discover_provider :: "jose \<Rightarrow> settings \<Rightarrow> ('r, 'e, discovered) act" where
  "discover_provider jo s = bind_io (issuer_of s) (\<lambda>configured.
     let url = rstrip_slash configured @ ''/.well-known/openid-configuration'' in
     bind_io (json_of (get_from url) ''discovery'') (\<lambda>fs.
     bind_io (field_text jo url fs ''issuer'') (\<lambda>issuer.
     bind_io (field_text jo url fs ''authorization_endpoint'') (\<lambda>authorization.
     bind_io (field_text jo url fs ''token_endpoint'') (\<lambda>token_at.
     bind_io (field_text jo url fs ''jwks_uri'') (\<lambda>jwks.
       if issuer \<noteq> configured
       then raise_io (oidc_error (url @ '' describes issuer '' @ quoted issuer @ '', but APCHI_OIDC_ISSUER is '' @ quoted configured))
       else bind_io (lift_error (texts_of jo (map_of fs ''id_token_signing_alg_values_supported''))) (\<lambda>advertised.
         bind_io (lift_error (texts_of jo (map_of fs ''token_endpoint_auth_methods_supported''))) (\<lambda>methods.
         ret \<lparr>dc_issuer = issuer, dc_authorization_endpoint = authorization, dc_token_endpoint = token_at,
           dc_jwks_uri = jwks, dc_algorithms = algorithms_of advertised, dc_secret_in_header = in_header methods\<rparr>))))))))"

text \<open>Fetched once, and not cached on failure.\<close>

definition discovered_provider :: "jose \<Rightarrow> settings \<Rightarrow> ('r, 'e, discovered) act" where
  "discovered_provider jo s = bind_io (asks w_discovered) (\<lambda>known. case known of
      Some d \<Rightarrow> ret d
    | None \<Rightarrow> bind_io (discover_provider jo s) (\<lambda>d.
        then_io (modify_io (w_discovered_update (\<lambda>_. Some d))) (ret d)))"

section \<open>The flow\<close>

text \<open>\<open>urllib.parse.urlencode\<close>, of text in one-byte characters.\<close>

definition hex_upper :: "nat \<Rightarrow> char" where
  "hex_upper n = (if n < 10 then char_of (48 + n) else char_of (55 + n))"

definition url_safe :: "char \<Rightarrow> bool" where
  "url_safe c \<longleftrightarrow> (CHR ''a'' \<le> c \<and> c \<le> CHR ''z'') \<or> (CHR ''A'' \<le> c \<and> c \<le> CHR ''Z'')
     \<or> (CHR ''0'' \<le> c \<and> c \<le> CHR ''9'') \<or> c \<in> set ''_.-~''"

definition quote_char :: "char \<Rightarrow> string" where
  "quote_char c = (if url_safe c then [c] else if c = CHR '' '' then ''+''
     else [CHR ''%'', hex_upper (of_char c div 16), hex_upper (of_char c mod 16)])"

definition quote_plus :: "string \<Rightarrow> string" where
  "quote_plus s = concat (map quote_char s)"

definition urlencode :: "(string \<times> string) list \<Rightarrow> string" where
  "urlencode kvs = join_with ''&'' (map (\<lambda>(k, v). quote_plus k @ ''='' @ quote_plus v) kvs)"

text \<open>\<open>str.split()\<close>.\<close>

fun words_from :: "string \<Rightarrow> string \<Rightarrow> string list" where
  "words_from cur [] = (if cur = [] then [] else [cur])"
| "words_from cur (c # cs) = (if is_space c then (if cur = [] then [] else [cur]) @ words_from [] cs
     else words_from (cur @ [c]) cs)"

definition scope_list :: "settings \<Rightarrow> string list" where
  "scope_list s = words_from [] (st_oidc_scopes s)"

definition authorization_url :: "jose \<Rightarrow> auth_libs \<Rightarrow> settings \<Rightarrow> pending_login \<Rightarrow> ('r, 'e, string) act" where
  "authorization_url jo ab s lg = bind_io (discovered_provider jo s) (\<lambda>d.
     bind_io (client_id_of s) (\<lambda>client. bind_io (redirect_url_of s) (\<lambda>redirect.
       let query = urlencode [(''client_id'', client), (''redirect_uri'', redirect), (''response_type'', ''code''),
         (''scope'', join_with '' '' (scope_list s)), (''state'', lg_state lg), (''nonce'', lg_nonce lg),
         (''code_challenge'', ab_challenge ab (lg_code_verifier lg)), (''code_challenge_method'', ''S256'')];
         at = dc_authorization_endpoint d in
       ret (at @ (if CHR ''?'' \<in> set at then ''&'' else ''?'') @ query))))"

definition exchange_form :: "discovered \<Rightarrow> string \<Rightarrow> string \<Rightarrow> string \<Rightarrow> string \<Rightarrow> string \<Rightarrow> http_request" where
  "exchange_form d client secret redirect code verifier =
     \<lparr>hr_method = ''POST'', hr_url = dc_token_endpoint d,
       hr_form = [(''grant_type'', ''authorization_code''), (''code'', code), (''redirect_uri'', redirect),
         (''code_verifier'', verifier), (''client_id'', client)]
         @ (if dc_secret_in_header d then [] else [(''client_secret'', secret)]),
       hr_auth = (if dc_secret_in_header d then Some (client, secret) else None)\<rparr>"

definition exchange :: "jose \<Rightarrow> settings \<Rightarrow> string \<Rightarrow> string \<Rightarrow> ('r, 'e, string) act" where
  "exchange jo s code verifier = bind_io (discovered_provider jo s) (\<lambda>d.
     let secret = (case st_oidc_client_secret s of None \<Rightarrow> [] | Some v \<Rightarrow> v) in
     bind_io (redirect_url_of s) (\<lambda>redirect. bind_io (client_id_of s) (\<lambda>client.
     bind_io (json_of (exchange_form d client secret redirect code verifier) ''the code exchange'') (\<lambda>body.
       case map_of body ''id_token'' of
         Some (JStr t) \<Rightarrow> if t = [] then raise_io (oidc_error ''the code exchange returned no id_token'') else ret t
       | _ \<Rightarrow> raise_io (oidc_error ''the code exchange returned no id_token'')))))"

section \<open>Verification\<close>

definition fetch_keys :: "jose \<Rightarrow> settings \<Rightarrow> ('r, 'e, json list) act" where
  "fetch_keys jo s = bind_io (discovered_provider jo s) (\<lambda>d.
     bind_io (json_of (get_from (dc_jwks_uri d)) ''the JWKS fetch'') (\<lambda>fs. case map_of fs ''keys'' of
         Some (JList keys) \<Rightarrow> if jo_import jo keys
           then then_io (modify_io (w_jwks_update (\<lambda>_. Some keys))) (ret keys)
           else raise_io (oidc_error (dc_jwks_uri d @ '' is not a usable JWKS''))
       | _ \<Rightarrow> raise_io (oidc_error (dc_jwks_uri d @ '' returned no '' @ quoted ''keys'' @ '' array''))))"

definition key_set :: "jose \<Rightarrow> settings \<Rightarrow> bool \<Rightarrow> ('r, 'e, json list) act" where
  "key_set jo s refresh = bind_io (asks w_jwks) (\<lambda>known. case known of
      Some keys \<Rightarrow> if refresh then fetch_keys jo s else ret keys
    | None \<Rightarrow> fetch_keys jo s)"

definition retry_after_rotation :: "jose \<Rightarrow> settings \<Rightarrow> string \<Rightarrow> string list \<Rightarrow> ('r, 'e, json dict) act" where
  "retry_after_rotation jo s t algorithms = bind_io (key_set jo s True) (\<lambda>keys. case jo_decode jo t keys algorithms of
      None \<Rightarrow> raise_io (oidc_error (''the id_token'' @ [CHR 0x27] @ ''s signature is not valid''))
    | Some fs \<Rightarrow> ret fs)"

definition decoded :: "jose \<Rightarrow> settings \<Rightarrow> string \<Rightarrow> string list \<Rightarrow> ('r, 'e, json dict) act" where
  "decoded jo s t algorithms = bind_io (key_set jo s False) (\<lambda>keys. case jo_decode jo t keys algorithms of
      Some fs \<Rightarrow> ret fs
    | None \<Rightarrow> retry_after_rotation jo s t algorithms)"

definition nonce_in :: "jose \<Rightarrow> json dict \<Rightarrow> string" where
  "nonce_in jo fs = (case map_of fs ''nonce'' of None \<Rightarrow> [] | Some j \<Rightarrow> py_text jo j)"

definition id_claims :: "jose \<Rightarrow> settings \<Rightarrow> string \<Rightarrow> string \<Rightarrow> ('r, 'e, json dict) act" where
  "id_claims jo s t nonce = bind_io (discovered_provider jo s) (\<lambda>d.
     bind_io (decoded jo s t (sorted_set (dc_algorithms d))) (\<lambda>fs.
     bind_io (client_id_of s) (\<lambda>client. bind_io now_io (\<lambda>now.
       if \<not> jo_valid jo (dc_issuer d) client now fs
       then raise_io (oidc_error (''the id_token'' @ [CHR 0x27] @ ''s claims are not acceptable''))
       else if nonce_in jo fs \<noteq> nonce
       then raise_io (oidc_error (''the id_token'' @ [CHR 0x27] @ ''s nonce is not the one this login asked for''))
       else ret fs))))"

section \<open>What the claims mean\<close>

definition username_in :: "settings \<Rightarrow> json dict \<Rightarrow> exn + string" where
  "username_in s fs = (case map_of fs (st_oidc_username_claim s) of
      Some (JStr v) \<Rightarrow> if strip v = [] then Inl (oidc_error (''the id_token has no usable '' @ quoted (st_oidc_username_claim s)
          @ '' claim, so there is no username to record. Set APCHI_OIDC_USERNAME_CLAIM to a claim this provider sends.''))
        else Inr (strip v)
    | _ \<Rightarrow> Inl (oidc_error (''the id_token has no usable '' @ quoted (st_oidc_username_claim s)
          @ '' claim, so there is no username to record. Set APCHI_OIDC_USERNAME_CLAIM to a claim this provider sends.'')))"

definition admin_groups :: "settings \<Rightarrow> string list" where
  "admin_groups s = filter (\<lambda>g. g \<noteq> []) (map strip (split_on (CHR '','') (st_oidc_admin_groups s)))"

fun strings_in :: "json option \<Rightarrow> string list" where
  "strings_in (Some (JStr g)) = [g]"
| "strings_in (Some (JList js)) = List.map_filter (\<lambda>j. case j of JStr g \<Rightarrow> Some g | _ \<Rightarrow> None) js"
| "strings_in _ = []"

definition role_in :: "settings \<Rightarrow> json dict \<Rightarrow> role" where
  "role_in s fs = (if admin_groups s = [] then Operator
     else if list_ex (\<lambda>g. g \<in> set (admin_groups s)) (strings_in (map_of fs (st_oidc_role_claim s))) then Admin else Operator)"

lemmas oidc_defs = send_def json_of_def required_def issuer_of_def client_id_of_def redirect_url_of_def
  discover_provider_def discovered_provider_def authorization_url_def exchange_def fetch_keys_def key_set_def
  retry_after_rotation_def decoded_def id_claims_def

end
