(* ===== verification/Auth.thy ===== *)
theory Auth
  imports Oidc
begin

text \<open>
  Who is calling (\<open>app/api/deps.py\<close>) and how they sign in and out (\<open>app/api/auth.py\<close>,
  \<open>app/api/tokens.py\<close>). Of a request the model has what these read: the \<open>Authorization\<close> header
  and the two cookies. A cookie a response sets is part of a handler's result.
\<close>

record request =
  rq_authorization :: string
  rq_session :: "string option"
  rq_login :: "string option"

section \<open>The caller\<close>

definition unauthenticated :: "string \<Rightarrow> exn" where
  "unauthenticated why = Raised Unauthenticated why"

definition bearer_secret :: "request \<Rightarrow> string option" where
  "bearer_secret rq = (case partition_at (CHR '' '') (rq_authorization rq) of
      None \<Rightarrow> None
    | Some (scheme, secret) \<Rightarrow> if lower_case scheme = ''bearer'' \<and> starts_with TOKEN_PREFIX secret then Some secret else None)"

definition token_identity :: "user \<Rightarrow> token \<Rightarrow> identity" where
  "token_identity owner t = \<lparr>id_subject = us_username owner, id_role = us_role owner, id_via = Via_Token, id_token = Some (tk_id t)\<rparr>"

definition bad_token :: exn where
  "bad_token = unauthenticated ''That token is not valid, has expired, or has been revoked.''"

definition owner_gone :: "string \<Rightarrow> exn" where
  "owner_gone owner = unauthenticated (''The account that owns this token ('' @ quoted owner @ '') is disabled or gone.'')"

definition token_owner :: "token \<Rightarrow> ('r, 'e, user) act" where
  "token_owner t = bind_io (user_get (tk_owner t)) (\<lambda>owner. case owner of
      None \<Rightarrow> raise_io (owner_gone (tk_owner t))
    | Some u \<Rightarrow> if us_disabled u then raise_io (owner_gone (tk_owner t)) else ret u)"

definition from_bearer :: "auth_libs \<Rightarrow> request \<Rightarrow> ('r, 'e, identity option) act" where
  "from_bearer ab rq = (case bearer_secret rq of
      None \<Rightarrow> ret None
    | Some secret \<Rightarrow> bind_io (token_find ab secret) (\<lambda>known. case known of
        None \<Rightarrow> raise_io bad_token
      | Some t \<Rightarrow> bind_io (token_live t) (\<lambda>live. if \<not> live then raise_io bad_token
          else bind_io (token_owner t) (\<lambda>owner.
            then_io (token_touch (tk_id t)) (ret (Some (token_identity owner t)))))))"

definition from_session :: "auth_libs \<Rightarrow> request \<Rightarrow> ('r, 'e, identity option) act" where
  "from_session ab rq = (case rq_session rq of
      None \<Rightarrow> ret None
    | Some v \<Rightarrow> if v = [] then ret None
        else bind_io (session_read ab v) (\<lambda>known. case known of
          None \<Rightarrow> ret None
        | Some se \<Rightarrow> bind_io (user_get (se_username se)) (\<lambda>u. ret (case u of
            None \<Rightarrow> None
          | Some u \<Rightarrow> if us_disabled u then None else Some (user_identity u (se_via se))))))"

fun sign_in_at :: "auth_mode \<Rightarrow> string option" where
  "sign_in_at Password_Mode = Some ''Sign in at POST /api/v1/auth/login''"
| "sign_in_at Sso_Mode = Some ''Sign in at GET /api/v1/auth/sso/login''"
| "sign_in_at No_Auth = None"

definition no_backend :: "auth_mode \<Rightarrow> exn" where
  "no_backend m = unauthenticated (''Authentication mode '' @ quoted (auth_mode_value m)
     @ '' is configured but this build has no way to authenticate against it.'')"

definition sign_in_first :: "string \<Rightarrow> exn" where
  "sign_in_first place = unauthenticated (place @ '', or send a token as '' @ quoted ''Authorization: Bearer apchi_...'' @ ''.'')"

definition caller :: "auth_libs \<Rightarrow> settings \<Rightarrow> request \<Rightarrow> ('r, 'e, identity) act" where
  "caller ab s rq = (if st_auth_mode s = No_Auth then ret NOBODY
     else bind_io (from_bearer ab rq) (\<lambda>automation. case automation of
       Some i \<Rightarrow> ret i
     | None \<Rightarrow> (case sign_in_at (st_auth_mode s) of
         None \<Rightarrow> raise_io (no_backend (st_auth_mode s))
       | Some place \<Rightarrow> bind_io (from_session ab rq) (\<lambda>person. case person of
           Some i \<Rightarrow> ret i
         | None \<Rightarrow> raise_io (sign_in_first place)))))"

definition acting_as :: "identity \<Rightarrow> ('r, 'e, unit) act" where
  "acting_as i = modify_io (w_actor_update (\<lambda>_. Some i))"

definition authenticated :: "auth_libs \<Rightarrow> settings \<Rightarrow> request \<Rightarrow> ('r, 'e, identity) act" where
  "authenticated ab s rq = bind_io (caller ab s rq) (\<lambda>i. then_io (acting_as i) (ret i))"

definition not_an_admin :: "identity \<Rightarrow> exn" where
  "not_an_admin i = Raised Forbidden (''This is an Admin operation and '' @ quoted (id_subject i)
     @ '' is an Operator. Admins inject low-level configuration and freeze mutation; Operators own the six Sections ('' @ [CHR 0xA7] @ ''3).'')"

definition admin_only :: "auth_libs \<Rightarrow> settings \<Rightarrow> request \<Rightarrow> ('r, 'e, identity) act" where
  "admin_only ab s rq = bind_io (caller ab s rq) (\<lambda>i. then_io (acting_as i)
     (if is_admin i then ret i else raise_io (not_an_admin i)))"

text \<open>The gate of an Operator's edit: the caller first, then Maintenance Mode, then the freeze.\<close>

definition operator_gate :: "auth_libs \<Rightarrow> settings \<Rightarrow> request \<Rightarrow> ('r, 'e, unit) act" where
  "operator_gate ab s rq = then_io (caller ab s rq) operator_mutation_allowed"

section \<open>Signing in and out\<close>

record cookie =
  ck_name :: string
  ck_value :: string
  ck_max_age :: nat
  ck_secure :: bool

definition SESSION_COOKIE :: string where "SESSION_COOKIE = ''apchi_session''"
definition LOGIN_COOKIE :: string where "LOGIN_COOKIE = ''apchi_login''"

definition set_cookie :: "settings \<Rightarrow> string \<Rightarrow> string \<Rightarrow> nat \<Rightarrow> cookie" where
  "set_cookie s name v age = \<lparr>ck_name = name, ck_value = v, ck_max_age = age,
     ck_secure = (st_environment s = Env_Prep \<or> st_environment s = Env_Prod)\<rparr>"

definition no_passwords :: "auth_mode \<Rightarrow> exn" where
  "no_passwords m = unauthenticated (''Apchi is running in '' @ quoted (auth_mode_value m) @ '' mode, which has no passwords.'')"

definition no_match :: exn where
  "no_match = unauthenticated ''That username and password do not match an enabled account.''"

definition login :: "auth_libs \<Rightarrow> settings \<Rightarrow> string \<Rightarrow> string \<Rightarrow> ('r, 'e, identity \<times> cookie) act" where
  "login ab s name password =
     (if st_auth_mode s \<noteq> Password_Mode then raise_io (no_passwords (st_auth_mode s))
      else bind_io (authenticate ab name password) (\<lambda>u. case u of
        None \<Rightarrow> raise_io no_match
      | Some u \<Rightarrow> bind_io (session_create ab (us_username u) Via_Password (st_session_seconds s)) (\<lambda>v.
          ret (user_identity u Via_Password, set_cookie s SESSION_COOKIE v (st_session_seconds s)))))"

definition SSO_REFUSED :: exn where
  "SSO_REFUSED = unauthenticated ''That SSO login could not be completed.''"

definition SSO_UNAVAILABLE :: exn where
  "SSO_UNAVAILABLE = unauthenticated ''Apchi cannot reach its identity provider, so nobody can sign in right now.''"

definition sso_only :: "settings \<Rightarrow> ('r, 'e, unit) act" where
  "sso_only s = (if st_auth_mode s = Sso_Mode then ret ()
     else raise_io (unauthenticated (''Apchi is running in '' @ quoted (auth_mode_value (st_auth_mode s))
       @ '' mode, which has no identity provider.'')))"

text \<open>The URL is built before the attempt is stored.\<close>

definition sso_login :: "jose \<Rightarrow> auth_libs \<Rightarrow> settings \<Rightarrow> ('r, 'e, string \<times> cookie) act" where
  "sso_login jo ab s = then_io (sso_only s) (bind_io (pending (st_login_seconds s)) (\<lambda>lg.
     bind_io (try_io is_oidc_error (authorization_url jo ab s lg) (\<lambda>_. raise_io SSO_UNAVAILABLE)) (\<lambda>url.
     bind_io (login_start ab lg) (\<lambda>handle.
       ret (url, set_cookie s LOGIN_COOKIE handle (st_login_seconds s))))))"

record callback =
  cb_code :: "string option"
  cb_state :: "string option"
  cb_error :: "string option"

text \<open>\<open>if error\<close> and \<open>if not code or not state\<close>: an empty text counts as none.\<close>

definition provided :: "string option \<Rightarrow> bool" where
  "provided v \<longleftrightarrow> v \<noteq> None \<and> v \<noteq> Some []"

definition provider_says :: "jose \<Rightarrow> settings \<Rightarrow> string \<Rightarrow> pending_login \<Rightarrow> ('r, 'e, string \<times> role) act" where
  "provider_says jo s code lg = bind_io (exchange jo s code (lg_code_verifier lg)) (\<lambda>t.
     bind_io (id_claims jo s t (lg_nonce lg)) (\<lambda>fs.
     bind_io (lift_error (username_in s fs)) (\<lambda>name. ret (name, role_in s fs))))"

definition sso_callback :: "jose \<Rightarrow> auth_libs \<Rightarrow> settings \<Rightarrow> request \<Rightarrow> callback \<Rightarrow> ('r, 'e, identity \<times> cookie) act" where
  "sso_callback jo ab s rq cb = then_io (sso_only s)
     (bind_io (login_take ab (case rq_login rq of None \<Rightarrow> [] | Some h \<Rightarrow> h)) (\<lambda>taken.
      if provided (cb_error cb) then raise_io SSO_REFUSED
      else case taken of None \<Rightarrow> raise_io SSO_REFUSED
      | Some lg \<Rightarrow> if \<not> provided (cb_code cb) \<or> \<not> provided (cb_state cb) \<or> cb_state cb \<noteq> Some (lg_state lg) then raise_io SSO_REFUSED
      else bind_io (try_io is_oidc_error (provider_says jo s (the (cb_code cb)) lg) (\<lambda>_. raise_io SSO_REFUSED)) (\<lambda>(name, r).
        bind_io (mirror name r) (\<lambda>u. case u of
          None \<Rightarrow> raise_io SSO_REFUSED
        | Some u \<Rightarrow> bind_io (session_create ab (us_username u) Via_Sso (st_session_seconds s)) (\<lambda>v.
            ret (user_identity u Via_Sso, set_cookie s SESSION_COOKIE v (st_session_seconds s)))))))"

definition logout :: "auth_libs \<Rightarrow> settings \<Rightarrow> request \<Rightarrow> ('r, 'e, unit) act" where
  "logout ab s rq = then_io (caller ab s rq) (case rq_session rq of
      None \<Rightarrow> ret () | Some v \<Rightarrow> if v = [] then ret () else session_delete ab v)"

definition me :: "auth_libs \<Rightarrow> settings \<Rightarrow> request \<Rightarrow> ('r, 'e, identity) act" where
  "me ab s rq = caller ab s rq"

section \<open>Tokens\<close>

definition nobody_to_own :: exn where
  "nobody_to_own = Raised UnprocessablePayload (''There is nobody to own a token: Apchi is running in '' @ quoted ''none''
     @ '' mode, where every caller is anonymous. Configure an authentication mode first.'')"

definition token_request_ok :: "string \<Rightarrow> nat option \<Rightarrow> bool" where
  "token_request_ok name days \<longleftrightarrow> 1 \<le> length name \<and> length name \<le> 128
     \<and> (case days of None \<Rightarrow> True | Some d \<Rightarrow> 1 \<le> d \<and> d \<le> 3650)"

definition create_token ::
  "auth_libs \<Rightarrow> settings \<Rightarrow> identity \<Rightarrow> string \<Rightarrow> nat option \<Rightarrow> ('r, 'e, token \<times> string) act" where
  "create_token ab s i name days = (if st_auth_mode s = No_Auth \<or> id_subject i = ''anonymous'' then raise_io nobody_to_own
     else token_create ab s (id_subject i) name days)"

definition list_tokens ::
  "identity \<Rightarrow> int \<Rightarrow> (nat \<times> string) option \<Rightarrow> ('r, 'e, token list \<times> (nat \<times> string) option) act" where
  "list_tokens i limit before = mongo (asks (\<lambda>w. page_tokens (id_subject i) limit before (w_tokens w)))"

definition revoke_token :: "settings \<Rightarrow> identity \<Rightarrow> string \<Rightarrow> ('r, 'e, unit) act" where
  "revoke_token s i ident = bind_io (token_get ident) (\<lambda>known. case known of
      None \<Rightarrow> raise_io (Raised NotFound (''You have no token '' @ quoted ident @ ''.''))
    | Some t \<Rightarrow> if tk_owner t \<noteq> id_subject i then raise_io (Raised NotFound (''You have no token '' @ quoted ident @ ''.''))
        else bind_io (token_revoke s ident) (\<lambda>_. ret ()))"

lemmas caller_defs = token_owner_def from_bearer_def from_session_def caller_def

end
