(* ===== verification/Section_Api.thy ===== *)
theory Section_Api
  imports Trino_Adapter Certificate_Bundles Auth
begin

text \<open>
  The requests that edit one Section (\<open>app/api/catalogs.py\<close>, \<open>client_certificates.py\<close>,
  \<open>certificate_mapping.py\<close>, \<open>event_listeners.py\<close>, \<open>permissions.py\<close>, \<open>resource_groups.py\<close>): each
  loads the Candidate, runs the Section's operation on its resources and saves the Candidate. The
  operations are those of the Section theories; a request's answer is read off the stored resources.
  The gates in front of them are those of \<open>app/main.py\<close> and \<open>app/api/deps.py\<close>.
\<close>

section \<open>Gates\<close>

text \<open>The caller is resolved once per request, and acts from then on.\<close>

definition signed_in_route :: "auth_libs \<Rightarrow> settings \<Rightarrow> request \<Rightarrow> ('r, 'e, 'a) act \<Rightarrow> ('r, 'e, 'a) act" where
  "signed_in_route ab s rq handler = then_io (authenticated ab s rq) handler"

definition operator_route :: "auth_libs \<Rightarrow> settings \<Rightarrow> request \<Rightarrow> ('r, 'e, 'a) act \<Rightarrow> ('r, 'e, 'a) act" where
  "operator_route ab s rq handler = signed_in_route ab s rq (then_io operator_mutation_allowed handler)"

definition admin_route :: "auth_libs \<Rightarrow> settings \<Rightarrow> request \<Rightarrow> ('r, 'e, 'a) act \<Rightarrow> ('r, 'e, 'a) act" where
  "admin_route ab s rq handler = then_io (admin_only ab s rq) handler"

definition admin_mutation_route :: "auth_libs \<Rightarrow> settings \<Rightarrow> request \<Rightarrow> ('r, 'e, 'a) act \<Rightarrow> ('r, 'e, 'a) act" where
  "admin_mutation_route ab s rq handler = admin_route ab s rq (then_io mutations_enabled handler)"

section \<open>An edit\<close>

type_synonym 'a edit = "'a resources \<Rightarrow> exn + 'a resources"

text \<open>A Section as its requests see it: its name, and its resources among the stored ones.\<close>

record 'a kind =
  kd_section :: section_name
  kd_read :: "resource \<Rightarrow> 'a option"
  kd_write :: "'a \<Rightarrow> resource"

definition resources_in :: "'a kind \<Rightarrow> resource candidate \<Rightarrow> 'a resources" where
  "resources_in k c = own (kd_read k) (sec_get (ca_sections c) (kd_section k))"

definition with_resources :: "'a kind \<Rightarrow> 'a resources \<Rightarrow> resource candidate \<Rightarrow> resource candidate" where
  "with_resources k rs c = c\<lparr>ca_sections := AList.update (kd_section k) (whole (kd_write k) rs) (ca_sections c)\<rparr>"

text \<open>The part of an edit after the Candidate was loaded.\<close>

definition edit_loaded :: "settings \<Rightarrow> resource bson \<Rightarrow> 'a kind \<Rightarrow> 'a edit \<Rightarrow> resource candidate \<Rightarrow> (resource, 'e, 'a resources) act" where
  "edit_loaded s b k edit c = bind_io (lift_error (edit (resources_in k c))) (\<lambda>rs.
     then_io (candidate_save s b (with_resources k rs c) None None None) (ret rs))"

definition edit_section :: "settings \<Rightarrow> resource bson \<Rightarrow> 'a kind \<Rightarrow> 'a edit \<Rightarrow> (resource, 'e, 'a resources) act" where
  "edit_section s b k edit = bind_io candidate_load (edit_loaded s b k edit)"

definition staged_in :: "'a kind \<Rightarrow> (resource, 'e, 'a resources) act" where
  "staged_in k = bind_io candidate_load (\<lambda>c. ret (resources_in k c))"

definition stored_at :: "string \<Rightarrow> ('r, 'e, 'a resources) act \<Rightarrow> ('r, 'e, 'a) act" where
  "stored_at name m = bind_io m (\<lambda>rs. case map_of rs name of None \<Rightarrow> raise_io (Raised NotFound name) | Some v \<Rightarrow> ret v)"

definition no_content :: "('r, 'e, 'a) act \<Rightarrow> ('r, 'e, unit) act" where
  "no_content m = bind_io m (\<lambda>_. ret ())"

definition in_name_order :: "('r, 'e, 'a resources) act \<Rightarrow> ('r, 'e, (string \<times> 'a) list) act" where
  "in_name_order m = bind_io m (\<lambda>rs. ret (map (\<lambda>n. (n, the (map_of rs n))) (sorted_keys rs)))"

section \<open>Catalogs\<close>

definition catalog_kind :: "catalog kind" where
  "catalog_kind = \<lparr>kd_section = CATALOGS, kd_read = a_catalog, kd_write = A_catalog\<rparr>"

definition list_catalogs_request :: "(resource, 'e, (string \<times> catalog) list) act" where
  "list_catalogs_request = in_name_order (staged_in catalog_kind)"

definition get_catalog_request :: "string \<Rightarrow> (resource, 'e, catalog) act" where
  "get_catalog_request name = stored_at name (staged_in catalog_kind)"

definition create_catalog_request ::
  "(string \<Rightarrow> string list \<Rightarrow> string option) \<Rightarrow> settings \<Rightarrow> resource bson \<Rightarrow> catalog_write \<Rightarrow> (resource, 'e, catalog) act" where
  "create_catalog_request close s b w = then_io (refuse_unknown_connector close (cw_connector w))
     (stored_at (cw_name w) (edit_section s b catalog_kind (\<lambda>stored. create_catalog stored w)))"

definition update_catalog_request ::
  "(string \<Rightarrow> string list \<Rightarrow> string option) \<Rightarrow> settings \<Rightarrow> resource bson \<Rightarrow> string \<Rightarrow> catalog_update \<Rightarrow> (resource, 'e, catalog) act" where
  "update_catalog_request close s b name u = then_io
     (case cu_connector u of Sent c \<Rightarrow> refuse_unknown_connector close c | _ \<Rightarrow> ret ())
     (stored_at name (edit_section s b catalog_kind (\<lambda>stored. update_catalog stored name u)))"

definition delete_catalog_request :: "settings \<Rightarrow> resource bson \<Rightarrow> string \<Rightarrow> (resource, 'e, unit) act" where
  "delete_catalog_request s b name = no_content (edit_section s b catalog_kind (\<lambda>stored. delete_catalog stored name))"

section \<open>Client certificates\<close>

definition certificate_kind :: "client_certificate kind" where
  "certificate_kind = \<lparr>kd_section = CLIENT_CERTIFICATES, kd_read = a_certificate, kd_write = A_certificate\<rparr>"

definition MAX_ARCHIVE_BYTES :: nat where "MAX_ARCHIVE_BYTES = 2097152"

definition list_certificates_request ::
  "('c, 'k) crypto \<Rightarrow> nat \<Rightarrow> expiry option \<Rightarrow> (resource, 'e, description list) act" where
  "list_certificates_request cr within_days status = bind_io (staged_in certificate_kind) (\<lambda>rs.
     bind_io now_io (\<lambda>now. lift_error (list_certificates cr now within_days rs status)))"

definition get_certificate_request :: "('c, 'k) crypto \<Rightarrow> nat \<Rightarrow> string \<Rightarrow> (resource, 'e, description) act" where
  "get_certificate_request cr within_days name = bind_io (staged_in certificate_kind) (\<lambda>rs.
     bind_io now_io (\<lambda>now. lift_error (get_certificate cr now within_days rs name)))"

definition bundle_in :: "('c, 'k) crypto \<Rightarrow> string \<Rightarrow> exn + client_certificate" where
  "bundle_in cr archive = (if MAX_ARCHIVE_BYTES < length archive
     then Inl (Raised UnprocessablePayload (''That archive is '' @ show_nat (length archive)
       @ '' bytes. A certificate bundle is a few kilobytes.''))
     else case read_bundle cr archive of
       Inl (Problem why) \<Rightarrow> Inl (Raised UnprocessablePayload why)
     | Inl (Escapes e) \<Rightarrow> Inl e
     | Inr pair \<Rightarrow> Inr pair)"

text \<open>The stored certificate is described after it was put in the resources and before the save.\<close>

definition upload_certificate_request ::
  "('c, 'k) crypto \<Rightarrow> nat \<Rightarrow> settings \<Rightarrow> resource bson \<Rightarrow> string \<Rightarrow> string \<Rightarrow> (resource, 'e, description) act" where
  "upload_certificate_request cr within_days s b name archive = bind_io (lift_error (bundle_in cr archive)) (\<lambda>pair.
     bind_io candidate_load (\<lambda>c.
     bind_io (lift_error (store_certificate (st_certificate_max_bytes s) (resources_in certificate_kind c) name pair)) (\<lambda>rs.
     bind_io now_io (\<lambda>now. bind_io (lift_error (get_certificate cr now within_days rs name)) (\<lambda>d.
       then_io (candidate_save s b (with_resources certificate_kind rs c) None None None) (ret d))))))"

definition still_presented :: "string \<Rightarrow> string list \<Rightarrow> exn" where
  "still_presented name used_by = Raised Conflict (''Client certificate '' @ quoted name @ '' is still presented by ''
     @ join_with '', '' used_by @ ''. Change those Catalogs first, or they would be left pointing at a file that is no longer there.'')"

definition certificate_unused :: "resource candidate \<Rightarrow> string \<Rightarrow> exn + unit" where
  "certificate_unused c name = (let used_by = certificates_in_use (resources_in catalog_kind c) name in
     if used_by = [] then Inr () else Inl (still_presented name used_by))"

definition delete_certificate_request ::
  "('c, 'k) crypto \<Rightarrow> settings \<Rightarrow> resource bson \<Rightarrow> string \<Rightarrow> (resource, 'e, unit) act" where
  "delete_certificate_request cr s b name = bind_io candidate_load (\<lambda>c. bind_io now_io (\<lambda>now.
     bind_io (lift_error (get_certificate cr now 0 (resources_in certificate_kind c) name)) (\<lambda>_.
     then_io (lift_error (certificate_unused c name))
       (no_content (edit_loaded s b certificate_kind (\<lambda>stored. delete_certificate stored name) c)))))"

section \<open>Certificate mapping\<close>

definition mapping_kind :: "certificate_mapping kind" where
  "mapping_kind = \<lparr>kd_section = CERTIFICATE_MAPPING, kd_read = a_mapping, kd_write = A_mapping\<rparr>"

definition get_mapping_request :: "(resource, 'e, certificate_mapping) act" where
  "get_mapping_request = bind_io (staged_in mapping_kind) (\<lambda>rs. lift_error (get_mapping rs))"

definition set_mapping_request ::
  "(string \<Rightarrow> nat option) \<Rightarrow> settings \<Rightarrow> resource bson \<Rightarrow> certificate_mapping \<Rightarrow> (resource, 'e, certificate_mapping) act" where
  "set_mapping_request compiled s b w = stored_at RESOURCE (edit_section s b mapping_kind (\<lambda>stored. set_mapping compiled stored w))"

definition clear_mapping_request :: "settings \<Rightarrow> resource bson \<Rightarrow> (resource, 'e, unit) act" where
  "clear_mapping_request s b = no_content (edit_section s b mapping_kind clear_mapping)"

section \<open>Event listeners\<close>

definition listener_kind :: "event_listener kind" where
  "listener_kind = \<lparr>kd_section = EVENT_LISTENERS, kd_read = a_listener, kd_write = A_listener\<rparr>"

definition list_listeners_request :: "(resource, 'e, (string \<times> event_listener) list) act" where
  "list_listeners_request = in_name_order (staged_in listener_kind)"

definition get_listener_request :: "string \<Rightarrow> (resource, 'e, event_listener) act" where
  "get_listener_request name = stored_at name (staged_in listener_kind)"

definition create_listener_request ::
  "settings \<Rightarrow> resource bson \<Rightarrow> string \<Rightarrow> string \<Rightarrow> string dict \<Rightarrow> (resource, 'e, event_listener) act" where
  "create_listener_request s b name listener_type properties = stored_at name
     (edit_section s b listener_kind (\<lambda>stored. create_event_listener stored name listener_type properties))"

definition update_listener_request ::
  "settings \<Rightarrow> resource bson \<Rightarrow> string \<Rightarrow> string option option \<Rightarrow> string dict option option \<Rightarrow> (resource, 'e, event_listener) act" where
  "update_listener_request s b name new_type new_properties = stored_at name
     (edit_section s b listener_kind (\<lambda>stored. update_event_listener stored name new_type new_properties))"

definition delete_and_keep_one :: "settings \<Rightarrow> string \<Rightarrow> event_listener edit" where
  "delete_and_keep_one s name stored = (case delete_event_listener stored name of
      Inl e \<Rightarrow> Inl e
    | Inr rs \<Rightarrow> (case refuse_if_emptying rs s of Inl e \<Rightarrow> Inl e | Inr _ \<Rightarrow> Inr rs))"

definition delete_listener_request :: "settings \<Rightarrow> resource bson \<Rightarrow> string \<Rightarrow> (resource, 'e, unit) act" where
  "delete_listener_request s b name = no_content (edit_section s b listener_kind (delete_and_keep_one s name))"

section \<open>Permissions\<close>

definition grant_kind :: "grant kind" where
  "grant_kind = \<lparr>kd_section = PERMISSIONS, kd_read = a_grant, kd_write = A_grant\<rparr>"

text \<open>A body its Pydantic model refuses never reaches the handler.\<close>

definition valid_body :: "bool \<Rightarrow> ('r, 'e, 'a) act \<Rightarrow> ('r, 'e, 'a) act" where
  "valid_body ok handler = (if ok then handler
     else raise_io (Raised UnprocessablePayload ''The request payload is not valid.''))"

definition list_grants_request :: "(resource, 'e, (string \<times> grant) list) act" where
  "list_grants_request = in_name_order (staged_in grant_kind)"

definition get_grant_request :: "string \<Rightarrow> (resource, 'e, grant) act" where
  "get_grant_request key = stored_at key (staged_in grant_kind)"

definition add_grant_request :: "settings \<Rightarrow> resource bson \<Rightarrow> grant \<Rightarrow> (resource, 'e, grant) act" where
  "add_grant_request s b g = valid_body (grant_ok g)
     (stored_at (key_of g) (edit_section s b grant_kind (\<lambda>stored. add_grant stored g)))"

definition set_privileges_request :: "settings \<Rightarrow> resource bson \<Rightarrow> string \<Rightarrow> privilege list \<Rightarrow> (resource, 'e, grant) act" where
  "set_privileges_request s b key privileges = valid_body (privileges \<noteq> [])
     (stored_at key (edit_section s b grant_kind (\<lambda>stored. set_privileges stored key privileges)))"

definition delete_grant_request :: "settings \<Rightarrow> resource bson \<Rightarrow> string \<Rightarrow> (resource, 'e, unit) act" where
  "delete_grant_request s b key = no_content (edit_section s b grant_kind (\<lambda>stored. delete_grant stored key))"

definition set_system_rules_request :: "('r, 'e, unit) act" where
  "set_system_rules_request = raise_io (Raised Conflict (''The system-owned rules are generated, not configured. They exist to keep catalog ''
     @ ''DDL restricted to Apchi and to keep Apchi able to reach the Cluster it manages; ''
     @ ''an Operator who could edit them could lock Apchi out of its own recovery.''))"

section \<open>Resource groups\<close>

definition group_kind :: "group_resource kind" where
  "group_kind = \<lparr>kd_section = RESOURCE_GROUPS, kd_read = a_group, kd_write = A_group\<rparr>"

definition group_edit_request :: "settings \<Rightarrow> resource bson \<Rightarrow> group_request \<Rightarrow> (resource, 'e, group_resource resources) act" where
  "group_edit_request s b r = valid_body (group_request_ok r) (edit_section s b group_kind (group_operation r))"

definition get_selectors_request :: "(resource, 'e, selector list) act" where
  "get_selectors_request = bind_io (staged_in group_kind) (\<lambda>rs. ret (selectors_of rs))"

definition get_settings_request :: "(resource, 'e, string option) act" where
  "get_settings_request = bind_io (staged_in group_kind) (\<lambda>rs. ret (settings_of rs))"

definition list_groups_request :: "(resource, 'e, (string \<times> resource_group) list) act" where
  "list_groups_request = in_name_order (bind_io (staged_in group_kind) (\<lambda>rs. ret (groups_of rs)))"

definition get_group_request :: "string \<Rightarrow> (resource, 'e, resource_group) act" where
  "get_group_request path = stored_at path (bind_io (staged_in group_kind) (\<lambda>rs. ret (groups_of rs)))"

section \<open>Reverting a Section\<close>

definition revert_request :: "libs \<Rightarrow> settings \<Rightarrow> resource bson \<Rightarrow> section_name \<Rightarrow> int \<Rightarrow> (resource, 'e, revert_effect) act" where
  "revert_request lb s b name n = bind_io (cluster_dep s) (\<lambda>cl. section_revert lb s b cl name n)"

definition rollback_request :: "libs \<Rightarrow> settings \<Rightarrow> resource bson \<Rightarrow> int \<Rightarrow> (resource, 'e, revert_effect) act" where
  "rollback_request lb s b n = bind_io (cluster_dep s) (\<lambda>cl. full_rollback lb s b cl n)"

end
