(* ===== verification/Auth_Correct.thy ===== *)
theory Auth_Correct
  imports Auth Keeps
begin

text \<open>
  What authentication promises. A request is admitted exactly when it carries a live credential
  of an enabled user, with that user's current role; a revoked token admits nobody; a session
  admits its user until it is ended; a login attempt at the identity provider is spent by the
  first callback; and a callback signs somebody in only on verified claims that answer the attempt.
\<close>

section \<open>Who is admitted\<close>

text \<open>A live token of an enabled user, and a live session of one, at the time \<open>now\<close>.\<close>

definition admits_bearer :: "auth_libs \<Rightarrow> request \<Rightarrow> nat \<Rightarrow> ('r, 'e) world \<Rightarrow> identity \<Rightarrow> bool" where
  "admits_bearer ab rq now w i \<longleftrightarrow> (\<exists>secret t u. bearer_secret rq = Some secret
     \<and> find (\<lambda>t. tk_digest t = ab_digest ab secret) (w_tokens w) = Some t
     \<and> tk_revoked_at t = None \<and> (\<forall>at. tk_expires_at t = Some at \<longrightarrow> now < at)
     \<and> map_of (w_users w) (tk_owner t) = Some u \<and> \<not> us_disabled u \<and> i = token_identity u t)"

definition admits_session :: "auth_libs \<Rightarrow> request \<Rightarrow> nat \<Rightarrow> ('r, 'e) world \<Rightarrow> identity \<Rightarrow> bool" where
  "admits_session ab rq now w i \<longleftrightarrow> (\<exists>v se u. bearer_secret rq = None \<and> rq_session rq = Some v \<and> v \<noteq> []
     \<and> map_of (w_sessions w) (ab_digest ab v) = Some se \<and> now < se_expires_at se
     \<and> map_of (w_users w) (se_username se) = Some u \<and> \<not> us_disabled u \<and> i = user_identity u (se_via se))"

definition admits :: "auth_libs \<Rightarrow> settings \<Rightarrow> request \<Rightarrow> nat \<Rightarrow> ('r, 'e) world \<Rightarrow> identity \<Rightarrow> bool" where
  "admits ab s rq now w i \<longleftrightarrow> (if st_auth_mode s = No_Auth then i = NOBODY
     else admits_bearer ab rq now w i \<or> admits_session ab rq now w i)"

definition admitted :: "auth_libs \<Rightarrow> settings \<Rightarrow> request \<Rightarrow> ('r, 'e) world \<Rightarrow> identity \<Rightarrow> bool" where
  "admitted ab s rq w i \<longleftrightarrow> (\<exists>now. w_clock w \<le> now \<and> admits ab s rq now w i)"

text \<open>A refusal is a 401 and nobody is to be admitted, unless MongoDB failed.\<close>

definition rightly_refused :: "auth_libs \<Rightarrow> settings \<Rightarrow> request \<Rightarrow> ('r, 'e) world \<Rightarrow> exn \<Rightarrow> bool" where
  "rightly_refused ab s rq w e \<longleftrightarrow> w_mongo w \<noteq> [] \<or> (\<exists>why. e = unauthenticated why)
     \<and> (\<exists>now. w_clock w \<le> now \<and> (\<forall>i. \<not> admits ab s rq now w i))"

text \<open>A read lets time pass and spends faults.\<close>

definition read_only :: "('r, 'e) world \<Rightarrow> ('r, 'e) world \<Rightarrow> bool" where
  "read_only w w1 \<longleftrightarrow> w_tokens w1 = w_tokens w \<and> w_users w1 = w_users w \<and> w_sessions w1 = w_sessions w
     \<and> w_clock w \<le> w_clock w1 \<and> (w_mongo w1 \<noteq> [] \<longrightarrow> w_mongo w \<noteq> [])"

lemma wp_eta [simp]: "wp (ret a) Q E = Q a" "wp (then_io m n) Q E = wp m (\<lambda>_. wp n Q E) E"
  by (simp_all add: fun_eq_iff)

lemma read_only_refl: "read_only w w"
  by (simp add: read_only_def)

lemma wp_read:
  assumes "read_only w w1" and "\<And>w2. read_only w w2 \<Longrightarrow> Q (f w2) w2" and "\<And>e w2. w_mongo w \<noteq> [] \<Longrightarrow> E e w2"
  shows "wp (mongo (asks f)) Q E w1"
proof (cases "w_mongo w1")
  case Nil
  then show ?thesis using assms(1,2) by simp
next
  case (Cons a list)
  then have "w_mongo w \<noteq> []" using assms(1) by (simp add: read_only_def)
  moreover have "read_only w (w_mongo_update g w1)" for g
    using assms(1) \<open>w_mongo w \<noteq> []\<close> by (simp add: read_only_def)
  ultimately show ?thesis
    using Cons assms(2,3) by (auto simp: mongo_def wp_external split: fault.split)
qed

lemma wp_read_clock:
  assumes "read_only w w1" and "\<And>w2. read_only w w2 \<Longrightarrow> Q (w_clock w2) w2"
  shows "wp now_io Q E w1"
proof -
  have "read_only w (w1\<lparr>w_clock := w_clock w1 + n, w_ticks := ns\<rparr>)" for n ns
    using assms(1) by (simp add: read_only_def)
  then show ?thesis using assms(2) [of w1] assms(1) assms(2)
    by (fastforce simp: wp_def now_io_def Let_def split: list.split)
qed

lemma refused_fault: "w_mongo w \<noteq> [] \<Longrightarrow> rightly_refused ab s rq w e"
  by (simp add: rightly_refused_def)

lemma refusedI:
  "w_clock w \<le> now \<Longrightarrow> (\<And>i. \<not> admits ab s rq now w i) \<Longrightarrow> rightly_refused ab s rq w (unauthenticated why)"
  by (auto simp: rightly_refused_def)

lemma admits_bearer_iff:
  assumes "bearer_secret rq = Some secret" and "st_auth_mode s \<noteq> No_Auth"
    and "find (\<lambda>t. tk_digest t = ab_digest ab secret) (w_tokens w) = found_token"
  shows "admits ab s rq now w i \<longleftrightarrow> (\<exists>t u. found_token = Some t \<and> tk_revoked_at t = None \<and> (\<forall>at. tk_expires_at t = Some at \<longrightarrow> now < at)
     \<and> map_of (w_users w) (tk_owner t) = Some u \<and> \<not> us_disabled u \<and> i = token_identity u t)"
  using assms by (auto simp: admits_def admits_bearer_def admits_session_def)

lemma wp_token_live:
  assumes "read_only w w1"
    and "\<And>now w2. read_only w w2 \<Longrightarrow> w_clock w \<le> now \<Longrightarrow>
      Q (tk_revoked_at t = None \<and> (\<forall>at. tk_expires_at t = Some at \<longrightarrow> now < at)) w2"
  shows "wp (token_live t) Q E w1"
proof (cases "tk_revoked_at t = None \<and> tk_expires_at t \<noteq> None")
  case True
  then obtain at where "tk_revoked_at t = None" "tk_expires_at t = Some at" by auto
  then have "wp (token_live t) Q E w1 = wp now_io (\<lambda>now. Q (now < at)) E w1" by (simp add: token_live_def)
  moreover have "wp now_io (\<lambda>now. Q (now < at)) E w1"
  proof (rule wp_read_clock [OF assms(1)])
    fix w2 assume w2: "read_only w (w2 :: ('a, 'b) world)"
    then show "Q (w_clock w2 < at) w2"
      using assms(2) [OF w2, of "w_clock w2"] \<open>tk_revoked_at t = None\<close> \<open>tk_expires_at t = Some at\<close>
      by (simp add: read_only_def)
  qed
  ultimately show ?thesis by simp
next
  case False
  then show ?thesis using assms(2) [OF assms(1), of "w_clock w1"] assms(1)
    by (cases "tk_revoked_at t") (auto simp: token_live_def read_only_def)
qed

lemma wp_bearer:
  assumes b: "bearer_secret rq = Some secret" and m: "st_auth_mode s \<noteq> No_Auth"
  shows "wp (from_bearer ab rq) (\<lambda>i _. \<exists>j. i = Some j \<and> admitted ab s rq w j) (\<lambda>e _. rightly_refused ab s rq w e) w"
  unfolding from_bearer_def b option.case wp_bind token_find_def
proof (rule wp_read [OF read_only_refl [of w]])
  fix w1 :: "('a, 'b) world" assume w1: "read_only w w1"
  let ?t = "find (\<lambda>t. tk_digest t = ab_digest ab secret) (w_tokens w1)"
  have t: "find (\<lambda>t. tk_digest t = ab_digest ab secret) (w_tokens w) = ?t" using w1 by (simp add: read_only_def)
  note iff = admits_bearer_iff [OF b m t]
  show "wp (case ?t of None \<Rightarrow> raise_io bad_token | Some t \<Rightarrow> bind_io (token_live t) (\<lambda>live.
      if \<not> live then raise_io bad_token else bind_io (token_owner t) (\<lambda>owner.
        then_io (token_touch (tk_id t)) (ret (Some (token_identity owner t))))))
     (\<lambda>i _. \<exists>j. i = Some j \<and> admitted ab s rq w j) (\<lambda>e _. rightly_refused ab s rq w e) w1"
  proof (cases ?t)
    case None
    then show ?thesis
      by (auto simp: bad_token_def iff intro!: refusedI [OF order_refl])
  next
    case (Some t)
    show ?thesis
      unfolding Some option.case wp_bind
    proof (rule wp_token_live [OF w1])
      fix now w2 assume w2: "read_only w (w2 :: ('a, 'b) world)" and now: "w_clock w \<le> now"
      have refused: "rightly_refused ab s rq w (unauthenticated why)" if "\<And>i. \<not> admits ab s rq now w i" for why
        using refusedI [OF now that] .
      show "wp (if \<not> (tk_revoked_at t = None \<and> (\<forall>at. tk_expires_at t = Some at \<longrightarrow> now < at)) then raise_io bad_token
          else bind_io (token_owner t) (\<lambda>owner. then_io (token_touch (tk_id t)) (ret (Some (token_identity owner t)))))
        (\<lambda>i _. \<exists>j. i = Some j \<and> admitted ab s rq w j) (\<lambda>e _. rightly_refused ab s rq w e) w2"
      proof (cases "tk_revoked_at t = None \<and> (\<forall>at. tk_expires_at t = Some at \<longrightarrow> now < at)")
        case False
        then show ?thesis by (auto simp: bad_token_def iff Some intro!: refused)
      next
        case True
        have touched: "wp (token_touch (tk_id t)) (\<lambda>_ _. admitted ab s rq w (token_identity u t)) (\<lambda>e _. rightly_refused ab s rq w e) w3"
          if w3: "read_only w w3" and u: "map_of (w_users w) (tk_owner t) = Some u" "\<not> us_disabled u" for u w3
        proof -
          have "admitted ab s rq w (token_identity u t)"
            using True u now iff Some unfolding admitted_def by blast
          then show ?thesis
            unfolding token_touch_def wp_bind
            by (intro wp_read_clock [OF w3]) (auto simp: mongo_def wp_external read_only_def refused_fault split: list.split fault.split)
        qed
        have gone: "rightly_refused ab s rq w (owner_gone who)" if "\<And>u. map_of (w_users w) (tk_owner t) = Some u \<Longrightarrow> us_disabled u" for who
          unfolding owner_gone_def by (rule refused) (use that iff Some in auto)
        have owner: "wp (case map_of (w_users w3) (tk_owner t) of None \<Rightarrow> raise_io (owner_gone (tk_owner t))
            | Some u \<Rightarrow> if us_disabled u then raise_io (owner_gone (tk_owner t)) else ret u)
           (\<lambda>u. wp (token_touch (tk_id t)) (\<lambda>_ _. admitted ab s rq w (token_identity u t)) (\<lambda>e _. rightly_refused ab s rq w e))
           (\<lambda>e _. rightly_refused ab s rq w e) w3" if w3: "read_only w w3" for w3
          using w3 touched [OF w3] gone by (auto simp: read_only_def split: option.split)
        show ?thesis
          using True by (auto simp: token_owner_def user_get_def intro!: wp_read [OF w2] owner refused_fault)
      qed
    qed
  qed
qed (rule refused_fault)

lemma wp_session_read:
  assumes "read_only w w1"
    and "\<And>now w2. read_only w w2 \<Longrightarrow> w_clock w \<le> now \<Longrightarrow> (case map_of (w_sessions w) (ab_digest ab v) of
      None \<Rightarrow> Q None w2 | Some se \<Rightarrow> if now < se_expires_at se then Q (Some se) w2 else Q None w2)"
    and "\<And>e w2. w_mongo w \<noteq> [] \<Longrightarrow> E e w2"
  shows "wp (session_read ab v) Q E w1"
  unfolding session_read_def wp_bind
proof (rule wp_read [OF assms(1)])
  fix w2 assume w2: "read_only w (w2 :: ('a, 'b) world)"
  then have same: "w_sessions w2 = w_sessions w" "w_clock w \<le> w_clock w2" by (simp_all add: read_only_def)
  have "wp now_io (\<lambda>now. Q (if se_expires_at se \<le> now then None else Some se)) E w2"
    if "map_of (w_sessions w) (ab_digest ab v) = Some se" for se
    by (rule wp_read_clock [OF w2]) (use assms(2) that in \<open>fastforce simp: read_only_def not_le split: if_splits\<close>)
  then show "wp (case map_of (w_sessions w2) (ab_digest ab v) of None \<Rightarrow> ret None
      | Some se \<Rightarrow> bind_io now_io (\<lambda>now. ret (if se_expires_at se \<le> now then None else Some se))) Q E w2"
    using assms(2) [OF w2 same(2)] by (auto simp: same split: option.split)
qed (rule assms(3))

text \<open>A session that is not there, has ended or has no enabled user is nobody.\<close>

lemma wp_session:
  assumes b: "bearer_secret rq = None" and m: "st_auth_mode s \<noteq> No_Auth"
  shows "wp (from_session ab rq) (\<lambda>i w1. case i of Some i \<Rightarrow> admitted ab s rq w i
      | None \<Rightarrow> \<exists>now. w_clock w \<le> now \<and> (\<forall>i. \<not> admits ab s rq now w i)) (\<lambda>e _. rightly_refused ab s rq w e) w"
proof (cases "rq_session rq = None \<or> rq_session rq = Some []")
  case True
  then have "\<not> admits ab s rq now w i" for now i
    using b m by (auto simp: admits_def admits_bearer_def admits_session_def)
  with True show ?thesis by (auto simp: from_session_def)
next
  case False
  then obtain v where v: "rq_session rq = Some v" "v \<noteq> []" by auto
  let ?s = "map_of (w_sessions w) (ab_digest ab v)"
  have iff: "admits ab s rq now w i \<longleftrightarrow> (\<exists>se u. ?s = Some se \<and> now < se_expires_at se
      \<and> map_of (w_users w) (se_username se) = Some u \<and> \<not> us_disabled u \<and> i = user_identity u (se_via se))" for now i
    using b m v by (auto simp: admits_def admits_bearer_def admits_session_def)
  have user: "wp (user_get name) (\<lambda>u w2. Q u w2) (\<lambda>e _. rightly_refused ab s rq w e) w1"
    if "read_only w w1" "\<And>w2. read_only w w2 \<Longrightarrow> Q (map_of (w_users w) name) w2" for name Q and w1 :: "('a, 'b) world"
    using that unfolding user_get_def by (auto simp: read_only_def refused_fault intro!: wp_read [OF that(1)])
  show ?thesis
    unfolding from_session_def using v
    by (auto simp: v iff admitted_def refused_fault not_less split: option.split
        intro!: wp_session_read [OF read_only_refl] user) (blast intro: order_refl)+
qed

lemma from_bearer_none: "bearer_secret rq = None \<Longrightarrow> from_bearer ab rq = ret None"
  by (simp add: from_bearer_def)

lemma wp_caller:
  "wp (caller ab s rq) (\<lambda>i _. admitted ab s rq w i) (\<lambda>e _. rightly_refused ab s rq w e) w"
proof (cases "st_auth_mode s = No_Auth")
  case True
  then show ?thesis by (auto simp: caller_def admitted_def admits_def)
next
  case m: False
  show ?thesis
  proof (cases "bearer_secret rq")
    case (Some secret)
    show ?thesis
      using m by (auto simp: caller_def intro!: wp_mono [OF wp_bearer [OF Some m]])
  next
    case None
    obtain place where place: "sign_in_at (st_auth_mode s) = Some place" using m by (cases "st_auth_mode s") auto
    show ?thesis
      using m by (auto simp: caller_def from_bearer_none [OF None] place sign_in_first_def intro!: wp_mono [OF wp_session [OF None m]] refusedI split: option.splits)
  qed
qed


end
