(* ===== verification/Sessions_Correct.thy ===== *)
theory Sessions_Correct
  imports Auth_Correct
begin

text \<open>
  The life of a credential: a token until it is revoked, a session until it is ended.
\<close>

section \<open>A revoked token\<close>

definition unique_tokens :: "token list \<Rightarrow> bool" where
  "unique_tokens db \<longleftrightarrow> distinct (map tk_id db) \<and> distinct (map tk_digest db)"

lemma find_edit_token:
  assumes "\<And>t. tk_digest (f t) = tk_digest t"
  shows "find (\<lambda>t. tk_digest t = d) (edit_token ident f db)
    = map_option (\<lambda>t. if tk_id t = ident then f t else t) (find (\<lambda>t. tk_digest t = d) db)"
  using assms by (induction db) (auto simp: edit_token_def)

lemma booked_tokens:
  fixes w w' :: "('r, 'e) world"
  assumes "booked w db w'"
  shows "w_tokens w' = w_tokens w"
proof -
  have "w_tokens (outside v) = w_tokens v" for v :: "('r, 'e) world" by (simp add: outside_def)
  with assms show ?thesis by (metis booked_def)
qed

lemma wp_step: "wp (\<lambda>w. (Inr (g w), f w)) Q E w = Q (g w) (f w)"
  by (simp add: wp_def)

lemma wp_now_still:
  assumes "\<And>n w'. w_mongo w' = w_mongo w \<Longrightarrow> w_tokens w' = w_tokens w \<Longrightarrow> Q n w'"
  shows "wp now_io Q E w"
  using assms by (auto simp: wp_def now_io_def Let_def split: list.split)


definition demo_auth :: auth_libs where
  "demo_auth = \<lparr>ab_digest = (\<lambda>v. v), ab_challenge = (\<lambda>v. v), ab_hash = (\<lambda>salt p. p),
     ab_verify = (\<lambda>h p. if h = p then Hash_Matches else Hash_Mismatch), ab_unmatchable = ''!'', ab_needs_rehash = (\<lambda>h. Some False)\<rparr>"

definition demo_jo :: user where
  "demo_jo = \<lparr>us_username = ''jo'', us_password_hash = Some ''secret'', us_role = Operator, us_disabled = False, us_created_at = 0\<rparr>"

definition demo_token :: token where
  "demo_token = \<lparr>tk_id = ''t1'', tk_digest = ''apchi_x'', tk_owner = ''jo'', tk_name = ''ci'', tk_created_at = 0,
     tk_expires_at = None, tk_last_used_at = None, tk_revoked_at = None\<rparr>"

lemmas demo_auth_defs = demo_auth_def demo_jo_def demo_token_def new_install_def demo_settings_def

lemma demo_bearer: "bearer_secret \<lparr>rq_authorization = ''Bearer apchi_x'', rq_session = None, rq_login = None\<rparr> = Some ''apchi_x''"
  by code_simp


section \<open>A session\<close>

text \<open>The request a browser sends that carries the cookie.\<close>

definition carrying :: "cookie \<Rightarrow> request" where
  "carrying ck = \<lparr>rq_authorization = [], rq_session = Some (ck_value ck), rq_login = None\<rparr>"

lemma carrying_no_bearer [simp]: "from_bearer ab (carrying ck) = ret None" "rq_session (carrying ck) = Some (ck_value ck)"
  by (simp_all add: from_bearer_def bearer_secret_def carrying_def partition_at_def)

text \<open>The clock stands still: no tick is due.\<close>

lemma wp_now_stopped: "w_ticks w = [] \<Longrightarrow> wp now_io Q E w = Q (w_clock w) w"
  by (simp add: wp_def now_io_def Let_def)

lemma wp_token_urlsafe:
  "wp token_urlsafe Q E w = Q (w_random w (w_random_drawn w)) (w\<lparr>w_random_drawn := Suc (w_random_drawn w)\<rparr>)"
  by (simp add: wp_def token_urlsafe_def)

text \<open>What signing in leaves: the session of a browser's cookie, with the user it belongs to.\<close>

definition signed_in :: "auth_libs \<Rightarrow> settings \<Rightarrow> user \<Rightarrow> via \<Rightarrow> cookie \<Rightarrow> ('r, 'e) world \<Rightarrow> bool" where
  "signed_in ab s u v ck w \<longleftrightarrow> w_mongo w = [] \<and> w_ticks w = [] \<and> ck_value ck \<noteq> []
     \<and> map_of (w_sessions w) (ab_digest ab (ck_value ck)) = Some \<lparr>se_username = us_username u, se_via = v,
         se_expires_at = w_clock w + st_session_seconds s\<rparr>
     \<and> (\<exists>h. map_of (w_users w) (us_username u) = Some (u\<lparr>us_password_hash := h\<rparr>))"

lemma signed_in_caller:
  assumes "signed_in ab s u v ck w" and "st_auth_mode s \<noteq> No_Auth" and "\<not> us_disabled u" and "0 < st_session_seconds s"
  shows "caller ab s (carrying ck) w = (Inr (user_identity u v), w)"
proof -
  obtain place where "sign_in_at (st_auth_mode s) = Some place" using assms(2) by (cases "st_auth_mode s") auto
  then show ?thesis
    using assms by (intro wp_returns)
      (auto simp: caller_def from_session_def session_read_def user_get_def signed_in_def wp_now_stopped user_identity_def)
qed

lemma signed_out_caller:
  assumes "w_mongo w = []" and "st_auth_mode s \<noteq> No_Auth" and "map_of (w_sessions w) (ab_digest ab (ck_value ck)) = None"
  shows "fst (caller ab s (carrying ck) w) = Inl (sign_in_first (the (sign_in_at (st_auth_mode s))))"
proof -
  obtain place where p: "sign_in_at (st_auth_mode s) = Some place" using assms(2) by (cases "st_auth_mode s") auto
  have "caller ab s (carrying ck) w = (Inl (sign_in_first place), w)"
    using assms p by (intro wp_raises)
      (auto simp: caller_def from_session_def session_read_def)
  with p show ?thesis by simp
qed

text \<open>C29: Signing in with a password gives a session that is the user's until it is ended, and no longer: the cookie of a
  login admits exactly the user who signed in, and after a logout with it the same cookie is answered 401.\<close>

theorem session_lives_until_ended:
  assumes "w_mongo w = []" and "w_ticks w = []" and "st_auth_mode s = Password_Mode" and "0 < st_session_seconds s"
    and "map_of (w_users w) name = Some u" and "us_username u = name" and "\<not> us_disabled u"
    and "verify_password ab password (us_password_hash u)"
    and "\<And>n. w_random w n \<noteq> [] \<and> map_of (w_sessions w) (ab_digest ab (w_random w n)) = None"
  shows "wp (login ab s name password) (\<lambda>(i, ck) w'. i = user_identity u Via_Password
      \<and> caller ab s (carrying ck) w' = (Inr i, w')
      \<and> fst (caller ab s (carrying ck) (snd (logout ab s (carrying ck) w'))) = Inl (sign_in_first ''Sign in at POST /api/v1/auth/login''))
    (\<lambda>_ _. False) w"
proof -
  have ended: "fst (caller ab s (carrying ck) (snd (logout ab s (carrying ck) w'))) = Inl (sign_in_first ''Sign in at POST /api/v1/auth/login'')"
    if w': "signed_in ab s u Via_Password ck w'" for ck w'
  proof -
    have c: "caller ab s (carrying ck) w' = (Inr (user_identity u Via_Password), w')"
      by (rule signed_in_caller [OF w']) (use assms in simp_all)
    have "logout ab s (carrying ck) w' = (Inr (), w'\<lparr>w_sessions := AList.delete (ab_digest ab (ck_value ck)) (w_sessions w')\<rparr>)"
      by (rule wp_returns, unfold logout_def wp_then, unfold wp_def c)
        (use w' in \<open>auto simp: signed_in_def session_delete_def ret_def mongo_def external_def modify_io_def\<close>)
    then show ?thesis
      using signed_out_caller [of "snd (logout ab s (carrying ck) w')" s ab ck] w' assms(3)
      by (simp add: signed_in_def)
  qed
  have fresh: "\<not> has_key (w_sessions w) (ab_digest ab (w_random w n))" for n
    using assms(9) map_of_None_iff by blast
  have opened: "wp (session_create ab (us_username u) Via_Password (st_session_seconds s))
      (\<lambda>v w'. signed_in ab s u Via_Password (set_cookie s SESSION_COOKIE v (st_session_seconds s)) w') (\<lambda>_ _. False) w1"
    if "w_mongo w1 = []" "w_ticks w1 = []" "w_sessions w1 = w_sessions w" "w_random w1 = w_random w"
      "\<exists>h. map_of (w_users w1) (us_username u) = Some (u\<lparr>us_password_hash := h\<rparr>)" for w1
    using that assms(6,9) fresh
    by (simp add: session_create_def insert_row_def wp_token_urlsafe wp_now_stopped signed_in_def set_cookie_def)
  have same: "\<exists>h. u = u\<lparr>us_password_hash := h\<rparr>" by (rule exI [of _ "us_password_hash u"]) simp
  have rehashed: "wp (rehash ab u password) (\<lambda>_. wp (session_create ab (us_username u) Via_Password (st_session_seconds s))
      (\<lambda>v w'. signed_in ab s u Via_Password (set_cookie s SESSION_COOKIE v (st_session_seconds s)) w') (\<lambda>_ _. False)) (\<lambda>_ _. False) w"
    using assms(1,2,5,6)
    by (auto simp: rehash_def hash_password_def restore_hash_def wp_token_urlsafe edit_user_def update_conv'
        intro!: opened same split: option.split)
  show ?thesis
    unfolding login_def authenticate_def user_get_def using assms(1,3,5-8)
    by (auto simp: ended signed_in_caller assms intro!: wp_mono [OF rehashed] elim!: wp_mono)
qed

theorem session_lives_until_ended_witness:
  "let w = (new_install ())\<lparr>w_users := [(''jo'', demo_jo)]\<rparr>; s = demo_settings\<lparr>st_auth_mode := Password_Mode\<rparr> in
   wp (login demo_auth s ''jo'' ''secret'') (\<lambda>(i, ck) w'. i = user_identity demo_jo Via_Password
      \<and> caller demo_auth s (carrying ck) w' = (Inr i, w')
      \<and> fst (caller demo_auth s (carrying ck) (snd (logout demo_auth s (carrying ck) w')))
          = Inl (sign_in_first ''Sign in at POST /api/v1/auth/login''))
    (\<lambda>_ _. False) w"
  unfolding Let_def
  by (rule session_lives_until_ended) (simp_all add: demo_auth_defs verify_password_def)

end
