(* ===== verification/Sso_Correct.thy ===== *)
theory Sso_Correct
  imports Sessions_Correct
begin

text \<open>
  An attempt to sign in at the identity provider lives until its first callback, and it signs in only
  the person named by an ID token that was verified, in the browser that began the attempt.
\<close>

section \<open>Talking to the provider\<close>

text \<open>Talking to the provider moves no user, session or attempt.\<close>

definition aside :: "('r, 'e) world \<Rightarrow> ('r, 'e) world \<Rightarrow> bool" where
  "aside w w' \<longleftrightarrow> w_users w' = w_users w \<and> w_sessions w' = w_sessions w
     \<and> w_logins w' = w_logins w \<and> (w_mongo w = [] \<longrightarrow> w_mongo w' = [])"

interpretation provider: step_order aside
  by unfold_locales (auto simp: aside_def)

named_theorems aside_intros

lemma aside_calls [aside_intros]:
  assumes "within aside m" shows "within aside (mongo m)"
proof -
  have "aside w (snd (m w))" for w using withinD [OF assms] .
  then show ?thesis
    by (fastforce simp: within_def mongo_def external_def aside_def split: list.split fault.split)
qed

lemma aside_moves [aside_intros]:
  "within aside now_io" "within aside (send rq)"
  "within aside (lift_error r)" "within aside (modify_io (w_discovered_update g))"
  "within aside (modify_io (w_jwks_update k))" "within aside (asks f)"
  by (auto simp: within_def aside_def now_io_def send_def lift_error_def modify_io_def asks_def
      raise_io_def ret_def Let_def split: list.split sum.split)

lemma aside_json [aside_intros]: "within aside (json_of rq what)"
  by (auto simp: json_of_def intro!: aside_intros split: http_answer.split json.split)

lemma aside_required [aside_intros]: "within aside (required name v)" "within aside (field_text jo url fs k)"
  by (auto simp: required_def split: option.split)

lemma aside_discovered [aside_intros]: "within aside (discovered_provider jo s)"
  by (auto simp: discovered_provider_def discover_provider_def issuer_of_def Let_def intro!: aside_intros split: option.split)

lemma aside_keys [aside_intros]: "within aside (key_set jo s refresh)"
  by (auto simp: key_set_def fetch_keys_def intro!: aside_intros split: option.split json.split)

lemma aside_provider [aside_intros]: "within aside (provider_says jo s code lg)"
  by (auto simp: provider_says_def exchange_def id_claims_def decoded_def retry_after_rotation_def client_id_of_def
      redirect_url_of_def Let_def intro!: aside_intros split: option.split json.split)

section \<open>An attempt to sign in at the provider\<close>

text \<open>What follows the taking of an attempt: it touches no attempt.\<close>

definition attempts_kept :: "('r, 'e) world \<Rightarrow> ('r, 'e) world \<Rightarrow> bool" where
  "attempts_kept w w' \<longleftrightarrow> w_logins w' = w_logins w \<and> (w_mongo w = [] \<longrightarrow> w_mongo w' = [])"

interpretation attempts: step_order attempts_kept
  by unfold_locales (auto simp: attempts_kept_def)

named_theorems attempt_intros

lemma attempts_calls [attempt_intros]:
  assumes "within attempts_kept m" shows "within attempts_kept (mongo m)"
proof -
  have "attempts_kept w (snd (m w))" for w using withinD [OF assms] .
  then show ?thesis
    by (fastforce simp: within_def mongo_def external_def attempts_kept_def split: list.split fault.split)
qed

lemma attempts_aside: "within aside m \<Longrightarrow> within attempts_kept m"
  by (auto simp: within_def aside_def attempts_kept_def)

lemmas attempts_provider [attempt_intros] = attempts_aside [OF aside_provider]

lemma attempts_moves [attempt_intros]: "within attempts_kept now_io" "within attempts_kept token_urlsafe"
  by (auto simp: within_def attempts_kept_def now_io_def token_urlsafe_def Let_def split: list.split)

lemma attempts_update: "(\<And>w w'. f w = Inr w' \<Longrightarrow> attempts_kept w w') \<Longrightarrow> within attempts_kept (update_io f)"
  by (auto simp: within_def update_io_def attempts.step_refl split: sum.split)

lemma attempts_pair: "(\<And>w. attempts_kept w (f w)) \<Longrightarrow> within attempts_kept (\<lambda>w. (g w, f w))"
  by (simp add: within_def)

lemma attempts_user [attempt_intros]:
  "within attempts_kept (mirror name r)" "within attempts_kept (session_create ab name v ttl)"
  by (auto simp: mirror_def session_create_def insert_row_def Let_def attempts_kept_def
      intro!: attempt_intros attempts_update attempts_pair split: if_splits)

text \<open>C30: An attempt to sign in at the identity provider is spent by its first callback, however that ends: once a
  callback with its cookie has been answered, every further callback with the cookie, whatever code and state it
  carries, is refused.\<close>

theorem callback_spends_attempt:
  fixes w :: "('r, 'e) world"
  assumes "w_mongo w = []" and "st_auth_mode s = Sso_Mode" and "rq_login later = rq_login rq"
  shows "fst (sso_callback jo ab s later cb' (snd (sso_callback jo ab s rq cb w))) = Inl SSO_REFUSED"
proof -
  define h where "h = (case rq_login rq of None \<Rightarrow> [] | Some h \<Rightarrow> h)"
  let ?spent = "\<lambda>w'. w_mongo w' = [] \<and> map_of (w_logins w') (ab_digest ab h) = None"
  have taken: "wp (login_take ab h) (\<lambda>_. ?spent) (\<lambda>_ _. False) w"
    using assms(1) by (auto simp: login_take_def wp_step wp_def [of now_io] now_io_def Let_def split: option.split list.split)
  have keep: "wp m (\<lambda>_. ?spent) (\<lambda>_. ?spent) w'" if "within attempts_kept m" "?spent w'" for w' and m :: "('r, 'e, identity \<times> cookie) act"
    by (rule wp_within [OF that(1)]) (use that(2) in \<open>auto simp: attempts_kept_def\<close>)
  have "wp (sso_callback jo ab s rq cb) (\<lambda>_. ?spent) (\<lambda>_. ?spent) w"
    unfolding sso_callback_def h_def [symmetric] sso_only_def wp_then assms(2) simp_thms if_True wp_ret wp_bind
    by (rule wp_mono [OF taken], rule keep) (auto intro!: attempt_intros split: option.split)
  then have spent: "?spent (snd (sso_callback jo ab s rq cb w))" by (simp add: wp_world)
  have "sso_callback jo ab s later cb' w' = (Inl SSO_REFUSED, w'\<lparr>w_logins := AList.delete (ab_digest ab h) (w_logins w')\<rparr>)"
    if "?spent w'" for w' :: "('r, 'e) world"
    unfolding sso_callback_def assms(3) h_def [symmetric]
    by (rule wp_raises) (use that assms(2) in \<open>auto simp: sso_only_def login_take_def wp_step\<close>)
  from this [OF spent] show ?thesis by simp
qed

text \<open>A library that verifies every text as the claims of \<open>jo\<close>.\<close>

definition demo_jose :: jose where
  "demo_jose = \<lparr>jo_str = (\<lambda>_. []), jo_import = (\<lambda>_. True),
     jo_decode = (\<lambda>_ _ _. Some [(''preferred_username'', JStr ''jo''), (''nonce'', JStr ''n'')]), jo_valid = (\<lambda>_ _ _ _. True)\<rparr>"

theorem callback_spends_attempt_witness:
  "let w = (new_install ())\<lparr>w_logins := [(''h'', \<lparr>lg_state = ''s'', lg_nonce = ''n'', lg_code_verifier = ''v'', lg_expires_at = 9\<rparr>)]\<rparr>;
       s = demo_settings\<lparr>st_auth_mode := Sso_Mode\<rparr>;
       rq = \<lparr>rq_authorization = [], rq_session = None, rq_login = Some ''h''\<rparr>;
       cb = \<lparr>cb_code = Some ''c'', cb_state = Some ''s'', cb_error = None\<rparr> in
   fst (sso_callback demo_jose demo_auth s rq cb (snd (sso_callback demo_jose demo_auth s rq cb w))) = Inl SSO_REFUSED"
  unfolding Let_def by (rule callback_spends_attempt) (simp_all add: demo_auth_defs)

section \<open>A verified token\<close>

text \<open>The provider's token \<open>fs\<close> was accepted for the attempt \<open>lg\<close>: its signature under the keys that
  were fetched from the issuer, its claims at some time of the request, and the nonce of this attempt.\<close>

definition verified :: "jose \<Rightarrow> settings \<Rightarrow> pending_login \<Rightarrow> json dict \<Rightarrow> ('r, 'e) world \<Rightarrow> bool" where
  "verified jo s lg fs w \<longleftrightarrow> (\<exists>d keys t client now. w_discovered w = Some d \<and> w_jwks w = Some keys
     \<and> jo_decode jo t keys (sorted_set (dc_algorithms d)) = Some fs
     \<and> st_oidc_client_id s = Some client \<and> jo_valid jo (dc_issuer d) client now fs
     \<and> nonce_in jo fs = lg_nonce lg)"

lemma wp_modify_fun: "wp (modify_io f) Q E = (\<lambda>w. Q () (f w))"
  by (rule ext) simp

lemma wp_discovered:
  assumes "\<And>d w'. w_discovered w' = Some d \<Longrightarrow> Q d w'" and "\<And>e w'. E e w'"
  shows "wp (discovered_provider jo s) Q E w"
proof (cases "w_discovered w")
  case None
  then have "wp (discovered_provider jo s) Q E w
      = wp (discover_provider jo s) (\<lambda>d w'. Q d (w'\<lparr>w_discovered := Some d\<rparr>)) E w"
    by (simp add: discovered_provider_def wp_modify_fun)
  also have \<dots> by (rule wp_ignore) (simp_all add: assms)
  finally show ?thesis by simp
qed (simp add: discovered_provider_def assms(1))

lemma wp_discovered_known: "w_discovered w = Some d \<Longrightarrow> wp (discovered_provider jo s) Q E w = Q d w"
  by (simp add: discovered_provider_def)

lemma wp_json:
  assumes "\<And>fs w'. w_discovered w' = w_discovered w \<Longrightarrow> Q fs w'" and "\<And>e w'. E e w'"
  shows "wp (json_of rq what) Q E w"
  using assms by (auto simp: json_of_def send_def wp_def bind_io_def ret_def raise_io_def
      split: list.split http_answer.split json.split)

lemma wp_keys:
  assumes "w_discovered w = Some d"
    and "\<And>keys w'. w_jwks w' = Some keys \<Longrightarrow> w_discovered w' = Some d \<Longrightarrow> Q keys w'" and "\<And>e w'. E e w'"
  shows "wp (key_set jo s refresh) Q E w"
proof -
  have "wp (fetch_keys jo s) Q E w"
    unfolding fetch_keys_def wp_bind wp_discovered_known [OF assms(1)]
    by (rule wp_json) (use assms in \<open>auto split: option.split json.split\<close>)
  then show ?thesis using assms by (auto simp: key_set_def split: option.split)
qed

lemma wp_decoded:
  assumes "w_discovered w = Some d"
    and "\<And>fs keys w'. w_jwks w' = Some keys \<Longrightarrow> w_discovered w' = Some d \<Longrightarrow> jo_decode jo t keys algs = Some fs \<Longrightarrow> Q fs w'"
    and "\<And>e w'. E e w'"
  shows "wp (decoded jo s t algs) Q E w"
  unfolding decoded_def retry_after_rotation_def
  by (simp, rule wp_keys [OF assms(1)])
    (auto simp: assms(3) intro!: assms(2) wp_keys split: option.split)

lemma wp_now_provider:
  assumes "\<And>now w'. w_discovered w' = w_discovered w \<Longrightarrow> w_jwks w' = w_jwks w \<Longrightarrow> Q now w'"
  shows "wp now_io Q E w"
  using assms by (auto simp: wp_def now_io_def Let_def split: list.split)

lemma verifiedI:
  "w_discovered w = Some d \<Longrightarrow> w_jwks w = Some keys \<Longrightarrow> jo_decode jo t keys (sorted_set (dc_algorithms d)) = Some fs \<Longrightarrow>
     st_oidc_client_id s = Some client \<Longrightarrow> jo_valid jo (dc_issuer d) client now fs \<Longrightarrow> nonce_in jo fs = lg_nonce lg \<Longrightarrow>
     verified jo s lg fs w"
  unfolding verified_def by blast

lemma wp_claims:
  fixes w :: "('r, 'e) world"
  assumes "\<And>fs w'. verified jo s lg fs w' \<Longrightarrow> Q fs w'" and "\<And>e w'. E e w'"
  shows "wp (id_claims jo s t (lg_nonce lg)) Q E w"
  unfolding id_claims_def client_id_of_def required_def wp_bind
  by (intro wp_discovered wp_decoded)
    (auto simp: assms(2) intro!: assms(1) wp_now_provider intro: verifiedI split: option.split)

text \<open>The identity of a callback that succeeded: the person of a verified token, by the attempt of this browser.\<close>

definition handle_of :: "request \<Rightarrow> string" where
  "handle_of rq = (case rq_login rq of None \<Rightarrow> [] | Some h \<Rightarrow> h)"

definition named_by :: "jose \<Rightarrow> settings \<Rightarrow> pending_login \<Rightarrow> string \<Rightarrow> role \<Rightarrow> ('r, 'e) world \<Rightarrow> bool" where
  "named_by jo s lg name r w \<longleftrightarrow> (\<exists>fs. verified jo s lg fs w \<and> username_in s fs = Inr name \<and> r = role_in s fs)"

definition signed_by_provider ::
  "jose \<Rightarrow> auth_libs \<Rightarrow> settings \<Rightarrow> request \<Rightarrow> callback \<Rightarrow> ('r, 'e) world \<Rightarrow> identity \<Rightarrow> ('r, 'e) world \<Rightarrow> bool" where
  "signed_by_provider jo ab s rq cb w i w' \<longleftrightarrow> (\<exists>lg u. map_of (w_logins w) (ab_digest ab (handle_of rq)) = Some lg
     \<and> cb_state cb = Some (lg_state lg) \<and> \<not> provided (cb_error cb)
     \<and> named_by jo s lg (id_subject i) (id_role i) w' \<and> id_via i = Via_Sso
     \<and> map_of (w_users w') (id_subject i) = Some u \<and> \<not> us_disabled u)"

lemma wp_provider_says:
  "wp (provider_says jo s code lg) (\<lambda>(name, r) w'. named_by jo s lg name r w' \<and> aside w w') (\<lambda>_ w'. aside w w') w"
proof -
  have "wp (provider_says jo s code lg) (\<lambda>(name, r). named_by jo s lg name r) (\<lambda>_ _. True) w"
    unfolding provider_says_def wp_bind
    by (rule wp_ignore [THEN wp_mono], rule TrueI, rule TrueI) (auto intro!: wp_claims simp: named_by_def split: sum.split)
  moreover have "wp (provider_says jo s code lg) (\<lambda>_. aside w) (\<lambda>_. aside w) w"
    by (rule wp_within [OF aside_provider]) auto
  ultimately show ?thesis by (auto simp: wp_result)
qed

text \<open>The users are stored under their names.\<close>

definition users_keyed :: "user dict \<Rightarrow> bool" where
  "users_keyed us \<longleftrightarrow> list_all (\<lambda>(name, u). us_username u = name) us"

lemma mirrored_name: "users_keyed us \<Longrightarrow> us_username (mirrored name r now us) = name"
  by (auto simp: mirrored_def new_user_def users_keyed_def list_all_iff dest!: map_of_SomeD split: option.split)

lemma mirrored_role: "us_role (mirrored name r now us) = r"
  by (simp add: mirrored_def new_user_def split: option.split)

text \<open>What is left for the provider's person: a row, and a session if the row is enabled.\<close>

definition provider_kept :: "('r, 'e) world \<Rightarrow> ('r, 'e) world \<Rightarrow> bool" where
  "provider_kept w w' \<longleftrightarrow> w_discovered w' = w_discovered w \<and> w_jwks w' = w_jwks w"

lemma named_by_kept: "provider_kept w w' \<Longrightarrow> named_by jo s lg name r w' = named_by jo s lg name r w"
  by (simp add: provider_kept_def named_by_def verified_def)

lemma wp_mirror:
  assumes "w_mongo w = []" and "users_keyed (w_users w)"
    and "\<And>u w'. us_username u = name \<Longrightarrow> us_role u = r \<Longrightarrow> map_of (w_users w') name = Some u \<Longrightarrow> w_mongo w' = [] \<Longrightarrow>
      provider_kept w w' \<Longrightarrow> w_sessions w' = w_sessions w \<Longrightarrow> Q (if us_disabled u then None else Some u) w'"
  shows "wp (mirror name r) Q E w"
proof -
  have "wp now_io (\<lambda>now w'. w_mongo w' = [] \<and> users_keyed (w_users w') \<and> provider_kept w w' \<and> w_sessions w' = w_sessions w) E w"
    using assms(1,2) by (auto simp: wp_def now_io_def Let_def provider_kept_def split: list.split)
  then show ?thesis
    unfolding mirror_def wp_bind
    by (rule wp_mono) (use assms(3) in \<open>auto simp: Let_def wp_step mirrored_name mirrored_role provider_kept_def update_conv'\<close>)
qed

lemma wp_session_kept:
  assumes "w_mongo w = []"
    and "\<And>v w'. w_users w' = w_users w \<Longrightarrow> provider_kept w w' \<Longrightarrow> Q v w'" and "\<And>e w'. w_sessions w' = w_sessions w \<Longrightarrow> E e w'"
  shows "wp (session_create ab name v ttl) Q E w"
proof -
  have "wp now_io (\<lambda>now w'. w_mongo w' = [] \<and> w_users w' = w_users w \<and> provider_kept w w' \<and> w_sessions w' = w_sessions w) E
      (w\<lparr>w_random_drawn := Suc (w_random_drawn w)\<rparr>)"
    using assms(1) by (auto simp: wp_def now_io_def Let_def provider_kept_def split: list.split)
  then show ?thesis
    unfolding session_create_def wp_bind wp_token_urlsafe
    by (rule wp_mono) (use assms(2,3) in \<open>auto simp: insert_row_def provider_kept_def\<close>)
qed

text \<open>C6: Signing in at the identity provider admits only the person the provider vouched for, in the browser that asked:
  a callback that succeeds carries the state of the pending attempt its cookie names, its token was verified under the
  keys of the discovered provider with the attempt's own nonce, the identity's name and role are those of its claims,
  and that user exists and is enabled. A callback that is refused opens no session.\<close>

theorem sso_admits_only_verified:
  fixes w :: "('r, 'e) world"
  assumes "w_mongo w = []" and "users_keyed (w_users w)"
  shows "wp (sso_callback jo ab s rq cb) (\<lambda>(i, ck) w'. signed_by_provider jo ab s rq cb w i w')
    (\<lambda>_ w'. w_sessions w' = w_sessions w) w"
proof -
  let ?h = "handle_of rq"
  let ?admit = "\<lambda>name r. bind_io (mirror name r) (\<lambda>u. case u of None \<Rightarrow> raise_io SSO_REFUSED
    | Some u \<Rightarrow> bind_io (session_create ab (us_username u) Via_Sso (st_session_seconds s)) (\<lambda>v.
        ret (user_identity u Via_Sso, set_cookie s SESSION_COOKIE v (st_session_seconds s))))"
  define told where "told = (\<lambda>lg (w' :: ('r, 'e) world). w_mongo w' = [] \<and> users_keyed (w_users w') \<and> w_sessions w' = w_sessions w
    \<and> map_of (w_logins w) (ab_digest ab ?h) = Some lg)"
  have taken: "wp (login_take ab ?h) (\<lambda>t w'. w_sessions w' = w_sessions w \<and> (\<forall>lg. t = Some lg \<longrightarrow> told lg w')) (\<lambda>_ _. False) w"
    using assms by (auto simp: login_take_def told_def wp_step wp_def [of now_io] now_io_def Let_def split: option.split list.split)
  have person: "wp (?admit name r) (\<lambda>(i, ck) w'. signed_by_provider jo ab s rq cb w i w') (\<lambda>_ w'. w_sessions w' = w_sessions w) w2"
    if "told lg w2" "named_by jo s lg name r w2" "cb_state cb = Some (lg_state lg)" "\<not> provided (cb_error cb)" for lg name r w2
    unfolding wp_bind
    by (rule wp_mirror)
      (use that in \<open>auto simp: told_def signed_by_provider_def user_identity_def named_by_kept intro!: wp_session_kept\<close>)
  have asked: "wp (try_io is_oidc_error (provider_says jo s code lg) (\<lambda>_. raise_io SSO_REFUSED))
      (\<lambda>(name, r) w'. told lg w' \<and> named_by jo s lg name r w') (\<lambda>_ w'. w_sessions w' = w_sessions w) w1" if "told lg w1" for lg code w1
    unfolding wp_try
    by (rule wp_mono [OF wp_provider_says]) (use that in \<open>auto simp: told_def aside_def\<close>)
  have answered: "wp (bind_io (try_io is_oidc_error (provider_says jo s code lg) (\<lambda>_. raise_io SSO_REFUSED)) (\<lambda>(name, r). ?admit name r))
      (\<lambda>(i, ck) w'. signed_by_provider jo ab s rq cb w i w') (\<lambda>_ w'. w_sessions w' = w_sessions w) w1"
    if "told lg w1" "cb_state cb = Some (lg_state lg)" "\<not> provided (cb_error cb)" for lg code w1
    by (subst wp_bind, rule wp_mono [OF asked]) (auto intro!: person that simp del: wp_bind)
  show ?thesis
    unfolding sso_callback_def handle_of_def [symmetric] sso_only_def wp_then wp_if wp_ret wp_raise wp_bind [of "login_take ab ?h"]
    by (auto intro!: wp_mono [OF taken] answered simp del: wp_bind split: option.split)
qed

theorem sso_admits_only_verified_witness:
  "let w = (new_install ())\<lparr>w_logins := [(''h'', \<lparr>lg_state = ''s'', lg_nonce = ''n'', lg_code_verifier = ''v'', lg_expires_at = 9\<rparr>)],
         w_users := [(''jo'', demo_jo)]\<rparr>;
       s = demo_settings\<lparr>st_auth_mode := Sso_Mode\<rparr>;
       rq = \<lparr>rq_authorization = [], rq_session = None, rq_login = Some ''h''\<rparr>;
       cb = \<lparr>cb_code = Some ''c'', cb_state = Some ''s'', cb_error = None\<rparr> in
   wp (sso_callback demo_jose demo_auth s rq cb) (\<lambda>(i, ck) w'. signed_by_provider demo_jose demo_auth s rq cb w i w')
    (\<lambda>_ w'. w_sessions w' = w_sessions w) w"
  unfolding Let_def by (rule sso_admits_only_verified) (simp_all add: demo_auth_defs users_keyed_def)

end
