(* ===== verification/Section_Api_Correct.thy ===== *)
theory Section_Api_Correct
  imports Section_Api Staging_Correct Sso_Correct
begin

text \<open>
  What an edit of a Section does to the shared Candidate, alone and against another edit, and which
  gates it passed.
\<close>

section \<open>The gates keep everything staged\<close>

definition gate_kept :: "('r, 'e) world \<Rightarrow> ('r, 'e) world \<Rightarrow> bool" where
  "gate_kept w w' \<longleftrightarrow> w_candidate w' = w_candidate w \<and> w_applies w' = w_applies w \<and> w_maintenance w' = w_maintenance w
     \<and> w_snapshots w' = w_snapshots w \<and> w_secrets w' = w_secrets w \<and> w_live w' = w_live w
     \<and> w_audit w' = w_audit w \<and> (w_mongo w = [] \<longrightarrow> w_mongo w' = [])"

interpretation gate: step_order gate_kept
  by unfold_locales (auto simp: gate_kept_def)

named_theorems gate_intros

lemma gate_calls [gate_intros]:
  assumes "within gate_kept m" shows "within gate_kept (mongo m)"
proof -
  have "gate_kept w (snd (m w))" for w using withinD [OF assms] .
  then show ?thesis
    by (fastforce simp: within_def mongo_def external_def gate_kept_def split: list.split fault.split)
qed

lemma gate_moves [gate_intros]:
  "within gate_kept now_io" "within gate_kept (modify_io (w_tokens_update f))" "within gate_kept (modify_io (w_actor_update g))"
  by (auto simp: within_def gate_kept_def now_io_def modify_io_def Let_def split: list.split)

lemma gate_caller [gate_intros]: "within gate_kept (caller ab s rq)"
  by (auto simp: caller_defs auth_store_defs intro!: gate_intros split: option.split)

lemma gate_authenticated: "within gate_kept (authenticated ab s rq)"
  by (auto simp: authenticated_def acting_as_def intro!: gate_intros)


section \<open>The trail of an edit\<close>

text \<open>Who did what to which resource, as an event records it.\<close>

definition deed :: "audit_event \<Rightarrow> string \<times> category \<times> string option \<times> action \<times> outcome" where
  "deed e = (au_actor e, au_category e, au_resource e, au_action e, au_outcome e)"

definition deed_of :: "identity \<Rightarrow> change \<Rightarrow> string \<times> category \<times> string option \<times> action \<times> outcome" where
  "deed_of who ch = (id_subject who, ch_category ch, Some (ch_resource ch), ch_action ch, Succeeded)"

definition logged :: "(string \<times> category \<times> string option \<times> action \<times> outcome) list \<Rightarrow> ('r, 'e) world \<Rightarrow> ('r, 'e) world \<Rightarrow> bool" where
  "logged ds w w' \<longleftrightarrow> (\<exists>evs. w_audit w' = w_audit w @ evs \<and> map deed evs = ds)"

lemma deed_event [simp]:
  "deed (event_of who ident now aid (mk_entry c a r)) = (id_subject who, c, r, a, Succeeded)"
  by (simp add: deed_def event_of_def mk_entry_def)

definition books_kept :: "('r, 'e) world \<Rightarrow> ('r, 'e) world \<Rightarrow> bool" where
  "books_kept w w' \<longleftrightarrow> w_audit w' = w_audit w \<and> w_candidate w' = w_candidate w \<and> w_actor w' = w_actor w \<and> (w_mongo w = [] \<longrightarrow> w_mongo w' = [])"

interpretation books: step_order books_kept
  by unfold_locales (auto simp: books_kept_def)

named_theorems books_intros

lemma books_calls [books_intros]:
  assumes "within books_kept m" shows "within books_kept (mongo m)"
proof -
  have "books_kept w (snd (m w))" for w using withinD [OF assms] .
  then show ?thesis
    by (fastforce simp: within_def mongo_def external_def books_kept_def split: list.split fault.split)
qed

lemma books_moves [books_intros]:
  "within books_kept now_io" "within books_kept uuid_hex" "within books_kept (modify_io (w_audit_indexed_update f))"
  by (auto simp: within_def books_kept_def now_io_def uuid_hex_def modify_io_def Let_def split: list.split)

lemma books_index [books_intros]: "within books_kept (indexed_once s)"
  by (auto simp: indexed_once_def ensure_indexes_def intro!: books_intros)

lemma books_draws [books_intros]: "within books_kept (collect_io (\<lambda>_. uuid_hex) xs)"
  by (auto intro!: books_intros)

lemma wp_draws_length:
  "wp (collect_io (\<lambda>_. uuid_hex) xs) (\<lambda>ys _. length ys = length xs) (\<lambda>_ _. False) w"
proof (induction xs arbitrary: w)
  case (Cons x xs)
  then show ?case by (simp add: wp_uuid_hex)
qed simp

text \<open>A step that only books and returns.\<close>

lemma wp_books:
  assumes "within books_kept m" and "wp m P (\<lambda>_ _. False) w" and "\<And>a w'. books_kept w w' \<Longrightarrow> P a w' \<Longrightarrow> Q a w'"
  shows "wp m Q E w"
  by (rule wp_mono [OF wp_within_and [OF assms(1,2)]]) (use assms(3) in auto)

lemma wp_books_now:
  assumes "\<And>a w'. books_kept w w' \<Longrightarrow> Q a w'" shows "wp now_io Q E w"
  by (rule wp_books [where P = "\<lambda>_ _. True", OF books_moves(1)]) (simp_all add: wp_def now_io_def Let_def assms)

lemma wp_books_index:
  assumes "w_mongo w = []" and "\<And>a w'. books_kept w w' \<Longrightarrow> Q a w'" shows "wp (indexed_once s) Q E w"
  by (rule wp_books [where P = "\<lambda>_ _. True", OF books_index])
    (simp_all add: assms indexed_once_def ensure_indexes_def)

lemma wp_logged_each:
  fixes w :: "('r, 'e) world"
  assumes "w_mongo w = []"
  shows "wp (audit_record_each s who None (map (\<lambda>ch. mk_entry (ch_category ch) (ch_action ch) (Some (ch_resource ch))) chs))
    (\<lambda>_. logged (map (deed_of who) chs) w) (\<lambda>_ _. False) w"
proof (cases "chs = []")
  case True
  then show ?thesis by (simp add: audit_record_each_def logged_def)
next
  case False
  let ?ens = "map (\<lambda>ch. mk_entry (ch_category ch) (ch_action ch) (Some (ch_resource ch))) chs"
  have deeds: "map deed (map2 (\<lambda>ident. event_of who ident now None) idents ?ens) = map (deed_of who) chs"
    if "length idents = length chs" for idents now
    using that by (induction idents chs rule: list_induct2) (simp_all add: deed_of_def)
  have noted: "wp (collect_io (\<lambda>_. uuid_hex) ?ens) (\<lambda>idents. wp (mongo (modify_io (w_audit_update (\<lambda>db.
      db @ map2 (\<lambda>ident. event_of who ident now None) idents ?ens))))
        (\<lambda>_. logged (map (deed_of who) chs) w) (\<lambda>_ _. False)) (\<lambda>_ _. False) w2" if "books_kept w w2" for now w2
    by (rule wp_books [OF books_draws wp_draws_length], insert that assms)
      (auto simp: books_kept_def logged_def deeds simp del: map_map)
  show ?thesis
    using False unfolding audit_record_each_def
    by (simp, intro wp_books_now wp_books_index)
      (use assms in \<open>auto simp: books_kept_def intro!: noted\<close>)
qed


text \<open>The changes a save of \<open>c\<close> records, and their record.\<close>

definition saving :: "resource candidate \<Rightarrow> (resource, 'e) world \<Rightarrow> change list" where
  "saving c w = changes_between (sections_of_document (w_candidate w)) (ca_sections c)"

text \<open>The Candidate has room, whenever it is saved.\<close>

definition has_room :: "settings \<Rightarrow> resource bson \<Rightarrow> resource candidate \<Rightarrow> bool" where
  "has_room s b c \<longleftrightarrow> (\<forall>now. encoded_size b (c\<lparr>ca_updated_at := Some now\<rparr>) \<le> st_candidate_max_bytes s)"

lemma wp_save_logged:
  fixes w :: "(resource, 'e) world"
  assumes "w_mongo w = []"
  shows "wp (candidate_save s b c None None None) (\<lambda>_. logged (map (deed_of (actor (w_actor w))) (saving c w)) w)
    (\<lambda>_ w'. w_audit w' = w_audit w \<and> \<not> has_room s b c) w"
proof -
  let ?c = "\<lambda>now. c\<lparr>ca_updated_at := Some now\<rparr>"
  have stored: "wp (candidate_record s (sections_of_document (w_candidate w)) (ca_sections (?c now)) None None None)
      (\<lambda>_. wp (ret (?c now)) (\<lambda>_. logged (map (deed_of (actor (w_actor w))) (saving c w)) w) (\<lambda>_ w'. w_audit w' = w_audit w \<and> \<not> has_room s b c))
      (\<lambda>_ w'. w_audit w' = w_audit w \<and> \<not> has_room s b c) (w1\<lparr>w_candidate := Some (?c now)\<rparr>)" if "books_kept w w1" for now w1
    unfolding candidate_record_def actor_io_def wp_bind wp_asks option.case prod.case
    by (rule wp_mono [OF wp_logged_each]) (use that assms in \<open>auto simp: books_kept_def logged_def saving_def\<close>)
  show ?thesis
    unfolding candidate_save_def wp_bind Let_def wp_then
  proof (rule wp_books_now)
    fix now and w1 :: "(resource, 'e) world"
    assume w1: "books_kept w w1"
    show "wp (refuse_if_too_large b (st_candidate_max_bytes s) (?c now))
      (\<lambda>_. wp (mongo (\<lambda>w. (Inr (w_candidate w), w\<lparr>w_candidate := Some (?c now)\<rparr>)))
        (\<lambda>previous. wp (candidate_record s (sections_of_document previous) (ca_sections (?c now)) None None None)
          (\<lambda>_. wp (ret (?c now)) (\<lambda>_. logged (map (deed_of (actor (w_actor w))) (saving c w)) w) (\<lambda>_ w'. w_audit w' = w_audit w \<and> \<not> has_room s b c))
          (\<lambda>_ w'. w_audit w' = w_audit w \<and> \<not> has_room s b c)) (\<lambda>_ w'. w_audit w' = w_audit w \<and> \<not> has_room s b c)) (\<lambda>_ w'. w_audit w' = w_audit w \<and> \<not> has_room s b c) w1"
      using stored [OF w1] w1 assms unfolding refuse_if_too_large_def
      by (auto simp: books_kept_def has_room_def) (simp_all add: wp_def)
  qed
qed


section \<open>An edit\<close>

text \<open>The edit is staged, and the trail says who moved which resource how.\<close>

definition landed :: "identity \<Rightarrow> 'a kind \<Rightarrow> 'a resources \<Rightarrow> resource candidate \<Rightarrow>
    (resource, 'e) world \<Rightarrow> (resource, 'e) world \<Rightarrow> bool" where
  "landed who k rs c w w' \<longleftrightarrow> (\<exists>now. w_candidate w' = Some ((with_resources k rs c)\<lparr>ca_updated_at := Some now\<rparr>))
     \<and> logged (map (deed_of who) (saving (with_resources k rs c) w)) w w'"

text \<open>The Section's operation refuses, or its result has no room.\<close>

definition refuses :: "settings \<Rightarrow> resource bson \<Rightarrow> 'a kind \<Rightarrow> 'a edit \<Rightarrow> resource candidate \<Rightarrow> bool" where
  "refuses s b k edit c \<longleftrightarrow> (case edit (resources_in k c) of Inl _ \<Rightarrow> True | Inr rs \<Rightarrow> \<not> has_room s b (with_resources k rs c))"

definition unmoved :: "('r, 'e) world \<Rightarrow> ('r, 'e) world \<Rightarrow> bool" where
  "unmoved w w' \<longleftrightarrow> w_candidate w' = w_candidate w \<and> w_audit w' = w_audit w"

lemma booked_candidate: "booked (w\<lparr>w_candidate := x\<rparr>) db w' \<Longrightarrow> w_candidate w' = x \<and> w_mongo w' = []"
  by (frule bookedD(3), drule outside_fields(3)) (simp add: bookedD(1))

lemma wp_save_plain:
  fixes w :: "(resource, 'e) world"
  assumes "w_mongo w = []"
  shows "wp (candidate_save s b (with_resources k rs c) None None None)
    (\<lambda>_ w'. landed (actor (w_actor w)) k rs c w w' \<and> w_mongo w' = [])
    (\<lambda>_ w'. unmoved w w' \<and> \<not> has_room s b (with_resources k rs c)) w"
proof -
  have "wp (candidate_save s b (with_resources k rs c) None None None)
      (\<lambda>_ w'. (\<exists>now. w_candidate w' = Some ((with_resources k rs c)\<lparr>ca_updated_at := Some now\<rparr>)) \<and> w_mongo w' = [])
      (\<lambda>_ w'. w_candidate w' = w_candidate w) w"
    by (rule wp_candidate_saved [OF assms]) (auto dest: bookedD(3) outside_fields booked_candidate)
  then show ?thesis
    by (rule wp_mono [OF wp_conj [OF _ wp_save_logged [OF assms]]]) (simp_all add: landed_def unmoved_def)
qed

lemma wp_edit_loaded:
  fixes w :: "(resource, 'e) world"
  assumes "w_mongo w = []"
  shows "wp (edit_loaded s b k edit c)
    (\<lambda>rs w'. edit (resources_in k c) = Inr rs \<and> landed (actor (w_actor w)) k rs c w w' \<and> w_mongo w' = [])
    (\<lambda>_ w'. unmoved w w' \<and> refuses s b k edit c) w"
proof (cases "edit (resources_in k c)")
  case (Inl e)
  then show ?thesis by (simp add: edit_loaded_def unmoved_def refuses_def)
next
  case (Inr rs)
  then show ?thesis by (auto simp: edit_loaded_def refuses_def intro!: wp_mono [OF wp_save_plain [OF assms]])
qed

lemma wp_authenticated:
  fixes w :: "('r, 'e) world"
  shows "wp (authenticated ab s rq) (\<lambda>i w1. gate_kept w w1 \<and> admitted ab s rq w i \<and> w_actor w1 = Some i)
    (\<lambda>e w1. gate_kept w w1 \<and> rightly_refused ab s rq w e) w"
proof -
  have "wp (authenticated ab s rq) (\<lambda>i w1. admitted ab s rq w i \<and> w_actor w1 = Some i)
      (\<lambda>e w1. rightly_refused ab s rq w e) w"
    unfolding authenticated_def wp_bind by (rule wp_mono [OF wp_caller]) (simp_all add: acting_as_def)
  then show ?thesis by (rule wp_within_and [OF gate_authenticated])
qed

text \<open>Operators may change what is staged.\<close>

definition editing_open :: "('r, 'e) world \<Rightarrow> bool" where
  "editing_open w \<longleftrightarrow> (case w_maintenance w of None \<Rightarrow> True | Some m \<Rightarrow> \<not> ms_engaged m) \<and> in_flight (w_applies w) = None"

lemma wp_operator_allowed:
  "w_mongo w = [] \<Longrightarrow> wp operator_mutation_allowed (\<lambda>_ w'. w' = w \<and> editing_open w) (\<lambda>_ w'. w' = w \<and> \<not> editing_open w) w"
  by (auto simp: operator_mutation_allowed_def mutations_enabled_def maintenance_get_def in_flight_io_def editing_open_def
      not_engaged_def simp del: in_flight_None_iff split: option.split)

lemma gate_keptD:
  assumes "gate_kept w w1"
  shows "w_candidate w1 = w_candidate w" "w_audit w1 = w_audit w" "candidate_of w1 = candidate_of w"
    "editing_open w1 = editing_open w" "saving c w1 = saving c w" "w_mongo w = [] \<Longrightarrow> w_mongo w1 = []"
  using assms by (auto simp: gate_kept_def candidate_of_def editing_open_def saving_def split: option.split)

text \<open>Why an Operator's edit may be refused: the caller, the gates, the Section's operation, or the size.\<close>

definition edit_refused :: "auth_libs \<Rightarrow> settings \<Rightarrow> request \<Rightarrow> resource bson \<Rightarrow> 'a kind \<Rightarrow> 'a edit \<Rightarrow> (resource, 'e) world \<Rightarrow> exn \<Rightarrow> bool" where
  "edit_refused ab s rq b k edit w e \<longleftrightarrow> rightly_refused ab s rq w e \<or> \<not> editing_open w \<or> refuses s b k edit (candidate_of w)"


section \<open>Two edits at once\<close>

text \<open>Both requests load the Candidate before either saves it.\<close>

definition racing_edits :: "settings \<Rightarrow> resource bson \<Rightarrow> identity \<Rightarrow> 'a kind \<Rightarrow> 'a edit \<Rightarrow> identity \<Rightarrow> 'b kind \<Rightarrow> 'b edit \<Rightarrow>
    (resource, 'e, 'b resources) act" where
  "racing_edits s b i k edit j l edit' = bind_io candidate_load (\<lambda>mine. bind_io candidate_load (\<lambda>yours.
     then_io (acting_as i) (then_io (edit_loaded s b k edit mine)
       (then_io (acting_as j) (edit_loaded s b l edit' yours)))))"


text \<open>Two Operators grant at once on a new install; a signed-in Operator grants alone.\<close>

definition demo_grant :: "string \<Rightarrow> grant" where
  "demo_grant name = \<lparr>gr_identity = name, gr_catalog = ''sales'', gr_schema = None, gr_table = None, gr_privileges = [SELECT]\<rparr>"

definition granting :: "string \<Rightarrow> grant edit" where
  "granting name stored = add_grant stored (demo_grant name)"

definition demo_sizes :: "resource bson" where
  "demo_sizes = \<lparr>encoded_size = (\<lambda>_. 0), section_size = (\<lambda>_. 0)\<rparr>"

definition demo_al :: identity where
  "demo_al = \<lparr>id_subject = ''al'', id_role = Operator, id_via = Via_Password, id_token = None\<rparr>"

definition demo_race :: "(resource, unit, grant resources) act" where
  "demo_race = racing_edits demo_settings demo_sizes (user_identity demo_jo Via_Password) grant_kind (granting ''ana'')
     demo_al grant_kind (granting ''bob'')"

lemma demo_edit:
  "granting name (resources_in grant_kind (candidate_of (new_install ()))) = Inr [(key_of (demo_grant name), demo_grant name)]"
proof -
  have "resources_in grant_kind (candidate_of (new_install ())) = []" by code_simp
  then show ?thesis by (simp add: granting_def add_grant_def)
qed

lemma demo_fits: "\<not> refuses demo_settings demo_sizes grant_kind (granting name) (candidate_of (new_install ()))"
  by (simp add: refuses_def demo_edit has_room_def demo_sizes_def)


text \<open>The owner of a live token is admitted at any time.\<close>

definition demo_signed_in :: "(resource, unit) world" where
  "demo_signed_in = (new_install ())\<lparr>w_users := [(''jo'', demo_jo)], w_tokens := [demo_token]\<rparr>"

definition demo_request :: request where
  "demo_request = \<lparr>rq_authorization = ''Bearer apchi_x'', rq_session = None, rq_login = None\<rparr>"

lemma demo_admits:
  "admits demo_auth (demo_settings\<lparr>st_auth_mode := Password_Mode\<rparr>) demo_request now demo_signed_in i
     \<longleftrightarrow> i = token_identity demo_jo demo_token"
  unfolding demo_request_def
  by (subst admits_bearer_iff [OF demo_bearer]) (auto simp: demo_signed_in_def demo_auth_defs)


end
