(* ===== verification/Validations.thy ===== *)
theory Validations
  imports Pipeline
begin

text \<open>
  Validations as records (\<open>app/pipeline/validations.py\<close>, \<open>app/api/validations.py\<close>): the store, the
  runner that judges the Candidate with an engine and writes down the verdict, and the handlers.
  Starting the task is the runtime's, as of the Apply runner.
\<close>

section \<open>The store\<close>

definition new_validation :: "string \<Rightarrow> nat \<Rightarrow> int option \<Rightarrow> validation_record" where
  "new_validation ident now base = \<lparr>vr_id = ident, vr_outcome = RUNNING, vr_failures = [], vr_warnings = [],
     vr_base_snapshot = base, vr_started_at = now, vr_finished_at = None\<rparr>"

definition insert_validation :: "validation_record \<Rightarrow> validation_record list \<Rightarrow> exn + validation_record list" where
  "insert_validation r db = (if vr_id r \<in> set (map vr_id db) then Inl (Raised DuplicateKeyError (vr_id r))
     else Inr (db @ [r]))"

definition validation_create :: "int option \<Rightarrow> ('r, 'e, validation_record) act" where
  "validation_create base = bind_io uuid_hex (\<lambda>hex. bind_io now_io (\<lambda>now.
     let r = new_validation (''val_'' @ take 16 hex) now base in
     then_io (mongo (update_io (\<lambda>w. case insert_validation r (w_validations w) of
         Inl e \<Rightarrow> Inl e | Inr db \<Rightarrow> Inr (w\<lparr>w_validations := db\<rparr>)))) (ret r)))"

definition validation_get :: "string \<Rightarrow> ('r, 'e, validation_record option) act" where
  "validation_get ident = mongo (asks (\<lambda>w. find (\<lambda>r. vr_id r = ident) (w_validations w)))"

definition validation_key :: "validation_record \<Rightarrow> nat \<times> string" where
  "validation_key r = (vr_started_at r, vr_id r)"

definition page_validations ::
  "int \<Rightarrow> (nat \<times> string) option \<Rightarrow> validation_record list \<Rightarrow> validation_record list \<times> (nat \<times> string) option" where
  "page_validations limit before db = page_of_texts validation_key limit before db"

definition finish_record ::
  "verdict \<Rightarrow> validation_failure list \<Rightarrow> validation_failure list \<Rightarrow> nat \<Rightarrow> validation_record \<Rightarrow> validation_record" where
  "finish_record outcome failures ws now r = r\<lparr>vr_outcome := outcome, vr_failures := failures,
     vr_warnings := ws, vr_finished_at := Some now\<rparr>"

definition validation_finish ::
  "string \<Rightarrow> verdict \<Rightarrow> validation_failure list \<Rightarrow> validation_failure list \<Rightarrow> ('r, 'e, unit) act" where
  "validation_finish ident outcome failures ws = bind_io now_io (\<lambda>now.
     mongo (modify_io (w_validations_update (map (\<lambda>r.
       if vr_id r = ident then finish_record outcome failures ws now r else r)))))"

section \<open>The runner\<close>

definition could_not_run :: "exn \<Rightarrow> validation_failure" where
  "could_not_run e = \<lparr>vf_section = None, vf_resource = None,
     vf_reason = ''Validation could not run: '' @ exn_type_name e @ '': '' @ exn_message e\<rparr>"

fun failures_of :: "exn \<Rightarrow> validation_failure list" where
  "failures_of (Failed_Validation fs) = fs"
| "failures_of e = [could_not_run e]"

definition validation_run :: "('r, 'e) engine_ops \<Rightarrow> string \<Rightarrow> ('r, 'e, unit) act" where
  "validation_run eo ident = then_io (eo_init eo ident)
     (try_else_io is_exception (eo_validate eo)
       (\<lambda>e. validation_finish ident NOT_PASSED (failures_of e) [])
       (\<lambda>_. bind_io (asks (eo_warnings eo)) (\<lambda>ws. validation_finish ident PASSED [] ws)))"

section \<open>The handlers\<close>

definition start_validation :: "('r, 'e, validation_record) act" where
  "start_validation = bind_io candidate_load (\<lambda>c. validation_create (ca_base c))"

definition list_validations ::
  "int \<Rightarrow> (nat \<times> string) option \<Rightarrow> ('r, 'e, validation_record list \<times> (nat \<times> string) option) act" where
  "list_validations limit before = mongo (asks (\<lambda>w. page_validations limit before (w_validations w)))"

definition get_validation :: "string \<Rightarrow> ('r, 'e, validation_record) act" where
  "get_validation ident = bind_io (validation_get ident) (\<lambda>r. case r of
      None \<Rightarrow> raise_io (Raised NotFound (''No Validation with id '' @ quoted ident @ ''.''))
    | Some r \<Rightarrow> ret r)"

section \<open>What a verdict says\<close>

text \<open>The verdict on what the engine answered, with the warnings it left: the specification of a Validation.\<close>

fun verdict_on :: "exn + unit \<Rightarrow> validation_failure list \<Rightarrow> verdict \<times> validation_failure list \<times> validation_failure list" where
  "verdict_on (Inr _) ws = (PASSED, [], ws)"
| "verdict_on (Inl e) ws = (NOT_PASSED, failures_of e, [])"

definition verdict_record :: "('r, 'e) engine_ops \<Rightarrow> (exn + unit) \<times> ('r, 'e) world \<Rightarrow> nat \<Rightarrow> validation_record \<Rightarrow> validation_record" where
  "verdict_record eo res now = (case verdict_on (fst res) (eo_warnings eo (snd res)) of
     (outcome, failures, ws) \<Rightarrow> finish_record outcome failures ws now)"

text \<open>What a Validation may touch: no Validation but its own, no Apply, no Snapshot.\<close>

definition apart :: "('r, 'e) world \<Rightarrow> ('r, 'e) world \<Rightarrow> bool" where
  "apart w w' \<longleftrightarrow> w_validations w' = w_validations w \<and> w_applies w' = w_applies w
     \<and> w_snapshots w' = w_snapshots w \<and> (w_mongo w = [] \<longrightarrow> w_mongo w' = [])"

definition reported :: "('r, 'e) engine_ops \<Rightarrow> string \<Rightarrow> ('r, 'e) world \<Rightarrow> ('r, 'e) world \<Rightarrow> bool" where
  "reported eo ident w w' \<longleftrightarrow> (\<exists>now. w_validations w' = map (\<lambda>r. if vr_id r = ident
       then verdict_record eo (then_io (eo_init eo ident) (eo_validate eo) w) now r else r) (w_validations w))
     \<and> w_applies w' = w_applies w \<and> w_snapshots w' = w_snapshots w"

interpretation apart: step_order apart
  by unfold_locales (auto simp: apart_def)

interpretation apart_stores: quiet_stores apart
  by unfold_locales (auto simp: apart_def)

interpretation apart_stages: quiet_pipeline "apart :: ('r, ('r, 'p) engine_state) world \<Rightarrow> _"
  by unfold_locales

interpretation apart_program: quiet_program apart
  by unfold_locales

lemma apart_validate:
  "within apart (eo_validate (operator_engine (the_parts lb s bs sha)))"
  by (rule apart_stages.quiet_validate(1))
    (auto simp: the_parts_def intro: apart_program.quiet_preconditions apart_program.quiet_validate_candidate)

lemma apart_init: "within apart (eo_init (operator_engine pt) i)"
  by (auto simp: operator_engine_def intro: apart_stages.quiet_state)

lemma wp_validation_finish:
  assumes "w_mongo w = []"
  shows "wp (validation_finish i out fs ws) (\<lambda>_ w'. (\<exists>now. w_validations w' = map (\<lambda>r. if vr_id r = i
       then finish_record out fs ws now r else r) (w_validations w))
     \<and> w_applies w' = w_applies w \<and> w_snapshots w' = w_snapshots w) (\<lambda>_ _. False) w"
  using assms unfolding validation_finish_def wp_bind
  by (auto simp: wp_def now_io_def Let_def mongo_def external_def modify_io_def split: list.split)



end
