(* ===== verification/Refusals.thy ===== *)
theory Refusals
  imports Store_Rules
begin

text \<open>
  How a request that raised is answered (\<open>app/api/errors.py\<close>): the status and the machine-readable
  code of each error, the request id, and the audit's record of a refused mutation. Of a request the
  model has what these read, its method and what its route matched. The list of details in a body is
  not modelled: an exception here carries its class and its message. Anything that is not an
  \<open>ApchiError\<close> passes on, to the framework's 500.
\<close>

section \<open>Codes\<close>

text \<open>\<open>TooManyEventListeners\<close> is raised as the \<open>Conflict\<close> it is, and a body its model refuses (a
  \<open>RequestValidationError\<close>) answers as \<open>UnprocessablePayload\<close> does.\<close>

fun status_of :: "exn_class \<Rightarrow> nat option" where
  "status_of Conflict = Some 409"
| "status_of NameAlreadyTaken = Some 409"
| "status_of MaintenanceModeEngaged = Some 409"
| "status_of Unauthenticated = Some 401"
| "status_of Forbidden = Some 403"
| "status_of NotFound = Some 404"
| "status_of UnprocessablePayload = Some 422"
| "status_of UnknownConnector = Some 422"
| "status_of CandidateTooLarge = Some 422"
| "status_of _ = None"

primrec code_of :: "exn_class \<Rightarrow> string" where
  "code_of Conflict = ''conflict''"
| "code_of NameAlreadyTaken = ''name_already_taken''"
| "code_of MaintenanceModeEngaged = ''maintenance_mode''"
| "code_of Unauthenticated = ''unauthenticated''"
| "code_of Forbidden = ''forbidden''"
| "code_of NotFound = ''not_found''"
| "code_of UnprocessablePayload = ''unprocessable_payload''"
| "code_of UnknownConnector = ''unknown_connector''"
| "code_of CandidateTooLarge = ''candidate_too_large''"
| "code_of PyMongoError = ''error''" | "code_of DuplicateKeyError = ''error''" | "code_of ApiException = ''error''"
| "code_of TrinoError = ''error''" | "code_of RolloutFailed = ''error''" | "code_of VerificationFailed = ''error''"
| "code_of PreconditionFailed = ''error''" | "code_of ValueError = ''error''" | "code_of KeyError = ''error''"
| "code_of LookupError = ''error''" | "code_of AssertionError = ''error''" | "code_of BadCursor = ''error''"
| "code_of DiscoveryFailed = ''error''" | "code_of SeedRefused = ''error''" | "code_of ParseProblem = ''error''"
| "code_of ValidationError = ''error''" | "code_of OidcError = ''error''" | "code_of TypeError = ''error''"
| "code_of OSError = ''error''" | "code_of RuntimeError = ''error''"

record answer =
  an_status :: nat
  an_code :: string
  an_message :: string
  an_request_id :: string

definition answered_as :: "string \<Rightarrow> exn \<Rightarrow> answer option" where
  "answered_as rid e = (case e of
      Raised c m \<Rightarrow> map_option (\<lambda>st. \<lparr>an_status = st, an_code = code_of c, an_message = m, an_request_id = rid\<rparr>) (status_of c)
    | _ \<Rightarrow> None)"

section \<open>Requests\<close>

datatype http_method = GET | HEAD | OPTIONS | POST | PUT | PATCH | DELETE

definition MUTATIONS :: "http_method set" where
  "MUTATIONS = {POST, PUT, PATCH, DELETE}"

record route =
  rt_method :: http_method
  rt_tags :: "string list"
  rt_params :: "string dict"

definition resource_in :: "route \<Rightarrow> string option" where
  "resource_in rt = (case filter (has_key (rt_params rt)) [''name'', ''resource'', ''key'', ''token_id'', ''path''] of
      [] \<Rightarrow> None | key # _ \<Rightarrow> map_of (rt_params rt) key)"

definition refusal_entry :: "route \<Rightarrow> category \<Rightarrow> string \<Rightarrow> entry" where
  "refusal_entry rt c reason = (mk_entry c Attempted (resource_in rt))\<lparr>en_outcome := Refused, en_detail := Some reason\<rparr>"

definition record_refusal :: "settings \<Rightarrow> route \<Rightarrow> string \<Rightarrow> ('r, 'e, unit) act" where
  "record_refusal s rt reason = (if rt_method rt \<notin> MUTATIONS then ret ()
     else case category_of (rt_tags rt) of
       None \<Rightarrow> ret ()
     | Some c \<Rightarrow> bind_io actor_io (\<lambda>who.
         try_io is_pymongo (audit_record s who None (refusal_entry rt c reason)) (\<lambda>_. ret ())))"

text \<open>A request answers what its handler returns, or the error it raised; the id is drawn before either.\<close>

definition rejected :: "settings \<Rightarrow> route \<Rightarrow> string \<Rightarrow> exn \<Rightarrow> ('r, 'e, answer + 'a) act" where
  "rejected s rt rid e = (case answered_as rid e of
      None \<Rightarrow> raise_io e
    | Some a \<Rightarrow> then_io (record_refusal s rt (an_message a)) (ret (Inl a)))"

definition respond :: "settings \<Rightarrow> route \<Rightarrow> ('r, 'e, 'a) act \<Rightarrow> ('r, 'e, answer + 'a) act" where
  "respond s rt handler = bind_io uuid_hex (\<lambda>rid.
     try_io (\<lambda>e. answered_as rid e \<noteq> None) (bind_io handler (\<lambda>a. ret (Inr a))) (rejected s rt rid))"

section \<open>The record of a refusal\<close>

text \<open>What a refusal leaves in the trail: one event of a mutating request on an audited route, none otherwise.\<close>

definition refusal_logged :: "route \<Rightarrow> string \<Rightarrow> ('r, 'e) world \<Rightarrow> ('r, 'e) world \<Rightarrow> bool" where
  "refusal_logged rt reason w w' \<longleftrightarrow> (case (rt_method rt \<in> MUTATIONS, category_of (rt_tags rt)) of
      (True, Some c) \<Rightarrow> (\<exists>ident now. w_audit w' = w_audit w
        @ [event_of (actor (w_actor w)) ident now None (refusal_entry rt c reason)])
    | _ \<Rightarrow> w_audit w' = w_audit w)"

end
