(* ===== verification/Refusals_Correct.thy ===== *)
theory Refusals_Correct
  imports Refusals Section_Api_Correct
begin

text \<open>
  What a refusal promises: its code and its record, whatever MongoDB does to the record; and whose
  name is on it.
\<close>

section \<open>Answering\<close>

text \<open>MongoDB fails only with its own errors.\<close>

definition db_fault :: "fault \<Rightarrow> bool" where
  "db_fault f \<longleftrightarrow> (case f of Fine \<Rightarrow> True | Fail_before e \<Rightarrow> is_pymongo e | Fail_after e \<Rightarrow> is_pymongo e)"

definition db_faults :: "('r, 'e) world \<Rightarrow> bool" where
  "db_faults w \<longleftrightarrow> list_all db_fault (w_mongo w)"

lemma wp_db_call:
  assumes "db_faults w" and "\<And>v. m v = (Inr (f v), g v)" and "\<And>v. w_mongo (g v) = w_mongo v"
    and "\<And>a w'. db_faults w' \<Longrightarrow> Q a w'" and "\<And>e w'. is_pymongo e \<Longrightarrow> E e w'"
  shows "wp (mongo m) Q E w"
  using assms(1-3) unfolding mongo_def wp_external
  by (auto simp: db_faults_def db_fault_def wp_def intro!: assms(4,5) split: list.split fault.split)

lemma wp_db_index:
  assumes "db_faults w" and "\<And>w'. db_faults w' \<Longrightarrow> Q () w'" and "\<And>e w'. is_pymongo e \<Longrightarrow> E e w'"
  shows "wp (indexed_once s) Q E w"
proof -
  have call: "wp (mongo (ret ())) Q' E w'" if "db_faults w'" "\<And>w'. db_faults w' \<Longrightarrow> Q' () w'" for Q' w'
    by (rule wp_db_call [OF that(1), where f = "\<lambda>_. ()" and g = "\<lambda>v. v"]) (use that(2) assms(3) in \<open>simp_all add: ret_def\<close>)
  have "Q () (w'\<lparr>w_audit_indexed := True\<rparr>)" if "db_faults w'" for w'
    using that by (intro assms(2)) (simp add: db_faults_def)
  then show ?thesis
    using assms(1,2) by (auto simp: indexed_once_def ensure_indexes_def intro!: call)
qed

lemma wp_db_now:
  assumes "db_faults w" and "\<And>a w'. db_faults w' \<Longrightarrow> Q a w'"
  shows "wp now_io Q E w"
  using assms(1) unfolding wp_def now_io_def Let_def
  by (auto intro!: assms(2) simp: db_faults_def split: list.split)

lemma wp_db_record:
  assumes "db_faults w"
  shows "wp (audit_record s who aid en) (\<lambda>_ _. True) (\<lambda>e _. is_pymongo e) w"
proof -
  have last: "wp (mongo (modify_io (w_audit_update g))) (\<lambda>_ _. True) (\<lambda>e _. is_pymongo e) w'" if "db_faults w'" for g w'
    by (rule wp_db_call [OF that, where f = "\<lambda>_. ()" and g = "w_audit_update g"]) (simp_all add: modify_io_def)
  have "wp now_io (\<lambda>now. wp uuid_hex (\<lambda>ident. wp (mongo (modify_io (w_audit_update (h now ident))))
      (\<lambda>_ _. True) (\<lambda>e _. is_pymongo e)) (\<lambda>e _. is_pymongo e)) (\<lambda>e _. is_pymongo e) w'" if "db_faults w'" for h w'
    by (rule wp_db_now [OF that]) (simp add: wp_uuid_hex last db_faults_def)
  then show ?thesis
    unfolding audit_record_def wp_then wp_bind by (intro wp_db_index [OF assms])
qed

lemma wp_one_record:
  fixes w :: "('r, 'e) world"
  assumes "w_mongo w = []"
  shows "wp (audit_record s who None en) (\<lambda>_ w'. \<exists>ident now. w_audit w' = w_audit w @ [event_of who ident now None en]) (\<lambda>_ _. False) w"
  unfolding audit_record_def wp_then wp_bind
proof (rule wp_books_index [OF assms], rule wp_books_now)
  fix a now and w1 w2 :: "('r, 'e) world"
  assume "books_kept w w1" "books_kept w1 w2"
  then show "wp uuid_hex (\<lambda>ident. wp (mongo (modify_io (w_audit_update (\<lambda>db. db @ [event_of who ident now None en]))))
      (\<lambda>_ w'. \<exists>ident now. w_audit w' = w_audit w @ [event_of who ident now None en]) (\<lambda>_ _. False)) (\<lambda>_ _. False) w2"
    using assms by (auto simp: books_kept_def wp_uuid_hex)
qed

lemma wp_record_refusal:
  fixes w :: "('r, 'e) world"
  assumes "db_faults w"
  shows "wp (record_refusal s rt reason) (\<lambda>_ w'. w_mongo w = [] \<longrightarrow> refusal_logged rt reason w w') (\<lambda>_ _. False) w"
proof (cases "rt_method rt \<in> MUTATIONS \<and> category_of (rt_tags rt) \<noteq> None")
  case True
  then obtain c where c: "category_of (rt_tags rt) = Some c" by auto
  let ?who = "actor (w_actor w)"
  have "wp (audit_record s ?who None (refusal_entry rt c reason))
      (\<lambda>_ w'. w_mongo w = [] \<longrightarrow> refusal_logged rt reason w w') (\<lambda>e _. is_pymongo e \<and> w_mongo w \<noteq> []) w"
  proof (cases "w_mongo w = []")
    case healthy: True
    show ?thesis
      by (rule wp_mono [OF wp_one_record [OF healthy]]) (use True c in \<open>auto simp: refusal_logged_def\<close>)
  qed (auto intro!: wp_mono [OF wp_db_record [OF assms]])
  then show ?thesis
    using True c by (simp add: record_refusal_def actor_io_def) (erule wp_mono, simp_all)
qed (auto simp: record_refusal_def refusal_logged_def split: option.split)

lemma answered_refusal:
  assumes "handler (snd (uuid_hex w)) = (Inl (Raised c m), w1)" and "status_of c = Some st" and "db_faults w1"
  shows "\<exists>w'. respond s rt handler w
      = (Inr (Inl \<lparr>an_status = st, an_code = code_of c, an_message = m, an_request_id = w_uuid w (w_uuids_drawn w)\<rparr>), w')
    \<and> (w_mongo w1 = [] \<longrightarrow> refusal_logged rt m w1 w')"
proof -
  let ?a = "\<lparr>an_status = st, an_code = code_of c, an_message = m, an_request_id = w_uuid w (w_uuids_drawn w)\<rparr>"
  have "wp (respond s rt handler) (\<lambda>r w'. r = Inl ?a \<and> (w_mongo w1 = [] \<longrightarrow> refusal_logged rt m w1 w')) (\<lambda>_ _. False) w"
    using assms(1,2) wp_record_refusal [OF assms(3), of s rt m]
    unfolding respond_def wp_bind wp_uuid_hex
    by (simp add: uuid_hex_def answered_as_def rejected_def wp_def [of handler])
  then show ?thesis
    by (cases "respond s rt handler w") (auto simp: wp_def split: sum.splits)
qed



section \<open>Whose name is on it\<close>

text \<open>A request without a credential: nothing in its header and no cookie.\<close>

definition bare :: "request \<Rightarrow> bool" where
  "bare rq \<longleftrightarrow> rq_authorization rq = [] \<and> rq_session rq = None"

lemma bind_ret: "bind_io (ret a) f = f a" "bind_io (raise_io e) f = raise_io e" "then_io (raise_io e) m = raise_io e"
  by (simp_all add: fun_eq_iff bind_io_def then_io_def ret_def raise_io_def)

lemma caller_bare:
  assumes "bare rq" and "st_auth_mode s \<noteq> No_Auth"
  shows "\<exists>why. (caller ab s rq :: ('r, 'e, identity) act) = raise_io (unauthenticated why)"
proof -
  have "(from_bearer ab rq :: ('r, 'e, identity option) act) = ret None" "(from_session ab rq :: ('r, 'e, identity option) act) = ret None"
    using assms(1) by (simp_all add: from_bearer_def bearer_secret_def from_session_def bare_def partition_at_def)
  then show ?thesis
    using assms(2) by (cases "st_auth_mode s") (auto simp: caller_def bind_ret sign_in_first_def no_backend_def)
qed

text \<open>C40: The trail holds Apchi itself to account for a stranger's attempt: a request without any credential to change
  something is answered 401, whatever its handler, and the event that records the refusal names the actor
  ``apchi'', as an act of Apchi's own does: nobody was recorded as acting, and nothing in it tells them apart.\<close>

theorem stranger_recorded_as_apchi:
  fixes w :: "('r, 'e) world"
  assumes "bare rq" and "st_auth_mode s \<noteq> No_Auth" and "w_mongo w = []" and "w_actor w = None"
    and "rt_method rt \<in> MUTATIONS" and "category_of (rt_tags rt) = Some c"
  shows "wp (respond s rt (operator_route ab s rq handler))
    (\<lambda>r w'. (\<exists>a. r = Inl a \<and> an_status a = 401 \<and> an_code a = ''unauthenticated'')
      \<and> (\<exists>e. w_audit w' = w_audit w @ [e] \<and> au_actor e = SYSTEM \<and> au_action e = Attempted \<and> au_outcome e = Refused \<and> au_category e = c))
    (\<lambda>_ _. False) w"
proof -
  obtain why where why: "(caller ab s rq :: ('r, 'e, identity) act) = raise_io (unauthenticated why)" using caller_bare [OF assms(1,2)] by blast
  have "operator_route ab s rq handler (snd (uuid_hex w)) = (Inl (Raised Unauthenticated why), snd (uuid_hex w))"
    by (simp add: operator_route_def signed_in_route_def authenticated_def why bind_ret unauthenticated_def) (simp add: raise_io_def)
  moreover have "db_faults (snd (uuid_hex w))" "w_mongo (snd (uuid_hex w)) = []" "w_audit (snd (uuid_hex w)) = w_audit w"
      "w_actor (snd (uuid_hex w)) = None"
    using assms(3,4) by (simp_all add: uuid_hex_def db_faults_def)
  ultimately obtain w' where "respond s rt (operator_route ab s rq handler) w = (Inr (Inl \<lparr>an_status = 401,
      an_code = ''unauthenticated'', an_message = why, an_request_id = w_uuid w (w_uuids_drawn w)\<rparr>), w')"
    and "refusal_logged rt why (snd (uuid_hex w)) w'"
    by (auto dest!: answered_refusal [where s = s and rt = rt])
  then show ?thesis
    using assms(5,6) \<open>w_audit (snd (uuid_hex w)) = w_audit w\<close> \<open>w_actor (snd (uuid_hex w)) = None\<close>
    by (auto simp: wp_def refusal_logged_def event_of_def refusal_entry_def mk_entry_def actor_def SYSTEM_ACTOR_def)
qed

theorem stranger_recorded_as_apchi_witness:
  "let w = new_install () :: (string, unit) world; s = demo_settings\<lparr>st_auth_mode := Password_Mode\<rparr>;
       rt = \<lparr>rt_method = PATCH, rt_tags = [''catalogs''], rt_params = [(''name'', ''sales'')]\<rparr>;
       rq = \<lparr>rq_authorization = [], rq_session = None, rq_login = None\<rparr> in
   wp (respond s rt (operator_route demo_auth s rq (ret ())))
    (\<lambda>r w'. (\<exists>a. r = Inl a \<and> an_status a = 401 \<and> an_code a = ''unauthenticated'')
      \<and> (\<exists>e. w_audit w' = w_audit w @ [e] \<and> au_actor e = SYSTEM \<and> au_action e = Attempted \<and> au_outcome e = Refused \<and> au_category e = ''catalogs''))
    (\<lambda>_ _. False) w"
proof -
  have "category_of [''catalogs''] = Some ''catalogs''" by code_simp
  then show ?thesis
    unfolding Let_def by (intro stranger_recorded_as_apchi) (simp_all add: bare_def new_install_def MUTATIONS_def)
qed

end
