(* ===== verification/Admin_Api.thy ===== *)
theory Admin_Api
  imports Section_Api Staging Raw_Files
begin

text \<open>
  The Admin's requests (\<open>app/api/admin.py\<close>): Maintenance Mode, the preserved mapping patterns,
  enforcement, the full configuration and the raw files. Each loads the Admin values, changes one of
  them and saves the whole document; starting an Admin Apply is with the gates. A text's size is its
  length: its characters are taken to be of one byte.
\<close>

section \<open>Maintenance Mode\<close>

definition DEFAULT_REASON :: string where
  "DEFAULT_REASON = ''An Admin has engaged Maintenance Mode.''"

definition set_maintenance_mode :: "settings \<Rightarrow> maintenance_state \<Rightarrow> ('r, 'e, maintenance_state) act" where
  "set_maintenance_mode s m = (if \<not> ms_engaged m then release s
     else engage s (case ms_reason m of None \<Rightarrow> DEFAULT_REASON | Some why \<Rightarrow> if why = [] then DEFAULT_REASON else why) By_Admin)"

section \<open>Admin values\<close>

text \<open>Loaded and copied: a save replaces the whole document.\<close>

definition change_admin :: "settings \<Rightarrow> (admin_values \<Rightarrow> admin_values) \<Rightarrow> ('r, 'e, admin_values) act" where
  "change_admin s f = bind_io admin_load (\<lambda>v. admin_save s (f v))"

definition MAX_PRESERVED_MAPPINGS :: nat where "MAX_PRESERVED_MAPPINGS = 20"

definition get_preserved_mappings :: "('r, 'e, certificate_mapping list) act" where
  "get_preserved_mappings = bind_io admin_load (\<lambda>v. ret (av_preserved_mappings v))"

definition set_preserved_mappings ::
  "(string \<Rightarrow> nat option) \<Rightarrow> settings \<Rightarrow> certificate_mapping list \<Rightarrow> ('r, 'e, certificate_mapping list) act" where
  "set_preserved_mappings compiled s patterns = valid_body (length patterns \<le> MAX_PRESERVED_MAPPINGS)
     (bind_io (lift_error (validate_patterns compiled patterns)) (\<lambda>_.
      bind_io (change_admin s (av_preserved_mappings_update (\<lambda>_. patterns))) (\<lambda>v. ret (av_preserved_mappings v))))"

definition get_enforcement :: "('r, 'e, bool) act" where
  "get_enforcement = bind_io admin_load (\<lambda>v. ret (av_enforce_permissions v))"

definition set_enforcement :: "settings \<Rightarrow> bool \<Rightarrow> ('r, 'e, bool) act" where
  "set_enforcement s enforced =
     bind_io (change_admin s (av_enforce_permissions_update (\<lambda>_. enforced))) (\<lambda>v. ret (av_enforce_permissions v))"

section \<open>The full configuration\<close>

definition export_configuration :: "('r, 'e, 'r document) act" where
  "export_configuration = bind_io candidate_load (\<lambda>c. bind_io admin_load (\<lambda>v.
     ret (of_cluster (ca_base c) (ca_sections c) v)))"

record 'r configured =
  cg_base :: "int option"
  cg_sections :: "'r sections"
  cg_admin :: admin_values

text \<open>\<open>AdminImport\<close> requires the Admin values, within what their model accepts.\<close>

definition admin_document_ok :: "'r document \<Rightarrow> bool" where
  "admin_document_ok d \<longleftrightarrow> (case dm_admin d of None \<Rightarrow> False
     | Some v \<Rightarrow> length (av_preserved_mappings v) \<le> MAX_PRESERVED_MAPPINGS)"

definition import_configuration ::
  "settings \<Rightarrow> 'r bson \<Rightarrow> 'r readers \<Rightarrow> (string \<Rightarrow> nat option) \<Rightarrow> 'r document \<Rightarrow> ('r, 'e, 'r configured) act" where
  "import_configuration s b readers compiled d = valid_body (admin_document_ok d)
     (bind_io (lift_error (accepted readers d)) (\<lambda>ss.
      bind_io (lift_error (validate_patterns compiled (av_preserved_mappings (the (dm_admin d))))) (\<lambda>_.
      bind_io (candidate_replace s b ss) (\<lambda>c.
      bind_io (admin_save s (the (dm_admin d))) (\<lambda>v.
        ret \<lparr>cg_base = ca_base c, cg_sections = ca_sections c, cg_admin = v\<rparr>)))))"

section \<open>Raw files\<close>

definition MAX_CONTENT_BYTES :: nat where "MAX_CONTENT_BYTES = 262144"

definition leading_slash :: "string \<Rightarrow> string" where
  "leading_slash path = (if is_prefix ''/'' path then path else CHR ''/'' # path)"

definition list_raw_files :: "('r, 'e, (string \<times> nat) list) act" where
  "list_raw_files = bind_io admin_load (\<lambda>v.
     ret (map (\<lambda>p. (p, length (the (map_of (av_raw_files v) p)))) (sorted_keys (av_raw_files v))))"

definition write_raw_file ::
  "('r, 'p, 'e) section_ops list \<Rightarrow> settings \<Rightarrow> string \<Rightarrow> string \<Rightarrow> ('r, 'e, string \<times> nat) act" where
  "write_raw_file registered s path content = valid_body (length content \<le> MAX_CONTENT_BYTES)
     (bind_io (cluster_dep s) (\<lambda>cl. let v = cl_admin cl in
      bind_io (refuse_unusable registered s (leading_slash path)
         (length (filter (\<lambda>p. p \<noteq> leading_slash path) (dict_keys (av_raw_files v))))) (\<lambda>p.
      bind_io (admin_save s (v\<lparr>av_raw_files := AList.update p content (av_raw_files v)\<rparr>)) (\<lambda>_.
        ret (p, length content)))))"

definition delete_raw_file :: "settings \<Rightarrow> string \<Rightarrow> ('r, 'e, unit) act" where
  "delete_raw_file s path = bind_io admin_load (\<lambda>v. let wanted = normalised (leading_slash path) in
     if \<not> has_key (av_raw_files v) wanted then raise_io (Raised NotFound (''No raw file at '' @ quoted wanted @ ''.''))
     else bind_io (admin_save s (v\<lparr>av_raw_files := AList.delete wanted (av_raw_files v)\<rparr>)) (\<lambda>_. ret ()))"

lemmas admin_request_defs = change_admin_def set_preserved_mappings_def set_enforcement_def import_configuration_def
  write_raw_file_def delete_raw_file_def valid_body_def

end
