(* ===== verification/Admin_Api_Correct.thy ===== *)
theory Admin_Api_Correct
  imports Admin_Api Section_Api_Correct
begin

text \<open>
  What the Admin's requests keep of the raw files, and how the import of a full configuration lands.
\<close>

section \<open>Raw files\<close>

text \<open>Every stored path may be written, and there are at most one more than the limit.\<close>

definition usable_files :: "('r, 'p, 'e) section_ops list \<Rightarrow> settings \<Rightarrow> admin_values \<Rightarrow> bool" where
  "usable_files registered s v \<longleftrightarrow> distinct (dict_keys (av_raw_files v)) \<and> length (av_raw_files v) \<le> Suc MAX_FILES
     \<and> (\<forall>p \<in> set (dict_keys (av_raw_files v)). within_config_dir p \<and> Raw_Files.owner_of registered s p = None)"

definition files_kept :: "('r, 'p, 'e) section_ops list \<Rightarrow> settings \<Rightarrow> ('r, 'e) world \<Rightarrow> ('r, 'e) world \<Rightarrow> bool" where
  "files_kept registered s w w' \<longleftrightarrow> usable_files registered s (admin_document (w_admin w))
     \<longrightarrow> usable_files registered s (admin_document (w_admin w'))"

interpretation files: step_order "files_kept registered s" for registered s
  by unfold_locales (auto simp: files_kept_def)

lemma keeps_files: "within (keeps w_admin) m \<Longrightarrow> within (files_kept registered s) m"
  by (auto simp: within_def keeps_def files_kept_def)

lemma files_save:
  assumes "usable_files registered s v"
  shows "within (files_kept registered s) (admin_save s' v)"
proof -
  have stored: "within (files_kept registered s) (mongo (\<lambda>w. (Inr (w_admin w), w\<lparr>w_admin := Some v\<rparr>)))"
    using assms by (auto simp: within_def mongo_def external_def files_kept_def split: list.split fault.split)
  show ?thesis
    unfolding admin_save_def admin_keep_def Let_def
    by (intro files.within_bind files.within_then stored keeps_files) (auto intro!: keeps_intros keeps_modify)
qed

lemma length_others:
  "distinct xs \<Longrightarrow> length xs \<le> Suc (length (filter (\<lambda>q. q \<noteq> u) xs))"
proof (induction xs)
  case (Cons x xs)
  have "filter (\<lambda>q. q \<noteq> u) xs = xs" if "u \<notin> set xs" using that by (induction xs) auto
  with Cons show ?case by auto
qed simp

lemma usable_write:
  assumes v: "usable_files registered s v" and n: "length (filter (\<lambda>q. q \<noteq> u) (dict_keys (av_raw_files v))) < MAX_FILES"
    and p: "within_config_dir p" "Raw_Files.owner_of registered s p = None"
  shows "usable_files registered s (v\<lparr>av_raw_files := AList.update p content (av_raw_files v)\<rparr>)"
proof -
  let ?ks = "dict_keys (av_raw_files v)" and ?new = "AList.update p content (av_raw_files v)"
  have "length ?ks \<le> MAX_FILES"
    using length_others [of ?ks u] n v by (simp add: usable_files_def)
  moreover have ks: "dict_keys ?new = (if p \<in> set ?ks then ?ks else ?ks @ [p])"
    by (rule update_keys)
  then have "length (dict_keys ?new) \<le> Suc (length ?ks)" by simp
  ultimately have "length ?new \<le> Suc MAX_FILES" by simp
  then show ?thesis
    using v p ks by (auto simp: usable_files_def simp del: set_map)
qed

lemma usable_delete:
  assumes "usable_files registered s v"
  shows "usable_files registered s (v\<lparr>av_raw_files := AList.delete p (av_raw_files v)\<rparr>)"
proof -
  have "length (AList.delete p (av_raw_files v)) \<le> length (av_raw_files v)" by (rule length_delete_le)
  then show ?thesis
    using assms by (auto simp: usable_files_def delete_keys distinct_removeAll simp del: set_map)
qed

text \<open>Reading the Cluster and asking whether a path is usable changes no Admin value.\<close>

lemma quiet_path: "within (keeps w_admin) (refuse_if_unmountable path)"
  by (auto simp: refuse_if_unmountable_def intro!: keeps_intros split: option.split)

lemma wp_usable_path:
  "wp (refuse_unusable registered s path n)
    (\<lambda>p w'. w_admin w' = w_admin w \<and> n < MAX_FILES \<and> within_config_dir p \<and> Raw_Files.owner_of registered s p = None)
    (\<lambda>_ w'. w_admin w' = w_admin w) w"
proof -
  have "wp (refuse_if_unmountable p) (\<lambda>_ w'. w_admin w' = w_admin w) (\<lambda>_ w'. w_admin w' = w_admin w) w" for p
    by (rule wp_within [OF quiet_path]) (simp_all add: keeps_def)
  then show ?thesis
    by (auto simp: refuse_unusable_def Let_def split: option.split)
qed

lemma asks_world [simp]: "snd (asks f w) = w"
  by (simp add: asks_def)

lemma wp_values_read:
  "wp admin_load (\<lambda>v w'. v = admin_document (w_admin w) \<and> w_admin w' = w_admin w) (\<lambda>_ w'. w_admin w' = w_admin w) w"
  by (auto simp: admin_load_def mongo_def wp_external split: list.split fault.split)

lemma wp_files:
  assumes "within (files_kept registered s) m" and "w_admin w1 = w_admin w"
  shows "wp m (\<lambda>_. files_kept registered s w) (\<lambda>_. files_kept registered s w) w1"
  by (rule wp_within [OF assms(1)]) (use assms(2) in \<open>simp_all add: files_kept_def\<close>)

lemma files_same: "w_admin w1 = w_admin w \<Longrightarrow> files_kept registered s w w1"
  by (simp add: files_kept_def)

text \<open>What may be asked of the raw files.\<close>

datatype file_request = Write_File string string | Delete_File string

fun file_handler :: "('r, 'p, 'e) section_ops list \<Rightarrow> settings \<Rightarrow> file_request \<Rightarrow> ('r, 'e, unit) act" where
  "file_handler registered s (Write_File path content) = no_content (write_raw_file registered s path content)"
| "file_handler registered s (Delete_File path) = delete_raw_file s path"

lemma wp_save_files:
  assumes "w_admin w1 = w_admin w" and "usable_files registered s (admin_document (w_admin w)) \<Longrightarrow> usable_files registered s v"
  shows "wp (admin_save s' v) (\<lambda>_. files_kept registered s w) (\<lambda>_. files_kept registered s w) w1"
proof (cases "usable_files registered s (admin_document (w_admin w))")
  case True
  then show ?thesis by (intro wp_files files_save assms)
next
  case False
  then show ?thesis by (intro wp_ignore) (simp_all add: files_kept_def)
qed

lemma wp_file_handler:
  "wp (file_handler registered s rq) (\<lambda>_. files_kept registered s w) (\<lambda>_. files_kept registered s w) w"
proof (cases rq)
  case (Write_File path content)
  let ?K = "\<lambda>_. files_kept registered s w"
  have save: "wp (refuse_unusable registered s u (length (filter (\<lambda>q. q \<noteq> u) (dict_keys (av_raw_files v)))))
      (\<lambda>p. wp (bind_io (admin_save s (v\<lparr>av_raw_files := AList.update p content (av_raw_files v)\<rparr>))
        (\<lambda>_. ret (p, length content))) ?K ?K) ?K w1"
    if "w_admin w1 = w_admin w" "v = admin_document (w_admin w)" for u v w1
    by (rule wp_mono [OF wp_usable_path]) (use that in \<open>auto simp: files_same intro!: wp_mono [OF wp_save_files] usable_write\<close>)
  show ?thesis
    unfolding Write_File file_handler.simps no_content_def write_raw_file_def valid_body_def cluster_dep_def
    by (auto simp: Let_def files_same filter_map comp_def intro!: wp_mono [OF wp_values_read] wp_mono [OF save [unfolded filter_map length_map comp_def]])
next
  case (Delete_File path)
  then show ?thesis
    by (auto simp: delete_raw_file_def Let_def files_same
        intro!: wp_mono [OF wp_values_read] wp_mono [OF wp_save_files] usable_delete)
qed

text \<open>Requests one after another, each answered whatever became of the one before.\<close>

definition file_requests :: "('r, 'p, 'e) section_ops list \<Rightarrow> settings \<Rightarrow> file_request list \<Rightarrow> ('r, 'e, unit) act" where
  "file_requests registered s rqs = for_io (\<lambda>rq. try_io (\<lambda>_. True) (file_handler registered s rq) (\<lambda>_. ret ())) rqs"


lemma wp_admin_stored:
  fixes w :: "('r, 'e) world"
  shows "wp (admin_save s v) (\<lambda>_ w'. w_admin w' = Some v) (\<lambda>_ _. True) w"
proof -
  have rest: "wp (then_io (admin_keep before) (bind_io actor_io (\<lambda>who. then_io (audit_record_each s who None ens) (ret v))))
      (\<lambda>_ w'. w_admin w' = Some v) (\<lambda>_ _. True) w1" if "w_admin w1 = Some v" for before ens and w1 :: "('r, 'e) world"
  proof (rule wp_within)
    show "within (keeps w_admin) (then_io (admin_keep before) (bind_io actor_io (\<lambda>who. then_io (audit_record_each s who None ens) (ret v))))"
      by (auto simp: admin_keep_def intro!: keeps_intros keeps_modify)
  qed (simp_all add: keeps_def that)
  show ?thesis
    unfolding admin_save_def Let_def
    by (subst wp_bind) (unfold mongo_def wp_external, auto simp: wp_def [of "\<lambda>w. (Inr (w_admin w), w\<lparr>w_admin := Some v\<rparr>)"] intro!: rest simp del: wp_then wp_bind wp_eta
        split: list.split fault.split)
qed

text \<open>The one above: a path that only its trailing space tells apart is not counted, and is written without it.\<close>

definition full_of_files :: admin_values where
  "full_of_files = default_admin\<lparr>av_raw_files := (''/etc/trino/x '', []) # map (\<lambda>n. (''/etc/trino/f'' @ show_nat n, [])) [0..<24]\<rparr>"

lemma one_above_the_limit:
  fixes w :: "(resource, unit) world"
  assumes "w_mongo w = []" and "w_admin w = Some full_of_files"
  shows "length (av_raw_files full_of_files) = MAX_FILES"
    and "wp (write_raw_file ([] :: (resource, unit, unit) section_ops list) s ''etc/trino/x '' [])
       (\<lambda>_ w'. length (av_raw_files (admin_document (w_admin w'))) = Suc MAX_FILES) (\<lambda>_ _. True) w"
proof -
  have slash: "leading_slash ''etc/trino/x '' = ''/etc/trino/x ''" by code_simp
  have norm: "normalised ''/etc/trino/x '' = ''/etc/trino/x''" by code_simp
  have others: "length (filter (\<lambda>q. q \<noteq> ''/etc/trino/x '') (dict_keys (av_raw_files full_of_files))) < MAX_FILES" by code_simp
  have more: "length (AList.update ''/etc/trino/x'' [] (av_raw_files full_of_files)) = Suc MAX_FILES" by code_simp
  show "length (av_raw_files full_of_files) = MAX_FILES" by code_simp
  show "wp (write_raw_file ([] :: (resource, unit, unit) section_ops list) s ''etc/trino/x '' [])
       (\<lambda>_ w'. length (av_raw_files (admin_document (w_admin w'))) = Suc MAX_FILES) (\<lambda>_ _. True) w"
  proof -
    let ?v = full_of_files and ?Q = "\<lambda>_ w'. length (av_raw_files (admin_document (w_admin w'))) = Suc MAX_FILES"
    have "wp (refuse_unusable ([] :: (resource, unit, unit) section_ops list) s ''/etc/trino/x '' n)
        (\<lambda>p _. p = ''/etc/trino/x'') (\<lambda>_ _. True) w" for n
      unfolding refuse_unusable_def Let_def norm by (auto intro: wp_ignore split: option.split)
    then have "wp (refuse_unusable ([] :: (resource, unit, unit) section_ops list) s ''/etc/trino/x '' n)
        (\<lambda>p. wp (bind_io (admin_save s (?v\<lparr>av_raw_files := AList.update p [] (av_raw_files ?v)\<rparr>)) (\<lambda>_. ret (p, length []))) ?Q (\<lambda>_ _. True))
        (\<lambda>_ _. True) w" for n
      by (rule wp_mono) (auto simp: more intro!: wp_mono [OF wp_admin_stored])
    then show ?thesis
      unfolding write_raw_file_def valid_body_def cluster_dep_def admin_load_def
      by (simp add: Let_def slash assms)
  qed
qed

section \<open>The full configuration\<close>

lemma keeps_record [keeps_intros]: "plain f \<Longrightarrow> within (keeps f) (candidate_record s before later cat act d)"
  by (auto simp: candidate_record_def intro!: keeps_intros split: option.split)

lemma keeps_save_admin: "within (keeps w_admin) (candidate_save s b c cat act d)"
proof -
  have "within (keeps w_admin) (\<lambda>w. (Inr (w_candidate w), w\<lparr>w_candidate := x\<rparr>))" for x
    by (rule keeps_pair) simp
  then show ?thesis
    by (auto simp: candidate_save_def refuse_if_too_large_def Let_def intro!: keeps_intros)
qed

lemma keeps_admin_candidate: "within (keeps w_candidate) (admin_save s v)"
proof -
  have "within (keeps w_candidate) (\<lambda>w. (Inr (w_admin w), w\<lparr>w_admin := x\<rparr>))" for x
    by (rule keeps_pair) simp
  then show ?thesis
    by (auto simp: admin_save_def admin_keep_def Let_def intro!: keeps_intros keeps_modify)
qed

text \<open>A save that returns has stored, whatever failed and was survived.\<close>

lemma wp_save_stored:
  fixes w :: "('r, 'e) world"
  shows "wp (candidate_save s b c cat act d) (\<lambda>_ w'. \<exists>now. w_candidate w' = Some (c\<lparr>ca_updated_at := Some now\<rparr>)) (\<lambda>_ _. True) w"
proof -
  let ?Q = "\<lambda>_ w'. \<exists>now. w_candidate w' = Some (c\<lparr>ca_updated_at := Some now\<rparr>)"
  have recorded: "wp (candidate_record s before later cat act d) ?Q (\<lambda>_ _. True) w1"
    if "w_candidate w1 = Some (c\<lparr>ca_updated_at := Some now\<rparr>)" for before later now and w1 :: "('r, 'e) world"
    by (rule wp_within [OF keeps_record [of w_candidate]]) (use that in \<open>auto simp: keeps_def\<close>)
  have "wp (mongo (\<lambda>w. (Inr (w_candidate w), w\<lparr>w_candidate := Some (c\<lparr>ca_updated_at := Some now\<rparr>)\<rparr>)))
      (\<lambda>previous. wp (candidate_record s (sections_of_document previous) (ca_sections c) cat act d) ?Q (\<lambda>_ _. True)) (\<lambda>_ _. True) w1"
    for now and w1 :: "('r, 'e) world"
    unfolding mongo_def wp_external by (auto simp: wp_def [of "\<lambda>w. (Inr (w_candidate w), _ w)"] intro!: recorded split: list.split fault.split)
  then show ?thesis
    unfolding candidate_save_def Let_def refuse_if_too_large_def
    by (auto intro: wp_ignore)
qed

lemma keeps_import_admin: "within (keeps w_admin) (candidate_replace s b ss)"
  by (auto simp: candidate_replace_def intro!: keeps_intros keeps_save_admin)

lemma wp_replace_stored:
  "wp (candidate_replace s b ss) (\<lambda>_ w'. w_admin w' = w_admin w \<and> (\<exists>c. w_candidate w' = Some c \<and> ca_sections c = ss))
    (\<lambda>_ w'. w_admin w' = w_admin w) w"
proof -
  have "wp (candidate_replace s b ss) (\<lambda>_ w'. \<exists>c. w_candidate w' = Some c \<and> ca_sections c = ss) (\<lambda>_ _. True) w"
    unfolding candidate_replace_def wp_bind
    by (rule wp_ignore) (auto intro!: wp_mono [OF wp_save_stored])
  then show ?thesis
    by (rule wp_mono [OF wp_within_and [OF keeps_import_admin]]) (auto simp: keeps_def)
qed

text \<open>The Admin values moved only if the document's Sections are staged.\<close>

definition sections_first :: "'r document \<Rightarrow> ('r, 'e) world \<Rightarrow> ('r, 'e) world \<Rightarrow> bool" where
  "sections_first d w w' \<longleftrightarrow> w_admin w' = w_admin w \<or> (\<exists>c. w_candidate w' = Some c \<and> ca_sections c = dm_sections d)"

text \<open>C27: A full configuration lands Sections first. Wherever the import stops, refused or by any failure of MongoDB,
  before or after a write took effect, the Admin values are never those of the document while the Candidate is not:
  an import cut short cannot leave enforcement switched against a configuration nobody imported.\<close>

theorem import_lands_sections_first:
  "sections_first d w (snd (import_configuration s b readers compiled d w))"
proof -
  have admin: "wp (admin_save s v) (\<lambda>_. sections_first d w) (\<lambda>_. sections_first d w) w1"
    if "\<exists>c. w_candidate w1 = Some c \<and> ca_sections c = dm_sections d" for v w1
    by (rule wp_within [OF keeps_admin_candidate]) (use that in \<open>auto simp: keeps_def sections_first_def\<close>)
  have "wp (candidate_replace s b (dm_sections d)) (\<lambda>c. wp (bind_io (admin_save s v) (\<lambda>a. ret (f c a))) (\<lambda>_. sections_first d w) (\<lambda>_. sections_first d w))
      (\<lambda>_. sections_first d w) w" for v f
    by (rule wp_mono [OF wp_replace_stored]) (auto intro!: wp_mono [OF admin] simp: sections_first_def)
  then have "wp (import_configuration s b readers compiled d) (\<lambda>_. sections_first d w) (\<lambda>_. sections_first d w) w"
    by (auto simp: import_configuration_def valid_body_def accepted_def Let_def validate_patterns_def sections_first_def [of d w w])
  then show ?thesis by (simp add: wp_world)
qed

section \<open>What the import does not check\<close>

lemma wp_admin_saved:
  fixes w :: "('r, 'e) world"
  assumes "w_mongo w = []" and "\<And>w'. w_mongo w' = [] \<Longrightarrow> w_admin w' = Some v \<Longrightarrow> w_candidate w' = w_candidate w \<Longrightarrow>
    w_applies w' = w_applies w \<Longrightarrow> Q v w'"
  shows "wp (admin_save s v) Q E w"
proof -
  let ?w = "w\<lparr>w_admin := Some v, w_admin_previous := Some (admin_document (w_admin w))\<rparr>"
  have "wp (audit_record_each s who None ens) (\<lambda>_. Q v) E ?w" for who ens
  proof (rule wp_record_each)
    fix w' assume b: "booked ?w (w_applies ?w) w'"
    note same = outside_fields [OF bookedD(3) [OF b]]
    show "Q v w'" by (rule assms(2)) (use bookedD [OF b] same in simp_all)
  qed (simp add: assms)
  then show ?thesis
    using assms(1) by (simp add: admin_save_def admin_keep_def actor_io_def Let_def wp_def [of "\<lambda>w. (Inr (w_admin w), w\<lparr>w_admin := Some v\<rparr>)"])
qed

text \<open>A document whose every check passes, on a Cluster with room for it.\<close>

definition acceptable :: "settings \<Rightarrow> 'r bson \<Rightarrow> 'r readers \<Rightarrow> (string \<Rightarrow> nat option) \<Rightarrow> 'r document \<Rightarrow> bool" where
  "acceptable s b readers compiled d \<longleftrightarrow> admin_document_ok d \<and> problems_with readers (dm_sections d) = []
     \<and> preserved_problems compiled (av_preserved_mappings (the (dm_admin d))) = []
     \<and> (\<forall>c. ca_sections c = dm_sections d \<longrightarrow> encoded_size b c \<le> st_candidate_max_bytes s)"

lemma wp_import_accepted:
  fixes w :: "('r, 'e) world"
  assumes "acceptable s b readers compiled d" and "w_mongo w = []"
  shows "wp (import_configuration s b readers compiled d)
    (\<lambda>_ w'. w_admin w' = dm_admin d \<and> w_applies w' = w_applies w \<and> (\<exists>c. w_candidate w' = Some c \<and> ca_sections c = dm_sections d))
    (\<lambda>_ _. False) w"
proof -
  obtain v where v: "dm_admin d = Some v"
    using assms(1) by (auto simp: acceptable_def admin_document_ok_def split: option.splits)
  let ?Q = "\<lambda>_ w'. w_admin w' = Some v \<and> w_applies w' = w_applies w \<and> (\<exists>c. w_candidate w' = Some c \<and> ca_sections c = dm_sections d)"
  let ?fresh = "\<lparr>ca_base = map_option sn_number (latest (w_snapshots w)), ca_sections = dm_sections d, ca_updated_at = None\<rparr>"
  have "wp (candidate_save s b ?fresh (Some PIPELINE_CATEGORY) (Some Imported) None)
      (\<lambda>c. wp (bind_io (admin_save s v) (\<lambda>a. ret \<lparr>cg_base = ca_base c, cg_sections = ca_sections c, cg_admin = a\<rparr>)) ?Q (\<lambda>_ _. False))
      (\<lambda>_ _. False) w"
  proof (rule wp_candidate_saved [OF assms(2)])
    fix now w1 assume b: "booked (w\<lparr>w_candidate := Some (?fresh\<lparr>ca_updated_at := Some now\<rparr>)\<rparr>) (w_applies w) w1"
    note same = outside_fields [OF bookedD(3) [OF b]]
    show "wp (bind_io (admin_save s v) (\<lambda>a. ret \<lparr>cg_base = ca_base (?fresh\<lparr>ca_updated_at := Some now\<rparr>),
        cg_sections = ca_sections (?fresh\<lparr>ca_updated_at := Some now\<rparr>), cg_admin = a\<rparr>)) ?Q (\<lambda>_ _. False) w1"
      unfolding wp_bind by (rule wp_admin_saved) (use bookedD [OF b] same in simp_all)
  next
    fix now :: nat
    assume "st_candidate_max_bytes s < encoded_size b (?fresh\<lparr>ca_updated_at := Some now\<rparr>)"
    moreover have "encoded_size b (?fresh\<lparr>ca_updated_at := Some now\<rparr>) \<le> st_candidate_max_bytes s"
      using assms(1) by (simp add: acceptable_def)
    ultimately show False by simp
  qed
  then show ?thesis
    using assms v by (simp add: import_configuration_def acceptable_def valid_body_def accepted_def validate_patterns_def
        candidate_replace_def latest_io_def)
qed

text \<open>The import of a full configuration takes raw files that writing one refuses. For a document every check of the
  import accepts, whatever raw files it carries, the import makes its Admin values the Cluster's; the same file, at a
  path a Section generates, is refused when it is written as a raw file, with the Admin values as they were.\<close>

theorem import_takes_any_raw_file:
  fixes w :: "('r, 'e) world" and registered :: "('r, 'p, 'e) section_ops list"
  assumes "acceptable s b readers compiled d" and "w_mongo w = []"
    and "path \<in> set (dict_keys (av_raw_files (the (dm_admin d))))"
    and "Raw_Files.owner_of registered s (normalised (leading_slash path)) \<noteq> None"
  shows "wp (import_configuration s b readers compiled d)
      (\<lambda>_ w'. w_admin w' = dm_admin d \<and> path \<in> set (dict_keys (av_raw_files (admin_document (w_admin w'))))) (\<lambda>_ _. False) w
    \<and> wp (write_raw_file registered s path content) (\<lambda>_ _. False) (\<lambda>_ w'. w_admin w' = w_admin w) w"
proof
  have "dm_admin d \<noteq> None" using assms(1) by (auto simp: acceptable_def admin_document_ok_def split: option.splits)
  then show "wp (import_configuration s b readers compiled d)
      (\<lambda>_ w'. w_admin w' = dm_admin d \<and> path \<in> set (dict_keys (av_raw_files (admin_document (w_admin w'))))) (\<lambda>_ _. False) w"
    using assms(3) by (intro wp_mono [OF wp_import_accepted [OF assms(1,2)]]) auto
  show "wp (write_raw_file registered s path content) (\<lambda>_ _. False) (\<lambda>_ w'. w_admin w' = w_admin w) w"
    using assms(2,4) by (auto simp: write_raw_file_def valid_body_def wp_cluster_dep refuse_unusable_def Let_def split: option.split)
qed

text \<open>A document with one raw file inside the directory of the access rules.\<close>

definition demo_rules :: string where "demo_rules = ''/etc/trino/access-control/rules.json''"

definition demo_document :: "resource document" where
  "demo_document = of_cluster None empty_sections (default_admin\<lparr>av_raw_files := [(demo_rules, [])]\<rparr>)"

lemma demo_acceptable: "acceptable demo_settings demo_sizes (\<lambda>_ _. []) compiled demo_document"
proof -
  have "problems_with (\<lambda>_ _. []) (empty_sections :: resource sections) = []" by code_simp
  then show ?thesis
    by (simp add: acceptable_def demo_document_def of_cluster_def admin_document_ok_def default_admin_def demo_sizes_def preserved_problems_def)
qed

lemma demo_owned: "Raw_Files.owner_of (REGISTERED demo_libs :: 'e the_section list) demo_settings (normalised (leading_slash demo_rules)) \<noteq> None"
proof -
  have norm: "normalised (leading_slash demo_rules) = demo_rules" by code_simp
  have "is_relative_to (posix demo_rules) (posix ACCESS_DIR)" by code_simp
  then have "claims_path demo_rules (hd (permissions_coordinator_files demo_settings))"
    by (simp add: permissions_coordinator_files_def claims_path_def)
  moreover have "hd (permissions_coordinator_files demo_settings) \<in> set (all_specs (REGISTERED demo_libs :: 'e the_section list) demo_settings)"
    by (simp add: all_specs_def REGISTERED_def permissions_section_def permissions_coordinator_files_def file_section_def)
  ultimately show ?thesis
    by (auto simp: norm Raw_Files.owner_of_def find_None_iff)
qed

theorem import_takes_any_raw_file_witness:
  "let w = new_install () :: (resource, unit) world; d = demo_document; registered = REGISTERED demo_libs :: unit the_section list in
   wp (import_configuration demo_settings demo_sizes (\<lambda>_ _. []) (\<lambda>_. None) d)
      (\<lambda>_ w'. w_admin w' = dm_admin d \<and> demo_rules \<in> set (dict_keys (av_raw_files (admin_document (w_admin w'))))) (\<lambda>_ _. False) w
    \<and> wp (write_raw_file registered demo_settings demo_rules ''{}'') (\<lambda>_ _. False) (\<lambda>_ w'. w_admin w' = w_admin w) w"
  unfolding Let_def
proof (rule import_takes_any_raw_file [OF demo_acceptable])
  show "demo_rules \<in> set (dict_keys (av_raw_files (the (dm_admin demo_document))))"
    by (simp add: demo_document_def of_cluster_def)
qed (simp_all add: demo_owned new_install_def)

text \<open>C39: The import of a full configuration passes the freeze. While an Apply is in flight, an Admin's import replaces the
  shared Candidate; the Operator's import of the same Sections is refused as a conflict.\<close>

theorem import_ignores_the_freeze:
  fixes w :: "('r, 'e) world"
  assumes "acceptable s b readers compiled d" and "w_mongo w = []" and "w_maintenance w = None"
    and "in_flight (w_applies w) = Some r" and "st_auth_mode s = No_Auth"
  shows "wp (admin_mutation_route ab s rq (import_configuration s b readers compiled d))
      (\<lambda>_ w'. in_flight (w_applies w') = Some r \<and> (\<exists>c. w_candidate w' = Some c \<and> ca_sections c = dm_sections d)) (\<lambda>_ _. False) w
    \<and> wp (operator_route ab s rq (import_candidate s b sos readers (d\<lparr>dm_admin := None\<rparr>)))
      (\<lambda>_ _. False) (\<lambda>e w'. \<exists>m. e = Raised Conflict m \<and> w_candidate w' = w_candidate w) w"
  using assms(2-5)
  by (auto simp: admin_mutation_route_def admin_route_def admin_only_def caller_def acting_as_def is_admin_def NOBODY_def
      mutations_enabled_def maintenance_get_def not_engaged_def operator_route_def signed_in_route_def authenticated_def
      operator_mutation_allowed_def in_flight_io_def simp del: in_flight_None_iff
      intro!: wp_mono [OF wp_import_accepted [OF assms(1)]])

text \<open>An Apply in flight, on an install without sign-in.\<close>

theorem import_ignores_the_freeze_witness:
  "let r = new_record ''apl_7'' 3 None; w = (new_install ())\<lparr>w_applies := [r]\<rparr> :: (resource, unit) world; d = demo_document in
   wp (admin_mutation_route demo_auth demo_settings demo_request (import_configuration demo_settings demo_sizes (\<lambda>_ _. []) (\<lambda>_. None) d))
      (\<lambda>_ w'. in_flight (w_applies w') = Some r \<and> (\<exists>c. w_candidate w' = Some c \<and> ca_sections c = dm_sections d)) (\<lambda>_ _. False) w
    \<and> wp (operator_route demo_auth demo_settings demo_request (import_candidate demo_settings demo_sizes (REGISTERED demo_libs :: unit the_section list) (\<lambda>_ _. []) (d\<lparr>dm_admin := None\<rparr>)))
      (\<lambda>_ _. False) (\<lambda>e w'. \<exists>m. e = Raised Conflict m \<and> w_candidate w' = w_candidate w) w"
  unfolding Let_def
proof (rule import_ignores_the_freeze [OF demo_acceptable])
  show "in_flight (w_applies ((new_install ())\<lparr>w_applies := [new_record ''apl_7'' 3 None]\<rparr> :: (resource, unit) world)) = Some (new_record ''apl_7'' 3 None)"
    by (simp add: in_flight_def new_record_def record_in_flight_def TERMINAL_def)
qed (simp_all add: new_install_def demo_settings_def)

end
