(* ===== verification/Cursors.thy ===== *)
theory Cursors
  imports Posix_Path Pages
begin

text \<open>
  The text of a page's cursor (\<open>encode_cursor\<close> and \<open>decode_cursor\<close> of \<open>app/api/pages.py\<close>): the parts of a
  sort key, joined and written in base64 without padding. Text is held here as the bytes of its
  UTF-8 encoding, so \<open>str.encode\<close> changes nothing and \<open>bytes.decode\<close> checks that the bytes are
  UTF-8. Base64 is the standard library's: \<open>binascii.b2a_base64\<close>, and \<open>binascii.a2b_base64\<close> as it
  reads when it is not asked to be strict, skipping what is not of its alphabet.
\<close>

section \<open>Base64\<close>

definition ALPHABET64 :: string where
  "ALPHABET64 = ''ABCDEFGHIJKLMNOPQRSTUVWXYZabcdefghijklmnopqrstuvwxyz0123456789-_''"

definition digit64 :: "nat \<Rightarrow> char" where
  "digit64 n = ALPHABET64 ! n"

fun b2a :: "nat list \<Rightarrow> string" where
  "b2a [] = []"
| "b2a [a] = [digit64 (a div 4), digit64 (a mod 4 * 16), CHR ''='', CHR ''='']"
| "b2a [a, b] = [digit64 (a div 4), digit64 (a mod 4 * 16 + b div 16), digit64 (b mod 16 * 4), CHR ''='']"
| "b2a (a # b # c # bs) = digit64 (a div 4) # digit64 (a mod 4 * 16 + b div 16)
     # digit64 (b mod 16 * 4 + c div 64) # digit64 (c mod 64) # b2a bs"

text \<open>\<open>urlsafe_b64decode\<close> translates two characters; those of the common alphabet stay readable.\<close>

definition translated :: "char \<Rightarrow> char" where
  "translated c = (if c = CHR ''+'' then CHR ''-'' else if c = CHR ''/'' then CHR ''_'' else c)"

fun index_in :: "'a \<Rightarrow> 'a list \<Rightarrow> nat option" where
  "index_in x [] = None"
| "index_in x (y # ys) = (if x = y then Some 0 else map_option Suc (index_in x ys))"

definition value64 :: "char \<Rightarrow> nat option" where
  "value64 c = index_in (translated c) ALPHABET64"

text \<open>The position in the group of four, what is left of the last digit, and the padding seen since.\<close>

fun a2b :: "nat \<Rightarrow> nat \<Rightarrow> nat \<Rightarrow> string \<Rightarrow> nat list option" where
  "a2b quad left pads [] = (if quad = 0 then Some [] else None)"
| "a2b quad left pads (c # cs) =
     (if c = CHR ''='' then
        if quad < 2 then a2b quad left pads cs
        else if 4 \<le> quad + Suc pads then Some [] else a2b quad left (Suc pads) cs
      else case value64 c of
        None \<Rightarrow> a2b quad left pads cs
      | Some v \<Rightarrow>
          if quad = 0 then a2b 1 v 0 cs
          else if quad = 1 then map_option ((#) (left * 4 + v div 16)) (a2b 2 (v mod 16) 0 cs)
          else if quad = 2 then map_option ((#) (left * 16 + v div 4)) (a2b 3 (v mod 4) 0 cs)
          else map_option ((#) (left * 64 + v)) (a2b 0 0 0 cs))"

section \<open>UTF-8\<close>

text \<open>The bounds of the byte after a leading byte, and how many continuation bytes follow that one.\<close>

definition lead :: "nat \<Rightarrow> (nat \<times> nat \<times> nat) option" where
  "lead b = (if 194 \<le> b \<and> b \<le> 223 then Some (128, 191, 0)
     else if b = 224 then Some (160, 191, 1) else if b = 237 then Some (128, 159, 1)
     else if 225 \<le> b \<and> b \<le> 239 then Some (128, 191, 1)
     else if b = 240 then Some (144, 191, 2) else if b = 244 then Some (128, 143, 2)
     else if 241 \<le> b \<and> b \<le> 243 then Some (128, 191, 2) else None)"

definition continuation :: "nat \<Rightarrow> bool" where
  "continuation b \<longleftrightarrow> 128 \<le> b \<and> b \<le> 191"

fun utf8 :: "nat list \<Rightarrow> bool" where
  "utf8 [] = True"
| "utf8 (b # bs) = (if b < 128 then utf8 bs else case lead b of None \<Rightarrow> False
     | Some (lo, hi, n) \<Rightarrow> (case bs of [] \<Rightarrow> False
        | c # cs \<Rightarrow> lo \<le> c \<and> c \<le> hi \<and> n \<le> length cs \<and> list_all continuation (take n cs) \<and> utf8 (drop n cs)))"

definition bytes_of :: "string \<Rightarrow> nat list" where "bytes_of = map of_char"

definition text_of :: "nat list \<Rightarrow> string" where "text_of = map char_of"

definition is_text :: "string \<Rightarrow> bool" where "is_text s = utf8 (bytes_of s)"

section \<open>Cursors\<close>

definition CURSOR_SEPARATOR :: char where "CURSOR_SEPARATOR = CHR 0x1F"

definition rstrip_pads :: "string \<Rightarrow> string" where
  "rstrip_pads s = rev (dropWhile ((=) (CHR ''='')) (rev s))"

definition encode_cursor :: "string list \<Rightarrow> string" where
  "encode_cursor parts = rstrip_pads (b2a (bytes_of (join_with [CURSOR_SEPARATOR] parts)))"

text \<open>A text that is not ASCII is refused before it is read, as a \<open>ValueError\<close>.\<close>

definition padded :: "string \<Rightarrow> string" where
  "padded cursor = cursor @ replicate ((4 - length cursor mod 4) mod 4) (CHR ''='')"

definition decode_cursor :: "string \<Rightarrow> nat \<Rightarrow> exn + string list" where
  "decode_cursor cursor expected = (let bad = Inl (Raised BadCursor cursor) in
     if list_ex (\<lambda>c. 128 \<le> (of_char c :: nat)) cursor then bad
     else case a2b 0 0 0 (padded cursor) of
       None \<Rightarrow> bad
     | Some bs \<Rightarrow> if \<not> utf8 bs then bad
         else let parts = split_on CURSOR_SEPARATOR (text_of bs) in
           if length parts \<noteq> expected then bad else Inr parts)"

section \<open>Reading back what was written\<close>

lemma digits_read: "list_all (\<lambda>n. value64 (digit64 n) = Some n \<and> digit64 n \<noteq> CHR ''='' \<and> of_char (digit64 n) < (128 :: nat)) [0..<64]"
  by code_simp

lemma digit64:
  assumes "n < 64"
  shows "value64 (digit64 n) = Some n" and "digit64 n \<noteq> CHR ''=''" and "of_char (digit64 n) < (128 :: nat)"
  using digits_read assms by (auto simp: list_all_iff)

text \<open>What is left of a group after its padding is taken away, and what \<open>rstrip\<close> leaves.\<close>

fun digits :: "nat list \<Rightarrow> string" where
  "digits [] = []"
| "digits [a] = [digit64 (a div 4), digit64 (a mod 4 * 16)]"
| "digits [a, b] = [digit64 (a div 4), digit64 (a mod 4 * 16 + b div 16), digit64 (b mod 16 * 4)]"
| "digits (a # b # c # bs) = digit64 (a div 4) # digit64 (a mod 4 * 16 + b div 16)
     # digit64 (b mod 16 * 4 + c div 64) # digit64 (c mod 64) # digits bs"

definition bytewise :: "nat list \<Rightarrow> bool" where "bytewise bs \<longleftrightarrow> (\<forall>b \<in> set bs. b < 256)"

lemma sextets:
  fixes a b c :: nat
  assumes "a < 256" and "b < 256" and "c < 256"
  shows "a div 4 < 64" and "a mod 4 * 16 < 64" and "a mod 4 * 16 + b div 16 < 64" and "b mod 16 * 4 < 64"
    and "b mod 16 * 4 + c div 64 < 64" and "c mod 64 < 64"
  using assms by (simp_all add: less_mult_imp_div_less)

lemma bytewise_Cons [simp]: "bytewise (b # bs) \<longleftrightarrow> b < 256 \<and> bytewise bs" "bytewise []"
  by (auto simp: bytewise_def)

lemma bytewise_bytes_of: "bytewise (bytes_of s)"
  by (auto simp: bytewise_def bytes_of_def)

lemma digits_no_pad: "bytewise bs \<Longrightarrow> CHR ''='' \<notin> set (digits bs)"
  by (induction bs rule: digits.induct) (auto simp: sextets digit64(2) [symmetric])

lemma digits_ascii: "bytewise bs \<Longrightarrow> \<forall>c \<in> set (digits bs). of_char c < (128 :: nat)"
  by (induction bs rule: digits.induct) (auto simp: sextets digit64)

lemma b2a_digits: "\<exists>k < 4. b2a bs = digits bs @ replicate k (CHR ''='') \<and> 4 dvd length (digits bs) + k"
proof (induction bs rule: b2a.induct)
  case (4 a b c bs)
  then obtain k where k: "k < 4" "b2a bs = digits bs @ replicate k (CHR ''='')" "4 dvd length (digits bs) + k" by auto
  have "length (digits (a # b # c # bs)) + k = (length (digits bs) + k) + 4" by simp
  then have "4 dvd length (digits (a # b # c # bs)) + k" using k(3) by (simp only: dvd_add_triv_right_iff)
  then show ?case using k(1,2) by auto
next
  case 1
  show ?case by (rule exI [of _ 0]) simp
next
  case (2 a)
  show ?case by (rule exI [of _ "Suc (Suc 0)"], simp, presburger)
next
  case (3 a b)
  have "(4 :: nat) dvd Suc (Suc (Suc (Suc 0)))" by presburger
  then show ?case by (intro exI [of _ 1]) simp
qed

lemma dropWhile_pads: "dropWhile ((=) c) (replicate k c @ xs) = dropWhile ((=) c) xs"
  by (induction k) auto

lemma rstrip_pads_append: "CHR ''='' \<notin> set s \<Longrightarrow> rstrip_pads (s @ replicate k (CHR ''='')) = s"
  by (cases s rule: rev_cases) (auto simp: rstrip_pads_def dropWhile_pads)

lemma pads_needed:
  assumes "k < 4" and "4 dvd n + k"
  shows "(4 - n mod 4) mod 4 = (k :: nat)"
proof -
  have m: "n mod 4 < 4" "(n mod 4 + k) mod 4 = 0"
    using assms(2) by (simp_all add: mod_add_left_eq)
  have "n mod 4 = 0 \<or> n mod 4 = 1 \<or> n mod 4 = 2 \<or> n mod 4 = 3" "k = 0 \<or> k = 1 \<or> k = 2 \<or> k = 3"
    using m(1) assms(1) by linarith+
  then show ?thesis using m(2) by (elim disjE) simp_all
qed

lemma padded_encoded:
  assumes "bytewise bs"
  shows "padded (rstrip_pads (b2a bs)) = b2a bs"
proof -
  obtain k where k: "k < 4" "b2a bs = digits bs @ replicate k (CHR ''='')" "4 dvd length (digits bs) + k"
    using b2a_digits [of bs] by auto
  show ?thesis
    unfolding k(2) rstrip_pads_append [OF digits_no_pad [OF assms]] padded_def pads_needed [OF k(1,3)] ..
qed

lemma high_bits:
  fixes b c :: nat
  assumes "b < 256" and "c < 256"
  shows "b div 16 mod 16 = b div 16" and "b div 16 div 16 = 0" and "c div 64 mod 4 = c div 64" and "c div 64 div 4 = 0"
    and "b div 16 * 16 + b mod 16 = b" and "c div 64 * 64 + c mod 64 = c"
  using assms by (simp_all add: less_mult_imp_div_less)

lemma a2b_b2a: "bytewise bs \<Longrightarrow> a2b 0 0 p (b2a bs) = Some bs"
proof (induction bs arbitrary: p rule: b2a.induct)
  case (2 a)
  then show ?case using sextets [of a 0 0] by (simp add: digit64(1,2))
next
  case (3 a b)
  then show ?case using sextets [of a b 0] high_bits [of b 0] by (simp add: digit64(1,2))
next
  case (4 a b c bs)
  then show ?case using sextets [of a b c] high_bits [of b c] by (simp add: digit64(1,2), simp add: less_mult_imp_div_less)
qed simp

section \<open>The text of a cursor\<close>

lemma utf8_append: "utf8 a \<Longrightarrow> utf8 (a @ b) = utf8 b"
proof (induction a rule: utf8.induct)
  case (2 x bs)
  show ?case
  proof (cases "x < 128")
    case False
    then obtain lo hi n c cs where "lead x = Some (lo, hi, n)" "bs = c # cs" "lo \<le> c" "c \<le> hi" "n \<le> length cs"
        "list_all continuation (take n cs)" "utf8 (drop n cs)"
      using "2.prems" by (cases bs) (auto split: option.splits)
    then show ?thesis using "2.IH"(2) [OF False] False by simp
  qed (use 2 in simp)
qed simp

lemma utf8_join: "\<forall>p \<in> set ps. is_text p \<Longrightarrow> utf8 (bytes_of (join_with [CURSOR_SEPARATOR] ps))"
proof (induction ps)
  case (Cons p ps)
  then show ?case
    by (cases ps) (simp_all add: bytes_of_def is_text_def utf8_append CURSOR_SEPARATOR_def)
qed (simp add: bytes_of_def)

lemma text_of_bytes_of [simp]: "text_of (bytes_of s) = s"
  by (simp add: text_of_def bytes_of_def comp_def)

lemma cursor_reads:
  assumes "parts \<noteq> []" and "\<forall>p \<in> set parts. is_text p \<and> CURSOR_SEPARATOR \<notin> set p"
  shows "decode_cursor (encode_cursor parts) n =
      (if n = length parts then Inr parts else Inl (Raised BadCursor (encode_cursor parts)))"
proof -
  let ?bs = "bytes_of (join_with [CURSOR_SEPARATOR] parts)"
  obtain k where "b2a ?bs = digits ?bs @ replicate k (CHR ''='')" using b2a_digits [of ?bs] by auto
  then have cursor: "encode_cursor parts = digits ?bs"
    by (simp add: encode_cursor_def rstrip_pads_append digits_no_pad bytewise_bytes_of)
  have ascii: "\<not> list_ex (\<lambda>c. 128 \<le> (of_char c :: nat)) (encode_cursor parts)"
    using digits_ascii [OF bytewise_bytes_of] by (auto simp: cursor list_ex_iff not_le)
  have again: "a2b 0 0 0 (padded (encode_cursor parts)) = Some ?bs"
    by (simp add: encode_cursor_def padded_encoded a2b_b2a bytewise_bytes_of)
  have "utf8 ?bs" using assms(2) by (simp add: utf8_join)
  moreover have "split_on CURSOR_SEPARATOR (text_of ?bs) = parts" using assms by (simp add: split_on_join)
  ultimately show ?thesis
    by (simp add: decode_cursor_def Let_def ascii again)
qed

text \<open>C33: A cursor is what it was made from. Whatever parts a page is cut at, as long as they are text without the
  separator, the cursor made of them is plain ASCII, is read back as exactly those parts where as many
  are expected, and is refused where another number of parts is: a cursor of another collection.\<close>

theorem cursor_roundtrip:
  assumes "parts \<noteq> []" and "\<forall>p \<in> set parts. is_text p \<and> CURSOR_SEPARATOR \<notin> set p"
  shows "decode_cursor (encode_cursor parts) n =
      (if n = length parts then Inr parts else Inl (Raised BadCursor (encode_cursor parts)))"
  by (rule cursor_reads [OF assms])

theorem cursor_roundtrip_witness:
  "\<forall>n. let parts = [''2026-03-01T09:30:00+00:00'', ''apl_0f3c''] in decode_cursor (encode_cursor parts) n =
     (if n = length parts then Inr parts else Inl (Raised BadCursor (encode_cursor parts)))"
  unfolding Let_def
proof (rule allI, rule cursor_roundtrip)
  have "list_all (\<lambda>p. is_text p \<and> list_all (\<lambda>c. c \<noteq> CURSOR_SEPARATOR) p) [''2026-03-01T09:30:00+00:00'', ''apl_0f3c'']" by code_simp
  then show "\<forall>p \<in> set [''2026-03-01T09:30:00+00:00'', ''apl_0f3c'']. is_text p \<and> CURSOR_SEPARATOR \<notin> set p"
    by (auto simp: list_all_iff)
qed simp

end
