(* ===== verification/Reads_Api.thy ===== *)
theory Reads_Api
  imports Cursors Section_Api Validations
begin

text \<open>
  The requests that read a history: the pages of Applies, Snapshots, Validations, audit events and
  tokens with their cursors as text, one Apply or Snapshot, the stream of an Apply's stages and the
  health endpoint (\<open>app/api/applies.py\<close>, \<open>snapshots.py\<close>, \<open>validations.py\<close>, \<open>audit.py\<close>, \<open>tokens.py\<close>,
  \<open>health.py\<close>, and the functions of the stores that read a cursor). \<open>datetime.isoformat\<close> and
  \<open>fromisoformat\<close> and what \<open>ObjectId\<close> accepts are parameters. A stream is followed over the
  readings its polls make of the record, whatever writes come between them.
\<close>

section \<open>Positions as text\<close>

record calendar =
  cal_iso :: "nat \<Rightarrow> string"
  cal_from_iso :: "string \<Rightarrow> nat option"
  cal_object_id :: "string \<Rightarrow> bool"

text \<open>\<open>_started_in\<close>, \<open>_created_in\<close> and \<open>_decode\<close>: the instant and the id a cursor names.\<close>

definition started_in :: "calendar \<Rightarrow> string \<Rightarrow> exn + (nat \<times> string)" where
  "started_in cal cursor = (case decode_cursor cursor 2 of Inl e \<Rightarrow> Inl e
     | Inr parts \<Rightarrow> (case cal_from_iso cal (parts ! 0) of None \<Rightarrow> Inl (Raised BadCursor cursor)
         | Some at \<Rightarrow> Inr (at, parts ! 1)))"

definition audit_position :: "calendar \<Rightarrow> string \<Rightarrow> exn + (nat \<times> string)" where
  "audit_position cal cursor = (case started_in cal cursor of Inl e \<Rightarrow> Inl e
     | Inr (at, ident) \<Rightarrow> if cal_object_id cal ident then Inr (at, ident) else Inl (Raised BadCursor cursor))"

definition cursor_of :: "calendar \<Rightarrow> nat \<times> string \<Rightarrow> string" where
  "cursor_of cal = (\<lambda>(at, ident). encode_cursor [cal_iso cal at, ident])"

text \<open>\<open>int(text)\<close>, of ASCII digits.\<close>

definition python_int :: "string \<Rightarrow> int option" where
  "python_int s = (let t = strip s;
     (sign, body) = (case t of [] \<Rightarrow> (1, t) | c # cs \<Rightarrow> if c = CHR ''-'' then (-1, cs) else if c = CHR ''+'' then (1, cs) else (1, t)) in
     if list_all (\<lambda>p. p \<noteq> []) (split_on (CHR ''_'') body)
     then map_option (\<lambda>n. sign * int n) (read_nat (filter (\<lambda>c. c \<noteq> CHR ''_'') body)) else None)"

definition number_in :: "string \<Rightarrow> exn + int" where
  "number_in cursor = (case decode_cursor cursor 1 of Inl e \<Rightarrow> Inl e
     | Inr parts \<Rightarrow> (case python_int (hd parts) of None \<Rightarrow> Inl (Raised BadCursor cursor) | Some n \<Rightarrow> Inr n))"

section \<open>The collections\<close>

definition bad_cursor :: exn where
  "bad_cursor = Raised UnprocessablePayload ''That `before` value did not come from a previous page's `next`. Omit it to start from the newest entries.''"

definition bad_audit_cursor :: exn where
  "bad_audit_cursor = Raised UnprocessablePayload ''That `before` value did not come from a previous page's `next`. Omit it to start from the newest events.''"

definition is_bad_cursor :: "exn \<Rightarrow> bool" where
  "is_bad_cursor e \<longleftrightarrow> (case e of Raised BadCursor _ \<Rightarrow> True | _ \<Rightarrow> False)"

text \<open>The bounds FastAPI checks, the query, and the refusal of a cursor. A cursor is read before MongoDB is asked.\<close>

definition page_request ::
  "exn \<Rightarrow> (string \<Rightarrow> exn + 'k) \<Rightarrow> ('k \<Rightarrow> string) \<Rightarrow> (('r, 'e) world \<Rightarrow> 'k option \<Rightarrow> 'a list \<times> 'k option) \<Rightarrow> int \<Rightarrow>
     string option \<Rightarrow> ('r, 'e, 'a list \<times> string option) act" where
  "page_request refusal position text page limit before = valid_body (1 \<le> limit \<and> limit \<le> MAX_LIMIT)
     (try_io is_bad_cursor
       (bind_io (case before of None \<Rightarrow> ret None | Some c \<Rightarrow> bind_io (lift_error (position c)) (\<lambda>k. ret (Some k))) (\<lambda>k.
        mongo (asks (\<lambda>w. map_prod id (map_option text) (page w k)))))
       (\<lambda>_. raise_io refusal))"

definition list_applies :: "calendar \<Rightarrow> int \<Rightarrow> string option \<Rightarrow> ('r, 'e, apply_record list \<times> string option) act" where
  "list_applies cal limit = page_request bad_cursor (started_in cal) (cursor_of cal) (\<lambda>w k. page_applies limit k (w_applies w)) limit"

definition validations_page :: "calendar \<Rightarrow> int \<Rightarrow> string option \<Rightarrow> ('r, 'e, validation_record list \<times> string option) act" where
  "validations_page cal limit = page_request bad_cursor (started_in cal) (cursor_of cal) (\<lambda>w k. page_validations limit k (w_validations w)) limit"

definition tokens_page :: "calendar \<Rightarrow> identity \<Rightarrow> int \<Rightarrow> string option \<Rightarrow> ('r, 'e, token list \<times> string option) act" where
  "tokens_page cal i limit = page_request bad_cursor (started_in cal) (cursor_of cal) (\<lambda>w k. page_tokens (id_subject i) limit k (w_tokens w)) limit"

definition list_snapshots :: "int \<Rightarrow> string option \<Rightarrow> ('r, 'e, 'r snapshot list \<times> string option) act" where
  "list_snapshots limit = page_request bad_cursor number_in (\<lambda>n. encode_cursor [show_int n])
     (\<lambda>w k. page_snapshots limit k (w_snapshots w)) limit"

definition list_events ::
  "calendar \<Rightarrow> category option \<Rightarrow> string option \<Rightarrow> nat option \<Rightarrow> nat option \<Rightarrow> int \<Rightarrow> string option \<Rightarrow>
     ('r, 'e, audit_event list \<times> string option) act" where
  "list_events cal category who since until limit = page_request bad_audit_cursor (audit_position cal) (cursor_of cal)
     (\<lambda>w k. page_audit category who since until limit k (w_audit w)) limit"

section \<open>One Apply, one Snapshot, and health\<close>

definition no_apply :: "string \<Rightarrow> exn" where
  "no_apply ident = Raised NotFound (''No Apply with id '' @ quoted ident @ ''.'')"

definition get_apply_request :: "string \<Rightarrow> ('r, 'e, apply_record) act" where
  "get_apply_request ident = bind_io (get_io ident) (\<lambda>r. case r of None \<Rightarrow> raise_io (no_apply ident) | Some r \<Rightarrow> ret r)"

definition get_snapshot_request :: "int \<Rightarrow> ('r, 'e, 'r snapshot) act" where
  "get_snapshot_request n = bind_io (get_snapshot_io n) (\<lambda>s. case s of
      None \<Rightarrow> raise_io (Raised NotFound (''No Snapshot numbered '' @ show_int n @ ''.'')) | Some s \<Rightarrow> ret s)"

definition ping :: "('r, 'e, bool) act" where
  "ping = try_io is_exception (bind_io (mongo (ret ())) (\<lambda>_. ret True)) (\<lambda>_. ret False)"

record health_report =
  hl_code :: nat
  hl_status :: string
  hl_mongo :: string

definition health :: "('r, 'e, health_report) act" where
  "health = bind_io ping (\<lambda>reachable. ret \<lparr>hl_code = (if reachable then 200 else 503),
     hl_status = (if reachable then ''ok'' else ''degraded''), hl_mongo = (if reachable then ''up'' else ''down'')\<rparr>)"

section \<open>The stream of an Apply\<close>

record stage_frame =
  fr_id :: int
  fr_stage :: stage
  fr_at :: nat
  fr_detail :: "string option"
  fr_failure_reason :: "string option"

text \<open>\<open>xs[i]\<close>: a negative index counts from the end. Out of range is an \<open>IndexError\<close>, a \<open>LookupError\<close>.\<close>

definition py_index :: "'a list \<Rightarrow> int \<Rightarrow> exn + 'a" where
  "py_index xs i = (let n = int (length xs) in
     if 0 \<le> i \<and> i < n then Inr (xs ! nat i) else if - n \<le> i \<and> i < 0 then Inr (xs ! nat (n + i))
     else Inl (Raised LookupError ''list index out of range''))"

definition frame_of :: "apply_record \<Rightarrow> int \<Rightarrow> exn + stage_frame" where
  "frame_of r i = (case py_index (ap_history r) i of Inl e \<Rightarrow> Inl e
     | Inr ev \<Rightarrow> Inr \<lparr>fr_id = i, fr_stage = ev_stage ev, fr_at = ev_at ev, fr_detail = ev_detail ev,
         fr_failure_reason = ap_failure_reason r\<rparr>)"

text \<open>How a stream stops: by itself, by an exception, or it is still open when the readings end.\<close>

datatype stream_end = Ended | Broken exn | Still_open

fun frames_from :: "apply_record \<Rightarrow> int list \<Rightarrow> stage_frame list \<times> exn option" where
  "frames_from r [] = ([], None)"
| "frames_from r (i # is) = (case frame_of r i of Inl e \<Rightarrow> ([], Some e)
     | Inr f \<Rightarrow> (let (fs, e) = frames_from r is in (f # fs, e)))"

fun stream :: "int \<Rightarrow> apply_record option list \<Rightarrow> stage_frame list \<times> stream_end" where
  "stream sent [] = ([], Still_open)"
| "stream sent (None # readings) = ([], Ended)"
| "stream sent (Some r # readings) = (let n = int (length (ap_history r)) in
     case frames_from r [sent..n - 1] of
       (fs, Some e) \<Rightarrow> (fs, Broken e)
     | (fs, None) \<Rightarrow> if \<not> record_in_flight r then (fs, Ended)
         else (let (rest, e) = stream (max sent n) readings in (fs @ rest, e)))"

text \<open>The header, read when the first frame is asked for.\<close>

definition events_after :: "string option \<Rightarrow> apply_record option list \<Rightarrow> stage_frame list \<times> stream_end" where
  "events_after last_event_id readings = (case last_event_id of None \<Rightarrow> stream 0 readings
     | Some s \<Rightarrow> (case python_int s of
         None \<Rightarrow> ([], Broken (Raised ValueError (''invalid literal for int() with base 10: '' @ quoted s)))
       | Some k \<Rightarrow> stream (k + 1) readings))"

definition stream_apply ::
  "string \<Rightarrow> string option \<Rightarrow> apply_record option list \<Rightarrow> ('r, 'e, stage_frame list \<times> stream_end) act" where
  "stream_apply ident last_event_id readings = bind_io (get_io ident) (\<lambda>r. case r of
      None \<Rightarrow> raise_io (no_apply ident) | Some _ \<Rightarrow> ret (events_after last_event_id readings))"

end
