(* ===== verification/Reads_Correct.thy ===== *)
theory Reads_Correct
  imports Reads_Api Store_Guarantees
begin

text \<open>
  What a client that follows the cursors reads, and what a client of the stage stream sees, also
  over a dropped connection.
\<close>

section \<open>Following the cursors\<close>

text \<open>A next page is asked for at a row of the collection.\<close>

lemma page_next_row: "page_of key limit before rows = (items, Some k) \<Longrightarrow> k \<in> key ` set rows"
proof -
  assume page: "page_of key limit before rows = (items, Some k)"
  define query where "query = (case before of None \<Rightarrow> rows | Some k \<Rightarrow> filter (\<lambda>r. key r < k) rows)"
  define n where "n = nat (bounded limit)"
  have "items = take n (take (n + 1) (rev (sort_key key query)))" "items \<noteq> []" "k = key (last items)"
    using page by (auto simp: page_of_def page_where_def Let_def query_def n_def split: if_splits)
  then have "set items \<subseteq> set query" by (auto dest: in_set_takeD)
  then have "last items \<in> set query" using last_in_set [OF \<open>items \<noteq> []\<close>] by blast
  moreover have "set query \<subseteq> set rows" by (auto simp: query_def split: option.split)
  ultimately show ?thesis using \<open>k = key (last items)\<close> by auto
qed

lemma walk_as_text:
  assumes "\<And>b. b = None \<or> (\<exists>k \<in> K. b = Some k) \<Longrightarrow> written (map_option text b) = map_prod id (map_option text) (page b)"
    and "\<And>b items k. page b = (items, Some k) \<Longrightarrow> k \<in> K"
  shows "b = None \<or> (\<exists>k \<in> K. b = Some k) \<Longrightarrow> walk written fuel (map_option text b) = walk page fuel b"
proof (induction fuel arbitrary: b)
  case (Suc fuel)
  obtain items nxt where p: "page b = (items, nxt)" by (cases "page b")
  show ?case
  proof (cases nxt)
    case (Some k)
    then have "k \<in> K" using p assms(2) by simp
    then show ?thesis using Suc.IH [of "Some k"] assms(1) [OF Suc.prems] by (simp add: p Some)
  qed (use assms(1) [OF Suc.prems] p in simp)
qed simp

definition storable :: "calendar \<Rightarrow> audit_event list \<Rightarrow> bool" where
  "storable cal db \<longleftrightarrow> (\<forall>e \<in> set db. cal_from_iso cal (cal_iso cal (au_at e)) = Some (au_at e) \<and> cal_object_id cal (au_id e)
     \<and> (\<forall>s \<in> {cal_iso cal (au_at e), au_id e}. is_text s \<and> CURSOR_SEPARATOR \<notin> set s))"

lemma audit_position_cursor:
  assumes "storable cal db" and "e \<in> set db"
  shows "audit_position cal (cursor_of cal (audit_key e)) = Inr (audit_key e)"
proof -
  have "decode_cursor (cursor_of cal (audit_key e)) 2 = Inr [cal_iso cal (au_at e), au_id e]"
    using cursor_reads [of "[cal_iso cal (au_at e), au_id e]" 2] assms
    by (auto simp: storable_def cursor_of_def audit_key_def)
  then show ?thesis
    using assms by (auto simp: audit_position_def started_in_def storable_def audit_key_def)
qed

text \<open>A client: the page in the answer, nothing where it is refused.\<close>

definition page_answered :: "(exn + ('a list \<times> string option)) \<times> 'w \<Rightarrow> 'a list \<times> string option" where
  "page_answered answer = (case fst answer of Inl _ \<Rightarrow> ([], None) | Inr p \<Rightarrow> p)"

text \<open>C32: A client that asks for the audit history and follows each answer's \<open>next\<close>, an opaque text it hands back
  unread, is never refused and reads every event its filters match exactly once, newest first, whatever
  page size within the bounds it asked for. Assumed: an instant reads back from its text, and MongoDB's
  identifiers are text that \<open>ObjectId\<close> accepts.\<close>

theorem audit_history_read_whole:
  fixes w :: "('r, 'e) world"
  assumes "w_mongo w = []" and "unique_events (w_audit w)" and "storable cal (w_audit w)" and "1 \<le> limit" and "limit \<le> MAX_LIMIT"
  shows "walk (\<lambda>b. page_answered (list_events cal category who since until limit b w)) (Suc (length (w_audit w))) None
    = Some (rev (sort_key audit_key (filter (audit_matches category who since until) (w_audit w))))"
proof -
  let ?rows = "filter (audit_matches category who since until) (w_audit w)"
  let ?page = "\<lambda>b. page_of audit_key limit b ?rows"
  let ?written = "\<lambda>b. page_answered (list_events cal category who since until limit b w)"
  have asked: "?written (map_option (cursor_of cal) b) = map_prod id (map_option (cursor_of cal)) (?page b)"
    if "b = None \<or> (\<exists>k \<in> audit_key ` set ?rows. b = Some k)" for b
    using that assms audit_position_cursor [OF assms(3)]
    by (auto simp: list_events_def page_request_def valid_body_def page_answered_def page_audit_def mongo_def external_def
        try_io_def bind_io_def ret_def lift_error_def asks_def split: prod.split)
  have "walk ?written (Suc (length (w_audit w))) (map_option (cursor_of cal) None) = walk ?page (Suc (length (w_audit w))) None"
    by (rule walk_as_text [where K = "audit_key ` set ?rows" and page = ?page]) (use asked page_next_row in \<open>blast+\<close>)
  also have "\<dots> = Some (rev (sort_key audit_key ?rows))"
    by (rule audit_pages.walk_rest [where xs = "[]"]) (use assms(2) in \<open>simp_all add: le_imp_less_Suc unique_events_def distinct_map_filter\<close>)
  finally show ?thesis by simp
qed

theorem audit_history_read_whole_witness:
  "let cal = \<lparr>cal_iso = show_nat, cal_from_iso = read_nat, cal_object_id = (\<lambda>s. length s = 1)\<rparr>;
      w = (new_install () :: (unit, unit) world)\<lparr>w_mongo := [], w_audit := [event_of SYSTEM_ACTOR ''a'' 5 None (mk_entry ADMIN_CATEGORY Engaged None),
        event_of SYSTEM_ACTOR ''b'' 5 None (mk_entry ADMIN_CATEGORY Released None)]\<rparr> in
   walk (\<lambda>b. page_answered (list_events cal None None None None 1 b w)) (Suc (length (w_audit w))) None
     = Some (rev (sort_key audit_key (filter (audit_matches None None None None) (w_audit w))))"
proof -
  have "is_text (show_nat 5)" "is_text ''a''" "is_text ''b''" "CURSOR_SEPARATOR \<notin> set (show_nat 5)" "CURSOR_SEPARATOR \<noteq> CHR ''a''"
    "CURSOR_SEPARATOR \<noteq> CHR ''b''"
    by code_simp+
  then show ?thesis
    unfolding Let_def
    by (intro audit_history_read_whole) (simp_all add: unique_events_def event_of_def storable_def MAX_LIMIT_def)
qed

section \<open>The stream of stages\<close>

text \<open>A later reading of an Apply has a longer history: every write of the store keeps it or adds to its end.\<close>

definition grows :: "apply_record \<Rightarrow> apply_record \<Rightarrow> bool" where
  "grows r r' \<longleftrightarrow> (\<exists>evs. ap_history r' = ap_history r @ evs)"

lemma grows_writes:
  "grows r r" "grows r (advance_record st detail now r)" "grows r (r\<lparr>ap_snapshot := n\<rparr>)" "grows r (r\<lparr>ap_warnings := ws\<rparr>)"
  "grows r (r\<lparr>ap_failure_reason := why\<rparr>)" "grows r (r\<lparr>ap_failure_reason := why, ap_operator_message := m\<rparr>)"
  "grows r (r\<lparr>ap_interrupted := b\<rparr>)" "grows r (r\<lparr>ap_rollback := o'\<rparr>)"
  by (simp_all add: grows_def advance_record_def)

lemma grows_trans: "grows a b \<Longrightarrow> grows b c \<Longrightarrow> grows a c"
  by (auto simp: grows_def)

lemma grows_last: "successively grows (r # rs) \<Longrightarrow> grows r (last (r # rs))"
  by (induction rs arbitrary: r) (auto simp: grows_writes(1) intro: grows_trans)

text \<open>The stages with their numbers, and what the frames say of them.\<close>

definition numbered_stages :: "int \<Rightarrow> stage_event list \<Rightarrow> (int \<times> stage \<times> nat \<times> string option) list" where
  "numbered_stages k evs = map (\<lambda>(i, ev). (i, ev_stage ev, ev_at ev, ev_detail ev)) (zip [k..k + int (length evs) - 1] evs)"

definition told :: "stage_frame list \<Rightarrow> (int \<times> stage \<times> nat \<times> string option) list" where
  "told = map (\<lambda>f. (fr_id f, fr_stage f, fr_at f, fr_detail f))"

lemma numbered_stages_append: "numbered_stages k (xs @ ys) = numbered_stages k xs @ numbered_stages (k + int (length xs)) ys"
proof (cases "ys = []")
  case False
  then have "[k..k + int (length xs + length ys) - 1] = [k..k + int (length xs) - 1] @ [k + int (length xs)..k + int (length xs + length ys) - 1]"
    by (intro upto_split1) (simp_all add: Suc_leI)
  then show ?thesis by (simp add: numbered_stages_def add.assoc)
qed (simp add: numbered_stages_def)

lemma told_append [simp]: "told (xs @ ys) = told xs @ told ys" "told [] = []"
  by (simp_all add: told_def)

lemma frames_from_range:
  assumes "0 \<le> k"
  shows "\<exists>fs. frames_from r [k..int (length (ap_history r)) - 1] = (fs, None) \<and> told fs = numbered_stages k (drop (nat k) (ap_history r))"
  using assms
proof (induction "nat (int (length (ap_history r)) - k)" arbitrary: k)
  case 0
  then show ?case by (simp add: told_def numbered_stages_def)
next
  case (Suc m)
  let ?n = "int (length (ap_history r))"
  have k: "k < ?n" "m = nat (?n - (k + 1))" using Suc.hyps(2) by linarith+
  obtain fs where fs: "frames_from r [k + 1..?n - 1] = (fs, None)" "told fs = numbered_stages (k + 1) (drop (nat (k + 1)) (ap_history r))"
    using Suc.hyps(1) [OF k(2)] Suc.prems by auto
  have split: "[k..?n - 1] = k # [k + 1..?n - 1]" using k(1) by (simp add: upto_rec1)
  have d: "drop (nat k) (ap_history r) = ap_history r ! nat k # drop (nat (k + 1)) (ap_history r)"
    using k(1) Suc.prems by (simp add: Cons_nth_drop_Suc [symmetric] nat_add_distrib)
  have f: "frame_of r k = Inr \<lparr>fr_id = k, fr_stage = ev_stage (ap_history r ! nat k), fr_at = ev_at (ap_history r ! nat k),
      fr_detail = ev_detail (ap_history r ! nat k), fr_failure_reason = ap_failure_reason r\<rparr>"
    using k(1) Suc.prems by (simp add: frame_of_def py_index_def)
  have "numbered_stages k (x # xs) = (k, ev_stage x, ev_at x, ev_detail x) # numbered_stages (k + 1) xs" for x xs
    using numbered_stages_append [of k "[x]" xs] by (simp add: numbered_stages_def)
  then show ?case using fs by (simp add: split f d told_def)
qed

lemma stream_tells:
  assumes "rs \<noteq> []" and "successively grows rs" and "\<forall>r \<in> set (butlast rs). record_in_flight r"
    and "0 \<le> k" and "k \<le> int (length (ap_history (hd rs)))"
  shows "told (fst (stream k (map Some rs))) = numbered_stages k (drop (nat k) (ap_history (last rs)))
    \<and> snd (stream k (map Some rs)) = (if record_in_flight (last rs) then Still_open else Ended)"
  using assms
proof (induction rs arbitrary: k)
  case (Cons r rs)
  let ?n = "int (length (ap_history r))"
  obtain fs where fs: "frames_from r [k..?n - 1] = (fs, None)" "told fs = numbered_stages k (drop (nat k) (ap_history r))"
    using frames_from_range [OF Cons.prems(4)] by blast
  show ?case
  proof (cases "rs = []")
    case True
    then show ?thesis using fs by (simp add: Let_def)
  next
    case False
    have m: "max k ?n = ?n" using Cons.prems(5) by simp
    obtain evs where last: "ap_history (last rs) = ap_history r @ evs"
      using grows_last [of r rs] Cons.prems(2) False by (auto simp: grows_def)
    have first: "grows r (hd rs)" "successively grows rs"
      using Cons.prems(2) False by (cases rs; simp)+
    then have "?n \<le> int (length (ap_history (hd rs)))"
      by (auto simp: grows_def)
    then have ih: "told (fst (stream ?n (map Some rs))) = numbered_stages ?n evs"
        "snd (stream ?n (map Some rs)) = (if record_in_flight (last rs) then Still_open else Ended)"
      using Cons.IH [of ?n] Cons.prems(3) False last first(2) by auto
    have "numbered_stages k (drop (nat k) (ap_history r @ evs)) = numbered_stages k (drop (nat k) (ap_history r)) @ numbered_stages ?n evs"
      using Cons.prems(4,5) by (simp add: numbered_stages_append nat_le_iff)
    moreover have "record_in_flight r" using Cons.prems(3) False by simp
    ultimately show ?thesis
      using fs ih last False by (cases "stream ?n (map Some rs)") (simp add: Let_def m)
  qed
qed simp

text \<open>The id a client hands back reads as the number it was.\<close>

lemma digits_plain: "list_all (\<lambda>d. \<not> is_space (digit d) \<and> digit d \<notin> {CHR ''_'', CHR ''-'', CHR ''+''}) [0..<10]"
  by code_simp

lemma show_nat_plain: "c \<in> set (show_nat n) \<Longrightarrow> \<not> is_space c \<and> c \<notin> {CHR ''_'', CHR ''-'', CHR ''+''}"
proof (induction n rule: show_nat.induct)
  case (1 n)
  have "\<not> is_space (digit d) \<and> digit d \<notin> {CHR ''_'', CHR ''-'', CHR ''+''}" if "d < 10" for d
    using digits_plain that by (simp add: list_all_iff)
  then show ?case
    using 1 show_nat.simps [of n] by (cases "n < 10") auto
qed

lemma python_int_show: "python_int (show_nat n) = Some (int n)"
proof -
  have ne: "show_nat n \<noteq> []" by simp
  have s: "strip (show_nat n) = show_nat n"
    by (rule strip_id) (use show_nat_plain [of "hd (show_nat n)" n] show_nat_plain [of "last (show_nat n)" n] in auto)
  have u: "CHR ''_'' \<notin> set (show_nat n)" using show_nat_plain by blast
  then have f: "filter (\<lambda>c. c \<noteq> CHR ''_'') (show_nat n) = show_nat n" by (auto simp: filter_id_conv)
  obtain c cs where c: "show_nat n = c # cs" using ne by (cases "show_nat n") auto
  have "c \<noteq> CHR ''-''" "c \<noteq> CHR ''+''" using show_nat_plain [of c n] c by auto
  then have "(case show_nat n of [] \<Rightarrow> (1, show_nat n) | c # cs \<Rightarrow> if c = CHR ''-'' then (-1, cs) else if c = CHR ''+'' then (1, cs) else (1, show_nat n))
      = (1 :: int, show_nat n)" by (simp add: c)
  then show ?thesis
    using split_on_id [OF u] f by (simp add: python_int_def s)
qed

text \<open>C35: A dropped connection leaves no blank in the timeline. A client that reads the stream of an Apply, loses the
  connection after any number of polls, and comes back with the id of the last frame it saw, has in the end
  been told every stage of the Apply's history in its order, each once, and no other; and the second stream
  ends by itself when the Apply has.\<close>

theorem stream_resumes:
  assumes "polled \<noteq> []" and "again \<noteq> []" and "successively grows (polled @ again)"
    and "\<forall>r \<in> set (butlast (polled @ again)). record_in_flight r" and "ap_history (hd polled) \<noteq> []"
  shows "let first = fst (events_after None (map Some polled));
      second = events_after (Some (show_int (fr_id (last first)))) (map Some again) in
    told (first @ fst second) = numbered_stages 0 (ap_history (last again))
    \<and> snd second = (if record_in_flight (last again) then Still_open else Ended)"
proof -
  let ?first = "fst (stream 0 (map Some polled))" and ?n = "int (length (ap_history (last polled)))"
  have parts: "successively grows polled" "successively grows again" "grows (last polled) (hd again)"
    using assms(1-3) by (auto simp: successively_append_iff)
  have polling: "\<forall>r \<in> set (butlast polled). record_in_flight r" "\<forall>r \<in> set (butlast again). record_in_flight r"
    using assms(2,4) in_set_butlastD by (fastforce simp: butlast_append)+
  have first: "told ?first = numbered_stages 0 (ap_history (last polled))"
    using stream_tells [OF assms(1) parts(1) polling(1), of 0] by simp
  have "grows (hd polled) (last polled)" using grows_last [of "hd polled" "tl polled"] parts(1) assms(1) by simp
  then have h: "ap_history (last polled) \<noteq> []" using assms(5) by (auto simp: grows_def)
  have "map fst (told ?first) = [0..?n - 1]"
    by (simp add: first numbered_stages_def comp_def case_prod_beta)
  then have "map fr_id ?first = [0..?n - 1]" by (simp add: told_def comp_def)
  moreover have "[0..?n - 1] \<noteq> []" "last [0..?n - 1] = ?n - 1" using h by (cases "ap_history (last polled)", simp_all add: upto_rec2)+
  ultimately have "fr_id (last ?first) = ?n - 1"
    by (metis last_map map_is_Nil_conv)
  moreover have "0 \<le> ?n - 1" using h by (cases "ap_history (last polled)") auto
  ultimately have again: "events_after (Some (show_int (fr_id (last ?first)))) rs = stream ?n rs" for rs
    by (simp add: events_after_def show_int_def python_int_show)
  obtain evs where evs: "ap_history (last again) = ap_history (last polled) @ evs"
    using grows_trans [OF parts(3)] grows_last [of "hd again" "tl again"] parts(2) assms(2) by (auto simp: grows_def)
  have "?n \<le> int (length (ap_history (hd again)))" using parts(3) by (auto simp: grows_def)
  then have second: "told (fst (stream ?n (map Some again))) = numbered_stages ?n evs"
      "snd (stream ?n (map Some again)) = (if record_in_flight (last again) then Still_open else Ended)"
    using stream_tells [OF assms(2) parts(2) polling(2), of ?n] evs by simp_all
  have none: "events_after None rs = stream 0 rs" for rs by (simp add: events_after_def)
  show ?thesis
    unfolding Let_def none again using first second evs by (simp add: numbered_stages_append)
qed

theorem stream_resumes_witness:
  "let r0 = new_record ''apl_7'' 3 None; r1 = advance_record APPLYING None 4 r0; r2 = advance_record FAILED (Some ''x'') 5 r1;
      first = fst (events_after None (map Some [r0, r1]));
      second = events_after (Some (show_int (fr_id (last first)))) (map Some [r1, r2]) in
    told (first @ fst second) = numbered_stages 0 (ap_history (last [r1, r2]))
    \<and> snd second = (if record_in_flight (last [r1, r2]) then Still_open else Ended)"
  unfolding Let_def
  by (rule stream_resumes [unfolded Let_def])
    (simp_all add: grows_writes record_in_flight_def TERMINAL_def, simp_all add: new_record_def advance_record_def)

end
