(* ===== verification/Log_Redaction.thy ===== *)
theory Log_Redaction
  imports Python_Text
begin

text \<open>
  What Apchi writes to its log (\<open>app/logging.py\<close>): the redaction of a record, the message, and the
  payload of the JSON formatter. The three patterns are scanned as Python's \<open>re.sub\<close> scans them,
  left to right, each match as long as its greedy parts; none of them can match the empty text and
  none needs to backtrack, since every greedy part ends at a character it does not take. Text is of
  code points below 256. The interpolation of arguments covers \<open>%s\<close>, \<open>%d\<close> and \<open>%%\<close>, the conversions
  Apchi's own calls use. The destination, the timestamps and the JSON text are the standard library's.
\<close>

section \<open>Names and texts\<close>

definition REDACTED :: string where "REDACTED = ''[redacted]''"

definition SECRET_NAMES :: "string list" where
  "SECRET_NAMES = [''password'', ''passwd'', ''secret'', ''token'', ''credential'', ''private_key'', ''privatekey'',
     ''ssl_key'', ''sslkey'', ''connection-password'', ''connection_password'', ''authorization'', ''api_key'',
     ''apikey'', ''keytab'']"

definition is_secret_name :: "string \<Rightarrow> bool" where
  "is_secret_name name \<longleftrightarrow> list_ex (\<lambda>s. contains s (lower_case name)) SECRET_NAMES"

text \<open>\<open>\w\<close> on these code points, and \<open>\b\<close> between the character before and the text at hand.\<close>

definition is_letter :: "char \<Rightarrow> bool" where
  "is_letter c \<longleftrightarrow> CHR ''A'' \<le> c \<and> c \<le> CHR ''Z'' \<or> CHR ''a'' \<le> c \<and> c \<le> CHR ''z''"

definition is_ascii_digit :: "char \<Rightarrow> bool" where
  "is_ascii_digit c \<longleftrightarrow> CHR ''0'' \<le> c \<and> c \<le> CHR ''9''"

definition is_word :: "char \<Rightarrow> bool" where
  "is_word c \<longleftrightarrow> is_letter c \<or> is_ascii_digit c \<or> c = CHR ''_''
     \<or> (let n = of_char c :: nat in n \<in> {170, 178, 179, 181, 185, 186, 188, 189, 190} \<or> 192 \<le> n \<and> n \<notin> {215, 247})"

definition boundary :: "char option \<Rightarrow> string \<Rightarrow> bool" where
  "boundary before s \<longleftrightarrow> (case before of None \<Rightarrow> False | Some c \<Rightarrow> is_word c) \<noteq> (case s of [] \<Rightarrow> False | c # _ \<Rightarrow> is_word c)"

text \<open>A pattern at a place: what its match is replaced by, and how many characters after the first it takes.\<close>

type_synonym pattern = "char option \<Rightarrow> string \<Rightarrow> (string \<times> nat) option"

fun re_sub :: "pattern \<Rightarrow> char option \<Rightarrow> string \<Rightarrow> string" where
  "re_sub p before [] = []"
| "re_sub p before (c # cs) = (case p before (c # cs) of
      None \<Rightarrow> c # re_sub p (Some c) cs
    | Some (r, n) \<Rightarrow> r @ re_sub p (Some (last (c # take n cs))) (drop n cs))"

section \<open>The patterns\<close>

text \<open>\<open>(?i)\b(name)\b(\s*[=:]\s*)(\S+)\<close>: the name and the separator stay.\<close>

definition name_match :: "string \<Rightarrow> string \<Rightarrow> (string \<times> nat) option" where
  "name_match name s = (let n = length name; rest = drop n s; gap = takeWhile is_space rest; rest' = drop (length gap) rest in
     if lower_case (take n s) \<noteq> name \<or> \<not> boundary (Some (last name)) rest then None
     else case rest' of [] \<Rightarrow> None
       | c # cs \<Rightarrow> let gap' = takeWhile is_space cs; v = takeWhile (\<lambda>x. \<not> is_space x) (drop (length gap') cs) in
           if c \<notin> {CHR ''='', CHR '':''} \<or> v = [] then None
           else Some (take n s @ gap @ c # gap' @ REDACTED, n + length gap + length gap' + length v))"

fun first_match :: "('a \<Rightarrow> 'b option) \<Rightarrow> 'a list \<Rightarrow> 'b option" where
  "first_match f [] = None"
| "first_match f (x # xs) = (case f x of None \<Rightarrow> first_match f xs | Some y \<Rightarrow> Some y)"

definition inline_match :: pattern where
  "inline_match before s = (if boundary before s then first_match (\<lambda>name. name_match name s) SECRET_NAMES else None)"

text \<open>\<open>(?i)\b([a-z][a-z0-9+.-]*://)([^/\s:@]+):([^/\s@]+)@\<close>: the password goes.\<close>

definition is_scheme :: "char \<Rightarrow> bool" where
  "is_scheme c \<longleftrightarrow> is_letter c \<or> is_ascii_digit c \<or> c \<in> {CHR ''+'', CHR ''.'', CHR ''-''}"

definition url_match :: pattern where
  "url_match before s = (case s of [] \<Rightarrow> None | c # cs \<Rightarrow>
     let more = takeWhile is_scheme cs; rest = drop (length more) cs;
       user = takeWhile (\<lambda>x. \<not> is_space x \<and> x \<notin> {CHR ''/'', CHR '':'', CHR ''@''}) (drop 3 rest);
       rest' = drop (length user) (drop 3 rest) in
     if \<not> boundary before s \<or> \<not> is_letter c \<or> \<not> starts_with ''://'' rest \<or> user = [] \<or> \<not> starts_with '':'' rest' then None
     else let pw = takeWhile (\<lambda>x. \<not> is_space x \<and> x \<notin> {CHR ''/'', CHR ''@''}) (tl rest') in
       if pw = [] \<or> \<not> starts_with ''@'' (drop (length pw) (tl rest')) then None
       else Some ((c # more) @ ''://'' @ user @ '':'' @ REDACTED @ ''@'', length more + 3 + length user + 1 + length pw + 1))"

text \<open>\<open>\bapchi_[A-Za-z0-9_-]{16,}\<close>.\<close>

definition is_token_char :: "char \<Rightarrow> bool" where
  "is_token_char c \<longleftrightarrow> is_letter c \<or> is_ascii_digit c \<or> c \<in> {CHR ''_'', CHR ''-''}"

definition TOKEN_MARK :: string where "TOKEN_MARK = ''apchi_''"

definition token_match :: pattern where
  "token_match before s = (if \<not> boundary before s \<or> \<not> starts_with TOKEN_MARK s then None
     else let v = takeWhile is_token_char (drop 6 s) in
       if length v < 16 then None else Some (REDACTED, 5 + length v))"

definition redact_text :: "string \<Rightarrow> string" where
  "redact_text s = re_sub token_match None (re_sub url_match None (re_sub inline_match None s))"

section \<open>Values and records\<close>

text \<open>A value a record carries. Anything that is no dict, list or text is left as it is, and written as \<open>str\<close> gives it.\<close>

datatype log_value = Text string | Dict "(string \<times> log_value) list" | Items "log_value list" | Opaque string

fun redact :: "log_value \<Rightarrow> log_value" where
  "redact (Dict kvs) = Dict (map (\<lambda>(k, v). (k, if is_secret_name k then Text REDACTED else redact v)) kvs)"
| "redact (Items vs) = Items (map redact vs)"
| "redact (Text s) = Text (redact_text s)"
| "redact (Opaque s) = Opaque s"

datatype log_args = Mapping "(string \<times> log_value) list" | Positional "log_value list"

record log_record =
  lr_level :: string
  lr_logger :: string
  lr_msg :: log_value
  lr_args :: log_args
  lr_apply_id :: "string option"
  lr_exception :: "string option"
  lr_extras :: "(string \<times> log_value) list"

text \<open>The extras are the attributes outside \<open>_RESERVED\<close>; the exception's text is not one of them.\<close>

definition redact_args :: "log_args \<Rightarrow> log_args" where
  "redact_args a = (case a of
      Mapping kvs \<Rightarrow> (case redact (Dict kvs) of Dict kvs' \<Rightarrow> Mapping kvs' | _ \<Rightarrow> a)
    | Positional vs \<Rightarrow> Positional (map redact vs))"

definition redaction_filter :: "log_record \<Rightarrow> log_record" where
  "redaction_filter r = r\<lparr>lr_msg := (case lr_msg r of Text s \<Rightarrow> redact (Text s) | other \<Rightarrow> other),
     lr_args := redact_args (lr_args r),
     lr_extras := map (\<lambda>(k, v). (k, if is_secret_name k then Text REDACTED else redact v)) (lr_extras r)\<rparr>"

section \<open>The line that is written\<close>

text \<open>What the language's own texts are: \<open>str\<close> of a value, and \<open>%\<close> with a dict on the right.\<close>

record formatting =
  fm_str :: "log_value \<Rightarrow> string"
  fm_mapping :: "string \<Rightarrow> (string \<times> log_value) list \<Rightarrow> string option"

text \<open>\<open>msg % args\<close> with positional arguments. \<open>None\<close>: an exception, and the line is not written.\<close>

fun interpolate :: "(log_value \<Rightarrow> string) \<Rightarrow> string \<Rightarrow> log_value list \<Rightarrow> string option" where
  "interpolate str [] args = (if args = [] then Some [] else None)"
| "interpolate str (c # cs) args = (if c \<noteq> CHR ''%'' then map_option ((#) c) (interpolate str cs args)
     else case cs of [] \<Rightarrow> None
       | d # ds \<Rightarrow> if d = CHR ''%'' then map_option ((#) d) (interpolate str ds args)
           else if d \<in> {CHR ''s'', CHR ''d''} then
             (case args of [] \<Rightarrow> None | v # vs \<Rightarrow> map_option ((@) (str v)) (interpolate str ds vs))
           else None)"

definition log_message :: "formatting \<Rightarrow> log_record \<Rightarrow> string option" where
  "log_message fm r = (let msg = fm_str fm (lr_msg r) in case lr_args r of
      Positional [] \<Rightarrow> Some msg | Mapping [] \<Rightarrow> Some msg
    | Positional vs \<Rightarrow> interpolate (fm_str fm) msg vs
    | Mapping kvs \<Rightarrow> fm_mapping fm msg kvs)"

definition non_empty_text :: "string \<Rightarrow> string option \<Rightarrow> (string \<times> log_value) list" where
  "non_empty_text key v = (case v of None \<Rightarrow> [] | Some s \<Rightarrow> if s = [] then [] else [(key, Text s)])"

definition json_payload :: "formatting \<Rightarrow> string \<Rightarrow> log_record \<Rightarrow> (string \<times> log_value) list option" where
  "json_payload fm time r = map_option (\<lambda>message.
     fold (\<lambda>(k, v). AList.update k v) (lr_extras r)
       ([(''time'', Text time), (''level'', Text (lr_level r)), (''logger'', Text (lr_logger r)), (''message'', Text message)]
        @ non_empty_text ''apply_id'' (lr_apply_id r)
        @ (case lr_exception r of None \<Rightarrow> [] | Some e \<Rightarrow> [(''exception'', Text e)]))) (log_message fm r)"

definition console_line :: "formatting \<Rightarrow> string \<Rightarrow> log_record \<Rightarrow> string option" where
  "console_line fm time r = map_option (\<lambda>message. time @ '' '' @ lr_level r @ replicate (7 - length (lr_level r)) (CHR '' '') @ '' ''
     @ (case lr_apply_id r of None \<Rightarrow> [] | Some i \<Rightarrow> if i = [] then [] else ''['' @ i @ ''] '') @ message) (log_message fm r)"

text \<open>What the handler does with a record: both filters, in their order, and the formatter.\<close>

definition apply_id_filter :: "string option \<Rightarrow> log_record \<Rightarrow> log_record" where
  "apply_id_filter current r = r\<lparr>lr_apply_id := current\<rparr>"

definition emit_json :: "formatting \<Rightarrow> string option \<Rightarrow> string \<Rightarrow> log_record \<Rightarrow> (string \<times> log_value) list option" where
  "emit_json fm current time r = json_payload fm time (redaction_filter (apply_id_filter current r))"

definition emit_console :: "formatting \<Rightarrow> string option \<Rightarrow> string \<Rightarrow> log_record \<Rightarrow> string option" where
  "emit_console fm current time r = console_line fm time (redaction_filter (apply_id_filter current r))"

section \<open>No token is left\<close>

text \<open>No match anywhere in the text.\<close>

fun tokenless :: "char option \<Rightarrow> string \<Rightarrow> bool" where
  "tokenless before [] = True"
| "tokenless before (c # cs) = (token_match before (c # cs) = None \<and> tokenless (Some c) cs)"

definition token_run :: "string \<Rightarrow> string" where "token_run = takeWhile is_token_char"

lemma token_mark: "length TOKEN_MARK = 6" "\<forall>c \<in> set TOKEN_MARK. is_token_char c" "is_word (hd TOKEN_MARK)"
proof -
  show "length TOKEN_MARK = 6" "is_word (hd TOKEN_MARK)" by code_simp+
  have "list_all is_token_char TOKEN_MARK" by code_simp
  then show "\<forall>c \<in> set TOKEN_MARK. is_token_char c" by (simp add: list_all_iff)
qed

lemma boundary_mark: "boundary before (TOKEN_MARK @ v) \<longleftrightarrow> \<not> (case before of None \<Rightarrow> False | Some c \<Rightarrow> is_word c)"
proof -
  obtain m ms where m: "TOKEN_MARK = m # ms" using token_mark(1) by (cases TOKEN_MARK) auto
  then have "is_word m" using token_mark(3) by (metis list.sel(1))
  moreover have "\<exists>cs. TOKEN_MARK @ v = m # cs" using m by (metis append_Cons)
  ultimately show ?thesis by (auto simp: boundary_def)
qed

lemma run_mark: "token_run (TOKEN_MARK @ v) = TOKEN_MARK @ token_run v"
  unfolding token_run_def by (rule takeWhile_append2) (use token_mark in auto)

lemma run_rest: "s = token_run s @ dropWhile is_token_char s"
  by (simp add: token_run_def)

text \<open>A match is decided by the character before and the run of token characters.\<close>

lemma token_match_run:
  "token_match before s \<noteq> None \<longleftrightarrow>
     \<not> (case before of None \<Rightarrow> False | Some c \<Rightarrow> is_word c) \<and> starts_with TOKEN_MARK (token_run s) \<and> 22 \<le> length (token_run s)"
proof (cases "starts_with TOKEN_MARK s")
  case True
  then obtain v where s: "s = TOKEN_MARK @ v" by (auto simp: starts_with_iff)
  have d: "drop 6 s = v" using token_mark(1) by (simp add: s)
  show ?thesis
    using token_mark(1) by (simp add: token_match_def d Let_def s boundary_mark run_mark) (simp add: token_run_def not_less)
next
  case False
  have "\<not> starts_with TOKEN_MARK (token_run s)"
  proof
    assume "starts_with TOKEN_MARK (token_run s)"
    then obtain t where "token_run s = TOKEN_MARK @ t" by (auto simp: starts_with_iff)
    then have "s = TOKEN_MARK @ t @ dropWhile is_token_char s"
      using run_rest [of s] by simp
    with False show False by (metis starts_with_append)
  qed
  with False show ?thesis by (simp add: token_match_def)
qed

lemma run_dropWhile: "token_run (dropWhile is_token_char s) = []"
  by (induction s) (auto simp: token_run_def)

lemma token_match_Some:
  assumes "token_match before (c # cs) = Some (r, n)"
  shows "r = REDACTED" and "token_run (drop n cs) = []"
proof -
  let ?s = "c # cs" and ?v = "takeWhile is_token_char (drop 6 (c # cs))"
  have r: "r = REDACTED" "n = 5 + length ?v" using assms by (auto simp: token_match_def Let_def split: if_splits)
  show "r = REDACTED" by (rule r)
  have "drop n cs = drop (length ?v) (drop 6 ?s)" by (simp add: r(2) add.commute)
  then show "token_run (drop n cs) = []" by (simp only: dropWhile_eq_drop [symmetric] run_dropWhile)
qed

lemma run_redacted: "token_run (REDACTED @ s) = []"
  by (simp add: token_run_def REDACTED_def is_token_char_def is_letter_def is_ascii_digit_def)

text \<open>A substitution only shortens the run at hand.\<close>

lemma run_sub: "\<exists>t. token_run s = token_run (re_sub token_match before s) @ t"
proof (induction token_match before s rule: re_sub.induct)
  case (2 before c cs)
  show ?case
  proof (cases "token_match before (c # cs)")
    case None
    then show ?thesis using "2.hyps"(1) by (auto simp: token_run_def)
  next
    case (Some a)
    then show ?thesis
      using token_match_Some(1) [of before c cs "fst a" "snd a"] by (cases a) (simp add: run_redacted)
  qed
qed simp

lemma token_match_sub:
  assumes "token_match before (c # cs) = None"
  shows "token_match before (c # re_sub token_match (Some c) cs) = None"
proof (rule ccontr)
  let ?out = "c # re_sub token_match (Some c) cs"
  assume "token_match before ?out \<noteq> None"
  then have m: "\<not> (case before of None \<Rightarrow> False | Some c \<Rightarrow> is_word c)" "starts_with TOKEN_MARK (token_run ?out)" "22 \<le> length (token_run ?out)"
    unfolding token_match_run by simp_all
  obtain u where "token_run cs = token_run (re_sub token_match (Some c) cs) @ u" using run_sub by blast
  then have "token_run (c # cs) = token_run ?out @ (if is_token_char c then u else [])" by (simp add: token_run_def)
  then obtain t where "token_run (c # cs) = token_run ?out @ t" by blast
  then have "starts_with TOKEN_MARK (token_run (c # cs))" "22 \<le> length (token_run (c # cs))"
    using m(2,3) by (auto simp: starts_with_iff)
  with m(1) have "token_match before (c # cs) \<noteq> None" unfolding token_match_run by simp
  with assms show False by simp
qed

lemma tokenless_no_run: "token_run s = [] \<Longrightarrow> tokenless before s = tokenless before' s"
proof (cases s)
  case (Cons c cs)
  assume r: "token_run s = []"
  have "\<not> starts_with TOKEN_MARK []" by (simp add: TOKEN_MARK_def starts_with_def)
  then have "token_match b (c # cs) = None" for b
    using r token_match_run [of b "c # cs"] by (simp add: Cons del: not_None_eq)
  then show ?thesis by (simp add: Cons)
qed simp

lemma tokenless_redacted: "tokenless (Some (CHR '']'')) s \<Longrightarrow> tokenless before (REDACTED @ s)"
  unfolding REDACTED_def
  by (simp add: token_match_def TOKEN_MARK_def starts_with_def)

lemma tokenless_sub: "tokenless before (re_sub token_match before s)"
proof (induction token_match before s rule: re_sub.induct)
  case (2 before c cs)
  show ?case
  proof (cases "token_match before (c # cs)")
    case None
    then show ?thesis using "2.hyps"(1) token_match_sub [OF None] by simp
  next
    case (Some a)
    obtain n where a: "a = (REDACTED, n)" "token_run (drop n cs) = []"
      using token_match_Some [of before c cs "fst a" "snd a"] Some by (cases a) auto
    let ?before = "Some (last (c # take n cs))"
    have "tokenless ?before (re_sub token_match ?before (drop n cs))"
      using "2.hyps"(2) [OF Some [unfolded a(1)]] by simp
    moreover have "token_run (re_sub token_match ?before (drop n cs)) = []"
      using run_sub [of "drop n cs" ?before] a(2) by auto
    ultimately have "tokenless (Some (CHR '']'')) (re_sub token_match ?before (drop n cs))"
      using tokenless_no_run by blast
    then show ?thesis by (simp add: Some a(1) tokenless_redacted del: last.simps)
  qed
qed simp

lemma redact_text_tokenless: "tokenless None (redact_text s)"
  unfolding redact_text_def by (rule tokenless_sub)


section \<open>What a record says once it is filtered\<close>

text \<open>No text holds a token, and what a secret's name names is the mark alone, at any depth.\<close>

fun clean :: "log_value \<Rightarrow> bool" where
  "clean (Text s) = tokenless None s"
| "clean (Opaque s) = True"
| "clean (Items vs) = list_all clean vs"
| "clean (Dict kvs) = list_all (\<lambda>(k, v). if is_secret_name k then v = Text REDACTED else clean v) kvs"

definition clean_record :: "log_record \<Rightarrow> bool" where
  "clean_record r \<longleftrightarrow> (case lr_msg r of Text s \<Rightarrow> clean (Text s) | _ \<Rightarrow> True)
     \<and> (case lr_args r of Positional vs \<Rightarrow> list_all clean vs | Mapping kvs \<Rightarrow> clean (Dict kvs)) \<and> clean (Dict (lr_extras r))"

lemma clean_redact: "clean (redact v)"
proof (induction v rule: redact.induct)
  case (1 kvs)
  then show ?case by (auto simp: list_all_iff split: if_splits)
next
  case (2 vs)
  then show ?case by (simp add: list_all_iff)
qed (simp_all add: redact_text_tokenless)


text \<open>What redaction does not reach. The text of an exception is put into the line after the filter ran, as it is;
  so is an argument that is no text, such as the exception itself; and a template in which a placeholder
  follows a secret's name loses it to the redaction, so that the line is not written at all.\<close>

definition plain_texts :: "formatting \<Rightarrow> bool" where
  "plain_texts fm \<longleftrightarrow> (\<forall>s. fm_str fm (Text s) = s \<and> fm_str fm (Opaque s) = s)"

lemma redacted_templates:
  "redact_text ''done'' = ''done''" "redact_text ''failed: %s'' = ''failed: %s''" "redact_text ''token=%s'' = ''token=[redacted]''"
  by code_simp+

theorem log_leaks:
  assumes "plain_texts fm" and "lr_extras r = []"
  shows "map_of (the (emit_json fm i time (r\<lparr>lr_msg := Text ''done'', lr_args := Positional [], lr_exception := Some e\<rparr>))) ''exception'' = Some (Text e)
    \<and> map_of (the (emit_json fm i time (r\<lparr>lr_msg := Text ''failed: %s'', lr_args := Positional [Opaque e]\<rparr>))) ''message''
       = Some (Text (''failed: '' @ e))
    \<and> emit_json fm i time (r\<lparr>lr_msg := Text ''token=%s'', lr_args := Positional [v]\<rparr>) = None"
  using assms
  by (cases i) (auto simp: emit_json_def json_payload_def redaction_filter_def apply_id_filter_def redact_args_def log_message_def
      redacted_templates plain_texts_def non_empty_text_def Let_def)

theorem log_leaks_witness:
  "let fm = \<lparr>fm_str = (\<lambda>v. case v of Text s \<Rightarrow> s | Opaque s \<Rightarrow> s | _ \<Rightarrow> []), fm_mapping = (\<lambda>_ _. None)\<rparr>;
     e = ''TrinoError: 401 for Bearer apchi_0123456789abcdef'';
     r = \<lparr>lr_level = ''ERROR'', lr_logger = ''app.pipeline.applies'', lr_msg = Text [], lr_args = Positional [], lr_apply_id = None,
       lr_exception = None, lr_extras = []\<rparr> in
   map_of (the (emit_json fm None ''09:30'' (r\<lparr>lr_msg := Text ''done'', lr_args := Positional [], lr_exception := Some e\<rparr>))) ''exception'' = Some (Text e)
    \<and> map_of (the (emit_json fm None ''09:30'' (r\<lparr>lr_msg := Text ''failed: %s'', lr_args := Positional [Opaque e]\<rparr>))) ''message''
       = Some (Text (''failed: '' @ e))
    \<and> emit_json fm None ''09:30'' (r\<lparr>lr_msg := Text ''token=%s'', lr_args := Positional [Text ''x'']\<rparr>) = None"
  unfolding Let_def by (rule log_leaks) (simp_all add: plain_texts_def)

end
