(* ===== verification/System_Rules.thy ===== *)
theory System_Rules
  imports Permissions_Correct Admin_Store
begin

text \<open>
  The rules Apchi owns in the access control file, as an Operator reads them
  (\<open>system_rules\<close> of \<open>app/sections/permissions/section.py\<close>, \<open>GET /permissions/system\<close>). The last of them
  is compared with what the file gives somebody no grant names.
\<close>

record system_rule =
  sy_rule :: string
  sy_why :: string

definition CATALOGS_ARE_APCHIS :: system_rule where
  "CATALOGS_ARE_APCHIS = \<lparr>sy_rule = ''Only Apchi may create or drop a catalog.'',
     sy_why = ''Catalogs are applied as DDL, and Apchi is the only identity with the owner access mode that CREATE ''
       @ ''CATALOG needs. Without it an End User could create a catalog Apchi does not know about, which the ''
       @ ''next Apply would then remove.''\<rparr>"

definition APCHI_VERIFIES :: system_rule where
  "APCHI_VERIFIES = \<lparr>sy_rule = ''Apchi may read the verification catalog.'',
     sy_why = ''A tables block denies every table it does not match, to everyone. Verification's smoke query, the ''
       @ ''running-query count and the resource group read-back all read tables there, so without this rule an ''
       @ ''Apply would pass only by luck of the catch-all, and removing that catch-all would cut Apchi off from ''
       @ ''the Cluster it has to recover.''\<rparr>"

definition QUERIES_ARE_OWN :: system_rule where
  "QUERIES_ARE_OWN = \<lparr>sy_rule = ''Everyone may run queries; only you may see yours.'',
     sy_why = ''By default any authenticated End User can view and kill any query, and query text routinely contains ''
       @ ''data. This block closes that. It is all-or-nothing: once it exists, anything it does not match is ''
       @ ''denied, including the right to run a query at all -- so the rule letting everyone execute is what ''
       @ ''keeps the Cluster serving, and widening this block carelessly stops queries rather than leaking ''
       @ ''data. Seeing your own queries needs no rule: Trino gives you those whatever the rules say. Killing ''
       @ ''your own does, so Apchi writes one per identity it knows about -- the identities named in a grant.''\<rparr>"

definition KILL_QUERY :: system_rule where
  "KILL_QUERY = \<lparr>sy_rule = ''Anyone may call system.runtime.kill_query.'',
     sy_why = ''A file-based access control denies procedure execution unless a rule allows it, so Apchi's own file ''
       @ ''took this away from every End User the day it was installed -- including from somebody killing their ''
       @ ''own query. Granting the procedure does not decide whose query may be killed: the rule above still ''
       @ ''does that. No other procedure is granted.''\<rparr>"

definition APCHI_SEES_QUERIES :: system_rule where
  "APCHI_SEES_QUERIES = \<lparr>sy_rule = ''Apchi may see everyone's queries.'',
     sy_why = ''The running-query count Review shows before a Rollout reads system.runtime.queries, and Trino ''
       @ ''filters those rows by who may view them. Without this Apchi would count only its own queries and ''
       @ ''report that a Rollout destroys nothing.''\<rparr>"

definition OPEN_POSTURE :: system_rule where
  "OPEN_POSTURE = \<lparr>sy_rule = ''Everything no grant names is allowed, for everyone.'',
     sy_why = ''What the Cluster did before Apchi wrote a tables block at all. Staging a grant records intent; it ''
       @ ''does not revoke anyone's access. An Admin removes this when the grants are complete, and only an ''
       @ ''Admin can: on a Cluster already serving users, removing it denies every identity without a grant ''
       @ ''everything it had.''\<rparr>"

definition ENFORCED_POSTURE :: system_rule where
  "ENFORCED_POSTURE = \<lparr>sy_rule = ''An identity may reach only what it has been granted.'',
     sy_why = ''An Admin has decided the grants are complete and taken the catch-all away, so a table no grant names ''
       @ ''is denied to everyone but Apchi. Apchi keeps its own read access through its own rule, which is what ''
       @ ''leaves it able to verify and to recover.''\<rparr>"

definition posture :: "bool \<Rightarrow> system_rule" where
  "posture enforced = (if enforced then ENFORCED_POSTURE else OPEN_POSTURE)"

definition system_rules :: "admin_values \<Rightarrow> system_rule list" where
  "system_rules v = [CATALOGS_ARE_APCHIS, APCHI_VERIFIES, QUERIES_ARE_OWN, KILL_QUERY, APCHI_SEES_QUERIES,
     posture (av_enforce_permissions v)]"

definition get_system_rules :: "('r, 'e, system_rule list) act" where
  "get_system_rules = bind_io admin_load (\<lambda>v. ret (system_rules v))"

section \<open>What the last rule says is so\<close>

lemma postures_differ: "OPEN_POSTURE \<noteq> ENFORCED_POSTURE"
proof -
  have "sy_rule OPEN_POSTURE \<noteq> sy_rule ENFORCED_POSTURE" by (simp add: OPEN_POSTURE_def ENFORCED_POSTURE_def)
  then show ?thesis by auto
qed

text \<open>The posture an Operator reads is the one Trino enforces, but for what was preserved. To a place no grant covers,
  the file rendered from the same Admin values gives every privilege or none, as the last of the rules shown
  says, where no preserved rule applies; and where one does, what that rule gives, whatever is shown.\<close>

theorem posture_is_enforced:
  assumes "plain_name u" and "plain_name vc" and "\<forall>g \<in> ran (map_of staged). plain_grant g"
    and "find (\<lambda>g. covers_place g p) (grants_in_order staged) = None" and "pl_user p \<noteq> u"
  shows "allowed_privileges re (tables_block u staged vc (av_enforce_permissions v) (av_preserved_access_control v)) p =
    (case find (rule_applies re p) (kept_rules (av_preserved_access_control v) ''tables'') of
       Some r \<Rightarrow> rule_privileges r
     | None \<Rightarrow> if last (system_rules v) = OPEN_POSTURE then map privilege_name EVERY_PRIVILEGE else [])"
  using tables_block_eq [OF assms(1-3), of re "av_enforce_permissions v" "av_preserved_access_control v" p] assms(4,5) postures_differ
  by (auto simp: system_rules_def posture_def split: option.split)

theorem posture_is_enforced_witness:
  "let v = default_admin\<lparr>av_enforce_permissions := True,
       av_preserved_access_control := [(''tables'', [JObj [(''privileges'', JList [JStr ''SELECT''])]])]\<rparr> in
   allowed_privileges (\<lambda>_ _. False) (tables_block ''apchi'' demo_bob ''system'' (av_enforce_permissions v) (av_preserved_access_control v)) demo_eve =
    (case find (rule_applies (\<lambda>_ _. False) demo_eve) (kept_rules (av_preserved_access_control v) ''tables'') of
       Some r \<Rightarrow> rule_privileges r
     | None \<Rightarrow> if last (system_rules v) = OPEN_POSTURE then map privilege_name EVERY_PRIVILEGE else [])"
  unfolding Let_def
proof (rule posture_is_enforced)
  show "plain_name ''apchi''" "plain_name ''system''" by (simp_all add: plain_name_def newline_def)
  show "\<forall>g \<in> ran (map_of demo_bob). plain_grant g"
    by (auto simp: demo_bob_def ran_def plain_grant_def plain_name_def newline_def)
  show "find (\<lambda>g. covers_place g demo_eve) (grants_in_order demo_bob) = None" by code_simp
  show "pl_user demo_eve \<noteq> ''apchi''" by (simp add: demo_eve_def)
qed

end
