(* ===== verification/Trust.thy ===== *)
theory Trust
  imports Python_Text
begin

text \<open>
  The TLS material of outbound connections (\<open>app/trust.py\<close>): the bundle of authorities, the private
  copies of the certificate Apchi presents, and the comparison of what is mounted with what was
  loaded. The host is explicit: the mounted files, which change without Apchi, the temporary files,
  which only Apchi writes, and the module's own state. Parameters, since they are libraries: \<open>sha\<close>
  (\<open>hashlib.sha256(...).hexdigest()\<close>), \<open>x509\<close> (\<open>load_pem_x509_certificate\<close>: the subject and the
  expiry, \<open>None\<close> a \<open>ValueError\<close>) and \<open>certifi\<close> (the public authorities). A log call returns what it
  says. What OpenSSL refuses in the material it is given is not modelled.
\<close>

section \<open>The host\<close>

record material =
  mt_digest :: string
  mt_subject :: "string option"
  mt_expires :: "int option"

text \<open>A mounted file that cannot be read is there with no content. A temporary file has a mode.\<close>

record host =
  ho_mounts :: "string option dict"
  ho_temps :: "(nat \<times> string) dict"
  ho_loaded :: "material dict"
  ho_bundles :: "string dict"
  ho_presented :: "((string \<times> string) \<times> (string \<times> string)) list"

record tls_libs =
  cy_sha :: "string \<Rightarrow> string"
  cy_x509 :: "string \<Rightarrow> (string \<times> int) option"
  cy_certifi :: string

definition file_contents :: "host \<Rightarrow> string \<Rightarrow> string option" where
  "file_contents h path = (case map_of (ho_temps h) path of Some (_, s) \<Rightarrow> Some s
     | None \<Rightarrow> (case map_of (ho_mounts h) path of Some (Some s) \<Rightarrow> Some s | _ \<Rightarrow> None))"

definition path_exists :: "host \<Rightarrow> string \<Rightarrow> bool" where
  "path_exists h path \<longleftrightarrow> has_key (ho_temps h) path \<or> has_key (ho_mounts h) path"

definition read_bytes :: "string \<Rightarrow> (host, string) io" where
  "read_bytes path = (\<lambda>h. case file_contents h path of
      None \<Rightarrow> (Inl (Raised OSError path), h) | Some s \<Rightarrow> (Inr s, h))"

text \<open>\<open>mkstemp\<close>: a name nothing has, created empty and readable by its owner alone.\<close>

definition temp_name :: "string \<Rightarrow> nat \<Rightarrow> string" where
  "temp_name prefix n = ''/tmp/'' @ prefix @ show_nat n @ ''.pem''"

definition unused :: "string \<Rightarrow> string list \<Rightarrow> string" where
  "unused prefix used = hd (filter (\<lambda>p. p \<notin> set used) (map (temp_name prefix) [0..<Suc (length used)]))"

definition mkstemp :: "string \<Rightarrow> (host, string) io" where
  "mkstemp prefix = (\<lambda>h. let path = unused prefix (dict_keys (ho_temps h) @ dict_keys (ho_mounts h)) in
     (Inr path, h\<lparr>ho_temps := AList.update path (384, []) (ho_temps h)\<rparr>))"

text \<open>Writing to, and changing the mode of, a temporary file that is open.\<close>

definition append_to :: "string \<Rightarrow> string \<Rightarrow> (host, unit) io" where
  "append_to path s = modify_io (\<lambda>h. case map_of (ho_temps h) path of
      None \<Rightarrow> h | Some (m, c) \<Rightarrow> h\<lparr>ho_temps := AList.update path (m, c @ s) (ho_temps h)\<rparr>)"

definition chmod :: "string \<Rightarrow> nat \<Rightarrow> (host, unit) io" where
  "chmod path mode = modify_io (\<lambda>h. case map_of (ho_temps h) path of
      None \<Rightarrow> h | Some (_, c) \<Rightarrow> h\<lparr>ho_temps := AList.update path (mode, c) (ho_temps h)\<rparr>)"

section \<open>Reading and remembering\<close>

definition CERTIFICATE_HEADER :: string where
  "CERTIFICATE_HEADER = ''-----BEGIN CERTIFICATE-----''"

text \<open>\<open>content[content.find(header):]\<close>, where there is one.\<close>

fun from_first :: "string \<Rightarrow> string \<Rightarrow> string option" where
  "from_first p [] = (if p = [] then Some [] else None)"
| "from_first p (c # cs) = (if starts_with p (c # cs) then Some (c # cs) else from_first p cs)"

definition describe :: "tls_libs \<Rightarrow> string \<Rightarrow> material" where
  "describe cy content = (let digest = cy_sha cy content; bare = \<lparr>mt_digest = digest, mt_subject = None, mt_expires = None\<rparr> in
     case from_first CERTIFICATE_HEADER content of None \<Rightarrow> bare
     | Some rest \<Rightarrow> (case cy_x509 cy rest of None \<Rightarrow> bare
         | Some (subject, expires) \<Rightarrow> \<lparr>mt_digest = digest, mt_subject = Some subject, mt_expires = Some expires\<rparr>))"

definition read_remembered :: "tls_libs \<Rightarrow> string \<Rightarrow> (host, string) io" where
  "read_remembered cy path = bind_io (read_bytes path) (\<lambda>content.
     then_io (modify_io (\<lambda>h. if has_key (ho_loaded h) path then h
         else h\<lparr>ho_loaded := AList.update path (describe cy content) (ho_loaded h)\<rparr>))
       (ret content))"

section \<open>What the clients are given\<close>

definition bundled_ca :: "tls_libs \<Rightarrow> string option \<Rightarrow> (host, string option) io" where
  "bundled_ca cy ca_file = (case ca_file of None \<Rightarrow> ret None
     | Some ca \<Rightarrow> bind_io (asks (\<lambda>h. map_of (ho_bundles h) ca)) (\<lambda>cached. case cached of
         Some path \<Rightarrow> ret (Some path)
       | None \<Rightarrow> bind_io (asks (\<lambda>h. path_exists h ca)) (\<lambda>there.
           if \<not> there then raise_io (Raised RuntimeError (''Apchi cannot start: '' @ ca @ '' does not exist. It comes from ca_file -- under Helm, pod.caBundle naming a key that Secret does not hold.''))
           else bind_io (mkstemp ''apchi-ca-'') (\<lambda>path.
             then_io (append_to path (cy_certifi cy)) (then_io (append_to path [newline])
               (bind_io (read_remembered cy ca) (\<lambda>content.
               then_io (append_to path content) (then_io (chmod path 420)
               (then_io (modify_io (\<lambda>h. h\<lparr>ho_bundles := AList.update ca path (ho_bundles h)\<rparr>)) (ret (Some path)))))))))))"

definition private_copy :: "tls_libs \<Rightarrow> string \<Rightarrow> (host, string) io" where
  "private_copy cy path = bind_io (read_remembered cy path) (\<lambda>content.
     bind_io (mkstemp ''apchi-presented-'') (\<lambda>copy. then_io (append_to copy content) (ret copy)))"

definition presented :: "tls_libs \<Rightarrow> string option \<Rightarrow> string option \<Rightarrow> (host, string option \<times> string option) io" where
  "presented cy certificate_file key_file = (case (certificate_file, key_file) of
      (Some c, Some k) \<Rightarrow> bind_io (asks (\<lambda>h. map_of (ho_presented h) (c, k))) (\<lambda>cached. case cached of
          Some (p, q) \<Rightarrow> ret (Some p, Some q)
        | None \<Rightarrow> bind_io (private_copy cy c) (\<lambda>p. bind_io (private_copy cy k) (\<lambda>q.
            then_io (modify_io (\<lambda>h. h\<lparr>ho_presented := ((c, k), (p, q)) # ho_presented h\<rparr>)) (ret (Some p, Some q)))))
    | _ \<Rightarrow> ret (None, None))"

definition is_os_error :: "exn \<Rightarrow> bool" where
  "is_os_error e \<longleftrightarrow> (case e of Raised OSError _ \<Rightarrow> True | _ \<Rightarrow> False)"

definition recorded :: "tls_libs \<Rightarrow> string option \<Rightarrow> (host, string option) io" where
  "recorded cy file = (case file of None \<Rightarrow> ret None
     | Some path \<Rightarrow> then_io (try_io is_os_error (then_io (read_remembered cy path) (ret ())) (\<lambda>_. ret ())) (ret (Some path)))"

text \<open>What httpx verifies with: its own trust store, or a context with what was read for it.\<close>

datatype trust = Default_trust | Context "string option" "(string \<times> string option) option"

definition read_opt :: "string option \<Rightarrow> (host, string option) io" where
  "read_opt file = (case file of None \<Rightarrow> ret None | Some path \<Rightarrow> bind_io (read_bytes path) (\<lambda>s. ret (Some s)))"

definition verification :: "tls_libs \<Rightarrow> string option \<Rightarrow> string option \<Rightarrow> string option \<Rightarrow> (host, trust) io" where
  "verification cy ca_file certificate_file key_file = bind_io (bundled_ca cy ca_file) (\<lambda>bundle.
     if bundle = None \<and> certificate_file = None then ret Default_trust
     else bind_io (read_opt bundle) (\<lambda>authorities. case certificate_file of
         None \<Rightarrow> ret (Context authorities None)
       | Some c \<Rightarrow> bind_io (read_bytes c) (\<lambda>certificate. bind_io (read_opt key_file) (\<lambda>key.
           ret (Context authorities (Some (certificate, key)))))))"

section \<open>What an Admin is told\<close>

definition is_rotated :: "tls_libs \<Rightarrow> host \<Rightarrow> string \<times> material \<Rightarrow> bool" where
  "is_rotated cy h = (\<lambda>(path, m). case file_contents h path of None \<Rightarrow> True | Some s \<Rightarrow> cy_sha cy s \<noteq> mt_digest m)"

definition rotated :: "tls_libs \<Rightarrow> (host, string list) io" where
  "rotated cy = asks (\<lambda>h. map fst (filter (is_rotated cy h) (ho_loaded h)))"

datatype log_level = Log_error | Log_warning

definition log_rotations :: "tls_libs \<Rightarrow> (host, (log_level \<times> string) list) io" where
  "log_rotations cy = bind_io (rotated cy) (\<lambda>paths. ret (map (Pair Log_warning) paths))"

definition DAY :: int where "DAY = 86400"

text \<open>\<open>timedelta.days\<close> rounds down.\<close>

definition expiry_line :: "int \<Rightarrow> int \<Rightarrow> string \<times> material \<Rightarrow> (log_level \<times> string) list" where
  "expiry_line now within_days = (\<lambda>(path, m). case mt_expires m of None \<Rightarrow> []
     | Some e \<Rightarrow> if e \<le> now then [(Log_error, path)]
         else if (e - now) div DAY \<le> within_days then [(Log_warning, path)] else [])"

definition log_expiring :: "int \<Rightarrow> int \<Rightarrow> (host, (log_level \<times> string) list) io" where
  "log_expiring now within_days = asks (\<lambda>h. concat (map (expiry_line now within_days) (ho_loaded h)))"

section \<open>What Apchi presents\<close>

text \<open>What happens to a running Apchi: the mounts are replaced under it, and it uses the operations above.\<close>

datatype event = Remount "string option dict" | Bundle "string option" | Present "string option" "string option"
  | Record "string option" | Verify "string option" "string option" "string option" | Compare

definition happens :: "tls_libs \<Rightarrow> event \<Rightarrow> (host, unit) io" where
  "happens cy ev = (case ev of
      Remount mounts \<Rightarrow> modify_io (ho_mounts_update (\<lambda>_. mounts))
    | Bundle ca \<Rightarrow> then_io (bundled_ca cy ca) (ret ())
    | Present c k \<Rightarrow> then_io (presented cy c k) (ret ())
    | Record f \<Rightarrow> then_io (recorded cy f) (ret ())
    | Verify ca c k \<Rightarrow> then_io (verification cy ca c k) (ret ())
    | Compare \<Rightarrow> then_io (log_rotations cy) (ret ()))"

text \<open>A failure ends its event and not the process.\<close>

fun lives_through :: "tls_libs \<Rightarrow> event list \<Rightarrow> host \<Rightarrow> host" where
  "lives_through cy [] h = h"
| "lives_through cy (ev # evs) h = lives_through cy evs (snd (happens cy ev h))"

text \<open>What is loaded and what is presented stays, and so do the files presented.\<close>

definition in_use :: "host \<Rightarrow> string \<Rightarrow> bool" where
  "in_use h p \<longleftrightarrow> (\<exists>x a b. map_of (ho_presented h) x = Some (a, b) \<and> (p = a \<or> p = b)) \<or> p \<in> ran (map_of (ho_bundles h))"

definition orderly :: "host \<Rightarrow> bool" where
  "orderly h \<longleftrightarrow> distinct (map fst (ho_loaded h)) \<and> (\<forall>p. in_use h p \<longrightarrow> map_of (ho_temps h) p \<noteq> None)"

definition settles :: "host \<Rightarrow> host \<Rightarrow> bool" where
  "settles h h' \<longleftrightarrow> (orderly h \<longrightarrow> orderly h' \<and> map_of (ho_presented h) \<subseteq>\<^sub>m map_of (ho_presented h')
     \<and> map_of (ho_bundles h) \<subseteq>\<^sub>m map_of (ho_bundles h')
     \<and> map_of (ho_loaded h) \<subseteq>\<^sub>m map_of (ho_loaded h') \<and> (\<forall>p. in_use h p \<longrightarrow> map_of (ho_temps h') p = map_of (ho_temps h) p))"

lemma map_leD: "f \<subseteq>\<^sub>m g \<Longrightarrow> f x = Some y \<Longrightarrow> g x = Some y"
  by (metis domI map_le_def)

lemma in_use_mono:
  assumes "map_of (ho_presented h) \<subseteq>\<^sub>m map_of (ho_presented h')" and "map_of (ho_bundles h) \<subseteq>\<^sub>m map_of (ho_bundles h')" and "in_use h p"
  shows "in_use h' p"
proof -
  have "ran (map_of (ho_bundles h)) \<subseteq> ran (map_of (ho_bundles h'))"
    using map_leD [OF assms(2)] by (auto simp: ran_def)
  then show ?thesis
    using assms(3) map_leD [OF assms(1)] unfolding in_use_def by blast
qed

interpretation settling: step_order settles
proof
  show "settles u w" if "settles u v" "settles v w" for u v w
  proof (cases "orderly u")
    case True
    then have v: "orderly v" "map_of (ho_presented u) \<subseteq>\<^sub>m map_of (ho_presented v)" "map_of (ho_bundles u) \<subseteq>\<^sub>m map_of (ho_bundles v)"
      "map_of (ho_loaded u) \<subseteq>\<^sub>m map_of (ho_loaded v)" "\<And>p. in_use u p \<Longrightarrow> map_of (ho_temps v) p = map_of (ho_temps u) p"
      using that(1) by (auto simp: settles_def)
    have w: "orderly w" "map_of (ho_presented v) \<subseteq>\<^sub>m map_of (ho_presented w)" "map_of (ho_bundles v) \<subseteq>\<^sub>m map_of (ho_bundles w)"
      "map_of (ho_loaded v) \<subseteq>\<^sub>m map_of (ho_loaded w)" "\<And>p. in_use v p \<Longrightarrow> map_of (ho_temps w) p = map_of (ho_temps v) p"
      using that(2) v(1) by (auto simp: settles_def)
    show ?thesis
      unfolding settles_def using w(1) map_le_trans [OF v(2) w(2)] map_le_trans [OF v(3) w(3)] map_le_trans [OF v(4) w(4)]
        v(5) w(5) in_use_mono [OF v(2,3)] by auto
  qed (simp add: settles_def)
qed (simp add: settles_def)

text \<open>A new temporary file disturbs nothing that was there.\<close>

lemma temp_name_inject: "temp_name prefix m = temp_name prefix n \<longleftrightarrow> m = n"
proof
  assume "temp_name prefix m = temp_name prefix n"
  then have "read_nat (show_nat m) = read_nat (show_nat n)" by (simp add: temp_name_def)
  then show "m = n" by simp
qed simp

lemma unused: "unused prefix used \<notin> set used" and unused_named: "unused prefix used \<noteq> []"
proof -
  let ?names = "map (temp_name prefix) [0..<Suc (length used)]"
  have "distinct ?names" by (simp add: distinct_map inj_on_def temp_name_inject del: upt_Suc)
  from distinct_card [OF this] have "card (set ?names) = Suc (length used)" by (simp del: upt_Suc set_map)
  then have "\<not> set ?names \<subseteq> set used"
    using card_mono [of "set used" "set ?names"] card_length [of used] by auto
  then have "filter (\<lambda>p. p \<notin> set used) ?names \<noteq> []" by (auto simp: filter_empty_conv simp del: upt_Suc set_map)
  then have "unused prefix used \<in> set (filter (\<lambda>p. p \<notin> set used) ?names)" unfolding unused_def by (rule hd_in_set)
  then show "unused prefix used \<notin> set used" "unused prefix used \<noteq> []"
    unfolding set_filter by (auto simp: temp_name_def simp del: upt_Suc)
qed

lemma wp_mkstemp:
  assumes "\<And>p. \<not> path_exists h p \<Longrightarrow> p \<noteq> [] \<Longrightarrow> Q p (h\<lparr>ho_temps := AList.update p (384, []) (ho_temps h)\<rparr>)"
  shows "wp (mkstemp prefix) Q E h"
proof -
  let ?p = "unused prefix (dict_keys (ho_temps h) @ dict_keys (ho_mounts h))"
  have "\<not> path_exists h ?p"
    using unused [of prefix "dict_keys (ho_temps h) @ dict_keys (ho_mounts h)"] by (auto simp: path_exists_def)
  with assms unused_named show ?thesis by (simp add: mkstemp_def wp_def Let_def)
qed

text \<open>Steps that only add: a temporary file of their own, a file remembered.\<close>

definition grown :: "host \<Rightarrow> host \<Rightarrow> bool" where
  "grown h h' \<longleftrightarrow> ho_presented h' = ho_presented h \<and> ho_bundles h' = ho_bundles h \<and> ho_mounts h' = ho_mounts h
     \<and> (distinct (map fst (ho_loaded h)) \<longrightarrow> distinct (map fst (ho_loaded h'))) \<and> map_of (ho_loaded h) \<subseteq>\<^sub>m map_of (ho_loaded h')
     \<and> map_of (ho_temps h) \<subseteq>\<^sub>m map_of (ho_temps h')
     \<and> (\<forall>p. map_of (ho_temps h') p \<noteq> None \<longrightarrow> map_of (ho_temps h) p \<noteq> None \<or> map_of (ho_mounts h) p = None)"

interpretation growing: step_order grown
proof
  show "grown u w" if "grown u v" "grown v w" for u v w
    using that map_le_trans [of "map_of (ho_loaded u)"] map_le_trans [of "map_of (ho_temps u)"]
    unfolding grown_def by metis
qed (simp add: grown_def)

lemma grown_settles:
  assumes "grown h h'"
  shows "settles h h'"
proof -
  have used: "in_use h' p = in_use h p" for p using assms by (simp add: grown_def in_use_def)
  have "map_of (ho_temps h') p = map_of (ho_temps h) p" if "map_of (ho_temps h) p \<noteq> None" for p
    using assms map_leD that by (fastforce simp: grown_def)
  then show ?thesis using assms unfolding settles_def orderly_def used by (auto simp: grown_def)
qed

lemma contents_missing:
  assumes "\<not> path_exists h p"
  shows "file_contents h p = None"
proof -
  have "map_of (ho_temps h) p = None" "map_of (ho_mounts h) p = None"
    using assms by (simp_all add: path_exists_def map_of_eq_None_iff)
  then show ?thesis by (simp add: file_contents_def)
qed

lemma contents_bundles: "file_contents (h\<lparr>ho_bundles := b\<rparr>) = file_contents h"
  by (rule ext) (auto simp: file_contents_def split: option.split)

lemma grown_contents: "grown h h' \<Longrightarrow> file_contents h p = Some s \<Longrightarrow> file_contents h' p = Some s"
proof (cases "map_of (ho_temps h) p")
  case None
  assume g: "grown h h'" and s: "file_contents h p = Some s"
  then have "map_of (ho_mounts h) p = Some (Some s)" using None by (auto simp: file_contents_def split: option.splits)
  moreover from this have "map_of (ho_temps h') p = None" using g None unfolding grown_def by (metis option.distinct(1))
  ultimately show ?thesis using g by (simp add: grown_def file_contents_def)
next
  case (Some x)
  assume g: "grown h h'" and s: "file_contents h p = Some s"
  have "map_of (ho_temps h') p = Some x" using g Some map_leD by (fastforce simp: grown_def)
  then show ?thesis using s Some by (simp add: file_contents_def)
qed

lemma grown_temp:
  assumes "grown h h1" and "map_of (ho_temps h) p = None" and "map_of (ho_mounts h) p = None"
  shows "grown h (h1\<lparr>ho_temps := AList.update p x (ho_temps h1)\<rparr>)"
  using assms by (auto simp: grown_def map_of_upd map_le_def dom_def)

lemma wp_append_to:
  assumes "map_of (ho_temps h) p = Some (m, c)" and "Q () (h\<lparr>ho_temps := AList.update p (m, c @ s) (ho_temps h)\<rparr>)"
  shows "wp (append_to p s) Q E h"
  using assms by (simp add: append_to_def)

lemma wp_read_bytes [simp]: "wp (read_bytes path) Q E h =
    (case file_contents h path of None \<Rightarrow> E (Raised OSError path) h | Some s \<Rightarrow> Q s h)"
  by (simp add: read_bytes_def wp_def split: option.split)

definition remembering :: "tls_libs \<Rightarrow> string \<Rightarrow> string \<Rightarrow> host \<Rightarrow> material dict" where
  "remembering cy path s h = (if has_key (ho_loaded h) path then ho_loaded h else AList.update path (describe cy s) (ho_loaded h))"

lemma wp_read_remembered:
  assumes "\<And>s h'. file_contents h path = Some s \<Longrightarrow> grown h h' \<Longrightarrow> ho_temps h' = ho_temps h \<Longrightarrow> ho_loaded h' = remembering cy path s h \<Longrightarrow> Q s h'"
    and "file_contents h path = None \<Longrightarrow> E (Raised OSError path) h"
  shows "wp (read_remembered cy path) Q E h"
proof (cases "file_contents h path")
  case (Some s)
  let ?h = "if has_key (ho_loaded h) path then h else h\<lparr>ho_loaded := AList.update path (describe cy s) (ho_loaded h)\<rparr>"
  have "grown h ?h"
    by (auto simp: grown_def map_of_upd map_le_def dom_map_of_conv_image_fst distinct_update)
  then have "Q s ?h" by (intro assms(1) [OF Some]) (simp_all add: remembering_def)
  then show ?thesis using Some by (simp add: read_remembered_def)
qed (use assms(2) in \<open>simp add: read_remembered_def\<close>)

lemma wp_private_copy:
  assumes "\<And>s h' p. file_contents h path = Some s \<Longrightarrow> grown h h' \<Longrightarrow> map_of (ho_temps h) p = None \<Longrightarrow> map_of (ho_temps h') p = Some (384, s) \<Longrightarrow>
      ho_loaded h' = remembering cy path s h \<Longrightarrow> Q p h'"
    and "file_contents h path = None \<Longrightarrow> E (Raised OSError path) h"
  shows "wp (private_copy cy path) Q E h"
  unfolding private_copy_def wp_bind wp_then
proof (rule wp_read_remembered)
  fix s h1
  assume s: "file_contents h path = Some s" and h1: "grown h h1" "ho_temps h1 = ho_temps h" "ho_loaded h1 = remembering cy path s h"
  show "wp (mkstemp ''apchi-presented-'') (\<lambda>copy. wp (append_to copy s) (\<lambda>_. wp (ret copy) Q E) E) E h1"
  proof (rule wp_mkstemp)
    fix p assume "\<not> path_exists h1 p"
    then have new: "map_of (ho_temps h) p = None" "map_of (ho_mounts h) p = None"
      using h1(1,2) by (simp_all add: path_exists_def map_of_None_iff grown_def)
    let ?h2 = "h1\<lparr>ho_temps := AList.update p (384, []) (ho_temps h1)\<rparr>"
    show "wp (append_to p s) (\<lambda>_. wp (ret p) Q E) E ?h2"
    proof (rule wp_append_to)
      show "map_of (ho_temps ?h2) p = Some (384, [])" by (simp add: map_of_upd)
      show "wp (ret p) Q E (?h2\<lparr>ho_temps := AList.update p (384, [] @ s) (ho_temps ?h2)\<rparr>)"
        unfolding wp_ret
        by (rule assms(1) [OF s grown_temp [OF grown_temp [OF h1(1) new] new] new(1)]) (simp_all add: map_of_upd h1(3))
    qed
  qed
qed (rule assms(2))

text \<open>The other calls only add as well.\<close>

lemma wp_compose: "wp (then_io m n) Q E = wp m (\<lambda>_. wp n Q E) E" "wp (bind_io l f) Q E = wp l (\<lambda>a. wp (f a) Q E) E"
    "wp (ret a) Q' E = Q' a" "wp (modify_io g) Q'' E = (\<lambda>w. Q'' () (g w))"
  by (simp_all add: fun_eq_iff)

lemma wp_own:
  assumes "grown h h1" and "map_of (ho_temps h) p = None" and "map_of (ho_mounts h) p = None" and "\<And>h2. grown h h2 \<Longrightarrow> Q () h2"
  shows "wp (append_to p s) Q E h1" and "wp (chmod p m) Q E h1"
  using assms grown_temp [OF assms(1-3)] by (auto simp: append_to_def chmod_def split: option.split)

lemma wp_read_grown:
  assumes "grown h h1" and "\<And>s h2. grown h h2 \<Longrightarrow> Q s h2" and "\<And>e. E e h1"
  shows "wp (read_remembered cy path) Q E h1"
  by (rule wp_read_remembered) (use assms growing.step_trans [OF assms(1)] in auto)

text \<open>A file that is complete is entered into a cache.\<close>

lemma settles_cache:
  assumes "grown h h'" and "map_of (ho_presented h) x = None" and "map_of (ho_temps h') p \<noteq> None" and "map_of (ho_temps h') q \<noteq> None"
  shows "settles h (h'\<lparr>ho_presented := (x, (p, q)) # ho_presented h'\<rparr>)"
proof -
  let ?h = "h'\<lparr>ho_presented := (x, (p, q)) # ho_presented h'\<rparr>"
  have s: "settles h h'" using assms(1) by (rule grown_settles)
  have same: "ho_presented h' = ho_presented h" "ho_bundles h' = ho_bundles h" using assms(1) by (simp_all add: grown_def)
  have used: "in_use ?h r \<Longrightarrow> in_use h r \<or> r = p \<or> r = q" for r
    by (auto simp: in_use_def same split: if_splits)
  have old: "in_use h' r = in_use h r" for r by (simp add: in_use_def same)
  show ?thesis
    using s assms(2-4) used unfolding settles_def orderly_def old
    by (auto simp: same map_le_def dom_def) (metis not_None_eq)+
qed

lemma settles_bundle:
  assumes "grown h h'" and "map_of (ho_bundles h) x = None" and "map_of (ho_temps h') p \<noteq> None"
  shows "settles h (h'\<lparr>ho_bundles := AList.update x p (ho_bundles h')\<rparr>)"
proof -
  let ?h = "h'\<lparr>ho_bundles := AList.update x p (ho_bundles h')\<rparr>"
  have s: "settles h h'" using assms(1) by (rule grown_settles)
  have same: "ho_presented h' = ho_presented h" "ho_bundles h' = ho_bundles h" using assms(1) by (simp_all add: grown_def)
  have used: "in_use h r \<or> r = p" if "in_use ?h r" for r
  proof (cases "\<exists>y a b. map_of (ho_presented h) y = Some (a, b) \<and> (r = a \<or> r = b)")
    case False
    with that have "r \<in> ran (map_of (AList.update x p (ho_bundles h)))" by (auto simp: in_use_def same)
    then show ?thesis by (auto simp: in_use_def ran_def map_of_upd split: if_splits)
  qed (simp add: in_use_def)
  have old: "in_use h' r = in_use h r" for r by (simp add: in_use_def same)
  show ?thesis
    using s assms(2,3) used unfolding settles_def orderly_def old
    by (auto simp: same map_le_def dom_def) (metis not_None_eq)+
qed

text \<open>The bundle: the public authorities, a new line, and what the file holds.\<close>

definition bundled :: "tls_libs \<Rightarrow> string \<Rightarrow> host \<Rightarrow> string option \<Rightarrow> host \<Rightarrow> bool" where
  "bundled cy ca h r h' \<longleftrightarrow> settles h h' \<and> ho_presented h' = ho_presented h \<and> (\<forall>p s. file_contents h p = Some s \<longrightarrow> file_contents h' p = Some s)
     \<and> (\<exists>p. r = Some p \<and> map_of (ho_bundles h') ca = Some p \<and> (map_of (ho_bundles h) ca = None \<longrightarrow>
          p \<noteq> [] \<and> (\<exists>s. file_contents h ca = Some s \<and> map_of (ho_temps h') p = Some (420, cy_certifi cy @ [newline] @ s))))"

lemma wp_bundled: "wp (bundled_ca cy (Some ca)) (bundled cy ca h) (\<lambda>_ h'. settles h h' \<and> file_contents h ca = None) h"
proof (cases "map_of (ho_bundles h) ca")
  case None
  let ?E = "\<lambda>_ h'. settles h h' \<and> file_contents h ca = None"
  let ?Q = "\<lambda>path h1. bundled cy ca h (Some path) (h1\<lparr>ho_bundles := AList.update ca path (ho_bundles h1)\<rparr>)"
  have "wp (mkstemp ''apchi-ca-'') (\<lambda>path. wp (append_to path (cy_certifi cy)) (\<lambda>_. wp (append_to path [newline])
      (\<lambda>_. wp (read_remembered cy ca) (\<lambda>content. wp (append_to path content) (\<lambda>_. wp (chmod path 420)
        (\<lambda>_. ?Q path) ?E) ?E) ?E) ?E) ?E) ?E h"
    if there: "path_exists h ca"
  proof (rule wp_mkstemp)
    fix p assume fresh: "\<not> path_exists h p" and named: "p \<noteq> []"
    then have new: "map_of (ho_temps h) p = None" "map_of (ho_mounts h) p = None" by (simp_all add: path_exists_def map_of_None_iff)
    let ?h1 = "h\<lparr>ho_temps := AList.update p (384, []) (ho_temps h)\<rparr>"
    let ?h2 = "?h1\<lparr>ho_temps := AList.update p (384, [] @ cy_certifi cy) (ho_temps ?h1)\<rparr>"
    let ?h3 = "?h2\<lparr>ho_temps := AList.update p (384, ([] @ cy_certifi cy) @ [newline]) (ho_temps ?h2)\<rparr>"
    have g3: "grown h ?h3" by (intro grown_temp new growing.step_refl)
    have "ca \<noteq> p" using there fresh by auto
    then have same3: "file_contents ?h3 ca = file_contents h ca" by (auto simp: file_contents_def map_of_upd split: option.split)
    have "wp (read_remembered cy ca) (\<lambda>content. wp (append_to p content) (\<lambda>_. wp (chmod p 420) (\<lambda>_. ?Q p) ?E)
        ?E) ?E ?h3"
    proof (rule wp_read_remembered)
      fix s h4
      assume s: "file_contents ?h3 ca = Some s" and h4: "grown ?h3 h4" "ho_temps h4 = ho_temps ?h3"
      let ?h5 = "h4\<lparr>ho_temps := AList.update p (384, (([] @ cy_certifi cy) @ [newline]) @ s) (ho_temps h4)\<rparr>"
      let ?h6 = "?h5\<lparr>ho_temps := AList.update p (420, (([] @ cy_certifi cy) @ [newline]) @ s) (ho_temps ?h5)\<rparr>"
      have g4: "grown h h4" by (rule growing.step_trans [OF g3 h4(1)])
      have g6: "grown h ?h6" by (intro grown_temp new g4)
      have same: "file_contents ?h6 q = Some x" if "file_contents h q = Some x" for q x by (rule grown_contents [OF g6 that])
      have "file_contents h ca = Some s" using s same3 by simp
      moreover have "settles h (?h6\<lparr>ho_bundles := AList.update ca p (ho_bundles ?h6)\<rparr>)"
        by (rule settles_bundle [OF g6 None]) (simp add: map_of_upd)
      moreover have "ho_presented ?h6 = ho_presented h" using g6 by (simp only: grown_def)
      ultimately have "?Q p ?h6"
        unfolding bundled_def using same named by (simp add: contents_bundles map_of_upd)
      moreover have "map_of (ho_temps h4) p = Some (384, ([] @ cy_certifi cy) @ [newline])" by (simp add: h4(2))
      ultimately show "wp (append_to p s) (\<lambda>_. wp (chmod p 420) (\<lambda>_. ?Q p) ?E) ?E h4"
        by (intro wp_append_to) (auto simp: chmod_def)
    qed (use grown_settles [OF g3] same3 in simp)
    then show "wp (append_to p (cy_certifi cy)) (\<lambda>_. wp (append_to p [newline])
      (\<lambda>_. wp (read_remembered cy ca) (\<lambda>content. wp (append_to p content) (\<lambda>_. wp (chmod p 420)
        (\<lambda>_. ?Q p) ?E) ?E) ?E) ?E) ?E ?h1"
      by (intro wp_append_to) (simp_all add: map_of_upd)
  qed
  then show ?thesis
    by (auto simp: bundled_ca_def None wp_compose settling.step_refl contents_missing)
qed (auto simp: bundled_ca_def bundled_def settling.step_refl)

lemma bundled_settles: "within settles (bundled_ca cy ca_file)"
proof (cases ca_file)
  case (Some ca)
  then show ?thesis unfolding within_wp by (auto intro!: wp_mono [OF wp_bundled] simp: bundled_def)
qed (auto simp: bundled_ca_def)

lemma recorded_grows: "within grown (recorded cy file)"
  unfolding within_wp recorded_def
  by (auto simp: growing.step_refl split: option.split intro!: wp_read_grown)

lemma read_opt_grows: "within grown (read_opt f)" and read_bytes_grows: "within grown (read_bytes f')"
  by (auto simp: within_wp read_opt_def growing.step_refl split: option.split)

lemma settles_within: "within grown m \<Longrightarrow> within settles m"
  by (auto simp: within_def grown_settles)

lemma verification_settles: "within settles (verification cy ca c k)"
  unfolding verification_def
  by (auto intro!: bundled_settles settles_within [OF read_opt_grows] settles_within [OF read_bytes_grows] split: option.split)

text \<open>What the first call hands out, and every later one.\<close>

definition handed :: "tls_libs \<Rightarrow> string \<Rightarrow> string \<Rightarrow> host \<Rightarrow> string option \<times> string option \<Rightarrow> host \<Rightarrow> bool" where
  "handed cy c k h r h' \<longleftrightarrow> settles h h' \<and> (case map_of (ho_presented h) (c, k) of
      Some (p, q) \<Rightarrow> r = (Some p, Some q) \<and> h' = h
    | None \<Rightarrow> \<exists>p q s. r = (Some p, Some q) \<and> map_of (ho_presented h') (c, k) = Some (p, q) \<and> file_contents h c = Some s
        \<and> map_of (ho_temps h') p = Some (384, s)
        \<and> (\<forall>t. file_contents h k = Some t \<longrightarrow> map_of (ho_temps h') q = Some (384, t))
        \<and> (map_of (ho_loaded h) c = None \<longrightarrow> map_of (ho_loaded h') c = Some (describe cy s)))"

lemma wp_presented:
  "wp (presented cy (Some c) (Some k)) (handed cy c k h) (\<lambda>_ h'. settles h h' \<and> (file_contents h c = None \<or> file_contents h k = None)) h"
proof (cases "map_of (ho_presented h) (c, k)")
  case None
  let ?E = "\<lambda>(_ :: exn) h'. settles h h' \<and> (file_contents h c = None \<or> file_contents h k = None)"
  have "wp (private_copy cy c) (\<lambda>p. wp (private_copy cy k)
      (\<lambda>q h2. handed cy c k h (Some p, Some q) (h2\<lparr>ho_presented := ((c, k), (p, q)) # ho_presented h2\<rparr>)) ?E) ?E h"
  proof (rule wp_private_copy)
    fix s h1 p
    assume s: "file_contents h c = Some s" and g1: "grown h h1" and p: "map_of (ho_temps h) p = None" "map_of (ho_temps h1) p = Some (384, s)"
      and l1: "ho_loaded h1 = remembering cy c s h"
    show "wp (private_copy cy k) (\<lambda>q h2. handed cy c k h (Some p, Some q) (h2\<lparr>ho_presented := ((c, k), (p, q)) # ho_presented h2\<rparr>)) ?E h1"
    proof (rule wp_private_copy)
      fix t h2 q
      assume t: "file_contents h1 k = Some t" and g2: "grown h1 h2" and q: "map_of (ho_temps h1) q = None" "map_of (ho_temps h2) q = Some (384, t)"
      have g: "grown h h2" by (rule growing.step_trans [OF g1 g2])
      have p2: "map_of (ho_temps h2) p = Some (384, s)" using p(2) g2 map_leD by (fastforce simp: grown_def)
      have l2: "map_of (ho_loaded h2) c = Some (describe cy s)" if "map_of (ho_loaded h) c = None"
      proof -
        have "map_of (ho_loaded h1) c = Some (describe cy s)"
          using that by (simp add: l1 remembering_def map_of_None_iff)
        then show ?thesis using g2 map_leD by (fastforce simp: grown_def)
      qed
      have k: "t' = t" if "file_contents h k = Some t'" for t' using grown_contents [OF g1 that] t by simp
      show "handed cy c k h (Some p, Some q) (h2\<lparr>ho_presented := ((c, k), (p, q)) # ho_presented h2\<rparr>)"
        unfolding handed_def using settles_cache [OF g None, of p q] p2 q(2) s l2 k None by auto
    next
      assume "file_contents h1 k = None"
      then show "?E (Raised OSError k) h1" using grown_settles [OF g1] grown_contents [OF g1, of k] by (cases "file_contents h k") auto
    qed
  qed (simp add: settling.step_refl)
  then show ?thesis by (simp add: presented_def None wp_compose)
qed (auto simp: presented_def handed_def settling.step_refl split: prod.split)

lemma happens_settles: "within settles (happens cy ev)"
proof (cases ev)
  case (Remount mounts)
  have "settles h (h\<lparr>ho_mounts := mounts\<rparr>)" for h by (simp add: settles_def orderly_def in_use_def)
  then show ?thesis by (simp add: Remount happens_def within_def modify_io_def)
next
  case (Present c k)
  have "within settles (presented cy c k)"
  proof (cases c; cases k)
    fix c' k' assume "c = Some c'" "k = Some k'"
    then show ?thesis
      unfolding within_wp by (auto intro!: wp_mono [OF wp_presented] simp: handed_def)
  qed (auto simp: presented_def)
  then show ?thesis by (auto simp: Present happens_def)
next
  case Compare
  then show ?thesis by (auto simp: happens_def log_rotations_def rotated_def)
qed (auto simp: happens_def intro!: bundled_settles settles_within [OF recorded_grows] verification_settles)

lemma lives_through_settles: "settles h (lives_through cy evs h)"
proof (induction evs arbitrary: h)
  case (Cons ev evs)
  then show ?case using settling.step_trans withinD [OF happens_settles] by (metis lives_through.simps(2))
qed (simp add: settling.step_refl)

text \<open>What Apchi presents is what it loaded, for as long as it runs. The certificate and the key the first call
  hands out are private copies of what was mounted then; however the mounts are replaced afterwards and
  whatever else is asked of the module, every later call hands out the same two files, with the same
  file_contents, so the two clients that read them at different moments agree; and the certificate is reported as
  rotated exactly when what is mounted cannot be read or has another digest.\<close>

theorem presents_what_it_loaded:
  assumes "ho_presented h = []" and "ho_loaded h = []" and "ho_bundles h = []" and "file_contents h c = Some s" and "file_contents h k = Some t"
  shows "\<exists>p q h1. presented cy (Some c) (Some k) h = (Inr (Some p, Some q), h1)
    \<and> (\<forall>evs. let h2 = lives_through cy evs h1 in
        presented cy (Some c) (Some k) h2 = (Inr (Some p, Some q), h2) \<and> file_contents h2 p = Some s \<and> file_contents h2 q = Some t
        \<and> (\<exists>ps. rotated cy h2 = (Inr ps, h2) \<and>
            (c \<in> set ps \<longleftrightarrow> (case file_contents h2 c of None \<Rightarrow> True | Some now \<Rightarrow> cy_sha cy now \<noteq> cy_sha cy s))))"
proof -
  obtain p q h1 where first: "presented cy (Some c) (Some k) h = (Inr (Some p, Some q), h1)" and h1: "settles h h1"
    "map_of (ho_presented h1) (c, k) = Some (p, q)" "map_of (ho_temps h1) p = Some (384, s)" "map_of (ho_temps h1) q = Some (384, t)"
    "map_of (ho_loaded h1) c = Some (describe cy s)"
    using wp_presented [of cy c k h] assms
    by (cases "presented cy (Some c) (Some k) h") (auto simp: wp_def handed_def split: sum.splits)
  have o1: "orderly h1" using h1(1) assms(1-3) by (simp add: settles_def orderly_def in_use_def)
  have used: "in_use h1 p" "in_use h1 q" using h1(2) by (auto simp: in_use_def)
  have later: "presented cy (Some c) (Some k) h2 = (Inr (Some p, Some q), h2) \<and> file_contents h2 p = Some s \<and> file_contents h2 q = Some t
        \<and> (\<exists>ps. rotated cy h2 = (Inr ps, h2) \<and>
            (c \<in> set ps \<longleftrightarrow> (case file_contents h2 c of None \<Rightarrow> True | Some now \<Rightarrow> cy_sha cy now \<noteq> cy_sha cy s)))"
    if "settles h1 h2" for h2
  proof -
    have h2: "map_of (ho_presented h2) (c, k) = Some (p, q)" "map_of (ho_loaded h2) c = Some (describe cy s)"
      "map_of (ho_temps h2) p = Some (384, s)" "map_of (ho_temps h2) q = Some (384, t)" "distinct (map fst (ho_loaded h2))"
      using that o1 used h1(2-5) map_leD by (fastforce simp: settles_def orderly_def)+
    have d: "mt_digest (describe cy s) = cy_sha cy s" by (simp add: describe_def Let_def split: option.split prod.split)
    have "(c, m) \<in> set (ho_loaded h2) \<longleftrightarrow> m = describe cy s" for m
      using h2(2,5) by (metis Some_eq_map_of_iff option.inject)
    then have "c \<in> fst ` set (filter (is_rotated cy h2) (ho_loaded h2)) \<longleftrightarrow> is_rotated cy h2 (c, describe cy s)"
      by force
    then show ?thesis
      using h2(1,3,4) d by (auto simp: presented_def bind_io_def asks_def ret_def rotated_def file_contents_def [of _ p] file_contents_def [of _ q]
          is_rotated_def split: option.split)
  qed
  have "let h2 = lives_through cy evs h1 in presented cy (Some c) (Some k) h2 = (Inr (Some p, Some q), h2) \<and> file_contents h2 p = Some s
        \<and> file_contents h2 q = Some t \<and> (\<exists>ps. rotated cy h2 = (Inr ps, h2) \<and>
            (c \<in> set ps \<longleftrightarrow> (case file_contents h2 c of None \<Rightarrow> True | Some now \<Rightarrow> cy_sha cy now \<noteq> cy_sha cy s)))" for evs
    unfolding Let_def by (rule later [OF lives_through_settles])
  with first show ?thesis by blast
qed

definition demo_host :: host where
  "demo_host = \<lparr>ho_mounts = [(''/tls/tls.crt'', Some ''old certificate''), (''/tls/tls.key'', Some ''old key'')],
     ho_temps = [], ho_loaded = [], ho_bundles = [], ho_presented = []\<rparr>"

definition demo_crypto :: tls_libs where
  "demo_crypto = \<lparr>cy_sha = id, cy_x509 = (\<lambda>_. None), cy_certifi = ''public''\<rparr>"

theorem presents_what_it_loaded_witness:
  "\<exists>p q h1. presented demo_crypto (Some ''/tls/tls.crt'') (Some ''/tls/tls.key'') demo_host = (Inr (Some p, Some q), h1)
    \<and> (\<forall>evs. let h2 = lives_through demo_crypto evs h1 in
        presented demo_crypto (Some ''/tls/tls.crt'') (Some ''/tls/tls.key'') h2 = (Inr (Some p, Some q), h2)
        \<and> file_contents h2 p = Some ''old certificate'' \<and> file_contents h2 q = Some ''old key''
        \<and> (\<exists>ps. rotated demo_crypto h2 = (Inr ps, h2) \<and> (''/tls/tls.crt'' \<in> set ps \<longleftrightarrow>
            (case file_contents h2 ''/tls/tls.crt'' of None \<Rightarrow> True | Some now \<Rightarrow> cy_sha demo_crypto now \<noteq> cy_sha demo_crypto ''old certificate''))))"
  by (rule presents_what_it_loaded) (simp_all add: demo_host_def file_contents_def)

end
