(* ===== verification/Start_Up.thy ===== *)
theory Start_Up
  imports Pipeline Recovery_Correct Auth_Stores Trust
begin

text \<open>
  What the process does before it serves (\<open>app/main.py\<close>: the lifespan's three steps, each of which
  may fail without stopping it), the options of the MongoDB client (\<open>app/adapters/mongo.py\<close>) and the
  settings that derive the log level (\<open>app/config.py\<close>). Creating the stores and the adapters, the
  routers and the shutdown are wiring.
\<close>

section \<open>The lifespan\<close>

text \<open>An index is one call to MongoDB that changes no document.\<close>

definition create_index :: "('r, 'e, unit) act" where
  "create_index = mongo (ret ())"

definition session_ensure_indexes :: "('r, 'e, unit) act" where "session_ensure_indexes = create_index"

definition token_ensure_indexes :: "('r, 'e, unit) act" where
  "token_ensure_indexes = then_io create_index create_index"

definition user_ensure_indexes :: "('r, 'e, unit) act" where "user_ensure_indexes = ret ()"

definition login_ensure_indexes :: "('r, 'e, unit) act" where "login_ensure_indexes = create_index"

definition prepare_authentication :: "settings \<Rightarrow> ('r, 'e, unit) act" where
  "prepare_authentication s = then_io session_ensure_indexes (then_io token_ensure_indexes
     (then_io user_ensure_indexes (then_io login_ensure_indexes (bootstrap s))))"

definition start_up :: "settings \<Rightarrow> ('r, 'e) engine_ops \<Rightarrow> nat \<Rightarrow> ('r, 'e, unit) act" where
  "start_up s eo fuel =
     then_io (try_io is_exception (then_io (recover_interrupted s eo True fuel) (ret ())) (\<lambda>_. ret ()))
    (then_io (when_io (st_auth_mode s \<noteq> No_Auth) (try_io is_exception (prepare_authentication s) (\<lambda>_. ret ())))
             (then_io sweep_orphans (ret ())))"

section \<open>The client of MongoDB\<close>

text \<open>The TLS keywords, and the client as far as constructing it reads files.\<close>

definition tls_options :: "tls_libs \<Rightarrow> string option \<Rightarrow> string option \<Rightarrow> (host, (string \<times> string) list) io" where
  "tls_options cy ca_file certificate_key_file = bind_io (bundled_ca cy ca_file) (\<lambda>bundle.
     let ca = (case bundle of None \<Rightarrow> [] | Some b \<Rightarrow> if b = [] then [] else [(''tlsCAFile'', b)]) in
     case certificate_key_file of None \<Rightarrow> ret ca
     | Some f \<Rightarrow> if f = [] then ret ca
         else bind_io (recorded cy (Some f)) (\<lambda>r. ret (ca @ [(''tlsCertificateKeyFile'', the r)])))"

definition mongo_client :: "tls_libs \<Rightarrow> string option \<Rightarrow> string option \<Rightarrow> (host, (string \<times> string) list) io" where
  "mongo_client cy ca_file certificate_key_file = bind_io (tls_options cy ca_file certificate_key_file) (\<lambda>options.
     bind_io (asks (\<lambda>h. find (\<lambda>(_, f). \<not> path_exists h f) options)) (\<lambda>missing. case missing of
         None \<Rightarrow> ret options
       | Some (_, f) \<Rightarrow> raise_io (Raised RuntimeError (''Apchi cannot start: '' @ f @ '' does not exist. It comes from mongo_certificate_key_file''
           @ '' -- under Helm, mongodb.tls.certificateKeyKey naming a key that Secret does not hold. A missing CA is reported by app.trust ''
           @ ''instead, since that one is shared with every other destination.''))))"

section \<open>The client of the coordinator\<close>

text \<open>\<open>Trino.__init__\<close>: what a query is made with, and the context of the liveness check.\<close>

record trino_client =
  tc_base :: string
  tc_ca_bundle :: "string option"
  tc_certificate :: "string option"
  tc_key :: "string option"
  tc_verification :: trust

definition trino_client :: "tls_libs \<Rightarrow> string \<Rightarrow> string option \<Rightarrow> string option \<Rightarrow> string option \<Rightarrow> (host, trino_client) io" where
  "trino_client cy url ca_file auth_certificate_file auth_key_file =
     (if (auth_certificate_file = None) \<noteq> (auth_key_file = None) then
        raise_io (Raised ValueError (''trino_auth_certificate_file and trino_auth_key_file go together: a ''
          @ ''certificate without its key cannot be presented, and a key without its certificate names nobody''))
      else if auth_certificate_file \<noteq> None \<and> \<not> starts_with ''https://'' url then
        raise_io (Raised ValueError (''trino_url is '' @ quoted url @ '', but Apchi was given a certificate to authenticate ''
          @ ''with and Trino requires TLS under every authentication type it supports. Use an https:// URL''))
      else bind_io (bundled_ca cy ca_file) (\<lambda>bundle.
        bind_io (presented cy auth_certificate_file auth_key_file) (\<lambda>(certificate, key).
        bind_io (verification cy ca_file certificate key) (\<lambda>v.
        ret \<lparr>tc_base = rstrip_slash url, tc_ca_bundle = bundle, tc_certificate = certificate, tc_key = key, tc_verification = v\<rparr>))))"

text \<open>The files \<open>_query_sync\<close> names, as \<open>requests\<close> reads them: at each handshake. The constructor left no
  certificate without its key.\<close>

definition query_trust :: "trino_client \<Rightarrow> (host, trust) io" where
  "query_trust c = (let bundle = (case tc_ca_bundle c of Some [] \<Rightarrow> None | b \<Rightarrow> b) in
     if bundle = None \<and> tc_certificate c = None then ret Default_trust
     else bind_io (read_opt bundle) (\<lambda>authorities. case tc_certificate c of
         None \<Rightarrow> ret (Context authorities None)
       | Some f \<Rightarrow> bind_io (read_bytes f) (\<lambda>certificate. bind_io (read_opt (tc_key c)) (\<lambda>key.
           ret (Context authorities (Some (certificate, key)))))))"

section \<open>The log level\<close>

definition upper :: "char \<Rightarrow> char" where
  "upper c = (if CHR ''a'' \<le> c \<and> c \<le> CHR ''z'' then char_of (of_char c - 32 :: nat) else c)"

definition effective_log_level :: "string option \<Rightarrow> settings \<Rightarrow> string" where
  "effective_log_level level s = (case level of Some l \<Rightarrow> map upper l
     | None \<Rightarrow> if st_environment s \<in> {Env_Np, Env_Test} then ''DEBUG'' else ''INFO'')"

definition effective_log_json :: "bool option \<Rightarrow> settings \<Rightarrow> bool" where
  "effective_log_json json s = (case json of Some j \<Rightarrow> j | None \<Rightarrow> st_environment s \<in> {Env_Prep, Env_Prod})"

section \<open>Starting\<close>

lemma keeps_prepare: "within (keeps w_applies) (prepare_authentication s)"
  by (auto simp: prepare_authentication_def session_ensure_indexes_def token_ensure_indexes_def user_ensure_indexes_def
      login_ensure_indexes_def create_index_def bootstrap_def ensure_initial_admin_def user_count_def user_create_def
      intro!: keeps_intros keeps_update split: option.split if_splits)

text \<open>Under \<open>except Exception\<close> a step ends, or is cancelled.\<close>

lemma wp_caught:
  assumes "within (keeps w_applies) m"
  shows "wp (try_io is_exception m (\<lambda>_. ret x)) (\<lambda>_ w'. w_applies w' = w_applies w) (\<lambda>e _. e = Cancelled) w"
  unfolding wp_try by (rule wp_within [OF assms]) (auto simp: keeps_def is_exception_def)

text \<open>With a MongoDB that answers, no Apply is left in flight.\<close>

definition unfrozen :: "nat \<Rightarrow> ('r, 'e) world \<Rightarrow> ('r, 'e) world \<Rightarrow> bool" where
  "unfrozen fuel w w' \<longleftrightarrow> (w_mongo w = [] \<and> unique_ids (w_applies w) \<and> flying (w_applies w) < fuel \<longrightarrow>
     in_flight (w_applies w') = None \<and> recovered (w_applies w) (w_applies w'))"

lemma wp_recovery:
  "wp (try_io is_exception (then_io (recover_interrupted s (operator_engine (the_parts lb s bs sha)) True fuel) (ret ())) (\<lambda>_. ret ()))
     (\<lambda>_. unfrozen fuel w) (\<lambda>e _. e = Cancelled) w"
proof (cases "w_mongo w = [] \<and> unique_ids (w_applies w) \<and> flying (w_applies w) < fuel")
  case True
  then have "wp (recover_interrupted s (operator_engine (the_parts lb s bs sha)) True fuel)
      (\<lambda>_. unfrozen fuel w) (\<lambda>e _. e = Cancelled) w"
    by (intro wp_mono [OF pipeline.operator.wp_recover_interrupted]) (auto simp: unfrozen_def)
  then show ?thesis by (auto simp: is_exception_def elim!: wp_mono)
next
  case False
  then have "unfrozen fuel w w'" for w' by (auto simp: unfrozen_def)
  then show ?thesis by (auto simp: is_exception_def intro: wp_ignore)
qed


section \<open>One identity, one trust\<close>

lemma settled_file:
  assumes "settles h h'" and "orderly h" and "in_use h p" and "map_of (ho_temps h) p = Some (m, s)"
  shows "file_contents h' p = Some s"
  using assms by (simp add: settles_def file_contents_def)

lemma wp_trino_client:
  assumes o: "orderly h" and none: "ho_presented h = []" "ho_bundles h = []"
    and files: "file_contents h ca = Some a" "file_contents h c = Some s" "file_contents h k = Some t" and url: "starts_with ''https://'' url"
  shows "wp (trino_client cy url (Some ca) (Some c) (Some k)) (\<lambda>client h'. orderly h' \<and> (\<exists>b p q.
      client = \<lparr>tc_base = rstrip_slash url, tc_ca_bundle = Some b, tc_certificate = Some p, tc_key = Some q,
        tc_verification = Context (Some (cy_certifi cy @ [newline] @ a)) (Some (s, Some t))\<rparr> \<and> b \<noteq> []
      \<and> list_all (in_use h') [b, p, q] \<and> map_of (ho_temps h') b = Some (420, cy_certifi cy @ [newline] @ a)
      \<and> map_of (ho_temps h') p = Some (384, s) \<and> map_of (ho_temps h') q = Some (384, t))) (\<lambda>_ _. False) h"
    (is "wp _ ?Q _ _")
proof -
  have rest: "wp (presented cy (Some c) (Some k)) (\<lambda>(x, y). wp (verification cy (Some ca) x y) (\<lambda>v.
      ?Q \<lparr>tc_base = rstrip_slash url, tc_ca_bundle = b, tc_certificate = x, tc_key = y, tc_verification = v\<rparr>) (\<lambda>_ _. False)) (\<lambda>_ _. False) h1"
    if h1: "bundled cy ca h b h1" for b h1
  proof -
    obtain f where f: "b = Some f" "f \<noteq> []" "map_of (ho_bundles h1) ca = Some f" "map_of (ho_temps h1) f = Some (420, cy_certifi cy @ [newline] @ a)"
      using h1 none(2) files(1) by (auto simp: bundled_def)
    have o1: "orderly h1" and fresh: "map_of (ho_presented h1) (c, k) = None"
      using h1 o none(1) by (auto simp: bundled_def settles_def)
    have kept: "file_contents h1 c = Some s" "file_contents h1 k = Some t" using h1 files by (auto simp: bundled_def)
    have used1: "in_use h1 f" using f(3) by (auto simp: in_use_def ran_def)
    show ?thesis
    proof (rule wp_mono [OF wp_presented])
      fix r h2
      assume h2: "handed cy c k h1 r h2"
      then obtain p q where pq: "r = (Some p, Some q)" "map_of (ho_presented h2) (c, k) = Some (p, q)"
          "map_of (ho_temps h2) p = Some (384, s)" "map_of (ho_temps h2) q = Some (384, t)"
        using fresh kept by (auto simp: handed_def)
      have s2: "settles h1 h2" using h2 by (simp add: handed_def)
      have o2: "orderly h2" and f2: "map_of (ho_bundles h2) ca = Some f" "map_of (ho_temps h2) f = Some (420, cy_certifi cy @ [newline] @ a)"
        using s2 o1 used1 f(3,4) map_leD by (fastforce simp: settles_def)+
      have used: "in_use h2 f" "in_use h2 p" "in_use h2 q" using pq(2) f2(1) by (auto simp: in_use_def ran_def)
      have read: "file_contents h2 f = Some (cy_certifi cy @ [newline] @ a)" "file_contents h2 p = Some s" "file_contents h2 q = Some t"
        using f2(2) pq(3,4) by (simp_all add: file_contents_def)
      have "wp (verification cy (Some ca) (Some p) (Some q)) (\<lambda>v h'. v = Context (Some (cy_certifi cy @ [newline] @ a)) (Some (s, Some t)) \<and> h' = h2)
          (\<lambda>_ _. False) h2"
        by (simp add: verification_def bundled_ca_def f2(1) read read_opt_def)
      then show "(case r of (x, y) \<Rightarrow> wp (verification cy (Some ca) x y) (\<lambda>v.
          ?Q \<lparr>tc_base = rstrip_slash url, tc_ca_bundle = b, tc_certificate = x, tc_key = y, tc_verification = v\<rparr>) (\<lambda>_ _. False)) h2"
        unfolding pq(1) prod.case by (rule wp_mono) (use o2 used f f2 pq in auto)
    qed (use kept in simp)
  qed
  have "wp (bundled_ca cy (Some ca)) (\<lambda>b. wp (presented cy (Some c) (Some k)) (\<lambda>(x, y). wp (verification cy (Some ca) x y) (\<lambda>v.
      ?Q \<lparr>tc_base = rstrip_slash url, tc_ca_bundle = b, tc_certificate = x, tc_key = y, tc_verification = v\<rparr>) (\<lambda>_ _. False)) (\<lambda>_ _. False))
      (\<lambda>_ _. False) h"
    by (rule wp_mono [OF wp_bundled]) (use rest files(1) in auto)
  then show ?thesis
    using url by (simp add: trino_client_def wp_compose case_prod_beta')
qed



end
