(* ===== verification/Spec2Isabelle.thy ===== *)
theory Spec2Isabelle
  imports Gates Frames Posix_Path Engine Recovery_Correct Keeps Catalogs_Correct References
    Event_Listeners Permissions_Correct Property_Schema Section_Protocol Cluster_Ops Store_Guarantees
    Certificate_Mapping Resource_Groups_Correct Discovery_Correct Staging_Correct
    Section_Api_Correct Validations Refusals_Correct Admin_Api_Correct Reads_Correct
    Log_Redaction System_Rules Start_Up
begin

text \<open>
  Apchi: a control plane for one Trino cluster. Operators stage a configuration in Sections (Catalogs,
  client certificates, certificate mapping, permissions, resource groups, event listeners) on one shared
  Candidate; an Apply validates it, writes it to the Cluster, restarts the coordinator where it has to,
  verifies what came up, and records a Snapshot, or rolls the Cluster back. The code is Python under
  \<open>src/app\<close>; this library models it as functions on an explicit state and proves what makes it correct.

  \<^bold>\<open>How the program is written here.\<close> A value of a JSON document or a dict is an association list in
  insertion order, text is a string of code points below 256, an integer is \<open>int\<close> or \<open>nat\<close> as its range
  allows. A method that touches anything is an \<open>io\<close> on a world: it returns \<open>Inl\<close> the exception or \<open>Inr\<close>
  the value, and the world it leaves; \<open>try_io\<close>, \<open>finally_io\<close> and the early returns are where the code has
  them. \<open>wp m Q E w\<close> says of a run that it ends in \<open>Q\<close> or raises into \<open>E\<close>, and \<open>within R m\<close> that all it
  does lies in the relation \<open>R\<close>, whatever fails (\<open>Apchi_Prelude\<close>). The world (\<open>World\<close>) holds the MongoDB
  collections, the Kubernetes objects, the live catalogs, the clock and the identifiers still to be drawn.
  Every call to MongoDB, Kubernetes or Trino first takes an entry of that service's queue of faults: it
  succeeds, fails before its effect, or fails after it. A cancellation of the task is such a fault too, so
  a theorem over all worlds is one over every failure at every await. What Kubernetes and
  Trino report is a list of readings, of which the last repeats.

  \<^bold>\<open>The parts, and where they are.\<close>

  \<^item> Vocabulary: \<open>Apchi_Prelude\<close>, \<open>Python_Text\<close>, \<open>Json_Text\<close>, \<open>Posix_Path\<close>, \<open>Properties_File\<close>,
    \<open>Section_Base\<close> (\<open>sections/__init__.py\<close>), \<open>Section_Protocol\<close> (\<open>sections/base.py\<close>), \<open>Pod_Template\<close>.

  \<^item> Durable state (\<open>pipeline/applies.py\<close>, \<open>snapshots.py\<close>, \<open>candidate.py\<close>, \<open>maintenance.py\<close>,
    \<open>high_water.py\<close>, \<open>admin_values.py\<close>, \<open>audit/\<close>): \<open>Apply_Store\<close>, \<open>Snapshots\<close>, \<open>Candidate_Store\<close>, \<open>Stores\<close>,
    \<open>Admin_Store\<close>, \<open>Audit_Trail\<close>; pages and cursors (\<open>api/pages.py\<close>) in \<open>Pages\<close> and \<open>Cursors\<close>. What the stores
    promise: \<open>Store_Rules\<close>, \<open>Store_Guarantees\<close>.

  \<^item> An Apply: the runner and recovery (\<open>pipeline/applies.py\<close>) in \<open>Runner\<close>, \<open>Runner_Correct\<close>,
    \<open>Recovery_Correct\<close>; the engines (\<open>pipeline/engine.py\<close>) in \<open>Engine\<close>; what happens to the Cluster
    (\<open>rollout.py\<close>, \<open>verification.py\<close>, \<open>auto_rollback.py\<close>, \<open>impact.py\<close>, \<open>files.py\<close>, \<open>raw_files.py\<close>,
    \<open>coordinator.py\<close>) in \<open>Cluster_Ops\<close>, \<open>Files\<close>, \<open>Raw_Files\<close>, \<open>Coordinator\<close>; the checks before it
    (\<open>preconditions.py\<close>, \<open>validation.py\<close>, \<open>connectivity.py\<close>) in \<open>Preconditions\<close>, \<open>Validation\<close> and their
    \<open>_Correct\<close> theories; all of it put together in \<open>Pipeline\<close>, \<open>Commit_Correct\<close>, and Validations as
    records (\<open>validations.py\<close>) in \<open>Validations\<close>.

  \<^item> The Sections (\<open>sections/\<close>): \<open>Property_Schema\<close>, \<open>Catalogs\<close>, \<open>Client_Certificates\<close>,
    \<open>Certificate_Bundles\<close>, \<open>Certificate_Mapping\<close>, \<open>Permissions\<close>, \<open>System_Rules\<close>, \<open>Resource_Groups\<close>,
    \<open>Event_Listeners\<close>, with \<open>References\<close> between Catalogs and certificates, \<open>Registry\<close>, and the
    \<open>_Correct\<close> theories.

  \<^item> Staging, recovery, discovery (\<open>configuration.py\<close>, \<open>recovery.py\<close>, \<open>api/candidate.py\<close>, \<open>discovery.py\<close>,
    \<open>discoveries.py\<close>, \<open>seed.py\<close>, \<open>api/adoption.py\<close>): \<open>Staging\<close>, \<open>Section_Parsing\<close>, \<open>Discovery_Data\<close>,
    \<open>Discovery\<close>, \<open>Discoveries\<close>, \<open>Seed\<close>, \<open>Adoption\<close>, with \<open>Staging_Correct\<close> and \<open>Discovery_Correct\<close>.

  \<^item> Who calls (\<open>auth/\<close>, \<open>api/auth.py\<close>, \<open>api/tokens.py\<close>, \<open>api/deps.py\<close>): \<open>Auth_Data\<close>, \<open>Auth_Stores\<close>, \<open>Oidc\<close>,
    \<open>Auth\<close>, \<open>Gates\<close>, with \<open>Auth_Correct\<close>, \<open>Sessions_Correct\<close>, \<open>Sso_Correct\<close>.

  \<^item> The requests (\<open>api/\<close>): \<open>Section_Api\<close>, \<open>Admin_Api\<close>, \<open>Reads_Api\<close>, and how a refusal is answered and
    recorded (\<open>api/errors.py\<close>) in \<open>Refusals\<close>, with their \<open>_Correct\<close> theories.

  \<^item> The process (\<open>main.py\<close>, \<open>trust.py\<close>, \<open>logging.py\<close>, \<open>adapters/\<close>): \<open>Start_Up\<close>, \<open>Trust\<close>, \<open>Log_Redaction\<close>,
    \<open>Trino_Adapter\<close>. The TLS material lives on a state of its own, the host with its mounted and its
    temporary files.

  \<^bold>\<open>How they interact.\<close> A request passes the gates, works on a store and answers; a mutating one loads
  the whole Candidate, changes a Section and saves it, with the audit written in the same step. Starting
  an Apply creates a record and hands it to the runner, which drives an engine through
  the stages; the engine reads the Candidate once, calls the registered Sections, delivers their files
  through the Kubernetes adapter, and commits the Snapshot last. An in-flight record freezes the
  Candidate; recovery at the next start unfreezes it.

  \<^bold>\<open>The interfaces.\<close> \<open>apply_engine\<close> and \<open>guarded_engine\<close> are what the runner relies on of an engine;
  \<open>sections_contract\<close> is what the engines rely on of the Sections and the checks, discharged for the
  registered ones by the interpretation \<open>pipeline\<close>, which carries what was proved of the
  runner to the program (here, and in \<open>Start_Up\<close>). \<open>keyset\<close> is the contract of a paged collection.
  \<open>quiet_steps\<close>, \<open>quiet_stores\<close>, \<open>quiet_engine\<close>, \<open>quiet_pipeline\<close> and \<open>quiet_program\<close> state what a
  relation between worlds has to allow for every operation of a layer to keep it, so each invariant of
  the frame kind (the Apply records, the Snapshots, the Candidate read by Validation, the
  stores apart from a record) is one interpretation (\<open>Keeps\<close>, \<open>Frames\<close>). \<open>step_order\<close> is a reflexive, transitive relation.

  \<^bold>\<open>What is shown.\<close> Of an Apply: it ends, on a path of the stage machine, resolved; it commits what
  it validated, once, or nothing (this theory, \<open>Commit_Correct\<close>). Of the start: nothing stops it,
  and no Apply stays in flight. Of the checks: the preconditions pass exactly on a deployment that can
  take an Apply; Validation leaves the Cluster alone and no pod behind. Of the Sections: what is
  staged renders and reads back; the generated rules give exactly what was granted, predict what Trino
  does, and keep Apchi's own access. Of Catalogs: an Apply makes the desired ones live, a rollback undoes
  it from wherever it stopped. Of the requests: who is admitted, what an edit stores and
  what the trail says, what an import may leave half done, what a refusal answers, what a
  reader of pages and of the stage stream is told. Of credentials: an identity is admitted on
  verified claims only, a revoked token and an ended session admit nobody, and no token reaches the log
  as text of a record. Of the connection to Trino: both clients present and trust the
  same material for life. Several theorems state behaviour the code has and its documents deny: two
  starts that race, two edits of which one is lost, an import that passes the freeze, a stranger
  recorded as Apchi, a page list that ends early.

  \<^bold>\<open>Bounds and fuel.\<close> The loops that poll the rollout and the coordinator take fuel of two above their
  timeout, on a clock that every sleep moves on, which is always enough (\<open>polling_ends\<close>); the loop that
  waits for the validation pod has the same shape and fuel. \<open>recover_interrupted\<close> takes fuel above the number of Applies in flight
  (\<open>restart_releases\<close>); following cursors takes one page per row and one more (\<open>Pages\<close>). Every other
  recursion is structural or has a termination proof. The size of a document, of an upload and of a
  page are the code's.

  \<^bold>\<open>Parameters.\<close> What the code calls and does not contain: SHA-256, Argon2, JOSE, X.509, zip archives,
  Pydantic models, \<open>re.compile\<close> of a pattern an Operator writes, the JSON decoder, the calendar texts of an
  instant, and what \<open>ObjectId\<close> accepts. Their documented behaviour is a named hypothesis where a
  theorem needs it.

  \<^bold>\<open>Not modelled.\<close> FastAPI's routing and the OpenAPI documents, thread pools and asyncio tasks beyond the
  faults and the interleavings stated, the shutdown of the process, the wire protocols and the
  clients of MongoDB, Kubernetes and Trino, the text of the pod manifest beyond what the program decides,
  what OpenSSL refuses, timing, the destination of the log, and \<open>version.py\<close>.
\<close>

section \<open>An Apply from its start to its end\<close>

text \<open>C1: An Apply that is started when none is in flight always ends, whatever the Cluster does: its record
  walks the state machine to a terminal stage and is resolved (succeeded; or failed with a reason, and rolled
  back if the Cluster was touched; or an incident with the Operator's message), and an incident never stands
  without Maintenance Mode. The same of the Admin's Apply. The only exception that leaves the run is the
  task's own cancellation.\<close>

theorem started_apply_ends:
  assumes "w_mongo w = []" and "in_flight (w_applies w) = None" and "fresh_id w"
    and "(start, eo) \<in> {(start_apply, operator_engine (the_parts lb s bs sha)),
      (start_admin_apply, admin_engine (the_parts lb s bs sha))}"
  shows "wp start (\<lambda>r. wp (run rn eo (ap_id r) who) (\<lambda>_. guarded (ap_id r)) (\<lambda>e _. e = Cancelled))
    (\<lambda>_ _. False) w"
  using assms(4)
  by (auto intro!: wp_start [OF assms(1-3)] pipeline.operator.wp_run pipeline.admin.wp_run holdsI dest: bookedD)

theorem started_apply_ends_witness:
  "wp start_admin_apply (\<lambda>r. wp (run \<lparr>rn_settings = demo_settings, rn_category = ADMIN_CATEGORY\<rparr>
     (admin_engine demo_parts) (ap_id r) NOBODY) (\<lambda>_. guarded (ap_id r)) (\<lambda>e _. e = Cancelled))
     (\<lambda>_ _. False) (demo_state [])"
  unfolding demo_parts_def
  by (rule started_apply_ends, simp, simp add: in_flight_def, simp add: fresh_id_def, rule insertI2, rule insertI1)

text \<open>C2: What an Operator's Apply commits. Validation reads the Candidate once; if the Apply succeeds, exactly
  one Snapshot has been appended, numbered one past the last, holding the configuration that was read and
  the id of the Apply; if it failed, that Snapshot is there exactly when the Apply had reached its last
  stage, which comes after Verification; after an incident the Snapshots are as they were.\<close>

theorem apply_commits_what_it_validated:
  assumes "holds i (running VALIDATING) w"
  shows "wp (run rn (operator_engine (the_parts lb s bs sha)) i who)
    (\<lambda>_. settled i (ca_sections (candidate_of w)) (w_snapshots w)) (\<lambda>e _. e = Cancelled) w"
  by (rule pipeline.wp_run_settles [OF assms])

theorem apply_commits_what_it_validated_witness:
  "let w = demo_state [new_record ''apl_7'' 3 None] in
   wp (run \<lparr>rn_settings = demo_settings, rn_category = PIPELINE_CATEGORY\<rparr> (operator_engine demo_parts) ''apl_7'' NOBODY)
     (\<lambda>_. settled ''apl_7'' (ca_sections (candidate_of w)) (w_snapshots w)) (\<lambda>e _. e = Cancelled) w"
  unfolding demo_parts_def Let_def
  by (rule apply_commits_what_it_validated, rule holdsI [where r = "new_record ''apl_7'' 3 None"])
    (simp, simp add: get_apply_def, rule running_new)

text \<open>Recovery at start-up ends, leaves no Apply in flight, and touches only the interrupted ones: each of
  those is failed or an incident, marked interrupted, and rolled back if it was stopped while the Cluster
  was being changed.\<close>

theorem restart_releases:
  assumes "w_mongo w = []" and "unique_ids (w_applies w)" and "flying (w_applies w) < fuel"
  shows "wp (recover_interrupted s (operator_engine (the_parts lb s bs sha)) audit fuel)
    (\<lambda>res w'. res \<noteq> None \<and> in_flight (w_applies w') = None \<and> recovered (w_applies w) (w_applies w'))
    (\<lambda>e _. e = Cancelled) w"
  by (rule pipeline.operator.wp_recover_interrupted [OF assms])

theorem restart_releases_witness:
  "let w = demo_state [advance_record APPLYING None 4 (new_record ''apl_7'' 3 None), new_record ''apl_8'' 5 None] in
   wp (recover_interrupted demo_settings (operator_engine demo_parts) True 3)
    (\<lambda>res w'. res \<noteq> None \<and> in_flight (w_applies w') = None \<and> recovered (w_applies w) (w_applies w'))
    (\<lambda>e _. e = Cancelled) w"
  unfolding demo_parts_def Let_def
  by (rule restart_releases)
    (simp_all add: unique_ids_def flying_def record_in_flight_def TERMINAL_def new_record_def advance_record_def)


text \<open>An Apply is never started while another is in flight: the request is refused with a
  conflict naming the running Apply, and no record, Snapshot or Cluster object moves.\<close>

theorem start_apply_refused:
  assumes "w_mongo w = []" and "in_flight (w_applies w) = Some r"
  shows "start_apply w = (Inl (Raised Conflict (''Apply '' @ ap_id r
    @ '' is already in flight. The Candidate is frozen until it finishes.'')), w)"
  by (rule wp_raises) (use assms in \<open>simp add: start_apply_def wp_refuse\<close>)

theorem start_apply_refused_witness:
  "let r = new_record ''apl_7'' 3 None; w = (new_install ())\<lparr>w_applies := [r]\<rparr> in
   start_apply w = (Inl (Raised Conflict (''Apply '' @ ap_id r
    @ '' is already in flight. The Candidate is frozen until it finishes.'')), w)"
  unfolding Let_def
  by (rule start_apply_refused) (simp_all add: new_install_def in_flight_def record_in_flight_def
      new_record_def TERMINAL_def)

end
